(* ===== verification/Go_Base.thy ===== *)
theory Go_Base
  imports Main "HOL-Library.Word" "HOL-Library.Sublist"
begin

text \<open>
  The prelude of the development: the fragment of Go that the modelled packages use.

  \<^item> Errors.  A Go \<^verbatim>\<open>error\<close> is its message (the code compares and searches messages, see
    \<^verbatim>\<open>ErrAlreadyExist\<close>), a run-time panic is a second kind of failure that no caller
    recovers from.  A function with results \<^verbatim>\<open>(T, error)\<close> is a function into \<open>'a res\<close>.
  \<^item> Effects.  Code that reads and writes shared state is a program over that state, a
    function from a state to a result and the state after it.  The state after a failure is
    kept: what was done before an early return stays done.
  \<^item> A small Hoare logic with one postcondition for normal and one for failing runs.
  \<^item> The functions of the packages \<^verbatim>\<open>strings\<close>, \<^verbatim>\<open>strconv\<close>, \<^verbatim>\<open>fmt\<close> and \<^verbatim>\<open>path/filepath\<close>
    that the code calls, with the facts on them that the components share.
\<close>

section \<open>Errors and results\<close>

datatype gerror = Err string | Panic string

type_synonym 'a res = "gerror + 'a"

text \<open>\<^verbatim>\<open>errors.Wrap(err, msg)\<close> puts the message in front of the message of its cause.\<close>

fun wrap_err :: "string \<Rightarrow> gerror \<Rightarrow> gerror" where
  "wrap_err msg (Err e) = Err (msg @ '': '' @ e)"
| "wrap_err msg (Panic p) = Panic p"

fun err_msg :: "gerror \<Rightarrow> string" where
  "err_msg (Err e) = e"
| "err_msg (Panic p) = p"

definition rbind :: "'a res \<Rightarrow> ('a \<Rightarrow> 'b res) \<Rightarrow> 'b res" where
  "rbind r f = (case r of Inl e \<Rightarrow> Inl e | Inr x \<Rightarrow> f x)"

definition rwrap :: "string \<Rightarrow> 'a res \<Rightarrow> 'a res" where
  "rwrap msg r = (case r of Inl e \<Rightarrow> Inl (wrap_err msg e) | Inr x \<Rightarrow> Inr x)"

definition is_ok :: "'a res \<Rightarrow> bool" where
  "is_ok r = (case r of Inl _ \<Rightarrow> False | Inr _ \<Rightarrow> True)"

section \<open>Programs over a state\<close>

type_synonym ('s, 'a) prog = "'s \<Rightarrow> 'a res \<times> 's"

definition ret :: "'a \<Rightarrow> ('s, 'a) prog" where
  "ret x = (\<lambda>s. (Inr x, s))"

definition fail :: "gerror \<Rightarrow> ('s, 'a) prog" where
  "fail e = (\<lambda>s. (Inl e, s))"

definition bindp :: "('s, 'a) prog \<Rightarrow> ('a \<Rightarrow> ('s, 'b) prog) \<Rightarrow> ('s, 'b) prog" where
  "bindp m f = (\<lambda>s. case m s of (r, s') \<Rightarrow>
     (case r of Inl e \<Rightarrow> (Inl e, s') | Inr x \<Rightarrow> f x s'))"

definition liftr :: "'a res \<Rightarrow> ('s, 'a) prog" where
  "liftr r = (\<lambda>s. (r, s))"

definition gets :: "('s \<Rightarrow> 'a) \<Rightarrow> ('s, 'a) prog" where
  "gets f = (\<lambda>s. (Inr (f s), s))"

definition modify :: "('s \<Rightarrow> 's) \<Rightarrow> ('s, unit) prog" where
  "modify f = (\<lambda>s. (Inr (), f s))"

text \<open>
  \<^verbatim>\<open>x, err := f()\<close> followed by code that looks at \<^verbatim>\<open>err\<close> instead of returning it: the error
  becomes a value.  A panic is not an error and still ends the program.
\<close>

definition attempt :: "('s, 'a) prog \<Rightarrow> ('s, 'a res) prog" where
  "attempt m = (\<lambda>s. case m s of (r, s') \<Rightarrow>
     (case r of Inl (Panic p) \<Rightarrow> (Inl (Panic p), s') | _ \<Rightarrow> (Inr r, s')))"

text \<open>A call that only reads the state.\<close>

definition query :: "('s \<Rightarrow> 'a res) \<Rightarrow> ('s, 'a) prog" where
  "query f = (\<lambda>s. (f s, s))"

text \<open>
  \<^verbatim>\<open>errors.Errorf("... Reason: %v", err)\<close>: the message of the cause at the end of a new one.
\<close>

fun reason_err :: "string \<Rightarrow> gerror \<Rightarrow> gerror" where
  "reason_err msg (Err e) = Err (msg @ '' Reason: '' @ e)"
| "reason_err msg (Panic p) = Panic p"

definition reason :: "string \<Rightarrow> ('s, 'a) prog \<Rightarrow> ('s, 'a) prog" where
  "reason msg m = (\<lambda>s. case m s of (Inl e, s') \<Rightarrow> (Inl (reason_err msg e), s') | (Inr x, s') \<Rightarrow> (Inr x, s'))"

text \<open>\<^verbatim>\<open>errors.Wrap\<close> around the error of a program.\<close>

definition pwrap :: "string \<Rightarrow> ('s, 'a) prog \<Rightarrow> ('s, 'a) prog" where
  "pwrap msg m = (\<lambda>s. case m s of (r, s') \<Rightarrow> (rwrap msg r, s'))"

text \<open>\<^verbatim>\<open>for _, x := range xs { body }\<close> whose body may return an error from the function.\<close>

fun for_each :: "'a list \<Rightarrow> ('a \<Rightarrow> ('s, unit) prog) \<Rightarrow> ('s, unit) prog" where
  "for_each [] body = ret ()"
| "for_each (x # xs) body = bindp (body x) (\<lambda>_. for_each xs body)"

section \<open>Hoare triples\<close>

text \<open>
  \<open>valid P m Q E\<close>: from a state in \<open>P\<close> the program ends in \<open>Q\<close> with its result, or fails
  with an error in \<open>E\<close>.
\<close>

definition valid ::
  "('s \<Rightarrow> bool) \<Rightarrow> ('s, 'a) prog \<Rightarrow> ('a \<Rightarrow> 's \<Rightarrow> bool) \<Rightarrow> (gerror \<Rightarrow> 's \<Rightarrow> bool) \<Rightarrow> bool" where
  "valid P m Q E \<longleftrightarrow> (\<forall>s. P s \<longrightarrow> (case m s of (r, s') \<Rightarrow>
     (case r of Inl e \<Rightarrow> E e s' | Inr x \<Rightarrow> Q x s')))"

abbreviation invariant_of :: "('s \<Rightarrow> bool) \<Rightarrow> ('s, 'a) prog \<Rightarrow> bool" where
  "invariant_of I m \<equiv> valid I m (\<lambda>_. I) (\<lambda>_. I)"

named_theorems hoare_rules \<open>introduction rules for Hoare triples\<close>
named_theorems inv_rules \<open>invariants of compound programs\<close>
named_theorems prog_run \<open>equations that run a program on a state\<close>

section \<open>Strings\<close>

definition has_prefix :: "string \<Rightarrow> string \<Rightarrow> bool" where
  "has_prefix s p = (take (length p) s = p)"

definition has_suffix :: "string \<Rightarrow> string \<Rightarrow> bool" where
  "has_suffix s p = has_prefix (rev s) (rev p)"

fun str_contains :: "string \<Rightarrow> string \<Rightarrow> bool" where
  "str_contains [] sub = (sub = [])"
| "str_contains (c # s) sub = (has_prefix (c # s) sub \<or> str_contains s sub)"

definition trim_suffix :: "string \<Rightarrow> string \<Rightarrow> string" where
  "trim_suffix s p = (if has_suffix s p then take (length s - length p) s else s)"

fun split_on :: "char \<Rightarrow> string \<Rightarrow> string list" where
  "split_on c [] = [[]]"
| "split_on c (x # xs) =
     (if x = c then [] # split_on c xs
      else (case split_on c xs of [] \<Rightarrow> [[x]] | y # ys \<Rightarrow> (x # y) # ys))"

fun join :: "string \<Rightarrow> string list \<Rightarrow> string" where
  "join sep [] = []"
| "join sep [x] = x"
| "join sep (x # y # ys) = x @ sep @ join sep (y # ys)"

text \<open>
  \<^verbatim>\<open>strings.ToLower\<close> on the ASCII letters; other bytes are kept.  (Go also maps the non-ASCII
  letters of Unicode; the strings the code lowers are cloud SKUs and status words.)
\<close>

definition lower_char :: "char \<Rightarrow> char" where
  "lower_char c = (if 65 \<le> (of_char c :: nat) \<and> (of_char c :: nat) \<le> 90
                   then char_of ((of_char c :: nat) + 32) else c)"

definition to_lower :: "string \<Rightarrow> string" where
  "to_lower s = map lower_char s"

definition replace_char :: "char \<Rightarrow> char \<Rightarrow> string \<Rightarrow> string" where
  "replace_char a b s = map (\<lambda>c. if c = a then b else c) s"

definition is_space :: "char \<Rightarrow> bool" where
  "is_space c \<longleftrightarrow> c \<in> {CHR '' '', CHR 0x09, CHR 0x0A, CHR 0x0B, CHR 0x0C, CHR 0x0D}"

definition trim_space :: "string \<Rightarrow> string" where
  "trim_space s = rev (dropWhile is_space (rev (dropWhile is_space s)))"

section \<open>Decimal numbers\<close>

definition digit_char :: "nat \<Rightarrow> char" where
  "digit_char d = ''0123456789'' ! d"

fun show_nat :: "nat \<Rightarrow> string" where
  "show_nat n = (if n < 10 then [digit_char n] else show_nat (n div 10) @ [digit_char (n mod 10)])"

declare show_nat.simps [simp del]

definition show_int :: "int \<Rightarrow> string" where
  "show_int i = (if i < 0 then CHR ''-'' # show_nat (nat (- i)) else show_nat (nat i))"

definition digit_val :: "char \<Rightarrow> nat option" where
  "digit_val c = (let n = (of_char c :: nat) in if 48 \<le> n \<and> n \<le> 57 then Some (n - 48) else None)"

fun parse_digits :: "nat \<Rightarrow> string \<Rightarrow> nat option" where
  "parse_digits acc [] = Some acc"
| "parse_digits acc (c # cs) =
     (case digit_val c of None \<Rightarrow> None | Some d \<Rightarrow> parse_digits (10 * acc + d) cs)"

text \<open>\<^verbatim>\<open>strconv.ParseUint(s, 10, 0)\<close> on a 64-bit platform.\<close>

definition parse_uint :: "string \<Rightarrow> nat option" where
  "parse_uint s = (if s = [] then None else
     (case parse_digits 0 s of None \<Rightarrow> None | Some n \<Rightarrow> if n < 2 ^ 64 then Some n else None))"

text \<open>\<^verbatim>\<open>strconv.Atoi(s)\<close> on a 64-bit platform.\<close>

definition atoi :: "string \<Rightarrow> int option" where
  "atoi s = (case s of
       [] \<Rightarrow> None
     | c # cs \<Rightarrow>
        (let neg = (c = CHR ''-''); ds = (if c = CHR ''-'' \<or> c = CHR ''+'' then cs else s) in
         if ds = [] then None
         else (case parse_digits 0 ds of
             None \<Rightarrow> None
           | Some n \<Rightarrow>
              (if neg then (if n \<le> 2 ^ 63 then Some (- int n) else None)
               else (if n < 2 ^ 63 then Some (int n) else None)))))"

section \<open>Paths\<close>

text \<open>\<^verbatim>\<open>filepath.Clean\<close> on Unix: one pass over the segments with a stack of kept ones.\<close>

definition clean_step :: "bool \<Rightarrow> string list \<Rightarrow> string \<Rightarrow> string list" where
  "clean_step rooted out seg =
     (if seg = '''' \<or> seg = ''.'' then out
      else if seg = ''..'' then
        (if out \<noteq> [] \<and> last out \<noteq> ''..'' then butlast out
         else if rooted then out else out @ [''..''])
      else out @ [seg])"

definition filepath_Clean :: "string \<Rightarrow> string" where
  "filepath_Clean p =
     (if p = '''' then ''.''
      else let rooted = (hd p = CHR ''/'');
               out = join ''/'' (foldl (clean_step rooted) [] (split_on (CHR ''/'') p))
           in if rooted then CHR ''/'' # out else if out = '''' then ''.'' else out)"

text \<open>\<^verbatim>\<open>filepath.Join\<close>: leading empty elements are dropped, the rest is joined and cleaned.\<close>

definition filepath_Join :: "string list \<Rightarrow> string" where
  "filepath_Join es =
     (case dropWhile (\<lambda>e. e = '''') es of
        [] \<Rightarrow> '''' | e # rest \<Rightarrow> filepath_Clean (join ''/'' (e # rest)))"

definition filepath_IsAbs :: "string \<Rightarrow> bool" where
  "filepath_IsAbs p = has_prefix p ''/''"

text \<open>\<^verbatim>\<open>filepath.Dir\<close> and \<^verbatim>\<open>filepath.Base\<close>.\<close>

definition filepath_Dir :: "string \<Rightarrow> string" where
  "filepath_Dir p = filepath_Clean (rev (dropWhile (\<lambda>c. c \<noteq> CHR ''/'') (rev p)))"

text \<open>A segment that \<^verbatim>\<open>filepath.Clean\<close> keeps as it is.\<close>

definition plain_seg :: "string \<Rightarrow> bool" where
  "plain_seg s \<longleftrightarrow> s \<noteq> '''' \<and> s \<noteq> ''.'' \<and> s \<noteq> ''..'' \<and> CHR ''/'' \<notin> set s"

section \<open>Facts on results and programs\<close>

lemma rbind_simps [simp]:
  "rbind (Inl e) f = Inl e"
  "rbind (Inr x) f = f x"
  by (simp_all add: rbind_def)

lemma rbind_Inr_iff: "rbind r f = Inr y \<longleftrightarrow> (\<exists>x. r = Inr x \<and> f x = Inr y)"
  by (cases r) auto

lemma is_ok_simps [simp]: "is_ok (Inl e) = False" "is_ok (Inr x) = True"
  by (simp_all add: is_ok_def)

lemma rwrap_simps [simp]: "rwrap msg (Inr x) = Inr x" "rwrap msg (Inl e) = Inl (wrap_err msg e)"
  by (simp_all add: rwrap_def)

lemma run_simps [prog_run]:
  "ret x s = (Inr x, s)"
  "fail e s = (Inl e, s)"
  "liftr r s = (r, s)"
  "gets f s = (Inr (f s), s)"
  "modify h s = (Inr (), h s)"
  by (simp_all add: ret_def fail_def liftr_def gets_def modify_def)

lemma run_query [prog_run]: "query f s = (f s, s)"
  by (simp add: query_def)

lemma run_reason [prog_run]:
  "reason msg m s = (case m s of (Inl e, s') \<Rightarrow> (Inl (reason_err msg e), s') | (Inr x, s') \<Rightarrow> (Inr x, s'))"
  by (simp add: reason_def)

lemma run_bindp [prog_run]:
  "bindp m f s = (case m s of (Inl e, s') \<Rightarrow> (Inl e, s') | (Inr x, s') \<Rightarrow> f x s')"
  by (auto simp: bindp_def split: prod.splits sum.splits)

lemma bindp_ret [simp]: "bindp (ret x) f = f x"
  by (simp add: fun_eq_iff prog_run)

lemma bindp_fail [simp]: "bindp (fail e) f = fail e"
  by (simp add: fun_eq_iff prog_run)

lemma bindp_liftr: "bindp (liftr (Inr x)) f = f x" "bindp (liftr (Inl e)) f = fail e"
  by (simp_all add: bindp_def fun_eq_iff run_simps)

lemma bindp_assoc: "bindp (bindp m f) g = bindp m (\<lambda>x. bindp (f x) g)"
  by (auto simp: fun_eq_iff bindp_def split: prod.splits sum.splits)

lemma run_attempt [prog_run]:
  "attempt m s = (case m s of (Inl (Panic p), s') \<Rightarrow> (Inl (Panic p), s') | (r, s') \<Rightarrow> (Inr r, s'))"
  by (auto simp: attempt_def split: prod.splits sum.splits gerror.splits)

lemma bindp_Inr_iff:
  "bindp m f s = (Inr y, s'') \<longleftrightarrow> (\<exists>x s'. m s = (Inr x, s') \<and> f x s' = (Inr y, s''))"
  by (auto simp: bindp_def split: prod.splits sum.splits)

lemma validI [intro?]:
  assumes "\<And>s x s'. P s \<Longrightarrow> m s = (Inr x, s') \<Longrightarrow> Q x s'"
    and "\<And>s e s'. P s \<Longrightarrow> m s = (Inl e, s') \<Longrightarrow> E e s'"
  shows "valid P m Q E"
  using assms by (auto simp: valid_def split: prod.splits sum.splits)

lemma valid_Inr: "valid P m Q E \<Longrightarrow> P s \<Longrightarrow> m s = (Inr x, s') \<Longrightarrow> Q x s'"
  by (fastforce simp: valid_def)

lemma valid_Inl: "valid P m Q E \<Longrightarrow> P s \<Longrightarrow> m s = (Inl e, s') \<Longrightarrow> E e s'"
  by (fastforce simp: valid_def)

lemma valid_weaken:
  assumes "valid P m Q E" and "\<And>s. P' s \<Longrightarrow> P s"
    and "\<And>x s. Q x s \<Longrightarrow> Q' x s" and "\<And>e s. E e s \<Longrightarrow> E' e s"
  shows "valid P' m Q' E'"
  using assms by (force simp: valid_def split: prod.splits sum.splits)

lemma valid_assume: "(A \<Longrightarrow> valid P m Q E) \<Longrightarrow> valid (\<lambda>s. P s \<and> A) m Q E"
  by (cases A) (simp_all add: valid_def)

lemma valid_run_eq: "(\<And>w. P w \<Longrightarrow> m w = m' w) \<Longrightarrow> valid P m' Q F \<Longrightarrow> valid P m Q F"
  unfolding valid_def by auto

lemma inv_part: "(\<And>v. invariant_of (\<lambda>x. f x = v) m) \<Longrightarrow> invariant_of (\<lambda>x. P (f x)) m"
  by (fastforce simp: valid_def split: prod.splits sum.splits)

lemma valid_bindp [hoare_rules]:
  assumes "valid P m R E" and "\<And>x. valid (R x) (f x) Q E"
  shows "valid P (bindp m f) Q E"
  using assms by (fastforce simp: valid_def bindp_def split: prod.splits sum.splits)

lemma valid_ret [hoare_rules]: "(\<And>s. P s \<Longrightarrow> Q x s) \<Longrightarrow> valid P (ret x) Q E"
  by (simp add: valid_def prog_run)

lemma valid_fail [hoare_rules]: "(\<And>s. P s \<Longrightarrow> E e s) \<Longrightarrow> valid P (fail e) Q E"
  by (simp add: valid_def prog_run)

lemma valid_liftr [hoare_rules]:
  "(\<And>s e. P s \<Longrightarrow> r = Inl e \<Longrightarrow> E e s) \<Longrightarrow> (\<And>s x. P s \<Longrightarrow> r = Inr x \<Longrightarrow> Q x s) \<Longrightarrow>
    valid P (liftr r) Q E"
  by (cases r) (simp_all add: valid_def prog_run)

lemma valid_gets [hoare_rules]: "(\<And>s. P s \<Longrightarrow> Q (f s) s) \<Longrightarrow> valid P (gets f) Q E"
  by (simp add: valid_def prog_run)

lemma valid_modify [hoare_rules]: "(\<And>s. P s \<Longrightarrow> Q () (f s)) \<Longrightarrow> valid P (modify f) Q E"
  by (simp add: valid_def prog_run)

lemma valid_if [hoare_rules]:
  "(b \<Longrightarrow> valid P m Q E) \<Longrightarrow> (\<not> b \<Longrightarrow> valid P n Q E) \<Longrightarrow> valid P (if b then m else n) Q E"
  by simp

lemma valid_for_each:
  assumes "\<And>x. x \<in> set xs \<Longrightarrow> valid I (body x) (\<lambda>_. I) E"
  shows "valid I (for_each xs body) (\<lambda>_. I) E"
  using assms
proof (induction xs)
  case Nil
  show ?case by (simp add: valid_ret)
next
  case (Cons x xs)
  have "valid I (body x) (\<lambda>_. I) E" by (rule Cons.prems) simp
  moreover have "valid I (for_each xs body) (\<lambda>_. I) E" by (rule Cons.IH) (simp add: Cons.prems)
  ultimately show ?case by (auto intro: valid_bindp)
qed

lemma valid_attempt:
  assumes "valid P m (\<lambda>x. Q (Inr x)) (\<lambda>e. Q (Inl e))" and "\<And>p s. Q (Inl (Panic p)) s \<Longrightarrow> E (Panic p) s"
  shows "valid P (attempt m) Q E"
  using assms by (fastforce simp: valid_def attempt_def split: prod.splits sum.splits gerror.splits)

lemma invariant_of_attempt: "invariant_of I m \<Longrightarrow> invariant_of I (attempt m)"
  by (fastforce simp: valid_def attempt_def split: prod.splits sum.splits gerror.splits)

text \<open>Invariants: what every step of a program keeps, the program keeps.\<close>

lemma inv_bindp [inv_rules]:
  "invariant_of I m \<Longrightarrow> (\<And>x. invariant_of I (f x)) \<Longrightarrow> invariant_of I (bindp m f)"
  by (rule valid_bindp)

lemma inv_basic [inv_rules]:
  "invariant_of I (ret x)" "invariant_of I (fail e)" "invariant_of I (liftr r)" "invariant_of I (gets g)"
  "invariant_of I (query q)"
  by (simp_all add: valid_def prog_run split: sum.splits)

lemma inv_attempt [inv_rules]: "invariant_of I m \<Longrightarrow> invariant_of I (attempt m)"
  by (rule invariant_of_attempt)

lemma inv_reason [inv_rules]: "invariant_of I m \<Longrightarrow> invariant_of I (reason msg m)"
  by (fastforce simp: valid_def prog_run split: prod.splits sum.splits)

lemma inv_pwrap [inv_rules]: "invariant_of I m \<Longrightarrow> invariant_of I (pwrap msg m)"
  by (fastforce simp: valid_def pwrap_def rwrap_def split: prod.splits sum.splits)

lemma inv_if [inv_rules]: "invariant_of I m \<Longrightarrow> invariant_of I n \<Longrightarrow> invariant_of I (if b then m else n)"
  by simp

lemma inv_option [inv_rules]:
  "invariant_of I m \<Longrightarrow> (\<And>x. invariant_of I (f x)) \<Longrightarrow>
    invariant_of I (case z of None \<Rightarrow> m | Some x \<Rightarrow> f x)"
  by (cases z) simp_all

lemma inv_sum [inv_rules]:
  "(\<And>x. invariant_of I (g x)) \<Longrightarrow> (\<And>x. invariant_of I (f x)) \<Longrightarrow>
    invariant_of I (case z of Inl x \<Rightarrow> g x | Inr x \<Rightarrow> f x)"
  by (cases z) simp_all

lemma inv_for_each [inv_rules]: "(\<And>x. invariant_of I (body x)) \<Longrightarrow> invariant_of I (for_each xs body)"
  by (rule valid_for_each)

end
