(* ===== verification/Go_Strings.thy ===== *)
theory Go_Strings
  imports Go_Base
begin

text \<open>
  Facts on the string, number and path functions of the prelude: \<open>strings.Contains\<close> is the
  sublist relation, splitting inverts joining, decimal printing is injective and inverted by
  the parsers, and joining plain path segments is injective (so distinct names give distinct
  file names).
\<close>

section \<open>Searching\<close>

lemma has_prefix_iff: "has_prefix s p \<longleftrightarrow> prefix p s"
  unfolding has_prefix_def by (metis append_eq_conv_conj append_take_drop_id prefixE prefixI)

lemma has_suffix_iff: "has_suffix s p \<longleftrightarrow> suffix p s"
  by (simp add: has_suffix_def has_prefix_iff suffix_to_prefix)

lemma str_contains_iff: "str_contains s sub \<longleftrightarrow> sublist sub s"
proof (induction s)
  case Nil
  show ?case by simp
next
  case (Cons c s)
  then show ?case by (auto simp: has_prefix_iff sublist_Cons_right)
qed

lemma str_contains_append [intro]: "str_contains (a @ sub @ b) sub"
  by (simp add: str_contains_iff)

lemma trim_suffix_append [simp]: "trim_suffix (s @ p) p = s"
  using suffixI [of "s @ p" s p] by (simp add: trim_suffix_def has_suffix_iff)

section \<open>Splitting and joining\<close>

lemma split_on_not_Nil [simp]: "split_on c s \<noteq> []"
  by (induction s) (auto split: list.splits)

lemma split_on_plain [simp]: "c \<notin> set a \<Longrightarrow> split_on c a = [a]"
  by (induction a) auto

lemma split_on_append: "c \<notin> set a \<Longrightarrow> split_on c (a @ c # b) = a # split_on c b"
  by (induction a) auto

lemma split_on_no_sep: "s' \<in> set (split_on c s) \<Longrightarrow> c \<notin> set s'"
  by (induction s arbitrary: s') (auto split: list.splits if_splits)

lemma join_split_on: "join [c] (split_on c s) = s"
proof (induction s)
  case Nil
  show ?case by simp
next
  case (Cons x s)
  obtain y ys where "split_on c s = y # ys" by (cases "split_on c s") auto
  with Cons show ?case by (cases ys) auto
qed

lemma join_Cons: "xs \<noteq> [] \<Longrightarrow> join sep (x # xs) = x @ sep @ join sep xs"
  by (cases xs) auto

lemma split_on_join:
  "xs \<noteq> [] \<Longrightarrow> (\<And>x. x \<in> set xs \<Longrightarrow> c \<notin> set x) \<Longrightarrow> split_on c (join [c] xs) = xs"
proof (induction "[c]" xs rule: join.induct)
  case (3 x y ys)
  then show ?case by (simp add: split_on_append)
qed simp_all

lemma join_inj:
  assumes "join [c] xs = join [c] ys" and "xs \<noteq> []" and "ys \<noteq> []"
    and "\<And>x. x \<in> set xs \<Longrightarrow> c \<notin> set x" and "\<And>y. y \<in> set ys \<Longrightarrow> c \<notin> set y"
  shows "xs = ys"
  using assms split_on_join by metis

section \<open>Decimal numbers\<close>

lemma digit_char_inj: "a < 10 \<Longrightarrow> b < 10 \<Longrightarrow> digit_char a = digit_char b \<Longrightarrow> a = b"
  unfolding digit_char_def by (subst (asm) nth_eq_iff_index_eq) simp_all

lemma nat_less_10: "d < 10 \<Longrightarrow> d \<in> {0, 1, 2, 3, 4, 5, 6, 7, 8, 9 :: nat}"
  by auto

lemma digit_val_char: "d < 10 \<Longrightarrow> digit_val (digit_char d) = Some d"
  using nat_less_10 [of d] by (auto simp: digit_val_def digit_char_def)

lemma show_nat_not_Nil [simp]: "show_nat n \<noteq> []"
  by (subst show_nat.simps) simp

lemma parse_digits_append:
  "parse_digits acc (a @ b) = (case parse_digits acc a of None \<Rightarrow> None | Some n \<Rightarrow> parse_digits n b)"
  by (induction a arbitrary: acc) (auto split: option.splits)

lemma parse_show_nat: "parse_digits 0 (show_nat n) = Some n"
proof (induction n rule: show_nat.induct)
  case (1 n)
  show ?case
  proof (cases "n < 10")
    case True
    then show ?thesis by (simp add: show_nat.simps [of n] digit_val_char)
  next
    case False
    with 1 have "parse_digits 0 (show_nat (n div 10)) = Some (n div 10)" by simp
    with False show ?thesis
      by (simp add: show_nat.simps [of n] parse_digits_append digit_val_char)
  qed
qed

lemma show_nat_inj: "show_nat m = show_nat n \<Longrightarrow> m = n"
  by (metis option.inject parse_show_nat)

lemma digit_char_in: "d < 10 \<Longrightarrow> digit_char d \<in> set ''0123456789''"
  unfolding digit_char_def by (rule nth_mem) simp

lemma set_show_nat: "set (show_nat n) \<subseteq> set ''0123456789''"
proof (induction n rule: show_nat.induct)
  case (1 n)
  show ?case
  proof (cases "n < 10")
    case True
    then show ?thesis using digit_char_in [of n] by (simp add: show_nat.simps [of n])
  next
    case False
    with 1 have "set (show_nat (n div 10)) \<subseteq> set ''0123456789''" by simp
    with False show ?thesis
      using digit_char_in [of "n mod 10"] by (simp add: show_nat.simps [of n])
  qed
qed

lemma parse_uint_show_nat: "n < 2 ^ 64 \<Longrightarrow> parse_uint (show_nat n) = Some n"
  by (simp add: parse_uint_def parse_show_nat)

lemma atoi_show_nat:
  assumes "n < 2 ^ 63"
  shows "atoi (show_nat n) = Some (int n)"
proof (cases "show_nat n")
  case Nil
  then show ?thesis by simp
next
  case (Cons c cs)
  then have "c \<in> set ''0123456789''" using set_show_nat [of n] by auto
  then have "c \<noteq> CHR ''-''" "c \<noteq> CHR ''+''" by auto
  then show ?thesis
    using assms parse_show_nat [of n] by (simp add: atoi_def Cons)
qed

section \<open>Paths\<close>

lemma foldl_clean_step_plain:
  "(\<And>s. s \<in> set segs \<Longrightarrow> plain_seg s) \<Longrightarrow> foldl (clean_step r) out segs = out @ segs"
proof (induction segs arbitrary: out)
  case (Cons s segs)
  then have "plain_seg s" by simp
  then have "clean_step r out s = out @ [s]" by (auto simp: clean_step_def plain_seg_def)
  moreover have "foldl (clean_step r) (out @ [s]) segs = (out @ [s]) @ segs"
    by (rule Cons.IH) (simp add: Cons.prems)
  ultimately show ?case by simp
qed simp

lemma join_hd: "xs \<noteq> [] \<Longrightarrow> plain_seg (hd xs) \<Longrightarrow> join sep xs \<noteq> [] \<and> hd (join sep xs) = hd (hd xs)"
  by (induction sep xs rule: join.induct) (auto simp: plain_seg_def)

lemma filepath_Join_plain:
  assumes "segs \<noteq> []" and plain: "\<And>s. s \<in> set segs \<Longrightarrow> plain_seg s"
  shows "filepath_Join segs = join ''/'' segs"
proof -
  obtain x xs where segs: "segs = x # xs" using assms(1) by (cases segs) auto
  from plain segs have x: "plain_seg x" by simp
  then have "x \<noteq> ''''" "hd x \<noteq> CHR ''/''" by (auto simp: plain_seg_def dest: hd_in_set)
  have ne: "join ''/'' segs \<noteq> []" and hd: "hd (join ''/'' segs) = hd x"
    using join_hd [of segs "''/''"] segs x by auto
  have "split_on (CHR ''/'') (join ''/'' segs) = segs"
    by (rule split_on_join) (use assms plain_seg_def in auto)
  then have "filepath_Clean (join ''/'' segs) = join ''/'' segs"
    using ne hd \<open>hd x \<noteq> CHR ''/''\<close> plain
    by (simp add: filepath_Clean_def Let_def foldl_clean_step_plain)
  with segs \<open>x \<noteq> ''''\<close> show ?thesis by (simp add: filepath_Join_def)
qed

lemma filepath_Join_empty_head [simp]: "filepath_Join ('''' # es) = filepath_Join es"
  by (simp add: filepath_Join_def)

lemma plain_join_inj:
  assumes "join ''/'' xs = join ''/'' ys" and "xs \<noteq> []" and "ys \<noteq> []"
    and "\<And>x. x \<in> set xs \<Longrightarrow> plain_seg x" and "\<And>y. y \<in> set ys \<Longrightarrow> plain_seg y"
  shows "xs = ys"
  using assms by (intro join_inj [where c = "CHR ''/''"]) (auto simp: plain_seg_def)

text \<open>A name with a file extension is a plain segment as soon as it holds no slash.\<close>

lemma plain_seg_ext: "CHR ''/'' \<notin> set n \<Longrightarrow> CHR ''/'' \<notin> set e \<Longrightarrow> 2 < length e \<Longrightarrow> plain_seg (n @ e)"
  by (auto simp: plain_seg_def append_eq_Cons_conv)

lemma plain_seg_json: "CHR ''/'' \<notin> set n \<Longrightarrow> plain_seg (n @ ''.json'')"
  by (rule plain_seg_ext) simp_all

section \<open>Replacement\<close>

text \<open>\<^verbatim>\<open>strings.Replace(s, old, new, -1)\<close> with \<open>old\<close> not empty.\<close>

function replace_all :: "string \<Rightarrow> string \<Rightarrow> string \<Rightarrow> string" where
  "replace_all old new s = (if s = [] \<or> old = [] then s
     else if has_prefix s old then new @ replace_all old new (drop (length old) s)
     else hd s # replace_all old new (tl s))"
  by pat_completeness auto
termination by (relation "measure (\<lambda>(_, _, s). length s)") auto

declare replace_all.simps [simp del]

end
