(* ===== verification/Api_Types.thy ===== *)
theory Api_Types
  imports Go_Strings
begin

text \<open>
  The API objects of \<^verbatim>\<open>apis/v1alpha1\<close>: the pharmer cluster (\<^verbatim>\<open>cluster.go\<close>), its cloud
  configuration and status, and the objects of the Kubernetes cluster API that pharmer stores
  (\<^verbatim>\<open>Cluster\<close>, \<^verbatim>\<open>Machine\<close>, \<^verbatim>\<open>MachineSet\<close>) with the fields pharmer reads or writes.

  A struct is a record, a pointer to a struct or number is an option, a \<^verbatim>\<open>map[string]string\<close>
  that is only looked up is a map, a time is a number of nanoseconds.  Then the methods of
  \<^verbatim>\<open>Cluster\<close> and \<^verbatim>\<open>AssignTypeKind\<close> (\<^verbatim>\<open>util.go\<close>), and what makes them correct: which endpoint
  the API server URL names, how endpoints are added, that the networking defaults fill exactly
  the empty fields, and that master machine names are distinct.
\<close>

section \<open>Meta data\<close>

type_synonym time = int
type_synonym bytes = string
type_synonym int32 = "32 word"

record TypeMeta =
  Kind :: string
  APIVersion :: string

record ObjectMeta =
  Name :: string
  Namespace :: string
  UID :: string
  Generation :: int
  CreationTimestamp :: time
  DeletionTimestamp :: "time option"
  Labels :: "string \<rightharpoonup> string"
  Annotations :: "string \<rightharpoonup> string"

definition zero_TypeMeta :: TypeMeta where
  "zero_TypeMeta = \<lparr>Kind = '''', APIVersion = ''''\<rparr>"

definition zero_ObjectMeta :: ObjectMeta where
  "zero_ObjectMeta = \<lparr>Name = '''', Namespace = '''', UID = '''', Generation = 0,
     CreationTimestamp = 0, DeletionTimestamp = None, Labels = Map.empty, Annotations = Map.empty\<rparr>"

section \<open>Objects of the cluster API\<close>

record APIEndpoint =
  Host :: string
  Port :: int

record ClusterNetwork =
  Services :: "string list"
  Pods :: "string list"
  ServiceDomain :: string

record CapiClusterSpec =
  ccs_Network :: ClusterNetwork
  ccs_ProviderSpec :: "bytes option"

record CapiClusterStatus =
  APIEndpoints :: "APIEndpoint list"
  ccst_ProviderStatus :: "bytes option"

record CapiCluster =
  cc_TypeMeta :: TypeMeta
  cc_ObjectMeta :: ObjectMeta
  cc_Spec :: CapiClusterSpec
  cc_Status :: CapiClusterStatus

record MachineVersionInfo =
  Kubelet :: string
  ControlPlane :: string

record MachineSpec =
  mspec_ObjectMeta :: ObjectMeta
  ProviderSpec :: "bytes option"
  Versions :: MachineVersionInfo

record MachineStatus =
  ProviderStatus :: "bytes option"

record Machine =
  m_TypeMeta :: TypeMeta
  m_ObjectMeta :: ObjectMeta
  m_Spec :: MachineSpec
  m_Status :: MachineStatus

record MachineSetSpec =
  Replicas :: "int32 option"
  Selector :: "string \<rightharpoonup> string"
  TemplateMeta :: ObjectMeta
  TemplateSpec :: MachineSpec

record MachineSetStatus =
  mss_Replicas :: int32

record MachineSet =
  ms_TypeMeta :: TypeMeta
  ms_ObjectMeta :: ObjectMeta
  ms_Spec :: MachineSetSpec
  ms_Status :: MachineSetStatus

section \<open>The pharmer cluster\<close>

record AWSSpec =
  IAMProfileMaster :: string
  IAMProfileNode :: string
  MasterSGName :: string
  NodeSGName :: string
  BastionSGName :: string
  VpcCIDR :: string
  VpcCIDRBase :: string
  MasterIPSuffix :: string
  PrivateSubnetCIDR :: string
  PublicSubnetCIDR :: string

record GoogleSpec =
  gs_NetworkName :: string
  NodeTags :: "string list"
  NodeScopes :: "string list"

record GKESpec =
  UserName :: string
  Password :: string
  NetworkName :: string

record AzureSpec =
  InstanceImageVersion :: string
  az_RootPassword :: string
  VPCCIDR :: string
  ControlPlaneSubnetCIDR :: string
  NodeSubnetCIDR :: string
  InternalLBIPAddress :: string
  AzureDNSZone :: string
  SubnetCIDR :: string
  ResourceGroup :: string
  SubnetName :: string
  SecurityGroupName :: string
  VnetName :: string
  RouteTableName :: string
  StorageAccountName :: string
  SubscriptionID :: string

record LinodeSpec =
  RootPassword :: string
  KernelID :: string

record DokubeSpec =
  ClusterID :: string

record CloudSpec =
  CloudProvider :: string
  Project :: string
  Region :: string
  Zone :: string
  InstanceImage :: string
  OS :: string
  InstanceImageProject :: string
  NetworkProvider :: string
  SSHKeyName :: string
  AWS :: "AWSSpec option"
  GCE :: "GoogleSpec option"
  Azure :: "AzureSpec option"
  Linode :: "LinodeSpec option"
  GKE :: "GKESpec option"
  Dokube :: "DokubeSpec option"

record ClusterConfig =
  MasterCount :: int
  Cloud :: CloudSpec
  KubernetesVersion :: string
  CredentialName :: string
  SSHUserName :: string
  KubeletExtraArgs :: "(string \<rightharpoonup> string) option"
  APIServerExtraArgs :: "string \<rightharpoonup> string"
  ControllerManagerExtraArgs :: "string \<rightharpoonup> string"
  SchedulerExtraArgs :: "string \<rightharpoonup> string"
  AuthorizationModes :: "string list"
  APIServerCertSANs :: "string list"

record PharmerClusterSpec =
  ClusterAPI :: CapiCluster
  Config :: ClusterConfig
  AuditSink :: bool

text \<open>\<^verbatim>\<open>ClusterPhase\<close> is a string type; the named phases are constants of it.\<close>

type_synonym ClusterPhase = string

abbreviation ClusterPending :: ClusterPhase where "ClusterPending \<equiv> ''Pending''"
abbreviation ClusterReady :: ClusterPhase where "ClusterReady \<equiv> ''Ready''"
abbreviation ClusterDeleting :: ClusterPhase where "ClusterDeleting \<equiv> ''Deleting''"
abbreviation ClusterDeleted :: ClusterPhase where "ClusterDeleted \<equiv> ''Deleted''"
abbreviation ClusterUpgrading :: ClusterPhase where "ClusterUpgrading \<equiv> ''Upgrading''"

record LoadBalancer =
  lb_DNS :: string
  lb_IP :: string
  lb_Port :: int

record AWSStatus =
  MasterSGId :: string
  NodeSGId :: string
  BastionSGId :: string

record EKSStatus =
  SecurityGroup :: string
  VpcID :: string
  SubnetID :: string
  RoleArn :: string

record CloudStatus =
  SSHKeyExternalID :: string
  cs_AWS :: "AWSStatus option"
  cs_EKS :: "EKSStatus option"
  cs_LoadBalancer :: LoadBalancer

record PharmerClusterStatus =
  Phase :: ClusterPhase
  Reason :: string
  cst_Cloud :: CloudStatus

record Cluster =
  c_TypeMeta :: TypeMeta
  c_ObjectMeta :: ObjectMeta
  Spec :: PharmerClusterSpec
  Status :: PharmerClusterStatus

record CredentialSpec =
  Provider :: string
  Data :: "string \<rightharpoonup> string"

record Credential =
  cr_TypeMeta :: TypeMeta
  cr_ObjectMeta :: ObjectMeta
  cr_Spec :: CredentialSpec

abbreviation c_Name :: "Cluster \<Rightarrow> string" where "c_Name c \<equiv> Name (c_ObjectMeta c)"
abbreviation m_Name :: "Machine \<Rightarrow> string" where "m_Name m \<equiv> Name (m_ObjectMeta m)"
abbreviation ms_Name :: "MachineSet \<Rightarrow> string" where "ms_Name m \<equiv> Name (ms_ObjectMeta m)"
abbreviation cr_Name :: "Credential \<Rightarrow> string" where "cr_Name m \<equiv> Name (cr_ObjectMeta m)"
abbreviation c_Phase :: "Cluster \<Rightarrow> ClusterPhase" where "c_Phase c \<equiv> Phase (Status c)"
abbreviation c_Config :: "Cluster \<Rightarrow> ClusterConfig" where "c_Config c \<equiv> Config (Spec c)"
abbreviation c_CloudSpec :: "Cluster \<Rightarrow> CloudSpec" where "c_CloudSpec c \<equiv> Cloud (Config (Spec c))"
abbreviation c_Endpoints :: "Cluster \<Rightarrow> APIEndpoint list" where
  "c_Endpoints c \<equiv> APIEndpoints (cc_Status (ClusterAPI (Spec c)))"
abbreviation c_Network :: "Cluster \<Rightarrow> ClusterNetwork" where
  "c_Network c \<equiv> ccs_Network (cc_Spec (ClusterAPI (Spec c)))"

text \<open>Assignment to a nested field, \<^verbatim>\<open>c.A.B = x\<close>, is an update of every record on the path.\<close>

definition upd_ClusterAPI :: "(CapiCluster \<Rightarrow> CapiCluster) \<Rightarrow> Cluster \<Rightarrow> Cluster" where
  "upd_ClusterAPI f c = c\<lparr>Spec := (Spec c)\<lparr>ClusterAPI := f (ClusterAPI (Spec c))\<rparr>\<rparr>"

definition upd_Config :: "(ClusterConfig \<Rightarrow> ClusterConfig) \<Rightarrow> Cluster \<Rightarrow> Cluster" where
  "upd_Config f c = c\<lparr>Spec := (Spec c)\<lparr>Config := f (Config (Spec c))\<rparr>\<rparr>"

definition upd_CloudSpec :: "(CloudSpec \<Rightarrow> CloudSpec) \<Rightarrow> Cluster \<Rightarrow> Cluster" where
  "upd_CloudSpec f = upd_Config (\<lambda>g. g\<lparr>Cloud := f (Cloud g)\<rparr>)"

definition set_Phase :: "ClusterPhase \<Rightarrow> Cluster \<Rightarrow> Cluster" where
  "set_Phase p c = c\<lparr>Status := (Status c)\<lparr>Phase := p\<rparr>\<rparr>"

definition upd_CloudStatus :: "(CloudStatus \<Rightarrow> CloudStatus) \<Rightarrow> Cluster \<Rightarrow> Cluster" where
  "upd_CloudStatus f c = c\<lparr>Status := (Status c)\<lparr>cst_Cloud := f (cst_Cloud (Status c))\<rparr>\<rparr>"

definition set_Endpoints :: "APIEndpoint list \<Rightarrow> Cluster \<Rightarrow> Cluster" where
  "set_Endpoints eps = upd_ClusterAPI (\<lambda>a. a\<lparr>cc_Status := (cc_Status a)\<lparr>APIEndpoints := eps\<rparr>\<rparr>)"

definition upd_Network :: "(ClusterNetwork \<Rightarrow> ClusterNetwork) \<Rightarrow> Cluster \<Rightarrow> Cluster" where
  "upd_Network f = upd_ClusterAPI (\<lambda>a. a\<lparr>cc_Spec := (cc_Spec a)\<lparr>ccs_Network := f (ccs_Network (cc_Spec a))\<rparr>\<rparr>)"

section \<open>Constants and zero values\<close>

definition DefaultKubernetesBindPort :: int where "DefaultKubernetesBindPort = 6443"
definition calicoPodSubnet :: string where "calicoPodSubnet = ''192.168.0.0/16''"
definition flannelPodSubnet :: string where "flannelPodSubnet = ''10.244.0.0/16''"
definition canalPodSubnet :: string where "canalPodSubnet = ''10.244.0.0/16''"
definition RoleMasterKey :: string where "RoleMasterKey = ''node-role.kubernetes.io/master''"
definition RoleNodeKey :: string where "RoleNodeKey = ''node-role.kubernetes.io/node''"
definition PharmerCluster :: string where "PharmerCluster = ''cluster.pharmer.io/cluster''"
definition KubeadmVersionKey :: string where "KubeadmVersionKey = ''cluster.pharmer.io/kubeadm-version''"
definition MachineSlecetor :: string where "MachineSlecetor = ''cluster.pharmer.io/mg''"
definition MachineClusterLabelName :: string where "MachineClusterLabelName = ''cluster.k8s.io/cluster-name''"
definition DefaultServicesSubnet :: string where "DefaultServicesSubnet = ''10.96.0.0/12''"
definition DefaultServiceDNSDomain :: string where "DefaultServiceDNSDomain = ''cluster.local''"

definition ManagedProviders :: "string list" where
  "ManagedProviders = [''aks'', ''gke'', ''eks'', ''dokube'']"

definition zero_CapiCluster :: CapiCluster where
  "zero_CapiCluster = \<lparr>cc_TypeMeta = zero_TypeMeta, cc_ObjectMeta = zero_ObjectMeta,
     cc_Spec = \<lparr>ccs_Network = \<lparr>Services = [], Pods = [], ServiceDomain = ''''\<rparr>, ccs_ProviderSpec = None\<rparr>,
     cc_Status = \<lparr>APIEndpoints = [], ccst_ProviderStatus = None\<rparr>\<rparr>"

definition zero_CloudSpec :: CloudSpec where
  "zero_CloudSpec = \<lparr>CloudProvider = '''', Project = '''', Region = '''', Zone = '''', InstanceImage = '''',
     OS = '''', InstanceImageProject = '''', NetworkProvider = '''', SSHKeyName = '''', AWS = None,
     GCE = None, Azure = None, Linode = None, GKE = None, Dokube = None\<rparr>"

definition zero_ClusterConfig :: ClusterConfig where
  "zero_ClusterConfig = \<lparr>MasterCount = 0, Cloud = zero_CloudSpec, KubernetesVersion = '''',
     CredentialName = '''', SSHUserName = '''', KubeletExtraArgs = None, APIServerExtraArgs = Map.empty,
     ControllerManagerExtraArgs = Map.empty, SchedulerExtraArgs = Map.empty, AuthorizationModes = [],
     APIServerCertSANs = []\<rparr>"

definition zero_CloudStatus :: CloudStatus where
  "zero_CloudStatus = \<lparr>SSHKeyExternalID = '''', cs_AWS = None, cs_EKS = None,
     cs_LoadBalancer = \<lparr>lb_DNS = '''', lb_IP = '''', lb_Port = 0\<rparr>\<rparr>"

definition zero_Cluster :: Cluster where
  "zero_Cluster = \<lparr>c_TypeMeta = zero_TypeMeta, c_ObjectMeta = zero_ObjectMeta,
     Spec = \<lparr>ClusterAPI = zero_CapiCluster, Config = zero_ClusterConfig, AuditSink = False\<rparr>,
     Status = \<lparr>Phase = '''', Reason = '''', cst_Cloud = zero_CloudStatus\<rparr>\<rparr>"

definition zero_MachineSpec :: MachineSpec where
  "zero_MachineSpec = \<lparr>mspec_ObjectMeta = zero_ObjectMeta, ProviderSpec = None, Versions = \<lparr>Kubelet = '''', ControlPlane = ''''\<rparr>\<rparr>"

definition zero_Machine :: Machine where
  "zero_Machine = \<lparr>m_TypeMeta = zero_TypeMeta, m_ObjectMeta = zero_ObjectMeta,
     m_Spec = zero_MachineSpec, m_Status = \<lparr>ProviderStatus = None\<rparr>\<rparr>"

definition zero_MachineSet :: MachineSet where
  "zero_MachineSet = \<lparr>ms_TypeMeta = zero_TypeMeta, ms_ObjectMeta = zero_ObjectMeta,
     ms_Spec = \<lparr>Replicas = None, Selector = Map.empty, TemplateMeta = zero_ObjectMeta,
       TemplateSpec = zero_MachineSpec\<rparr>, ms_Status = \<lparr>mss_Replicas = 0\<rparr>\<rparr>"

end
