(* ===== verification/Api_Cluster.thy ===== *)
theory Api_Cluster
  imports Api_Types
begin

text \<open>
  The methods of \<^verbatim>\<open>Cluster\<close> (\<^verbatim>\<open>apis/v1alpha1/cluster.go\<close>) and the helpers of
  \<^verbatim>\<open>apis/v1alpha1/util.go\<close>.  A method with a pointer receiver that assigns fields returns the
  updated cluster.
\<close>

section \<open>Methods of the cluster\<close>

fun endpoints_url :: "APIEndpoint list \<Rightarrow> string" where
  "endpoints_url [] = ''''"
| "endpoints_url (addr # rest) =
     (if Host addr = '''' then endpoints_url rest
      else if Port addr = 0 then ''https://'' @ Host addr
      else ''https://'' @ Host addr @ '':'' @ show_int (Port addr))"

definition APIServerURL :: "Cluster \<Rightarrow> string" where
  "APIServerURL c = endpoints_url (c_Endpoints c)"

datatype NodeAddressType = NodeHostName | NodeInternalIP | NodeExternalIP | NodeInternalDNS | NodeExternalDNS

record NodeAddress =
  AddrType :: NodeAddressType
  Address :: string

text \<open>The map \<^verbatim>\<open>m\<close> of \<^verbatim>\<open>SetClusterAPIEndpoints\<close>: a later address of a type replaces an earlier one.\<close>

definition address_map :: "NodeAddress list \<Rightarrow> NodeAddressType \<rightharpoonup> string" where
  "address_map addresses = foldl (\<lambda>m a. m(AddrType a \<mapsto> Address a)) Map.empty addresses"

definition add_endpoint :: "string \<Rightarrow> Cluster \<Rightarrow> Cluster" where
  "add_endpoint u c = set_Endpoints (c_Endpoints c @ [\<lparr>Host = u, Port = DefaultKubernetesBindPort\<rparr>]) c"

definition SetClusterAPIEndpoints :: "Cluster \<Rightarrow> NodeAddress list \<Rightarrow> Cluster res" where
  "SetClusterAPIEndpoints c addresses =
     (let m = address_map addresses in
      case m NodeExternalIP of
        Some u \<Rightarrow> if u \<noteq> '''' then Inr (add_endpoint u c)
                  else (case m NodeExternalDNS of
                      Some d \<Rightarrow> if d \<noteq> '''' then Inr (add_endpoint d c)
                                else Inl (Err ''no cluster api endpoint found'')
                    | None \<Rightarrow> Inl (Err ''no cluster api endpoint found''))
      | None \<Rightarrow> (case m NodeExternalDNS of
                  Some d \<Rightarrow> if d \<noteq> '''' then Inr (add_endpoint d c)
                            else Inl (Err ''no cluster api endpoint found'')
                | None \<Rightarrow> Inl (Err ''no cluster api endpoint found'')))"

definition APIServerAddress :: "Cluster \<Rightarrow> string" where
  "APIServerAddress c =
     (case c_Endpoints c of
        [] \<Rightarrow> ''''
      | ep # _ \<Rightarrow> if Port ep = 0 then Host ep else Host ep @ '':'' @ show_int (Port ep))"

definition default_podSubnet :: "string \<Rightarrow> string" where
  "default_podSubnet provider =
     (if provider = ''calico'' then calicoPodSubnet
      else if provider = ''flannel'' then flannelPodSubnet
      else if provider = ''canal'' then canalPodSubnet
      else '''')"

definition fill_network :: "string \<Rightarrow> ClusterNetwork \<Rightarrow> ClusterNetwork" where
  "fill_network provider n =
     (let n1 = (if Services n = [] then n\<lparr>Services := [DefaultServicesSubnet]\<rparr> else n);
          n2 = (if ServiceDomain n1 = '''' then n1\<lparr>ServiceDomain := DefaultServiceDNSDomain\<rparr> else n1)
      in if Pods n2 = [] then n2\<lparr>Pods := [default_podSubnet provider]\<rparr> else n2)"

definition SetNetworkingDefaults :: "string \<Rightarrow> Cluster \<Rightarrow> Cluster" where
  "SetNetworkingDefaults provider = upd_Network (fill_network provider)"

definition InitClusterAPI :: "Cluster \<Rightarrow> Cluster" where
  "InitClusterAPI c = upd_ClusterAPI (\<lambda>_.
     zero_CapiCluster\<lparr>cc_ObjectMeta := zero_ObjectMeta\<lparr>Name := c_Name c\<rparr>\<rparr>) c"

definition GenSSHKeyExternalID :: "Cluster \<Rightarrow> string" where
  "GenSSHKeyExternalID c = c_Name c @ ''-sshkey''"

definition MasterMachineName :: "Cluster \<Rightarrow> int \<Rightarrow> string" where
  "MasterMachineName c n = c_Name c @ ''-master-'' @ show_int n"

definition CloudProvider_of :: "Cluster \<Rightarrow> string" where
  "CloudProvider_of c = CloudProvider (c_CloudSpec c)"

definition is_managed :: "Cluster \<Rightarrow> bool" where
  "is_managed c \<longleftrightarrow> CloudProvider (c_CloudSpec c) \<in> set ManagedProviders"

section \<open>Type and kind of an object\<close>

definition clusterAPIversion :: string where "clusterAPIversion = ''cluster.k8s.io/v1alpha1''"
definition pharmerAPIversion :: string where "pharmerAPIversion = ''cluster.pharmer.io/v1beta1''"

definition assign_type :: "string \<Rightarrow> string \<Rightarrow> TypeMeta \<Rightarrow> TypeMeta" where
  "assign_type version kind t =
     (if APIVersion t = '''' then t\<lparr>APIVersion := version\<rparr> else t)\<lparr>Kind := kind\<rparr>"

text \<open>\<^verbatim>\<open>AssignTypeKind(v interface{})\<close> switches on the dynamic type of its argument.\<close>

datatype api_object =
    PharmerConfig_obj TypeMeta
  | Cluster_obj Cluster
  | Credential_obj Credential
  | CapiCluster_obj CapiCluster
  | Machine_obj Machine
  | MachineSet_obj MachineSet
  | Other_obj

fun AssignTypeKind :: "api_object \<Rightarrow> api_object res" where
  "AssignTypeKind (PharmerConfig_obj t) = Inr (PharmerConfig_obj (assign_type pharmerAPIversion ''PharmerConfig'' t))"
| "AssignTypeKind (Cluster_obj u) =
     Inr (Cluster_obj (u\<lparr>c_TypeMeta := assign_type pharmerAPIversion ''Cluster'' (c_TypeMeta u)\<rparr>))"
| "AssignTypeKind (Credential_obj u) =
     Inr (Credential_obj (u\<lparr>cr_TypeMeta := assign_type ''cloud.pharmer.io/v1'' ''Credential'' (cr_TypeMeta u)\<rparr>))"
| "AssignTypeKind (CapiCluster_obj u) =
     Inr (CapiCluster_obj (u\<lparr>cc_TypeMeta := assign_type clusterAPIversion ''Cluster'' (cc_TypeMeta u)\<rparr>))"
| "AssignTypeKind (Machine_obj u) =
     Inr (Machine_obj (u\<lparr>m_TypeMeta := assign_type clusterAPIversion ''Machine'' (m_TypeMeta u)\<rparr>))"
| "AssignTypeKind (MachineSet_obj u) =
     Inr (MachineSet_obj (u\<lparr>ms_TypeMeta := assign_type clusterAPIversion ''MachineSet'' (ms_TypeMeta u)\<rparr>))"
| "AssignTypeKind Other_obj = Inl (Err ''Unknown api object type'')"

text \<open>
  The calls in the stores pass an object of a known type, for which the switch cannot fail;
  these are the values they leave behind.
\<close>

definition assign_Cluster :: "Cluster \<Rightarrow> Cluster" where
  "assign_Cluster u = u\<lparr>c_TypeMeta := assign_type pharmerAPIversion ''Cluster'' (c_TypeMeta u)\<rparr>"

definition assign_Credential :: "Credential \<Rightarrow> Credential" where
  "assign_Credential u = u\<lparr>cr_TypeMeta := assign_type ''cloud.pharmer.io/v1'' ''Credential'' (cr_TypeMeta u)\<rparr>"

definition assign_CapiCluster :: "CapiCluster \<Rightarrow> CapiCluster" where
  "assign_CapiCluster u = u\<lparr>cc_TypeMeta := assign_type clusterAPIversion ''Cluster'' (cc_TypeMeta u)\<rparr>"

definition assign_Machine :: "Machine \<Rightarrow> Machine" where
  "assign_Machine u = u\<lparr>m_TypeMeta := assign_type clusterAPIversion ''Machine'' (m_TypeMeta u)\<rparr>"

definition assign_MachineSet :: "MachineSet \<Rightarrow> MachineSet" where
  "assign_MachineSet u = u\<lparr>ms_TypeMeta := assign_type clusterAPIversion ''MachineSet'' (ms_TypeMeta u)\<rparr>"

definition ErrAlreadyExist :: "gerror \<Rightarrow> bool" where
  "ErrAlreadyExist e = str_contains (err_msg e) ''already exists''"

definition ErrObjectModified :: "gerror \<Rightarrow> bool" where
  "ErrObjectModified e = str_contains (err_msg e) ''the object has been modified''"

section \<open>Frame facts of the nested updates\<close>

named_theorems cluster_upd \<open>fields after the nested updates of a cluster\<close>

lemma upd_Config_fields [cluster_upd]:
  "c_ObjectMeta (upd_Config f c) = c_ObjectMeta c"
  "c_TypeMeta (upd_Config f c) = c_TypeMeta c"
  "Config (Spec (upd_Config f c)) = f (Config (Spec c))"
  "ClusterAPI (Spec (upd_Config f c)) = ClusterAPI (Spec c)"
  "AuditSink (Spec (upd_Config f c)) = AuditSink (Spec c)"
  "Status (upd_Config f c) = Status c"
  by (simp_all add: upd_Config_def)

lemma upd_CloudSpec_fields [cluster_upd]:
  "c_ObjectMeta (upd_CloudSpec f c) = c_ObjectMeta c"
  "c_TypeMeta (upd_CloudSpec f c) = c_TypeMeta c"
  "Config (Spec (upd_CloudSpec f c)) = (c_Config c)\<lparr>Cloud := f (c_CloudSpec c)\<rparr>"
  "ClusterAPI (Spec (upd_CloudSpec f c)) = ClusterAPI (Spec c)"
  "AuditSink (Spec (upd_CloudSpec f c)) = AuditSink (Spec c)"
  "Status (upd_CloudSpec f c) = Status c"
  by (simp_all add: upd_CloudSpec_def cluster_upd)

lemma upd_ClusterAPI_fields [cluster_upd]:
  "c_ObjectMeta (upd_ClusterAPI f c) = c_ObjectMeta c"
  "c_TypeMeta (upd_ClusterAPI f c) = c_TypeMeta c"
  "Config (Spec (upd_ClusterAPI f c)) = Config (Spec c)"
  "ClusterAPI (Spec (upd_ClusterAPI f c)) = f (ClusterAPI (Spec c))"
  "AuditSink (Spec (upd_ClusterAPI f c)) = AuditSink (Spec c)"
  "Status (upd_ClusterAPI f c) = Status c"
  by (simp_all add: upd_ClusterAPI_def)

lemma set_Phase_fields [cluster_upd]:
  "c_ObjectMeta (set_Phase p c) = c_ObjectMeta c"
  "c_TypeMeta (set_Phase p c) = c_TypeMeta c"
  "Spec (set_Phase p c) = Spec c"
  "c_Phase (set_Phase p c) = p"
  "cst_Cloud (Status (set_Phase p c)) = cst_Cloud (Status c)"
  by (simp_all add: set_Phase_def)

lemma upd_CloudStatus_fields [cluster_upd]:
  "c_ObjectMeta (upd_CloudStatus f c) = c_ObjectMeta c"
  "c_TypeMeta (upd_CloudStatus f c) = c_TypeMeta c"
  "Spec (upd_CloudStatus f c) = Spec c"
  "c_Phase (upd_CloudStatus f c) = c_Phase c"
  "cst_Cloud (Status (upd_CloudStatus f c)) = f (cst_Cloud (Status c))"
  by (simp_all add: upd_CloudStatus_def)

lemma set_Endpoints_fields [cluster_upd]:
  "c_Endpoints (set_Endpoints eps c) = eps"
  "c_ObjectMeta (set_Endpoints eps c) = c_ObjectMeta c"
  "c_TypeMeta (set_Endpoints eps c) = c_TypeMeta c"
  "Status (set_Endpoints eps c) = Status c"
  "Config (Spec (set_Endpoints eps c)) = Config (Spec c)"
  by (simp_all add: set_Endpoints_def cluster_upd)

lemma upd_Network_fields [cluster_upd]:
  "c_Network (upd_Network f c) = f (c_Network c)"
  "c_Endpoints (upd_Network f c) = c_Endpoints c"
  "c_ObjectMeta (upd_Network f c) = c_ObjectMeta c"
  "Status (upd_Network f c) = Status c"
  "Config (Spec (upd_Network f c)) = Config (Spec c)"
  by (simp_all add: upd_Network_def cluster_upd)

lemma assign_Cluster_fields [cluster_upd, simp]:
  "c_ObjectMeta (assign_Cluster c) = c_ObjectMeta c"
  "Spec (assign_Cluster c) = Spec c"
  "Status (assign_Cluster c) = Status c"
  by (simp_all add: assign_Cluster_def)

lemma assign_names [simp]:
  "cr_ObjectMeta (assign_Credential r) = cr_ObjectMeta r"
  "m_ObjectMeta (assign_Machine m) = m_ObjectMeta m"
  "ms_ObjectMeta (assign_MachineSet s) = ms_ObjectMeta s"
  by (simp_all add: assign_Credential_def assign_Machine_def assign_MachineSet_def)

lemma assign_type_idem: "v \<noteq> '''' \<Longrightarrow> assign_type v k (assign_type v k t) = assign_type v k t"
  by (simp add: assign_type_def)

lemma assign_Cluster_idem [simp]: "assign_Cluster (assign_Cluster c) = assign_Cluster c"
  by (simp add: assign_Cluster_def assign_type_idem pharmerAPIversion_def)

lemma AssignTypeKind_eqs:
  "AssignTypeKind (Cluster_obj c) = Inr (Cluster_obj (assign_Cluster c))"
  "AssignTypeKind (Credential_obj r) = Inr (Credential_obj (assign_Credential r))"
  "AssignTypeKind (CapiCluster_obj a) = Inr (CapiCluster_obj (assign_CapiCluster a))"
  "AssignTypeKind (Machine_obj m) = Inr (Machine_obj (assign_Machine m))"
  "AssignTypeKind (MachineSet_obj s) = Inr (MachineSet_obj (assign_MachineSet s))"
  by (simp_all add: assign_Cluster_def assign_Credential_def assign_CapiCluster_def assign_Machine_def
      assign_MachineSet_def)

section \<open>Endpoints\<close>

lemma endpoints_url_eq:
  "endpoints_url eps = (case find (\<lambda>a. Host a \<noteq> '''') eps of
      None \<Rightarrow> ''''
    | Some a \<Rightarrow> ''https://'' @ Host a @ (if Port a = 0 then '''' else '':'' @ show_int (Port a)))"
  by (induction eps) auto

lemma endpoints_url_empty_iff: "endpoints_url eps = '''' \<longleftrightarrow> (\<forall>a \<in> set eps. Host a = '''')"
  by (induction eps) auto

lemma endpoints_url_append:
  "endpoints_url (eps @ eps2) = (if endpoints_url eps = '''' then endpoints_url eps2 else endpoints_url eps)"
  by (induction eps) auto

lemma address_map_last:
  "address_map (as @ [a]) t = (if AddrType a = t then Some (Address a) else address_map as t)"
  by (simp add: address_map_def)

lemma SetClusterAPIEndpoints_Inr:
  assumes "SetClusterAPIEndpoints c addrs = Inr c'"
  obtains u where "u \<noteq> ''''" and "c' = add_endpoint u c"
  using assms by (auto simp: SetClusterAPIEndpoints_def Let_def split: option.splits if_splits)

lemma add_endpoint_fields [cluster_upd]:
  "c_Endpoints (add_endpoint u c) = c_Endpoints c @ [\<lparr>Host = u, Port = DefaultKubernetesBindPort\<rparr>]"
  "c_ObjectMeta (add_endpoint u c) = c_ObjectMeta c"
  "Status (add_endpoint u c) = Status c"
  "Config (Spec (add_endpoint u c)) = Config (Spec c)"
  by (simp_all add: add_endpoint_def cluster_upd)

text \<open>The facts the orchestration needs: a successful call leaves phase, name and configuration alone.\<close>

lemma SetClusterAPIEndpoints_frame:
  assumes "SetClusterAPIEndpoints c addrs = Inr c'"
  shows "c_ObjectMeta c' = c_ObjectMeta c" and "Status c' = Status c"
    and "Config (Spec c') = Config (Spec c)" and "APIServerURL c' \<noteq> ''''"
  using assms
  by (auto elim!: SetClusterAPIEndpoints_Inr
      simp: cluster_upd APIServerURL_def endpoints_url_append DefaultKubernetesBindPort_def
      split: if_splits)

lemma show_int_inj: "show_int a = show_int b \<Longrightarrow> a = b"
proof -
  have neg: "CHR ''-'' # s \<noteq> show_nat n" for s n
  proof
    assume "CHR ''-'' # s = show_nat n"
    then have "CHR ''-'' \<in> set (show_nat n)" by (metis list.set_intros(1))
    then have "CHR ''-'' \<in> set ''0123456789''" using set_show_nat by blast
    then show False by simp
  qed
  assume eq: "show_int a = show_int b"
  show "a = b"
  proof (cases "a < 0"; cases "b < 0")
    assume "a < 0" "b < 0"
    with eq have "show_nat (nat (- a)) = show_nat (nat (- b))" by (simp add: show_int_def)
    then have "nat (- a) = nat (- b)" by (rule show_nat_inj)
    with \<open>a < 0\<close> \<open>b < 0\<close> show ?thesis by simp
  next
    assume "\<not> a < 0" "\<not> b < 0"
    with eq have "show_nat (nat a) = show_nat (nat b)" by (simp add: show_int_def)
    then have "nat a = nat b" by (rule show_nat_inj)
    with \<open>\<not> a < 0\<close> \<open>\<not> b < 0\<close> show ?thesis by simp
  qed (use eq neg neg [symmetric] in \<open>simp_all add: show_int_def\<close>)
qed

section \<open>What the methods guarantee\<close>

definition last_address :: "NodeAddressType \<Rightarrow> NodeAddress list \<Rightarrow> string" where
  "last_address t addrs = (case find (\<lambda>a. AddrType a = t) (rev addrs) of None \<Rightarrow> '''' | Some a \<Rightarrow> Address a)"

lemma address_map_find:
  "address_map addrs t = map_option Address (find (\<lambda>a. AddrType a = t) (rev addrs))"
proof (induction addrs rule: rev_induct)
  case Nil
  show ?case by (simp add: address_map_def)
next
  case (snoc a addrs)
  then show ?case by (simp add: address_map_last)
qed

lemma fill_network_fields:
  "Services (fill_network p n) = (if Services n = [] then [''10.96.0.0/12''] else Services n)"
  "ServiceDomain (fill_network p n) = (if ServiceDomain n = '''' then ''cluster.local'' else ServiceDomain n)"
  "Pods (fill_network p n) = (if Pods n = [] then [default_podSubnet p] else Pods n)"
  by (simp_all add: fill_network_def Let_def DefaultServicesSubnet_def DefaultServiceDNSDomain_def)

lemma fill_network_idem: "fill_network q (fill_network p n) = fill_network p n"
  by (simp add: fill_network_def [of q] fill_network_fields)

lemma show_nat_no_dash: "CHR ''-'' \<notin> set (show_nat n)"
proof
  assume "CHR ''-'' \<in> set (show_nat n)"
  then have "CHR ''-'' \<in> set ''0123456789''" using set_show_nat by blast
  then show False by simp
qed

lemma split_at_last_dash:
  assumes "a @ CHR ''-'' # d = b @ CHR ''-'' # e" "CHR ''-'' \<notin> set d" "CHR ''-'' \<notin> set e"
  shows "a = b \<and> d = e"
proof -
  have tw: "takeWhile (\<lambda>c. c \<noteq> CHR ''-'') (rev (x @ CHR ''-'' # y)) = rev y" if "CHR ''-'' \<notin> set y" for x y :: string
    using that by (subst rev_append) (auto simp: takeWhile_append)
  have "rev d = rev e" using tw [OF assms(2), of a] tw [OF assms(3), of b] assms(1) by metis
  with assms(1) show ?thesis by simp
qed

lemma SetClusterAPIEndpoints_choice:
  "SetClusterAPIEndpoints c addrs =
    (let ip = last_address NodeExternalIP addrs; dns = last_address NodeExternalDNS addrs;
         u = (if ip \<noteq> '''' then ip else dns)
     in if u = '''' then Inl (Err ''no cluster api endpoint found'') else Inr (add_endpoint u c))"
  unfolding SetClusterAPIEndpoints_def last_address_def address_map_find Let_def
  by (simp split: option.split)

text \<open>\<^verbatim>\<open>SetClusterAPIEndpoints\<close> looks at the last external IP and the last external DNS name
  among the node addresses, and takes the IP if it is not empty and the DNS name otherwise.  If
  both are missing or empty it fails; else it appends exactly one endpoint, with port 6443, and
  keeps the endpoints that were there, the name, the configuration and the status.  The API
  server URL is the new endpoint if there was no usable one before and is unchanged otherwise.\<close>

lemma endpoints_from_addresses:
  "let ip = last_address NodeExternalIP addrs; dns = last_address NodeExternalDNS addrs;
       u = (if ip \<noteq> '''' then ip else dns)
   in case SetClusterAPIEndpoints c addrs of
        Inl e \<Rightarrow> u = '''' \<and> e = Err ''no cluster api endpoint found''
      | Inr c' \<Rightarrow> u \<noteq> '''' \<and> c_Endpoints c' = c_Endpoints c @ [\<lparr>Host = u, Port = 6443\<rparr>] \<and>
          c_ObjectMeta c' = c_ObjectMeta c \<and> c_Config c' = c_Config c \<and> Status c' = Status c \<and>
          APIServerURL c' = (if APIServerURL c = '''' then ''https://'' @ u @ '':6443'' else APIServerURL c)"
proof -
  have port: "show_int DefaultKubernetesBindPort = ''6443''"
    by (simp add: DefaultKubernetesBindPort_def show_int_def show_nat.simps digit_char_def)
  have url: "APIServerURL (add_endpoint u c) = (if APIServerURL c = '''' then ''https://'' @ u @ '':6443'' else APIServerURL c)"
    if "u \<noteq> ''''" for u
    using that port by (auto simp: APIServerURL_def cluster_upd endpoints_url_append DefaultKubernetesBindPort_def)
  show ?thesis
    unfolding SetClusterAPIEndpoints_choice Let_def
    by (simp add: url cluster_upd DefaultKubernetesBindPort_def)
qed

text \<open>The API server URL names the first endpoint that has a host, with its port unless that is
  zero; it is empty exactly if no endpoint has a host.\<close>

lemma api_server_url:
  "APIServerURL c = (case find (\<lambda>a. Host a \<noteq> '''') (c_Endpoints c) of
      None \<Rightarrow> ''''
    | Some a \<Rightarrow> ''https://'' @ Host a @ (if Port a = 0 then '''' else '':'' @ show_int (Port a))) \<and>
   (APIServerURL c = '''' \<longleftrightarrow> list_all (\<lambda>a. Host a = '''') (c_Endpoints c))"
  using endpoints_url_empty_iff [of "c_Endpoints c"] unfolding APIServerURL_def list_all_iff
  by (intro conjI endpoints_url_eq)

text \<open>\<^verbatim>\<open>SetNetworkingDefaults\<close> fills exactly the empty fields of the cluster network: a field
  that is set keeps its value, an empty one gets the default (the pod subnet that of the network
  provider), a second call (with any provider) changes nothing, and nothing else is touched.\<close>

lemma networking_defaults:
  "let c' = SetNetworkingDefaults p c; n = c_Network c; n' = c_Network c' in
    Services n' = (if Services n = [] then [''10.96.0.0/12''] else Services n) \<and>
    ServiceDomain n' = (if ServiceDomain n = '''' then ''cluster.local'' else ServiceDomain n) \<and>
    Pods n' = (if Pods n = [] then [default_podSubnet p] else Pods n) \<and>
    SetNetworkingDefaults q c' = c' \<and>
    c_ObjectMeta c' = c_ObjectMeta c \<and> c_Config c' = c_Config c \<and> Status c' = Status c \<and> c_Endpoints c' = c_Endpoints c"
proof -
  note net = fill_network_fields [of p "c_Network c"]
  have "SetNetworkingDefaults q (SetNetworkingDefaults p c) = SetNetworkingDefaults p c"
    unfolding SetNetworkingDefaults_def using fill_network_idem [of q p "c_Network c"]
    by (simp only: upd_Network_def upd_ClusterAPI_def) simp
  then show ?thesis unfolding Let_def by (simp add: SetNetworkingDefaults_def cluster_upd net)
qed

text \<open>Master machine names are unambiguous: the name determines the cluster name and the index,
  so no two masters of any clusters share a name.\<close>

lemma master_names_distinct:
  "MasterMachineName c (int m) = MasterMachineName c' (int n) \<longleftrightarrow> c_Name c = c_Name c' \<and> m = n"
proof
  assume "MasterMachineName c (int m) = MasterMachineName c' (int n)"
  then have "(c_Name c @ ''-master'') @ CHR ''-'' # show_nat m = (c_Name c' @ ''-master'') @ CHR ''-'' # show_nat n"
    by (simp add: MasterMachineName_def show_int_def)
  from split_at_last_dash [OF this show_nat_no_dash show_nat_no_dash]
  have "c_Name c = c_Name c'" "show_nat m = show_nat n" by simp_all
  then show "c_Name c = c_Name c' \<and> m = n" using show_nat_inj [of m n] by simp
qed (simp add: MasterMachineName_def)

end
