(* ===== verification/Cloud_Env.thy ===== *)
theory Cloud_Env
  imports Api_Cluster
begin

text \<open>
  The world of the orchestration (\<^verbatim>\<open>cloud/\<close>): the scope it works on, the stores, the cluster it
  talks to and the cloud.

  The stores (\<^verbatim>\<open>store.ResourceInterface\<close>), cryptography and the Kubernetes clients are records of
  operations: the code reaches them through interfaces.  A \<^verbatim>\<open>Scope\<close> with the state behind these
  interfaces is a \<open>world\<close>.  The scope and the cloud manager share one cluster object by pointer,
  and the stores return the object they are given, so there is one cluster in the world.
  Then \<^verbatim>\<open>wait.PollImmediate\<close> and the package \<^verbatim>\<open>cloud/utils/certificates\<close>.
\<close>

section \<open>Interfaces\<close>

record 's store_ops =
  so_cluster_Get :: "string \<Rightarrow> ('s, Cluster) prog"
  so_cluster_Create :: "Cluster \<Rightarrow> ('s, Cluster) prog"
  so_cluster_Update :: "Cluster \<Rightarrow> ('s, Cluster) prog"
  so_cluster_UpdateStatus :: "Cluster \<Rightarrow> ('s, Cluster) prog"
  so_cluster_UpdateUUID :: "Cluster \<Rightarrow> string \<Rightarrow> ('s, Cluster) prog"
  so_machine_List :: "string \<Rightarrow> ('s, Machine list) prog"
  so_machine_Get :: "string \<Rightarrow> string \<Rightarrow> ('s, Machine) prog"
  so_machine_Create :: "string \<Rightarrow> Machine \<Rightarrow> ('s, Machine) prog"
  so_machine_Update :: "string \<Rightarrow> Machine \<Rightarrow> ('s, Machine) prog"
  so_machine_Delete :: "string \<Rightarrow> string \<Rightarrow> ('s, unit) prog"
  so_machineset_List :: "string \<Rightarrow> ('s, MachineSet list) prog"
  so_machineset_Create :: "string \<Rightarrow> MachineSet \<Rightarrow> ('s, MachineSet) prog"
  so_machineset_Update :: "string \<Rightarrow> MachineSet \<Rightarrow> ('s, MachineSet) prog"
  so_machineset_Delete :: "string \<Rightarrow> string \<Rightarrow> ('s, unit) prog"
  so_machineset_UpdateStatus :: "string \<Rightarrow> MachineSet \<Rightarrow> ('s, MachineSet) prog"
  so_credential_Get :: "string \<Rightarrow> ('s, Credential) prog"
  so_ssh_Get :: "string \<Rightarrow> string \<Rightarrow> ('s, bytes \<times> bytes) prog"
  so_ssh_Create :: "string \<Rightarrow> string \<Rightarrow> bytes \<Rightarrow> bytes \<Rightarrow> ('s, unit) prog"
  so_cert_Get :: "string \<Rightarrow> string \<Rightarrow> ('s, bytes \<times> bytes) prog"
  so_cert_Create :: "string \<Rightarrow> string \<Rightarrow> bytes option \<Rightarrow> bytes option \<Rightarrow> ('s, unit) prog"
  so_cert_Delete :: "string \<Rightarrow> string \<Rightarrow> ('s, unit) prog"

text \<open>A certificate and a private key are their DER encodings.\<close>

record CertKeyPair =
  Cert :: bytes
  Key :: bytes

record SSHKeyPair =
  PublicKey :: bytes
  PrivateKey :: bytes
  OpensshFingerprint :: string

record Certificates =
  CACert :: CertKeyPair
  FrontProxyCACert :: CertKeyPair
  ServiceAccountCert :: CertKeyPair
  EtcdCACert :: CertKeyPair
  SSHKey :: SSHKeyPair

record 'x sys_ops =
  time_Now :: "('x, time) prog"
  time_Parse :: "string \<Rightarrow> time"
  time_Format :: "time \<Rightarrow> string"
  mrnd_Intn :: "nat \<Rightarrow> ('x, nat) prog"
  uuid_NewUUID :: "('x, string) prog"
  cert_NewPrivateKey :: "('x, bytes) prog"
  cert_NewSelfSignedCACert :: "string \<Rightarrow> bytes \<Rightarrow> ('x, bytes) prog"
  cert_NewSignedCert :: "string \<Rightarrow> string list \<Rightarrow> bytes \<Rightarrow> bytes \<Rightarrow> bytes \<Rightarrow> ('x, bytes) prog"
  cert_EncodeCertPEM :: "bytes \<Rightarrow> bytes"
  cert_EncodePrivateKeyPEM :: "bytes \<Rightarrow> bytes"
  ssh_NewSSHKeyPair :: "('x, SSHKeyPair) prog"
  ssh_ParseSSHKeyPair :: "bytes \<Rightarrow> bytes \<Rightarrow> SSHKeyPair res"
  json_Machine :: "Machine \<Rightarrow> bytes res"
  json_MachineSet :: "MachineSet \<Rightarrow> bytes res"
  json_Cluster :: "Cluster \<Rightarrow> bytes res"
  json_Credential :: "Credential \<Rightarrow> bytes res"
  poll_ticks :: nat

record rest_config =
  rc_Host :: string
  CAData :: bytes
  CertData :: bytes
  KeyData :: bytes

record ComponentCondition =
  cond_Healthy :: bool
  cond_True :: bool

record KubeNode =
  node_ProviderID :: string
  KubeletVersion :: string

record BootstrapSecret =
  bs_Expiration :: string
  bs_TokenID :: string
  bs_TokenSecret :: string

text \<open>The Kubernetes API server of the new cluster.\<close>

record 'x kube_ops =
  kubernetes_NewForConfig :: "rest_config \<Rightarrow> ('x, unit) prog"
  clientset_NewForConfig :: "rest_config \<Rightarrow> ('x, unit) prog"
  NewClientFromKubeconfig :: "string \<Rightarrow> rest_config \<Rightarrow> ('x, unit) prog"
  Pods_List :: "('x, unit) prog"
  ComponentStatuses_List :: "('x, ComponentCondition list list) prog"
  MasterNodes_List :: "('x, KubeNode list) prog"
  Namespaces_GetUID :: "string \<Rightarrow> ('x, string) prog"
  Namespaces_Create :: "string \<Rightarrow> ('x, unit) prog"
  Secrets_Get :: "string \<Rightarrow> string \<Rightarrow> ('x, unit) prog"
  Secrets_Create :: "string \<Rightarrow> string \<Rightarrow> (string \<times> bytes) list \<Rightarrow> ('x, unit) prog"
  BootstrapSecrets_List :: "('x, BootstrapSecret list) prog"
  bootstrap_Apply :: "bytes \<Rightarrow> ('x, unit) prog"
  bootstrap_ContextNamespace :: "('x, string) prog"
  phases_ApplyCluster :: "CapiCluster \<Rightarrow> ('x, unit) prog"
  template_Execute :: "string \<Rightarrow> string \<Rightarrow> string \<Rightarrow> string \<Rightarrow> bytes res"

text \<open>The cluster API objects on that server.\<close>

record 'x capi_ops =
  Clusters_Get :: "string \<Rightarrow> string \<Rightarrow> ('x, CapiCluster) prog"
  Clusters_UpdateStatus :: "string \<Rightarrow> CapiCluster \<Rightarrow> ('x, unit) prog"
  Machines_Get :: "string \<Rightarrow> string \<Rightarrow> ('x, Machine) prog"
  Machines_Create :: "string \<Rightarrow> Machine \<Rightarrow> ('x, unit) prog"
  Machines_UpdateStatus :: "string \<Rightarrow> Machine \<Rightarrow> ('x, unit) prog"
  Machines_List :: "('x, Machine list) prog"
  Machines_Delete :: "string \<Rightarrow> string \<Rightarrow> ('x, unit) prog"
  MachineSets_List :: "('x, MachineSet list) prog"
  MachineSets_Delete :: "string \<Rightarrow> string \<Rightarrow> ('x, unit) prog"
  MachineDeployments_List :: "('x, ObjectMeta list) prog"
  MachineDeployments_Delete :: "string \<Rightarrow> string \<Rightarrow> ('x, unit) prog"

section \<open>The world\<close>

text \<open>
  \<^verbatim>\<open>Scope\<close>: the certificates and the admin client are absent until set; the cloud manager is known
  by the name of the provider it was made from.
\<close>

record ('s, 'x) world =
  w_Cluster :: Cluster
  w_Certs :: "Certificates option"
  w_CloudManager :: "string option"
  w_AdminClient :: bool
  w_store :: 's
  w_ext :: 'x

datatype MachineRole = MasterMachineRole | NodeMachineRole

text \<open>\<^verbatim>\<open>cloud.Interface\<close>: the operations the orchestration calls on a cloud manager.\<close>

record ('s, 'x) cloud_manager =
  cm_SetCloudConnector :: "(('s, 'x) world, unit) prog"
  cm_CreateCredentials :: "(('s, 'x) world, unit) prog"
  cm_ApplyDelete :: "(('s, 'x) world, unit) prog"
  cm_ApplyScale :: "(('s, 'x) world, unit) prog"
  cm_SetDefaultCluster :: "(('s, 'x) world, unit) prog"
  cm_GetDefaultMachineProviderSpec :: "string \<Rightarrow> MachineRole \<Rightarrow> (('s, 'x) world, bytes option) prog"
  cm_PrepareCloud :: "(('s, 'x) world, unit) prog"
  cm_EnsureMaster :: "Machine \<Rightarrow> (('s, 'x) world, unit) prog"
  cm_GetMasterSKU :: "int32 \<Rightarrow> string"
  cm_GetClusterAPIComponents :: "(('s, 'x) world, string) prog"
  cm_GetAdminClient :: "(('s, 'x) world, unit) prog"

record ('s, 'x) env =
  e_store :: "'s store_ops"
  e_sys :: "'x sys_ops"
  e_kube :: "'x kube_ops"
  e_capi :: "'x capi_ops"
  e_providers :: "string \<Rightarrow> ('s, 'x) cloud_manager option"
  e_image :: string

definition on_store :: "('s, 'a) prog \<Rightarrow> (('s, 'x) world, 'a) prog" where
  "on_store m = (\<lambda>w. case m (w_store w) of (r, s') \<Rightarrow> (r, w\<lparr>w_store := s'\<rparr>))"

definition on_ext :: "('x, 'a) prog \<Rightarrow> (('s, 'x) world, 'a) prog" where
  "on_ext m = (\<lambda>w. case m (w_ext w) of (r, x') \<Rightarrow> (r, w\<lparr>w_ext := x'\<rparr>))"

definition upd_cluster :: "(Cluster \<Rightarrow> Cluster) \<Rightarrow> (('s, 'x) world, unit) prog" where
  "upd_cluster f = modify (\<lambda>w. w\<lparr>w_Cluster := f (w_Cluster w)\<rparr>)"

abbreviation w_Name :: "('s, 'x) world \<Rightarrow> string" where "w_Name w \<equiv> c_Name (w_Cluster w)"
abbreviation w_Phase :: "('s, 'x) world \<Rightarrow> ClusterPhase" where "w_Phase w \<equiv> c_Phase (w_Cluster w)"

text \<open>A store call on the cluster of the scope; the object it stamps is that cluster.  The world keeps the object when the call fails.
  DigitalOcean's \<^verbatim>\<open>EnsureMaster\<close> assigns the call's result to \<^verbatim>\<open>cm.Cluster\<close>, which is then \<^verbatim>\<open>nil\<close>: the run ends there with the
  error, and \<open>w_Cluster\<close> is the object that the pointer had.\<close>

definition store_cluster :: "(Cluster \<Rightarrow> ('s, Cluster) prog) \<Rightarrow> (('s, 'x) world, unit) prog" where
  "store_cluster f = bindp (gets w_Cluster) (\<lambda>c. bindp (on_store (f c)) (\<lambda>_. upd_cluster assign_Cluster))"

section \<open>Polling\<close>

text \<open>
  \<^verbatim>\<open>wait.PollImmediate\<close>: the condition runs at once, then on every tick of a timer, and a last time
  when the timeout closes the channel.  How many ticks fall into the timeout depends on the
  clock: it is a parameter, and every fact holds for all its values.
\<close>

fun poll_loop :: "nat \<Rightarrow> ('w, bool) prog \<Rightarrow> ('w, unit) prog" where
  "poll_loop 0 cond = bindp cond (\<lambda>done.
     if done then ret () else fail (Err ''timed out waiting for the condition''))"
| "poll_loop (Suc n) cond = bindp cond (\<lambda>done. if done then ret () else poll_loop n cond)"

definition PollImmediate :: "nat \<Rightarrow> ('w, bool) prog \<Rightarrow> ('w, unit) prog" where
  "PollImmediate ticks cond = poll_loop (Suc ticks) cond"

text \<open>The conditions of the code turn the errors of their calls into \<^verbatim>\<open>false, nil\<close>.\<close>

definition ok_or_false :: "('w, 'a) prog \<Rightarrow> ('a \<Rightarrow> ('w, bool) prog) \<Rightarrow> ('w, bool) prog" where
  "ok_or_false m f = bindp (attempt m) (\<lambda>r. case r of Inl _ \<Rightarrow> ret False | Inr x \<Rightarrow> f x)"

section \<open>Certificates (cloud/utils/certificates)\<close>

definition CreateCertificates ::
  "('s, 'x) env \<Rightarrow> string \<Rightarrow> string \<Rightarrow> string \<Rightarrow> (('s, 'x) world, CertKeyPair) prog" where
  "CreateCertificates E cl name commonName =
     bindp (pwrap ''failed to generate private key'' (on_ext (cert_NewPrivateKey (e_sys E)))) (\<lambda>caKey.
     bindp (reason ''failed to generate self-signed certificate.''
             (on_ext (cert_NewSelfSignedCACert (e_sys E) commonName caKey))) (\<lambda>caCert.
     bindp (pwrap (''failed to create \"'' @ name @ ''\" certificate'')
             (on_store (so_cert_Create (e_store E) cl name (Some caCert) (Some caKey)))) (\<lambda>_.
     ret \<lparr>Cert = caCert, Key = caKey\<rparr>)))"

definition LoadCACertificates :: "('s, 'x) env \<Rightarrow> string \<Rightarrow> string \<Rightarrow> (('s, 'x) world, CertKeyPair) prog" where
  "LoadCACertificates E cl name =
     bindp (pwrap ''failed to get CA certificates'' (on_store (so_cert_Get (e_store E) cl name)))
       (\<lambda>p. ret \<lparr>Cert = fst p, Key = snd p\<rparr>)"

definition CreateAdminCertificate :: "('s, 'x) env \<Rightarrow> CertKeyPair \<Rightarrow> (('s, 'x) world, CertKeyPair) prog" where
  "CreateAdminCertificate E ca =
     bindp (reason ''failed to generate private key.'' (on_ext (cert_NewPrivateKey (e_sys E)))) (\<lambda>adminKey.
     bindp (reason ''failed to generate server certificate.''
             (on_ext (cert_NewSignedCert (e_sys E) ''cluster-admin'' [''system:masters''] adminKey (Cert ca) (Key ca))))
       (\<lambda>adminCert. ret \<lparr>Cert = adminCert, Key = adminKey\<rparr>))"

definition CreateSSHKey :: "('s, 'x) env \<Rightarrow> string \<Rightarrow> string \<Rightarrow> (('s, 'x) world, bytes \<times> bytes) prog" where
  "CreateSSHKey E cl name =
     bindp (pwrap ''failed to create new ssh key pair'' (on_ext (ssh_NewSSHKeyPair (e_sys E)))) (\<lambda>k.
     bindp (pwrap ''failed to store ssh keys''
             (on_store (so_ssh_Create (e_store E) cl name (PublicKey k) (PrivateKey k)))) (\<lambda>_.
     ret (PublicKey k, PrivateKey k)))"

definition LoadSSHKey :: "('s, 'x) env \<Rightarrow> string \<Rightarrow> string \<Rightarrow> (('s, 'x) world, SSHKeyPair) prog" where
  "LoadSSHKey E cl keyName =
     bindp (reason ''failed to get SSH key.'' (on_store (so_ssh_Get (e_store E) cl keyName))) (\<lambda>p.
     pwrap ''failed to parse SSH key'' (liftr (ssh_ParseSSHKeyPair (e_sys E) (fst p) (snd p))))"

definition GenSSHKeyName :: "string \<Rightarrow> string" where
  "GenSSHKeyName cl = cl @ ''-sshkey''"

definition GetPharmerCerts :: "('s, 'x) env \<Rightarrow> string \<Rightarrow> (('s, 'x) world, Certificates) prog" where
  "GetPharmerCerts E cl =
     bindp (pwrap ''failed to load ca Certs'' (LoadCACertificates E cl ''ca'')) (\<lambda>ca.
     bindp (pwrap ''failed to load fpca Certs'' (LoadCACertificates E cl ''front-proxy-ca'')) (\<lambda>fp.
     bindp (pwrap ''failed to load sa keys'' (LoadCACertificates E cl ''sa'')) (\<lambda>sa.
     bindp (pwrap ''failed to load etcd-ca keys'' (LoadCACertificates E cl ''etcd/ca'')) (\<lambda>etcd.
     bindp (pwrap ''failed to load ssh keys'' (LoadSSHKey E cl (GenSSHKeyName cl))) (\<lambda>ssh.
     ret \<lparr>CACert = ca, FrontProxyCACert = fp, ServiceAccountCert = sa, EtcdCACert = etcd, SSHKey = ssh\<rparr>)))))"

definition CreateCertsKeys :: "('s, 'x) env \<Rightarrow> string \<Rightarrow> (('s, 'x) world, Certificates) prog" where
  "CreateCertsKeys E cl =
     bindp (pwrap ''failed to create ca certificates'' (CreateCertificates E cl ''ca'' ''ca'')) (\<lambda>ca.
     bindp (pwrap ''failed to create fpca certificates'' (CreateCertificates E cl ''front-proxy-ca'' ''front-proxy-ca'')) (\<lambda>fp.
     bindp (pwrap ''failed to create sa certificates'' (CreateCertificates E cl ''sa'' ''sa'')) (\<lambda>sa.
     bindp (pwrap ''failed to create etcd-ca certificates'' (CreateCertificates E cl ''etcd/ca'' ''kubernetes'')) (\<lambda>etcd.
     bindp (pwrap ''failed to create ssh keys'' (CreateSSHKey E cl (GenSSHKeyName cl))) (\<lambda>_.
     bindp (pwrap ''failed to load ssh keys'' (LoadSSHKey E cl (GenSSHKeyName cl))) (\<lambda>ssh.
     ret \<lparr>CACert = ca, FrontProxyCACert = fp, ServiceAccountCert = sa, EtcdCACert = etcd, SSHKey = ssh\<rparr>))))))"

end
