(* ===== verification/Cloud_Kube.thy ===== *)
theory Cloud_Kube
  imports Cloud_Env
begin

text \<open>
  The package \<^verbatim>\<open>cloud/utils/kube\<close>: clients for the new cluster (\<^verbatim>\<open>client.go\<close>), secrets and
  namespaces (\<^verbatim>\<open>secret.go\<close>) and kubeadm tokens (\<^verbatim>\<open>token.go\<close>, \<^verbatim>\<open>kubeadm.go\<close>).  A client is no value of
  its own: the operations of \<open>kube_ops\<close> are the calls on it.
\<close>

section \<open>Clients (client.go)\<close>

text \<open>The admin certificate is read from the store, or signed by the CA if the store has none.\<close>

definition GetAdminCert :: "('s, 'x) env \<Rightarrow> string \<Rightarrow> (('s, 'x) world, CertKeyPair \<times> CertKeyPair) prog" where
  "GetAdminCert E cl =
     bindp (pwrap ''failed to get ca-certs'' (on_store (so_cert_Get (e_store E) cl ''ca''))) (\<lambda>p.
     let ca = \<lparr>Cert = fst p, Key = snd p\<rparr> in
     bindp (attempt (on_store (so_cert_Get (e_store E) cl ''admin''))) (\<lambda>r.
     bindp (case r of Inr q \<Rightarrow> ret \<lparr>Cert = fst q, Key = snd q\<rparr> | Inl _ \<Rightarrow> CreateAdminCertificate E ca) (\<lambda>adm.
     ret (ca, adm))))"

definition NewRestConfig :: "('s, 'x) env \<Rightarrow> string \<Rightarrow> string \<Rightarrow> (('s, 'x) world, rest_config) prog" where
  "NewRestConfig E cl clusterEndpoint =
     bindp (pwrap ''failed to get ca-certs'' (on_store (so_cert_Get (e_store E) cl ''ca''))) (\<lambda>p.
     let ca = \<lparr>Cert = fst p, Key = snd p\<rparr> in
     bindp (attempt (on_store (so_cert_Get (e_store E) cl ''admin''))) (\<lambda>r.
     bindp (case r of Inr q \<Rightarrow> ret \<lparr>Cert = fst q, Key = snd q\<rparr> | Inl _ \<Rightarrow> CreateAdminCertificate E ca) (\<lambda>adm.
     ret \<lparr>rc_Host = clusterEndpoint, CAData = cert_EncodeCertPEM (e_sys E) (Cert ca),
          CertData = cert_EncodeCertPEM (e_sys E) (Cert adm),
          KeyData = cert_EncodePrivateKeyPEM (e_sys E) (Key adm)\<rparr>)))"

definition NewAdminClient :: "('s, 'x) env \<Rightarrow> string \<Rightarrow> string \<Rightarrow> (('s, 'x) world, unit) prog" where
  "NewAdminClient E cl clusterEndpoint =
     bindp (NewRestConfig E cl clusterEndpoint) (\<lambda>cfg. on_ext (kubernetes_NewForConfig (e_kube E) cfg))"

record KubeConfig =
  kc_ClusterName :: string
  kc_Server :: string
  kc_CAData :: bytes
  kc_UserName :: string
  kc_ClientCertificateData :: bytes
  kc_ClientKeyData :: bytes
  kc_Token :: string
  kc_ContextName :: string

definition GetAdminConfig :: "('s, 'x) env \<Rightarrow> Cluster \<Rightarrow> CertKeyPair \<Rightarrow> (('s, 'x) world, KubeConfig) prog" where
  "GetAdminConfig E c caCertPair =
     bindp (GetAdminCert E (c_Name c)) (\<lambda>p.
     ret \<lparr>kc_ClusterName = c_Name c @ ''.pharmer'', kc_Server = APIServerURL c,
          kc_CAData = cert_EncodeCertPEM (e_sys E) (Cert caCertPair),
          kc_UserName = ''cluster-admin@'' @ c_Name c @ ''.pharmer'',
          kc_ClientCertificateData = cert_EncodeCertPEM (e_sys E) (Cert (snd p)),
          kc_ClientKeyData = cert_EncodePrivateKeyPEM (e_sys E) (Key (snd p)),
          kc_Token = '''',
          kc_ContextName = ''cluster-admin@'' @ c_Name c @ ''.pharmer''\<rparr>)"

definition NewRestConfigFromKubeConfig :: "KubeConfig \<Rightarrow> rest_config \<times> string" where
  "NewRestConfigFromKubeConfig i =
     (if kc_Token i = ''''
      then (\<lparr>rc_Host = kc_Server i, CAData = kc_CAData i, CertData = kc_ClientCertificateData i,
             KeyData = kc_ClientKeyData i\<rparr>, '''')
      else (\<lparr>rc_Host = kc_Server i, CAData = kc_CAData i, CertData = '''', KeyData = ''''\<rparr>, kc_Token i))"

text \<open>\<^verbatim>\<open>clientcmd.Write\<close> and the client factory are one external step.\<close>

definition GetBooststrapClient :: "('s, 'x) env \<Rightarrow> Cluster \<Rightarrow> CertKeyPair \<Rightarrow> (('s, 'x) world, unit) prog" where
  "GetBooststrapClient E c caCert =
     bindp (GetAdminConfig E c caCert) (\<lambda>cfg.
     on_ext (NewClientFromKubeconfig (e_kube E) (kc_ContextName cfg) (fst (NewRestConfigFromKubeConfig cfg))))"

definition GetClusterAPIClient :: "('s, 'x) env \<Rightarrow> string \<Rightarrow> string \<Rightarrow> (('s, 'x) world, unit) prog" where
  "GetClusterAPIClient E cl clusterEndpoint =
     bindp (pwrap ''failed to get rest config'' (NewRestConfig E cl clusterEndpoint)) (\<lambda>conf.
     on_ext (clientset_NewForConfig (e_kube E) conf))"

definition waitForReadyAPIServer :: "('s, 'x) env \<Rightarrow> (('s, 'x) world, unit) prog" where
  "waitForReadyAPIServer E = PollImmediate (poll_ticks (e_sys E))
     (ok_or_false (on_ext (Pods_List (e_kube E))) (\<lambda>_. ret True))"

definition waitForReadyComponents :: "('s, 'x) env \<Rightarrow> (('s, 'x) world, unit) prog" where
  "waitForReadyComponents E = PollImmediate (poll_ticks (e_sys E))
     (ok_or_false (on_ext (ComponentStatuses_List (e_kube E))) (\<lambda>items.
        ret (list_all (list_all (\<lambda>c. cond_Healthy c \<longrightarrow> cond_True c)) items)))"

definition WaitForReadyMaster :: "('s, 'x) env \<Rightarrow> (('s, 'x) world, unit) prog" where
  "WaitForReadyMaster E = bindp (waitForReadyAPIServer E) (\<lambda>_. waitForReadyComponents E)"

text \<open>
  \<^verbatim>\<open>WaitForReadyMasterVersion\<close>: \<open>same\<close> is the comparison of the parsed versions, which panics where
  one of them does not parse (\<^verbatim>\<open>nil\<close> receiver).
\<close>

definition WaitForReadyMasterVersion ::
  "('s, 'x) env \<Rightarrow> (string \<Rightarrow> string \<Rightarrow> bool res) \<Rightarrow> string \<Rightarrow> (('s, 'x) world, unit) prog" where
  "WaitForReadyMasterVersion E same desiredVersion = PollImmediate (poll_ticks (e_sys E))
     (ok_or_false (on_ext (MasterNodes_List (e_kube E))) (\<lambda>nodes.
        case nodes of
          [] \<Rightarrow> ret False
        | [n] \<Rightarrow> liftr (same (KubeletVersion n) desiredVersion)
        | _ \<Rightarrow> fail (Err ''multiple master found'')))"

section \<open>Secrets and namespaces (secret.go)\<close>

definition CreateSecret ::
  "('s, 'x) env \<Rightarrow> string \<Rightarrow> string \<Rightarrow> (string \<times> bytes) list \<Rightarrow> (('s, 'x) world, unit) prog" where
  "CreateSecret E name namespace data = PollImmediate (poll_ticks (e_sys E))
     (bindp (attempt (on_ext (Secrets_Get (e_kube E) namespace name))) (\<lambda>r.
      if is_ok r then ret True
      else ok_or_false (on_ext (Secrets_Create (e_kube E) namespace name data)) (\<lambda>_. ret True)))"

definition CreateNamespace :: "('s, 'x) env \<Rightarrow> string \<Rightarrow> (('s, 'x) world, unit) prog" where
  "CreateNamespace E namespace = PollImmediate (poll_ticks (e_sys E))
     (bindp (attempt (on_ext (Namespaces_GetUID (e_kube E) namespace))) (\<lambda>r.
      if is_ok r then ret True
      else ok_or_false (on_ext (Namespaces_Create (e_kube E) namespace)) (\<lambda>_. ret True)))"

section \<open>Kubeadm tokens (kubeadm.go, token.go)\<close>

text \<open>\<^verbatim>\<open>TokenRegexp\<close>: six characters, a dot and sixteen characters, of \<^verbatim>\<open>[a-z0-9]\<close>.\<close>

definition token_char :: "char \<Rightarrow> bool" where
  "token_char c \<longleftrightarrow> c \<in> set ''abcdefghijklmnopqrstuvwxyz0123456789''"

definition ParseToken :: "string \<Rightarrow> (string \<times> string) res" where
  "ParseToken s =
     (if length s = 23 \<and> list_all token_char (take 6 s) \<and> s ! 6 = CHR ''.'' \<and> list_all token_char (drop 7 s)
      then Inr (take 6 s, drop 7 s)
      else Inl (Err (''token [\"'' @ s @ ''\"] was not of form [\"^([a-z0-9]{6})'' @ [CHR 0x5C, CHR 0x5C] @ ''.([a-z0-9]{16})$\"]'')))"

definition decodeToken :: "string \<Rightarrow> string \<Rightarrow> string" where
  "decodeToken tokenID tokenSecret = tokenID @ ''.'' @ tokenSecret"

text \<open>\<^verbatim>\<open>RandStringRunes\<close> draws from \<^verbatim>\<open>math/rand\<close>; an index out of range would panic.\<close>

definition letterRunes :: string where
  "letterRunes = ''0123456789abcdef''"

fun RandStringRunes :: "('s, 'x) env \<Rightarrow> nat \<Rightarrow> (('s, 'x) world, string) prog" where
  "RandStringRunes E 0 = ret []"
| "RandStringRunes E (Suc n) =
     bindp (on_ext (mrnd_Intn (e_sys E) (length letterRunes))) (\<lambda>i.
     if i < length letterRunes then bindp (RandStringRunes E n) (\<lambda>rest. ret (letterRunes ! i # rest))
     else fail (Panic ''index out of range''))"

definition GetKubeadmToken :: "('s, 'x) env \<Rightarrow> (('s, 'x) world, string) prog" where
  "GetKubeadmToken E =
     bindp (RandStringRunes E 6) (\<lambda>a. bindp (RandStringRunes E 16) (\<lambda>b. ret (a @ ''.'' @ b)))"

text \<open>The entries of the secret in the order of the assignments; durations are in nanoseconds.\<close>

definition encodeTokenSecretData ::
  "('s, 'x) env \<Rightarrow> string \<Rightarrow> string \<Rightarrow> int \<Rightarrow> string list \<Rightarrow> string list \<Rightarrow> string \<Rightarrow>
    (('s, 'x) world, (string \<times> bytes) list) prog" where
  "encodeTokenSecretData E tokenID tokenSecret duration usages extraGroups description =
     bindp (if duration > 0
            then bindp (on_ext (time_Now (e_sys E))) (\<lambda>now. ret [(''expiration'', time_Format (e_sys E) (now + duration))])
            else ret []) (\<lambda>expiration.
     ret ([(''token-id'', tokenID), (''token-secret'', tokenSecret)] @
          (if extraGroups \<noteq> [] then [(''auth-extra-groups'', join '','' extraGroups)] else []) @
          expiration @
          (if description \<noteq> '''' then [(''description'', description)] else []) @
          map (\<lambda>usage. (''usage-bootstrap-'' @ usage, ''true'')) usages))"

definition CreateValidKubeadmToken :: "('s, 'x) env \<Rightarrow> int \<Rightarrow> (('s, 'x) world, string) prog" where
  "CreateValidKubeadmToken E duration =
     bindp (GetKubeadmToken E) (\<lambda>token.
     bindp (liftr (ParseToken token)) (\<lambda>p.
     bindp (encodeTokenSecretData E (fst p) (snd p) duration [''signing'', ''authentication'']
              [''system:bootstrappers:kubeadm:default-node-token''] ''Bootstrap token generated for 24 hours'') (\<lambda>data.
     bindp (on_ext (Secrets_Create (e_kube E) ''kube-system'' (''bootstrap-token-'' @ fst p) data)) (\<lambda>_.
     ret token))))"

text \<open>
  An existing token is used if it is valid for another hour; the list is read up to five times,
  then a new token is made.  Times are in nanoseconds.
\<close>

definition sixty_minutes :: time where
  "sixty_minutes = 60 * 60 * 1000000000"

definition DefaultTokenDuration :: int where
  "DefaultTokenDuration = 24 * sixty_minutes"

fun find_token :: "(string \<Rightarrow> time) \<Rightarrow> time \<Rightarrow> BootstrapSecret list \<Rightarrow> string option" where
  "find_token parse now [] = None"
| "find_token parse now (s # ss) =
     (if now < parse (bs_Expiration s) - sixty_minutes then Some (decodeToken (bs_TokenID s) (bs_TokenSecret s))
      else find_token parse now ss)"

fun token_retries :: "('s, 'x) env \<Rightarrow> int \<Rightarrow> nat \<Rightarrow> (('s, 'x) world, string) prog" where
  "token_retries E duration 0 = CreateValidKubeadmToken E duration"
| "token_retries E duration (Suc n) =
     bindp (on_ext (BootstrapSecrets_List (e_kube E))) (\<lambda>secrets.
     bindp (on_ext (time_Now (e_sys E))) (\<lambda>now.
     case find_token (time_Parse (e_sys E)) now secrets of
       Some t \<Rightarrow> ret t
     | None \<Rightarrow> token_retries E duration n))"

definition tokenCreateRetries :: nat where
  "tokenCreateRetries = 5"

definition GetExistingKubeadmToken :: "('s, 'x) env \<Rightarrow> int \<Rightarrow> (('s, 'x) world, string) prog" where
  "GetExistingKubeadmToken E duration = token_retries E duration tokenCreateRetries"

end
