(* ===== verification/Cloud_Core.thy ===== *)
theory Cloud_Core
  imports Cloud_Kube
begin

text \<open>
  The orchestration of \<^verbatim>\<open>cloud/\<close>: scope and registry of cloud managers (\<^verbatim>\<open>scope.go\<close>,
  \<^verbatim>\<open>plugins.go\<close>), creation of the cluster record with its certificates and machines
  (\<^verbatim>\<open>create.go\<close>), \<^verbatim>\<open>Apply\<close> with its create, scale and upgrade parts (\<^verbatim>\<open>apply.go\<close>), the cluster API
  components (\<^verbatim>\<open>clusterapi.go\<close>) and deletion (\<^verbatim>\<open>delete.go\<close>).  Logging is left out.
\<close>

section \<open>Scope and providers (scope.go, plugins.go, util.go)\<close>

definition NewScope :: "Cluster \<Rightarrow> (('s, 'x) world, unit) prog" where
  "NewScope c = modify (\<lambda>w. w\<lparr>w_Cluster := c, w_Certs := None, w_CloudManager := None, w_AdminClient := False\<rparr>)"

text \<open>\<^verbatim>\<open>plugins.go\<close>: a second registration under a name is fatal.\<close>

definition RegisterCloudManager :: "string \<Rightarrow> 'f \<Rightarrow> (string \<rightharpoonup> 'f) \<Rightarrow> (string \<rightharpoonup> 'f) res" where
  "RegisterCloudManager name f providers =
     (if providers name \<noteq> None then Inl (Panic (''Cloud provider \"'' @ name @ ''\" was registered twice''))
      else Inr (providers(name \<mapsto> f)))"

definition plugins_GetCloudManager :: "('s, 'x) env \<Rightarrow> (('s, 'x) world, string \<times> ('s, 'x) cloud_manager) prog" where
  "plugins_GetCloudManager E =
     bindp (gets w_Certs) (\<lambda>certs.
     bindp (if certs = None
            then bindp (gets w_Cluster) (\<lambda>c. bindp (GetPharmerCerts E (c_Name c)) (\<lambda>cs.
                   modify (\<lambda>w. w\<lparr>w_Certs := Some cs\<rparr>)))
            else ret ()) (\<lambda>_.
     bindp (gets (\<lambda>w. CloudProvider (c_CloudSpec (w_Cluster w)))) (\<lambda>p.
     case e_providers E p of
       None \<Rightarrow> fail (Err ''cloud provider not registerd'')
     | Some cm \<Rightarrow> ret (p, cm))))"

definition GetCloudManager :: "('s, 'x) env \<Rightarrow> (('s, 'x) world, ('s, 'x) cloud_manager) prog" where
  "GetCloudManager E =
     bindp (gets w_CloudManager) (\<lambda>mo. case mo of
       Some p \<Rightarrow> (case e_providers E p of None \<Rightarrow> fail (Panic ''nil pointer dereference'') | Some cm \<Rightarrow> ret cm)
     | None \<Rightarrow> bindp (plugins_GetCloudManager E) (\<lambda>pc.
         bindp (modify (\<lambda>w. w\<lparr>w_CloudManager := Some (fst pc)\<rparr>)) (\<lambda>_. ret (snd pc))))"

text \<open>The field \<^verbatim>\<open>s.CloudManager\<close> itself, which the code reads where it has been set.\<close>

definition CloudManager :: "('s, 'x) env \<Rightarrow> (('s, 'x) world, ('s, 'x) cloud_manager) prog" where
  "CloudManager E =
     bindp (gets w_CloudManager) (\<lambda>mo. case mo of
       None \<Rightarrow> fail (Panic ''nil pointer dereference'')
     | Some p \<Rightarrow> (case e_providers E p of None \<Rightarrow> fail (Panic ''nil pointer dereference'') | Some cm \<Rightarrow> ret cm))"

definition GetCaCertPair :: "(('s, 'x) world, CertKeyPair) prog" where
  "GetCaCertPair = bindp (gets w_Certs) (\<lambda>mo. case mo of
     None \<Rightarrow> fail (Panic ''nil pointer dereference'') | Some cs \<Rightarrow> ret (CACert cs))"

definition no_endpoint :: "string \<Rightarrow> gerror" where
  "no_endpoint name = Err (''failed to detect api server url for Cluster '' @ name)"

definition GetAdminClient :: "('s, 'x) env \<Rightarrow> (('s, 'x) world, unit) prog" where
  "GetAdminClient E =
     bindp (gets w_AdminClient) (\<lambda>have.
     if have then ret ()
     else bindp (gets w_Cluster) (\<lambda>c.
       if APIServerURL c = '''' then fail (no_endpoint (c_Name c))
       else bindp (NewAdminClient E (c_Name c) (APIServerURL c)) (\<lambda>_.
            modify (\<lambda>w. w\<lparr>w_AdminClient := True\<rparr>))))"

definition GetCredential :: "('s, 'x) env \<Rightarrow> (('s, 'x) world, Credential) prog" where
  "GetCredential E = bindp (gets w_Cluster) (\<lambda>c. on_store (so_credential_Get (e_store E) (CredentialName (c_Config c))))"

definition getLeaderMachine :: "('s, 'x) env \<Rightarrow> string \<Rightarrow> (('s, 'x) world, Machine) prog" where
  "getLeaderMachine E clusterName = on_store (so_machine_Get (e_store E) clusterName (clusterName @ ''-master-0''))"

section \<open>Creation (create.go)\<close>

definition preferred_addresses :: string where
  "preferred_addresses = join '','' [''InternalIP'', ''InternalDNS'', ''ExternalDNS'', ''ExternalIP'']"

definition apiserver_args :: "bool \<Rightarrow> string \<rightharpoonup> string" where
  "apiserver_args auditSink =
     (if auditSink
      then [''kubelet-preferred-address-types'' \<mapsto> preferred_addresses,
            ''audit-dynamic-configuration'' \<mapsto> ''true'',
            ''feature-gates'' \<mapsto> ''DynamicAuditing=true'',
            ''runtime-config'' \<mapsto> ''auditregistration.k8s.io/v1alpha1=true'']
      else [''kubelet-preferred-address-types'' \<mapsto> preferred_addresses])"

text \<open>The assignments of \<^verbatim>\<open>setDefaultCluster\<close>; slicing an empty zone panics.\<close>

definition stamp_meta :: "string \<Rightarrow> time \<Rightarrow> int \<Rightarrow> Cluster \<Rightarrow> Cluster" where
  "stamp_meta uid created generation c =
     c\<lparr>c_ObjectMeta := (c_ObjectMeta c)\<lparr>UID := uid, CreationTimestamp := created, Generation := generation\<rparr>\<rparr>"

definition default_cluster :: "string \<Rightarrow> time \<Rightarrow> int \<Rightarrow> Cluster \<Rightarrow> Cluster res" where
  "default_cluster uid created generation c0 =
     (let c1 = InitClusterAPI (stamp_meta uid created generation c0);
          c2 = upd_ClusterAPI assign_CapiCluster (assign_Cluster c1);
          c3 = SetNetworkingDefaults (NetworkProvider (c_CloudSpec c2)) c2;
          c4 = upd_Config (\<lambda>g. g\<lparr>APIServerExtraArgs := apiserver_args (AuditSink (Spec c3)), KubeletExtraArgs := Some Map.empty\<rparr>) c3
      in if Zone (c_CloudSpec c4) = '''' then Inl (Panic ''slice bounds out of range'')
         else Inr ((upd_CloudSpec (\<lambda>s. s\<lparr>Region := butlast (Zone s), SSHKeyName := GenSSHKeyExternalID c4\<rparr>) c4)
                \<lparr>Status := \<lparr>Phase = ClusterPending, Reason = '''', cst_Cloud = zero_CloudStatus\<rparr>\<rparr>))"

definition setDefaultCluster :: "('s, 'x) env \<Rightarrow> (('s, 'x) world, unit) prog" where
  "setDefaultCluster E =
     bindp (pwrap ''failed to create Cluster uuid'' (on_ext (uuid_NewUUID (e_sys E)))) (\<lambda>uid.
     bindp (on_ext (time_Now (e_sys E))) (\<lambda>created.
     bindp (on_ext (time_Now (e_sys E))) (\<lambda>generation.
     bindp (gets w_Cluster) (\<lambda>c.
     bindp (liftr (default_cluster uid created generation c)) (\<lambda>c'.
     upd_cluster (\<lambda>_. c'))))))"

definition createCluster :: "('s, 'x) env \<Rightarrow> (('s, 'x) world, unit) prog" where
  "createCluster E =
     bindp (GetCloudManager E) (\<lambda>cm.
     bindp (cm_SetDefaultCluster cm) (\<lambda>_.
     store_cluster (so_cluster_Update (e_store E))))"

definition master_labels :: "string \<Rightarrow> string \<rightharpoonup> string" where
  "master_labels clusterName =
     [''set'' \<mapsto> ''controlplane'', RoleMasterKey \<mapsto> '''', MachineClusterLabelName \<mapsto> clusterName]"

definition master_machine :: "Cluster \<Rightarrow> string \<Rightarrow> time \<Rightarrow> bytes option \<Rightarrow> Machine" where
  "master_machine c name now providerSpec = assign_Machine
     (zero_Machine\<lparr>m_ObjectMeta := zero_ObjectMeta\<lparr>Name := name, CreationTimestamp := now, Labels := master_labels (c_Name c)\<rparr>,
        m_Spec := \<lparr>mspec_ObjectMeta = zero_ObjectMeta, ProviderSpec = providerSpec,
          Versions = \<lparr>Kubelet = KubernetesVersion (c_Config c), ControlPlane = KubernetesVersion (c_Config c)\<rparr>\<rparr>\<rparr>)"

definition getMasterMachine :: "('s, 'x) env \<Rightarrow> string \<Rightarrow> (('s, 'x) world, Machine) prog" where
  "getMasterMachine E name =
     bindp (GetCloudManager E) (\<lambda>cm.
     bindp (cm_GetDefaultMachineProviderSpec cm '''' MasterMachineRole) (\<lambda>providerSpec.
     bindp (on_ext (time_Now (e_sys E))) (\<lambda>now.
     bindp (gets w_Cluster) (\<lambda>c. ret (master_machine c name now providerSpec)))))"

definition createMasterMachines :: "('s, 'x) env \<Rightarrow> (('s, 'x) world, unit) prog" where
  "createMasterMachines E =
     bindp (gets w_Cluster) (\<lambda>c.
     if is_managed c then ret ()
     else for_each [0..<nat (MasterCount (c_Config c))] (\<lambda>i.
       bindp (getMasterMachine E (MasterMachineName c (int i))) (\<lambda>master.
       bindp (on_store (so_machine_Create (e_store E) (c_Name c) master)) (\<lambda>_. ret ()))))"

definition CreateCluster :: "('s, 'x) env \<Rightarrow> (('s, 'x) world, unit) prog" where
  "CreateCluster E =
     bindp (gets w_Cluster) (\<lambda>c0.
     if c_Name c0 = '''' then fail (Err ''missing Cluster name'')
     else if KubernetesVersion (c_Config c0) = '''' then fail (Err ''missing Cluster version'')
     else bindp (setDefaultCluster E) (\<lambda>_.
       bindp (gets w_Name) (\<lambda>name.
       bindp (attempt (on_store (so_cluster_Get (e_store E) name))) (\<lambda>r.
       bindp (if is_ok r then ret () else store_cluster (so_cluster_Create (e_store E))) (\<lambda>_.
       bindp (CreateCertsKeys E name) (\<lambda>certs.
       bindp (modify (\<lambda>w. w\<lparr>w_Certs := Some certs\<rparr>)) (\<lambda>_.
       bindp (createCluster E) (\<lambda>_.
       createMasterMachines E))))))))"

definition GenerateMachineSetName :: "string \<Rightarrow> string" where
  "GenerateMachineSetName sku = replace_char (CHR ''_'') (CHR ''-'') (to_lower sku) @ ''-pool''"

definition node_machineset :: "Cluster \<Rightarrow> string \<Rightarrow> int32 \<Rightarrow> time \<Rightarrow> time \<Rightarrow> bytes option \<Rightarrow> MachineSet" where
  "node_machineset c sku count now1 now2 providerSpec =
     zero_MachineSet\<lparr>ms_ObjectMeta := zero_ObjectMeta\<lparr>Name := GenerateMachineSetName sku, CreationTimestamp := now1\<rparr>,
       ms_Spec := \<lparr>Replicas = Some count,
         Selector = [MachineClusterLabelName \<mapsto> c_Name c, MachineSlecetor \<mapsto> sku],
         TemplateMeta = zero_ObjectMeta\<lparr>Labels := [PharmerCluster \<mapsto> c_Name c, RoleNodeKey \<mapsto> '''', MachineSlecetor \<mapsto> sku,
            ''set'' \<mapsto> ''node'', MachineClusterLabelName \<mapsto> c_Name c], CreationTimestamp := now2\<rparr>,
         TemplateSpec = \<lparr>mspec_ObjectMeta = zero_ObjectMeta, ProviderSpec = providerSpec,
           Versions = \<lparr>Kubelet = KubernetesVersion (c_Config c), ControlPlane = ''''\<rparr>\<rparr>\<rparr>\<rparr>"

definition getMachineSet :: "('s, 'x) env \<Rightarrow> string \<Rightarrow> int32 \<Rightarrow> (('s, 'x) world, MachineSet) prog" where
  "getMachineSet E sku count =
     bindp (GetCloudManager E) (\<lambda>cm.
     bindp (pwrap ''failed to get default machine provider spec'' (cm_GetDefaultMachineProviderSpec cm sku NodeMachineRole)) (\<lambda>providerSpec.
     bindp (on_ext (time_Now (e_sys E))) (\<lambda>now1.
     bindp (on_ext (time_Now (e_sys E))) (\<lambda>now2.
     bindp (gets w_Cluster) (\<lambda>c. ret (node_machineset c sku count now1 now2 providerSpec))))))"

text \<open>The map \<^verbatim>\<open>opts.Nodes\<close> is visited in some order: the argument is its entries in that order.\<close>

definition CreateMachineSets :: "('s, 'x) env \<Rightarrow> string \<Rightarrow> (string \<times> int) list \<Rightarrow> (('s, 'x) world, unit) prog" where
  "CreateMachineSets E clusterName nodes =
     bindp (on_store (so_cluster_Get (e_store E) clusterName)) (\<lambda>c.
     bindp (NewScope c) (\<lambda>_.
     for_each nodes (\<lambda>(sku, count).
       bindp (pwrap ''failed to create machineset'' (getMachineSet E sku (word_of_int count))) (\<lambda>machineset.
       bindp (pwrap ''failed to store machineset'' (on_store (so_machineset_Create (e_store E) (c_Name c) machineset)))
         (\<lambda>_. ret ())))))"

section \<open>Cluster API components (clusterapi.go)\<close>

definition NewClusterAPI :: "('s, 'x) env \<Rightarrow> (('s, 'x) world, string) prog" where
  "NewClusterAPI E =
     bindp (gets w_AdminClient) (\<lambda>have.
     if \<not> have then fail (Panic ''nil pointer dereference'')
     else bindp (GetExistingKubeadmToken E DefaultTokenDuration) (\<lambda>token.
     bindp GetCaCertPair (\<lambda>ca.
     bindp (gets w_Cluster) (\<lambda>c.
     bindp (GetBooststrapClient E c ca) (\<lambda>_.
     if APIServerURL c = '''' then fail (no_endpoint (c_Name c))
     else bindp (GetClusterAPIClient E (c_Name c) (APIServerURL c)) (\<lambda>_. ret token))))))"

definition pem_pair :: "('s, 'x) env \<Rightarrow> string \<Rightarrow> CertKeyPair \<Rightarrow> (string \<times> bytes) list" where
  "pem_pair E name p = [(name @ ''.crt'', cert_EncodeCertPEM (e_sys E) (Cert p)),
     (name @ ''.key'', cert_EncodePrivateKeyPEM (e_sys E) (Key p))]"

definition CreatePharmerSecret :: "('s, 'x) env \<Rightarrow> string \<Rightarrow> (('s, 'x) world, unit) prog" where
  "CreatePharmerSecret E namespace =
     bindp (gets w_Cluster) (\<lambda>c.
     bindp (on_store (so_credential_Get (e_store E) (CredentialName (c_Config c)))) (\<lambda>cred.
     bindp (liftr (json_Credential (e_sys E) cred)) (\<lambda>credData.
     bindp (CreateNamespace E namespace) (\<lambda>_.
     bindp (CreateSecret E ''pharmer-cred'' namespace [(CredentialName (c_Config c) @ ''.json'', credData)]) (\<lambda>_.
     bindp (liftr (json_Cluster (e_sys E) c)) (\<lambda>clusterData.
     bindp (CreateSecret E ''pharmer-cluster'' namespace [(c_Name c @ ''.json'', clusterData)]) (\<lambda>_.
     bindp (on_store (so_ssh_Get (e_store E) (c_Name c) (SSHKeyName (c_CloudSpec c)))) (\<lambda>ks.
     bindp (CreateSecret E ''pharmer-ssh'' namespace
             [(''id_'' @ SSHKeyName (c_CloudSpec c), snd ks), (''id_'' @ SSHKeyName (c_CloudSpec c) @ ''.pub'', fst ks)]) (\<lambda>_.
     bindp (gets w_Certs) (\<lambda>ocerts. case ocerts of
       None \<Rightarrow> fail (Panic ''nil pointer dereference'')
     | Some certs \<Rightarrow>
       bindp (CreateSecret E ''pharmer-certificate'' namespace
               (pem_pair E ''ca'' (CACert certs) @ pem_pair E ''front-proxy-ca'' (FrontProxyCACert certs) @
                pem_pair E ''sa'' (ServiceAccountCert certs))) (\<lambda>_.
       CreateSecret E ''pharmer-etcd'' namespace (pem_pair E ''ca'' (EtcdCACert certs)))))))))))))"

definition CreateAPIServerAndController :: "('s, 'x) env \<Rightarrow> string \<Rightarrow> string \<Rightarrow> (('s, 'x) world, unit) prog" where
  "CreateAPIServerAndController E namespace controllerManager =
     bindp (gets w_Cluster) (\<lambda>c.
     bindp (liftr (template_Execute (e_kube E) controllerManager (c_Name c) (CloudProvider (c_CloudSpec c)) namespace)) (\<lambda>yaml.
     on_ext (bootstrap_Apply (e_kube E) yaml)))"

definition CreateMachineController :: "('s, 'x) env \<Rightarrow> string \<Rightarrow> string \<Rightarrow> (('s, 'x) world, unit) prog" where
  "CreateMachineController E namespace controllerManager =
     bindp (CreatePharmerSecret E namespace) (\<lambda>_.
     bindp (attempt (CreateAPIServerAndController E namespace controllerManager)) (\<lambda>r. case r of
       Inr _ \<Rightarrow> ret ()
     | Inl e \<Rightarrow> if ErrObjectModified e then ret () else fail e))"

definition set_ProviderStatus :: "bytes option \<Rightarrow> Cluster \<Rightarrow> Cluster" where
  "set_ProviderStatus p = upd_ClusterAPI (\<lambda>a. a\<lparr>cc_Status := (cc_Status a)\<lparr>ccst_ProviderStatus := p\<rparr>\<rparr>)"

definition updateProviderStatus :: "('s, 'x) env \<Rightarrow> (('s, 'x) world, unit) prog" where
  "updateProviderStatus E = PollImmediate (poll_ticks (e_sys E))
     (bindp (gets w_Cluster) (\<lambda>pc.
      ok_or_false (on_ext (Clusters_Get (e_capi E) (Namespace (cc_ObjectMeta (ClusterAPI (Spec pc)))) (c_Name pc))) (\<lambda>c.
      if ccst_ProviderStatus (cc_Status c) \<noteq> None
      then bindp (upd_cluster (set_ProviderStatus (ccst_ProviderStatus (cc_Status c)))) (\<lambda>_.
           ok_or_false (store_cluster (so_cluster_Update (e_store E))) (\<lambda>_. ret True))
      else ret False)))"

definition updateMachineStatus :: "('s, 'x) env \<Rightarrow> string \<Rightarrow> Machine \<Rightarrow> (('s, 'x) world, unit) prog" where
  "updateMachineStatus E namespace masterMachine = PollImmediate (poll_ticks (e_sys E))
     (ok_or_false (on_ext (Machines_Get (e_capi E) namespace (m_Name masterMachine))) (\<lambda>m.
      ok_or_false (on_ext (Machines_UpdateStatus (e_capi E) namespace
          (m\<lparr>m_Status := (m_Status m)\<lparr>ProviderStatus := ProviderStatus (m_Status masterMachine)\<rparr>\<rparr>))) (\<lambda>_. ret True)))"

definition ignore :: "(gerror \<Rightarrow> bool) \<Rightarrow> ('w, 'a) prog \<Rightarrow> ('w, unit) prog" where
  "ignore p m = bindp (attempt m) (\<lambda>r. case r of Inr _ \<Rightarrow> ret () | Inl e \<Rightarrow> if p e then ret () else fail e)"

definition ClusterAPI_Apply :: "('s, 'x) env \<Rightarrow> string \<Rightarrow> string \<Rightarrow> (('s, 'x) world, unit) prog" where
  "ClusterAPI_Apply E ca_namespace controllerManager =
     bindp (pwrap ''can't create machine controller''
             (ignore (\<lambda>e. str_contains (err_msg e) ''Already Exists,  Ignoring'')
               (CreateMachineController E ca_namespace controllerManager))) (\<lambda>_.
     bindp (gets w_Cluster) (\<lambda>c.
     bindp (ignore ErrAlreadyExist (on_ext (phases_ApplyCluster (e_kube E) (ClusterAPI (Spec c))))) (\<lambda>_.
     bindp (if Namespace (cc_ObjectMeta (ClusterAPI (Spec c))) = ''''
            then on_ext (bootstrap_ContextNamespace (e_kube E))
            else ret (Namespace (cc_ObjectMeta (ClusterAPI (Spec c))))) (\<lambda>namespace.
     bindp (on_ext (Clusters_Get (e_capi E) namespace (c_Name c))) (\<lambda>cc.
     bindp (ignore ErrObjectModified (on_ext (Clusters_UpdateStatus (e_capi E) namespace
              (cc\<lparr>cc_Status := cc_Status (ClusterAPI (Spec c))\<rparr>)))) (\<lambda>_.
     bindp (updateProviderStatus E) (\<lambda>_.
     bindp (getLeaderMachine E (c_Name c)) (\<lambda>masterMachine.
     bindp (pwrap ''failed to add master machine'' (ignore (\<lambda>e. ErrAlreadyExist e \<or> ErrObjectModified e)
              (on_ext (Machines_Create (e_capi E) namespace masterMachine)))) (\<lambda>_.
     pwrap ''failed to update machine status'' (updateMachineStatus E namespace masterMachine))))))))))"

section \<open>Apply (apply.go)\<close>

text \<open>
  \<^verbatim>\<open>nodeCount\<close>: an \<^verbatim>\<open>int32\<close> sum, which wraps around; a machine set without a replica count is a
  \<^verbatim>\<open>nil\<close> dereference.
\<close>

fun nodeCount_from :: "int32 \<Rightarrow> MachineSet list \<Rightarrow> int32 res" where
  "nodeCount_from count [] = Inr count"
| "nodeCount_from count (ms # rest) =
     (case Replicas (ms_Spec ms) of
        None \<Rightarrow> Inl (Panic ''nil pointer dereference'')
      | Some r \<Rightarrow> nodeCount_from (count + r) rest)"

definition nodeCount :: "MachineSet list \<Rightarrow> int32 res" where
  "nodeCount machineSets = nodeCount_from 0 machineSets"

definition setMasterSKU :: "('s, 'x) env \<Rightarrow> (('s, 'x) world, unit) prog" where
  "setMasterSKU E =
     bindp (gets w_Name) (\<lambda>clusterName.
     bindp (CloudManager E) (\<lambda>cm.
     bindp (on_store (so_machine_List (e_store E) clusterName)) (\<lambda>machines.
     bindp (on_store (so_machineset_List (e_store E) clusterName)) (\<lambda>machineSets.
     bindp (liftr (nodeCount machineSets)) (\<lambda>totalNodes.
     for_each machines (\<lambda>m.
       bindp (cm_GetDefaultMachineProviderSpec cm (cm_GetMasterSKU cm totalNodes) MasterMachineRole) (\<lambda>providerspec.
       bindp (on_store (so_machine_Update (e_store E) clusterName (m\<lparr>m_Spec := (m_Spec m)\<lparr>ProviderSpec := providerspec\<rparr>\<rparr>)))
         (\<lambda>_. ret ()))))))))"

definition applyClusterAPI :: "('s, 'x) env \<Rightarrow> (('s, 'x) world, unit) prog" where
  "applyClusterAPI E =
     bindp (NewClusterAPI E) (\<lambda>token.
     bindp (CloudManager E) (\<lambda>cm.
     bindp (cm_GetClusterAPIComponents cm) (\<lambda>components.
     bindp (ClusterAPI_Apply E ''cloud-provider-system'' components) (\<lambda>_.
     bindp (gets w_Cluster) (\<lambda>c.
     if APIServerURL c = '''' then fail (no_endpoint (c_Name c))
     else bindp (GetClusterAPIClient E (c_Name c) (APIServerURL c)) (\<lambda>_.
     bindp (on_store (so_machine_List (e_store E) (c_Name c))) (\<lambda>machines.
     for_each machines (\<lambda>m.
       ignore (\<lambda>e. ErrObjectModified e \<or> ErrAlreadyExist e)
         (on_ext (Machines_Create (e_capi E) (Namespace (cc_ObjectMeta (ClusterAPI (Spec c)))) m))))))))))"

definition ApplyCreate :: "('s, 'x) env \<Rightarrow> (('s, 'x) world, unit) prog" where
  "ApplyCreate E =
     bindp (GetCloudManager E) (\<lambda>cm.
     bindp (cm_PrepareCloud cm) (\<lambda>_.
     bindp (gets (is_managed \<circ> w_Cluster)) (\<lambda>managed.
     bindp (if managed then ret ()
            else bindp (setMasterSKU E) (\<lambda>_.
                 bindp (gets w_Name) (\<lambda>name.
                 bindp (getLeaderMachine E name) (\<lambda>machine. cm_EnsureMaster cm machine)))) (\<lambda>_.
     bindp (cm_GetAdminClient cm) (\<lambda>_.
     bindp (WaitForReadyMaster E) (\<lambda>_.
     bindp (cm_CreateCredentials cm) (\<lambda>_.
     bindp (gets (is_managed \<circ> w_Cluster)) (\<lambda>managed2.
     bindp (if managed2 then ret () else applyClusterAPI E) (\<lambda>_.
     bindp (on_ext (Namespaces_GetUID (e_kube E) ''kube-system'')) (\<lambda>uid.
     bindp (store_cluster (\<lambda>c. so_cluster_UpdateUUID (e_store E) c uid)) (\<lambda>_.
     bindp (upd_cluster (set_Phase ClusterReady)) (\<lambda>_.
     store_cluster (so_cluster_UpdateStatus (e_store E))))))))))))))"

definition ApplyScale :: "('s, 'x) env \<Rightarrow> (('s, 'x) world, unit) prog" where
  "ApplyScale E =
     bindp (gets w_Cluster) (\<lambda>c.
     if is_managed c then bindp (CloudManager E) (\<lambda>cm. cm_ApplyScale cm)
     else bindp (on_store (so_machineset_List (e_store E) (c_Name c))) (\<lambda>machineSets.
     bindp GetCaCertPair (\<lambda>ca.
     bindp (GetBooststrapClient E c ca) (\<lambda>_.
     if APIServerURL c = '''' then fail (no_endpoint (c_Name c))
     else bindp (GetClusterAPIClient E (c_Name c) (APIServerURL c)) (\<lambda>_.
     for_each machineSets (\<lambda>ms.
       if DeletionTimestamp (ms_ObjectMeta ms) \<noteq> None
       then bindp (on_ext (MachineSets_Delete (e_capi E) (Namespace (ms_ObjectMeta ms)) (ms_Name ms))) (\<lambda>_.
            on_store (so_machineset_Delete (e_store E) (c_Name c) (ms_Name ms)))
       else bindp (liftr (json_MachineSet (e_sys E) ms)) (\<lambda>data.
            on_ext (bootstrap_Apply (e_kube E) data))))))))"

section \<open>Deletion (delete.go)\<close>

definition cloud_Delete :: "('s, 'x) env \<Rightarrow> string \<Rightarrow> (('s, 'x) world, Cluster) prog" where
  "cloud_Delete E name =
     (if name = '''' then fail (Err ''missing Cluster name'')
      else bindp (reason (''Cluster `'' @ name @ ''` does not exist.'') (on_store (so_cluster_Get (e_store E) name))) (\<lambda>c.
      bindp (on_ext (time_Now (e_sys E))) (\<lambda>now.
      on_store (so_cluster_Update (e_store E)
        (set_Phase ClusterDeleting (c\<lparr>c_ObjectMeta := (c_ObjectMeta c)\<lparr>DeletionTimestamp := Some now\<rparr>\<rparr>))))))"

definition deleteMachineDeployments :: "('s, 'x) env \<Rightarrow> (('s, 'x) world, unit) prog" where
  "deleteMachineDeployments E =
     bindp (on_ext (MachineDeployments_List (e_capi E))) (\<lambda>items.
     bindp (for_each items (\<lambda>md. on_ext (MachineDeployments_Delete (e_capi E) (Namespace md) (Name md)))) (\<lambda>_.
     PollImmediate (poll_ticks (e_sys E))
       (ok_or_false (on_ext (MachineDeployments_List (e_capi E))) (\<lambda>l. ret (l = [])))))"

definition deleteMachineSets :: "('s, 'x) env \<Rightarrow> (('s, 'x) world, unit) prog" where
  "deleteMachineSets E =
     bindp (on_ext (MachineSets_List (e_capi E))) (\<lambda>items.
     bindp (for_each items (\<lambda>ms. on_ext (MachineSets_Delete (e_capi E) (Namespace (ms_ObjectMeta ms)) (ms_Name ms)))) (\<lambda>_.
     PollImmediate (poll_ticks (e_sys E))
       (ok_or_false (on_ext (MachineSets_List (e_capi E))) (\<lambda>l. ret (l = [])))))"

text \<open>The last poll only logs the machines that are left: it succeeds as soon as the list can be read.\<close>

definition deleteMachines :: "('s, 'x) env \<Rightarrow> (('s, 'x) world, unit) prog" where
  "deleteMachines E =
     bindp (on_ext (Machines_List (e_capi E))) (\<lambda>items.
     bindp (for_each items (\<lambda>m. on_ext (Machines_Delete (e_capi E) (Namespace (m_ObjectMeta m)) (m_Name m)))) (\<lambda>_.
     PollImmediate (poll_ticks (e_sys E))
       (ok_or_false (on_ext (Machines_List (e_capi E))) (\<lambda>_. ret True))))"

definition deleteAllWorkerMachines :: "('s, 'x) env \<Rightarrow> (('s, 'x) world, unit) prog" where
  "deleteAllWorkerMachines E =
     bindp (gets w_Cluster) (\<lambda>c.
     if APIServerURL c = '''' then fail (no_endpoint (c_Name c))
     else bindp (GetClusterAPIClient E (c_Name c) (APIServerURL c)) (\<lambda>_.
     bindp (attempt (deleteMachineDeployments E)) (\<lambda>_.
     bindp (attempt (deleteMachineSets E)) (\<lambda>_.
     bindp (attempt (deleteMachines E)) (\<lambda>_. ret ())))))"

definition cloud_ApplyDelete :: "('s, 'x) env \<Rightarrow> (('s, 'x) world, unit) prog" where
  "cloud_ApplyDelete E =
     bindp (attempt (deleteAllWorkerMachines E)) (\<lambda>_.
     bindp (upd_cluster (\<lambda>c. if c_Phase c = ClusterReady then set_Phase ClusterDeleting c else c)) (\<lambda>_.
     bindp (store_cluster (so_cluster_UpdateStatus (e_store E))) (\<lambda>_.
     bindp (CloudManager E) (\<lambda>cm. cm_ApplyDelete cm))))"

section \<open>The top of apply.go\<close>

definition mark_deleted :: "time \<Rightarrow> MachineSet \<Rightarrow> MachineSet" where
  "mark_deleted now ms = ms\<lparr>ms_ObjectMeta := (ms_ObjectMeta ms)\<lparr>DeletionTimestamp := Some now\<rparr>,
     ms_Spec := (ms_Spec ms)\<lparr>Replicas := Some 0\<rparr>\<rparr>"

definition mark_machinesets :: "('s, 'x) env \<Rightarrow> string \<Rightarrow> MachineSet list \<Rightarrow> (('s, 'x) world, unit) prog" where
  "mark_machinesets E name machineSets = for_each machineSets (\<lambda>ng.
     bindp (on_ext (time_Now (e_sys E))) (\<lambda>now.
     bindp (on_store (so_machineset_Update (e_store E) name (mark_deleted now ng))) (\<lambda>_. ret ())))"

text \<open>The deletion part of \<^verbatim>\<open>Apply\<close>, what it does once the cloud manager is connected, and the whole.\<close>

definition apply_deletion :: "('s, 'x) env \<Rightarrow> (('s, 'x) world, unit) prog" where
  "apply_deletion E =
     bindp (gets w_Cluster) (\<lambda>c.
     if DeletionTimestamp (c_ObjectMeta c) \<noteq> None \<and> c_Phase c \<noteq> ClusterDeleted
     then bindp (on_store (so_machineset_List (e_store E) (c_Name c))) (\<lambda>machineSets.
          bindp (mark_machinesets E (c_Name c) machineSets) (\<lambda>_.
          cloud_ApplyDelete E))
     else ret ())"

definition apply_creation :: "('s, 'x) env \<Rightarrow> (('s, 'x) world, unit) prog" where
  "apply_creation E =
     bindp (gets w_Phase) (\<lambda>phase.
     if phase = ClusterPending then bindp (ApplyCreate E) (\<lambda>_. ApplyScale E) else ret ())"

definition Apply :: "('s, 'x) env \<Rightarrow> (('s, 'x) world, unit) prog" where
  "Apply E =
     bindp (gets w_Cluster) (\<lambda>c.
     if c_Phase c = '''' then fail (Err (''Cluster `'' @ c_Name c @ ''` is in unknown phase''))
     else if c_Phase c = ClusterDeleted then ret ()
     else if c_Phase c = ClusterUpgrading
       then fail (Err (''Cluster `'' @ c_Name c @ ''` is upgrading. Retry after Cluster returns to Ready state''))
     else bindp (GetCloudManager E) (\<lambda>cm.
       bindp (cm_SetCloudConnector cm) (\<lambda>_.
       bindp (apply_creation E) (\<lambda>_.
       apply_deletion E))))"

text \<open>\<open>same\<close> compares two Kubernetes versions as \<^verbatim>\<open>WaitForReadyMasterVersion\<close> does.\<close>

definition ApplyUpgrade :: "('s, 'x) env \<Rightarrow> (string \<Rightarrow> string \<Rightarrow> bool res) \<Rightarrow> (('s, 'x) world, unit) prog" where
  "ApplyUpgrade E same =
     bindp (GetAdminClient E) (\<lambda>_.
     bindp (gets w_Cluster) (\<lambda>c.
     let version = KubernetesVersion (c_Config c) in
     bindp (on_store (so_machine_Get (e_store E) (c_Name c) (c_Name c @ ''-master''))) (\<lambda>m.
     let m' = m\<lparr>m_Spec := (m_Spec m)\<lparr>Versions := \<lparr>Kubelet = version, ControlPlane = version\<rparr>\<rparr>\<rparr> in
     bindp GetCaCertPair (\<lambda>ca.
     bindp (GetBooststrapClient E c ca) (\<lambda>_.
     bindp (liftr (json_Machine (e_sys E) m')) (\<lambda>data.
     bindp (on_ext (bootstrap_Apply (e_kube E) data)) (\<lambda>_.
     bindp (WaitForReadyMasterVersion E same version) (\<lambda>_.
     bindp (on_store (so_machineset_List (e_store E) (c_Name c))) (\<lambda>machineSets.
     bindp (for_each machineSets (\<lambda>ms.
       bindp (liftr (json_MachineSet (e_sys E) (ms\<lparr>ms_Spec := (ms_Spec ms)\<lparr>TemplateSpec :=
           (TemplateSpec (ms_Spec ms))\<lparr>Versions := (Versions (TemplateSpec (ms_Spec ms)))\<lparr>Kubelet := version\<rparr>\<rparr>\<rparr>\<rparr>))) (\<lambda>d.
       on_ext (bootstrap_Apply (e_kube E) d)))) (\<lambda>_.
     bindp (upd_cluster (set_Phase ClusterReady)) (\<lambda>_.
     store_cluster (so_cluster_UpdateStatus (e_store E)))))))))))))"

end
