(* ===== verification/Kube_Version.thy ===== *)
theory Kube_Version
  imports Go_Strings "HOL-Library.List_Lexorder" "HOL-Library.Char_ord"
begin

text \<open>
  Version numbers of Kubernetes, \<^verbatim>\<open>vendor/k8s.io/apimachinery/pkg/util/version\<close>: parsing, printing and
  comparison.  The regular expressions are written out as scanners: each is deterministic, since
  what follows a maximal run of its characters is outside the run.
\<close>

section \<open>Scanners\<close>

definition is_digit :: "char \<Rightarrow> bool" where
  "is_digit c \<longleftrightarrow> 48 \<le> (of_char c :: nat) \<and> (of_char c :: nat) \<le> 57"

definition is_lower :: "char \<Rightarrow> bool" where
  "is_lower c \<longleftrightarrow> 97 \<le> (of_char c :: nat) \<and> (of_char c :: nat) \<le> 122"

definition is_upper :: "char \<Rightarrow> bool" where
  "is_upper c \<longleftrightarrow> 65 \<le> (of_char c :: nat) \<and> (of_char c :: nat) \<le> 90"

text \<open>The class \<^verbatim>\<open>[0-9A-Za-z-]\<close> of identifiers, and \<^verbatim>\<open>\s\<close>.\<close>

definition is_ident :: "char \<Rightarrow> bool" where
  "is_ident c \<longleftrightarrow> is_digit c \<or> is_upper c \<or> is_lower c \<or> c = CHR ''-''"

definition re_space :: "char \<Rightarrow> bool" where
  "re_space c \<longleftrightarrow> c \<in> {CHR '' '', CHR 0x09, CHR 0x0A, CHR 0x0C, CHR 0x0D}"

text \<open>\<^verbatim>\<open>P+(\.P+)*\<close> for a class of characters: what it matches at the beginning, empty if nothing, and the rest.\<close>

function dotted :: "(char \<Rightarrow> bool) \<Rightarrow> string \<Rightarrow> string \<times> string" where
  "dotted P s = (let a = takeWhile P s; r = dropWhile P s in
     if a = [] then ([], s)
     else (case r of
         c # d # t \<Rightarrow> if c = CHR ''.'' \<and> P d then (let (b, r') = dotted P (d # t) in (a @ CHR ''.'' # b, r')) else (a, r)
       | _ \<Rightarrow> (a, r)))"
  by pat_completeness auto

termination
proof (relation "measure (\<lambda>(P, s). length s)")
  fix P :: "char \<Rightarrow> bool" and s a r c x d t
  assume "a = takeWhile P s" "r = dropWhile P s" "a \<noteq> []" "r = c # x" "x = d # t"
  then have "length (dropWhile P s) = Suc (Suc (length t))" by (metis length_Cons)
  moreover have "length (dropWhile P s) \<le> length s" by (rule length_dropWhile_le)
  ultimately show "((P, d # t), P, s) \<in> measure (\<lambda>(P, s). length s)" by simp
qed simp

declare dotted.simps [simp del]

section \<open>Versions\<close>

record KubeVersion =
  v_components :: "nat list"
  v_semver :: bool
  v_preRelease :: string
  v_buildMetadata :: string

definition quoted :: "string \<Rightarrow> string" where
  "quoted s = [CHR 0x22] @ s @ [CHR 0x22]"

definition zero_prefixed :: "string \<Rightarrow> bool" where
  "zero_prefixed part \<longleftrightarrow> has_prefix part ''0'' \<and> part \<noteq> ''0''"

definition zero_error :: "string \<Rightarrow> string \<Rightarrow> gerror" where
  "zero_error part str = Err (''illegal zero-prefixed version component '' @ quoted part @ '' in '' @ quoted str)"

fun parse_comps :: "bool \<Rightarrow> bool \<Rightarrow> string \<Rightarrow> string list \<Rightarrow> nat list res" where
  "parse_comps semver first str [] = Inr []"
| "parse_comps semver first str (part # parts) =
     (if (first \<or> semver) \<and> zero_prefixed part then Inl (zero_error part str)
      else (case parse_uint part of
          None \<Rightarrow> Inl (Err (''illegal non-numeric version component '' @ quoted part @ '' in '' @ quoted str))
        | Some n \<Rightarrow> rbind (parse_comps semver False str parts) (\<lambda>ns. Inr (n # ns))))"

text \<open>\<^verbatim>\<open>extraMatchRE\<close>: a pre-release after \<^verbatim>\<open>-\<close>, metadata after \<^verbatim>\<open>+\<close>, both optional, then space.\<close>

definition after_mark :: "char \<Rightarrow> string \<Rightarrow> string \<times> string" where
  "after_mark mark s = (case s of
     c # t \<Rightarrow> if c = mark then (case dotted is_ident t of (p, r) \<Rightarrow> if p = [] then ([], s) else (p, r)) else ([], s)
   | [] \<Rightarrow> ([], []))"

definition extra_match :: "string \<Rightarrow> (string \<times> string) option" where
  "extra_match extra =
     (let (pre, r1) = after_mark (CHR ''-'') extra; (meta, r2) = after_mark (CHR ''+'') r1
      in if list_all re_space r2 then Some (pre, meta) else None)"

text \<open>What follows leading space and the letter \<^verbatim>\<open>v\<close>.\<close>

definition version_body :: "string \<Rightarrow> string" where
  "version_body str = (case dropWhile re_space str of
     c # t \<Rightarrow> if c = CHR ''v'' then t else c # t
   | [] \<Rightarrow> [])"

definition parse_version :: "bool \<Rightarrow> string \<Rightarrow> KubeVersion res" where
  "parse_version semver str =
     (let (numbers, extra) = dotted is_digit (version_body str);
          components = split_on (CHR ''.'') numbers
      in if numbers = [] \<or> CHR 0x0A \<in> set extra then Inl (Err (''could not parse '' @ quoted str @ '' as version''))
         else if semver \<and> length components \<noteq> 3 \<or> \<not> semver \<and> length components < 2
         then Inl (Err (''illegal version string '' @ quoted str))
         else rbind (parse_comps semver True str components) (\<lambda>ns.
           if semver \<and> extra \<noteq> [] then (case extra_match extra of
               None \<Rightarrow> Inl (Err (''could not parse pre-release/metadata ('' @ extra @ '') in version '' @ quoted str))
             | Some (pre, meta) \<Rightarrow>
                 (case find (\<lambda>part. parse_uint part \<noteq> None \<and> zero_prefixed part) (split_on (CHR ''.'') pre) of
                    Some part \<Rightarrow> Inl (zero_error part str)
                  | None \<Rightarrow> Inr \<lparr>v_components = ns, v_semver = semver, v_preRelease = pre, v_buildMetadata = meta\<rparr>))
           else Inr \<lparr>v_components = ns, v_semver = semver, v_preRelease = [], v_buildMetadata = []\<rparr>))"

definition ParseGeneric :: "string \<Rightarrow> KubeVersion res" where
  "ParseGeneric str = parse_version False str"

definition ParseSemantic :: "string \<Rightarrow> KubeVersion res" where
  "ParseSemantic str = parse_version True str"

definition MustParseGeneric :: "string \<Rightarrow> KubeVersion res" where
  "MustParseGeneric str = (case ParseGeneric str of Inl e \<Rightarrow> Inl (Panic (err_msg e)) | Inr v \<Rightarrow> Inr v)"

definition version_String :: "KubeVersion \<Rightarrow> string" where
  "version_String v = join ''.'' (map show_nat (v_components v)) @
     (if v_preRelease v \<noteq> [] then CHR ''-'' # v_preRelease v else []) @
     (if v_buildMetadata v \<noteq> [] then CHR ''+'' # v_buildMetadata v else [])"

section \<open>Comparison\<close>

text \<open>The loops stop at the shorter list; 0 says that they found no difference.\<close>

fun cmp_common :: "nat list \<Rightarrow> nat list \<Rightarrow> int" where
  "cmp_common (x # xs) (y # ys) = (if y < x then 1 else if x < y then -1 else cmp_common xs ys)"
| "cmp_common _ _ = 0"

definition onlyZeros :: "nat list \<Rightarrow> bool" where
  "onlyZeros xs \<longleftrightarrow> list_all (\<lambda>n. n = 0) xs"

definition cmp_components :: "nat list \<Rightarrow> nat list \<Rightarrow> int" where
  "cmp_components v w =
     (if cmp_common v w \<noteq> 0 then cmp_common v w
      else if length w < length v \<and> \<not> onlyZeros (drop (length w) v) then 1
      else if length v < length w \<and> \<not> onlyZeros (drop (length v) w) then -1
      else 0)"

definition cmp_ident :: "string \<Rightarrow> string \<Rightarrow> int" where
  "cmp_ident x y = (case (parse_uint x, parse_uint y) of
     (Some m, Some n) \<Rightarrow> if n < m then 1 else if m < n then -1 else 0
   | _ \<Rightarrow> if y < x then 1 else if x < y then -1 else 0)"

fun cmp_idents :: "string list \<Rightarrow> string list \<Rightarrow> int" where
  "cmp_idents (x # xs) (y # ys) = (if cmp_ident x y \<noteq> 0 then cmp_ident x y else cmp_idents xs ys)"
| "cmp_idents [] [] = 0"
| "cmp_idents (x # xs) [] = 1"
| "cmp_idents [] (y # ys) = -1"

definition compareInternal :: "KubeVersion \<Rightarrow> KubeVersion \<Rightarrow> int" where
  "compareInternal v w =
     (if cmp_components (v_components v) (v_components w) \<noteq> 0 then cmp_components (v_components v) (v_components w)
      else if \<not> v_semver v \<or> \<not> v_semver w then 0
      else if v_preRelease v = [] \<and> v_preRelease w \<noteq> [] then 1
      else if v_preRelease v \<noteq> [] \<and> v_preRelease w = [] then -1
      else if v_preRelease v = v_preRelease w then 0
      else cmp_idents (split_on (CHR ''.'') (v_preRelease v)) (split_on (CHR ''.'') (v_preRelease w)))"

definition AtLeast :: "KubeVersion \<Rightarrow> KubeVersion \<Rightarrow> bool" where
  "AtLeast v minimum \<longleftrightarrow> compareInternal v minimum \<noteq> -1"

definition LessThan :: "KubeVersion \<Rightarrow> KubeVersion \<Rightarrow> bool" where
  "LessThan v other \<longleftrightarrow> compareInternal v other = -1"

definition version_Compare :: "KubeVersion \<Rightarrow> string \<Rightarrow> int res" where
  "version_Compare v other = rbind (parse_version (v_semver v) other) (\<lambda>ov. Inr (compareInternal v ov))"

end
