(* ===== verification/Semver.thy ===== *)
theory Semver
  imports Kube_Version
begin

text \<open>
  Version numbers as \<^verbatim>\<open>cloud/startupscript.go\<close> and \<^verbatim>\<open>cloud/upm.go\<close> read them:
  \<^verbatim>\<open>vendor/gomodules.xyz/version\<close> (\<^verbatim>\<open>version.go\<close>, \<^verbatim>\<open>mutator.go\<close>).  The regular expression is written out as a
  scanner.  Versions are values: where the code changes one it owns the only pointer to it.
\<close>

section \<open>Integers (strconv)\<close>

datatype num_error = NoError | ErrSyntax | ErrRange

text \<open>\<^verbatim>\<open>strconv.ParseUint(s, 10, 64)\<close>: the loop stops at the first character that is no digit and at the first overflow.\<close>

fun parse_u64 :: "nat \<Rightarrow> string \<Rightarrow> nat \<times> num_error" where
  "parse_u64 n [] = (n, NoError)"
| "parse_u64 n (c # cs) = (case digit_val c of
     None \<Rightarrow> (0, ErrSyntax)
   | Some d \<Rightarrow> if 2 ^ 64 \<le> 10 * n + d then (2 ^ 64 - 1, ErrRange) else parse_u64 (10 * n + d) cs)"

text \<open>\<^verbatim>\<open>strconv.ParseInt(s, 10, 64)\<close> with the value it returns beside an error.\<close>

definition ParseInt :: "string \<Rightarrow> int \<times> num_error" where
  "ParseInt s = (case s of
     [] \<Rightarrow> (0, ErrSyntax)
   | c # cs \<Rightarrow>
       let neg = (c = CHR ''-''); ds = (if c = CHR ''-'' \<or> c = CHR ''+'' then cs else s) in
       if ds = [] then (0, ErrSyntax)
       else case parse_u64 0 ds of (un, e) \<Rightarrow>
         if e = ErrSyntax then (0, ErrSyntax)
         else if \<not> neg \<and> 2 ^ 63 \<le> un then (2 ^ 63 - 1, ErrRange)
         else if neg \<and> 2 ^ 63 < un then (- (2 ^ 63), ErrRange)
         else (if neg then - int un else int un, NoError))"

section \<open>Versions\<close>

record SemVersion =
  sv_metadata :: string
  sv_pre :: string
  sv_segments :: "int list"
  sv_si :: nat
  sv_original :: string

text \<open>The class \<^verbatim>\<open>[0-9A-Za-z\-~]\<close>.\<close>

definition sem_char :: "char \<Rightarrow> bool" where
  "sem_char c \<longleftrightarrow> is_ident c \<or> c = CHR ''~''"

text \<open>
  The pre-release, with or without \<^verbatim>\<open>-\<close> before it: behind the \<^verbatim>\<open>-\<close> if there is an identifier, otherwise
  the \<^verbatim>\<open>-\<close> is part of it, since it is a character of the class; without \<^verbatim>\<open>-\<close> it starts with no digit.
\<close>

definition sem_pre :: "string \<Rightarrow> string \<times> string" where
  "sem_pre r = (case r of
     [] \<Rightarrow> ([], [])
   | c # t \<Rightarrow>
       if c = CHR ''-'' then (if t \<noteq> [] \<and> sem_char (hd t) then dotted sem_char t else dotted sem_char r)
       else if sem_char c \<and> \<not> is_digit c then dotted sem_char r
       else ([], r))"

definition sem_metadata :: "string \<Rightarrow> string option" where
  "sem_metadata r = (case r of
     [] \<Rightarrow> Some []
   | c # t \<Rightarrow> if c = CHR ''+'' \<and> t \<noteq> [] \<and> sem_char (hd t)
              then (case dotted sem_char t of (m, r') \<Rightarrow> if r' = [] then Some m else None) else None)"

definition versionRegexp :: "string \<Rightarrow> (string \<times> string \<times> string) option" where
  "versionRegexp v = (case v of
     [] \<Rightarrow> None
   | c # t \<Rightarrow> (case dotted is_digit (if c = CHR ''v'' then t else v) of (numbers, r) \<Rightarrow>
       if numbers = [] then None
       else case sem_pre r of (pre, r') \<Rightarrow>
         (case sem_metadata r' of None \<Rightarrow> None | Some metadata \<Rightarrow> Some (numbers, pre, metadata))))"

fun parse_segments :: "string list \<Rightarrow> int list res" where
  "parse_segments [] = Inr []"
| "parse_segments (str # strs) = (case ParseInt str of (val, e) \<Rightarrow>
     if e = NoError then rbind (parse_segments strs) (\<lambda>vs. Inr (val # vs))
     else Inl (Err (''Error parsing version: strconv.ParseInt: parsing '' @ quoted str @ '': '' @
       (if e = ErrRange then ''value out of range'' else ''invalid syntax''))))"

definition NewVersion :: "string \<Rightarrow> SemVersion res" where
  "NewVersion v = (case versionRegexp v of
     None \<Rightarrow> Inl (Err (''Malformed version: '' @ v))
   | Some (numbers, pre, metadata) \<Rightarrow>
       rbind (parse_segments (split_on (CHR ''.'') numbers)) (\<lambda>segments.
       Inr \<lparr>sv_metadata = metadata, sv_pre = pre,
            sv_segments = segments @ replicate (3 - length segments) 0,
            sv_si = length segments, sv_original = v\<rparr>))"

definition sem_String :: "SemVersion \<Rightarrow> string" where
  "sem_String v = join ''.'' (map show_int (sv_segments v)) @
     (if sv_pre v \<noteq> [] then CHR ''-'' # sv_pre v else []) @
     (if sv_metadata v \<noteq> [] then CHR ''+'' # sv_metadata v else [])"

section \<open>Comparison\<close>

definition allZero :: "int list \<Rightarrow> bool" where
  "allZero segs \<longleftrightarrow> list_all (\<lambda>s. s = 0) segs"

text \<open>The loop over the segments of versions whose segments differ.\<close>

fun cmp_segments :: "int list \<Rightarrow> int list \<Rightarrow> int" where
  "cmp_segments [] [] = 0"
| "cmp_segments [] (o' # os) = (if allZero (o' # os) then 0 else -1)"
| "cmp_segments (s # ss) [] = (if allZero (s # ss) then 0 else 1)"
| "cmp_segments (lhs # ss) (rhs # os) = (if lhs = rhs then cmp_segments ss os else if lhs < rhs then -1 else 1)"

definition comparePart :: "string \<Rightarrow> string \<Rightarrow> int" where
  "comparePart preSelf preOther =
     (if preSelf = preOther then 0
      else let (selfInt, selfErr) = ParseInt preSelf; (otherInt, otherErr) = ParseInt preOther;
               selfNumeric = (selfErr = NoError); otherNumeric = (otherErr = NoError) in
        if preSelf = [] then (if otherNumeric then -1 else 1)
        else if preOther = [] then (if selfNumeric then 1 else -1)
        else if selfNumeric \<and> \<not> otherNumeric then -1
        else if \<not> selfNumeric \<and> otherNumeric then 1
        else if \<not> selfNumeric \<and> \<not> otherNumeric \<and> preOther < preSelf then 1
        else if otherInt < selfInt then 1
        else -1)"

fun cmp_parts :: "string list \<Rightarrow> string list \<Rightarrow> int" where
  "cmp_parts [] [] = 0"
| "cmp_parts (x # xs) [] = (if comparePart x [] \<noteq> 0 then comparePart x [] else cmp_parts xs [])"
| "cmp_parts [] (y # ys) = (if comparePart [] y \<noteq> 0 then comparePart [] y else cmp_parts [] ys)"
| "cmp_parts (x # xs) (y # ys) = (if comparePart x y \<noteq> 0 then comparePart x y else cmp_parts xs ys)"

definition comparePrereleases :: "string \<Rightarrow> string \<Rightarrow> int" where
  "comparePrereleases v other = (if v = other then 0 else cmp_parts (split_on (CHR ''.'') v) (split_on (CHR ''.'') other))"

definition sem_Compare :: "SemVersion \<Rightarrow> SemVersion \<Rightarrow> int" where
  "sem_Compare v other =
     (if sem_String v = sem_String other then 0
      else if sv_segments v = sv_segments other then
        (if sv_pre v = [] \<and> sv_pre other = [] then 0
         else if sv_pre v = [] then 1
         else if sv_pre other = [] then -1
         else comparePrereleases (sv_pre v) (sv_pre other))
      else cmp_segments (sv_segments v) (sv_segments other))"

definition sem_Equal :: "SemVersion \<Rightarrow> SemVersion \<Rightarrow> bool" where
  "sem_Equal v other \<longleftrightarrow> sem_Compare v other = 0"

definition sem_LessThan :: "SemVersion \<Rightarrow> SemVersion \<Rightarrow> bool" where
  "sem_LessThan v other \<longleftrightarrow> sem_Compare v other < 0"

section \<open>Mutators\<close>

definition ResetMetadata :: "SemVersion \<Rightarrow> SemVersion" where
  "ResetMetadata m = m\<lparr>sv_metadata := []\<rparr>"

definition ResetPrerelease :: "SemVersion \<Rightarrow> SemVersion" where
  "ResetPrerelease m = m\<lparr>sv_pre := []\<rparr>"

text \<open>The third segment is there: \<^verbatim>\<open>NewVersion\<close> fills up to three.\<close>

definition ResetPatch :: "SemVersion \<Rightarrow> SemVersion" where
  "ResetPatch m = m\<lparr>sv_pre := [], sv_segments := (sv_segments m)[2 := 0]\<rparr>"

end
