(* ===== verification/Startup.thy ===== *)
theory Startup
  imports Cloud_Core Semver
begin

text \<open>
  The data of the start-up script of a machine, \<^verbatim>\<open>cloud/startupscript.go\<close> with
  \<^verbatim>\<open>apis/v1alpha1/node_labels.go\<close>: packages, kubeadm configurations, labels.  The texts of the templates,
  the template engine and the YAML encoder are parameters.

  A map of Go is shared by its copies: \<^verbatim>\<open>KubeletExtraArgs\<close> of the template data is the map of the cluster
  object unless that is \<^verbatim>\<open>nil\<close>, and what is assigned to it shows there.
\<close>

section \<open>Node labels (node_labels.go)\<close>

definition NodeLabelKey_Checksum :: string where
  "NodeLabelKey_Checksum = ''meta.appscode.com/checksum''"

definition NodeLabels_values :: "bool \<Rightarrow> bool \<Rightarrow> (string \<times> string) list \<Rightarrow> string" where
  "NodeLabels_values appscodeKeysOnly skipChecksum n =
     join '','' (map (\<lambda>k. k @ ''='' @ the (map_of n k))
       (filter (\<lambda>k. \<not> (appscodeKeysOnly \<and> \<not> str_contains k ''.appscode.com/'' \<or> k = NodeLabelKey_Checksum \<and> skipChecksum))
         (sort (map fst n))))"

definition NodeLabels_String :: "(string \<times> string) list \<Rightarrow> string" where
  "NodeLabels_String n = NodeLabels_values False False n"

definition NodePoolKey :: string where "NodePoolKey = ''cluster.pharmer.io/pool''"

section \<open>Tables\<close>

definition kubernetesCNIVersions :: "string \<rightharpoonup> string" where
  "kubernetesCNIVersions = map_of
     [(''1.8.0'', ''0.5.1''), (''1.9.0'', ''0.6.0''), (''1.10.0'', ''0.6.0''), (''1.11.0'', ''0.6.0''), (''1.12.0'', ''0.6.0''),
      (''1.13.0'', ''0.6.0''), (''1.13.5'', ''0.7.5''), (''1.13.6'', ''0.7.5''), (''1.13.7'', ''0.7.5''), (''1.13.8'', ''0.7.5''),
      (''1.13.9'', ''0.7.5''), (''1.13.10'', ''0.7.5''), (''1.13.11'', ''0.7.5''), (''1.13.12'', ''0.7.5''), (''1.13.13'', ''0.7.5''),
      (''1.13.14'', ''0.7.5''), (''1.14.0'', ''0.7.5'')]"

definition prekVersions :: "string \<rightharpoonup> string" where
  "prekVersions = map_of
     [(''1.12.0'', ''https://cdn.appscode.com/binaries/pre-k/1.12.0-alpha.3/pre-k-linux-amd64''),
      (''1.13.0'', ''https://cdn.appscode.com/binaries/pre-k/1.13.0/pre-k-linux-amd64''),
      (''1.14.0'', ''https://github.com/pharmer/pre-k/releases/download/v1.14.0/pre-k_linux_amd64'')]"

section \<open>Kubeadm configurations and template data\<close>

text \<open>A map of Go: that of the cluster object, or one that only the template data refers to.\<close>

datatype map_ref = ClusterArgs | OwnArgs "string \<rightharpoonup> string"

record InitConfiguration =
  ic_APIVersion :: string
  ic_Kind :: string
  ic_KubeletExtraArgs :: "string \<rightharpoonup> string"
  ic_BindPort :: int

record HostPathMount =
  hp_Name :: string
  hp_HostPath :: string
  hp_MountPath :: string

record ClusterConfiguration =
  kc_APIVersion :: string
  kc_Kind :: string
  ServiceSubnet :: string
  PodSubnet :: string
  DNSDomain :: string
  kc_KubernetesVersion :: string
  kc_APIServerExtraArgs :: "string \<rightharpoonup> string"
  kc_APIServerExtraVolumes :: "HostPathMount list"
  CertSANs :: "string list"
  kc_ControllerManagerExtraArgs :: "string \<rightharpoonup> string"
  kc_ControllerManagerExtraVolumes :: "HostPathMount list"
  kc_SchedulerExtraArgs :: "string \<rightharpoonup> string"
  kc_ConfClusterName :: string
  ControlPlaneEndpoint :: string

record JoinConfiguration =
  jc_APIVersion :: string
  jc_Kind :: string
  jc_KubeletExtraArgs :: "string \<rightharpoonup> string"
  jc_Token :: string
  jc_APIServerEndpoint :: string
  jc_CACertHashes :: "string list"
  jc_ControlPlane :: "(string \<times> int) option"

text \<open>
  \<^verbatim>\<open>TemplateData\<close>; \<open>td_InitConfiguration\<close> holds what the init configuration has beside the map of kubelet
  arguments, which is the same map as that of the data.
\<close>

record TemplateData =
  td_ClusterName :: string
  td_KubernetesVersion :: string
  td_KubeadmToken :: string
  td_CAHash :: string
  td_CAKey :: string
  td_FrontProxyKey :: string
  td_SAKey :: string
  td_ETCDCAKey :: string
  td_APIServerAddress :: string
  td_NetworkProvider :: string
  td_Provider :: string
  td_ExternalProvider :: bool
  td_InitConfiguration :: "(string \<times> string \<times> int) option"
  td_ClusterConfiguration :: "ClusterConfiguration option"
  td_JoinConfiguration :: string
  td_KubeletExtraArgs :: map_ref
  td_ControlPlaneJoin :: bool

record startup_ops =
  pubkeypin_Hash :: "bytes \<Rightarrow> string"
  yaml_Init :: "InitConfiguration \<Rightarrow> bytes res"
  yaml_Cluster :: "ClusterConfiguration \<Rightarrow> bytes res"
  yaml_Join :: "JoinConfiguration \<Rightarrow> bytes res"
  tpl_Parse :: "string \<Rightarrow> unit res"
  tpl_Execute :: "string \<Rightarrow> string \<Rightarrow> TemplateData \<Rightarrow> (string \<rightharpoonup> string) \<Rightarrow> bytes res"
  tpl_error :: "string \<Rightarrow> gerror \<Rightarrow> gerror"

text \<open>The map, and an assignment to one of its keys.\<close>

definition cluster_args :: "Cluster \<Rightarrow> string \<rightharpoonup> string" where
  "cluster_args c = (case KubeletExtraArgs (c_Config c) of None \<Rightarrow> Map.empty | Some m \<Rightarrow> m)"

definition td_args :: "TemplateData \<Rightarrow> (('s, 'x) world, string \<rightharpoonup> string) prog" where
  "td_args td = gets (\<lambda>w. case td_KubeletExtraArgs td of ClusterArgs \<Rightarrow> cluster_args (w_Cluster w) | OwnArgs m \<Rightarrow> m)"

definition set_args :: "(string \<rightharpoonup> string) \<Rightarrow> Cluster \<Rightarrow> Cluster" where
  "set_args m = upd_Config (\<lambda>g. g\<lparr>KubeletExtraArgs := Some m\<rparr>)"

definition set_arg :: "string \<Rightarrow> string \<Rightarrow> TemplateData \<Rightarrow> (('s, 'x) world, TemplateData) prog" where
  "set_arg k v td = (case td_KubeletExtraArgs td of
     ClusterArgs \<Rightarrow> bindp (upd_cluster (\<lambda>c. set_args ((cluster_args c)(k \<mapsto> v)) c)) (\<lambda>_. ret td)
   | OwnArgs m \<Rightarrow> ret (td\<lparr>td_KubeletExtraArgs := OwnArgs (m(k \<mapsto> v))\<rparr>))"

definition join_config :: "TemplateData \<Rightarrow> (string \<rightharpoonup> string) \<Rightarrow> JoinConfiguration" where
  "join_config td args = \<lparr>jc_APIVersion = ''kubeadm.k8s.io/v1beta1'', jc_Kind = ''JoinConfiguration'', jc_KubeletExtraArgs = args,
     jc_Token = td_KubeadmToken td, jc_APIServerEndpoint = td_APIServerAddress td, jc_CACertHashes = [td_CAHash td],
     jc_ControlPlane = (if td_ControlPlaneJoin td then Some (''CONTROLPLANEIP'', 6443) else None)\<rparr>"

definition JoinConfigurationYAML :: "startup_ops \<Rightarrow> TemplateData \<Rightarrow> (('s, 'x) world, bytes) prog" where
  "JoinConfigurationYAML T td =
     bindp (td_args td) (\<lambda>args. liftr (yaml_Join T (join_config td args)))"

text \<open>The methods of the cloud manager that complete the data.\<close>

record ('s, 'x) template_hooks =
  th_Node :: "Machine \<Rightarrow> string \<Rightarrow> TemplateData \<Rightarrow> (('s, 'x) world, TemplateData) prog"
  th_Master :: "Machine \<Rightarrow> string \<Rightarrow> TemplateData \<Rightarrow> (('s, 'x) world, TemplateData) prog"

definition IsControlPlaneMachine :: "Machine \<Rightarrow> bool" where
  "IsControlPlaneMachine m \<longleftrightarrow> ControlPlane (Versions (m_Spec m)) \<noteq> ''''"

text \<open>The data before the provider completes them.\<close>

definition base_TemplateData ::
  "('s, 'x) env \<Rightarrow> startup_ops \<Rightarrow> Certificates \<Rightarrow> Cluster \<Rightarrow> string \<Rightarrow> TemplateData" where
  "base_TemplateData E T certs cluster token =
     (let pem = (\<lambda>k. cert_EncodePrivateKeyPEM (e_sys E) (Key k)) in
      \<lparr>td_ClusterName = c_Name cluster, td_KubernetesVersion = KubernetesVersion (c_Config cluster),
       td_KubeadmToken = token, td_CAHash = pubkeypin_Hash T (Cert (CACert certs)), td_CAKey = pem (CACert certs),
       td_FrontProxyKey = pem (FrontProxyCACert certs), td_SAKey = pem (ServiceAccountCert certs),
       td_ETCDCAKey = pem (EtcdCACert certs), td_APIServerAddress = APIServerAddress cluster,
       td_NetworkProvider = NetworkProvider (c_CloudSpec cluster), td_Provider = CloudProvider (c_CloudSpec cluster),
       td_ExternalProvider = False, td_InitConfiguration = None, td_ClusterConfiguration = None,
       td_JoinConfiguration = '''',
       td_KubeletExtraArgs = (if KubeletExtraArgs (c_Config cluster) = None then OwnArgs Map.empty else ClusterArgs),
       td_ControlPlaneJoin = False\<rparr>)"

definition NewNodeTemplateData ::
  "('s, 'x) env \<Rightarrow> startup_ops \<Rightarrow> ('s, 'x) template_hooks \<Rightarrow> Machine \<Rightarrow> string \<Rightarrow> (('s, 'x) world, TemplateData) prog" where
  "NewNodeTemplateData E T H machine token =
     bindp (gets w_Certs) (\<lambda>co. case co of
       None \<Rightarrow> fail (Panic ''nil pointer dereference'')
     | Some certs \<Rightarrow>
     bindp (gets w_Cluster) (\<lambda>cluster.
     bindp (set_arg ''node-labels'' (NodeLabels_String [(NodePoolKey, m_Name machine), (RoleNodeKey, '''')])
             (base_TemplateData E T certs cluster token)) (\<lambda>td.
     th_Node H machine token td)))"

definition NewMasterTemplateData ::
  "('s, 'x) env \<Rightarrow> startup_ops \<Rightarrow> ('s, 'x) template_hooks \<Rightarrow> Machine \<Rightarrow> string \<Rightarrow> (('s, 'x) world, TemplateData) prog" where
  "NewMasterTemplateData E T H machine token =
     bindp (NewNodeTemplateData E T H machine '''') (\<lambda>td.
     bindp (set_arg ''node-labels'' (NodeLabels_String [(NodePoolKey, m_Name machine)]) td) (\<lambda>td.
     let td1 = td\<lparr>td_InitConfiguration := Some (''kubeadm.k8s.io/v1beta1'', ''InitConfiguration'', 6443)\<rparr> in
     bindp (if token \<noteq> '''' then
              let td2 = td1\<lparr>td_ControlPlaneJoin := True\<rparr> in
              bindp (\<lambda>w. case JoinConfigurationYAML T td2 w of
                       (Inl e, w') \<Rightarrow> (Inl (Panic (err_msg e)), w') | (Inr s, w') \<Rightarrow> (Inr s, w')) (\<lambda>joinConf.
              ret (td2\<lparr>td_JoinConfiguration := joinConf\<rparr>))
            else ret td1) (\<lambda>td3.
     th_Master H machine token td3)))"

section \<open>Methods the templates call\<close>

definition InitConfigurationYAML :: "startup_ops \<Rightarrow> TemplateData \<Rightarrow> (('s, 'x) world, bytes) prog" where
  "InitConfigurationYAML T td = (case td_InitConfiguration td of
     None \<Rightarrow> ret ''''
   | Some (v, k, p) \<Rightarrow> bindp (td_args td) (\<lambda>args.
       liftr (yaml_Init T \<lparr>ic_APIVersion = v, ic_Kind = k, ic_KubeletExtraArgs = args, ic_BindPort = p\<rparr>)))"

definition ClusterConfigurationYAML :: "startup_ops \<Rightarrow> TemplateData \<Rightarrow> bytes res" where
  "ClusterConfigurationYAML T td = (case td_ClusterConfiguration td of None \<Rightarrow> Inr '''' | Some c \<Rightarrow> yaml_Cluster T c)"

text \<open>Errors of \<^verbatim>\<open>NewVersion\<close> are dropped here: a version that does not parse is a \<^verbatim>\<open>nil\<close> pointer.\<close>

definition IsVersionLessThan :: "TemplateData \<Rightarrow> string \<Rightarrow> bool res" where
  "IsVersionLessThan td currentVersion =
     (case (NewVersion (td_KubernetesVersion td), NewVersion currentVersion) of
        (Inr cv, Inr v11) \<Rightarrow> Inr (sem_LessThan cv v11)
      | _ \<Rightarrow> Inl (Panic ''nil pointer dereference''))"

definition PackageList :: "TemplateData \<Rightarrow> string res" where
  "PackageList td =
     rbind (NewVersion (td_KubernetesVersion td)) (\<lambda>v.
     if sv_pre v \<noteq> '''' then Inl (Err ''pre-release versions are not supported'')
     else
       let patch = sem_String (ResetPrerelease (ResetMetadata v));
           minor = sem_String (ResetPatch (ResetPrerelease (ResetMetadata v))) in
       rbind (IsVersionLessThan td ''1.12.0'') (\<lambda>older.
       let kubeadmVersion = (if older then ''1.12.0'' else patch);
           pkgs = [''cron'', ''ebtables'', ''git'', ''glusterfs-client'', ''haveged'', ''jq'', ''nfs-common'', ''socat'',
                   ''kubelet='' @ patch @ ''*'', ''kubectl='' @ patch @ ''*'', ''kubeadm='' @ kubeadmVersion @ ''*''] in
       case (case kubernetesCNIVersions patch of Some cni \<Rightarrow> Some cni | None \<Rightarrow> kubernetesCNIVersions minor) of
         None \<Rightarrow> Inl (Err (''kubernetes-cni version is unknown for Kubernetes version '' @ td_KubernetesVersion td))
       | Some cni \<Rightarrow>
           Inr (join '' '' (pkgs @ [''kubernetes-cni='' @ cni @ ''*''] @
             (if td_Provider td \<noteq> ''gce'' \<and> td_Provider td \<noteq> ''gke'' then [''ntp''] else [])))))"

definition PrekVersion :: "TemplateData \<Rightarrow> string res" where
  "PrekVersion td =
     rbind (NewVersion (td_KubernetesVersion td)) (\<lambda>v.
     if sv_pre v \<noteq> '''' then Inl (Err ''pre-release versions are not supported'')
     else let minor = sem_String (ResetPatch (ResetPrerelease (ResetMetadata v))) in
       case prekVersions minor of
         None \<Rightarrow> Inl (Err (''pre-k version is unknown for Kubernetes version '' @ td_KubernetesVersion td))
       | Some prekVer \<Rightarrow> Inr prekVer)"

definition controlPlaneEndpointsFromLB :: "ClusterConfiguration \<Rightarrow> Cluster \<Rightarrow> ClusterConfiguration" where
  "controlPlaneEndpointsFromLB cfg cluster =
     (let lb = cs_LoadBalancer (cst_Cloud (Status cluster)) in
      if lb_DNS lb \<noteq> '''' then cfg\<lparr>ControlPlaneEndpoint := lb_DNS lb @ '':'' @ show_int (lb_Port lb), CertSANs := CertSANs cfg @ [lb_DNS lb]\<rparr>
      else if lb_IP lb \<noteq> '''' then cfg\<lparr>ControlPlaneEndpoint := lb_IP lb @ '':'' @ show_int (lb_Port lb), CertSANs := CertSANs cfg @ [lb_IP lb]\<rparr>
      else cfg)"

definition first_block :: "string list \<Rightarrow> string res" where
  "first_block bs = (case bs of [] \<Rightarrow> Inl (Panic ''index out of range'') | b # _ \<Rightarrow> Inr b)"

definition GetDefaultKubeadmClusterConfig :: "Cluster \<Rightarrow> HostPathMount option \<Rightarrow> ClusterConfiguration res" where
  "GetDefaultKubeadmClusterConfig cluster hostPath =
     rbind (first_block (Services (c_Network cluster))) (\<lambda>services.
     rbind (first_block (Pods (c_Network cluster))) (\<lambda>pods.
     let volumes = (case hostPath of None \<Rightarrow> [] | Some h \<Rightarrow> [h]);
         g = c_Config cluster in
     Inr (controlPlaneEndpointsFromLB
       \<lparr>kc_APIVersion = ''kubeadm.k8s.io/v1beta1'', kc_Kind = ''ClusterConfiguration'', ServiceSubnet = services, PodSubnet = pods,
        DNSDomain = ServiceDomain (c_Network cluster), kc_KubernetesVersion = KubernetesVersion g,
        kc_APIServerExtraArgs = APIServerExtraArgs g, kc_APIServerExtraVolumes = volumes, CertSANs = APIServerCertSANs g,
        kc_ControllerManagerExtraArgs = ControllerManagerExtraArgs g, kc_ControllerManagerExtraVolumes = volumes,
        kc_SchedulerExtraArgs = SchedulerExtraArgs g, kc_ConfClusterName = c_Name cluster, ControlPlaneEndpoint = ''''\<rparr> cluster)))"

section \<open>Rendering\<close>

text \<open>
  The templates \<^verbatim>\<open>master\<close> and \<^verbatim>\<open>node\<close> (\<^verbatim>\<open>startupscript_templates.go\<close>) call methods of the data, in this order; the
  engine stops at an error of one and reports it.
\<close>

definition tpl_call :: "startup_ops \<Rightarrow> string \<Rightarrow> ('w, string) prog \<Rightarrow> ('w, string) prog" where
  "tpl_call T name m = (\<lambda>w. case m w of (Inl e, w') \<Rightarrow> (Inl (tpl_error T name e), w') | (Inr s, w') \<Rightarrow> (Inr s, w'))"

definition ExecuteTemplate :: "startup_ops \<Rightarrow> string \<Rightarrow> string \<Rightarrow> TemplateData \<Rightarrow> (('s, 'x) world, string) prog" where
  "ExecuteTemplate T customTemplate role td =
     bindp (tpl_call T ''PackageList'' (liftr (PackageList td))) (\<lambda>pkgs.
     bindp (tpl_call T ''PrekVersion'' (liftr (PrekVersion td))) (\<lambda>prek.
     bindp (if role = ''master''
            then bindp (if td_InitConfiguration td \<noteq> None then tpl_call T ''InitConfigurationYAML'' (InitConfigurationYAML T td) else ret '''') (\<lambda>i.
                 bindp (if td_ClusterConfiguration td \<noteq> None then tpl_call T ''ClusterConfigurationYAML'' (liftr (ClusterConfigurationYAML T td)) else ret '''') (\<lambda>c.
                 ret [''InitConfigurationYAML'' \<mapsto> i, ''ClusterConfigurationYAML'' \<mapsto> c]))
            else ret Map.empty) (\<lambda>confs.
     liftr (tpl_Execute T customTemplate role td (confs(''PackageList'' \<mapsto> pkgs, ''PrekVersion'' \<mapsto> prek))))))"

definition RenderStartupScript ::
  "('s, 'x) env \<Rightarrow> startup_ops \<Rightarrow> ('s, 'x) template_hooks \<Rightarrow> Machine \<Rightarrow> string \<Rightarrow> string \<Rightarrow> (('s, 'x) world, string) prog" where
  "RenderStartupScript E T H machine token customTemplate =
     bindp (liftr (tpl_Parse T customTemplate)) (\<lambda>_.
     if IsControlPlaneMachine machine
     then bindp (NewMasterTemplateData E T H machine token) (\<lambda>td. ExecuteTemplate T customTemplate ''master'' td)
     else bindp (NewNodeTemplateData E T H machine token) (\<lambda>td. ExecuteTemplate T customTemplate ''node'' td))"

end
