(* ===== verification/Local_Fs.thy ===== *)
theory Local_Fs
  imports Go_Strings "HOL-Library.AList"
begin

text \<open>
  The file system as the local \<^verbatim>\<open>stow\<close> container uses it
  (\<^verbatim>\<open>vendor/gomodules.xyz/stow/local/container.go\<close>), for the default store of pharmer.

  The operating system is a working directory and a list of nodes under absolute cleaned
  paths; the order of the list is the order in which a directory is read, so a fact about
  every file system is a fact about every directory order.  Calls fail for reasons that the
  state shows (missing file, directory in place of a file), not spontaneously.
\<close>

section \<open>Operating system calls\<close>

datatype node = File string | Dir

record os =
  cwd :: string
  fs :: "(string \<times> node) list"

definition os_resolve :: "os \<Rightarrow> string \<Rightarrow> string" where
  "os_resolve st p = (if filepath_IsAbs p then filepath_Clean p else filepath_Join [cwd st, p])"

definition path_segs :: "string \<Rightarrow> string list" where
  "path_segs p = filter (\<lambda>s. s \<noteq> '''') (split_on (CHR ''/'') p)"

definition abs_path :: "string list \<Rightarrow> string" where
  "abs_path segs = CHR ''/'' # join ''/'' segs"

text \<open>A path and all directories above it, the root excluded, outermost first.\<close>

definition ancestors :: "string \<Rightarrow> string list" where
  "ancestors p = map (\<lambda>k. abs_path (take k (path_segs p))) [1..<Suc (length (path_segs p))]"

definition is_file :: "(string \<times> node) list \<Rightarrow> string \<Rightarrow> bool" where
  "is_file f p = (case map_of f p of Some (File _) \<Rightarrow> True | _ \<Rightarrow> False)"

datatype stat_result = Stat_NotExist | Stat_NotDir | Stat_Found node

definition os_Stat :: "os \<Rightarrow> string \<Rightarrow> stat_result" where
  "os_Stat st p =
     (let q = os_resolve st p in
      if path_segs q = [] then Stat_Found Dir
      else if list_ex (is_file (fs st)) (butlast (ancestors q)) then Stat_NotDir
      else (case map_of (fs st) q of None \<Rightarrow> Stat_NotExist | Some n \<Rightarrow> Stat_Found n))"

fun mkdirs :: "string list \<Rightarrow> (string \<times> node) list \<Rightarrow> (string \<times> node) list res" where
  "mkdirs [] f = Inr f"
| "mkdirs (p # ps) f =
     (case map_of f p of
        Some (File _) \<Rightarrow> Inl (Err (''mkdir '' @ p @ '': not a directory''))
      | Some Dir \<Rightarrow> mkdirs ps f
      | None \<Rightarrow> mkdirs ps (AList.update p Dir f))"

definition os_MkdirAll :: "string \<Rightarrow> (os, unit) prog" where
  "os_MkdirAll p = (\<lambda>st. case mkdirs (ancestors (os_resolve st p)) (fs st) of
      Inl e \<Rightarrow> (Inl e, st) | Inr f \<Rightarrow> (Inr (), st\<lparr>fs := f\<rparr>))"

text \<open>\<^verbatim>\<open>os.Create\<close> and \<^verbatim>\<open>io.Copy\<close> of the whole content.\<close>

definition os_WriteFile :: "string \<Rightarrow> string \<Rightarrow> (os, unit) prog" where
  "os_WriteFile p data = (\<lambda>st. case os_Stat st p of
      Stat_NotDir \<Rightarrow> (Inl (Err (''open '' @ p @ '': not a directory'')), st)
    | Stat_Found Dir \<Rightarrow> (Inl (Err (''open '' @ p @ '': is a directory'')), st)
    | _ \<Rightarrow> (Inr (), st\<lparr>fs := AList.update (os_resolve st p) (File data) (fs st)\<rparr>))"

definition os_ReadFile :: "string \<Rightarrow> os \<Rightarrow> string res" where
  "os_ReadFile p st = (case os_Stat st p of
      Stat_Found (File d) \<Rightarrow> Inr d
    | Stat_Found Dir \<Rightarrow> Inl (Err (''read '' @ p @ '': is a directory''))
    | Stat_NotDir \<Rightarrow> Inl (Err (''open '' @ p @ '': not a directory''))
    | Stat_NotExist \<Rightarrow> Inl (Err (''open '' @ p @ '': no such file or directory'')))"

definition is_child :: "string \<Rightarrow> string \<Rightarrow> bool" where
  "is_child d p \<longleftrightarrow> (\<exists>s \<in> set (path_segs p). path_segs p = path_segs d @ [s])"

definition os_ReadDir :: "string \<Rightarrow> os \<Rightarrow> (string \<times> node) list res" where
  "os_ReadDir p st = (case os_Stat st p of
      Stat_Found Dir \<Rightarrow> Inr (filter (\<lambda>(q, n). is_child (os_resolve st p) q) (fs st))
    | Stat_Found (File d) \<Rightarrow> Inl (Err (''readdirent: not a directory''))
    | Stat_NotDir \<Rightarrow> Inl (Err (''open '' @ p @ '': not a directory''))
    | Stat_NotExist \<Rightarrow> Inl (Err (''open '' @ p @ '': no such file or directory'')))"

definition os_Remove :: "string \<Rightarrow> (os, unit) prog" where
  "os_Remove p = (\<lambda>st. case os_Stat st p of
      Stat_NotExist \<Rightarrow> (Inl (Err (''remove '' @ p @ '': no such file or directory'')), st)
    | Stat_NotDir \<Rightarrow> (Inl (Err (''remove '' @ p @ '': not a directory'')), st)
    | Stat_Found n \<Rightarrow>
        (if path_segs (os_resolve st p) = []
         then (Inl (Err (''remove '' @ p @ '': device or resource busy'')), st)
         else if n = Dir \<and> list_ex (\<lambda>(q, _). is_child (os_resolve st p) q) (fs st)
         then (Inl (Err (''remove '' @ p @ '': directory not empty'')), st)
         else (Inr (), st\<lparr>fs := AList.delete (os_resolve st p) (fs st)\<rparr>)))"

section \<open>The local container\<close>

text \<open>
  An item is its path.  \<^verbatim>\<open>Item\<close> dereferences the missing file information when
  \<^verbatim>\<open>os.Stat\<close> fails for another reason than a missing file.
\<close>

definition stow_Item :: "string \<Rightarrow> string \<Rightarrow> os \<Rightarrow> string res" where
  "stow_Item c i st =
     (let path = (if filepath_IsAbs i then i else filepath_Join [c, i]) in
      case os_Stat st path of
        Stat_NotExist \<Rightarrow> Inl (Err ''not found'')
      | Stat_NotDir \<Rightarrow> Inl (Panic ''nil pointer dereference'')
      | Stat_Found Dir \<Rightarrow> Inl (Err ''unexpected directory'')
      | Stat_Found (File _) \<Rightarrow> Inr path)"

definition stow_Put :: "string \<Rightarrow> string \<Rightarrow> string \<Rightarrow> (os, string) prog" where
  "stow_Put c i data =
     (let path = filepath_Join [c, i] in
      bindp (os_MkdirAll (filepath_Dir path)) (\<lambda>_.
      bindp (os_WriteFile path data) (\<lambda>_. ret path)))"

definition stow_RemoveItem :: "string \<Rightarrow> (os, unit) prog" where
  "stow_RemoveItem i = os_Remove i"

fun seek_cursor :: "string \<Rightarrow> (string \<times> node) list \<Rightarrow> (string \<times> node) list res" where
  "seek_cursor c [] = Inl (Err ''bad cursor'')"
| "seek_cursor c (f # rest) = (if fst f = c then Inr (f # rest) else seek_cursor c rest)"

text \<open>\<^verbatim>\<open>Browse\<close> with the delimiter \<^verbatim>\<open>"/"\<close>: one page of items and the cursor of the next.\<close>

definition stow_Browse :: "string \<Rightarrow> string \<Rightarrow> string \<Rightarrow> nat \<Rightarrow> os \<Rightarrow> (string list \<times> string) res" where
  "stow_Browse c pre cursor count st =
     (let conPrefixLen = length c + 1 in
      rbind (os_ReadDir (filepath_Join [c, pre]) st) (\<lambda>all.
      rbind (if cursor \<noteq> '''' then seek_cursor (filepath_Join [c, cursor]) all else Inr all) (\<lambda>files.
        let cursor' = (if length files > count then drop conPrefixLen (fst (files ! count)) else '''');
            page = (if length files > count then take count files else files);
            items = map fst (filter (\<lambda>(p, n). n \<noteq> Dir \<and> has_prefix (drop conPrefixLen p) pre) page)
        in Inr (items, cursor'))))"

section \<open>Paths made of plain segments\<close>

abbreviation plain_segs :: "string list \<Rightarrow> bool" where
  "plain_segs segs \<equiv> (\<forall>s \<in> set segs. plain_seg s)"

lemma plain_segs_no_slash: "plain_segs segs \<Longrightarrow> s \<in> set segs \<Longrightarrow> CHR ''/'' \<notin> set s"
  by (auto simp: plain_seg_def)

lemma plain_segs_nonempty: "plain_segs segs \<Longrightarrow> filter (\<lambda>s. s \<noteq> '''') segs = segs"
  by (induction segs) (auto simp: plain_seg_def)

lemma split_abs_path:
  "segs \<noteq> [] \<Longrightarrow> plain_segs segs \<Longrightarrow> split_on (CHR ''/'') (abs_path segs) = '''' # segs"
  by (simp add: abs_path_def split_on_join plain_segs_no_slash)

lemma path_segs_abs [simp]: "segs \<noteq> [] \<Longrightarrow> plain_segs segs \<Longrightarrow> path_segs (abs_path segs) = segs"
  by (simp add: path_segs_def split_abs_path plain_segs_nonempty)

lemma abs_path_inj:
  "abs_path xs = abs_path ys \<Longrightarrow> xs \<noteq> [] \<Longrightarrow> ys \<noteq> [] \<Longrightarrow> plain_segs xs \<Longrightarrow> plain_segs ys \<Longrightarrow> xs = ys"
  by (metis path_segs_abs)

lemma foldl_clean_abs:
  "plain_segs segs \<Longrightarrow> foldl (clean_step r) [] ('''' # segs) = segs"
  using foldl_clean_step_plain [of segs r "[]"] by (simp add: clean_step_def)

lemma Clean_abs_path [simp]:
  assumes "segs \<noteq> []" and "plain_segs segs"
  shows "filepath_Clean (abs_path segs) = abs_path segs"
proof -
  have "hd (abs_path segs) = CHR ''/''" "abs_path segs \<noteq> ''''" by (simp_all add: abs_path_def)
  then show ?thesis
    using foldl_clean_abs [OF assms(2), of True] split_abs_path [OF assms]
    by (simp add: filepath_Clean_def Let_def) (simp add: abs_path_def)
qed

lemma IsAbs_abs_path [simp]: "filepath_IsAbs (abs_path segs)"
  by (simp add: filepath_IsAbs_def has_prefix_def abs_path_def)

lemma resolve_abs_path [simp]:
  "segs \<noteq> [] \<Longrightarrow> plain_segs segs \<Longrightarrow> os_resolve st (abs_path segs) = abs_path segs"
  by (simp add: os_resolve_def)

lemma join_append: "xs \<noteq> [] \<Longrightarrow> ys \<noteq> [] \<Longrightarrow> join sep (xs @ ys) = join sep xs @ sep @ join sep ys"
proof (induction xs)
  case (Cons x xs)
  then show ?case by (cases "xs = []") (simp_all add: join_Cons)
qed simp

lemma Join_abs_path:
  assumes "cs \<noteq> []" "ids \<noteq> []" "plain_segs cs" "plain_segs ids"
  shows "filepath_Join [abs_path cs, join ''/'' ids] = abs_path (cs @ ids)"
proof -
  have eq: "join ''/'' [abs_path cs, join ''/'' ids] = abs_path (cs @ ids)"
    using assms by (simp add: abs_path_def join_append)
  have "abs_path cs \<noteq> ''''" by (simp add: abs_path_def)
  then have "filepath_Join [abs_path cs, join ''/'' ids] = filepath_Clean (abs_path (cs @ ids))"
    by (simp add: filepath_Join_def eq [unfolded join.simps, simplified])
  also have "\<dots> = abs_path (cs @ ids)" using assms by (intro Clean_abs_path) auto
  finally show ?thesis .
qed

lemma split_abs_slash:
  assumes "segs \<noteq> []" "plain_segs segs"
  shows "split_on (CHR ''/'') (CHR ''/'' # join ''/'' (segs @ [''''])) = '''' # segs @ ['''']"
proof -
  have "CHR ''/'' \<notin> set x" if "x \<in> set (segs @ [''''])" for x
    using that plain_segs_no_slash [OF assms(2)] by auto
  then have "split_on (CHR ''/'') (join ''/'' (segs @ [''''])) = segs @ ['''']"
    by (intro split_on_join) simp_all
  then show ?thesis by simp
qed

lemma Clean_trailing_slash:
  assumes "segs \<noteq> []" "plain_segs segs"
  shows "filepath_Clean (abs_path segs @ ''/'') = abs_path segs"
proof -
  have eq: "abs_path segs @ ''/'' = CHR ''/'' # join ''/'' (segs @ [''''])"
    using assms by (simp add: abs_path_def join_append)
  have "foldl (clean_step True) [] ('''' # segs @ ['''']) = segs"
    using foldl_clean_step_plain [of "segs" True "[]"] assms by (auto simp: clean_step_def)
  then have "foldl (clean_step True) [] (split_on (CHR ''/'') (abs_path segs @ ''/'')) = segs"
    unfolding eq split_abs_slash [OF assms] .
  then show ?thesis by (simp add: filepath_Clean_def Let_def) (simp add: abs_path_def)
qed

text \<open>A trailing slash, as \<^verbatim>\<open>List\<close> passes it to \<^verbatim>\<open>Browse\<close>, is cleaned away.\<close>

lemma Join_abs_path_slash:
  assumes "cs \<noteq> []" "ids \<noteq> []" "plain_segs cs" "plain_segs ids"
  shows "filepath_Join [abs_path cs, join ''/'' ids @ ''/''] = abs_path (cs @ ids)"
proof -
  have eq: "join ''/'' [abs_path cs, join ''/'' ids @ ''/''] = abs_path (cs @ ids) @ ''/''"
    using assms by (simp add: abs_path_def join_append)
  have "filepath_Join [abs_path cs, join ''/'' ids @ ''/''] = filepath_Clean (abs_path (cs @ ids) @ ''/'')"
    unfolding eq [symmetric] by (simp add: filepath_Join_def abs_path_def)
  also have "\<dots> = abs_path (cs @ ids)" using assms by (intro Clean_trailing_slash) auto
  finally show ?thesis .
qed

section \<open>Files below a directory\<close>

text \<open>No segment of the path is a file: what keeps \<^verbatim>\<open>os.Stat\<close> and \<^verbatim>\<open>os.MkdirAll\<close> from failing.\<close>

definition dirs_ok :: "os \<Rightarrow> string list \<Rightarrow> bool" where
  "dirs_ok st segs \<longleftrightarrow> list_all (\<lambda>p. \<not> is_file (fs st) p) (ancestors (abs_path segs))"

lemma ancestors_abs:
  "segs \<noteq> [] \<Longrightarrow> plain_segs segs \<Longrightarrow>
    ancestors (abs_path segs) = map (\<lambda>k. abs_path (take k segs)) [1..<Suc (length segs)]"
  by (simp add: ancestors_def)

lemma ancestors_snoc:
  assumes "segs \<noteq> []" "plain_segs segs" "plain_seg s"
  shows "ancestors (abs_path (segs @ [s])) = ancestors (abs_path segs) @ [abs_path (segs @ [s])]"
  using assms by (subst (1 2) ancestors_abs) (auto simp: less_Suc_eq_le)

lemma in_ancestors_shorter:
  assumes "segs \<noteq> []" "plain_segs segs" "p \<in> set (ancestors (abs_path segs))"
  obtains k where "0 < k" "k \<le> length segs" "p = abs_path (take k segs)"
proof -
  from assms obtain k where "k \<in> set [1..<Suc (length segs)]" "p = abs_path (take k segs)"
    unfolding ancestors_abs [OF assms(1,2)] by (auto simp del: upt_Suc)
  then show ?thesis by (intro that) (auto simp del: upt_Suc)
qed

lemma child_not_ancestor:
  assumes "segs \<noteq> []" "plain_segs segs" "plain_segs (segs @ s)" "s \<noteq> []"
  shows "abs_path (segs @ s) \<notin> set (ancestors (abs_path segs))"
proof
  assume "abs_path (segs @ s) \<in> set (ancestors (abs_path segs))"
  then obtain k where k: "0 < k" "k \<le> length segs" "abs_path (segs @ s) = abs_path (take k segs)"
    using in_ancestors_shorter [OF assms(1,2)] by blast
  have "segs @ s = take k segs"
  proof (rule abs_path_inj [OF k(3)])
    show "take k segs \<noteq> []" using assms(1) k by simp
    show "plain_segs (take k segs)" using assms(2) by (auto dest: in_set_takeD)
  qed (use assms in simp_all)
  then have "length (segs @ s) = length (take k segs)" by simp
  with assms(4) k(2) show False by (cases s) simp_all
qed

lemma Stat_child:
  assumes "segs \<noteq> []" "plain_segs segs" "plain_seg s" "dirs_ok st segs"
  shows "os_Stat st (abs_path (segs @ [s])) =
    (case map_of (fs st) (abs_path (segs @ [s])) of None \<Rightarrow> Stat_NotExist | Some n \<Rightarrow> Stat_Found n)"
proof -
  have "butlast (ancestors (abs_path (segs @ [s]))) = ancestors (abs_path segs)"
    using assms by (simp add: ancestors_snoc)
  moreover have "\<not> list_ex (is_file (fs st)) (ancestors (abs_path segs))"
    using assms(4) by (auto simp: dirs_ok_def list_ex_iff list_all_iff)
  moreover have "os_resolve st (abs_path (segs @ [s])) = abs_path (segs @ [s])"
    using assms by (intro resolve_abs_path) auto
  moreover have "path_segs (abs_path (segs @ [s])) = segs @ [s]"
    using assms by (intro path_segs_abs) auto
  ultimately show ?thesis by (simp add: os_Stat_def Let_def)
qed

lemma Dir_abs_path:
  assumes "segs \<noteq> []" "plain_segs segs" "plain_seg s"
  shows "filepath_Dir (abs_path (segs @ [s])) = abs_path segs"
proof -
  have eq: "rev (abs_path (segs @ [s])) = rev s @ CHR ''/'' # rev (abs_path segs)"
    using assms(1) by (simp add: abs_path_def join_append)
  have "dropWhile (\<lambda>c. c \<noteq> CHR ''/'') (rev s @ CHR ''/'' # rev (abs_path segs)) = CHR ''/'' # rev (abs_path segs)"
    using assms(3) by (subst dropWhile_append2) (auto simp: plain_seg_def)
  then show ?thesis
    using Clean_trailing_slash [OF assms(1,2)] by (simp add: filepath_Dir_def eq)
qed

lemma mkdirs_ok:
  assumes "\<And>p. p \<in> set ps \<Longrightarrow> \<not> is_file f p"
  shows "\<exists>f'. mkdirs ps f = Inr f' \<and>
    map_of f' = (\<lambda>p. if p \<in> set ps then Some Dir else map_of f p)"
  using assms
proof (induction ps arbitrary: f)
  case (Cons p ps)
  define g where "g = (case map_of f p of None \<Rightarrow> AList.update p Dir f | Some _ \<Rightarrow> f)"
  have p: "map_of f p = None \<or> map_of f p = Some Dir"
    using Cons.prems [of p] by (auto simp: is_file_def split: option.splits node.splits)
  then have step: "mkdirs (p # ps) f = mkdirs ps g" by (auto simp: g_def)
  have g: "map_of g = (\<lambda>q. if q = p then Some Dir else map_of f q)"
    using p by (auto simp: g_def update_conv' fun_eq_iff)
  have "\<not> is_file g q" if "q \<in> set ps" for q
    using Cons.prems [of q] that by (simp add: is_file_def g)
  then obtain f' where "mkdirs ps g = Inr f'"
      "map_of f' = (\<lambda>p. if p \<in> set ps then Some Dir else map_of g p)"
    using Cons.IH by blast
  with g show ?case unfolding step by auto
qed simp

text \<open>
  \<^verbatim>\<open>Put\<close> of an item below a directory whose path is free of files: it succeeds, the item holds
  the data, the directories exist and nothing else changes.
\<close>

lemma Put_child:
  assumes "segs \<noteq> []" "plain_segs segs" "plain_seg s" "dirs_ok st segs"
    and nd: "map_of (fs st) (abs_path (segs @ [s])) \<noteq> Some Dir"
    and path: "filepath_Join [c, i] = abs_path (segs @ [s])"
  obtains st' where "stow_Put c i d st = (Inr (abs_path (segs @ [s])), st')"
    and "map_of (fs st') = (\<lambda>p. if p = abs_path (segs @ [s]) then Some (File d)
          else if p \<in> set (ancestors (abs_path segs)) then Some Dir else map_of (fs st) p)"
    and "cwd st' = cwd st"
proof -
  have "\<And>p. p \<in> set (ancestors (abs_path segs)) \<Longrightarrow> \<not> is_file (fs st) p"
    using assms(4) by (auto simp: dirs_ok_def list_all_iff)
  then obtain f where f: "mkdirs (ancestors (abs_path segs)) (fs st) = Inr f"
    "map_of f = (\<lambda>p. if p \<in> set (ancestors (abs_path segs)) then Some Dir else map_of (fs st) p)"
    using mkdirs_ok by blast
  let ?p = "abs_path (segs @ [s])"
  have mk: "os_MkdirAll (abs_path segs) st = (Inr (), st\<lparr>fs := f\<rparr>)"
    using assms f by (simp add: os_MkdirAll_def)
  have ok: "dirs_ok (st\<lparr>fs := f\<rparr>) segs"
    using f(2) by (auto simp: dirs_ok_def list_all_iff is_file_def)
  have notin: "?p \<notin> set (ancestors (abs_path segs))"
    using assms by (intro child_not_ancestor) auto
  have stat: "os_Stat (st\<lparr>fs := f\<rparr>) ?p =
      (case map_of (fs st) ?p of None \<Rightarrow> Stat_NotExist | Some n \<Rightarrow> Stat_Found n)"
    using Stat_child [OF assms(1-3) ok] notin f(2) by simp
  have resolve: "os_resolve (st\<lparr>fs := f\<rparr>) ?p = ?p"
    using assms by (intro resolve_abs_path) auto
  have "os_WriteFile ?p d (st\<lparr>fs := f\<rparr>) = (Inr (), st\<lparr>fs := AList.update ?p (File d) f\<rparr>)"
    using nd by (auto simp: os_WriteFile_def stat resolve split: option.splits node.splits)
  then have "stow_Put c i d st = (Inr ?p, st\<lparr>fs := AList.update ?p (File d) f\<rparr>)"
    using mk assms by (simp add: stow_Put_def path Let_def prog_run Dir_abs_path)
  then show ?thesis by (rule that) (auto simp: update_conv' f(2) fun_eq_iff)
qed

lemma Item_child:
  assumes "segs \<noteq> []" "plain_segs segs" "plain_seg s" "dirs_ok st segs"
    and "filepath_Join [c, i] = abs_path (segs @ [s])" "\<not> filepath_IsAbs i"
  shows "stow_Item c i st = (case map_of (fs st) (abs_path (segs @ [s])) of
      None \<Rightarrow> Inl (Err ''not found'')
    | Some Dir \<Rightarrow> Inl (Err ''unexpected directory'')
    | Some (File _) \<Rightarrow> Inr (abs_path (segs @ [s])))"
  using assms by (auto simp: stow_Item_def Let_def Stat_child split: option.splits node.splits)

lemma ReadFile_child:
  assumes "segs \<noteq> []" "plain_segs segs" "plain_seg s" "dirs_ok st segs"
    and "map_of (fs st) (abs_path (segs @ [s])) = Some (File d)"
  shows "os_ReadFile (abs_path (segs @ [s])) st = Inr d"
  using assms by (simp add: os_ReadFile_def Stat_child)

lemma Remove_child:
  assumes "segs \<noteq> []" "plain_segs segs" "plain_seg s" "dirs_ok st segs"
    and "map_of (fs st) (abs_path (segs @ [s])) = Some (File d)"
  shows "stow_RemoveItem (abs_path (segs @ [s])) st =
    (Inr (), st\<lparr>fs := AList.delete (abs_path (segs @ [s])) (fs st)\<rparr>)"
proof -
  have "os_resolve st (abs_path (segs @ [s])) = abs_path (segs @ [s])"
    using assms by (intro resolve_abs_path) auto
  then show ?thesis
    using assms by (simp add: stow_RemoveItem_def os_Remove_def Stat_child)
qed

section \<open>Well-formed file systems\<close>

text \<open>
  Every path in the list is absolute, cleaned and stands there once; the working directory is
  absolute.  All calls keep this, whatever path they are given.
\<close>

definition canonical :: "string \<Rightarrow> bool" where
  "canonical p \<longleftrightarrow> path_segs p \<noteq> [] \<and> list_all plain_seg (path_segs p) \<and> abs_path (path_segs p) = p"

definition os_wf :: "os \<Rightarrow> bool" where
  "os_wf st \<longleftrightarrow> filepath_IsAbs (cwd st) \<and> distinct (map fst (fs st)) \<and> list_all canonical (map fst (fs st))"

lemma canonical_abs_path [simp]: "segs \<noteq> [] \<Longrightarrow> plain_segs segs \<Longrightarrow> canonical (abs_path segs)"
  by (simp add: canonical_def list_all_iff)

lemma clean_step_plain:
  "plain_segs out \<Longrightarrow> CHR ''/'' \<notin> set seg \<Longrightarrow> plain_segs (clean_step True out seg)"
  by (auto simp: clean_step_def plain_seg_def dest: in_set_butlastD)

lemma foldl_clean_plain:
  "plain_segs out \<Longrightarrow> (\<And>s. s \<in> set segs \<Longrightarrow> CHR ''/'' \<notin> set s) \<Longrightarrow> plain_segs (foldl (clean_step True) out segs)"
proof (induction segs arbitrary: out)
  case (Cons s segs)
  have "plain_segs (clean_step True out s)" by (rule clean_step_plain) (use Cons.prems in simp_all)
  then show ?case using Cons.IH Cons.prems(2) by simp
qed simp

lemma Clean_canonical:
  assumes "filepath_IsAbs p"
  obtains segs where "plain_segs segs" "filepath_Clean p = abs_path segs"
proof
  show "plain_segs (foldl (clean_step True) [] (split_on (CHR ''/'') p))"
    by (rule foldl_clean_plain) (auto dest: split_on_no_sep)
  show "filepath_Clean p = abs_path (foldl (clean_step True) [] (split_on (CHR ''/'') p))"
    using assms by (cases p) (simp_all add: filepath_IsAbs_def has_prefix_def filepath_Clean_def abs_path_def Let_def)
qed

lemma resolve_canonical:
  assumes "os_wf st"
  obtains segs where "plain_segs segs" "os_resolve st p = abs_path segs"
proof (cases "filepath_IsAbs p")
  case True
  with that show ?thesis by (auto simp: os_resolve_def elim: Clean_canonical)
next
  case False
  obtain r where r: "cwd st = CHR ''/'' # r"
    using assms by (cases "cwd st") (auto simp: os_wf_def filepath_IsAbs_def has_prefix_def)
  have "filepath_IsAbs (cwd st @ ''/'' @ p)" by (simp add: r filepath_IsAbs_def has_prefix_def)
  then obtain segs where "plain_segs segs" "filepath_Clean (cwd st @ ''/'' @ p) = abs_path segs"
    by (rule Clean_canonical)
  then show ?thesis using False r by (intro that) (simp_all add: os_resolve_def filepath_Join_def)
qed

lemma path_segs_root [simp]: "path_segs (abs_path []) = []"
  by (simp add: path_segs_def abs_path_def)

lemma resolve_nonroot:
  assumes "os_wf st" "path_segs (os_resolve st p) \<noteq> []"
  shows "canonical (os_resolve st p)"
proof -
  obtain segs where segs: "plain_segs segs" "os_resolve st p = abs_path segs"
    using resolve_canonical [OF assms(1)] .
  with assms(2) have "segs \<noteq> []" by auto
  with segs show ?thesis by simp
qed

lemma ancestors_canonical:
  assumes "plain_segs segs" "p \<in> set (ancestors (abs_path segs))"
  shows "canonical p"
proof (cases "segs = []")
  case True
  with assms(2) show ?thesis by (simp add: ancestors_def)
next
  case False
  obtain k where k: "0 < k" "k \<le> length segs" "p = abs_path (take k segs)"
    using in_ancestors_shorter [OF False assms] .
  moreover have "canonical (abs_path (take k segs))"
    by (rule canonical_abs_path) (use False assms(1) k in \<open>auto dest: in_set_takeD\<close>)
  ultimately show ?thesis by simp
qed

lemma os_wf_update:
  "os_wf st \<Longrightarrow> canonical p \<Longrightarrow> os_wf (st\<lparr>fs := AList.update p nd (fs st)\<rparr>)"
  by (auto simp: os_wf_def update_keys distinct_update list_all_iff dom_update [symmetric])

lemma mkdirs_wf:
  assumes "mkdirs ps f = Inr f'" "distinct (map fst f)" "list_all canonical (map fst f)" "list_all canonical ps"
  shows "distinct (map fst f') \<and> list_all canonical (map fst f')"
  using assms
proof (induction ps f rule: mkdirs.induct)
  case (2 p ps f)
  have "list_all canonical (map fst (AList.update p Dir f))" "distinct (map fst (AList.update p Dir f))"
    using "2.prems" by (simp_all add: update_keys distinct_update list_all_iff)
  with 2 show ?case by (auto split: option.splits node.splits)
qed simp

lemma wf_MkdirAll: "invariant_of os_wf (os_MkdirAll p)"
proof (rule validI)
  fix s x s'
  assume s: "os_wf s" and "os_MkdirAll p s = (Inr x, s')"
  then obtain f where f: "mkdirs (ancestors (os_resolve s p)) (fs s) = Inr f" "s' = s\<lparr>fs := f\<rparr>"
    by (auto simp: os_MkdirAll_def split: sum.splits)
  have "list_all canonical (ancestors (os_resolve s p))"
    using resolve_canonical [OF s, of p] ancestors_canonical by (metis list_all_iff)
  from mkdirs_wf [OF f(1) _ _ this] show "os_wf s'" using s f(2) by (simp add: os_wf_def)
qed (auto simp: os_MkdirAll_def split: sum.splits)

lemma wf_WriteFile: "invariant_of os_wf (os_WriteFile p d)"
proof (rule validI)
  fix s x s'
  assume s: "os_wf s" and run: "os_WriteFile p d s = (Inr x, s')"
  then have "path_segs (os_resolve s p) \<noteq> []" "s' = s\<lparr>fs := AList.update (os_resolve s p) (File d) (fs s)\<rparr>"
    by (auto simp: os_WriteFile_def os_Stat_def Let_def split: if_splits option.splits node.splits stat_result.splits)
  then show "os_wf s'" using os_wf_update [OF s resolve_nonroot [OF s]] by simp
qed (auto simp: os_WriteFile_def split: stat_result.splits node.splits)

lemma wf_Remove: "invariant_of os_wf (os_Remove p)"
proof (rule validI)
  fix s x s'
  assume s: "os_wf s" and run: "os_Remove p s = (Inr x, s')"
  then have "s' = s\<lparr>fs := AList.delete (os_resolve s p) (fs s)\<rparr>"
    by (auto simp: os_Remove_def Let_def split: if_splits stat_result.splits)
  with s show "os_wf s'" by (auto simp: os_wf_def list_all_iff delete_keys distinct_removeAll)
qed (auto simp: os_Remove_def split: stat_result.splits if_splits)

lemma wf_Put [inv_rules]: "invariant_of os_wf (stow_Put c i d)"
  unfolding stow_Put_def Let_def by (intro inv_rules wf_MkdirAll wf_WriteFile)

lemma wf_RemoveItem [inv_rules]: "invariant_of os_wf (stow_RemoveItem i)"
  unfolding stow_RemoveItem_def by (rule wf_Remove)

end
