(* ===== verification/Store_Vfs.thy ===== *)
theory Store_Vfs
  imports Local_Fs Api_Cluster
begin

text \<open>
  The file store \<^verbatim>\<open>store/providers/vfs\<close>, the default storage of pharmer: one JSON file per
  object below the container directory, PEM files for certificates, plain files for SSH keys.

  Each method is a program over the operating system state.  \<^verbatim>\<open>encoding/json\<close> and the PEM
  encoder are parameters (\<open>codec\<close>).  A pointer argument that may be \<^verbatim>\<open>nil\<close> is an option.
  \<^verbatim>\<open>Create\<close> and \<^verbatim>\<open>Update\<close> stamp the type into the object they are given and return it; the
  model returns the stamped object.
\<close>

section \<open>Encoders and helpers\<close>

record 'a codec =
  marshal :: "'a \<Rightarrow> bytes res"
  unmarshal :: "bytes \<Rightarrow> 'a res"

text \<open>What a reader sees of an object that was written: encode, then decode.\<close>

definition reread :: "'a codec \<Rightarrow> 'a \<Rightarrow> 'a res" where
  "reread J x = rbind (marshal J x) (unmarshal J)"

record FileStore =
  container :: string
  prefix :: string

text \<open>The stores of one cluster have the cluster name as a further field; \<^verbatim>\<open>owner\<close> is never set.\<close>

record clusterScope = FileStore +
  cluster :: string
  owner :: string

definition pageSize :: nat where
  "pageSize = 50"

definition read_object :: "'a codec \<Rightarrow> string \<Rightarrow> (os, 'a) prog" where
  "read_object J item = bindp (query (os_ReadFile item)) (\<lambda>d. liftr (unmarshal J d))"

definition put_object :: "'a codec \<Rightarrow> string \<Rightarrow> string \<Rightarrow> 'a \<Rightarrow> (os, unit) prog" where
  "put_object J c i x = bindp (liftr (marshal J x)) (\<lambda>d. bindp (stow_Put c i d) (\<lambda>_. ret ()))"

fun read_items :: "'a codec \<Rightarrow> string list \<Rightarrow> os \<Rightarrow> 'a list res" where
  "read_items J [] st = Inr []"
| "read_items J (i # items) st =
     rbind (rbind (os_ReadFile i st) (unmarshal J)) (\<lambda>x. rbind (read_items J items st) (\<lambda>xs. Inr (x # xs)))"

text \<open>
  The loop of every \<^verbatim>\<open>List\<close> method: pages of \<^verbatim>\<open>Browse\<close> until the cursor is empty.  Whether it
  ends is a question about the pages, so the loop is a partial function.
\<close>

partial_function (option) list_loop ::
  "'a codec \<Rightarrow> string \<Rightarrow> string \<Rightarrow> string \<Rightarrow> string \<Rightarrow> 'a list \<Rightarrow> os \<Rightarrow> 'a list res option" where
  "list_loop J c home msg cursor result st =
     (case stow_Browse c (home @ ''/'') cursor pageSize st of
        Inl e \<Rightarrow> Some (Inl (reason_err msg e))
      | Inr page \<Rightarrow>
         (case read_items J (fst page) st of
            Inl e \<Rightarrow> Some (Inl (reason_err msg e))
          | Inr objs \<Rightarrow>
             if snd page = '''' then Some (Inr (result @ objs))
             else list_loop J c home msg (snd page) (result @ objs) st))"

section \<open>Clusters (cluster.go)\<close>

definition clusterFileStore_resourceHome :: "'z FileStore_scheme \<Rightarrow> string" where
  "clusterFileStore_resourceHome s = filepath_Join [prefix s, ''clusters'']"

definition clusterFileStore_resourceID :: "'z FileStore_scheme \<Rightarrow> string \<Rightarrow> string" where
  "clusterFileStore_resourceID s name = filepath_Join [clusterFileStore_resourceHome s, name @ ''.json'']"

definition clusterFileStore_List :: "Cluster codec \<Rightarrow> 'z FileStore_scheme \<Rightarrow> os \<Rightarrow> Cluster list res option" where
  "clusterFileStore_List J s st =
     list_loop J (container s) (clusterFileStore_resourceHome s) ''failed to list clusters.'' '''' [] st"

definition clusterFileStore_Get :: "Cluster codec \<Rightarrow> 'z FileStore_scheme \<Rightarrow> string \<Rightarrow> (os, Cluster) prog" where
  "clusterFileStore_Get J s name =
     (if name = '''' then fail (Err ''missing cluster name'')
      else bindp (reason (''cluster `'' @ name @ ''` does not exist.'')
                   (query (stow_Item (container s) (clusterFileStore_resourceID s name))))
             (\<lambda>item. read_object J item))"

definition clusterFileStore_Create :: "Cluster codec \<Rightarrow> 'z FileStore_scheme \<Rightarrow> Cluster option \<Rightarrow> (os, Cluster) prog" where
  "clusterFileStore_Create J s oobj = (case oobj of
     None \<Rightarrow> fail (Err ''missing cluster'')
   | Some obj0 \<Rightarrow>
       if c_Name obj0 = '''' then fail (Err ''missing cluster name'')
       else let obj = assign_Cluster obj0; i = clusterFileStore_resourceID s (c_Name obj) in
         bindp (attempt (query (stow_Item (container s) i))) (\<lambda>r.
         if is_ok r then fail (Err (''cluster `'' @ c_Name obj @ ''` already exists''))
         else bindp (put_object J (container s) i obj) (\<lambda>_. ret obj)))"

definition clusterFileStore_Update :: "Cluster codec \<Rightarrow> 'z FileStore_scheme \<Rightarrow> Cluster option \<Rightarrow> (os, Cluster) prog" where
  "clusterFileStore_Update J s oobj = (case oobj of
     None \<Rightarrow> fail (Err ''missing cluster'')
   | Some obj0 \<Rightarrow>
       if c_Name obj0 = '''' then fail (Err ''missing cluster name'')
       else let obj = assign_Cluster obj0; i = clusterFileStore_resourceID s (c_Name obj) in
         bindp (reason (''cluster `'' @ c_Name obj @ ''` does not exist.'')
                 (query (stow_Item (container s) i))) (\<lambda>_.
         bindp (put_object J (container s) i obj) (\<lambda>_. ret obj)))"

definition clusterFileStore_Delete :: "'z FileStore_scheme \<Rightarrow> string \<Rightarrow> (os, unit) prog" where
  "clusterFileStore_Delete s name =
     (if name = '''' then fail (Err ''missing cluster name'')
      else bindp (reason (''failed to get item '' @ name @ ''.'')
                   (query (stow_Item (container s) (clusterFileStore_resourceID s name))))
             (\<lambda>item. stow_RemoveItem item))"

definition clusterFileStore_UpdateStatus ::
  "Cluster codec \<Rightarrow> 'z FileStore_scheme \<Rightarrow> Cluster option \<Rightarrow> (os, Cluster) prog" where
  "clusterFileStore_UpdateStatus J s oobj = (case oobj of
     None \<Rightarrow> fail (Err ''missing cluster'')
   | Some obj0 \<Rightarrow>
       if c_Name obj0 = '''' then fail (Err ''missing cluster name'')
       else let obj = assign_Cluster obj0; i = clusterFileStore_resourceID s (c_Name obj) in
         bindp (reason (''cluster `'' @ c_Name obj @ ''` does not exist.'')
                 (query (stow_Item (container s) i))) (\<lambda>item.
         bindp (read_object J item) (\<lambda>existing0.
         let existing = existing0\<lparr>Status := Status obj\<rparr> in
         bindp (put_object J (container s) i existing) (\<lambda>_. ret existing))))"

text \<open>The file store keeps no UUID column: the method checks that the object exists.\<close>

definition clusterFileStore_UpdateUUID ::
  "'z FileStore_scheme \<Rightarrow> Cluster option \<Rightarrow> string \<Rightarrow> (os, Cluster) prog" where
  "clusterFileStore_UpdateUUID s oobj uuid = (case oobj of
     None \<Rightarrow> fail (Err ''missing cluster'')
   | Some obj0 \<Rightarrow>
       if c_Name obj0 = '''' then fail (Err ''missing cluster name'')
       else let obj = assign_Cluster obj0; i = clusterFileStore_resourceID s (c_Name obj) in
         bindp (reason (''cluster `'' @ c_Name obj @ ''` does not exist.'')
                 (query (stow_Item (container s) i))) (\<lambda>_. ret obj))"

section \<open>Credentials (credential.go)\<close>

definition credentialFileStore_resourceHome :: "'z FileStore_scheme \<Rightarrow> string" where
  "credentialFileStore_resourceHome s = filepath_Join [prefix s, ''credentials'']"

definition credentialFileStore_resourceID :: "'z FileStore_scheme \<Rightarrow> string \<Rightarrow> string" where
  "credentialFileStore_resourceID s name = filepath_Join [credentialFileStore_resourceHome s, name @ ''.json'']"

definition credentialFileStore_List ::
  "Credential codec \<Rightarrow> 'z FileStore_scheme \<Rightarrow> os \<Rightarrow> Credential list res option" where
  "credentialFileStore_List J s st =
     list_loop J (container s) (credentialFileStore_resourceHome s) ''failed to list credentials.'' '''' [] st"

definition credentialFileStore_Get :: "Credential codec \<Rightarrow> 'z FileStore_scheme \<Rightarrow> string \<Rightarrow> (os, Credential) prog" where
  "credentialFileStore_Get J s name =
     (if name = '''' then fail (Err ''missing credential name'')
      else bindp (reason (''credential `'' @ name @ ''` does not exist.'')
                   (query (stow_Item (container s) (credentialFileStore_resourceID s name))))
             (\<lambda>item. read_object J item))"

definition credentialFileStore_Create ::
  "Credential codec \<Rightarrow> 'z FileStore_scheme \<Rightarrow> Credential option \<Rightarrow> (os, Credential) prog" where
  "credentialFileStore_Create J s oobj = (case oobj of
     None \<Rightarrow> fail (Err ''missing credential'')
   | Some obj0 \<Rightarrow>
       if cr_Name obj0 = '''' then fail (Err ''missing credential name'')
       else let obj = assign_Credential obj0; i = credentialFileStore_resourceID s (cr_Name obj) in
         bindp (attempt (query (stow_Item (container s) i))) (\<lambda>r.
         if is_ok r then fail (Err (''credential `'' @ cr_Name obj @ ''` already exists''))
         else bindp (put_object J (container s) i obj) (\<lambda>_. ret obj)))"

definition credentialFileStore_Update ::
  "Credential codec \<Rightarrow> 'z FileStore_scheme \<Rightarrow> Credential option \<Rightarrow> (os, Credential) prog" where
  "credentialFileStore_Update J s oobj = (case oobj of
     None \<Rightarrow> fail (Err ''missing credential'')
   | Some obj0 \<Rightarrow>
       if cr_Name obj0 = '''' then fail (Err ''missing credential name'')
       else let obj = assign_Credential obj0; i = credentialFileStore_resourceID s (cr_Name obj) in
         bindp (reason (''credential `'' @ cr_Name obj @ ''` does not exist.'')
                 (query (stow_Item (container s) i))) (\<lambda>_.
         bindp (put_object J (container s) i obj) (\<lambda>_. ret obj)))"

definition credentialFileStore_Delete :: "'z FileStore_scheme \<Rightarrow> string \<Rightarrow> (os, unit) prog" where
  "credentialFileStore_Delete s name =
     (if name = '''' then fail (Err ''missing credential name'')
      else bindp (reason (''failed to get item '' @ name @ ''.'')
                   (query (stow_Item (container s) (credentialFileStore_resourceID s name))))
             (\<lambda>item. stow_RemoveItem item))"

section \<open>Machines (machine.go)\<close>

definition machineFileStore_resourceHome :: "'z clusterScope_scheme \<Rightarrow> string" where
  "machineFileStore_resourceHome s = filepath_Join [owner s, prefix s, ''clusters'', cluster s, ''machine'']"

definition machineFileStore_resourceID :: "'z clusterScope_scheme \<Rightarrow> string \<Rightarrow> string" where
  "machineFileStore_resourceID s name = filepath_Join [machineFileStore_resourceHome s, name @ ''.json'']"

definition machineFileStore_List :: "Machine codec \<Rightarrow> 'z clusterScope_scheme \<Rightarrow> os \<Rightarrow> Machine list res option" where
  "machineFileStore_List J s st =
     list_loop J (container s) (machineFileStore_resourceHome s) ''failed to list node groups.'' '''' [] st"

definition machineFileStore_Get :: "Machine codec \<Rightarrow> 'z clusterScope_scheme \<Rightarrow> string \<Rightarrow> (os, Machine) prog" where
  "machineFileStore_Get J s name =
     (if cluster s = '''' then fail (Err ''missing cluster name'')
      else if name = '''' then fail (Err ''missing node group name'')
      else bindp (reason (''NodeGroup `'' @ name @ ''` does not exist.'')
                   (query (stow_Item (container s) (machineFileStore_resourceID s name))))
             (\<lambda>item. read_object J item))"

definition machineFileStore_Create ::
  "Machine codec \<Rightarrow> 'z clusterScope_scheme \<Rightarrow> Machine option \<Rightarrow> (os, Machine) prog" where
  "machineFileStore_Create J s oobj =
     (if cluster s = '''' then fail (Err ''missing cluster name'')
      else case oobj of
        None \<Rightarrow> fail (Err ''missing node group'')
      | Some obj0 \<Rightarrow>
          if m_Name obj0 = '''' then fail (Err ''missing node group name'')
          else let obj = assign_Machine obj0; i = machineFileStore_resourceID s (m_Name obj) in
            bindp (attempt (query (stow_Item (container s) i))) (\<lambda>r.
            if is_ok r then fail (Err (''NodeGroup `'' @ m_Name obj @ ''` already exists''))
            else bindp (put_object J (container s) i obj) (\<lambda>_. ret obj)))"

definition machineFileStore_Update ::
  "Machine codec \<Rightarrow> 'z clusterScope_scheme \<Rightarrow> Machine option \<Rightarrow> (os, Machine) prog" where
  "machineFileStore_Update J s oobj =
     (if cluster s = '''' then fail (Err ''missing cluster name'')
      else case oobj of
        None \<Rightarrow> fail (Err ''missing node group'')
      | Some obj0 \<Rightarrow>
          if m_Name obj0 = '''' then fail (Err ''missing node group name'')
          else let obj = assign_Machine obj0; i = machineFileStore_resourceID s (m_Name obj) in
            bindp (reason (''NodeGroup `'' @ m_Name obj @ ''` does not exist.'')
                    (query (stow_Item (container s) i))) (\<lambda>_.
            bindp (put_object J (container s) i obj) (\<lambda>_. ret obj)))"

text \<open>The identifier passed to \<^verbatim>\<open>RemoveItem\<close> is the path relative to the container.\<close>

definition machineFileStore_Delete :: "'z clusterScope_scheme \<Rightarrow> string \<Rightarrow> (os, unit) prog" where
  "machineFileStore_Delete s name =
     (if cluster s = '''' then fail (Err ''missing cluster name'')
      else if name = '''' then fail (Err ''missing node group name'')
      else stow_RemoveItem (machineFileStore_resourceID s name))"

definition machineFileStore_UpdateStatus ::
  "Machine codec \<Rightarrow> 'z clusterScope_scheme \<Rightarrow> Machine option \<Rightarrow> (os, Machine) prog" where
  "machineFileStore_UpdateStatus J s oobj =
     (if cluster s = '''' then fail (Err ''missing cluster name'')
      else case oobj of
        None \<Rightarrow> fail (Err ''missing node group'')
      | Some obj0 \<Rightarrow>
          if m_Name obj0 = '''' then fail (Err ''missing node group name'')
          else let obj = assign_Machine obj0; i = machineFileStore_resourceID s (m_Name obj) in
            bindp (reason (''NodeGroup `'' @ m_Name obj @ ''` does not exist.'')
                    (query (stow_Item (container s) i))) (\<lambda>item.
            bindp (read_object J item) (\<lambda>existing0.
            let existing = existing0\<lparr>m_Status := m_Status obj\<rparr> in
            bindp (put_object J (container s) i existing) (\<lambda>_. ret existing))))"

section \<open>Machine sets (machineset.go)\<close>

definition machineSetFileStore_resourceHome :: "'z clusterScope_scheme \<Rightarrow> string" where
  "machineSetFileStore_resourceHome s = filepath_Join [prefix s, ''clusters'', cluster s, ''machineset'']"

definition machineSetFileStore_resourceID :: "'z clusterScope_scheme \<Rightarrow> string \<Rightarrow> string" where
  "machineSetFileStore_resourceID s name = filepath_Join [machineSetFileStore_resourceHome s, name @ ''.json'']"

definition machineSetFileStore_List ::
  "MachineSet codec \<Rightarrow> 'z clusterScope_scheme \<Rightarrow> os \<Rightarrow> MachineSet list res option" where
  "machineSetFileStore_List J s st =
     list_loop J (container s) (machineSetFileStore_resourceHome s) ''failed to list node groups.'' '''' [] st"

definition machineSetFileStore_Get ::
  "MachineSet codec \<Rightarrow> 'z clusterScope_scheme \<Rightarrow> string \<Rightarrow> (os, MachineSet) prog" where
  "machineSetFileStore_Get J s name =
     (if cluster s = '''' then fail (Err ''missing cluster name'')
      else if name = '''' then fail (Err ''missing node group name'')
      else bindp (reason (''NodeGroup `'' @ name @ ''` does not exist.'')
                   (query (stow_Item (container s) (machineSetFileStore_resourceID s name))))
             (\<lambda>item. read_object J item))"

definition machineSetFileStore_Create ::
  "MachineSet codec \<Rightarrow> 'z clusterScope_scheme \<Rightarrow> MachineSet option \<Rightarrow> (os, MachineSet) prog" where
  "machineSetFileStore_Create J s oobj =
     (if cluster s = '''' then fail (Err ''missing cluster name'')
      else case oobj of
        None \<Rightarrow> fail (Err ''missing node group'')
      | Some obj0 \<Rightarrow>
          if ms_Name obj0 = '''' then fail (Err ''missing node group name'')
          else let obj = assign_MachineSet obj0; i = machineSetFileStore_resourceID s (ms_Name obj) in
            bindp (attempt (query (stow_Item (container s) i))) (\<lambda>r.
            if is_ok r then fail (Err (''NodeGroup `'' @ ms_Name obj @ ''` already exists''))
            else bindp (put_object J (container s) i obj) (\<lambda>_. ret obj)))"

definition machineSetFileStore_Update ::
  "MachineSet codec \<Rightarrow> 'z clusterScope_scheme \<Rightarrow> MachineSet option \<Rightarrow> (os, MachineSet) prog" where
  "machineSetFileStore_Update J s oobj =
     (if cluster s = '''' then fail (Err ''missing cluster name'')
      else case oobj of
        None \<Rightarrow> fail (Err ''missing node group'')
      | Some obj0 \<Rightarrow>
          if ms_Name obj0 = '''' then fail (Err ''missing node group name'')
          else let obj = assign_MachineSet obj0; i = machineSetFileStore_resourceID s (ms_Name obj) in
            bindp (reason (''NodeGroup `'' @ ms_Name obj @ ''` does not exist.'')
                    (query (stow_Item (container s) i))) (\<lambda>_.
            bindp (put_object J (container s) i obj) (\<lambda>_. ret obj)))"

definition machineSetFileStore_Delete :: "'z clusterScope_scheme \<Rightarrow> string \<Rightarrow> (os, unit) prog" where
  "machineSetFileStore_Delete s name =
     (if cluster s = '''' then fail (Err ''missing cluster name'')
      else if name = '''' then fail (Err ''missing node group name'')
      else stow_RemoveItem (filepath_Join [container s, machineSetFileStore_resourceID s name]))"

definition machineSetFileStore_UpdateStatus ::
  "MachineSet codec \<Rightarrow> 'z clusterScope_scheme \<Rightarrow> MachineSet option \<Rightarrow> (os, MachineSet) prog" where
  "machineSetFileStore_UpdateStatus J s oobj =
     (if cluster s = '''' then fail (Err ''missing cluster name'')
      else case oobj of
        None \<Rightarrow> fail (Err ''missing node group'')
      | Some obj0 \<Rightarrow>
          if ms_Name obj0 = '''' then fail (Err ''missing node group name'')
          else let obj = assign_MachineSet obj0; i = machineSetFileStore_resourceID s (ms_Name obj) in
            bindp (reason (''NodeGroup `'' @ ms_Name obj @ ''` does not exist.'')
                    (query (stow_Item (container s) i))) (\<lambda>item.
            bindp (read_object J item) (\<lambda>existing0.
            let existing = existing0\<lparr>ms_Status := ms_Status obj\<rparr> in
            bindp (put_object J (container s) i existing) (\<lambda>_. ret existing))))"

section \<open>SSH keys (ssh.go)\<close>

definition sshKeyFileStore_resourceHome :: "'z clusterScope_scheme \<Rightarrow> string" where
  "sshKeyFileStore_resourceHome s = filepath_Join [prefix s, ''clusters'', cluster s, ''ssh'']"

definition sshKeyFileStore_pubKeyID :: "'z clusterScope_scheme \<Rightarrow> string \<Rightarrow> string" where
  "sshKeyFileStore_pubKeyID s name = filepath_Join [sshKeyFileStore_resourceHome s, ''id_'' @ name @ ''.pub'']"

definition sshKeyFileStore_privKeyID :: "'z clusterScope_scheme \<Rightarrow> string \<Rightarrow> string" where
  "sshKeyFileStore_privKeyID s name = filepath_Join [sshKeyFileStore_resourceHome s, ''id_'' @ name]"

definition sshKeyFileStore_Get :: "'z clusterScope_scheme \<Rightarrow> string \<Rightarrow> (os, bytes \<times> bytes) prog" where
  "sshKeyFileStore_Get s name =
     (if cluster s = '''' then fail (Err ''missing cluster name'')
      else if name = '''' then fail (Err ''missing ssh key name'')
      else bindp (reason (''SSH `id_'' @ name @ ''.pub` does not exist.'')
                   (query (stow_Item (container s) (sshKeyFileStore_pubKeyID s name)))) (\<lambda>pub.
           bindp (query (os_ReadFile pub)) (\<lambda>pubKey.
           bindp (reason (''SSH key `id_'' @ name @ ''` does not exist.'')
                   (query (stow_Item (container s) (sshKeyFileStore_privKeyID s name)))) (\<lambda>priv.
           bindp (query (os_ReadFile priv)) (\<lambda>privKey. ret (pubKey, privKey))))))"

definition sshKeyFileStore_Create :: "'z clusterScope_scheme \<Rightarrow> string \<Rightarrow> bytes \<Rightarrow> bytes \<Rightarrow> (os, unit) prog" where
  "sshKeyFileStore_Create s name pubKey privKey =
     (if cluster s = '''' then fail (Err ''missing cluster name'')
      else if pubKey = '''' then fail (Err ''empty ssh public key'')
      else if privKey = '''' then fail (Err ''empty ssh private key'')
      else let i = sshKeyFileStore_pubKeyID s name; j = sshKeyFileStore_privKeyID s name in
        bindp (attempt (query (stow_Item (container s) i))) (\<lambda>r.
        if is_ok r then fail (Err (''SSH `id_'' @ name @ ''.pub` already exists. Reason: <nil>''))
        else bindp (reason (''failed to store ssh public key `id_'' @ name @ ''.pub`.'')
                     (stow_Put (container s) i pubKey)) (\<lambda>_.
        bindp (attempt (query (stow_Item (container s) j))) (\<lambda>r2.
        if is_ok r2 then fail (Err (''SSH `id_'' @ name @ ''` already exists. Reason: <nil>''))
        else bindp (reason (''failed to store ssh private key `id_'' @ name @ ''`.'')
                     (stow_Put (container s) j privKey)) (\<lambda>_. ret ())))))"

definition sshKeyFileStore_Delete :: "'z clusterScope_scheme \<Rightarrow> string \<Rightarrow> (os, unit) prog" where
  "sshKeyFileStore_Delete s name =
     (if cluster s = '''' then fail (Err ''missing cluster name'')
      else if name = '''' then fail (Err ''missing ssh key name'')
      else bindp (reason (''failed to get item '' @ name @ ''.'')
                   (query (stow_Item (container s) (sshKeyFileStore_pubKeyID s name)))) (\<lambda>pubKeyItem.
           bindp (reason (''failed to delete ssh public key id_'' @ name @ ''.pub.'')
                   (stow_RemoveItem pubKeyItem)) (\<lambda>_.
           bindp (reason (''failed to get item '' @ name @ ''.'')
                   (query (stow_Item (container s) (sshKeyFileStore_privKeyID s name)))) (\<lambda>privKeyItem.
           reason (''failed to delete ssh private key id_'' @ name @ ''.'')
             (stow_RemoveItem privKeyItem)))))"

section \<open>Certificates (certificate.go)\<close>

text \<open>
  The PEM encoder and parser are parameters.  \<^verbatim>\<open>ParseCertsPEM\<close> returns a list of which the
  first certificate is taken; the key has to be an RSA key.
\<close>

datatype 'k parsed_key = RSA_Key 'k | Other_Key

record ('c, 'k) pem =
  EncodeCertPEM :: "'c \<Rightarrow> bytes"
  EncodePrivateKeyPEM :: "'k \<Rightarrow> bytes"
  ParseCertsPEM :: "bytes \<Rightarrow> 'c list res"
  ParsePrivateKeyPEM :: "bytes \<Rightarrow> 'k parsed_key res"

definition certificateFileStore_resourceHome :: "'z clusterScope_scheme \<Rightarrow> string" where
  "certificateFileStore_resourceHome s = filepath_Join [prefix s, ''clusters'', cluster s, ''pki'']"

definition certificateFileStore_certID :: "'z clusterScope_scheme \<Rightarrow> string \<Rightarrow> string" where
  "certificateFileStore_certID s name = filepath_Join [certificateFileStore_resourceHome s, name @ ''.crt'']"

definition certificateFileStore_keyID :: "'z clusterScope_scheme \<Rightarrow> string \<Rightarrow> string" where
  "certificateFileStore_keyID s name = filepath_Join [certificateFileStore_resourceHome s, name @ ''.key'']"

definition first_cert :: "'c list \<Rightarrow> 'c res" where
  "first_cert cs = (case cs of [] \<Rightarrow> Inl (Panic ''index out of range'') | c # _ \<Rightarrow> Inr c)"

definition as_rsa :: "'k parsed_key \<Rightarrow> 'k res" where
  "as_rsa k = (case k of RSA_Key x \<Rightarrow> Inr x | Other_Key \<Rightarrow> Inl (Panic ''interface conversion''))"

definition certificateFileStore_Get ::
  "('c, 'k) pem \<Rightarrow> 'z clusterScope_scheme \<Rightarrow> string \<Rightarrow> (os, 'c \<times> 'k) prog" where
  "certificateFileStore_Get P s name =
     (if cluster s = '''' then fail (Err ''missing cluster name'')
      else if name = '''' then fail (Err ''missing certificate name'')
      else bindp (reason (''certificate `'' @ name @ ''.crt` does not exist.'')
                   (query (stow_Item (container s) (certificateFileStore_certID s name)))) (\<lambda>itemCrt.
           bindp (query (os_ReadFile itemCrt)) (\<lambda>crtPEM.
           bindp (liftr (ParseCertsPEM P crtPEM)) (\<lambda>crt.
           bindp (reason (''certificate key `'' @ name @ ''.key` does not exist.'')
                   (query (stow_Item (container s) (certificateFileStore_keyID s name)))) (\<lambda>itemKey.
           bindp (query (os_ReadFile itemKey)) (\<lambda>keyPEM.
           bindp (liftr (ParsePrivateKeyPEM P keyPEM)) (\<lambda>key.
           bindp (liftr (first_cert crt)) (\<lambda>c0.
           bindp (liftr (as_rsa key)) (\<lambda>k0. ret (c0, k0))))))))))"

definition certificateFileStore_Create ::
  "('c, 'k) pem \<Rightarrow> 'z clusterScope_scheme \<Rightarrow> string \<Rightarrow> 'c option \<Rightarrow> 'k option \<Rightarrow> (os, unit) prog" where
  "certificateFileStore_Create P s name ocrt okey =
     (if cluster s = '''' then fail (Err ''missing cluster name'')
      else case ocrt of None \<Rightarrow> fail (Err ''missing certificate'') | Some crt \<Rightarrow>
        (case okey of None \<Rightarrow> fail (Err ''missing certificate key'') | Some key \<Rightarrow>
          let i = certificateFileStore_certID s name; j = certificateFileStore_keyID s name in
          bindp (attempt (query (stow_Item (container s) i))) (\<lambda>r.
          if is_ok r then fail (Err (''certificate `'' @ name @ ''.crt` already exists. Reason: <nil>''))
          else bindp (reason (''failed to store certificate `'' @ name @ ''.crt`.'')
                       (stow_Put (container s) i (EncodeCertPEM P crt))) (\<lambda>_.
          bindp (attempt (query (stow_Item (container s) j))) (\<lambda>r2.
          if is_ok r2 then fail (Err (''certificate `'' @ name @ ''.key` already exists. Reason: <nil>''))
          else bindp (reason (''failed to store certificate key `'' @ name @ ''.key`.'')
                       (stow_Put (container s) j (EncodePrivateKeyPEM P key))) (\<lambda>_. ret ()))))))"

definition certificateFileStore_Delete :: "'z clusterScope_scheme \<Rightarrow> string \<Rightarrow> (os, unit) prog" where
  "certificateFileStore_Delete s name =
     (if cluster s = '''' then fail (Err ''missing cluster name'')
      else if name = '''' then fail (Err ''missing certificate name'')
      else bindp (reason (''failed to get item '' @ name @ ''.'')
                   (query (stow_Item (container s) (certificateFileStore_certID s name)))) (\<lambda>certItem.
           bindp (reason (''failed to delete certificate '' @ name @ ''.crt.'')
                   (stow_RemoveItem certItem)) (\<lambda>_.
           bindp (reason (''failed to get item '' @ name @ ''.'')
                   (query (stow_Item (container s) (certificateFileStore_keyID s name)))) (\<lambda>keyItem.
           reason (''failed to delete certificate key '' @ name @ ''.key.'')
             (stow_RemoveItem keyItem)))))"

section \<open>The store (store.go)\<close>

definition FileStore_New :: "string \<Rightarrow> string \<Rightarrow> FileStore" where
  "FileStore_New c p = \<lparr>container = c, prefix = p\<rparr>"

definition FileStore_scope :: "FileStore \<Rightarrow> string \<Rightarrow> clusterScope" where
  "FileStore_scope s c = \<lparr>container = container s, prefix = prefix s, cluster = c, owner = ''''\<rparr>"

end
