(* ===== verification/Digitalocean.thy ===== *)
theory Digitalocean
  imports Startup Store_Vfs
begin

text \<open>
  The DigitalOcean provider, \<^verbatim>\<open>cloud/providers/digitalocean\<close>: the connector to the cloud's API
  (\<^verbatim>\<open>cloud.go\<close>), the cloud manager (\<^verbatim>\<open>context.go\<close>, \<^verbatim>\<open>apply.go\<close>, \<^verbatim>\<open>create.go\<close>), the machine and the
  cluster actuator (\<^verbatim>\<open>machine_actuator.go\<close>, \<^verbatim>\<open>cluster_actuator.go\<close>), with the provider objects of
  \<^verbatim>\<open>apis/v1alpha1/digitalocean\<close>.

  The API client \<^verbatim>\<open>godo\<close> is a record of operations on the external state.  A call that the code
  asks for its HTTP status answers with a \<open>lookup\<close>.
\<close>

section \<open>Provider objects (apis/v1alpha1/digitalocean)\<close>

record DigitalOceanMachineProviderSpec =
  dm_TypeMeta :: TypeMeta
  dm_Region :: string
  dm_Size :: string
  dm_Image :: string
  dm_Tags :: "string list"
  dm_SSHPublicKeys :: "string list"
  dm_PrivateNetworking :: bool
  dm_Backups :: bool
  dm_IPv6 :: bool
  dm_Monitoring :: bool

record DigitalOceanMachineProviderStatus =
  InstanceID :: int
  InstanceStatus :: string

record ForwardingRule =
  EntryProtocol :: string
  EntryPort :: int
  TargetProtocol :: string
  TargetPort :: int
  TlsPassthrough :: bool

record HealthCheck =
  hc_Protocol :: string
  hc_Port :: int
  CheckIntervalSeconds :: int
  ResponseTimeoutSeconds :: int
  HealthyThreshold :: int
  UnhealthyThreshold :: int

record DOLoadBalancer =
  do_ID :: string
  do_Name :: string
  do_IP :: string
  do_Algorithm :: string
  do_Status :: string
  do_Created :: string
  do_ForwardingRules :: "ForwardingRule list"
  do_HealthCheck :: "HealthCheck option"
  do_StickySessions :: "string option"
  do_Region :: "string option"
  do_RedirectHttpToHttps :: bool

record DigitalOceanLoadBalancer =
  dl_ID :: string
  dl_Name :: string
  dl_IP :: string
  dl_Algorithm :: string
  dl_Status :: string
  dl_Created :: string
  dl_ForwardingRules :: "ForwardingRule list"
  dl_HealthCheck :: "HealthCheck option"
  dl_StickySessions :: "string option"
  dl_Region :: string
  dl_RedirectHTTPToHTTPS :: bool

record DigitalOceanClusterProviderStatus =
  APIServerLB :: "DigitalOceanLoadBalancer option"

definition zero_MachineProviderSpec :: DigitalOceanMachineProviderSpec where
  "zero_MachineProviderSpec = \<lparr>dm_TypeMeta = zero_TypeMeta, dm_Region = '''', dm_Size = '''', dm_Image = '''', dm_Tags = [],
     dm_SSHPublicKeys = [], dm_PrivateNetworking = False, dm_Backups = False, dm_IPv6 = False, dm_Monitoring = False\<rparr>"

text \<open>\<^verbatim>\<open>lb.Region.Slug\<close> of a load balancer without region is a \<^verbatim>\<open>nil\<close> dereference.\<close>

definition region_slug :: "DOLoadBalancer \<Rightarrow> string res" where
  "region_slug lb = (case do_Region lb of None \<Rightarrow> Inl (Panic ''nil pointer dereference'') | Some r \<Rightarrow> Inr r)"

definition DescribeLoadBalancer :: "DOLoadBalancer \<Rightarrow> DigitalOceanLoadBalancer res" where
  "DescribeLoadBalancer lb = rbind (region_slug lb) (\<lambda>r.
     Inr \<lparr>dl_ID = do_ID lb, dl_Name = do_Name lb, dl_IP = do_IP lb, dl_Algorithm = do_Algorithm lb, dl_Status = do_Status lb,
       dl_Created = do_Created lb, dl_ForwardingRules = do_ForwardingRules lb, dl_HealthCheck = do_HealthCheck lb,
       dl_StickySessions = do_StickySessions lb, dl_Region = r, dl_RedirectHTTPToHTTPS = do_RedirectHttpToHttps lb\<rparr>)"

section \<open>The API client\<close>

datatype 'a lookup = Found 'a | NotFound | Failed string

record Droplet =
  d_ID :: int
  d_Name :: string
  d_Status :: string

record DropletCreateRequest =
  dr_Name :: string
  dr_Region :: string
  dr_Size :: string
  dr_Image :: string
  dr_Fingerprint :: string
  dr_PrivateNetworking :: bool
  dr_IPv6 :: bool
  dr_UserData :: string
  dr_Tags :: "string list"

record LoadBalancerRequest =
  lr_Name :: string
  lr_DropletIDs :: "int list"
  lr_Region :: string
  lr_ForwardingRules :: "ForwardingRule list"
  lr_HealthCheck :: HealthCheck
  lr_StickySessions :: string
  lr_Algorithm :: string
  lr_RedirectHttpToHttps :: bool
  lr_Tag :: string
  lr_Tags :: "string list"

record 'x do_ops =
  Tags_Create :: "string \<Rightarrow> ('x, unit) prog"
  Tags_Delete :: "string \<Rightarrow> ('x, unit) prog"
  Tags_Get :: "string \<Rightarrow> ('x, unit lookup) prog"
  Keys_GetByFingerprint :: "string \<Rightarrow> ('x, int lookup) prog"
  Keys_Create :: "bytes \<Rightarrow> ('x, int) prog"
  Keys_DeleteByFingerprint :: "string \<Rightarrow> ('x, unit) prog"
  Droplets_Create :: "DropletCreateRequest \<Rightarrow> ('x, Droplet) prog"
  Droplets_Get :: "int \<Rightarrow> ('x, Droplet) prog"
  Droplets_List :: "('x, Droplet list) prog"
  Droplets_Delete :: "int \<Rightarrow> ('x, unit) prog"
  Droplets_DeleteByTag :: "string \<Rightarrow> ('x, unit) prog"
  LoadBalancers_List :: "('x, DOLoadBalancer list) prog"
  LoadBalancers_Get :: "string \<Rightarrow> ('x, DOLoadBalancer) prog"
  LoadBalancers_Create :: "LoadBalancerRequest \<Rightarrow> ('x, DOLoadBalancer) prog"
  LoadBalancers_Update :: "string \<Rightarrow> LoadBalancerRequest \<Rightarrow> ('x, DOLoadBalancer) prog"
  LoadBalancers_Delete :: "string \<Rightarrow> ('x, unit) prog"

text \<open>What the provider takes from elsewhere: credential check, encoders, the operations and the text of the start-up script, the kubeadm
  binary, the manager's client, and the field \<^verbatim>\<open>conn\<close> of the cloud manager.\<close>

record 'x do_env =
  d_api :: "'x do_ops"
  d_cred_IsValid :: "Credential \<Rightarrow> unit res"
  d_spec :: "DigitalOceanMachineProviderSpec codec"
  d_mstatus :: "DigitalOceanMachineProviderStatus codec"
  d_cstatus :: "DigitalOceanClusterProviderStatus codec"
  d_cluster_spec :: "bytes res"
  d_startup :: startup_ops
  d_template :: string
  d_TokenCreate :: "('x, string) prog"
  d_client_Status_Machine :: "Machine \<Rightarrow> ('x, unit) prog"
  d_client_Status_Cluster :: "CapiCluster \<Rightarrow> ('x, unit) prog"
  d_connected :: "'x \<Rightarrow> bool"
  d_set_connected :: "bool \<Rightarrow> 'x \<Rightarrow> 'x"
  d_ControllerManager :: string

definition do_UID :: string where "do_UID = ''digitalocean''"

definition LoadBalancerName :: "Cluster \<Rightarrow> string" where
  "LoadBalancerName c = c_Name c @ ''-lb''"

section \<open>The connector (cloud.go)\<close>

text \<open>The result is true if the token may write, whatever the name says.\<close>

definition IsUnauthorized :: "'x do_env \<Rightarrow> time \<Rightarrow> (('s, 'x) world, bool \<times> string) prog" where
  "IsUnauthorized D now =
     (let name = ''check-write-access:'' @ show_int (now div 1000000000) in
      bindp (attempt (on_ext (Tags_Create (d_api D) name))) (\<lambda>r. case r of
        Inl _ \<Rightarrow> ret (False, ''Credential missing WRITE scope'')
      | Inr _ \<Rightarrow> bindp (attempt (on_ext (Tags_Delete (d_api D) name))) (\<lambda>r2. case r2 of
          Inl e \<Rightarrow> ret (False, err_msg e) | Inr _ \<Rightarrow> ret (True, ''''))))"

definition newconnector :: "('s, 'x) env \<Rightarrow> 'x do_env \<Rightarrow> (('s, 'x) world, unit) prog" where
  "newconnector E D =
     bindp (gets (CredentialName \<circ> c_Config \<circ> w_Cluster)) (\<lambda>name.
     bindp (on_store (so_credential_Get (e_store E) name)) (\<lambda>cred.
     bindp (liftr (d_cred_IsValid D cred)) (\<lambda>_.
     bindp (on_ext (time_Now (e_sys E))) (\<lambda>now.
     bindp (IsUnauthorized D now) (\<lambda>ok.
     if fst ok then ret ()
     else fail (Err (''credential `'' @ name @ ''` does not have necessary autheorization. Reason: '' @ snd ok)))))))"

definition need_conn :: "'x do_env \<Rightarrow> (('s, 'x) world, unit) prog" where
  "need_conn D = bindp (gets (d_connected D \<circ> w_ext)) (\<lambda>b.
     if b then ret () else fail (Panic ''nil pointer dereference''))"

definition SSHKey_of_certs :: "(('s, 'x) world, SSHKeyPair) prog" where
  "SSHKey_of_certs = bindp (gets w_Certs) (\<lambda>mo. case mo of
     None \<Rightarrow> fail (Panic ''nil pointer dereference'') | Some cs \<Rightarrow> ret (SSHKey cs))"

definition WaitForInstance :: "('s, 'x) env \<Rightarrow> 'x do_env \<Rightarrow> int \<Rightarrow> string \<Rightarrow> (('s, 'x) world, unit) prog" where
  "WaitForInstance E D i status = PollImmediate (poll_ticks (e_sys E))
     (ok_or_false (on_ext (Droplets_Get (d_api D) i)) (\<lambda>d. ret (to_lower (d_Status d) = status)))"

definition getPublicKey :: "'x do_env \<Rightarrow> (('s, 'x) world, bool \<times> int) prog" where
  "getPublicKey D =
     bindp SSHKey_of_certs (\<lambda>k.
     bindp (on_ext (Keys_GetByFingerprint (d_api D) (OpensshFingerprint k))) (\<lambda>r. case r of
       NotFound \<Rightarrow> ret (False, 0)
     | Failed e \<Rightarrow> fail (Err e)
     | Found i \<Rightarrow> ret (True, i)))"

definition importPublicKey :: "'x do_env \<Rightarrow> (('s, 'x) world, string) prog" where
  "importPublicKey D =
     bindp SSHKey_of_certs (\<lambda>k.
     bindp (on_ext (Keys_Create (d_api D) (PublicKey k))) (\<lambda>i. ret (show_int i)))"

definition deleteSSHKey :: "('s, 'x) env \<Rightarrow> 'x do_env \<Rightarrow> (('s, 'x) world, unit) prog" where
  "deleteSSHKey E D =
     bindp SSHKey_of_certs (\<lambda>k.
     PollImmediate (poll_ticks (e_sys E))
       (ok_or_false (on_ext (Keys_DeleteByFingerprint (d_api D) (OpensshFingerprint k))) (\<lambda>_. ret True)))"

definition cluster_tag :: "Cluster \<Rightarrow> string" where
  "cluster_tag c = ''KubernetesCluster:'' @ c_Name c"

definition getTags :: "'x do_env \<Rightarrow> (('s, 'x) world, bool) prog" where
  "getTags D =
     bindp (gets w_Cluster) (\<lambda>c.
     bindp (on_ext (Tags_Get (d_api D) (cluster_tag c))) (\<lambda>r. case r of
       NotFound \<Rightarrow> ret False | Failed e \<Rightarrow> fail (Err e) | Found _ \<Rightarrow> ret True))"

definition createTags :: "'x do_env \<Rightarrow> (('s, 'x) world, unit) prog" where
  "createTags D = bindp (gets w_Cluster) (\<lambda>c. on_ext (Tags_Create (d_api D) (cluster_tag c)))"

definition MachineConfigFromProviderSpec :: "'x do_env \<Rightarrow> bytes option \<Rightarrow> DigitalOceanMachineProviderSpec res" where
  "MachineConfigFromProviderSpec D ps = (case ps of None \<Rightarrow> Inr zero_MachineProviderSpec | Some raw \<Rightarrow> unmarshal (d_spec D) raw)"

definition droplet_request ::
  "Cluster \<Rightarrow> Machine \<Rightarrow> DigitalOceanMachineProviderSpec \<Rightarrow> string \<Rightarrow> string \<Rightarrow> DropletCreateRequest" where
  "droplet_request c m conf fingerprint script =
     \<lparr>dr_Name = m_Name m, dr_Region = dm_Region conf, dr_Size = dm_Size conf, dr_Image = dm_Image conf,
      dr_Fingerprint = fingerprint, dr_PrivateNetworking = True, dr_IPv6 = False, dr_UserData = script,
      dr_Tags = [cluster_tag c] @ (if IsControlPlaneMachine m then [c_Name c @ ''-master''] else [])\<rparr>"

definition CreateInstance ::
  "('s, 'x) env \<Rightarrow> 'x do_env \<Rightarrow> Cluster \<Rightarrow> Machine \<Rightarrow> string \<Rightarrow> (('s, 'x) world, unit) prog" where
  "CreateInstance E D c m script =
     bindp (liftr (MachineConfigFromProviderSpec D (ProviderSpec (m_Spec m)))) (\<lambda>conf.
     bindp SSHKey_of_certs (\<lambda>k.
     bindp (on_ext (Droplets_Create (d_api D) (droplet_request c m conf (OpensshFingerprint k) script))) (\<lambda>host.
     WaitForInstance E D (d_ID host) ''active'')))"

definition instanceIfExists :: "'x do_env \<Rightarrow> Machine \<Rightarrow> (('s, 'x) world, Droplet) prog" where
  "instanceIfExists D m =
     bindp (on_ext (Droplets_List (d_api D))) (\<lambda>droplets.
     case find (\<lambda>d. d_Name d = m_Name m) droplets of
       Some d \<Rightarrow> on_ext (Droplets_Get (d_api D) (d_ID d))
     | None \<Rightarrow> fail (Err (''no droplet found with '' @ m_Name m @ '' name'')))"

definition dropletIDFromProviderID :: "string \<Rightarrow> int res" where
  "dropletIDFromProviderID providerID =
     (if providerID = '''' then Inl (Err ''providerID cannot be empty string'')
      else case split_on (CHR ''/'') providerID of
        [a, b, c] \<Rightarrow>
          if trim_suffix a '':'' \<noteq> do_UID
          then Inl (Err (''provider name from providerID should be digitalocean: '' @ providerID))
          else (case atoi c of
              None \<Rightarrow> Inl (Err (''strconv.Atoi: parsing '' @ c @ '': invalid syntax''))
            | Some i \<Rightarrow> Inr i)
      | _ \<Rightarrow> Inl (Err (''unexpected providerID format: '' @ providerID @ '', format should be: digitalocean://12345'')))"

definition DeleteInstanceByProviderID :: "'x do_env \<Rightarrow> string \<Rightarrow> (('s, 'x) world, unit) prog" where
  "DeleteInstanceByProviderID D providerID =
     bindp (liftr (dropletIDFromProviderID providerID)) (\<lambda>i. on_ext (Droplets_Delete (d_api D) i))"

text \<open>The error \<^verbatim>\<open>errLBNotFound\<close> is compared by identity: it is a value of its own.\<close>

definition lbByName :: "'x do_env \<Rightarrow> string \<Rightarrow> (('s, 'x) world, DOLoadBalancer lookup) prog" where
  "lbByName D name =
     bindp (attempt (on_ext (LoadBalancers_List (d_api D)))) (\<lambda>r. case r of
       Inl e \<Rightarrow> ret (Failed (err_msg e))
     | Inr lbs \<Rightarrow> (case find (\<lambda>lb. do_Name lb = name) lbs of Some lb \<Rightarrow> ret (Found lb) | None \<Rightarrow> ret NotFound))"

definition waitActive :: "('s, 'x) env \<Rightarrow> 'x do_env \<Rightarrow> string \<Rightarrow> (('s, 'x) world, DOLoadBalancer) prog" where
  "waitActive E D lbID =
     bindp (PollImmediate (poll_ticks (e_sys E))
       (ok_or_false (on_ext (LoadBalancers_Get (d_api D) lbID)) (\<lambda>lb. ret (to_lower (do_Status lb) = ''active'')))) (\<lambda>_.
     on_ext (LoadBalancers_Get (d_api D) lbID))"

definition default_rules :: "ForwardingRule list" where
  "default_rules = [\<lparr>EntryProtocol = ''tcp'', EntryPort = 6443, TargetProtocol = ''tcp'', TargetPort = 6443, TlsPassthrough = False\<rparr>]"

definition default_health :: HealthCheck where
  "default_health = \<lparr>hc_Protocol = ''tcp'', hc_Port = 6443, CheckIntervalSeconds = 3, ResponseTimeoutSeconds = 5,
     HealthyThreshold = 5, UnhealthyThreshold = 3\<rparr>"

definition buildLoadBalancerRequest :: "Cluster \<Rightarrow> string \<Rightarrow> LoadBalancerRequest" where
  "buildLoadBalancerRequest c lbName =
     \<lparr>lr_Name = lbName, lr_DropletIDs = [], lr_Region = Region (c_CloudSpec c), lr_ForwardingRules = default_rules,
      lr_HealthCheck = default_health, lr_StickySessions = ''none'', lr_Algorithm = ''least_connections'',
      lr_RedirectHttpToHttps = False, lr_Tag = c_Name c @ ''-master'', lr_Tags = [c_Name c @ ''-master'']\<rparr>"

definition createLoadBalancer :: "('s, 'x) env \<Rightarrow> 'x do_env \<Rightarrow> string \<Rightarrow> (('s, 'x) world, DOLoadBalancer) prog" where
  "createLoadBalancer E D name =
     bindp (lbByName D name) (\<lambda>r. case r of
       NotFound \<Rightarrow>
         bindp (gets w_Cluster) (\<lambda>c.
         bindp (on_ext (LoadBalancers_Create (d_api D) (buildLoadBalancerRequest c name))) (\<lambda>lb.
         waitActive E D (do_ID lb)))
     | Failed _ \<Rightarrow> fail (Panic ''nil pointer dereference'')
     | Found lb \<Rightarrow> if do_Status lb \<noteq> ''active'' then waitActive E D (do_ID lb) else ret lb)"

definition deleteLoadBalancer :: "'x do_env \<Rightarrow> string \<Rightarrow> (('s, 'x) world, unit) prog" where
  "deleteLoadBalancer D name =
     bindp (lbByName D name) (\<lambda>r. case r of
       NotFound \<Rightarrow> fail (Err ''loadbalancer not found'')
     | Failed e \<Rightarrow> fail (Err e)
     | Found lb \<Rightarrow> on_ext (LoadBalancers_Delete (d_api D) (do_ID lb)))"

definition loadBalancerUpdated :: "Cluster \<Rightarrow> DOLoadBalancer \<Rightarrow> bool res" where
  "loadBalancerUpdated c lb =
     (let spec = buildLoadBalancerRequest c (LoadBalancerName c) in
      if do_Algorithm lb \<noteq> lr_Algorithm spec then Inr True
      else rbind (region_slug lb) (\<lambda>r. Inr
        (r \<noteq> lr_Region spec \<or> do_ForwardingRules lb \<noteq> lr_ForwardingRules spec \<or>
         do_HealthCheck lb \<noteq> Some (lr_HealthCheck spec) \<or> do_StickySessions lb \<noteq> Some (lr_StickySessions spec) \<or>
         do_RedirectHttpToHttps lb \<noteq> lr_RedirectHttpToHttps spec)))"

section \<open>The cloud manager (context.go, apply.go, create.go)\<close>

definition do_SetCloudConnector :: "('s, 'x) env \<Rightarrow> 'x do_env \<Rightarrow> (('s, 'x) world, unit) prog" where
  "do_SetCloudConnector E D =
     bindp (attempt (newconnector E D)) (\<lambda>r.
     bindp (modify (\<lambda>w. w\<lparr>w_ext := d_set_connected D (is_ok r) (w_ext w)\<rparr>)) (\<lambda>_. liftr r))"

definition do_CreateCredentials :: "('s, 'x) env \<Rightarrow> (('s, 'x) world, unit) prog" where
  "do_CreateCredentials E =
     bindp (GetCredential E) (\<lambda>cred.
     let token = (case Data (cr_Spec cred) ''token'' of None \<Rightarrow> '''' | Some t \<Rightarrow> t) in
     CreateSecret E ''digitalocean'' ''kube-system'' [(''access-token'', token), (''token'', token)])"

definition do_GetClusterAPIComponents :: "'x do_env \<Rightarrow> (('s, 'x) world, string) prog" where
  "do_GetClusterAPIComponents D = ret (d_ControllerManager D)"

definition do_GetDefaultMachineProviderSpec ::
  "('s, 'x) env \<Rightarrow> 'x do_env \<Rightarrow> string \<Rightarrow> MachineRole \<Rightarrow> (('s, 'x) world, bytes option) prog" where
  "do_GetDefaultMachineProviderSpec E D sku0 role =
     (let sku = (if sku0 = '''' then ''2gb'' else sku0) in
      bindp (gets w_Cluster) (\<lambda>c.
      bindp (on_store (so_ssh_Get (e_store E) (c_Name c) (GenSSHKeyExternalID c))) (\<lambda>ks.
      bindp (liftr (marshal (d_spec D)
        \<lparr>dm_TypeMeta = \<lparr>Kind = ''DigitalOceanProviderConfig'', APIVersion = ''digitaloceanproviderconfig/v1alpha1''\<rparr>,
         dm_Region = Region (c_CloudSpec c), dm_Size = sku, dm_Image = InstanceImage (c_CloudSpec c),
         dm_Tags = [cluster_tag c], dm_SSHPublicKeys = [fst ks], dm_PrivateNetworking = True, dm_Backups = False,
         dm_IPv6 = False, dm_Monitoring = True\<rparr>)) (\<lambda>raw. ret (Some raw)))))"

definition set_ccProviderSpec :: "bytes \<Rightarrow> Cluster \<Rightarrow> Cluster" where
  "set_ccProviderSpec raw = upd_ClusterAPI (\<lambda>a. a\<lparr>cc_Spec := (cc_Spec a)\<lparr>ccs_ProviderSpec := Some raw\<rparr>\<rparr>)"

definition do_defaults :: "Cluster \<Rightarrow> Cluster" where
  "do_defaults = upd_Config (\<lambda>g. g\<lparr>Cloud := (Cloud g)\<lparr>InstanceImage := ''ubuntu-18-04-x64'', Region := Zone (Cloud g)\<rparr>,
     SSHUserName := ''root''\<rparr>)"

definition do_SetDefaultCluster :: "'x do_env \<Rightarrow> (('s, 'x) world, unit) prog" where
  "do_SetDefaultCluster D =
     bindp (upd_cluster do_defaults) (\<lambda>_.
     bindp (liftr (d_cluster_spec D)) (\<lambda>raw. upd_cluster (set_ccProviderSpec raw)))"

definition try_endpoints :: "NodeAddress list \<Rightarrow> (('s, 'x) world, unit) prog" where
  "try_endpoints addrs = bindp (gets w_Cluster) (\<lambda>c.
     bindp (liftr (SetClusterAPIEndpoints c addrs)) (\<lambda>c'. upd_cluster (\<lambda>_. c')))"

text \<open>The template data of this provider (\<^verbatim>\<open>startupscript.go\<close>).\<close>

definition do_NewNodeTemplateData :: "'x do_env \<Rightarrow> Machine \<Rightarrow> string \<Rightarrow> TemplateData \<Rightarrow> (('s, 'x) world, TemplateData) prog" where
  "do_NewNodeTemplateData D machine token td =
     bindp (set_arg ''cloud-provider'' ''external'' (td\<lparr>td_ExternalProvider := True\<rparr>)) (\<lambda>td.
     bindp (attempt (JoinConfigurationYAML (d_startup D) td)) (\<lambda>r.
     ret (td\<lparr>td_JoinConfiguration := (case r of Inl _ \<Rightarrow> '''' | Inr joinConf \<Rightarrow> joinConf)\<rparr>)))"

definition do_NewMasterTemplateData :: "Machine \<Rightarrow> string \<Rightarrow> TemplateData \<Rightarrow> (('s, 'x) world, TemplateData) prog" where
  "do_NewMasterTemplateData machine token td =
     bindp (gets w_Cluster) (\<lambda>c.
     bindp (liftr (GetDefaultKubeadmClusterConfig c None)) (\<lambda>conf. ret (td\<lparr>td_ClusterConfiguration := Some conf\<rparr>)))"

definition do_hooks :: "'x do_env \<Rightarrow> ('s, 'x) template_hooks" where
  "do_hooks D = \<lparr>th_Node = do_NewNodeTemplateData D, th_Master = do_NewMasterTemplateData\<rparr>"

definition do_RenderStartupScript :: "('s, 'x) env \<Rightarrow> 'x do_env \<Rightarrow> Machine \<Rightarrow> string \<Rightarrow> (('s, 'x) world, string) prog" where
  "do_RenderStartupScript E D machine token = RenderStartupScript E (d_startup D) (do_hooks D) machine token (d_template D)"

definition do_EnsureMaster :: "('s, 'x) env \<Rightarrow> 'x do_env \<Rightarrow> Machine \<Rightarrow> (('s, 'x) world, unit) prog" where
  "do_EnsureMaster E D leader =
     bindp (need_conn D) (\<lambda>_.
     bindp (attempt (instanceIfExists D leader)) (\<lambda>r.
     bindp (if is_ok r then ret ()
            else bindp (gets w_Cluster) (\<lambda>c.
              let lb = cs_LoadBalancer (cst_Cloud (Status c));
                  addrs = (if lb_DNS lb \<noteq> '''' then [\<lparr>AddrType = NodeExternalDNS, Address = lb_DNS lb\<rparr>]
                           else if lb_IP lb \<noteq> '''' then [\<lparr>AddrType = NodeExternalIP, Address = lb_IP lb\<rparr>] else [])
              in bindp (do_RenderStartupScript E D leader '''') (\<lambda>script.
                 bindp (gets w_Cluster) (\<lambda>c.
                 bindp (CreateInstance E D c leader script) (\<lambda>_.
                 try_endpoints addrs))))) (\<lambda>_.
     store_cluster (so_cluster_Update (e_store E)))))"

definition first_entry_port :: "DOLoadBalancer \<Rightarrow> int res" where
  "first_entry_port lb = (case do_ForwardingRules lb of [] \<Rightarrow> Inl (Panic ''index out of range'') | r # _ \<Rightarrow> Inr (EntryPort r))"

definition set_LoadBalancer :: "LoadBalancer \<Rightarrow> Cluster \<Rightarrow> Cluster" where
  "set_LoadBalancer lb = upd_CloudStatus (\<lambda>s. s\<lparr>cs_LoadBalancer := lb\<rparr>)"

definition do_PrepareCloud :: "('s, 'x) env \<Rightarrow> 'x do_env \<Rightarrow> (('s, 'x) world, unit) prog" where
  "do_PrepareCloud E D =
     bindp (need_conn D) (\<lambda>_.
     bindp (getPublicKey D) (\<lambda>key.
     bindp (if fst key then ret () else bindp (importPublicKey D) (\<lambda>_. ret ())) (\<lambda>_.
     bindp (getTags D) (\<lambda>found.
     bindp (if found then ret () else createTags D) (\<lambda>_.
     bindp (gets w_Cluster) (\<lambda>c.
     bindp (lbByName D (LoadBalancerName c)) (\<lambda>r.
     bindp (case r of
              NotFound \<Rightarrow> createLoadBalancer E D (LoadBalancerName c)
            | Failed _ \<Rightarrow> fail (Panic ''nil pointer dereference'')
            | Found lb \<Rightarrow> ret lb) (\<lambda>lb.
     bindp (liftr (first_entry_port lb)) (\<lambda>port.
     bindp (upd_cluster (set_LoadBalancer \<lparr>lb_DNS = '''', lb_IP = do_IP lb, lb_Port = port\<rparr>)) (\<lambda>_.
     try_endpoints [\<lparr>AddrType = NodeExternalIP, Address = do_IP lb\<rparr>]))))))))))"

definition do_ApplyDelete :: "('s, 'x) env \<Rightarrow> 'x do_env \<Rightarrow> (('s, 'x) world, unit) prog" where
  "do_ApplyDelete E D =
     bindp (GetAdminClient E) (\<lambda>_.
     bindp (attempt (on_ext (MasterNodes_List (e_kube E)))) (\<lambda>r.
     bindp (need_conn D) (\<lambda>_.
     bindp (case r of Inl _ \<Rightarrow> ret ()
            | Inr nodes \<Rightarrow> for_each nodes (\<lambda>mi.
                bindp (attempt (DeleteInstanceByProviderID D (node_ProviderID mi))) (\<lambda>_. ret ()))) (\<lambda>_.
     bindp (gets w_Cluster) (\<lambda>c.
     bindp (attempt (on_ext (Droplets_DeleteByTag (d_api D) (cluster_tag c)))) (\<lambda>_.
     bindp (getPublicKey D) (\<lambda>key.
     bindp (if fst key then deleteSSHKey E D else ret ()) (\<lambda>_.
     bindp (lbByName D (LoadBalancerName c)) (\<lambda>lb.
     bindp (case lb of NotFound \<Rightarrow> ret () | _ \<Rightarrow> deleteLoadBalancer D (LoadBalancerName c)) (\<lambda>_.
     bindp (upd_cluster (set_Phase ClusterDeleted)) (\<lambda>_.
     store_cluster (so_cluster_UpdateStatus (e_store E)))))))))))))"

definition do_GetMasterSKU :: "int32 \<Rightarrow> string" where
  "do_GetMasterSKU totalNodes = ''2gb''"

text \<open>The provider as a cloud manager; \<^verbatim>\<open>ApplyScale\<close> is for managed providers and panics here.\<close>

definition do_ApplyScale :: "(('s, 'x) world, unit) prog" where
  "do_ApplyScale = fail (Panic ''implement me'')"

definition do_manager :: "('s, 'x) env \<Rightarrow> 'x do_env \<Rightarrow> ('s, 'x) cloud_manager" where
  "do_manager E D =
     \<lparr>cm_SetCloudConnector = do_SetCloudConnector E D, cm_CreateCredentials = do_CreateCredentials E,
      cm_ApplyDelete = do_ApplyDelete E D, cm_ApplyScale = do_ApplyScale,
      cm_SetDefaultCluster = do_SetDefaultCluster D,
      cm_GetDefaultMachineProviderSpec = do_GetDefaultMachineProviderSpec E D, cm_PrepareCloud = do_PrepareCloud E D,
      cm_EnsureMaster = do_EnsureMaster E D, cm_GetMasterSKU = do_GetMasterSKU,
      cm_GetClusterAPIComponents = do_GetClusterAPIComponents D,
      cm_GetAdminClient = GetAdminClient E\<rparr>"

section \<open>The machine actuator (machine_actuator.go)\<close>

definition validateMachine :: "DigitalOceanMachineProviderSpec \<Rightarrow> unit res" where
  "validateMachine conf =
     (if dm_Image conf = '''' then Inl (Err ''image slug must be provided'')
      else if dm_Region conf = '''' then Inl (Err ''region must be provided'')
      else if dm_Size conf = '''' then Inl (Err ''size must be provided'')
      else Inr ())"

definition getKubeadmToken :: "'x do_env \<Rightarrow> (('s, 'x) world, string) prog" where
  "getKubeadmToken D = bindp (on_ext (d_TokenCreate D)) (\<lambda>token. ret (trim_space token))"

definition do_Exists :: "'x do_env \<Rightarrow> Machine \<Rightarrow> (('s, 'x) world, bool) prog" where
  "do_Exists D m = bindp (attempt (instanceIfExists D m)) (\<lambda>r. ret (is_ok r))"

definition do_updateMachineStatus :: "'x do_env \<Rightarrow> Machine \<Rightarrow> (('s, 'x) world, unit) prog" where
  "do_updateMachineStatus D m =
     bindp (instanceIfExists D m) (\<lambda>droplet.
     bindp (liftr (case ProviderStatus (m_Status m) of
                     None \<Rightarrow> Inr \<lparr>InstanceID = 0, InstanceStatus = ''''\<rparr> | Some raw \<Rightarrow> unmarshal (d_mstatus D) raw)) (\<lambda>status.
     let raw = (case marshal (d_mstatus D) (status\<lparr>InstanceID := d_ID droplet, InstanceStatus := d_Status droplet\<rparr>) of
                  Inl _ \<Rightarrow> None | Inr d \<Rightarrow> Some d)
     in on_ext (d_client_Status_Machine D (m\<lparr>m_Status := (m_Status m)\<lparr>ProviderStatus := raw\<rparr>\<rparr>))))"

definition do_Machine_Create :: "('s, 'x) env \<Rightarrow> 'x do_env \<Rightarrow> Machine \<Rightarrow> (('s, 'x) world, unit) prog" where
  "do_Machine_Create E D m =
     bindp (liftr (MachineConfigFromProviderSpec D (ProviderSpec (m_Spec m)))) (\<lambda>conf.
     bindp (liftr (validateMachine conf)) (\<lambda>_.
     bindp (do_Exists D m) (\<lambda>exists.
     bindp (if exists then ret ()
            else bindp (getKubeadmToken D) (\<lambda>token.
                 bindp (do_RenderStartupScript E D m token) (\<lambda>script.
                 bindp (gets w_Cluster) (\<lambda>c.
                 CreateInstance E D c m script)))) (\<lambda>_.
     do_updateMachineStatus D m))))"

definition do_Machine_Delete :: "'x do_env \<Rightarrow> Machine \<Rightarrow> (('s, 'x) world, unit) prog" where
  "do_Machine_Delete D m =
     bindp (attempt (instanceIfExists D m)) (\<lambda>r. case r of
       Inl _ \<Rightarrow> ret ()
     | Inr instance \<Rightarrow>
         bindp (attempt (DeleteInstanceByProviderID D (''digitalocean://'' @ show_int (d_ID instance)))) (\<lambda>_. ret ()))"

definition do_Machine_Update :: "('s, 'x) env \<Rightarrow> 'x do_env \<Rightarrow> Machine \<Rightarrow> (('s, 'x) world, unit) prog" where
  "do_Machine_Update E D m =
     bindp (liftr (MachineConfigFromProviderSpec D (ProviderSpec (m_Spec m)))) (\<lambda>conf.
     bindp (liftr (validateMachine conf)) (\<lambda>_.
     bindp (do_Exists D m) (\<lambda>exists.
     if \<not> exists then do_Machine_Create E D m else do_updateMachineStatus D m)))"

section \<open>The cluster actuator (cluster_actuator.go)\<close>

definition updateClusterStatus ::
  "'x do_env \<Rightarrow> CapiCluster \<Rightarrow> DigitalOceanClusterProviderStatus \<Rightarrow> (('s, 'x) world, unit) prog" where
  "updateClusterStatus D cc status =
     bindp (liftr (marshal (d_cstatus D) status)) (\<lambda>raw.
     on_ext (d_client_Status_Cluster D (cc\<lparr>cc_Status := (cc_Status cc)\<lparr>ccst_ProviderStatus := Some raw\<rparr>\<rparr>)))"

definition do_Reconcile :: "('s, 'x) env \<Rightarrow> 'x do_env \<Rightarrow> CapiCluster \<Rightarrow> (('s, 'x) world, unit) prog" where
  "do_Reconcile E D cc =
     bindp (gets w_Cluster) (\<lambda>c.
     bindp (lbByName D (LoadBalancerName c)) (\<lambda>r.
     bindp (case r of
              NotFound \<Rightarrow> bindp (createLoadBalancer E D (LoadBalancerName c)) (\<lambda>lb.
                ret (lb, cc\<lparr>cc_Status := (cc_Status cc)\<lparr>APIEndpoints := [\<lparr>Host = do_IP lb, Port = 6443\<rparr>]\<rparr>\<rparr>))
            | Failed e \<Rightarrow> fail (Err e)
            | Found lb \<Rightarrow> ret (lb, cc)) (\<lambda>p.
     bindp (liftr (loadBalancerUpdated c (fst p))) (\<lambda>updated.
     bindp (if updated then on_ext (LoadBalancers_Update (d_api D) (do_ID (fst p)) (buildLoadBalancerRequest c (LoadBalancerName c)))
            else ret (fst p)) (\<lambda>lb.
     bindp (liftr (case ccst_ProviderStatus (cc_Status (snd p)) of
                     None \<Rightarrow> Inr \<lparr>APIServerLB = None\<rparr> | Some raw \<Rightarrow> unmarshal (d_cstatus D) raw)) (\<lambda>status.
     bindp (liftr (DescribeLoadBalancer lb)) (\<lambda>desc.
     updateClusterStatus D (snd p) (status\<lparr>APIServerLB := Some desc\<rparr>))))))))"

end
