(* ===== verification/Linode.thy ===== *)
theory Linode
  imports Digitalocean
begin

text \<open>
  The Linode provider, \<^verbatim>\<open>cloud/providers/linode\<close>, with the provider objects of \<^verbatim>\<open>apis/v1alpha1/linode\<close>:
  connector (\<^verbatim>\<open>cloud.go\<close>), cloud manager (\<^verbatim>\<open>context.go\<close>, \<^verbatim>\<open>apply.go\<close>, \<^verbatim>\<open>create.go\<close>), machine and cluster
  actuator.  It keeps the start-up script of every machine as a stack script, and its masters
  behind a node balancer.

  The API client \<^verbatim>\<open>linodego\<close> is a record of operations on the external state.  A client call on a
  connector that was not set is a \<^verbatim>\<open>nil\<close> dereference.
\<close>

section \<open>Provider objects (apis/v1alpha1/linode)\<close>

record LinodeMachineProviderSpec =
  lm_TypeMeta :: TypeMeta
  lm_Roles :: "string list"
  lm_Region :: string
  lm_Type :: string
  lm_Image :: string
  lm_Pubkey :: string

record LinodeMachineProviderStatus =
  lst_InstanceID :: int
  lst_InstanceStatus :: string

record NodeBalancer =
  nb_ID :: int
  nb_Label :: "string option"
  nb_Region :: string
  nb_Hostname :: "string option"
  nb_IPv4 :: "string option"
  nb_IPv6 :: "string option"
  nb_ClientConnThrottle :: int
  nb_Tags :: "string list"

record LinodeNodeBalancer =
  ln_ID :: int
  ln_Label :: "string option"
  ln_Region :: string
  ln_Hostname :: "string option"
  ln_IPv4 :: "string option"
  ln_IPv6 :: "string option"
  ln_ClientConnThrottle :: int
  ln_Tags :: "string list"

record LinodeClusterProviderStatus =
  lcs_APIServerLB :: "LinodeNodeBalancer option"

definition zero_LinodeSpec :: LinodeMachineProviderSpec where
  "zero_LinodeSpec = \<lparr>lm_TypeMeta = zero_TypeMeta, lm_Roles = [], lm_Region = '''', lm_Type = '''', lm_Image = '''', lm_Pubkey = ''''\<rparr>"

definition li_DescribeLoadBalancer :: "NodeBalancer \<Rightarrow> LinodeNodeBalancer" where
  "li_DescribeLoadBalancer lb = \<lparr>ln_ID = nb_ID lb, ln_Label = nb_Label lb, ln_Region = nb_Region lb, ln_Hostname = nb_Hostname lb,
     ln_IPv4 = nb_IPv4 lb, ln_IPv6 = nb_IPv6 lb, ln_ClientConnThrottle = nb_ClientConnThrottle lb, ln_Tags = nb_Tags lb\<rparr>"

section \<open>The API client\<close>

record Instance =
  in_ID :: int
  in_Label :: string
  in_Status :: string
  in_IPv4 :: "string list"

record InstanceCreateOptions =
  io_Label :: string
  io_Region :: string
  io_Type :: string
  io_RootPass :: string
  io_AuthorizedKeys :: "string list"
  io_StackScriptData :: "(string \<times> string) list"
  io_StackScriptID :: int
  io_Image :: string
  io_BackupsEnabled :: bool
  io_PrivateIP :: bool
  io_SwapSize :: int

record StackscriptOptions =
  ss_Label :: string
  ss_Description :: string
  ss_Images :: "string list"
  ss_Script :: string

record Stackscript = StackscriptOptions +
  ss_ID :: int

record NodeBalancerConfigOptions =
  nc_Port :: int
  nc_Protocol :: string
  nc_Algorithm :: string
  nc_Stickiness :: string
  nc_Check :: string
  nc_CheckInterval :: int
  nc_CheckTimeout :: int
  nc_CheckAttempts :: int
  nc_CheckPassive :: bool

record NodeBalancerNodeOptions =
  nn_Address :: string
  nn_Label :: string
  nn_Weight :: int
  nn_Mode :: string

record 'x linode_ops =
  li_GetInstance :: "int \<Rightarrow> ('x, Instance option) prog"
  li_ListInstances :: "('x, Instance list) prog"
  li_CreateInstance_call :: "InstanceCreateOptions \<Rightarrow> ('x, Instance) prog"
  li_DeleteInstance :: "int \<Rightarrow> ('x, unit) prog"
  li_ListStackscripts :: "string \<Rightarrow> ('x, Stackscript list) prog"
  li_CreateStackscript :: "StackscriptOptions \<Rightarrow> ('x, Stackscript) prog"
  li_UpdateStackscript :: "int \<Rightarrow> StackscriptOptions \<Rightarrow> ('x, Stackscript) prog"
  li_DeleteStackscript_call :: "int \<Rightarrow> ('x, unit) prog"
  li_ListNodeBalancers :: "('x, NodeBalancer list) prog"
  li_GetNodeBalancer :: "int \<Rightarrow> ('x, NodeBalancer option) prog"
  li_CreateNodeBalancer_call :: "string \<Rightarrow> string \<Rightarrow> int \<Rightarrow> ('x, int) prog"
  li_DeleteNodeBalancer :: "int \<Rightarrow> ('x, unit) prog"
  li_CreateNodeBalancerConfig_call :: "int \<Rightarrow> NodeBalancerConfigOptions \<Rightarrow> ('x, int) prog"
  li_ListNodeBalancerConfigs :: "int \<Rightarrow> ('x, int list) prog"
  li_CreateNodeBalancerNode :: "int \<Rightarrow> int \<Rightarrow> NodeBalancerNodeOptions \<Rightarrow> ('x, unit) prog"

text \<open>
  What the provider takes from elsewhere.  \<open>l_Nodes_List\<close> gives the names and provider identifiers
  of the nodes with a label, \<open>l_entries\<close> the entries of a map in the order of iteration.
\<close>

record 'x li_env =
  l_api :: "'x linode_ops"
  l_cred_IsValid :: "Credential \<Rightarrow> unit res"
  l_spec :: "LinodeMachineProviderSpec codec"
  l_mstatus :: "LinodeMachineProviderStatus codec"
  l_cstatus :: "LinodeClusterProviderStatus codec"
  l_startup :: startup_ops
  l_template :: string
  l_TokenCreate :: "('x, string) prog"
  l_GeneratePassword :: "('x, string) prog"
  l_client_Status_Machine :: "Machine \<Rightarrow> ('x, unit) prog"
  l_client_Status_Cluster :: "CapiCluster \<Rightarrow> ('x, unit) prog"
  l_Nodes_List :: "string \<Rightarrow> ('x, (string \<times> string) list) prog"
  l_Nodes_Delete :: "string \<Rightarrow> ('x, unit) prog"
  l_entries :: "(string \<rightharpoonup> string) \<Rightarrow> (string \<times> bytes) list"
  l_connected :: "'x \<Rightarrow> bool"
  l_set_connected :: "bool \<Rightarrow> 'x \<Rightarrow> 'x"
  l_ControllerManager :: string

definition li_UID :: string where "li_UID = ''linode''"

definition nil_deref :: "gerror" where
  "nil_deref = Panic ''nil pointer dereference''"

definition deref_opt :: "'a option \<Rightarrow> 'a res" where
  "deref_opt p = (case p of None \<Rightarrow> Inl nil_deref | Some x \<Rightarrow> Inr x)"

definition index_at :: "'a list \<Rightarrow> nat \<Rightarrow> 'a res" where
  "index_at xs i = (if i < length xs then Inr (xs ! i) else Inl (Panic ''index out of range''))"

text \<open>A call of \<^verbatim>\<open>conn.client\<close>.\<close>

definition li_client :: "'x li_env \<Rightarrow> ('x, 'a) prog \<Rightarrow> (('s, 'x) world, 'a) prog" where
  "li_client D m = bindp (gets (l_connected D \<circ> w_ext)) (\<lambda>b. if b then on_ext m else fail nil_deref)"

section \<open>Names (namer.go)\<close>

definition li_StartupScriptName :: "Cluster \<Rightarrow> string \<Rightarrow> string \<Rightarrow> string" where
  "li_StartupScriptName c machine role = c_Name c @ ''-'' @ machine @ ''-'' @ role"

definition li_LoadBalancerName :: "Cluster \<Rightarrow> string" where
  "li_LoadBalancerName c = c_Name c @ ''-lb''"

section \<open>The connector (cloud.go)\<close>

definition li_newconnector :: "('s, 'x) env \<Rightarrow> 'x li_env \<Rightarrow> (('s, 'x) world, unit) prog" where
  "li_newconnector E D =
     bindp (GetCredential E) (\<lambda>cred.
     bindp (gets (CredentialName \<circ> c_Config \<circ> w_Cluster)) (\<lambda>name.
     reason (''credential '' @ name @ '' is invalid.'') (liftr (l_cred_IsValid D cred))))"

definition li_waitForStatus :: "('s, 'x) env \<Rightarrow> 'x li_env \<Rightarrow> int \<Rightarrow> string \<Rightarrow> (('s, 'x) world, unit) prog" where
  "li_waitForStatus E D i status = PollImmediate (poll_ticks (e_sys E))
     (ok_or_false (li_client D (li_GetInstance (l_api D) i)) (\<lambda>r. case r of
        None \<Rightarrow> ret False | Some instance \<Rightarrow> ret (in_Status instance = status)))"

definition li_MachineConfig :: "'x li_env \<Rightarrow> bytes option \<Rightarrow> LinodeMachineProviderSpec res" where
  "li_MachineConfig D ps = (case ps of None \<Rightarrow> Inr zero_LinodeSpec | Some raw \<Rightarrow> unmarshal (l_spec D) raw)"

definition label_filter :: "string \<Rightarrow> string" where
  "label_filter name = ''{\"label\" : \"'' @ name @ ''\"}''"

text \<open>The scripts with the name of a machine, which has the role of its provider spec.\<close>

definition li_machine_scripts :: "'x li_env \<Rightarrow> Machine \<Rightarrow> (('s, 'x) world, string \<times> Stackscript list) prog" where
  "li_machine_scripts D m =
     bindp (liftr (li_MachineConfig D (ProviderSpec (m_Spec m)))) (\<lambda>conf.
     bindp (gets w_Cluster) (\<lambda>c.
     bindp (liftr (index_at (lm_Roles conf) 0)) (\<lambda>role.
     let scriptName = li_StartupScriptName c (m_Name m) role in
     bindp (li_client D (li_ListStackscripts (l_api D) (label_filter scriptName))) (\<lambda>scripts. ret (scriptName, scripts)))))"

definition li_getStartupScriptID :: "'x li_env \<Rightarrow> Machine \<Rightarrow> (('s, 'x) world, int) prog" where
  "li_getStartupScriptID D m =
     bindp (li_machine_scripts D m) (\<lambda>(scriptName, scripts). case scripts of
       [] \<Rightarrow> fail (Err (''no stackscript found with label '' @ scriptName))
     | [s] \<Rightarrow> ret (ss_ID s)
     | _ \<Rightarrow> fail (Err (''multiple stackscript found with label '' @ scriptName)))"

definition li_createOrUpdateStackScript :: "'x li_env \<Rightarrow> Machine \<Rightarrow> string \<Rightarrow> (('s, 'x) world, int) prog" where
  "li_createOrUpdateStackScript D m script =
     bindp (li_machine_scripts D m) (\<lambda>(scriptName, scripts). case scripts of
       [] \<Rightarrow> bindp (gets w_Cluster) (\<lambda>c.
         bindp (li_client D (li_CreateStackscript (l_api D)
           \<lparr>ss_Label = scriptName,
            ss_Description = ''Startup script for NodeGroup '' @ m_Name m @ '' of Cluster '' @ c_Name c,
            ss_Images = [InstanceImage (c_CloudSpec c)], ss_Script = script\<rparr>)) (\<lambda>s. ret (ss_ID s)))
     | [s] \<Rightarrow>
         bindp (li_client D (li_UpdateStackscript (l_api D) (ss_ID s)
           \<lparr>ss_Label = ss_Label s, ss_Description = ss_Description s, ss_Images = ss_Images s, ss_Script = script\<rparr>)) (\<lambda>s'. ret (ss_ID s'))
     | _ \<Rightarrow> fail (Err (''multiple stackscript found with label '' @ scriptName)))"

definition li_DeleteStackScript :: "'x li_env \<Rightarrow> string \<Rightarrow> string \<Rightarrow> (('s, 'x) world, unit) prog" where
  "li_DeleteStackScript D machineName role =
     bindp (gets w_Cluster) (\<lambda>c.
     bindp (li_client D (li_ListStackscripts (l_api D) (label_filter (li_StartupScriptName c machineName role)))) (\<lambda>scripts.
     for_each scripts (\<lambda>s. li_client D (li_DeleteStackscript_call (l_api D) (ss_ID s)))))"

record NodeInfo =
  ni_Name :: string
  ni_ExternalID :: string
  ni_PublicIP :: string
  ni_PrivateIP :: string

definition li_CreateInstance :: "('s, 'x) env \<Rightarrow> 'x li_env \<Rightarrow> Machine \<Rightarrow> string \<Rightarrow> (('s, 'x) world, NodeInfo) prog" where
  "li_CreateInstance E D m script =
     bindp (li_createOrUpdateStackScript D m script) (\<lambda>_.
     bindp (li_getStartupScriptID D m) (\<lambda>scriptID.
     bindp (liftr (li_MachineConfig D (ProviderSpec (m_Spec m)))) (\<lambda>conf.
     bindp (gets w_Cluster) (\<lambda>c.
     bindp (liftr (deref_opt (Linode (c_CloudSpec c)))) (\<lambda>spec.
     bindp SSHKey_of_certs (\<lambda>k.
     bindp (li_client D (li_CreateInstance_call (l_api D)
       \<lparr>io_Label = m_Name m, io_Region = Zone (c_CloudSpec c), io_Type = lm_Type conf, io_RootPass = RootPassword spec,
        io_AuthorizedKeys = [PublicKey k], io_StackScriptData = [(''hostname'', m_Name m)], io_StackScriptID = scriptID,
        io_Image = InstanceImage (c_CloudSpec c), io_BackupsEnabled = False, io_PrivateIP = True, io_SwapSize = 0\<rparr>)) (\<lambda>instance.
     bindp (li_waitForStatus E D (in_ID instance) ''running'') (\<lambda>_.
     bindp (liftr (index_at (in_IPv4 instance) 0)) (\<lambda>public.
     bindp (liftr (index_at (in_IPv4 instance) 1)) (\<lambda>private.
     ret \<lparr>ni_Name = in_Label instance, ni_ExternalID = show_int (in_ID instance), ni_PublicIP = public, ni_PrivateIP = private\<rparr>))))))))))"

definition instanceIDFromProviderID :: "string \<Rightarrow> int res" where
  "instanceIDFromProviderID providerID =
     (if providerID = '''' then Inl (Err ''providerID cannot be empty string'')
      else case split_on (CHR ''/'') providerID of
        [a, b, c] \<Rightarrow>
          if trim_suffix a '':'' \<noteq> li_UID
          then Inl (Err (''provider name from providerID should be linode: '' @ providerID))
          else (case atoi c of
              None \<Rightarrow> Inl (Err (''strconv.Atoi: parsing '' @ c @ '': invalid syntax''))
            | Some i \<Rightarrow> Inr i)
      | _ \<Rightarrow> Inl (Err (''unexpected providerID format: '' @ providerID @ '', format should be: linode://12345'')))"

definition li_DeleteInstanceByProviderID :: "'x li_env \<Rightarrow> string \<Rightarrow> (('s, 'x) world, unit) prog" where
  "li_DeleteInstanceByProviderID D providerID =
     bindp (liftr (instanceIDFromProviderID providerID)) (\<lambda>i. li_client D (li_DeleteInstance (l_api D) i))"

definition li_instanceIfExists :: "'x li_env \<Rightarrow> Machine \<Rightarrow> (('s, 'x) world, Instance) prog" where
  "li_instanceIfExists D m =
     bindp (li_client D (li_ListInstances (l_api D))) (\<lambda>lds.
     case find (\<lambda>ld. in_Label ld = m_Name m) lds of
       Some ld \<Rightarrow> ret ld
     | None \<Rightarrow> fail (Err (''no vm found with '' @ m_Name m @ '' name'')))"

text \<open>The loop dereferences the label of every balancer it looks at.\<close>

fun find_balancer :: "string \<Rightarrow> NodeBalancer list \<Rightarrow> NodeBalancer option res" where
  "find_balancer name [] = Inr None"
| "find_balancer name (lb # lbs) = (case nb_Label lb of
     None \<Rightarrow> Inl nil_deref
   | Some l \<Rightarrow> if l = name then Inr (Some lb) else find_balancer name lbs)"

definition li_lbByName :: "'x li_env \<Rightarrow> string \<Rightarrow> (('s, 'x) world, NodeBalancer lookup) prog" where
  "li_lbByName D name =
     bindp (attempt (li_client D (li_ListNodeBalancers (l_api D)))) (\<lambda>r. case r of
       Inl e \<Rightarrow> ret (Failed (err_msg e))
     | Inr lbs \<Rightarrow> bindp (liftr (find_balancer name lbs)) (\<lambda>f. case f of None \<Rightarrow> ret NotFound | Some lb \<Rightarrow> ret (Found lb)))"

definition li_createNodeBalancer :: "'x li_env \<Rightarrow> string \<Rightarrow> (('s, 'x) world, int) prog" where
  "li_createNodeBalancer D name =
     bindp (gets w_Cluster) (\<lambda>c. li_client D (li_CreateNodeBalancer_call (l_api D) name (Zone (c_CloudSpec c)) 20))"

definition li_createNodeBalancerConfig :: "'x li_env \<Rightarrow> int \<Rightarrow> (('s, 'x) world, int) prog" where
  "li_createNodeBalancerConfig D nbID = li_client D (li_CreateNodeBalancerConfig_call (l_api D) nbID
     \<lparr>nc_Port = 6443, nc_Protocol = ''tcp'', nc_Algorithm = ''leastconn'', nc_Stickiness = ''table'', nc_Check = ''connection'',
      nc_CheckInterval = 5, nc_CheckTimeout = 3, nc_CheckAttempts = 10, nc_CheckPassive = True\<rparr>)"

definition li_buildLoadBalancerRequest :: "'x li_env \<Rightarrow> string \<Rightarrow> (('s, 'x) world, NodeBalancer) prog" where
  "li_buildLoadBalancerRequest D lbName =
     bindp (li_createNodeBalancer D lbName) (\<lambda>lb.
     bindp (li_client D (li_GetNodeBalancer (l_api D) lb)) (\<lambda>r. case r of
       None \<Rightarrow> fail (Err (''nodebalancer with id '' @ show_int lb @ '' not found''))
     | Some nb \<Rightarrow> bindp (li_createNodeBalancerConfig D lb) (\<lambda>_. ret nb)))"

text \<open>An error of \<^verbatim>\<open>lbByName\<close> other than \<^verbatim>\<open>errLBNotFound\<close> is dropped: the result is \<^verbatim>\<open>nil, nil\<close>.\<close>

definition li_createLoadBalancer :: "'x li_env \<Rightarrow> string \<Rightarrow> (('s, 'x) world, NodeBalancer option) prog" where
  "li_createLoadBalancer D name =
     bindp (li_lbByName D name) (\<lambda>r. case r of
       NotFound \<Rightarrow> bindp (li_buildLoadBalancerRequest D name) (\<lambda>nb. ret (Some nb))
     | Failed _ \<Rightarrow> ret None
     | Found lb \<Rightarrow> ret (Some lb))"

definition found_lb :: "'a lookup \<Rightarrow> ('w, 'a) prog" where
  "found_lb r = (case r of Found lb \<Rightarrow> ret lb | NotFound \<Rightarrow> fail (Err ''loadbalancer not found'') | Failed e \<Rightarrow> fail (Err e))"

definition li_addNodeToBalancer :: "'x li_env \<Rightarrow> string \<Rightarrow> string \<Rightarrow> string \<Rightarrow> (('s, 'x) world, unit) prog" where
  "li_addNodeToBalancer D lbName nodeName ip =
     bindp (li_lbByName D lbName) (\<lambda>r.
     bindp (found_lb r) (\<lambda>lb.
     bindp (li_client D (li_ListNodeBalancerConfigs (l_api D) (nb_ID lb))) (\<lambda>lbcs.
     bindp (liftr (index_at lbcs 0)) (\<lambda>lbc.
     li_client D (li_CreateNodeBalancerNode (l_api D) (nb_ID lb) lbc
       \<lparr>nn_Address = ip @ '':6443'', nn_Label = nodeName, nn_Weight = 100, nn_Mode = ''accept''\<rparr>)))))"

definition li_deleteLoadBalancer :: "'x li_env \<Rightarrow> string \<Rightarrow> (('s, 'x) world, unit) prog" where
  "li_deleteLoadBalancer D lbName =
     bindp (li_lbByName D lbName) (\<lambda>r.
     bindp (found_lb r) (\<lambda>lb. li_client D (li_DeleteNodeBalancer (l_api D) (nb_ID lb))))"

section \<open>The cloud manager (context.go, apply.go, create.go)\<close>

definition li_SetCloudConnector :: "('s, 'x) env \<Rightarrow> 'x li_env \<Rightarrow> (('s, 'x) world, unit) prog" where
  "li_SetCloudConnector E D =
     bindp (attempt (li_newconnector E D)) (\<lambda>r.
     bindp (modify (\<lambda>w. w\<lparr>w_ext := l_set_connected D (is_ok r) (w_ext w)\<rparr>)) (\<lambda>_. liftr r))"

definition CreateCredentialSecret ::
  "('s, 'x) env \<Rightarrow> 'x li_env \<Rightarrow> string \<Rightarrow> string \<Rightarrow> (string \<rightharpoonup> string) \<Rightarrow> (('s, 'x) world, unit) prog" where
  "CreateCredentialSecret E D cloudProvider namespace data = CreateSecret E cloudProvider namespace (l_entries D data)"

definition li_CreateCredentials :: "('s, 'x) env \<Rightarrow> 'x li_env \<Rightarrow> (('s, 'x) world, unit) prog" where
  "li_CreateCredentials E D =
     bindp (GetCredential E) (\<lambda>cred.
     bindp (gets w_Cluster) (\<lambda>c.
     bindp (CreateCredentialSecret E D (CloudProvider_of c) ''kube-system'' (Data (cr_Spec cred))) (\<lambda>_.
     let token = (case Data (cr_Spec cred) ''token'' of None \<Rightarrow> '''' | Some t \<Rightarrow> t) in
     CreateSecret E ''ccm-linode'' ''kube-system'' [(''apiToken'', token), (''region'', Region (c_CloudSpec c))])))"

definition li_GetClusterAPIComponents :: "'x li_env \<Rightarrow> (('s, 'x) world, string) prog" where
  "li_GetClusterAPIComponents D = ret (l_ControllerManager D)"

definition li_TypeMeta :: TypeMeta where
  "li_TypeMeta = \<lparr>Kind = ''LinodeClusterProviderConfig'', APIVersion = ''linodeproviderconfig/v1alpha1''\<rparr>"

text \<open>The role parameter is not looked at: a machine is a master if no type is asked for.\<close>

definition li_GetDefaultMachineProviderSpec ::
  "('s, 'x) env \<Rightarrow> 'x li_env \<Rightarrow> string \<Rightarrow> MachineRole \<Rightarrow> (('s, 'x) world, bytes option) prog" where
  "li_GetDefaultMachineProviderSpec E D sku0 role =
     (let (sku, roles) = (if sku0 = '''' then (''g6-standard-2'', [''Master'']) else (sku0, [''Node''])) in
      bindp (gets w_Cluster) (\<lambda>c.
      bindp (on_store (so_ssh_Get (e_store E) (c_Name c) (GenSSHKeyExternalID c))) (\<lambda>ks.
      bindp (liftr (marshal (l_spec D)
        \<lparr>lm_TypeMeta = li_TypeMeta, lm_Roles = roles, lm_Region = Region (c_CloudSpec c), lm_Type = sku,
         lm_Image = InstanceImage (c_CloudSpec c), lm_Pubkey = fst ks\<rparr>)) (\<lambda>raw. ret (Some raw)))))"

definition SetLinodeClusterProviderConfig :: "'x li_env \<Rightarrow> (('s, 'x) world, unit) prog" where
  "SetLinodeClusterProviderConfig D =
     bindp (liftr (marshal (l_spec D) (zero_LinodeSpec\<lparr>lm_TypeMeta := li_TypeMeta\<rparr>))) (\<lambda>raw.
     upd_cluster (set_ccProviderSpec raw))"

definition li_defaults :: "string \<Rightarrow> Cluster \<Rightarrow> Cluster" where
  "li_defaults password = upd_Config (\<lambda>g. g\<lparr>Cloud := (Cloud g)\<lparr>InstanceImage := ''linode/ubuntu16.04lts'',
     Linode := Some \<lparr>RootPassword = password, KernelID = ''''\<rparr>\<rparr>, SSHUserName := ''root''\<rparr>)"

definition li_SetDefaultCluster :: "'x li_env \<Rightarrow> (('s, 'x) world, unit) prog" where
  "li_SetDefaultCluster D =
     bindp (on_ext (l_GeneratePassword D)) (\<lambda>password.
     bindp (upd_cluster (li_defaults password)) (\<lambda>_.
     SetLinodeClusterProviderConfig D))"

text \<open>The addresses under which the API server is to be reached: the load balancer in the status.\<close>

definition lb_addresses :: "Cluster \<Rightarrow> NodeAddress list" where
  "lb_addresses c = (let lb = cs_LoadBalancer (cst_Cloud (Status c)) in
     if lb_DNS lb \<noteq> '''' then [\<lparr>AddrType = NodeExternalDNS, Address = lb_DNS lb\<rparr>]
     else if lb_IP lb \<noteq> '''' then [\<lparr>AddrType = NodeExternalIP, Address = lb_IP lb\<rparr>] else [])"

text \<open>The template data of this provider (\<^verbatim>\<open>startupscript.go\<close>).\<close>

definition li_NewNodeTemplateData :: "'x li_env \<Rightarrow> Machine \<Rightarrow> string \<Rightarrow> TemplateData \<Rightarrow> (('s, 'x) world, TemplateData) prog" where
  "li_NewNodeTemplateData D machine token td =
     bindp (set_arg ''cloud-provider'' ''external'' (td\<lparr>td_ExternalProvider := True\<rparr>)) (\<lambda>td.
     bindp (set_arg ''enable-controller-attach-detach'' ''false'' td) (\<lambda>td.
     bindp (set_arg ''keep-terminated-pod-volumes'' ''true'' td) (\<lambda>td.
     bindp (attempt (JoinConfigurationYAML (l_startup D) td)) (\<lambda>r.
     ret (td\<lparr>td_JoinConfiguration := (case r of Inl _ \<Rightarrow> '''' | Inr joinConf \<Rightarrow> joinConf)\<rparr>)))))"

definition li_NewMasterTemplateData :: "Machine \<Rightarrow> string \<Rightarrow> TemplateData \<Rightarrow> (('s, 'x) world, TemplateData) prog" where
  "li_NewMasterTemplateData machine token td =
     bindp (gets w_Cluster) (\<lambda>c.
     bindp (liftr (GetDefaultKubeadmClusterConfig c None)) (\<lambda>conf. ret (td\<lparr>td_ClusterConfiguration := Some conf\<rparr>)))"

definition li_hooks :: "'x li_env \<Rightarrow> ('s, 'x) template_hooks" where
  "li_hooks D = \<lparr>th_Node = li_NewNodeTemplateData D, th_Master = li_NewMasterTemplateData\<rparr>"

definition li_RenderStartupScript :: "('s, 'x) env \<Rightarrow> 'x li_env \<Rightarrow> Machine \<Rightarrow> string \<Rightarrow> (('s, 'x) world, string) prog" where
  "li_RenderStartupScript E D machine token = RenderStartupScript E (l_startup D) (li_hooks D) machine token (l_template D)"

definition li_EnsureMaster :: "('s, 'x) env \<Rightarrow> 'x li_env \<Rightarrow> Machine \<Rightarrow> (('s, 'x) world, unit) prog" where
  "li_EnsureMaster E D leader =
     bindp (attempt (li_instanceIfExists D leader)) (\<lambda>r.
     if is_ok r then ret ()
     else bindp (gets w_Cluster) (\<lambda>c.
       bindp (li_RenderStartupScript E D leader '''') (\<lambda>script.
       bindp (li_createOrUpdateStackScript D leader script) (\<lambda>_.
       bindp (li_CreateInstance E D leader script) (\<lambda>masterServer.
       bindp (li_addNodeToBalancer D (li_LoadBalancerName c) (m_Name leader) (ni_PrivateIP masterServer)) (\<lambda>_.
       bindp (try_endpoints (lb_addresses c)) (\<lambda>_.
       store_cluster (so_cluster_Update (e_store E)))))))))"

definition li_PrepareCloud :: "'x li_env \<Rightarrow> (('s, 'x) world, unit) prog" where
  "li_PrepareCloud D =
     bindp (gets w_Cluster) (\<lambda>c.
     bindp (li_lbByName D (li_LoadBalancerName c)) (\<lambda>r.
     bindp (case r of Found lb \<Rightarrow> ret (Some lb) | NotFound \<Rightarrow> li_createLoadBalancer D (li_LoadBalancerName c)
            | Failed _ \<Rightarrow> li_createLoadBalancer D (li_LoadBalancerName c)) (\<lambda>olb.
     bindp (liftr (deref_opt olb)) (\<lambda>lb.
     bindp (liftr (deref_opt (nb_IPv4 lb))) (\<lambda>ip.
     bindp (upd_cluster (set_LoadBalancer \<lparr>lb_DNS = '''', lb_IP = ip, lb_Port = DefaultKubernetesBindPort\<rparr>)) (\<lambda>_.
     try_endpoints [\<lparr>AddrType = NodeExternalIP, Address = ip\<rparr>]))))))"

definition logged :: "('w, unit) prog \<Rightarrow> ('w, unit) prog" where
  "logged m = bindp (attempt m) (\<lambda>_. ret ())"

definition li_delete_workers :: "'x li_env \<Rightarrow> (('s, 'x) world, unit) prog" where
  "li_delete_workers D =
     bindp (attempt (on_ext (l_Nodes_List D RoleNodeKey))) (\<lambda>r. case r of
       Inl _ \<Rightarrow> ret ()
     | Inr nodes \<Rightarrow> for_each nodes (\<lambda>mi.
         bindp (logged (li_DeleteStackScript D (fst mi) ''node'')) (\<lambda>_. logged (on_ext (l_Nodes_Delete D (fst mi))))))"

definition li_delete_masters :: "'x li_env \<Rightarrow> (('s, 'x) world, unit) prog" where
  "li_delete_masters D =
     bindp (attempt (on_ext (l_Nodes_List D RoleMasterKey))) (\<lambda>r. case r of
       Inl _ \<Rightarrow> ret ()
     | Inr nodes \<Rightarrow> for_each nodes (\<lambda>mi.
         bindp (logged (li_DeleteStackScript D (fst mi) ''master'')) (\<lambda>_. logged (li_DeleteInstanceByProviderID D (snd mi)))))"

definition li_ApplyDelete :: "('s, 'x) env \<Rightarrow> 'x li_env \<Rightarrow> (('s, 'x) world, unit) prog" where
  "li_ApplyDelete E D =
     bindp (GetAdminClient E) (\<lambda>_.
     bindp (li_delete_workers D) (\<lambda>_.
     bindp (li_delete_masters D) (\<lambda>_.
     bindp (gets w_Cluster) (\<lambda>c.
     bindp (li_lbByName D (li_LoadBalancerName c)) (\<lambda>lb.
     bindp (case lb of Found _ \<Rightarrow> li_deleteLoadBalancer D (li_LoadBalancerName c) | NotFound \<Rightarrow> ret ()
            | Failed _ \<Rightarrow> li_deleteLoadBalancer D (li_LoadBalancerName c)) (\<lambda>_.
     bindp (upd_cluster (set_Phase ClusterDeleted)) (\<lambda>_.
     store_cluster (so_cluster_UpdateStatus (e_store E)))))))))"

definition li_GetMasterSKU :: "int32 \<Rightarrow> string" where
  "li_GetMasterSKU totalNodes = ''g6-standard-2''"

definition li_ApplyScale :: "(('s, 'x) world, unit) prog" where
  "li_ApplyScale = fail (Panic ''implement me'')"

definition li_manager :: "('s, 'x) env \<Rightarrow> 'x li_env \<Rightarrow> ('s, 'x) cloud_manager" where
  "li_manager E D =
     \<lparr>cm_SetCloudConnector = li_SetCloudConnector E D, cm_CreateCredentials = li_CreateCredentials E D,
      cm_ApplyDelete = li_ApplyDelete E D, cm_ApplyScale = li_ApplyScale,
      cm_SetDefaultCluster = li_SetDefaultCluster D,
      cm_GetDefaultMachineProviderSpec = li_GetDefaultMachineProviderSpec E D, cm_PrepareCloud = li_PrepareCloud D,
      cm_EnsureMaster = li_EnsureMaster E D, cm_GetMasterSKU = li_GetMasterSKU,
      cm_GetClusterAPIComponents = li_GetClusterAPIComponents D,
      cm_GetAdminClient = GetAdminClient E\<rparr>"

section \<open>The machine actuator (machine_actuator.go)\<close>

definition li_validateMachine :: "LinodeMachineProviderSpec \<Rightarrow> unit res" where
  "li_validateMachine conf =
     (if lm_Image conf = '''' then Inl (Err ''image slug must be provided'')
      else if lm_Region conf = '''' then Inl (Err ''region must be provided'')
      else if lm_Type conf = '''' then Inl (Err ''type must be provided'')
      else Inr ())"

definition li_getKubeadmToken :: "'x li_env \<Rightarrow> (('s, 'x) world, string) prog" where
  "li_getKubeadmToken D = bindp (on_ext (l_TokenCreate D)) (\<lambda>token. ret (trim_space token))"

definition li_Exists :: "'x li_env \<Rightarrow> Machine \<Rightarrow> (('s, 'x) world, bool) prog" where
  "li_Exists D m = bindp (attempt (li_instanceIfExists D m)) (\<lambda>r. ret (is_ok r))"

definition li_updateMachineStatus :: "'x li_env \<Rightarrow> Machine \<Rightarrow> (('s, 'x) world, unit) prog" where
  "li_updateMachineStatus D m =
     bindp (li_instanceIfExists D m) (\<lambda>vm.
     bindp (liftr (case ProviderStatus (m_Status m) of
                     None \<Rightarrow> Inr \<lparr>lst_InstanceID = 0, lst_InstanceStatus = ''''\<rparr> | Some raw \<Rightarrow> unmarshal (l_mstatus D) raw)) (\<lambda>status.
     bindp (liftr (marshal (l_mstatus D) (status\<lparr>lst_InstanceID := in_ID vm, lst_InstanceStatus := in_Status vm\<rparr>))) (\<lambda>raw.
     on_ext (l_client_Status_Machine D (m\<lparr>m_Status := (m_Status m)\<lparr>ProviderStatus := Some raw\<rparr>\<rparr>)))))"

definition li_Machine_Create :: "('s, 'x) env \<Rightarrow> 'x li_env \<Rightarrow> Machine \<Rightarrow> (('s, 'x) world, unit) prog" where
  "li_Machine_Create E D m =
     bindp (liftr (li_MachineConfig D (ProviderSpec (m_Spec m)))) (\<lambda>conf.
     bindp (pwrap (''failed to valide machine config for machien '' @ m_Name m) (liftr (li_validateMachine conf))) (\<lambda>_.
     bindp (li_Exists D m) (\<lambda>exists.
     bindp (if exists then ret ()
            else bindp (li_getKubeadmToken D) (\<lambda>token.
                 bindp (gets w_Cluster) (\<lambda>c.
                 bindp (li_RenderStartupScript E D m token) (\<lambda>script.
                 bindp (li_CreateInstance E D m script) (\<lambda>server.
                 if IsControlPlaneMachine m
                 then li_addNodeToBalancer D (li_LoadBalancerName c) (m_Name m) (ni_PrivateIP server)
                 else ret ()))))) (\<lambda>_.
     li_updateMachineStatus D m))))"

definition li_Machine_Delete :: "'x li_env \<Rightarrow> Machine \<Rightarrow> (('s, 'x) world, unit) prog" where
  "li_Machine_Delete D m =
     bindp (attempt (li_instanceIfExists D m)) (\<lambda>r. case r of
       Inl _ \<Rightarrow> ret ()
     | Inr instance \<Rightarrow> logged (li_DeleteInstanceByProviderID D (''linode://'' @ show_int (in_ID instance))))"

definition li_Machine_Update :: "('s, 'x) env \<Rightarrow> 'x li_env \<Rightarrow> Machine \<Rightarrow> (('s, 'x) world, unit) prog" where
  "li_Machine_Update E D m =
     bindp (liftr (li_MachineConfig D (ProviderSpec (m_Spec m)))) (\<lambda>conf.
     bindp (liftr (li_validateMachine conf)) (\<lambda>_.
     bindp (li_Exists D m) (\<lambda>exists.
     if \<not> exists then li_Machine_Create E D m else li_updateMachineStatus D m)))"

section \<open>The cluster actuator (cluster_actuator.go)\<close>

definition li_updateClusterStatus ::
  "'x li_env \<Rightarrow> CapiCluster \<Rightarrow> LinodeClusterProviderStatus \<Rightarrow> (('s, 'x) world, unit) prog" where
  "li_updateClusterStatus D cc status =
     bindp (liftr (marshal (l_cstatus D) status)) (\<lambda>raw.
     on_ext (l_client_Status_Cluster D (cc\<lparr>cc_Status := (cc_Status cc)\<lparr>ccst_ProviderStatus := Some raw\<rparr>\<rparr>)))"

definition li_Reconcile :: "'x li_env \<Rightarrow> CapiCluster \<Rightarrow> (('s, 'x) world, unit) prog" where
  "li_Reconcile D cc =
     bindp (gets w_Cluster) (\<lambda>c.
     bindp (li_lbByName D (li_LoadBalancerName c)) (\<lambda>r.
     bindp (case r of
              Found lb \<Rightarrow> ret (lb, cc)
            | NotFound \<Rightarrow> bindp (li_createLoadBalancer D (li_LoadBalancerName c)) (\<lambda>olb.
                bindp (liftr (deref_opt olb)) (\<lambda>lb.
                bindp (liftr (deref_opt (nb_IPv4 lb))) (\<lambda>ip.
                ret (lb, cc\<lparr>cc_Status := (cc_Status cc)\<lparr>APIEndpoints := [\<lparr>Host = ip, Port = 6443\<rparr>]\<rparr>\<rparr>))))
            | Failed e \<Rightarrow> fail (Err e)) (\<lambda>p.
     bindp (liftr (case ccst_ProviderStatus (cc_Status (snd p)) of
                     None \<Rightarrow> Inr \<lparr>lcs_APIServerLB = None\<rparr> | Some raw \<Rightarrow> unmarshal (l_cstatus D) raw)) (\<lambda>status.
     li_updateClusterStatus D (snd p) (status\<lparr>lcs_APIServerLB := Some (li_DescribeLoadBalancer (fst p))\<rparr>)))))"

end
