(* ===== verification/Managed.thy ===== *)
theory Managed
  imports Linode
begin

text \<open>
  What the providers of managed clusters share: the cloud runs the control plane, and a machine set is a
  pool of nodes there.  They read certificates that the cloud issued, and write kubeconfigs of their own.
\<close>

section \<open>Certificates\<close>

definition set_CACert :: "bytes \<Rightarrow> (('s, 'x) world, unit) prog" where
  "set_CACert crt = bindp (gets w_Certs) (\<lambda>mo. case mo of
     None \<Rightarrow> fail nil_deref
   | Some cs \<Rightarrow> modify (\<lambda>w. w\<lparr>w_Certs := Some (cs\<lparr>CACert := (CACert cs)\<lparr>Cert := crt\<rparr>\<rparr>)\<rparr>))"

definition GetAdminCertificate :: "('s, 'x) env \<Rightarrow> string \<Rightarrow> (('s, 'x) world, bytes \<times> bytes) prog" where
  "GetAdminCertificate E cl =
     reason ''failed to get admin certificates.'' (on_store (so_cert_Get (e_store E) cl ''admin''))"

text \<open>The CA certificate of the new cluster replaces that of the store; the private key is kept.\<close>

definition drop_ca :: "('s, 'x) env \<Rightarrow> string \<Rightarrow> (('s, 'x) world, bytes option) prog" where
  "drop_ca E cl =
     bindp (attempt (on_store (so_cert_Get (e_store E) cl ''ca''))) (\<lambda>r. case r of
       Inl _ \<Rightarrow> ret None
     | Inr p \<Rightarrow> bindp (on_store (so_cert_Delete (e_store E) cl ''ca'')) (\<lambda>_. ret (Some (snd p))))"

section \<open>Machine sets\<close>

text \<open>\<^verbatim>\<open>*ng.Spec.Replicas\<close>, and the mark that a pool is to go.\<close>

definition replicas_of :: "MachineSet \<Rightarrow> int32 res" where
  "replicas_of ng = deref_opt (Replicas (ms_Spec ng))"

definition to_delete :: "MachineSet \<Rightarrow> bool res" where
  "to_delete ng = rbind (replicas_of ng) (\<lambda>n. Inr (n = 0 \<or> DeletionTimestamp (ms_ObjectMeta ng) \<noteq> None))"

definition scaled :: "MachineSet \<Rightarrow> MachineSet res" where
  "scaled ng = rbind (replicas_of ng) (\<lambda>n. Inr (ng\<lparr>ms_Status := \<lparr>mss_Replicas = n\<rparr>\<rparr>))"

fun map_res :: "('a \<Rightarrow> 'b res) \<Rightarrow> 'a list \<Rightarrow> 'b list res" where
  "map_res f [] = Inr []"
| "map_res f (x # xs) = rbind (f x) (\<lambda>y. rbind (map_res f xs) (\<lambda>ys. Inr (y # ys)))"

section \<open>Cluster object and kubeconfig\<close>

definition set_Reason :: "string \<Rightarrow> Cluster \<Rightarrow> Cluster" where
  "set_Reason r c = c\<lparr>Status := (Status c)\<lparr>Reason := r\<rparr>\<rparr>"

definition append_endpoint :: "string \<Rightarrow> Cluster \<Rightarrow> Cluster" where
  "append_endpoint host c = set_Endpoints (c_Endpoints c @ [\<lparr>Host = host, Port = 0\<rparr>]) c"

record ManagedKubeConfig = KubeConfig +
  kx_Username :: string
  kx_Password :: string
  kx_Exec :: "string list option"

text \<open>The names in the kubeconfig of a cluster; the rest is empty.\<close>

definition managed_config :: "Cluster \<Rightarrow> string \<Rightarrow> bytes \<Rightarrow> ManagedKubeConfig" where
  "managed_config c server ca =
     \<lparr>kc_ClusterName = c_Name c @ ''.pharmer'', kc_Server = server, kc_CAData = ca,
      kc_UserName = ''cluster-admin@'' @ c_Name c @ ''.pharmer'', kc_ClientCertificateData = '''', kc_ClientKeyData = '''',
      kc_Token = '''', kc_ContextName = ''cluster-admin@'' @ c_Name c @ ''.pharmer'',
      kx_Username = '''', kx_Password = '''', kx_Exec = None\<rparr>"

definition no_endpoint_here :: "string \<Rightarrow> gerror" where
  "no_endpoint_here name = Err (''failed to detect api server url for cluster '' @ name)"

end
