(* ===== verification/Dokube.thy ===== *)
theory Dokube
  imports Managed
begin

text \<open>
  The provider of managed DigitalOcean clusters, \<^verbatim>\<open>cloud/providers/dokube\<close>, with the provider objects of
  \<^verbatim>\<open>apis/v1alpha1/dokube\<close>: connector (\<^verbatim>\<open>cloud.go\<close>), cloud manager (\<^verbatim>\<open>apply.go\<close>, \<^verbatim>\<open>context.go\<close>, \<^verbatim>\<open>create.go\<close>,
  \<^verbatim>\<open>wrapper.go\<close>) and the manager of a node group (\<^verbatim>\<open>ngm.go\<close>).  The API client \<^verbatim>\<open>godo\<close> is a record of operations.
\<close>

section \<open>Provider objects and API client\<close>

record DokubeMachineProviderConfig =
  dkm_TypeMeta :: TypeMeta
  dkm_ObjectMeta :: ObjectMeta
  dkm_Size :: string

record KubernetesNodePoolCreateRequest =
  npr_Name :: string
  npr_Size :: string
  npr_Count :: int

record KubernetesClusterCreateRequest =
  kcr_Name :: string
  kcr_RegionSlug :: string
  kcr_VersionSlug :: string
  kcr_NodePools :: "KubernetesNodePoolCreateRequest list"

record KubernetesCluster =
  kcl_ID :: string
  kcl_Endpoint :: string
  kcl_State :: "string option"

record KubernetesNodePool =
  knp_ID :: string
  knp_Name :: string
  knp_Size :: string
  knp_Count :: int

text \<open>A kubeconfig as \<^verbatim>\<open>clientcmd.Load\<close> reads it.\<close>

record kubeconfig_file =
  kf_CurrentContext :: string
  kf_Clusters :: "string \<rightharpoonup> bytes"
  kf_Contexts :: "string \<rightharpoonup> string"
  kf_AuthInfos :: "string \<rightharpoonup> bytes \<times> bytes"

record 'x dokube_ops =
  dk_Tags_Create :: "string \<Rightarrow> ('x, unit) prog"
  dk_Tags_Delete :: "string \<Rightarrow> ('x, unit) prog"
  Kubernetes_Create :: "KubernetesClusterCreateRequest \<Rightarrow> ('x, KubernetesCluster) prog"
  Kubernetes_Get :: "string \<Rightarrow> ('x, KubernetesCluster) prog"
  Kubernetes_Delete :: "string \<Rightarrow> ('x, unit) prog"
  Kubernetes_GetKubeConfig :: "string \<Rightarrow> ('x, bytes) prog"
  Kubernetes_ListNodePools :: "string \<Rightarrow> ('x, KubernetesNodePool list) prog"
  Kubernetes_GetNodePool :: "string \<Rightarrow> string \<Rightarrow> ('x, KubernetesNodePool option) prog"
  Kubernetes_CreateNodePool :: "string \<Rightarrow> KubernetesNodePoolCreateRequest \<Rightarrow> ('x, unit) prog"
  Kubernetes_UpdateNodePool :: "string \<Rightarrow> string \<Rightarrow> string \<Rightarrow> int \<Rightarrow> ('x, unit) prog"
  Kubernetes_DeleteNodePool :: "string \<Rightarrow> string \<Rightarrow> ('x, unit) prog"

record 'x dokube_env =
  dk_api :: "'x dokube_ops"
  dk_cred_IsValid :: "Credential \<Rightarrow> bool \<times> gerror option"
  dk_json :: "DokubeMachineProviderConfig \<Rightarrow> bytes res"
  dk_yaml :: "bytes \<Rightarrow> DokubeMachineProviderConfig res"
  dk_url_Host :: "string \<Rightarrow> string res"
  dk_Load :: "bytes \<Rightarrow> kubeconfig_file res"
  dk_pem :: "(bytes, bytes) pem"
  dk_connected :: "'x \<Rightarrow> bool"
  dk_set_connected :: "bool \<Rightarrow> 'x \<Rightarrow> 'x"

definition dk_UID :: string where "dk_UID = ''dokube''"

definition zero_DokubeConfig :: DokubeMachineProviderConfig where
  "zero_DokubeConfig = \<lparr>dkm_TypeMeta = zero_TypeMeta, dkm_ObjectMeta = zero_ObjectMeta, dkm_Size = ''''\<rparr>"

definition DokubeProviderConfig :: "'x dokube_env \<Rightarrow> bytes \<Rightarrow> DokubeMachineProviderConfig res" where
  "DokubeProviderConfig D raw = dk_yaml D raw"

definition SetLDokubeClusterProviderConfig :: "'x dokube_env \<Rightarrow> (('s, 'x) world, unit) prog" where
  "SetLDokubeClusterProviderConfig D =
     bindp (liftr (dk_json D (zero_DokubeConfig\<lparr>dkm_TypeMeta :=
       \<lparr>Kind = ''DokubeClusterProviderConfig'', APIVersion = ''dokubeproviderconfig/v1alpha1''\<rparr>\<rparr>))) (\<lambda>raw.
     upd_cluster (set_ccProviderSpec raw))"

text \<open>A method of the connector that was not set, and \<^verbatim>\<open>Spec.Config.Cloud.Dokube.ClusterID\<close>.\<close>

definition dk_conn :: "'x dokube_env \<Rightarrow> (('s, 'x) world, 'a) prog \<Rightarrow> (('s, 'x) world, 'a) prog" where
  "dk_conn D m = bindp (gets (dk_connected D \<circ> w_ext)) (\<lambda>b. if b then m else fail nil_deref)"

definition dk_ClusterID :: "(('s, 'x) world, string) prog" where
  "dk_ClusterID = bindp (gets w_Cluster) (\<lambda>c.
     bindp (liftr (deref_opt (Dokube (c_CloudSpec c)))) (\<lambda>spec. ret (ClusterID spec)))"

definition set_ClusterID :: "string \<Rightarrow> Cluster \<Rightarrow> Cluster" where
  "set_ClusterID i = upd_CloudSpec (\<lambda>s. s\<lparr>Dokube := map_option (\<lambda>d. d\<lparr>ClusterID := i\<rparr>) (Dokube s)\<rparr>)"

section \<open>The connector (cloud.go)\<close>

definition dk_IsUnauthorized :: "'x dokube_env \<Rightarrow> time \<Rightarrow> (('s, 'x) world, bool \<times> string) prog" where
  "dk_IsUnauthorized D now =
     (let name = ''check-write-access:'' @ show_int (now div 1000000000) in
      bindp (attempt (on_ext (dk_Tags_Create (dk_api D) name))) (\<lambda>r. case r of
        Inl _ \<Rightarrow> ret (False, ''Credential missing WRITE scope'')
      | Inr _ \<Rightarrow> bindp (attempt (on_ext (dk_Tags_Delete (dk_api D) name))) (\<lambda>r2. case r2 of
          Inl _ \<Rightarrow> ret (False, ''Unable to delete tag'') | Inr _ \<Rightarrow> ret (True, ''''))))"

definition dk_newconnector :: "('s, 'x) env \<Rightarrow> 'x dokube_env \<Rightarrow> (('s, 'x) world, bool) prog" where
  "dk_newconnector E D =
     bindp (gets (CredentialName \<circ> c_Config \<circ> w_Cluster)) (\<lambda>name.
     bindp (on_store (so_credential_Get (e_store E) name)) (\<lambda>cred.
     let (ok, err) = dk_cred_IsValid D cred in
     if \<not> ok then (case err of Some e \<Rightarrow> fail e | None \<Rightarrow> ret False)
     else bindp (on_ext (time_Now (e_sys E))) (\<lambda>now.
       bindp (dk_IsUnauthorized D now) (\<lambda>(ok, msg).
       if ok then ret True
       else fail (Err (''credential `'' @ name @ ''` does not have necessary authorization. Reason: '' @ msg))))))"

text \<open>The error of the call is dropped, and the cluster it gives then is \<^verbatim>\<open>nil\<close>.\<close>

definition dk_waitForClusterCreation :: "('s, 'x) env \<Rightarrow> 'x dokube_env \<Rightarrow> string \<Rightarrow> (('s, 'x) world, unit) prog" where
  "dk_waitForClusterCreation E D clusterID = PollImmediate (poll_ticks (e_sys E))
     (bindp (attempt (on_ext (Kubernetes_Get (dk_api D) clusterID))) (\<lambda>r. case r of
        Inl _ \<Rightarrow> fail nil_deref
      | Inr k \<Rightarrow> bindp (liftr (deref_opt (kcl_State k))) (\<lambda>state. ret (state \<noteq> ''provisioning''))))"

definition dk_node_pool :: "'x dokube_env \<Rightarrow> MachineSet \<Rightarrow> KubernetesNodePoolCreateRequest res" where
  "dk_node_pool D ng =
     rbind (deref_opt (ProviderSpec (TemplateSpec (ms_Spec ng)))) (\<lambda>raw.
     rbind (DokubeProviderConfig D raw) (\<lambda>config.
     rbind (replicas_of ng) (\<lambda>n.
     Inr \<lparr>npr_Name = ms_Name ng, npr_Size = dkm_Size config, npr_Count = sint n\<rparr>)))"

definition dk_getCluster :: "'x dokube_env \<Rightarrow> string \<Rightarrow> (('s, 'x) world, KubernetesCluster) prog" where
  "dk_getCluster D clusterID = on_ext (Kubernetes_Get (dk_api D) clusterID)"

text \<open>When the new cluster cannot be read, the message of the error dereferences it.\<close>

definition dk_createCluster :: "('s, 'x) env \<Rightarrow> 'x dokube_env \<Rightarrow> (('s, 'x) world, KubernetesCluster) prog" where
  "dk_createCluster E D = dk_conn D
     (bindp (gets w_Cluster) (\<lambda>c.
      bindp (on_store (so_machineset_List (e_store E) (c_Name c))) (\<lambda>nodeGroups.
      bindp (liftr (map_res (dk_node_pool D) nodeGroups)) (\<lambda>nodePools.
      bindp (on_ext (Kubernetes_Create (dk_api D) \<lparr>kcr_Name = c_Name c, kcr_RegionSlug = Zone (c_CloudSpec c),
        kcr_VersionSlug = KubernetesVersion (c_Config c), kcr_NodePools = nodePools\<rparr>)) (\<lambda>k.
      bindp (attempt (dk_waitForClusterCreation E D (kcl_ID k))) (\<lambda>r. case r of
        Inl e \<Rightarrow> bindp (upd_cluster (set_Reason (err_msg e))) (\<lambda>_. fail e)
      | Inr _ \<Rightarrow> bindp (attempt (dk_getCluster D (kcl_ID k))) (\<lambda>r2. case r2 of
          Inl _ \<Rightarrow> fail nil_deref | Inr k2 \<Rightarrow> ret k2)))))))"

definition getNodePoolIDFromName :: "'x dokube_env \<Rightarrow> string \<Rightarrow> (('s, 'x) world, string) prog" where
  "getNodePoolIDFromName D name =
     bindp dk_ClusterID (\<lambda>cid.
     bindp (on_ext (Kubernetes_ListNodePools (dk_api D) cid)) (\<lambda>knps.
     case find (\<lambda>knp. knp_Name knp = name) knps of
       Some knp \<Rightarrow> ret (knp_ID knp)
     | None \<Rightarrow> fail (Err (''NodePool with name '' @ name @ '' not found!''))))"

definition dk_getNodePool :: "'x dokube_env \<Rightarrow> MachineSet \<Rightarrow> (('s, 'x) world, KubernetesNodePool option) prog" where
  "dk_getNodePool D ng = dk_conn D
     (bindp (getNodePoolIDFromName D (ms_Name ng)) (\<lambda>npID.
      bindp dk_ClusterID (\<lambda>cid. on_ext (Kubernetes_GetNodePool (dk_api D) cid npID))))"

definition dk_addNodePool :: "'x dokube_env \<Rightarrow> MachineSet \<Rightarrow> (('s, 'x) world, unit) prog" where
  "dk_addNodePool D ng = dk_conn D
     (bindp (liftr (dk_node_pool D ng)) (\<lambda>req.
      bindp dk_ClusterID (\<lambda>cid. on_ext (Kubernetes_CreateNodePool (dk_api D) cid req))))"

definition dk_deleteNodePool :: "'x dokube_env \<Rightarrow> MachineSet \<Rightarrow> (('s, 'x) world, unit) prog" where
  "dk_deleteNodePool D ng = dk_conn D
     (bindp (getNodePoolIDFromName D (ms_Name ng)) (\<lambda>npID.
      bindp dk_ClusterID (\<lambda>cid. on_ext (Kubernetes_DeleteNodePool (dk_api D) cid npID))))"

definition dk_adjustNodePool :: "'x dokube_env \<Rightarrow> MachineSet \<Rightarrow> (('s, 'x) world, unit) prog" where
  "dk_adjustNodePool D ng = dk_conn D
     (bindp (getNodePoolIDFromName D (ms_Name ng)) (\<lambda>npID.
      bindp (liftr (replicas_of ng)) (\<lambda>n.
      bindp dk_ClusterID (\<lambda>cid. on_ext (Kubernetes_UpdateNodePool (dk_api D) cid npID (ms_Name ng) (sint n))))))"

section \<open>Certificates and endpoint (wrapper.go)\<close>

definition dk_retrieveClusterStatus :: "'x dokube_env \<Rightarrow> KubernetesCluster \<Rightarrow> (('s, 'x) world, unit) prog" where
  "dk_retrieveClusterStatus D k =
     bindp (liftr (dk_url_Host D (kcl_Endpoint k))) (\<lambda>host. upd_cluster (append_endpoint host))"

definition current_ca :: "kubeconfig_file \<Rightarrow> bytes res" where
  "current_ca kc = deref_opt (kf_Clusters kc (kf_CurrentContext kc))"

definition current_auth :: "kubeconfig_file \<Rightarrow> (bytes \<times> bytes) res" where
  "current_auth kc = rbind (deref_opt (kf_Contexts kc (kf_CurrentContext kc))) (\<lambda>user. deref_opt (kf_AuthInfos kc user))"

definition dk_StoreCertificate :: "('s, 'x) env \<Rightarrow> 'x dokube_env \<Rightarrow> (('s, 'x) world, unit) prog" where
  "dk_StoreCertificate E D = dk_conn D
     (bindp dk_ClusterID (\<lambda>cid.
      bindp (on_ext (Kubernetes_GetKubeConfig (dk_api D) cid)) (\<lambda>raw.
      bindp (liftr (dk_Load D raw)) (\<lambda>kc.
      bindp (gets w_Name) (\<lambda>cl.
      bindp (drop_ca E cl) (\<lambda>caKey.
      bindp (liftr (rbind (current_ca kc) (ParseCertsPEM (dk_pem D)))) (\<lambda>caCrt.
      bindp (liftr (index_at caCrt 0)) (\<lambda>crt.
      bindp (on_store (so_cert_Create (e_store E) cl ''ca'' (Some crt) caKey)) (\<lambda>_.
      bindp (liftr (current_auth kc)) (\<lambda>(certData, keyData).
      bindp (liftr (ParseCertsPEM (dk_pem D) certData)) (\<lambda>adminCrt.
      bindp (liftr (ParsePrivateKeyPEM (dk_pem D) keyData)) (\<lambda>adminKey.
      bindp (liftr (index_at adminCrt 0)) (\<lambda>aCrt.
      bindp (liftr (as_rsa adminKey)) (\<lambda>aKey.
      on_store (so_cert_Create (e_store E) cl ''admin'' (Some aCrt) (Some aKey))))))))))))))))"

section \<open>The manager of a node group (ngm.go)\<close>

definition dk_ng_Apply :: "('s, 'x) env \<Rightarrow> 'x dokube_env \<Rightarrow> MachineSet \<Rightarrow> (('s, 'x) world, unit) prog" where
  "dk_ng_Apply E D ng =
     bindp (dk_getNodePool D ng) (\<lambda>np.
     bindp (if np = None then dk_addNodePool D ng
            else bindp (liftr (to_delete ng)) (\<lambda>gone.
              if gone then
                bindp (dk_deleteNodePool D ng) (\<lambda>_.
                bindp (gets w_Name) (\<lambda>cl. on_store (so_machineset_Delete (e_store E) cl (ms_Name ng))))
              else dk_adjustNodePool D ng)) (\<lambda>_.
     bindp (liftr (scaled ng)) (\<lambda>ng'.
     bindp (gets w_Name) (\<lambda>cl.
     bindp (on_store (so_machineset_UpdateStatus (e_store E) cl ng')) (\<lambda>_. ret ())))))"

section \<open>The cloud manager (context.go, apply.go, create.go)\<close>

definition dk_SetCloudConnector :: "('s, 'x) env \<Rightarrow> 'x dokube_env \<Rightarrow> (('s, 'x) world, unit) prog" where
  "dk_SetCloudConnector E D =
     bindp (attempt (dk_newconnector E D)) (\<lambda>r.
     bindp (modify (\<lambda>w. w\<lparr>w_ext := dk_set_connected D (r = Inr True) (w_ext w)\<rparr>)) (\<lambda>_.
     bindp (liftr r) (\<lambda>_. ret ())))"

definition dk_PrepareCloud :: "('s, 'x) env \<Rightarrow> 'x dokube_env \<Rightarrow> (('s, 'x) world, unit) prog" where
  "dk_PrepareCloud E D =
     bindp dk_ClusterID (\<lambda>cid.
     if cid \<noteq> '''' then ret ()
     else bindp (dk_createCluster E D) (\<lambda>k.
       bindp (upd_cluster (set_ClusterID (kcl_ID k))) (\<lambda>_.
       bindp (dk_retrieveClusterStatus D k) (\<lambda>_.
       bindp (dk_StoreCertificate E D) (\<lambda>_.
       bindp (gets w_Name) (\<lambda>cl.
       bindp (GetPharmerCerts E cl) (\<lambda>certs.
       bindp (modify (\<lambda>w. w\<lparr>w_Certs := Some certs\<rparr>)) (\<lambda>_.
       store_cluster (so_cluster_Update (e_store E))))))))))"

definition dk_ApplyScale :: "('s, 'x) env \<Rightarrow> 'x dokube_env \<Rightarrow> (('s, 'x) world, unit) prog" where
  "dk_ApplyScale E D =
     bindp (gets w_Name) (\<lambda>cl.
     bindp (on_store (so_machineset_List (e_store E) cl)) (\<lambda>nodeGroups.
     bindp (for_each nodeGroups (dk_ng_Apply E D)) (\<lambda>_.
     store_cluster (so_cluster_Update (e_store E)))))"

definition dk_ApplyDelete :: "('s, 'x) env \<Rightarrow> 'x dokube_env \<Rightarrow> (('s, 'x) world, unit) prog" where
  "dk_ApplyDelete E D =
     bindp (upd_cluster (\<lambda>c. if c_Phase c = ClusterReady then set_Phase ClusterDeleting c else c)) (\<lambda>_.
     bindp (store_cluster (so_cluster_UpdateStatus (e_store E))) (\<lambda>_.
     bindp (dk_conn D (bindp dk_ClusterID (\<lambda>cid. on_ext (Kubernetes_Delete (dk_api D) cid)))) (\<lambda>_.
     bindp (upd_cluster (set_Phase ClusterDeleted)) (\<lambda>_.
     store_cluster (so_cluster_Update (e_store E))))))"

definition dk_GetDefaultMachineProviderSpec ::
  "'x dokube_env \<Rightarrow> string \<Rightarrow> MachineRole \<Rightarrow> (('s, 'x) world, bytes option) prog" where
  "dk_GetDefaultMachineProviderSpec D sku role =
     bindp (liftr (dk_json D (zero_DokubeConfig\<lparr>dkm_Size := sku\<rparr>))) (\<lambda>raw. ret (Some raw))"

definition dk_defaults :: "Cluster \<Rightarrow> Cluster" where
  "dk_defaults = upd_Config (\<lambda>g. g\<lparr>Cloud := (Cloud g)\<lparr>InstanceImage := ''ubuntu-16-04-x64'',
     Dokube := Some \<lparr>ClusterID = ''''\<rparr>\<rparr>, SSHUserName := ''root''\<rparr>)"

definition dk_SetDefaultCluster :: "'x dokube_env \<Rightarrow> (('s, 'x) world, unit) prog" where
  "dk_SetDefaultCluster D = bindp (upd_cluster dk_defaults) (\<lambda>_. SetLDokubeClusterProviderConfig D)"

definition dk_GetKubeConfig :: "('s, 'x) env \<Rightarrow> (('s, 'x) world, ManagedKubeConfig) prog" where
  "dk_GetKubeConfig E =
     bindp (gets w_Cluster) (\<lambda>c.
     bindp (on_store (so_cert_Get (e_store E) (c_Name c) ''admin'')) (\<lambda>p.
     bindp GetCaCertPair (\<lambda>ca.
     ret ((managed_config c (APIServerURL c) (cert_EncodeCertPEM (e_sys E) (Cert ca)))
       \<lparr>kc_ClientCertificateData := cert_EncodeCertPEM (e_sys E) (fst p),
        kc_ClientKeyData := cert_EncodePrivateKeyPEM (e_sys E) (snd p)\<rparr>))))"

definition NewDokubeAdminClient :: "('s, 'x) env \<Rightarrow> (('s, 'x) world, unit) prog" where
  "NewDokubeAdminClient E =
     bindp (gets w_Cluster) (\<lambda>c.
     bindp (GetAdminCertificate E (c_Name c)) (\<lambda>p.
     let host = APIServerURL c in
     if host = '''' then fail (no_endpoint_here (c_Name c))
     else bindp GetCaCertPair (\<lambda>ca.
       on_ext (kubernetes_NewForConfig (e_kube E)
         \<lparr>rc_Host = host, CAData = cert_EncodeCertPEM (e_sys E) (Cert ca),
          CertData = cert_EncodeCertPEM (e_sys E) (fst p), KeyData = cert_EncodePrivateKeyPEM (e_sys E) (snd p)\<rparr>))))"

definition dk_EnsureMaster :: "Machine \<Rightarrow> (('s, 'x) world, unit) prog" where
  "dk_EnsureMaster m = ret ()"

definition dk_CreateCredentials :: "(('s, 'x) world, unit) prog" where
  "dk_CreateCredentials = ret ()"

definition dk_GetMasterSKU :: "int32 \<Rightarrow> string" where
  "dk_GetMasterSKU totalNodes = ''''"

definition dk_GetClusterAPIComponents :: "(('s, 'x) world, string) prog" where
  "dk_GetClusterAPIComponents = ret ''''"

definition dk_manager :: "('s, 'x) env \<Rightarrow> 'x dokube_env \<Rightarrow> ('s, 'x) cloud_manager" where
  "dk_manager E D =
     \<lparr>cm_SetCloudConnector = dk_SetCloudConnector E D, cm_CreateCredentials = dk_CreateCredentials,
      cm_ApplyDelete = dk_ApplyDelete E D, cm_ApplyScale = dk_ApplyScale E D,
      cm_SetDefaultCluster = dk_SetDefaultCluster D,
      cm_GetDefaultMachineProviderSpec = dk_GetDefaultMachineProviderSpec D, cm_PrepareCloud = dk_PrepareCloud E D,
      cm_EnsureMaster = dk_EnsureMaster, cm_GetMasterSKU = dk_GetMasterSKU,
      cm_GetClusterAPIComponents = dk_GetClusterAPIComponents,
      cm_GetAdminClient = NewDokubeAdminClient E\<rparr>"

end
