(* ===== verification/Packet.thy ===== *)
theory Packet
  imports Linode
begin

text \<open>
  The Packet provider, \<^verbatim>\<open>cloud/providers/packet\<close>, with the provider objects of \<^verbatim>\<open>apis/v1alpha1/packet\<close>:
  connector (\<^verbatim>\<open>cloud.go\<close>), cloud manager (\<^verbatim>\<open>context.go\<close>, \<^verbatim>\<open>apply.go\<close>, \<^verbatim>\<open>create.go\<close>), machine and cluster
  actuator.  It has no load balancer: the endpoint of a cluster is the address of its first master.

  The API client \<^verbatim>\<open>packngo\<close> is a record of operations on the external state.  The list of keys comes
  with the error of the call, which the code looks at last.
\<close>

section \<open>Provider objects (apis/v1alpha1/packet)\<close>

record PacketClusterProviderSpec =
  pcs_TypeMeta :: TypeMeta
  pcs_ObjectMeta :: ObjectMeta

record PacketClusterProviderStatus =
  pct_TypeMeta :: TypeMeta
  pct_ObjectMeta :: ObjectMeta

record PacketMachineProviderSpec =
  pm_TypeMeta :: TypeMeta
  pm_ObjectMeta :: ObjectMeta
  Plan :: string
  SpotInstance :: string

record PacketMachineProviderStatus =
  pms_TypeMeta :: TypeMeta
  pms_ObjectMeta :: ObjectMeta
  pms_InstanceID :: string

definition zero_PacketClusterSpec :: PacketClusterProviderSpec where
  "zero_PacketClusterSpec = \<lparr>pcs_TypeMeta = zero_TypeMeta, pcs_ObjectMeta = zero_ObjectMeta\<rparr>"

definition zero_PacketClusterStatus :: PacketClusterProviderStatus where
  "zero_PacketClusterStatus = \<lparr>pct_TypeMeta = zero_TypeMeta, pct_ObjectMeta = zero_ObjectMeta\<rparr>"

definition zero_PacketMachineSpec :: PacketMachineProviderSpec where
  "zero_PacketMachineSpec = \<lparr>pm_TypeMeta = zero_TypeMeta, pm_ObjectMeta = zero_ObjectMeta, Plan = '''', SpotInstance = ''''\<rparr>"

definition zero_PacketMachineStatus :: PacketMachineProviderStatus where
  "zero_PacketMachineStatus = \<lparr>pms_TypeMeta = zero_TypeMeta, pms_ObjectMeta = zero_ObjectMeta, pms_InstanceID = ''''\<rparr>"

definition packet_TypeMeta :: TypeMeta where
  "packet_TypeMeta = \<lparr>Kind = ''PacketClusterProviderConfig'', APIVersion = ''Packetproviderconfig/v1alpha1''\<rparr>"

record packet_codecs =
  pk_ClusterSpec :: "PacketClusterProviderSpec codec"
  pk_ClusterStatus :: "PacketClusterProviderStatus codec"
  pk_MachineSpec :: "PacketMachineProviderSpec codec"
  pk_MachineStatus :: "PacketMachineProviderStatus codec"

definition pk_ClusterConfigFromProviderSpec :: "packet_codecs \<Rightarrow> bytes option \<Rightarrow> PacketClusterProviderSpec res" where
  "pk_ClusterConfigFromProviderSpec K ps =
     (case ps of None \<Rightarrow> Inr zero_PacketClusterSpec | Some raw \<Rightarrow> unmarshal (pk_ClusterSpec K) raw)"

definition pk_ClusterStatusFromProviderStatus :: "packet_codecs \<Rightarrow> bytes option \<Rightarrow> PacketClusterProviderStatus res" where
  "pk_ClusterStatusFromProviderStatus K ext =
     (case ext of None \<Rightarrow> Inr zero_PacketClusterStatus | Some raw \<Rightarrow> unmarshal (pk_ClusterStatus K) raw)"

definition pk_MachineConfigFromProviderSpec :: "packet_codecs \<Rightarrow> bytes option \<Rightarrow> PacketMachineProviderSpec res" where
  "pk_MachineConfigFromProviderSpec K ps =
     (case ps of None \<Rightarrow> Inr zero_PacketMachineSpec | Some raw \<Rightarrow> unmarshal (pk_MachineSpec K) raw)"

definition pk_MachineStatusFromProviderStatus :: "packet_codecs \<Rightarrow> bytes option \<Rightarrow> PacketMachineProviderStatus res" where
  "pk_MachineStatusFromProviderStatus K ext =
     (case ext of None \<Rightarrow> Inr zero_PacketMachineStatus | Some raw \<Rightarrow> unmarshal (pk_MachineStatus K) raw)"

text \<open>A \<^verbatim>\<open>nil\<close> object is encoded as an extension without bytes.\<close>

definition pk_EncodeMachineStatus :: "packet_codecs \<Rightarrow> PacketMachineProviderStatus option \<Rightarrow> bytes res" where
  "pk_EncodeMachineStatus K status = (case status of None \<Rightarrow> Inr '''' | Some s \<Rightarrow> marshal (pk_MachineStatus K) s)"

definition pk_EncodeMachineSpec :: "packet_codecs \<Rightarrow> PacketMachineProviderSpec option \<Rightarrow> bytes res" where
  "pk_EncodeMachineSpec K spec = (case spec of None \<Rightarrow> Inr '''' | Some s \<Rightarrow> marshal (pk_MachineSpec K) s)"

definition pk_EncodeClusterStatus :: "packet_codecs \<Rightarrow> PacketClusterProviderStatus option \<Rightarrow> bytes res" where
  "pk_EncodeClusterStatus K status = (case status of None \<Rightarrow> Inr '''' | Some s \<Rightarrow> marshal (pk_ClusterStatus K) s)"

definition pk_EncodeClusterSpec :: "packet_codecs \<Rightarrow> PacketClusterProviderSpec option \<Rightarrow> bytes res" where
  "pk_EncodeClusterSpec K spec = (case spec of None \<Rightarrow> Inr '''' | Some s \<Rightarrow> marshal (pk_ClusterSpec K) s)"

text \<open>The configuration of a new cluster is encoded as one of a machine.\<close>

definition SetPacketClusterProviderConfig :: "packet_codecs \<Rightarrow> (('s, 'x) world, unit) prog" where
  "SetPacketClusterProviderConfig K =
     bindp (liftr (marshal (pk_MachineSpec K) (zero_PacketMachineSpec\<lparr>pm_TypeMeta := packet_TypeMeta\<rparr>))) (\<lambda>raw.
     upd_cluster (set_ccProviderSpec raw))"

definition SetPacketClusterProviderStatus :: "packet_codecs \<Rightarrow> CapiCluster \<Rightarrow> CapiCluster res" where
  "SetPacketClusterProviderStatus K cc =
     rbind (marshal (pk_ClusterStatus K) (zero_PacketClusterStatus\<lparr>pct_TypeMeta := packet_TypeMeta\<rparr>)) (\<lambda>raw.
     Inr (cc\<lparr>cc_Status := (cc_Status cc)\<lparr>ccst_ProviderStatus := Some raw\<rparr>\<rparr>))"

section \<open>The API client\<close>

record PacketKey =
  key_ID :: string
  key_Label :: string

record IPAddressAssignment =
  AddressFamily :: int
  ip_Public :: bool
  ip_Address :: string

record Device =
  dv_ID :: string
  dv_Hostname :: string
  dv_State :: string
  dv_Network :: "IPAddressAssignment list"

record DeviceCreateRequest =
  dc_Hostname :: string
  dc_Plan :: string
  dc_Facility :: "string list"
  dc_OS :: string
  dc_BillingCycle :: string
  dc_ProjectID :: string
  dc_UserData :: string
  dc_Tags :: "string list"
  dc_SpotInstance :: bool

record 'x packet_ops =
  SSHKeys_Get :: "string \<Rightarrow> ('x, string lookup) prog"
  SSHKeys_ProjectList :: "string \<Rightarrow> ('x, PacketKey list \<times> gerror option) prog"
  SSHKeys_Create :: "bytes \<Rightarrow> string \<Rightarrow> string \<Rightarrow> ('x, string) prog"
  Devices_Create :: "DeviceCreateRequest \<Rightarrow> ('x, Device) prog"
  Devices_Get :: "string \<Rightarrow> ('x, Device) prog"
  Devices_List :: "string \<Rightarrow> ('x, Device list) prog"
  Devices_Delete :: "string \<Rightarrow> ('x, unit) prog"

record PacketCloudConfig =
  pcc_Project :: string
  pcc_APIKey :: string
  pcc_Zone :: string

text \<open>
  What the provider takes from elsewhere: the credential (\<^verbatim>\<open>IsValid\<close> answers with a flag and an error),
  encoders, start-up script, kubeadm, the manager's client, and the field \<^verbatim>\<open>conn\<close> of the cloud manager.
\<close>

record 'x packet_env =
  p_api :: "'x packet_ops"
  p_cred_IsValid :: "Credential \<Rightarrow> bool \<times> gerror option"
  p_ProjectID :: "Credential \<Rightarrow> string"
  p_APIKey :: "Credential \<Rightarrow> string"
  p_codecs :: packet_codecs
  p_yaml_MachineSpec :: "bytes \<Rightarrow> PacketMachineProviderSpec res"
  p_json_CloudConfig :: "PacketCloudConfig \<Rightarrow> bytes res"
  p_entries :: "(string \<rightharpoonup> string) \<Rightarrow> (string \<times> bytes) list"
  p_startup :: startup_ops
  p_template :: string
  p_TokenCreate :: "('x, string) prog"
  p_client_Status_Machine :: "Machine \<Rightarrow> ('x, unit) prog"
  p_client_Status_Cluster :: "CapiCluster \<Rightarrow> ('x, unit) prog"
  p_connected :: "'x \<Rightarrow> bool"
  p_set_connected :: "bool \<Rightarrow> 'x \<Rightarrow> 'x"
  p_ControllerManager :: string

definition pk_UID :: string where "pk_UID = ''packet''"

text \<open>A method of the connector that was not set is a \<^verbatim>\<open>nil\<close> dereference.\<close>

definition pk_conn :: "'x packet_env \<Rightarrow> (('s, 'x) world, 'a) prog \<Rightarrow> (('s, 'x) world, 'a) prog" where
  "pk_conn P m = bindp (gets (p_connected P \<circ> w_ext)) (\<lambda>b. if b then m else fail nil_deref)"

section \<open>The connector (cloud.go)\<close>

definition set_Project :: "string \<Rightarrow> Cluster \<Rightarrow> Cluster" where
  "set_Project p = upd_CloudSpec (\<lambda>s. s\<lparr>Project := p\<rparr>)"

definition set_SSHKeyExternalID :: "string \<Rightarrow> Cluster \<Rightarrow> Cluster" where
  "set_SSHKeyExternalID k = upd_CloudStatus (\<lambda>s. s\<lparr>SSHKeyExternalID := k\<rparr>)"

text \<open>
  The result is false for a \<^verbatim>\<open>nil\<close> connector: \<^verbatim>\<open>errors.Wrapf\<close> of no error is no error.
\<close>

definition pk_newconnector :: "('s, 'x) env \<Rightarrow> 'x packet_env \<Rightarrow> (('s, 'x) world, bool) prog" where
  "pk_newconnector E P =
     bindp (GetCredential E) (\<lambda>cred.
     bindp (gets (CredentialName \<circ> c_Config \<circ> w_Cluster)) (\<lambda>name.
     let (ok, err) = p_cred_IsValid P cred in
     if \<not> ok then
       (case err of Some e \<Rightarrow> pwrap (''credential '' @ name @ '' is invalid'') (fail e) | None \<Rightarrow> ret False)
     else bindp (upd_cluster (set_Project (p_ProjectID P cred))) (\<lambda>_. ret True)))"

definition pk_waitForInstance :: "('s, 'x) env \<Rightarrow> 'x packet_env \<Rightarrow> string \<Rightarrow> string \<Rightarrow> (('s, 'x) world, unit) prog" where
  "pk_waitForInstance E P deviceID status = PollImmediate (poll_ticks (e_sys E))
     (ok_or_false (on_ext (Devices_Get (p_api P) deviceID)) (\<lambda>server. ret (to_lower (dv_State server) = status)))"

definition pk_getPublicKey :: "'x packet_env \<Rightarrow> (('s, 'x) world, bool \<times> string) prog" where
  "pk_getPublicKey P = pk_conn P
     (bindp (gets w_Cluster) (\<lambda>c.
      let keyID = SSHKeyExternalID (cst_Cloud (Status c)) in
      if keyID \<noteq> '''' then
        bindp (on_ext (SSHKeys_Get (p_api P) keyID)) (\<lambda>r. case r of
          NotFound \<Rightarrow> ret (False, '''')
        | Failed e \<Rightarrow> fail (Err e)
        | Found key \<Rightarrow> ret (True, key))
      else
        bindp (on_ext (SSHKeys_ProjectList (p_api P) (Project (c_CloudSpec c)))) (\<lambda>(keys, err).
        case find (\<lambda>k. key_Label k = SSHKeyName (c_CloudSpec c)) keys of
          Some key \<Rightarrow> ret (True, key_ID key)
        | None \<Rightarrow> (case err of Some e \<Rightarrow> fail e | None \<Rightarrow> ret (False, '''')))))"

text \<open>The error of the creation is hidden by that of the search for the key, which may be none.\<close>

definition pk_importPublicKey :: "'x packet_env \<Rightarrow> (('s, 'x) world, string) prog" where
  "pk_importPublicKey P = pk_conn P
     (bindp SSHKey_of_certs (\<lambda>k.
      bindp (gets w_Cluster) (\<lambda>c.
      bindp (attempt (on_ext (SSHKeys_Create (p_api P) (PublicKey k) (SSHKeyName (c_CloudSpec c)) (Project (c_CloudSpec c))))) (\<lambda>r.
      case r of
        Inr sk \<Rightarrow> ret sk
      | Inl _ \<Rightarrow> bindp (pk_getPublicKey P) (\<lambda>(found, keyID). if \<not> found then ret '''' else ret keyID)))))"

definition machineProviderFromProviderSpec :: "'x packet_env \<Rightarrow> bytes option \<Rightarrow> PacketMachineProviderSpec res" where
  "machineProviderFromProviderSpec P ps = rbind (deref_opt ps) (p_yaml_MachineSpec P)"

definition pk_device_request :: "Cluster \<Rightarrow> Machine \<Rightarrow> PacketMachineProviderSpec \<Rightarrow> string \<Rightarrow> DeviceCreateRequest" where
  "pk_device_request c m conf script =
     \<lparr>dc_Hostname = m_Name m, dc_Plan = Plan conf, dc_Facility = [Zone (c_CloudSpec c)], dc_OS = InstanceImage (c_CloudSpec c),
      dc_BillingCycle = ''hourly'', dc_ProjectID = Project (c_CloudSpec c), dc_UserData = script, dc_Tags = [c_Name c],
      dc_SpotInstance = (SpotInstance conf = ''spot'')\<rparr>"

fun add_addresses :: "IPAddressAssignment list \<Rightarrow> NodeInfo \<Rightarrow> NodeInfo" where
  "add_addresses [] node = node"
| "add_addresses (addr # addrs) node = add_addresses addrs
     (if AddressFamily addr = 4
      then (if ip_Public addr then node\<lparr>ni_PublicIP := ip_Address addr\<rparr> else node\<lparr>ni_PrivateIP := ip_Address addr\<rparr>)
      else node)"

definition pk_CreateInstance ::
  "('s, 'x) env \<Rightarrow> 'x packet_env \<Rightarrow> Machine \<Rightarrow> string \<Rightarrow> (('s, 'x) world, NodeInfo) prog" where
  "pk_CreateInstance E P m script = pk_conn P
     (bindp (liftr (machineProviderFromProviderSpec P (ProviderSpec (m_Spec m)))) (\<lambda>conf.
      bindp (gets w_Cluster) (\<lambda>c.
      bindp (on_ext (Devices_Create (p_api P) (pk_device_request c m conf script))) (\<lambda>server.
      bindp (pk_waitForInstance E P (dv_ID server) ''active'') (\<lambda>_.
      bindp (on_ext (Devices_Get (p_api P) (dv_ID server))) (\<lambda>host.
      ret (add_addresses (dv_Network host)
        \<lparr>ni_Name = dv_Hostname host, ni_ExternalID = dv_ID host, ni_PublicIP = '''', ni_PrivateIP = ''''\<rparr>)))))))"

definition serverIDFromProviderID :: "string \<Rightarrow> string res" where
  "serverIDFromProviderID providerID =
     (if providerID = '''' then Inl (Err ''providerID cannot be empty string'')
      else case split_on (CHR ''/'') providerID of
        [a, b, c] \<Rightarrow>
          if trim_suffix a '':'' \<noteq> pk_UID
          then Inl (Err (''provider name from providerID should be packet: '' @ providerID))
          else Inr c
      | _ \<Rightarrow> Inl (Err (''unexpected providerID format: '' @ providerID @ '', format should be: packet://12345'')))"

definition pk_DeleteInstanceByProviderID :: "'x packet_env \<Rightarrow> string \<Rightarrow> (('s, 'x) world, unit) prog" where
  "pk_DeleteInstanceByProviderID P providerID = pk_conn P
     (bindp (liftr (serverIDFromProviderID providerID)) (\<lambda>serverID. on_ext (Devices_Delete (p_api P) serverID)))"

definition pk_instanceIfExists :: "'x packet_env \<Rightarrow> Machine \<Rightarrow> (('s, 'x) world, Device) prog" where
  "pk_instanceIfExists P m = pk_conn P
     (bindp (gets w_Cluster) (\<lambda>c.
      bindp (on_ext (Devices_List (p_api P) (Project (c_CloudSpec c)))) (\<lambda>devices.
      case find (\<lambda>d. dv_Hostname d = m_Name m) devices of
        Some d \<Rightarrow> ret d
      | None \<Rightarrow> fail (Err (''no server found with '' @ m_Name m @ '' name'')))))"

section \<open>The cloud manager (context.go, apply.go, create.go)\<close>

definition pk_SetCloudConnector :: "('s, 'x) env \<Rightarrow> 'x packet_env \<Rightarrow> (('s, 'x) world, unit) prog" where
  "pk_SetCloudConnector E P =
     bindp (attempt (pk_newconnector E P)) (\<lambda>r.
     bindp (modify (\<lambda>w. w\<lparr>w_ext := p_set_connected P (r = Inr True) (w_ext w)\<rparr>)) (\<lambda>_.
     bindp (liftr r) (\<lambda>_. ret ())))"

definition pk_CreateCredentials :: "('s, 'x) env \<Rightarrow> 'x packet_env \<Rightarrow> (('s, 'x) world, unit) prog" where
  "pk_CreateCredentials E P =
     bindp (GetCredential E) (\<lambda>cred.
     bindp (gets w_Cluster) (\<lambda>c.
     bindp (CreateSecret E (CloudProvider_of c) ''kube-system'' (p_entries P (Data (cr_Spec cred)))) (\<lambda>_.
     let (ok, err) = p_cred_IsValid P cred in
     if \<not> ok then fail (Err ''credential not valid'')
     else bindp (case err of Some e \<Rightarrow> fail e | None \<Rightarrow> ret ()) (\<lambda>_.
       bindp (liftr (p_json_CloudConfig P
         \<lparr>pcc_Project = p_ProjectID P cred, pcc_APIKey = p_APIKey P cred, pcc_Zone = Zone (c_CloudSpec c)\<rparr>)) (\<lambda>data.
       pwrap ''failed to create cloud-config'' (CreateSecret E ''cloud-config'' ''kube-system'' [(''cloud-config'', data)]))))))"

definition pk_GetClusterAPIComponents :: "'x packet_env \<Rightarrow> (('s, 'x) world, string) prog" where
  "pk_GetClusterAPIComponents P = ret (p_ControllerManager P)"

definition pk_GetDefaultMachineProviderSpec ::
  "'x packet_env \<Rightarrow> string \<Rightarrow> MachineRole \<Rightarrow> (('s, 'x) world, bytes option) prog" where
  "pk_GetDefaultMachineProviderSpec P sku0 role =
     (let sku = (if sku0 = '''' then ''baremetal_0'' else sku0) in
      bindp (liftr (marshal (pk_MachineSpec (p_codecs P))
        (zero_PacketMachineSpec\<lparr>pm_TypeMeta := packet_TypeMeta, Plan := sku, SpotInstance := ''Regular''\<rparr>))) (\<lambda>raw.
      ret (Some raw)))"

definition pk_defaults :: "Cluster \<Rightarrow> Cluster" where
  "pk_defaults = upd_Config (\<lambda>g. g\<lparr>Cloud := (Cloud g)\<lparr>InstanceImage := ''ubuntu_16_04''\<rparr>, SSHUserName := ''root''\<rparr>)"

definition pk_SetDefaultCluster :: "'x packet_env \<Rightarrow> (('s, 'x) world, unit) prog" where
  "pk_SetDefaultCluster P = bindp (upd_cluster pk_defaults) (\<lambda>_. SetPacketClusterProviderConfig (p_codecs P))"

text \<open>The template data of this provider (\<^verbatim>\<open>startupscript.go\<close>).\<close>

definition pk_NewNodeTemplateData :: "'x packet_env \<Rightarrow> Machine \<Rightarrow> string \<Rightarrow> TemplateData \<Rightarrow> (('s, 'x) world, TemplateData) prog" where
  "pk_NewNodeTemplateData P machine token td =
     bindp (set_arg ''cloud-provider'' ''external'' (td\<lparr>td_ExternalProvider := True\<rparr>)) (\<lambda>td.
     bindp (set_arg ''enable-controller-attach-detach'' ''false'' td) (\<lambda>td.
     bindp (set_arg ''keep-terminated-pod-volumes'' ''true'' td) (\<lambda>td.
     bindp (attempt (JoinConfigurationYAML (p_startup P) td)) (\<lambda>r.
     ret (td\<lparr>td_JoinConfiguration := (case r of Inl _ \<Rightarrow> '''' | Inr joinConf \<Rightarrow> joinConf)\<rparr>)))))"

definition pk_NewMasterTemplateData :: "Machine \<Rightarrow> string \<Rightarrow> TemplateData \<Rightarrow> (('s, 'x) world, TemplateData) prog" where
  "pk_NewMasterTemplateData machine token td =
     bindp (gets w_Cluster) (\<lambda>c.
     bindp (liftr (GetDefaultKubeadmClusterConfig c None)) (\<lambda>conf. ret (td\<lparr>td_ClusterConfiguration := Some conf\<rparr>)))"

definition pk_hooks :: "'x packet_env \<Rightarrow> ('s, 'x) template_hooks" where
  "pk_hooks P = \<lparr>th_Node = pk_NewNodeTemplateData P, th_Master = pk_NewMasterTemplateData\<rparr>"

definition pk_RenderStartupScript :: "('s, 'x) env \<Rightarrow> 'x packet_env \<Rightarrow> Machine \<Rightarrow> string \<Rightarrow> (('s, 'x) world, string) prog" where
  "pk_RenderStartupScript E P machine token = RenderStartupScript E (p_startup P) (pk_hooks P) machine token (p_template P)"

definition pk_addresses :: "NodeInfo \<Rightarrow> NodeAddress list" where
  "pk_addresses node =
     (if ni_PrivateIP node \<noteq> '''' then [\<lparr>AddrType = NodeInternalIP, Address = ni_PrivateIP node\<rparr>] else []) @
     (if ni_PublicIP node \<noteq> '''' then [\<lparr>AddrType = NodeExternalIP, Address = ni_PublicIP node\<rparr>] else [])"

definition pk_EnsureMaster :: "('s, 'x) env \<Rightarrow> 'x packet_env \<Rightarrow> Machine \<Rightarrow> (('s, 'x) world, unit) prog" where
  "pk_EnsureMaster E P masterMachine =
     bindp (attempt (pk_instanceIfExists P masterMachine)) (\<lambda>r.
     if is_ok r then ret ()
     else bindp (pk_RenderStartupScript E P masterMachine '''') (\<lambda>script.
       bindp (pk_CreateInstance E P masterMachine script) (\<lambda>masterServer.
       bindp (try_endpoints (pk_addresses masterServer)) (\<lambda>_.
       store_cluster (so_cluster_Update (e_store E))))))"

definition pk_PrepareCloud :: "'x packet_env \<Rightarrow> (('s, 'x) world, unit) prog" where
  "pk_PrepareCloud P =
     bindp (pk_getPublicKey P) (\<lambda>(found, _).
     if found then ret ()
     else bindp (attempt (pk_importPublicKey P)) (\<lambda>r.
       bindp (upd_cluster (set_SSHKeyExternalID (case r of Inl _ \<Rightarrow> '''' | Inr keyID \<Rightarrow> keyID))) (\<lambda>_.
       bindp (liftr r) (\<lambda>_. ret ()))))"

definition pk_GetMasterSKU :: "int32 \<Rightarrow> string" where
  "pk_GetMasterSKU totalNodes = ''baremetal_0''"

definition pk_ApplyScale :: "(('s, 'x) world, unit) prog" where
  "pk_ApplyScale = fail (Panic ''implement me'')"

definition pk_ApplyDelete :: "('s, 'x) env \<Rightarrow> 'x packet_env \<Rightarrow> (('s, 'x) world, unit) prog" where
  "pk_ApplyDelete E P =
     bindp (GetAdminClient E) (\<lambda>_.
     bindp (attempt (on_ext (MasterNodes_List (e_kube E)))) (\<lambda>r.
     bindp (case r of Inl _ \<Rightarrow> ret ()
            | Inr nodes \<Rightarrow> for_each nodes (\<lambda>mi. logged (pk_DeleteInstanceByProviderID P (node_ProviderID mi)))) (\<lambda>_.
     bindp (upd_cluster (set_Phase ClusterDeleted)) (\<lambda>_.
     store_cluster (so_cluster_UpdateStatus (e_store E))))))"

definition pk_manager :: "('s, 'x) env \<Rightarrow> 'x packet_env \<Rightarrow> ('s, 'x) cloud_manager" where
  "pk_manager E P =
     \<lparr>cm_SetCloudConnector = pk_SetCloudConnector E P, cm_CreateCredentials = pk_CreateCredentials E P,
      cm_ApplyDelete = pk_ApplyDelete E P, cm_ApplyScale = pk_ApplyScale,
      cm_SetDefaultCluster = pk_SetDefaultCluster P,
      cm_GetDefaultMachineProviderSpec = pk_GetDefaultMachineProviderSpec P, cm_PrepareCloud = pk_PrepareCloud P,
      cm_EnsureMaster = pk_EnsureMaster E P, cm_GetMasterSKU = pk_GetMasterSKU,
      cm_GetClusterAPIComponents = pk_GetClusterAPIComponents P,
      cm_GetAdminClient = GetAdminClient E\<rparr>"

section \<open>The actuators (machine_actuator.go, cluster_actuator.go)\<close>

definition pk_validateMachine :: "PacketMachineProviderSpec \<Rightarrow> unit res" where
  "pk_validateMachine conf = (if Plan conf = '''' then Inl (Err ''plan must be provided'') else Inr ())"

definition pk_getKubeadmToken :: "'x packet_env \<Rightarrow> (('s, 'x) world, string) prog" where
  "pk_getKubeadmToken P = bindp (on_ext (p_TokenCreate P)) (\<lambda>token. ret (trim_space token))"

definition pk_Exists :: "'x packet_env \<Rightarrow> Machine \<Rightarrow> (('s, 'x) world, bool) prog" where
  "pk_Exists P m = bindp (attempt (pk_instanceIfExists P m)) (\<lambda>r. ret (is_ok r))"

definition pk_updateMachineStatus :: "'x packet_env \<Rightarrow> Machine \<Rightarrow> (('s, 'x) world, unit) prog" where
  "pk_updateMachineStatus P m =
     bindp (pk_instanceIfExists P m) (\<lambda>vm.
     bindp (liftr (pk_MachineStatusFromProviderStatus (p_codecs P) (ProviderStatus (m_Status m)))) (\<lambda>status.
     bindp (liftr (pk_EncodeMachineStatus (p_codecs P) (Some (status\<lparr>pms_InstanceID := dv_ID vm\<rparr>)))) (\<lambda>raw.
     on_ext (p_client_Status_Machine P (m\<lparr>m_Status := (m_Status m)\<lparr>ProviderStatus := Some raw\<rparr>\<rparr>)))))"

definition pk_Machine_Create :: "('s, 'x) env \<Rightarrow> 'x packet_env \<Rightarrow> Machine \<Rightarrow> (('s, 'x) world, unit) prog" where
  "pk_Machine_Create E P m =
     bindp (liftr (pk_MachineConfigFromProviderSpec (p_codecs P) (ProviderSpec (m_Spec m)))) (\<lambda>conf.
     bindp (liftr (pk_validateMachine conf)) (\<lambda>_.
     bindp (pk_Exists P m) (\<lambda>exists.
     bindp (if exists then ret ()
            else bindp (pk_getKubeadmToken P) (\<lambda>token.
                 bindp (pk_RenderStartupScript E P m token) (\<lambda>script.
                 bindp (pk_CreateInstance E P m script) (\<lambda>_. ret ())))) (\<lambda>_.
     pwrap ''failed to update machine status'' (pk_updateMachineStatus P m)))))"

definition pk_Machine_Delete :: "'x packet_env \<Rightarrow> Machine \<Rightarrow> (('s, 'x) world, unit) prog" where
  "pk_Machine_Delete P m =
     bindp (attempt (pk_instanceIfExists P m)) (\<lambda>r. case r of
       Inl _ \<Rightarrow> ret ()
     | Inr instance \<Rightarrow> logged (pk_DeleteInstanceByProviderID P (''packet://'' @ dv_ID instance)))"

definition pk_Machine_Update :: "('s, 'x) env \<Rightarrow> 'x packet_env \<Rightarrow> Machine \<Rightarrow> (('s, 'x) world, unit) prog" where
  "pk_Machine_Update E P m =
     bindp (liftr (machineProviderFromProviderSpec P (ProviderSpec (m_Spec m)))) (\<lambda>goalConfig.
     bindp (liftr (pk_validateMachine goalConfig)) (\<lambda>_.
     bindp (pk_Exists P m) (\<lambda>exists.
     if \<not> exists then pk_Machine_Create E P m else pk_updateMachineStatus P m)))"

definition pk_Reconcile :: "'x packet_env \<Rightarrow> CapiCluster \<Rightarrow> (('s, 'x) world, unit) prog" where
  "pk_Reconcile P cc =
     bindp (liftr (SetPacketClusterProviderStatus (p_codecs P) cc)) (\<lambda>cc'. on_ext (p_client_Status_Cluster P cc'))"

end
