(* ===== verification/Cloud_Frame.thy ===== *)
theory Cloud_Frame
  imports Cloud_Core
begin

text \<open>
  What the orchestration leaves alone.  A predicate on worlds that survives the calls of the store
  interface, any change outside and the bookkeeping of the scope (\<open>world_inv\<close>) survives all programs
  that only read the cluster object; one that also survives changes of the cluster object, and
  that the cloud managers keep (\<open>world_upd\<close>), survives \<^verbatim>\<open>CreateCluster\<close> and \<^verbatim>\<open>Apply\<close>.
\<close>

section \<open>Building blocks\<close>

lemma run_on_store [prog_run]:
  "on_store m w = (case m (w_store w) of (r, s') \<Rightarrow> (r, w\<lparr>w_store := s'\<rparr>))"
  by (simp add: on_store_def)

lemma run_on_ext [prog_run]:
  "on_ext m w = (case m (w_ext w) of (r, x') \<Rightarrow> (r, w\<lparr>w_ext := x'\<rparr>))"
  by (simp add: on_ext_def)

lemma inv_poll [inv_rules]: "invariant_of I cond \<Longrightarrow> invariant_of I (PollImmediate n cond)"
proof -
  assume cond: "invariant_of I cond"
  have "invariant_of I (poll_loop m cond)" for m
    by (induction m) (simp_all, (intro inv_rules cond | assumption)+)
  then show ?thesis by (simp add: PollImmediate_def del: poll_loop.simps)
qed

lemma inv_ok_or_false [inv_rules]:
  "invariant_of I m \<Longrightarrow> (\<And>x. invariant_of I (f x)) \<Longrightarrow> invariant_of I (ok_or_false m f)"
  unfolding ok_or_false_def by (intro inv_rules)

lemma inv_ignore [inv_rules]: "invariant_of I m \<Longrightarrow> invariant_of I (ignore p m)"
  unfolding ignore_def by (intro inv_rules)

lemma inv_Let [inv_rules]: "invariant_of I (f x) \<Longrightarrow> invariant_of I (let y = x in f y)"
  by simp

lemma inv_list [inv_rules]:
  "invariant_of I m \<Longrightarrow> (\<And>x xs. invariant_of I (f x xs)) \<Longrightarrow>
    invariant_of I (case z of [] \<Rightarrow> m | x # xs \<Rightarrow> f x xs)"
  by (cases z) simp_all

lemma inv_prod [inv_rules]: "(\<And>x y. invariant_of I (f x y)) \<Longrightarrow> invariant_of I (case z of (x, y) \<Rightarrow> f x y)"
  by (cases z) simp

section \<open>Programs that read the cluster\<close>

locale world_inv =
  fixes E :: "('s, 'x) env" and I :: "('s, 'x) world \<Rightarrow> bool"
  assumes ext: "I w \<Longrightarrow> I (w\<lparr>w_ext := x\<rparr>)"
    and certs: "I w \<Longrightarrow> I (w\<lparr>w_Certs := cs\<rparr>)"
    and manager: "I w \<Longrightarrow> I (w\<lparr>w_CloudManager := p\<rparr>)"
    and admin: "I w \<Longrightarrow> I (w\<lparr>w_AdminClient := b\<rparr>)"
    and cluster_Get: "I w \<Longrightarrow> I (w\<lparr>w_store := snd (so_cluster_Get (e_store E) n (w_store w))\<rparr>)"
    and cluster_Create: "I w \<Longrightarrow> I (w\<lparr>w_store := snd (so_cluster_Create (e_store E) c (w_store w))\<rparr>)"
    and cluster_Update: "I w \<Longrightarrow> I (w\<lparr>w_store := snd (so_cluster_Update (e_store E) c (w_store w))\<rparr>)"
    and cluster_UpdateStatus: "I w \<Longrightarrow> I (w\<lparr>w_store := snd (so_cluster_UpdateStatus (e_store E) c (w_store w))\<rparr>)"
    and cluster_UpdateUUID: "I w \<Longrightarrow> I (w\<lparr>w_store := snd (so_cluster_UpdateUUID (e_store E) c u (w_store w))\<rparr>)"
    and machine_List: "I w \<Longrightarrow> I (w\<lparr>w_store := snd (so_machine_List (e_store E) cl (w_store w))\<rparr>)"
    and machine_Get: "I w \<Longrightarrow> I (w\<lparr>w_store := snd (so_machine_Get (e_store E) cl n (w_store w))\<rparr>)"
    and machine_Create: "I w \<Longrightarrow> I (w\<lparr>w_store := snd (so_machine_Create (e_store E) cl m (w_store w))\<rparr>)"
    and machine_Update: "I w \<Longrightarrow> I (w\<lparr>w_store := snd (so_machine_Update (e_store E) cl m (w_store w))\<rparr>)"
    and machineset_List: "I w \<Longrightarrow> I (w\<lparr>w_store := snd (so_machineset_List (e_store E) cl (w_store w))\<rparr>)"
    and machineset_Create: "I w \<Longrightarrow> I (w\<lparr>w_store := snd (so_machineset_Create (e_store E) cl ms (w_store w))\<rparr>)"
    and machineset_Update: "I w \<Longrightarrow> I (w\<lparr>w_store := snd (so_machineset_Update (e_store E) cl ms (w_store w))\<rparr>)"
    and machineset_Delete: "I w \<Longrightarrow> I (w\<lparr>w_store := snd (so_machineset_Delete (e_store E) cl n (w_store w))\<rparr>)"
    and machine_Delete: "I w \<Longrightarrow> I (w\<lparr>w_store := snd (so_machine_Delete (e_store E) cl n (w_store w))\<rparr>)"
    and machineset_UpdateStatus: "I w \<Longrightarrow> I (w\<lparr>w_store := snd (so_machineset_UpdateStatus (e_store E) cl ms (w_store w))\<rparr>)"
    and credential_Get: "I w \<Longrightarrow> I (w\<lparr>w_store := snd (so_credential_Get (e_store E) n (w_store w))\<rparr>)"
    and ssh_Get: "I w \<Longrightarrow> I (w\<lparr>w_store := snd (so_ssh_Get (e_store E) cl n (w_store w))\<rparr>)"
    and ssh_Create: "I w \<Longrightarrow> I (w\<lparr>w_store := snd (so_ssh_Create (e_store E) cl n d1 d2 (w_store w))\<rparr>)"
    and cert_Get: "I w \<Longrightarrow> I (w\<lparr>w_store := snd (so_cert_Get (e_store E) cl n (w_store w))\<rparr>)"
    and cert_Create: "I w \<Longrightarrow> I (w\<lparr>w_store := snd (so_cert_Create (e_store E) cl n od1 od2 (w_store w))\<rparr>)"
    and cert_Delete: "I w \<Longrightarrow> I (w\<lparr>w_store := snd (so_cert_Delete (e_store E) cl n (w_store w))\<rparr>)"
begin

lemma inv_on_ext [inv_rules]: "invariant_of I (on_ext m)"
  by (auto simp: valid_def prog_run intro: ext split: prod.splits sum.splits)

lemma inv_set_ext [inv_rules]: "invariant_of I (modify (\<lambda>w. w\<lparr>w_ext := f (w_ext w)\<rparr>))"
  by (simp add: valid_def prog_run ext)

lemma inv_scope_fields [inv_rules]:
  "invariant_of I (modify (\<lambda>w. w\<lparr>w_Certs := cs\<rparr>))"
  "invariant_of I (modify (\<lambda>w. w\<lparr>w_CloudManager := p\<rparr>))"
  "invariant_of I (modify (\<lambda>w. w\<lparr>w_AdminClient := b\<rparr>))"
  by (simp_all add: valid_def prog_run certs manager admin)

lemma inv_call: "(\<And>w. I w \<Longrightarrow> I (w\<lparr>w_store := snd (m (w_store w))\<rparr>)) \<Longrightarrow> invariant_of I (on_store m)"
  by (force simp: valid_def prog_run split: prod.splits sum.splits)

lemma inv_store_calls [inv_rules]:
  "invariant_of I (on_store (so_cluster_Get (e_store E) n))"
  "invariant_of I (on_store (so_cluster_Create (e_store E) c))"
  "invariant_of I (on_store (so_cluster_Update (e_store E) c))"
  "invariant_of I (on_store (so_cluster_UpdateStatus (e_store E) c))"
  "invariant_of I (on_store (so_cluster_UpdateUUID (e_store E) c u))"
  "invariant_of I (on_store (so_machine_List (e_store E) cl))"
  "invariant_of I (on_store (so_machine_Get (e_store E) cl n))"
  "invariant_of I (on_store (so_machine_Create (e_store E) cl m))"
  "invariant_of I (on_store (so_machine_Update (e_store E) cl m))"
  "invariant_of I (on_store (so_machineset_List (e_store E) cl))"
  "invariant_of I (on_store (so_machineset_Create (e_store E) cl ms))"
  "invariant_of I (on_store (so_machineset_Update (e_store E) cl ms))"
  "invariant_of I (on_store (so_machineset_Delete (e_store E) cl n))"
  "invariant_of I (on_store (so_machine_Delete (e_store E) cl mn))"
  "invariant_of I (on_store (so_machineset_UpdateStatus (e_store E) cl ms))"
  "invariant_of I (on_store (so_credential_Get (e_store E) n))"
  "invariant_of I (on_store (so_ssh_Get (e_store E) cl n))"
  "invariant_of I (on_store (so_ssh_Create (e_store E) cl n d1 d2))"
  "invariant_of I (on_store (so_cert_Get (e_store E) cl n))"
  "invariant_of I (on_store (so_cert_Create (e_store E) cl n od1 od2))"
  "invariant_of I (on_store (so_cert_Delete (e_store E) cl n))"
  by (rule inv_call, erule cluster_Get cluster_Create cluster_Update cluster_UpdateStatus cluster_UpdateUUID machine_List machine_Get machine_Create machine_Update machineset_List machineset_Create machineset_Update machineset_Delete machine_Delete machineset_UpdateStatus credential_Get ssh_Get ssh_Create cert_Get cert_Create cert_Delete)+

text \<open>The programs that only read the cluster keep everything about it.\<close>

lemma keep_certificates [inv_rules]:
  "invariant_of I (LoadCACertificates E cl n)"
  "invariant_of I (LoadSSHKey E cl n)"
  "invariant_of I (CreateCertificates E cl n cn)"
  "invariant_of I (CreateSSHKey E cl n)"
  "invariant_of I (CreateAdminCertificate E ca)"
  unfolding LoadCACertificates_def LoadSSHKey_def CreateCertificates_def CreateSSHKey_def CreateAdminCertificate_def
  by (intro inv_rules)+

lemma keep_certs [inv_rules]:
  "invariant_of I (GetPharmerCerts E cl)"
  "invariant_of I (CreateCertsKeys E cl)"
  unfolding GetPharmerCerts_def CreateCertsKeys_def by (intro inv_rules)+

lemma keep_restconfig [inv_rules]:
  "invariant_of I (NewRestConfig E cl ep)"
  "invariant_of I (GetAdminCert E cl)"
  unfolding NewRestConfig_def GetAdminCert_def by (intro inv_rules)+

lemma keep_adminconfig [inv_rules]: "invariant_of I (GetAdminConfig E c ca)"
  unfolding GetAdminConfig_def by (intro inv_rules)

lemma keep_clients [inv_rules]:
  "invariant_of I (NewAdminClient E cl ep)"
  "invariant_of I (GetBooststrapClient E c ca)"
  "invariant_of I (GetClusterAPIClient E cl ep)"
  unfolding NewAdminClient_def GetBooststrapClient_def GetClusterAPIClient_def by (intro inv_rules)+

lemma keep_waits [inv_rules]:
  "invariant_of I (WaitForReadyMaster E)"
  "invariant_of I (WaitForReadyMasterVersion E same v)"
  "invariant_of I (CreateSecret E n ns d)"
  "invariant_of I (CreateNamespace E ns)"
  unfolding WaitForReadyMaster_def waitForReadyAPIServer_def waitForReadyComponents_def WaitForReadyMasterVersion_def
    CreateSecret_def CreateNamespace_def
  by (intro inv_rules)+

lemma keep_new_token [inv_rules]:
  "invariant_of I (RandStringRunes E n)"
  "invariant_of I (GetKubeadmToken E)"
  "invariant_of I (CreateValidKubeadmToken E duration)"
proof -
  have r: "invariant_of I (RandStringRunes E n)" for n
    by (induction n) (simp_all, (intro inv_rules | assumption)+)
  show "invariant_of I (RandStringRunes E n)" by (rule r)
  show g: "invariant_of I (GetKubeadmToken E)"
    unfolding GetKubeadmToken_def by (intro inv_rules r)
  show "invariant_of I (CreateValidKubeadmToken E duration)"
    unfolding CreateValidKubeadmToken_def encodeTokenSecretData_def by (intro inv_rules g)
qed

lemma keep_token [inv_rules]: "invariant_of I (GetExistingKubeadmToken E duration)"
proof -
  have "invariant_of I (token_retries E duration n)" for n
    by (induction n) (simp_all, (intro inv_rules | assumption)+)
  then show ?thesis by (simp add: GetExistingKubeadmToken_def del: token_retries.simps)
qed

lemma keep_scope [inv_rules]:
  "invariant_of I (GetCloudManager E)"
  "invariant_of I (CloudManager E)"
  "invariant_of I GetCaCertPair"
  "invariant_of I (GetAdminClient E)"
  "invariant_of I (getLeaderMachine E cl)"
  "invariant_of I (GetCredential E)"
  unfolding GetCloudManager_def plugins_GetCloudManager_def CloudManager_def GetCaCertPair_def GetAdminClient_def
    getLeaderMachine_def GetCredential_def
  by (intro inv_rules)+

lemma keep_clusterapi [inv_rules]:
  "invariant_of I (NewClusterAPI E)"
  "invariant_of I (CreatePharmerSecret E ns)"
  "invariant_of I (CreateAPIServerAndController E ns y)"
  "invariant_of I (updateMachineStatus E ns m)"
  unfolding NewClusterAPI_def CreatePharmerSecret_def CreateAPIServerAndController_def updateMachineStatus_def
  by (intro inv_rules)+

lemma keep_controller [inv_rules]: "invariant_of I (CreateMachineController E ns y)"
  unfolding CreateMachineController_def by (intro inv_rules)

lemma keep_deletes [inv_rules]:
  "invariant_of I (deleteAllWorkerMachines E)"
  "invariant_of I (mark_machinesets E n l)"
  unfolding deleteAllWorkerMachines_def deleteMachineDeployments_def deleteMachineSets_def deleteMachines_def
    mark_machinesets_def
  by (intro inv_rules)+

end

section \<open>Programs that change the cluster\<close>

definition manager_keeps :: "(('s, 'x) world \<Rightarrow> bool) \<Rightarrow> ('s, 'x) cloud_manager \<Rightarrow> bool" where
  "manager_keeps I cm = (invariant_of I (cm_SetCloudConnector cm) \<and> invariant_of I (cm_CreateCredentials cm) \<and>
     invariant_of I (cm_ApplyDelete cm) \<and> invariant_of I (cm_ApplyScale cm) \<and> invariant_of I (cm_SetDefaultCluster cm) \<and>
     (\<forall>sku role. invariant_of I (cm_GetDefaultMachineProviderSpec cm sku role)) \<and> invariant_of I (cm_PrepareCloud cm) \<and>
     (\<forall>m. invariant_of I (cm_EnsureMaster cm m)) \<and> invariant_of I (cm_GetClusterAPIComponents cm) \<and>
     invariant_of I (cm_GetAdminClient cm))"

lemma manager_keepsD:
  assumes "manager_keeps I cm"
  shows "invariant_of I (cm_SetCloudConnector cm)" "invariant_of I (cm_CreateCredentials cm)" "invariant_of I (cm_ApplyDelete cm)"
    "invariant_of I (cm_ApplyScale cm)" "invariant_of I (cm_SetDefaultCluster cm)"
    "invariant_of I (cm_GetDefaultMachineProviderSpec cm sku role)" "invariant_of I (cm_PrepareCloud cm)"
    "invariant_of I (cm_EnsureMaster cm m)" "invariant_of I (cm_GetClusterAPIComponents cm)"
    "invariant_of I (cm_GetAdminClient cm)"
  using assms by (simp_all add: manager_keeps_def)

lemma inv_manager:
  assumes "invariant_of I m" "\<And>w cm w'. m w = (Inr cm, w') \<Longrightarrow> R cm" "\<And>cm. R cm \<Longrightarrow> invariant_of I (f cm)"
  shows "invariant_of I (bindp m f)"
proof (rule valid_bindp)
  show "valid I m (\<lambda>cm w. I w \<and> R cm) (\<lambda>_. I)"
    using assms(1,2) by (fastforce simp: valid_def split: prod.splits sum.splits)
  show "valid (\<lambda>w. I w \<and> R cm) (f cm) (\<lambda>_. I) (\<lambda>_. I)" for cm
    using assms(3) [of cm] by (auto simp: valid_def)
qed

lemma manager_found:
  "GetCloudManager E w = (Inr cm, w') \<Longrightarrow> \<exists>p. e_providers E p = Some cm"
  "CloudManager E w = (Inr cm, w') \<Longrightarrow> \<exists>p. e_providers E p = Some cm"
  by (auto simp: GetCloudManager_def plugins_GetCloudManager_def CloudManager_def prog_run split: prod.splits sum.splits option.splits
      if_splits)

locale world_cluster = world_inv +
  assumes cluster: "I w \<Longrightarrow> I (w\<lparr>w_Cluster := c\<rparr>)"
begin

lemma inv_upd [inv_rules]: "invariant_of I (upd_cluster f)"
  by (simp add: valid_def prog_run upd_cluster_def cluster)

lemma inv_put_cluster [inv_rules]: "(\<And>c. invariant_of I (on_store (f c))) \<Longrightarrow> invariant_of I (store_cluster f)"
  unfolding store_cluster_def by (intro inv_rules)

lemma inv_NewScope [inv_rules]: "invariant_of I (NewScope c)"
proof -
  have "I w \<Longrightarrow> I (w\<lparr>w_Cluster := c, w_Certs := None, w_CloudManager := None, w_AdminClient := False\<rparr>)" for w
    using cluster [of w c] certs manager admin by (metis (no_types))
  then show ?thesis by (simp add: NewScope_def valid_def prog_run)
qed

end

locale world_upd = world_cluster +
  assumes managers: "e_providers E p = Some cm \<Longrightarrow> manager_keeps I cm"
begin

lemma with_manager [inv_rules]:
  assumes "\<And>cm. manager_keeps I cm \<Longrightarrow> invariant_of I (f cm)"
  shows "invariant_of I (bindp (GetCloudManager E) f)" "invariant_of I (bindp (CloudManager E) f)"
  by (rule inv_manager [where R = "manager_keeps I"], rule keep_scope, use managers manager_found in blast, rule assms, assumption)+

lemma creation_keeps:
  "invariant_of I (CreateCluster E)"
  unfolding CreateCluster_def setDefaultCluster_def createCluster_def createMasterMachines_def getMasterMachine_def
  by (intro inv_rules | erule manager_keepsD)+

lemma apply_parts_keep:
  "invariant_of I (setMasterSKU E)" "invariant_of I (updateProviderStatus E)" "invariant_of I (cloud_ApplyDelete E)"
  "invariant_of I (ApplyScale E)"
  unfolding setMasterSKU_def updateProviderStatus_def cloud_ApplyDelete_def ApplyScale_def
  by (intro inv_rules | erule manager_keepsD)+

lemma ClusterAPI_keeps: "invariant_of I (applyClusterAPI E)"
  unfolding applyClusterAPI_def ClusterAPI_Apply_def
  by (intro inv_rules apply_parts_keep | erule manager_keepsD)+

lemma Apply_keeps: "invariant_of I (Apply E)"
  unfolding Apply_def apply_creation_def apply_deletion_def ApplyCreate_def
  by (intro inv_rules apply_parts_keep ClusterAPI_keeps | erule manager_keepsD)+

lemma Delete_keeps: "invariant_of I (cloud_Delete E n)"
  unfolding cloud_Delete_def by (intro inv_rules)

end

end
