(* ===== verification/Cloud_Correct.thy ===== *)
theory Cloud_Correct
  imports Cloud_Frame
begin

text \<open>
  What the orchestration guarantees.  The contract of a cloud manager is the locale
  \<open>cloud_provider\<close>: its operations leave name, provider, deletion mark and phase of the cluster
  alone, except that deletion ends in a phase \<open>fin\<close>, Deleted for a provider that does what it is meant
  to and Deleting for one that forgets to say so.  Over an environment whose providers
  meet it (\<open>orchestration\<close>), the phases of the cluster move along \<open>phase_step\<close> only.
\<close>

section \<open>The part of the cluster that steers the orchestration\<close>

definition core_of :: "Cluster \<Rightarrow> ClusterPhase \<times> string \<times> time option \<times> string" where
  "core_of c = (c_Phase c, c_Name c, DeletionTimestamp (c_ObjectMeta c), CloudProvider (c_CloudSpec c))"

abbreviation core_is :: "(ClusterPhase \<times> string \<times> time option \<times> string) \<Rightarrow> ('s, 'x) world \<Rightarrow> bool" where
  "core_is k w \<equiv> core_of (w_Cluster w) = k"

lemma core_assign [simp]: "core_of (assign_Cluster c) = core_of c"
  by (simp add: core_of_def)

lemma core_provider_status [simp]: "core_of (set_ProviderStatus p c) = core_of c"
  by (simp add: core_of_def set_ProviderStatus_def cluster_upd)

lemma core_endpoints: "SetClusterAPIEndpoints c addrs = Inr c' \<Longrightarrow> core_of c' = core_of c"
  using SetClusterAPIEndpoints_frame by (simp add: core_of_def)

lemma core_set_Phase: "core_of (set_Phase p c) = (p, snd (core_of c))"
  by (simp add: core_of_def cluster_upd)

section \<open>Invariants of the building blocks\<close>

text \<open>What holds of the cluster object survives all programs that only read it.\<close>

interpretation cluster_inv: world_inv E "\<lambda>w. P (w_Cluster w)" for E P
  by unfold_locales simp_all

lemmas scope_keeps = cluster_inv.keep_scope

lemma inv_on_store [inv_rules]: "invariant_of (\<lambda>w. P (w_Cluster w)) (on_store m)"
  by (auto simp: valid_def prog_run split: prod.splits sum.splits)

lemma inv_upd_cluster:
  "(\<And>c. P c \<Longrightarrow> P (f c)) \<Longrightarrow> invariant_of (\<lambda>w. P (w_Cluster w)) (upd_cluster f)"
  by (simp add: valid_def prog_run upd_cluster_def)

lemma inv_store_cluster [inv_rules]: "invariant_of (core_is k) (store_cluster f)"
  unfolding store_cluster_def by (intro inv_rules inv_upd_cluster) simp

lemma inv_provider_status [inv_rules]: "invariant_of (core_is k) (upd_cluster (set_ProviderStatus p))"
  by (rule inv_upd_cluster) simp

lemma keep_provider_status [inv_rules]: "invariant_of (core_is k) (updateProviderStatus E)"
  unfolding updateProviderStatus_def by (intro inv_rules)

lemma keep_ClusterAPI_Apply [inv_rules]: "invariant_of (core_is k) (ClusterAPI_Apply E ns y)"
  unfolding ClusterAPI_Apply_def by (intro inv_rules)

section \<open>The contract of a cloud manager\<close>

locale cloud_provider =
  fixes cm :: "('s, 'x) cloud_manager" and fin :: ClusterPhase
  assumes final: "fin = ClusterDeleting \<or> fin = ClusterDeleted"
    and keep_SetCloudConnector: "invariant_of (core_is k) (cm_SetCloudConnector cm)"
    and keep_CreateCredentials: "invariant_of (core_is k) (cm_CreateCredentials cm)"
    and keep_ApplyScale: "invariant_of (core_is k) (cm_ApplyScale cm)"
    and keep_SetDefaultCluster: "invariant_of (core_is (ClusterPending, r)) (cm_SetDefaultCluster cm)"
    and keep_ProviderSpec: "invariant_of (core_is k) (cm_GetDefaultMachineProviderSpec cm sku role)"
    and keep_PrepareCloud: "invariant_of (core_is k) (cm_PrepareCloud cm)"
    and keep_EnsureMaster: "invariant_of (core_is k) (cm_EnsureMaster cm m)"
    and keep_Components: "invariant_of (core_is k) (cm_GetClusterAPIComponents cm)"
    and keep_AdminClient: "invariant_of (core_is k) (cm_GetAdminClient cm)"
    and delete_ends: "valid (core_is (ClusterDeleting, r)) (cm_ApplyDelete cm) (\<lambda>_. core_is (fin, r))
      (\<lambda>_ w. core_is (ClusterDeleting, r) w \<or> core_is (fin, r) w)"
begin

lemmas keeps = keep_SetCloudConnector keep_CreateCredentials keep_ApplyScale keep_SetDefaultCluster
  keep_ProviderSpec keep_PrepareCloud keep_EnsureMaster keep_Components keep_AdminClient

end

text \<open>The phases a cluster goes through.\<close>

inductive phase_step :: "ClusterPhase \<Rightarrow> ClusterPhase \<Rightarrow> bool" where
  created: "phase_step ClusterPending ClusterReady"
| deleting: "phase_step ClusterReady ClusterDeleting"
| deleted: "phase_step ClusterDeleting ClusterDeleted"

inductive_cases from_Deleted: "phase_step ClusterDeleted p"
inductive_simps phase_step_iff: "phase_step p q"

lemma phase_steps [intro]:
  "phase_step\<^sup>*\<^sup>* ClusterPending ClusterReady" "phase_step\<^sup>*\<^sup>* ClusterReady ClusterDeleting"
  "phase_step\<^sup>*\<^sup>* ClusterDeleting ClusterDeleted" "phase_step\<^sup>*\<^sup>* ClusterReady ClusterDeleted"
  "phase_step\<^sup>*\<^sup>* ClusterPending ClusterDeleting" "phase_step\<^sup>*\<^sup>* ClusterPending ClusterDeleted"
proof -
  note s = phase_step.intros
  show "phase_step\<^sup>*\<^sup>* ClusterPending ClusterReady" "phase_step\<^sup>*\<^sup>* ClusterReady ClusterDeleting"
    "phase_step\<^sup>*\<^sup>* ClusterDeleting ClusterDeleted" using s by blast+
  show rd: "phase_step\<^sup>*\<^sup>* ClusterReady ClusterDeleted" using s(2,3) by (meson r_into_rtranclp rtranclp_trans)
  show "phase_step\<^sup>*\<^sup>* ClusterPending ClusterDeleting" using s(1,2) by (meson r_into_rtranclp rtranclp_trans)
  show "phase_step\<^sup>*\<^sup>* ClusterPending ClusterDeleted" using s(1) rd by (meson converse_rtranclp_into_rtranclp)
qed

lemma Deleted_final: "phase_step\<^sup>*\<^sup>* ClusterDeleted p \<Longrightarrow> p = ClusterDeleted"
  by (erule converse_rtranclpE) (auto elim: from_Deleted)

text \<open>The phases on the way from one to another.\<close>

definition between :: "ClusterPhase \<Rightarrow> ClusterPhase \<Rightarrow> ClusterPhase \<Rightarrow> bool" where
  "between p fin q \<longleftrightarrow> phase_step\<^sup>*\<^sup>* p q \<and> phase_step\<^sup>*\<^sup>* q fin"

lemma between_trans: "phase_step\<^sup>*\<^sup>* p p' \<Longrightarrow> between p' fin q \<Longrightarrow> between p fin q"
  by (auto simp: between_def)

lemma valid_keep:
  assumes "invariant_of I m" "\<And>x. valid I (f x) Q E" "\<And>e w. I w \<Longrightarrow> E e w"
  shows "valid I (bindp m f) Q E"
proof (rule valid_bindp)
  show "valid I m (\<lambda>_. I) E" using assms(1,3) by (fastforce simp: valid_def split: prod.splits sum.splits)
qed (rule assms(2))

lemma valid_last: "(\<And>x. valid (\<lambda>_. True) (f x) Q (\<lambda>_ _. True)) \<Longrightarrow> valid (\<lambda>_. True) (bindp m f) Q (\<lambda>_ _. True)"
  by (rule valid_bindp [where R = "\<lambda>_ _. True"]) (auto simp: valid_def split: prod.splits sum.splits)

lemma valid_keep_strong:
  assumes "invariant_of I m" "\<And>x w w'. I w \<Longrightarrow> m w = (Inr x, w') \<Longrightarrow> R x" "\<And>x. R x \<Longrightarrow> valid I (f x) Q E"
    and "\<And>e w. I w \<Longrightarrow> E e w"
  shows "valid I (bindp m f) Q E"
proof (rule valid_bindp)
  show "valid I m (\<lambda>x w. I w \<and> R x) E"
    using assms(1,2,4) by (fastforce simp: valid_def split: prod.splits sum.splits)
  show "valid (\<lambda>w. I w \<and> R x) (f x) Q E" for x
    using assms(3) [of x] by (auto simp: valid_def)
qed

text \<open>The end of a deletion.\<close>

lemma valid_ends_deleted:
  "valid (core_is (p, r)) (bindp (upd_cluster (set_Phase ClusterDeleted)) (\<lambda>_. store_cluster f))
    (\<lambda>_. core_is (ClusterDeleted, r)) (\<lambda>_ w. core_is (p, r) w \<or> core_is (ClusterDeleted, r) w)"
proof (rule valid_bindp)
  show "valid (core_is (p, r)) (upd_cluster (set_Phase ClusterDeleted)) (\<lambda>_. core_is (ClusterDeleted, r))
      (\<lambda>_ w. core_is (p, r) w \<or> core_is (ClusterDeleted, r) w)"
    by (simp add: upd_cluster_def valid_def prog_run core_set_Phase)
  show "valid (core_is (ClusterDeleted, r)) (store_cluster f) (\<lambda>_. core_is (ClusterDeleted, r))
      (\<lambda>_ w. core_is (p, r) w \<or> core_is (ClusterDeleted, r) w)"
    by (rule valid_weaken [OF inv_store_cluster]) auto
qed

section \<open>The orchestration over such providers\<close>

locale orchestration =
  fixes E :: "('s, 'x) env" and fin :: ClusterPhase
  assumes final: "fin = ClusterDeleting \<or> fin = ClusterDeleted"
    and providers: "e_providers E p = Some cm \<Longrightarrow> cloud_provider cm fin"
begin

lemma GetCloudManager_provider: "GetCloudManager E w = (Inr cm, w') \<Longrightarrow> cloud_provider cm fin"
  by (auto simp: GetCloudManager_def plugins_GetCloudManager_def prog_run split: prod.splits sum.splits option.splits
      if_splits dest!: providers)

lemma CloudManager_provider: "CloudManager E w = (Inr cm, w') \<Longrightarrow> cloud_provider cm fin"
  by (auto simp: CloudManager_def prog_run split: prod.splits sum.splits option.splits dest!: providers)

lemma with_CloudManager:
  assumes "\<And>cm. cloud_provider cm fin \<Longrightarrow> valid (core_is k) (f cm) Q F" "\<And>e w. core_is k w \<Longrightarrow> F e w"
  shows "valid (core_is k) (bindp (GetCloudManager E) f) Q F" "valid (core_is k) (bindp (CloudManager E) f) Q F"
  by (rule valid_keep_strong [where R = "\<lambda>cm. cloud_provider cm fin"],
      rule scope_keeps, blast dest: GetCloudManager_provider CloudManager_provider, rule assms(1), assumption,
      rule assms(2), assumption)+

lemma setMasterSKU_core: "invariant_of (core_is k) (setMasterSKU E)"
  unfolding setMasterSKU_def
  by (intro inv_rules with_CloudManager) (auto dest: cloud_provider.keeps)

lemma applyClusterAPI_core: "invariant_of (core_is k) (applyClusterAPI E)"
  unfolding applyClusterAPI_def
  by (intro inv_rules with_CloudManager) (auto dest: cloud_provider.keeps)

lemma ApplyScale_core: "invariant_of (core_is k) (ApplyScale E)"
  unfolding ApplyScale_def
  by (intro inv_rules with_CloudManager) (auto dest: cloud_provider.keeps)

end

context orchestration
begin

lemma between_start:
  assumes "p \<in> {ClusterPending, ClusterReady, ClusterDeleting}"
  shows "between p fin p" "between p fin fin" "between ClusterPending fin ClusterReady"
    "p \<noteq> ClusterPending \<Longrightarrow> between p fin ClusterDeleting"
  using assms final by (auto simp: between_def)

text \<open>
  \<^verbatim>\<open>ApplyCreate\<close>: the phase becomes Ready after all steps have succeeded, and only then.
\<close>

lemma ApplyCreate_phase:
  "valid (core_is (ClusterPending, r)) (ApplyCreate E) (\<lambda>_. core_is (ClusterReady, r))
    (\<lambda>_ w. core_is (ClusterPending, r) w \<or> core_is (ClusterReady, r) w)"
proof -
  let ?I = "core_is (ClusterPending, r) :: ('a, 'b) world \<Rightarrow> bool" and ?R = "core_is (ClusterReady, r) :: ('a, 'b) world \<Rightarrow> bool"
  let ?F = "\<lambda>_ w. ?I w \<or> ?R w"
  have last: "valid ?I (bindp (upd_cluster (set_Phase ClusterReady))
      (\<lambda>_. store_cluster (so_cluster_UpdateStatus (e_store E)))) (\<lambda>_. ?R) ?F"
  proof (rule valid_bindp)
    show "valid ?I (upd_cluster (set_Phase ClusterReady)) (\<lambda>_. ?R) ?F"
      by (simp add: upd_cluster_def valid_def prog_run core_set_Phase)
    show "valid ?R (store_cluster (so_cluster_UpdateStatus (e_store E))) (\<lambda>_. ?R) ?F"
      by (rule valid_weaken [OF inv_store_cluster]) auto
  qed
  show ?thesis
    unfolding ApplyCreate_def
    by (intro with_CloudManager valid_keep last)
      (auto intro!: inv_rules setMasterSKU_core applyClusterAPI_core dest: cloud_provider.keeps)
qed

lemma ApplyDelete_phase:
  assumes "p \<in> {ClusterReady, ClusterDeleting}"
  shows "valid (core_is (p, r)) (cloud_ApplyDelete E) (\<lambda>_. core_is (fin, r))
    (\<lambda>_ w. \<exists>q. core_is (q, r) w \<and> between p fin q)"
proof -
  let ?F = "\<lambda>_ w. \<exists>q. core_is (q, r) w \<and> between p fin q"
  let ?D = "core_is (ClusterDeleting, r) :: ('a, 'b) world \<Rightarrow> bool"
  have pD: "between p fin p" "between p fin ClusterDeleting" "between p fin fin" using between_start assms by auto
  have del: "valid ?D (cm_ApplyDelete cm) (\<lambda>_. core_is (fin, r)) ?F" if "cloud_provider cm fin" for cm
    by (rule valid_weaken [OF cloud_provider.delete_ends [OF that, of r]]) (use pD in auto)
  have set: "valid (core_is (p, r)) (upd_cluster (\<lambda>c. if c_Phase c = ClusterReady then set_Phase ClusterDeleting c else c))
      (\<lambda>_. ?D) ?F"
    using assms by (auto simp: upd_cluster_def valid_def prog_run core_of_def cluster_upd)
  have rest: "valid ?D (bindp (store_cluster (so_cluster_UpdateStatus (e_store E))) (\<lambda>_.
      bindp (CloudManager E) (\<lambda>cm. cm_ApplyDelete cm))) (\<lambda>_. core_is (fin, r)) ?F"
    by (intro valid_keep with_CloudManager inv_rules del) (use pD in auto)
  show ?thesis
    unfolding cloud_ApplyDelete_def
    by (rule valid_keep, intro inv_rules, rule valid_bindp, rule set, rule rest) (use pD in auto)
qed

text \<open>The second half of \<^verbatim>\<open>Apply\<close>: deletion, if the cluster is marked for it.\<close>

lemma deletion_phase:
  assumes "p \<in> {ClusterReady, ClusterDeleting}"
  shows "valid (core_is (p, n, d, cp)) (apply_deletion E)
    (\<lambda>_. core_is (if d = None then p else fin, n, d, cp))
    (\<lambda>_ w. \<exists>q. core_is (q, n, d, cp) w \<and> between p fin q)"
proof (cases "d = None")
  case True
  then show ?thesis using assms by (auto simp: apply_deletion_def valid_def prog_run core_of_def)
next
  case False
  let ?I = "core_is (p, n, d, cp) :: ('a, 'b) world \<Rightarrow> bool"
  let ?F = "\<lambda>(_::gerror) w. \<exists>q. core_is (q, n, d, cp) w \<and> between p fin q"
  have marked: "valid ?I (bindp (on_store (so_machineset_List (e_store E) n)) (\<lambda>machineSets.
            bindp (mark_machinesets E n machineSets) (\<lambda>_. cloud_ApplyDelete E)))
      (\<lambda>_. core_is (fin, n, d, cp)) ?F"
    by (intro valid_keep inv_rules ApplyDelete_phase assms) (use between_start assms in auto)
  have "p \<noteq> ClusterDeleted" using assms by auto
  with False marked show ?thesis
    unfolding apply_deletion_def by (auto simp: valid_def run_bindp run_simps core_of_def split: prod.splits)
qed

lemma creation_phase:
  "valid (core_is (ClusterPending, r)) (apply_creation E) (\<lambda>_. core_is (ClusterReady, r))
    (\<lambda>_ w. core_is (ClusterPending, r) w \<or> core_is (ClusterReady, r) w)"
proof -
  let ?I = "core_is (ClusterPending, r) :: ('a, 'b) world \<Rightarrow> bool" and ?R = "core_is (ClusterReady, r) :: ('a, 'b) world \<Rightarrow> bool"
  have "valid ?I (bindp (ApplyCreate E) (\<lambda>_. ApplyScale E)) (\<lambda>_. ?R) (\<lambda>_ w. ?I w \<or> ?R w)"
  proof (rule valid_bindp)
    show "valid ?I (ApplyCreate E) (\<lambda>_. ?R) (\<lambda>_ w. ?I w \<or> ?R w)" by (rule ApplyCreate_phase)
    show "valid ?R (ApplyScale E) (\<lambda>_. ?R) (\<lambda>_ w. ?I w \<or> ?R w)" by (rule valid_weaken [OF ApplyScale_core]) auto
  qed
  then show ?thesis by (auto simp: apply_creation_def valid_def run_bindp [of "gets w_Phase"] run_simps core_of_def)
qed

lemma creation_skipped:
  "p \<noteq> ClusterPending \<Longrightarrow> invariant_of (core_is (p, r)) (apply_creation E)"
  by (auto simp: apply_creation_def valid_def prog_run core_of_def)

lemma Apply_open:
  assumes "\<And>w. P w \<Longrightarrow> w_Phase w \<notin> {'''', ClusterDeleted, ClusterUpgrading}"
    and "valid P (bindp (GetCloudManager E) (\<lambda>cm. bindp (cm_SetCloudConnector cm) (\<lambda>_. bindp (apply_creation E) (\<lambda>_. apply_deletion E)))) Q F"
  shows "valid P (Apply E) Q F"
proof -
  have "Apply E w = bindp (GetCloudManager E) (\<lambda>cm. bindp (cm_SetCloudConnector cm) (\<lambda>_. bindp (apply_creation E) (\<lambda>_. apply_deletion E))) w"
    if "P w" for w
    using assms(1) [OF that] by (simp add: Apply_def run_bindp [of "gets w_Cluster"] run_simps)
  then show ?thesis using assms(2) unfolding valid_def by simp
qed

lemma Apply_Pending:
  "valid (core_is (ClusterPending, n, d, cp)) (Apply E)
    (\<lambda>_. core_is (if d = None then ClusterReady else fin, n, d, cp))
    (\<lambda>_ w. \<exists>q. core_is (q, n, d, cp) w \<and> between ClusterPending fin q)"
proof (rule Apply_open)
  let ?I = "core_is (ClusterPending, n, d, cp) :: ('a, 'b) world \<Rightarrow> bool"
  let ?R = "core_is (ClusterReady, n, d, cp) :: ('a, 'b) world \<Rightarrow> bool"
  let ?F = "\<lambda>(_::gerror) w. \<exists>q. core_is (q, n, d, cp) w \<and> between ClusterPending fin q"
  let ?Q = "\<lambda>(_::unit). core_is (if d = None then ClusterReady else fin, n, d, cp) :: ('a, 'b) world \<Rightarrow> bool"
  have "valid ?I (apply_creation E) (\<lambda>_. ?R) ?F" by (rule valid_weaken [OF creation_phase]) (use between_start in auto)
  moreover have "valid ?R (apply_deletion E) ?Q ?F"
    by (rule valid_weaken [OF deletion_phase [of ClusterReady]]) (auto intro: between_trans [OF phase_steps(1)])
  ultimately have work: "valid ?I (bindp (apply_creation E) (\<lambda>_. apply_deletion E)) ?Q ?F" by (rule valid_bindp)
  show "valid ?I (bindp (GetCloudManager E) (\<lambda>cm. bindp (cm_SetCloudConnector cm) (\<lambda>_. bindp (apply_creation E) (\<lambda>_. apply_deletion E)))) ?Q ?F"
    by (rule with_CloudManager(1), rule valid_keep, erule cloud_provider.keep_SetCloudConnector, rule work) (use between_start in auto)
qed (auto simp: core_of_def)

lemma Apply_existing:
  assumes p: "p \<in> {ClusterReady, ClusterDeleting}"
  shows "valid (core_is (p, n, d, cp)) (Apply E)
    (\<lambda>_. core_is (if d = None then p else fin, n, d, cp))
    (\<lambda>_ w. \<exists>q. core_is (q, n, d, cp) w \<and> between p fin q)"
proof (rule Apply_open)
  show "valid (core_is (p, n, d, cp)) (bindp (GetCloudManager E) (\<lambda>cm. bindp (cm_SetCloudConnector cm) (\<lambda>_.
      bindp (apply_creation E) (\<lambda>_. apply_deletion E)))) (\<lambda>_. core_is (if d = None then p else fin, n, d, cp))
    (\<lambda>_ w. \<exists>q. core_is (q, n, d, cp) w \<and> between p fin q)"
    using p between_start(1) [of p] by (intro with_CloudManager valid_keep creation_skipped deletion_phase) (auto dest: cloud_provider.keeps)
qed (use p in \<open>auto simp: core_of_def\<close>)

end

section \<open>Providers that end a deletion in the phase Deleting\<close>

lemma phase_after:
  "phase_step\<^sup>*\<^sup>* p q \<Longrightarrow> q = p \<or> p = ClusterPending \<and> q \<in> {ClusterReady, ClusterDeleting, ClusterDeleted} \<or>
     p = ClusterReady \<and> q \<in> {ClusterDeleting, ClusterDeleted} \<or> p = ClusterDeleting \<and> q = ClusterDeleted"
  by (induction rule: rtranclp_induct) (auto simp: phase_step_iff)

lemma Deleted_ends: "\<not> phase_step\<^sup>*\<^sup>* ClusterDeleted ClusterDeleting"
  using Deleted_final by fastforce

lemma before_Deleting: "between p ClusterDeleting q \<Longrightarrow> q \<in> (if p = ClusterPending then {ClusterPending, ClusterReady, ClusterDeleting}
    else if p = ClusterReady then {ClusterReady, ClusterDeleting} else {p, ClusterDeleting})"
  using phase_after [of p q] Deleted_ends by (auto simp: between_def)

locale late_orchestration = orchestration E ClusterDeleting for E :: "('s, 'x) env"
begin

lemma never_deleted:
  "valid (core_is (ClusterPending, n, d, cp)) (Apply E)
     (\<lambda>_. core_is (if d = None then ClusterReady else ClusterDeleting, n, d, cp))
     (\<lambda>_ w. \<exists>q \<in> {ClusterPending, ClusterReady, ClusterDeleting}. core_is (q, n, d, cp) w) \<and>
   valid (core_is (ClusterReady, n, d, cp)) (Apply E)
     (\<lambda>_. core_is (if d = None then ClusterReady else ClusterDeleting, n, d, cp))
     (\<lambda>_ w. \<exists>q \<in> {ClusterReady, ClusterDeleting}. core_is (q, n, d, cp) w) \<and>
   valid (core_is (ClusterDeleting, n, d, cp)) (Apply E)
     (\<lambda>_. core_is (ClusterDeleting, n, d, cp)) (\<lambda>_. core_is (ClusterDeleting, n, d, cp))"
  by (intro conjI; rule valid_weaken [OF Apply_Pending] valid_weaken [OF Apply_existing]) (auto dest!: before_Deleting)

end

end
