(* ===== verification/Startup_Correct.thy ===== *)
theory Startup_Correct
  imports Startup Cloud_Correct
begin

text \<open>
  What rendering a start-up script leaves alone: it reads the world, and of the cluster object it changes
  the kubelet arguments only.
\<close>

definition keeps_args :: "(('s, 'x) world \<Rightarrow> bool) \<Rightarrow> bool" where
  "keeps_args I \<longleftrightarrow> (\<forall>f. invariant_of I (upd_cluster (\<lambda>c. set_args (f c) c)))"

lemma inv_td_args [inv_rules]: "invariant_of I (td_args td)"
  unfolding td_args_def by (intro inv_rules)

lemma inv_JoinConfigurationYAML [inv_rules]: "invariant_of I (JoinConfigurationYAML T td)"
  unfolding JoinConfigurationYAML_def by (intro inv_rules)

lemma inv_set_arg: "keeps_args I \<Longrightarrow> invariant_of I (set_arg k v td)"
  unfolding set_arg_def
  by (cases "td_KubeletExtraArgs td") (auto simp: keeps_args_def intro!: inv_rules)

lemma inv_tpl_call [inv_rules]: "invariant_of I m \<Longrightarrow> invariant_of I (tpl_call T name m)"
  by (fastforce simp: tpl_call_def valid_def split: prod.splits sum.splits)

lemma inv_ExecuteTemplate [inv_rules]: "invariant_of I (ExecuteTemplate T tpl role td)"
  unfolding ExecuteTemplate_def InitConfigurationYAML_def by (intro inv_rules)

lemma inv_RenderStartupScript:
  assumes "keeps_args I" and node: "\<And>m t td. invariant_of I (th_Node H m t td)" and master: "\<And>m t td. invariant_of I (th_Master H m t td)"
  shows "invariant_of I (RenderStartupScript E T H machine token tpl)"
proof -
  note set = inv_set_arg [OF assms(1)]
  have n: "invariant_of I (NewNodeTemplateData E T H machine t)" for t
    unfolding NewNodeTemplateData_def Let_def by (intro inv_rules set node)
  have join: "invariant_of I (\<lambda>w. case JoinConfigurationYAML T td w of
      (Inl e, w') \<Rightarrow> (Inl (Panic (err_msg e)), w') | (Inr s, w') \<Rightarrow> (Inr s, w'))" for td
    using inv_JoinConfigurationYAML [of I T td] by (auto simp: valid_def split: prod.splits sum.splits)
  have "invariant_of I (NewMasterTemplateData E T H machine token)"
    unfolding NewMasterTemplateData_def Let_def by (intro inv_rules set n join master)
  with n show ?thesis unfolding RenderStartupScript_def by (intro inv_rules)
qed

lemma keeps_args_core: "keeps_args (core_is k)"
  unfolding keeps_args_def
  by (intro allI inv_upd_cluster) (simp add: core_of_def set_args_def cluster_upd)

lemma keeps_args_ext: "keeps_args (\<lambda>w. P (w_ext w))"
  by (simp add: keeps_args_def valid_def prog_run upd_cluster_def)

context world_cluster
begin

lemma keeps_args_cluster: "keeps_args I"
  unfolding keeps_args_def by (intro allI inv_rules)

end

section \<open>An instance\<close>

text \<open>An encoder and an engine that answer with nothing; a node of version 1.13.5 is rendered with them.\<close>

definition plain_startup :: startup_ops where
  "plain_startup = \<lparr>pubkeypin_Hash = (\<lambda>_. ''''), yaml_Init = (\<lambda>_. Inr ''''), yaml_Cluster = (\<lambda>_. Inr ''''),
     yaml_Join = (\<lambda>_. Inr ''''), tpl_Parse = (\<lambda>_. Inr ()), tpl_Execute = (\<lambda>_ _ _ _. Inr ''''), tpl_error = (\<lambda>_ e. e)\<rparr>"

lemma version_13: "NewVersion ''1.13.5'' = Inr \<lparr>sv_metadata = '''', sv_pre = '''', sv_segments = [1, 13, 5], sv_si = 3, sv_original = ''1.13.5''\<rparr>"
  "NewVersion ''1.12.0'' = Inr \<lparr>sv_metadata = '''', sv_pre = '''', sv_segments = [1, 12, 0], sv_si = 3, sv_original = ''1.12.0''\<rparr>"
  by (simp_all add: NewVersion_def versionRegexp_def dotted.simps is_digit_def sem_pre_def sem_metadata_def ParseInt_def
      digit_val_def Let_def)

lemma packages_13:
  assumes "td_KubernetesVersion td = ''1.13.5''"
  obtains p k where "PackageList td = Inr p" "PrekVersion td = Inr k"
proof -
  have older: "IsVersionLessThan td ''1.12.0'' = Inr False"
    by (simp add: IsVersionLessThan_def assms version_13 sem_LessThan_def sem_Compare_def sem_String_def show_int_def
        show_nat.simps digit_char_def)
  show thesis
    using that by (simp add: PackageList_def PrekVersion_def assms version_13 older ResetMetadata_def ResetPrerelease_def
      ResetPatch_def sem_String_def show_int_def show_nat.simps digit_char_def kubernetesCNIVersions_def prekVersions_def Let_def)
qed

lemma render_plain_node:
  assumes "\<not> IsControlPlaneMachine m" "w_Certs w = Some certs" "KubeletExtraArgs (c_Config (w_Cluster w)) = None"
    and "KubernetesVersion (c_Config (w_Cluster w)) = ''1.13.5''"
    and hook: "\<And>td m'. td_KubeletExtraArgs td = OwnArgs m' \<Longrightarrow>
      \<exists>td'. th_Node H m token td w = (Inr td', w) \<and> td_KubernetesVersion td' = td_KubernetesVersion td"
  shows "RenderStartupScript E plain_startup H m token tpl w = (Inr '''', w)"
proof -
  let ?td = "base_TemplateData E plain_startup certs (w_Cluster w) token"
  obtain args where set: "set_arg ''node-labels'' l ?td w = (Inr (?td\<lparr>td_KubeletExtraArgs := OwnArgs (args l)\<rparr>), w)" for l
    using assms(3) by (simp add: set_arg_def base_TemplateData_def prog_run)
  have version: "td_KubernetesVersion ?td = ''1.13.5''" using assms(4) by (simp add: base_TemplateData_def)
  obtain td where td: "NewNodeTemplateData E plain_startup H m token w = (Inr td, w)" "td_KubernetesVersion td = ''1.13.5''"
    using hook [of "?td\<lparr>td_KubeletExtraArgs := OwnArgs (args l)\<rparr>" for l] assms(2) set version
    by (auto simp: NewNodeTemplateData_def prog_run)
  obtain p k where "PackageList td = Inr p" "PrekVersion td = Inr k" using packages_13 [OF td(2)] .
  then have "ExecuteTemplate plain_startup tpl ''node'' td w = (Inr '''', w)"
    by (simp add: ExecuteTemplate_def prog_run tpl_call_def plain_startup_def)
  then show ?thesis using assms(1) td(1) by (simp add: RenderStartupScript_def prog_run plain_startup_def)
qed

end
