(* ===== verification/Digitalocean_Correct.thy ===== *)
theory Digitalocean_Correct
  imports Digitalocean Startup_Correct
begin

text \<open>
  The DigitalOcean provider meets the contract of a cloud manager, so the facts on the
  orchestration hold for it.  Then its own properties: provider identifiers, machine actuator,
  load balancer.
\<close>

section \<open>The contract\<close>

lemma inv_lookup [inv_rules]:
  "(\<And>x. invariant_of I (f x)) \<Longrightarrow> invariant_of I m \<Longrightarrow> (\<And>e. invariant_of I (g e)) \<Longrightarrow>
    invariant_of I (case z of Found x \<Rightarrow> f x | NotFound \<Rightarrow> m | Failed e \<Rightarrow> g e)"
  by (cases z) simp_all

lemma do_manager_fields:
  "cm_SetCloudConnector (do_manager E D) = do_SetCloudConnector E D"
  "cm_CreateCredentials (do_manager E D) = do_CreateCredentials E"
  "cm_ApplyDelete (do_manager E D) = do_ApplyDelete E D"
  "cm_ApplyScale (do_manager E D) = do_ApplyScale"
  "cm_SetDefaultCluster (do_manager E D) = do_SetDefaultCluster D"
  "cm_GetDefaultMachineProviderSpec (do_manager E D) = do_GetDefaultMachineProviderSpec E D"
  "cm_PrepareCloud (do_manager E D) = do_PrepareCloud E D"
  "cm_EnsureMaster (do_manager E D) = do_EnsureMaster E D"
  "cm_GetClusterAPIComponents (do_manager E D) = do_GetClusterAPIComponents D"
  "cm_GetAdminClient (do_manager E D) = GetAdminClient E"
  by (simp_all add: do_manager_def)

lemma inv_do_render:
  "keeps_args I \<Longrightarrow> invariant_of I (do_RenderStartupScript E D m token)"
  unfolding do_RenderStartupScript_def do_hooks_def
  by (rule inv_RenderStartupScript)
    (simp_all add: do_NewNodeTemplateData_def do_NewMasterTemplateData_def, (intro inv_rules inv_set_arg | assumption)+)

lemma do_hooks_api: "do_hooks (D\<lparr>d_api := A\<rparr>) = do_hooks D"
  by (simp add: do_hooks_def fun_eq_iff do_NewNodeTemplateData_def)

lemma do_render_api [simp]: "do_RenderStartupScript E (D\<lparr>d_api := A\<rparr>) = do_RenderStartupScript E D"
  by (simp add: fun_eq_iff do_RenderStartupScript_def do_hooks_api)

context world_inv
begin

lemma keep_connector [inv_rules]:
  "invariant_of I (IsUnauthorized D now)"
  "invariant_of I (need_conn D)"
  "invariant_of I SSHKey_of_certs"
  "invariant_of I (WaitForInstance E D i status)"
  "invariant_of I (getTags D)"
  "invariant_of I (createTags D)"
  "invariant_of I (instanceIfExists D m)"
  "invariant_of I (DeleteInstanceByProviderID D pid)"
  "invariant_of I (lbByName D name)"
  "invariant_of I (waitActive E D lbID)"
  unfolding IsUnauthorized_def need_conn_def SSHKey_of_certs_def WaitForInstance_def getTags_def createTags_def
    instanceIfExists_def DeleteInstanceByProviderID_def lbByName_def waitActive_def Let_def
  by (intro inv_rules)+

lemma keep_connector2 [inv_rules]:
  "invariant_of I (newconnector E D)"
  "invariant_of I (getPublicKey D)"
  "invariant_of I (importPublicKey D)"
  "invariant_of I (deleteSSHKey E D)"
  "invariant_of I (CreateInstance E D c m script)"
  "invariant_of I (createLoadBalancer E D name)"
  "invariant_of I (deleteLoadBalancer D name)"
  unfolding newconnector_def getPublicKey_def importPublicKey_def deleteSSHKey_def CreateInstance_def
    createLoadBalancer_def deleteLoadBalancer_def
  by (intro inv_rules)+

end

context world_cluster
begin

lemma keep_endpoints [inv_rules]: "invariant_of I (try_endpoints addrs)"
  unfolding try_endpoints_def by (intro inv_rules)

lemmas keep_do_render [inv_rules] = inv_do_render [OF keeps_args_cluster]

lemma do_manager_keeps: "manager_keeps I (do_manager E D)"
proof -
  have "invariant_of I (do_ApplyDelete E D)" "invariant_of I (do_SetCloudConnector E D)" "invariant_of I (do_CreateCredentials E)"
    "invariant_of I (do_SetDefaultCluster D)" "invariant_of I (do_GetDefaultMachineProviderSpec E D sku role)"
    "invariant_of I (do_PrepareCloud E D)" "invariant_of I (do_EnsureMaster E D m)" "invariant_of I (do_GetClusterAPIComponents D)"
    "invariant_of I do_ApplyScale" "invariant_of I (GetAdminClient E)" for sku role m
    unfolding do_ApplyDelete_def do_SetCloudConnector_def do_CreateCredentials_def do_SetDefaultCluster_def
      do_GetDefaultMachineProviderSpec_def do_PrepareCloud_def do_EnsureMaster_def do_GetClusterAPIComponents_def
      do_ApplyScale_def Let_def
    by (intro inv_rules)+
  then show ?thesis by (simp add: manager_keeps_def do_manager_fields)
qed

end

text \<open>What holds of the cluster object.\<close>

lemma core_do [simp]:
  "core_of (do_defaults c) = core_of c" "core_of (set_ccProviderSpec raw c) = core_of c"
  "core_of (set_LoadBalancer lb c) = core_of c"
  by (simp_all add: core_of_def do_defaults_def set_ccProviderSpec_def set_LoadBalancer_def cluster_upd)

lemma core_do_updates [inv_rules]:
  "invariant_of (core_is k) (upd_cluster do_defaults)"
  "invariant_of (core_is k) (upd_cluster (set_ccProviderSpec raw))"
  "invariant_of (core_is k) (upd_cluster (set_LoadBalancer lb))"
  by (rule inv_upd_cluster; simp)+

lemma core_try_endpoints [inv_rules]: "invariant_of (core_is k) (try_endpoints addrs)"
  unfolding try_endpoints_def
  by (auto simp: valid_def prog_run upd_cluster_def split: sum.splits dest: core_endpoints)

lemmas core_do_render [inv_rules] = inv_do_render [OF keeps_args_core]

lemma keep_do_manager:
  "invariant_of (core_is k) (do_SetCloudConnector E D)"
  "invariant_of (core_is k) (do_CreateCredentials E)"
  "invariant_of (core_is k) (do_SetDefaultCluster D)"
  "invariant_of (core_is k) (do_GetDefaultMachineProviderSpec E D sku role)"
  "invariant_of (core_is k) (do_PrepareCloud E D)"
  "invariant_of (core_is k) (do_EnsureMaster E D m)"
  "invariant_of (core_is k) (do_GetClusterAPIComponents D)"
  "invariant_of (core_is k) do_ApplyScale"
  "invariant_of (core_is k) (GetAdminClient E)"
  unfolding do_SetCloudConnector_def do_CreateCredentials_def do_SetDefaultCluster_def
    do_GetDefaultMachineProviderSpec_def do_PrepareCloud_def do_EnsureMaster_def do_GetClusterAPIComponents_def
    do_ApplyScale_def Let_def
  by (intro inv_rules)+

lemma do_ApplyDelete_ends:
  "valid (core_is (p, r)) (do_ApplyDelete E D) (\<lambda>_. core_is (ClusterDeleted, r))
    (\<lambda>_ w. core_is (p, r) w \<or> core_is (ClusterDeleted, r) w)"
  unfolding do_ApplyDelete_def by (intro valid_keep valid_ends_deleted) (auto intro!: inv_rules)

interpretation digitalocean: cloud_provider "do_manager E D" ClusterDeleted for E D
  by (unfold_locales; (unfold do_manager_fields)?; (rule keep_do_manager do_ApplyDelete_ends)?) simp

end
