(* ===== verification/Linode_Correct.thy ===== *)
theory Linode_Correct
  imports Linode Digitalocean_Correct
begin

text \<open>
  The Linode provider meets the contract of a cloud manager.
\<close>

section \<open>The contract\<close>

lemma inv_logged [inv_rules]: "invariant_of I m \<Longrightarrow> invariant_of I (logged m)"
  unfolding logged_def by (intro inv_rules)

lemma li_manager_fields:
  "cm_SetCloudConnector (li_manager E D) = li_SetCloudConnector E D"
  "cm_CreateCredentials (li_manager E D) = li_CreateCredentials E D"
  "cm_ApplyDelete (li_manager E D) = li_ApplyDelete E D"
  "cm_ApplyScale (li_manager E D) = li_ApplyScale"
  "cm_SetDefaultCluster (li_manager E D) = li_SetDefaultCluster D"
  "cm_GetDefaultMachineProviderSpec (li_manager E D) = li_GetDefaultMachineProviderSpec E D"
  "cm_PrepareCloud (li_manager E D) = li_PrepareCloud D"
  "cm_EnsureMaster (li_manager E D) = li_EnsureMaster E D"
  "cm_GetClusterAPIComponents (li_manager E D) = li_GetClusterAPIComponents D"
  "cm_GetAdminClient (li_manager E D) = GetAdminClient E"
  by (simp_all add: li_manager_def)

lemma inv_li_render:
  "keeps_args I \<Longrightarrow> invariant_of I (li_RenderStartupScript E D m token)"
  unfolding li_RenderStartupScript_def li_hooks_def
  by (rule inv_RenderStartupScript)
    (simp_all add: li_NewNodeTemplateData_def li_NewMasterTemplateData_def, (intro inv_rules inv_set_arg | assumption)+)

context world_inv
begin

lemma keep_li_client [inv_rules]: "invariant_of I (li_client D m)"
  unfolding li_client_def by (intro inv_rules)

lemma keep_found [inv_rules]: "invariant_of I (found_lb r)"
  unfolding found_lb_def by (intro inv_rules)

lemma keep_li_connector [inv_rules]:
  "invariant_of I (li_newconnector E D)"
  "invariant_of I (li_waitForStatus E D i status)"
  "invariant_of I (li_machine_scripts D m)"
  "invariant_of I (li_DeleteStackScript D n role)"
  "invariant_of I (li_DeleteInstanceByProviderID D pid)"
  "invariant_of I (li_instanceIfExists D m)"
  "invariant_of I (li_lbByName D name)"
  "invariant_of I (li_createNodeBalancer D name)"
  "invariant_of I (li_createNodeBalancerConfig D i)"
  unfolding li_newconnector_def li_waitForStatus_def li_machine_scripts_def li_DeleteStackScript_def
    li_DeleteInstanceByProviderID_def li_instanceIfExists_def li_lbByName_def li_createNodeBalancer_def
    li_createNodeBalancerConfig_def Let_def
  by (intro inv_rules)+

lemma keep_li_scripts [inv_rules]:
  "invariant_of I (li_getStartupScriptID D m)"
  "invariant_of I (li_createOrUpdateStackScript D m script)"
  unfolding li_getStartupScriptID_def li_createOrUpdateStackScript_def by (intro inv_rules)+

lemma keep_li_balancer [inv_rules]:
  "invariant_of I (li_CreateInstance E D m script)"
  "invariant_of I (li_buildLoadBalancerRequest D name)"
  "invariant_of I (li_addNodeToBalancer D name n ip)"
  "invariant_of I (li_deleteLoadBalancer D name)"
  unfolding li_CreateInstance_def li_buildLoadBalancerRequest_def li_addNodeToBalancer_def li_deleteLoadBalancer_def
  by (intro inv_rules)+

lemma keep_li_parts [inv_rules]:
  "invariant_of I (li_createLoadBalancer D name)"
  "invariant_of I (li_delete_workers D)"
  "invariant_of I (li_delete_masters D)"
  "invariant_of I (CreateCredentialSecret E D n ns d)"
  unfolding li_createLoadBalancer_def li_delete_workers_def li_delete_masters_def CreateCredentialSecret_def
  by (intro inv_rules)+

end

context world_cluster
begin

lemmas keep_li_render [inv_rules] = inv_li_render [OF keeps_args_cluster]

lemma li_manager_keeps: "manager_keeps I (li_manager E D)"
proof -
  have "invariant_of I (li_ApplyDelete E D)" "invariant_of I (li_SetCloudConnector E D)" "invariant_of I (li_CreateCredentials E D)"
    "invariant_of I (li_SetDefaultCluster D)" "invariant_of I (li_GetDefaultMachineProviderSpec E D sku role)"
    "invariant_of I (li_PrepareCloud D)" "invariant_of I (li_EnsureMaster E D m)" "invariant_of I (li_GetClusterAPIComponents D)"
    "invariant_of I li_ApplyScale" "invariant_of I (GetAdminClient E)" for sku role m
    unfolding li_ApplyDelete_def li_SetCloudConnector_def li_CreateCredentials_def li_SetDefaultCluster_def
      SetLinodeClusterProviderConfig_def li_GetDefaultMachineProviderSpec_def li_PrepareCloud_def li_EnsureMaster_def
      li_GetClusterAPIComponents_def li_ApplyScale_def Let_def
    by (intro inv_rules)+
  then show ?thesis by (simp add: manager_keeps_def li_manager_fields)
qed

end

lemma core_li_defaults [inv_rules]: "invariant_of (core_is k) (upd_cluster (li_defaults pw))"
  by (rule inv_upd_cluster) (simp add: core_of_def li_defaults_def cluster_upd)

lemmas core_li_render [inv_rules] = inv_li_render [OF keeps_args_core]

lemma keep_li_manager:
  "invariant_of (core_is k) (li_SetCloudConnector E D)"
  "invariant_of (core_is k) (li_CreateCredentials E D)"
  "invariant_of (core_is k) (li_SetDefaultCluster D)"
  "invariant_of (core_is k) (li_GetDefaultMachineProviderSpec E D sku role)"
  "invariant_of (core_is k) (li_PrepareCloud D)"
  "invariant_of (core_is k) (li_EnsureMaster E D m)"
  "invariant_of (core_is k) (li_GetClusterAPIComponents D)"
  "invariant_of (core_is k) li_ApplyScale"
  "invariant_of (core_is k) (GetAdminClient E)"
  unfolding li_SetCloudConnector_def li_CreateCredentials_def li_SetDefaultCluster_def SetLinodeClusterProviderConfig_def
    li_GetDefaultMachineProviderSpec_def li_PrepareCloud_def li_EnsureMaster_def li_GetClusterAPIComponents_def
    li_ApplyScale_def Let_def
  by (intro inv_rules)+

lemma li_ApplyDelete_ends:
  "valid (core_is (p, r)) (li_ApplyDelete E D) (\<lambda>_. core_is (ClusterDeleted, r))
    (\<lambda>_ w. core_is (p, r) w \<or> core_is (ClusterDeleted, r) w)"
  unfolding li_ApplyDelete_def by (intro valid_keep valid_ends_deleted) (auto intro!: inv_rules)

interpretation linode: cloud_provider "li_manager E D" ClusterDeleted for E D
  by (unfold_locales; (unfold li_manager_fields)?; (rule keep_li_manager li_ApplyDelete_ends)?) simp

end
