(* ===== verification/Packet_Correct.thy ===== *)
theory Packet_Correct
  imports Packet Linode_Correct
begin

text \<open>
  The Packet provider meets the contract of a cloud manager.
\<close>

lemma inv_pk_conn [inv_rules]: "invariant_of I m \<Longrightarrow> invariant_of I (pk_conn P m)"
  unfolding pk_conn_def by (intro inv_rules)

lemma pk_manager_fields:
  "cm_SetCloudConnector (pk_manager E P) = pk_SetCloudConnector E P"
  "cm_CreateCredentials (pk_manager E P) = pk_CreateCredentials E P"
  "cm_ApplyDelete (pk_manager E P) = pk_ApplyDelete E P"
  "cm_ApplyScale (pk_manager E P) = pk_ApplyScale"
  "cm_SetDefaultCluster (pk_manager E P) = pk_SetDefaultCluster P"
  "cm_GetDefaultMachineProviderSpec (pk_manager E P) = pk_GetDefaultMachineProviderSpec P"
  "cm_PrepareCloud (pk_manager E P) = pk_PrepareCloud P"
  "cm_EnsureMaster (pk_manager E P) = pk_EnsureMaster E P"
  "cm_GetClusterAPIComponents (pk_manager E P) = pk_GetClusterAPIComponents P"
  "cm_GetAdminClient (pk_manager E P) = GetAdminClient E"
  by (simp_all add: pk_manager_def)

lemma inv_pk_render:
  "keeps_args I \<Longrightarrow> invariant_of I (pk_RenderStartupScript E P m token)"
  unfolding pk_RenderStartupScript_def pk_hooks_def
  by (rule inv_RenderStartupScript)
    (simp_all add: pk_NewNodeTemplateData_def pk_NewMasterTemplateData_def, (intro inv_rules inv_set_arg | assumption)+)

context world_inv
begin

lemma keep_pk_connector [inv_rules]:
  "invariant_of I (pk_waitForInstance E P i status)"
  "invariant_of I (pk_getPublicKey P)"
  "invariant_of I (pk_DeleteInstanceByProviderID P pid)"
  "invariant_of I (pk_instanceIfExists P m)"
  unfolding pk_waitForInstance_def pk_getPublicKey_def pk_DeleteInstanceByProviderID_def pk_instanceIfExists_def Let_def
  by (intro inv_rules)+

lemma keep_pk_parts [inv_rules]:
  "invariant_of I (pk_importPublicKey P)"
  "invariant_of I (pk_CreateInstance E P m script)"
  unfolding pk_importPublicKey_def pk_CreateInstance_def by (intro inv_rules)+

end

context world_cluster
begin

lemmas keep_pk_render [inv_rules] = inv_pk_render [OF keeps_args_cluster]

lemma pk_manager_keeps: "manager_keeps I (pk_manager E P)"
proof -
  have "invariant_of I (pk_ApplyDelete E P)" "invariant_of I (pk_SetCloudConnector E P)" "invariant_of I (pk_CreateCredentials E P)"
    "invariant_of I (pk_SetDefaultCluster P)" "invariant_of I (pk_GetDefaultMachineProviderSpec P sku role)"
    "invariant_of I (pk_PrepareCloud P)" "invariant_of I (pk_EnsureMaster E P m)" "invariant_of I (pk_GetClusterAPIComponents P)"
    "invariant_of I pk_ApplyScale" "invariant_of I (GetAdminClient E)" for sku role m
    unfolding pk_ApplyDelete_def pk_SetCloudConnector_def pk_newconnector_def pk_CreateCredentials_def pk_SetDefaultCluster_def
      SetPacketClusterProviderConfig_def pk_GetDefaultMachineProviderSpec_def pk_PrepareCloud_def pk_EnsureMaster_def
      pk_GetClusterAPIComponents_def pk_ApplyScale_def Let_def
    by (intro inv_rules)+
  then show ?thesis by (simp add: manager_keeps_def pk_manager_fields)
qed

end

lemma core_pk_updates [inv_rules]:
  "invariant_of (core_is k) (upd_cluster pk_defaults)"
  "invariant_of (core_is k) (upd_cluster (set_Project p))"
  "invariant_of (core_is k) (upd_cluster (set_SSHKeyExternalID key))"
  by (rule inv_upd_cluster; simp add: core_of_def pk_defaults_def set_Project_def set_SSHKeyExternalID_def cluster_upd)+

lemmas core_pk_render [inv_rules] = inv_pk_render [OF keeps_args_core]

lemma keep_pk_manager:
  "invariant_of (core_is k) (pk_SetCloudConnector E P)"
  "invariant_of (core_is k) (pk_CreateCredentials E P)"
  "invariant_of (core_is k) (pk_SetDefaultCluster P)"
  "invariant_of (core_is k) (pk_GetDefaultMachineProviderSpec P sku role)"
  "invariant_of (core_is k) (pk_PrepareCloud P)"
  "invariant_of (core_is k) (pk_EnsureMaster E P m)"
  "invariant_of (core_is k) (pk_GetClusterAPIComponents P)"
  "invariant_of (core_is k) pk_ApplyScale"
  "invariant_of (core_is k) (GetAdminClient E)"
  unfolding pk_SetCloudConnector_def pk_newconnector_def pk_CreateCredentials_def pk_SetDefaultCluster_def
    SetPacketClusterProviderConfig_def pk_GetDefaultMachineProviderSpec_def pk_PrepareCloud_def pk_EnsureMaster_def
    pk_GetClusterAPIComponents_def pk_ApplyScale_def Let_def
  by (intro inv_rules)+

lemma pk_ApplyDelete_ends:
  "valid (core_is (p, r)) (pk_ApplyDelete E P) (\<lambda>_. core_is (ClusterDeleted, r))
    (\<lambda>_ w. core_is (p, r) w \<or> core_is (ClusterDeleted, r) w)"
  unfolding pk_ApplyDelete_def by (intro valid_keep valid_ends_deleted) (auto intro!: inv_rules)

interpretation packet: cloud_provider "pk_manager E P" ClusterDeleted for E P
  by (unfold_locales; (unfold pk_manager_fields)?; (rule keep_pk_manager pk_ApplyDelete_ends)?) simp

end
