(* ===== verification/Dokube_Correct.thy ===== *)
theory Dokube_Correct
  imports Dokube Packet_Correct
begin

text \<open>
  The provider of managed DigitalOcean clusters meets the contract of a cloud manager.
\<close>

lemma inv_dk_conn [inv_rules]: "invariant_of I m \<Longrightarrow> invariant_of I (dk_conn D m)"
  unfolding dk_conn_def by (intro inv_rules)

lemma dk_manager_fields:
  "cm_SetCloudConnector (dk_manager E D) = dk_SetCloudConnector E D"
  "cm_CreateCredentials (dk_manager E D) = dk_CreateCredentials"
  "cm_ApplyDelete (dk_manager E D) = dk_ApplyDelete E D"
  "cm_ApplyScale (dk_manager E D) = dk_ApplyScale E D"
  "cm_SetDefaultCluster (dk_manager E D) = dk_SetDefaultCluster D"
  "cm_GetDefaultMachineProviderSpec (dk_manager E D) = dk_GetDefaultMachineProviderSpec D"
  "cm_PrepareCloud (dk_manager E D) = dk_PrepareCloud E D"
  "cm_EnsureMaster (dk_manager E D) = dk_EnsureMaster"
  "cm_GetClusterAPIComponents (dk_manager E D) = dk_GetClusterAPIComponents"
  "cm_GetAdminClient (dk_manager E D) = NewDokubeAdminClient E"
  by (simp_all add: dk_manager_def)

context world_inv
begin

lemma keep_managed [inv_rules]:
  "invariant_of I (drop_ca E cl)" "invariant_of I (GetAdminCertificate E cl)" "invariant_of I GetCaCertPair"
  unfolding drop_ca_def GetAdminCertificate_def GetCaCertPair_def by (intro inv_rules)+

lemma keep_dk_pools [inv_rules]:
  "invariant_of I dk_ClusterID"
  "invariant_of I (getNodePoolIDFromName D n)"
  "invariant_of I (dk_waitForClusterCreation E D i)"
  "invariant_of I (dk_getCluster D i)"
  unfolding dk_ClusterID_def getNodePoolIDFromName_def dk_waitForClusterCreation_def dk_getCluster_def by (intro inv_rules)+

lemma keep_dk_ng_Apply [inv_rules]: "invariant_of I (dk_ng_Apply E D ng)"
  unfolding dk_ng_Apply_def dk_getNodePool_def dk_addNodePool_def dk_deleteNodePool_def dk_adjustNodePool_def
  by (intro inv_rules keep_dk_pools)

lemma keep_dk_StoreCertificate [inv_rules]: "invariant_of I (dk_StoreCertificate E D)"
  unfolding dk_StoreCertificate_def by (intro inv_rules keep_managed keep_dk_pools)

lemma keep_dk_client [inv_rules]:
  "invariant_of I (NewDokubeAdminClient E)" "invariant_of I (dk_IsUnauthorized D now)"
  unfolding NewDokubeAdminClient_def dk_IsUnauthorized_def Let_def by (intro inv_rules keep_managed)+

end

context world_cluster
begin

lemma dk_manager_keeps: "manager_keeps I (dk_manager E D)"
proof -
  have "invariant_of I (dk_ApplyDelete E D)" "invariant_of I (dk_SetCloudConnector E D)" "invariant_of I dk_CreateCredentials"
    "invariant_of I (dk_SetDefaultCluster D)" "invariant_of I (dk_GetDefaultMachineProviderSpec D sku role)"
    "invariant_of I (dk_PrepareCloud E D)" "invariant_of I (dk_EnsureMaster m)" "invariant_of I dk_GetClusterAPIComponents"
    "invariant_of I (dk_ApplyScale E D)" "invariant_of I (NewDokubeAdminClient E)" for sku role m
    unfolding dk_ApplyDelete_def dk_SetCloudConnector_def dk_newconnector_def dk_CreateCredentials_def dk_SetDefaultCluster_def
      SetLDokubeClusterProviderConfig_def dk_GetDefaultMachineProviderSpec_def dk_PrepareCloud_def dk_createCluster_def
      dk_retrieveClusterStatus_def dk_EnsureMaster_def dk_GetClusterAPIComponents_def dk_ApplyScale_def Let_def
    by (intro inv_rules keep_dk_pools keep_dk_client keep_managed)+
  then show ?thesis by (simp add: manager_keeps_def dk_manager_fields)
qed

end

lemma core_managed_updates [inv_rules]:
  "invariant_of (core_is k) (upd_cluster (append_endpoint host))"
  "invariant_of (core_is k) (upd_cluster (set_Reason r))"
  by (rule inv_upd_cluster; simp add: core_of_def append_endpoint_def set_Reason_def cluster_upd)+

lemma core_dk_updates [inv_rules]:
  "invariant_of (core_is k) (upd_cluster dk_defaults)"
  "invariant_of (core_is k) (upd_cluster (set_ClusterID i))"
  by (rule inv_upd_cluster; simp add: core_of_def dk_defaults_def set_ClusterID_def cluster_upd)+

lemma keep_dk_manager:
  "invariant_of (core_is k) (dk_SetCloudConnector E D)"
  "invariant_of (core_is k) dk_CreateCredentials"
  "invariant_of (core_is k) (dk_SetDefaultCluster D)"
  "invariant_of (core_is k) (dk_GetDefaultMachineProviderSpec D sku role)"
  "invariant_of (core_is k) (dk_PrepareCloud E D)"
  "invariant_of (core_is k) (dk_EnsureMaster m)"
  "invariant_of (core_is k) dk_GetClusterAPIComponents"
  "invariant_of (core_is k) (dk_ApplyScale E D)"
  "invariant_of (core_is k) (NewDokubeAdminClient E)"
  unfolding dk_SetCloudConnector_def dk_newconnector_def dk_CreateCredentials_def dk_SetDefaultCluster_def
    SetLDokubeClusterProviderConfig_def dk_GetDefaultMachineProviderSpec_def dk_PrepareCloud_def dk_createCluster_def
    dk_retrieveClusterStatus_def dk_EnsureMaster_def dk_GetClusterAPIComponents_def dk_ApplyScale_def Let_def
  by (intro inv_rules)+

lemma dk_ApplyDelete_ends:
  "valid (core_is (ClusterDeleting, r)) (dk_ApplyDelete E D) (\<lambda>_. core_is (ClusterDeleted, r))
    (\<lambda>_ w. core_is (ClusterDeleting, r) w \<or> core_is (ClusterDeleted, r) w)"
  unfolding dk_ApplyDelete_def
  by (intro valid_keep valid_ends_deleted inv_rules inv_upd_cluster) (auto simp: core_of_def)

interpretation dokube: cloud_provider "dk_manager E D" ClusterDeleted for E D
  by (unfold_locales; (unfold dk_manager_fields)?; (rule keep_dk_manager dk_ApplyDelete_ends)?) simp

end
