(* ===== verification/Registry.thy ===== *)
theory Registry
  imports Dokube_Correct
begin

text \<open>
  The registry of cloud managers, \<^verbatim>\<open>plugins.go\<close>, with the providers that end a deletion in the phase
  Deleted: the facts on the orchestration hold whichever of them a cluster names.
\<close>

text \<open>What the providers take from elsewhere.\<close>

record 'x provider_envs =
  r_do :: "'x do_env"
  r_li :: "'x li_env"
  r_pk :: "'x packet_env"
  r_dk :: "'x dokube_env"

definition registry :: "('s, 'x) env \<Rightarrow> 'x provider_envs \<Rightarrow> ('s, 'x) env" where
  "registry E R = E\<lparr>e_providers := [do_UID \<mapsto> do_manager E (r_do R), li_UID \<mapsto> li_manager E (r_li R),
     pk_UID \<mapsto> pk_manager E (r_pk R), dk_UID \<mapsto> dk_manager E (r_dk R)]\<rparr>"

lemma registry_providers:
  "e_providers (registry E R) p = Some cm \<Longrightarrow>
    cm = do_manager E (r_do R) \<or> cm = li_manager E (r_li R) \<or> cm = pk_manager E (r_pk R) \<or>
    cm = dk_manager E (r_dk R)"
  by (simp add: registry_def split: if_splits)

lemma registry_fields [simp]: "e_store (registry E R) = e_store E" "e_sys (registry E R) = e_sys E"
  by (simp_all add: registry_def)

context world_cluster
begin

lemma registry_keeps: "e_providers (registry E R) p = Some cm \<Longrightarrow> manager_keeps I cm"
  using registry_providers do_manager_keeps li_manager_keeps pk_manager_keeps dk_manager_keeps by metis

lemma registry_world: "world_upd (registry E R) I"
  by unfold_locales (simp_all add: ext certs manager admin cluster_Get cluster_Create cluster_Update cluster_UpdateStatus
      cluster_UpdateUUID machine_List machine_Get machine_Create machine_Update machineset_List machineset_Create
      machineset_Update machineset_Delete machine_Delete machineset_UpdateStatus credential_Get ssh_Get ssh_Create cert_Get cert_Create
      cert_Delete cluster registry_keeps)

end

interpretation with_registry: orchestration "registry E R" ClusterDeleted for E R
proof (rule orchestration.intro)
  show "ClusterDeleted = ClusterDeleting \<or> ClusterDeleted = ClusterDeleted" by simp
next
  fix p cm
  assume "e_providers (registry E R) p = Some cm"
  then show "cloud_provider cm ClusterDeleted"
    using registry_providers digitalocean.cloud_provider_axioms linode.cloud_provider_axioms packet.cloud_provider_axioms
      dokube.cloud_provider_axioms
    by metis
qed

end
