(* ===== verification/Store_Spec.thy ===== *)
theory Store_Spec
  imports Api_Cluster
begin

text \<open>
  The contract of an object store (\<^verbatim>\<open>store/api.go\<close>): what the orchestration may rely on,
  whichever provider is behind the interface.

  A store holds a finite map from names to objects, its \<open>view\<close>.  \<^verbatim>\<open>Create\<close> refuses a name that
  is taken, with an error \<^verbatim>\<open>ErrAlreadyExist\<close> recognises; \<^verbatim>\<open>Update\<close> and \<^verbatim>\<open>Delete\<close> refuse one that is
  not; what is read is what was written, as far as the encoding keeps it (\<open>stored\<close>).  The laws
  hold in good states and for legal names, which each provider defines.  A refused call leaves
  the view as it was.  The locale \<open>object_base\<close> says nothing on \<^verbatim>\<open>Update\<close> of a missing object,
  \<open>object_rw\<close> adds that it is refused, and \<open>object_store\<close> adds \<^verbatim>\<open>Delete\<close>.  In it, a sequence
  of calls behaves like the same sequence on a map.
\<close>

section \<open>Calls and their specification\<close>

datatype 'a store_op = OpGet string | OpCreate 'a | OpUpdate 'a | OpDelete string

datatype 'a reply = Got 'a | Done | Refused

definition obj_reply :: "'a res \<Rightarrow> 'a reply" where
  "obj_reply r = (case r of Inl _ \<Rightarrow> Refused | Inr x \<Rightarrow> Got x)"

definition unit_reply :: "unit res \<Rightarrow> 'a reply" where
  "unit_reply r = (case r of Inl _ \<Rightarrow> Refused | Inr _ \<Rightarrow> Done)"

text \<open>One call on a provider.\<close>

fun run_op ::
  "(string \<Rightarrow> ('s, 'a) prog) \<Rightarrow> ('a \<Rightarrow> ('s, 'a) prog) \<Rightarrow> ('a \<Rightarrow> ('s, 'a) prog) \<Rightarrow> (string \<Rightarrow> ('s, unit) prog) \<Rightarrow>
    'a store_op \<Rightarrow> 's \<Rightarrow> 'a reply \<times> 's" where
  "run_op get create update delete (OpGet n) s = (case get n s of (r, s') \<Rightarrow> (obj_reply r, s'))"
| "run_op get create update delete (OpCreate x) s = (case create x s of (r, s') \<Rightarrow> (obj_reply r, s'))"
| "run_op get create update delete (OpUpdate x) s = (case update x s of (r, s') \<Rightarrow> (obj_reply r, s'))"
| "run_op get create update delete (OpDelete n) s = (case delete n s of (r, s') \<Rightarrow> (unit_reply r, s'))"

text \<open>The same call on a map.\<close>

fun spec_op ::
  "('a \<Rightarrow> string) \<Rightarrow> ('a \<Rightarrow> 'a) \<Rightarrow> ('a \<Rightarrow> 'a) \<Rightarrow> 'a store_op \<Rightarrow> (string \<rightharpoonup> 'a) \<Rightarrow> 'a reply \<times> (string \<rightharpoonup> 'a)" where
  "spec_op nm stamp kept (OpGet n) m = (case m n of None \<Rightarrow> (Refused, m) | Some x \<Rightarrow> (Got x, m))"
| "spec_op nm stamp kept (OpCreate x) m =
     (case m (nm x) of Some _ \<Rightarrow> (Refused, m) | None \<Rightarrow> (Got (stamp x), m(nm x \<mapsto> kept x)))"
| "spec_op nm stamp kept (OpUpdate x) m =
     (case m (nm x) of None \<Rightarrow> (Refused, m) | Some _ \<Rightarrow> (Got (stamp x), m(nm x \<mapsto> kept x)))"
| "spec_op nm stamp kept (OpDelete n) m = (case m n of None \<Rightarrow> (Refused, m) | Some _ \<Rightarrow> (Done, m(n := None)))"

text \<open>A sequence of calls: the replies and the state after it.\<close>

fun run_seq :: "('o \<Rightarrow> 's \<Rightarrow> 'r \<times> 's) \<Rightarrow> 'o list \<Rightarrow> 's \<Rightarrow> 'r list \<times> 's" where
  "run_seq step [] s = ([], s)"
| "run_seq step (x # xs) s =
     (case step x s of (r, s') \<Rightarrow> (case run_seq step xs s' of (rs, s'') \<Rightarrow> (r # rs, s'')))"

fun op_ok :: "('a \<Rightarrow> string) \<Rightarrow> (string \<Rightarrow> bool) \<Rightarrow> ('a \<Rightarrow> 'a option) \<Rightarrow> 'a store_op \<Rightarrow> bool" where
  "op_ok nm legal stored (OpGet n) = legal n"
| "op_ok nm legal stored (OpCreate x) = (legal (nm x) \<and> stored x \<noteq> None)"
| "op_ok nm legal stored (OpUpdate x) = (legal (nm x) \<and> stored x \<noteq> None)"
| "op_ok nm legal stored (OpDelete n) = legal n"

section \<open>The contract\<close>

locale object_base =
  fixes get :: "string \<Rightarrow> ('s, 'a) prog"
    and create :: "'a \<Rightarrow> ('s, 'a) prog"
    and update :: "'a \<Rightarrow> ('s, 'a) prog"
    and nm :: "'a \<Rightarrow> string"
    and stamp :: "'a \<Rightarrow> 'a"
    and stored :: "'a \<Rightarrow> 'a option"
    and good :: "'s \<Rightarrow> bool"
    and legal :: "string \<Rightarrow> bool"
    and view :: "'s \<Rightarrow> string \<rightharpoonup> 'a"
  assumes get_found: "good s \<Longrightarrow> legal n \<Longrightarrow> view s n = Some x \<Longrightarrow> get n s = (Inr x, s)"
    and get_missing: "good s \<Longrightarrow> legal n \<Longrightarrow> view s n = None \<Longrightarrow> \<exists>e. get n s = (Inl (Err e), s)"
    and create_new: "good s \<Longrightarrow> legal (nm x) \<Longrightarrow> view s (nm x) = None \<Longrightarrow> stored x = Some y \<Longrightarrow>
      \<exists>s'. create x s = (Inr (stamp x), s') \<and> good s' \<and> view s' = (view s)(nm x \<mapsto> y)"
    and create_taken: "good s \<Longrightarrow> legal (nm x) \<Longrightarrow> view s (nm x) = Some z \<Longrightarrow>
      \<exists>e s'. create x s = (Inl (Err e), s') \<and> ErrAlreadyExist (Err e) \<and> good s' \<and> view s' = view s"
    and update_existing: "good s \<Longrightarrow> legal (nm x) \<Longrightarrow> view s (nm x) = Some z \<Longrightarrow> stored x = Some y \<Longrightarrow>
      \<exists>s'. update x s = (Inr (stamp x), s') \<and> good s' \<and> view s' = (view s)(nm x \<mapsto> y)"
begin

lemma create_then_get:
  assumes "good s" "legal (nm x)" "view s (nm x) = None" "stored x = Some y"
  shows "\<exists>s'. create x s = (Inr (stamp x), s') \<and> good s' \<and> get (nm x) s' = (Inr y, s')"
proof -
  obtain s' where s': "create x s = (Inr (stamp x), s')" "good s'" "view s' = (view s)(nm x \<mapsto> y)"
    using create_new assms by blast
  then have "get (nm x) s' = (Inr y, s')" using assms(2) by (intro get_found) simp_all
  with s' show ?thesis by blast
qed

lemma create_keeps_others:
  assumes "good s" "legal (nm x)" "view s (nm x) = None" "stored x = Some y"
    and "legal n" "n \<noteq> nm x" "view s n = Some z"
  shows "\<exists>s'. create x s = (Inr (stamp x), s') \<and> get n s' = (Inr z, s')"
proof -
  obtain s' where s': "create x s = (Inr (stamp x), s')" "good s'" "view s' = (view s)(nm x \<mapsto> y)"
    using create_new assms(1-4) by blast
  then have "get n s' = (Inr z, s')" using assms(5-7) by (intro get_found) simp_all
  with s' show ?thesis by blast
qed

lemma create_twice:
  assumes "good s" "legal (nm x)" "view s (nm x) = None" "stored x = Some y" "nm x' = nm x"
  shows "\<exists>s' s'' e. create x s = (Inr (stamp x), s') \<and> create x' s' = (Inl (Err e), s'') \<and> ErrAlreadyExist (Err e) \<and> view s'' = view s'"
proof -
  obtain s' where s': "create x s = (Inr (stamp x), s')" "good s'" "view s' = (view s)(nm x \<mapsto> y)"
    using create_new assms(1-4) by blast
  then have "\<exists>e s''. create x' s' = (Inl (Err e), s'') \<and> ErrAlreadyExist (Err e) \<and> good s'' \<and> view s'' = view s'"
    using assms(2,5) by (intro create_taken) simp_all
  with s' show ?thesis by blast
qed

lemma update_then_get:
  assumes "good s" "legal (nm x)" "view s (nm x) = Some z" "stored x = Some y"
  shows "\<exists>s'. update x s = (Inr (stamp x), s') \<and> good s' \<and> get (nm x) s' = (Inr y, s')"
proof -
  obtain s' where s': "update x s = (Inr (stamp x), s')" "good s'" "view s' = (view s)(nm x \<mapsto> y)"
    using update_existing assms by blast
  then have "get (nm x) s' = (Inr y, s')" using assms(2) by (intro get_found) simp_all
  with s' show ?thesis by blast
qed

end

locale object_rw = object_base get create update nm stamp stored good legal view
  for get :: "string \<Rightarrow> ('s, 'a) prog" and create update nm stamp stored good legal view +
  assumes update_missing: "good s \<Longrightarrow> legal (nm x) \<Longrightarrow> view s (nm x) = None \<Longrightarrow>
      \<exists>e s'. update x s = (Inl (Err e), s') \<and> good s' \<and> view s' = view s"

locale object_store = object_rw get create update nm stamp stored good legal view
  for get :: "string \<Rightarrow> ('s, 'a) prog" and create update nm stamp stored good legal view +
  fixes delete :: "string \<Rightarrow> ('s, unit) prog"
  assumes delete_existing: "good s \<Longrightarrow> legal n \<Longrightarrow> view s n = Some x \<Longrightarrow>
      \<exists>s'. delete n s = (Inr (), s') \<and> good s' \<and> view s' = (view s)(n := None)"
    and delete_missing: "good s \<Longrightarrow> legal n \<Longrightarrow> view s n = None \<Longrightarrow> \<exists>e. delete n s = (Inl (Err e), s)"
begin

text \<open>One call refines the call on the view.\<close>

lemma run_op_refines:
  assumes "good s" "op_ok nm legal stored a"
  shows "\<exists>s'. run_op get create update delete a s = (fst (spec_op nm stamp (\<lambda>x. the (stored x)) a (view s)), s')
      \<and> good s' \<and> view s' = snd (spec_op nm stamp (\<lambda>x. the (stored x)) a (view s))"
proof (cases a)
  case (OpGet n)
  with assms show ?thesis
    using get_found [of s n] get_missing [of s n] by (cases "view s n") (auto simp: obj_reply_def)
next
  case (OpCreate x)
  then have x: "legal (nm x)" "stored x = Some (the (stored x))" using assms by simp_all
  show ?thesis
  proof (cases "view s (nm x)")
    case None
    from create_new [OF assms(1) x(1) None x(2)] show ?thesis
      using None OpCreate by (auto simp: obj_reply_def)
  next
    case (Some z)
    from create_taken [OF assms(1) x(1) Some] show ?thesis
      using Some OpCreate assms(1) by (auto simp: obj_reply_def)
  qed
next
  case (OpUpdate x)
  then have x: "legal (nm x)" "stored x = Some (the (stored x))" using assms by simp_all
  show ?thesis
  proof (cases "view s (nm x)")
    case None
    from update_missing [OF assms(1) x(1) None] show ?thesis
      using None OpUpdate assms(1) by (auto simp: obj_reply_def)
  next
    case (Some z)
    from update_existing [OF assms(1) x(1) Some x(2)] show ?thesis
      using Some OpUpdate by (auto simp: obj_reply_def)
  qed
next
  case (OpDelete n)
  with assms show ?thesis
    using delete_existing [of s n] delete_missing [of s n] by (cases "view s n") (auto simp: unit_reply_def)
qed

text \<open>And so does every sequence of calls.\<close>

lemma run_seq_refines:
  assumes "good s" "list_all (op_ok nm legal stored) ops"
  shows "\<exists>s'. run_seq (run_op get create update delete) ops s =
        (fst (run_seq (spec_op nm stamp (\<lambda>x. the (stored x))) ops (view s)), s')
      \<and> good s' \<and> view s' = snd (run_seq (spec_op nm stamp (\<lambda>x. the (stored x))) ops (view s))"
  using assms
proof (induction ops arbitrary: s)
  case Nil
  then show ?case by simp
next
  case (Cons a ops)
  let ?spec = "spec_op nm stamp (\<lambda>x. the (stored x))"
  obtain s1 where s1: "run_op get create update delete a s = (fst (?spec a (view s)), s1)" "good s1"
    "view s1 = snd (?spec a (view s))"
    using run_op_refines [of s a] Cons.prems by auto
  with Cons.IH [of s1] Cons.prems obtain s2 where
    "run_seq (run_op get create update delete) ops s1 = (fst (run_seq ?spec ops (view s1)), s2)" "good s2"
    "view s2 = snd (run_seq ?spec ops (view s1))"
    by auto
  with s1 show ?case by (auto split: prod.splits)
qed

end

end
