(* ===== verification/Store_Vfs_Correct.thy ===== *)
theory Store_Vfs_Correct
  imports Store_Vfs Store_Spec
begin

text \<open>
  The file store meets the contract of an object store: cluster, credential and machine set
  stores interpret \<open>object_store\<close>; the machine store interprets the part without \<^verbatim>\<open>Delete\<close>, which
  removes a path relative to the working directory.  Then the paginated \<^verbatim>\<open>List\<close> loop, SSH keys
  and certificates.
\<close>

section \<open>JSON files in a home directory\<close>

definition legal_name :: "string \<Rightarrow> bool" where
  "legal_name n \<longleftrightarrow> n \<noteq> '''' \<and> CHR ''/'' \<notin> set n"

definition json_path :: "string list \<Rightarrow> string \<Rightarrow> string" where
  "json_path segs n = abs_path (segs @ [n @ ''.json''])"

text \<open>The objects a reader finds in the directory.\<close>

definition json_view :: "'a codec \<Rightarrow> string list \<Rightarrow> os \<Rightarrow> string \<rightharpoonup> 'a" where
  "json_view J segs st n = (case map_of (fs st) (json_path segs n) of
      Some (File d) \<Rightarrow> (case unmarshal J d of Inl _ \<Rightarrow> None | Inr x \<Rightarrow> Some x)
    | _ \<Rightarrow> None)"

text \<open>
  A good state: the home directory is not below a file, and what stands under the name of an
  object is a file that decodes.
\<close>

definition json_good :: "'a codec \<Rightarrow> string list \<Rightarrow> os \<Rightarrow> bool" where
  "json_good J segs st \<longleftrightarrow> segs \<noteq> [] \<and> plain_segs segs \<and> dirs_ok st segs \<and>
     (\<forall>n. legal_name n \<longrightarrow> (case map_of (fs st) (json_path segs n) of
        None \<Rightarrow> True | Some Dir \<Rightarrow> False | Some (File d) \<Rightarrow> is_ok (unmarshal J d)))"

definition item_at :: "string \<Rightarrow> string \<Rightarrow> string list \<Rightarrow> string \<Rightarrow> bool" where
  "item_at c i segs f \<longleftrightarrow> filepath_Join [c, i] = abs_path (segs @ [f]) \<and> \<not> filepath_IsAbs i"

lemma json_path_inj [simp]: "json_path segs m = json_path segs n \<longleftrightarrow> m = n"
proof
  assume "json_path segs m = json_path segs n"
  then show "m = n" by (cases "segs = []") (simp_all add: json_path_def abs_path_def join_append)
qed simp

lemma abs_path_append: "segs \<noteq> [] \<Longrightarrow> s \<noteq> [] \<Longrightarrow> abs_path (segs @ s) = abs_path segs @ CHR ''/'' # join ''/'' s"
  by (simp add: abs_path_def join_append)

lemma length_ancestor:
  assumes "segs \<noteq> []" "plain_segs segs" "p \<in> set (ancestors (abs_path segs))"
  shows "length p \<le> length (abs_path segs)"
proof -
  obtain k where k: "0 < k" "k \<le> length segs" "p = abs_path (take k segs)"
    using in_ancestors_shorter [OF assms] .
  show ?thesis
  proof (cases "k = length segs")
    case False
    then have "abs_path (take k segs @ drop k segs) = abs_path (take k segs) @ CHR ''/'' # join ''/'' (drop k segs)"
      using k assms(1) by (intro abs_path_append) simp_all
    then show ?thesis using k(3) by simp
  qed (simp add: k)
qed

lemma json_path_not_ancestor:
  assumes "segs \<noteq> []" "plain_segs segs"
  shows "json_path segs n \<notin> set (ancestors (abs_path segs))"
proof
  assume "json_path segs n \<in> set (ancestors (abs_path segs))"
  then have "length (json_path segs n) \<le> length (abs_path segs)" by (rule length_ancestor [OF assms])
  then show False using assms(1) by (simp add: json_path_def abs_path_append)
qed

lemma plain_seg_name: "legal_name n \<Longrightarrow> plain_seg (n @ ''.json'')"
  by (simp add: legal_name_def plain_seg_json)

lemma json_good_entry:
  assumes "json_good J segs st" "legal_name n"
  shows "json_view J segs st n = None \<longleftrightarrow> map_of (fs st) (json_path segs n) = None"
    and "json_view J segs st n = Some x \<longleftrightarrow> (\<exists>d. map_of (fs st) (json_path segs n) = Some (File d) \<and> unmarshal J d = Inr x)"
  using assms by (auto simp: json_good_def json_view_def is_ok_def split: option.splits node.splits sum.splits)

lemma run_Item:
  assumes good: "json_good J segs st" and n: "legal_name n" and i: "item_at c i segs (n @ ''.json'')"
  shows "stow_Item c i st = (case json_view J segs st n of
      None \<Rightarrow> Inl (Err ''not found'') | Some _ \<Rightarrow> Inr (json_path segs n))"
proof -
  have "stow_Item c i st = (case map_of (fs st) (json_path segs n) of
      None \<Rightarrow> Inl (Err ''not found'') | Some Dir \<Rightarrow> Inl (Err ''unexpected directory'')
    | Some (File _) \<Rightarrow> Inr (json_path segs n))"
    using assms plain_seg_name [OF n] unfolding json_path_def
    by (intro Item_child) (auto simp: json_good_def item_at_def)
  moreover have "\<exists>d. map_of (fs st) (json_path segs n) = Some (File d)" if "json_view J segs st n = Some x" for x
    using json_good_entry(2) [OF good n] that by blast
  ultimately show ?thesis
    using json_good_entry(1) [OF good n] by (cases "json_view J segs st n") auto
qed

lemma run_read:
  assumes good: "json_good J segs st" and n: "legal_name n" and "json_view J segs st n = Some x"
  shows "read_object J (json_path segs n) st = (Inr x, st)"
proof -
  obtain d where d: "map_of (fs st) (json_path segs n) = Some (File d)" "unmarshal J d = Inr x"
    using json_good_entry(2) [OF good n] assms(3) by blast
  then have "os_ReadFile (json_path segs n) st = Inr d"
    unfolding json_path_def using good plain_seg_name [OF n]
    by (intro ReadFile_child) (auto simp: json_good_def)
  with d(2) show ?thesis by (simp add: read_object_def prog_run)
qed

lemma json_good_update:
  assumes good: "json_good J segs st" and fs': "map_of (fs st') = (\<lambda>p. if p = json_path segs n then e
      else if p \<in> set (ancestors (abs_path segs)) then g p else map_of (fs st) p)"
    and e: "case e of None \<Rightarrow> True | Some Dir \<Rightarrow> False | Some (File d) \<Rightarrow> is_ok (unmarshal J d)"
    and g: "\<And>p. p \<in> set (ancestors (abs_path segs)) \<Longrightarrow> g p = Some Dir \<or> g p = map_of (fs st) p"
  shows "json_good J segs st'"
    and "json_view J segs st' = (json_view J segs st)(n := (case e of
        Some (File d) \<Rightarrow> (case unmarshal J d of Inl _ \<Rightarrow> None | Inr x \<Rightarrow> Some x) | _ \<Rightarrow> None))"
proof -
  have segs: "segs \<noteq> []" "plain_segs segs" using good by (auto simp: json_good_def)
  note na = json_path_not_ancestor [OF segs]
  have lookup: "map_of (fs st') (json_path segs m) = (if m = n then e else map_of (fs st) (json_path segs m))" for m
    using na [of m] by (auto simp: fs')
  show "json_view J segs st' = (json_view J segs st)(n := (case e of
        Some (File d) \<Rightarrow> (case unmarshal J d of Inl _ \<Rightarrow> None | Inr x \<Rightarrow> Some x) | _ \<Rightarrow> None))"
    by (simp add: json_view_def fun_eq_iff lookup)
  have "\<not> is_file (fs st') p" if p: "p \<in> set (ancestors (abs_path segs))" for p
  proof -
    have "p \<noteq> json_path segs n" using na p by auto
    then have "map_of (fs st') p = Some Dir \<or> map_of (fs st') p = map_of (fs st) p"
      using g [OF p] p by (auto simp: fs')
    moreover have "\<not> is_file (fs st) p"
      using good p by (auto simp: json_good_def dirs_ok_def list_all_iff)
    ultimately show ?thesis by (auto simp: is_file_def)
  qed
  then show "json_good J segs st'"
    using good e by (auto simp: json_good_def dirs_ok_def list_all_iff lookup)
qed

lemma run_put:
  assumes good: "json_good J segs st" and n: "legal_name n" and i: "item_at c i segs (n @ ''.json'')"
    and x: "reread J x = Inr y"
  shows "\<exists>st'. put_object J c i x st = (Inr (), st') \<and> json_good J segs st' \<and>
    json_view J segs st' = (json_view J segs st)(n \<mapsto> y)"
proof -
  obtain d where d: "marshal J x = Inr d" "unmarshal J d = Inr y"
    using x by (auto simp: reread_def rbind_Inr_iff)
  have nd: "map_of (fs st) (json_path segs n) \<noteq> Some Dir"
    using good n by (auto simp: json_good_def)
  obtain st' where st': "stow_Put c i d st = (Inr (json_path segs n), st')"
    "map_of (fs st') = (\<lambda>p. if p = json_path segs n then Some (File d)
        else if p \<in> set (ancestors (abs_path segs)) then Some Dir else map_of (fs st) p)"
    by (rule Put_child [of segs "n @ ''.json''" st c i d])
      (use good nd i plain_seg_name [OF n] in \<open>auto simp: json_good_def json_path_def item_at_def\<close>)
  have "json_good J segs st'"
    by (rule json_good_update(1) [OF good st'(2)]) (simp_all add: d)
  moreover have "json_view J segs st' = (json_view J segs st)(n \<mapsto> y)"
    by (subst json_good_update(2) [OF good st'(2)]) (simp_all add: d)
  ultimately show ?thesis using st'(1) d(1) by (auto simp: put_object_def prog_run)
qed

lemma run_remove:
  assumes good: "json_good J segs st" and n: "legal_name n" and x: "json_view J segs st n = Some x"
  shows "\<exists>st'. stow_RemoveItem (json_path segs n) st = (Inr (), st') \<and> json_good J segs st' \<and>
    json_view J segs st' = (json_view J segs st)(n := None)"
proof -
  obtain d where d: "map_of (fs st) (json_path segs n) = Some (File d)"
    using json_good_entry(2) [OF good n] x by blast
  let ?st = "st\<lparr>fs := AList.delete (json_path segs n) (fs st)\<rparr>"
  have run: "stow_RemoveItem (json_path segs n) st = (Inr (), ?st)"
    using d good plain_seg_name [OF n] unfolding json_path_def
    by (intro Remove_child) (auto simp: json_good_def)
  have fs': "map_of (fs ?st) = (\<lambda>p. if p = json_path segs n then None
      else if p \<in> set (ancestors (abs_path segs)) then map_of (fs st) p else map_of (fs st) p)"
    by (simp add: delete_conv' fun_eq_iff)
  have "json_good J segs ?st" by (rule json_good_update(1) [OF good fs']) simp_all
  moreover have "json_view J segs ?st = (json_view J segs st)(n := None)"
    by (subst json_good_update(2) [OF good fs']) simp_all
  ultimately show ?thesis using run by blast
qed

lemma run_remove_missing:
  assumes good: "json_good J segs st" and n: "legal_name n" and x: "json_view J segs st n = None"
  shows "stow_RemoveItem (json_path segs n) st =
    (Inl (Err (''remove '' @ json_path segs n @ '': no such file or directory'')), st)"
proof -
  have "map_of (fs st) (json_path segs n) = None"
    using json_good_entry(1) [OF good n] x by blast
  then have "os_Stat st (json_path segs n) = Stat_NotExist"
    unfolding json_path_def using good plain_seg_name [OF n]
    by (subst Stat_child) (auto simp: json_good_def)
  then show ?thesis by (simp add: stow_RemoveItem_def os_Remove_def)
qed

section \<open>Where the stores keep their files\<close>

definition vfs_store :: "'z FileStore_scheme \<Rightarrow> bool" where
  "vfs_store s \<longleftrightarrow> prefix s = '''' \<and> path_segs (container s) \<noteq> [] \<and> plain_segs (path_segs (container s)) \<and>
     abs_path (path_segs (container s)) = container s"

definition vfs_scope :: "'z clusterScope_scheme \<Rightarrow> bool" where
  "vfs_scope s \<longleftrightarrow> vfs_store s \<and> owner s = '''' \<and> plain_seg (cluster s)"

definition clusters_dir :: "'z FileStore_scheme \<Rightarrow> string list" where
  "clusters_dir s = path_segs (container s) @ [''clusters'']"

definition credentials_dir :: "'z FileStore_scheme \<Rightarrow> string list" where
  "credentials_dir s = path_segs (container s) @ [''credentials'']"

definition scope_dir :: "'z clusterScope_scheme \<Rightarrow> string \<Rightarrow> string list" where
  "scope_dir s kind = path_segs (container s) @ [''clusters'', cluster s, kind]"

lemma plain_consts: "plain_seg ''clusters''" "plain_seg ''credentials''" "plain_seg ''machine''"
  "plain_seg ''machineset''" "plain_seg ''ssh''" "plain_seg ''pki''"
  by (simp_all add: plain_seg_def)

lemma IsAbs_hd: "filepath_IsAbs p \<longleftrightarrow> p \<noteq> '''' \<and> hd p = CHR ''/''"
  by (cases p) (auto simp: filepath_IsAbs_def has_prefix_def)

lemma item_at_join:
  assumes c: "path_segs c \<noteq> []" "plain_segs (path_segs c)" "abs_path (path_segs c) = c"
    and ids: "plain_segs ids" "plain_seg f"
  shows "item_at c (join ''/'' (ids @ [f])) (path_segs c @ ids) f"
proof -
  have plain: "plain_segs (ids @ [f])" using ids by auto
  then have "plain_seg (hd (ids @ [f]))" by (cases ids) auto
  moreover from this have "hd (hd (ids @ [f])) \<noteq> CHR ''/''"
    unfolding plain_seg_def by (metis hd_in_set)
  ultimately have "hd (join ''/'' (ids @ [f])) \<noteq> CHR ''/''" "join ''/'' (ids @ [f]) \<noteq> []"
    using join_hd [of "ids @ [f]" "''/''"] by simp_all
  then have "\<not> filepath_IsAbs (join ''/'' (ids @ [f]))"
    by (simp add: IsAbs_hd)
  moreover have "filepath_Join [c, join ''/'' (ids @ [f])] = abs_path (path_segs c @ ids @ [f])"
    by (rule Join_abs_path [of "path_segs c" "ids @ [f]", unfolded c(3), OF c(1) _ c(2) plain]) simp
  ultimately show ?thesis by (simp add: item_at_def)
qed

lemma Join_id:
  assumes "ids \<noteq> []" "plain_segs ids" "plain_seg f"
  shows "filepath_Join [join ''/'' ids, f] = join ''/'' (ids @ [f])"
proof -
  have ne: "join ''/'' ids \<noteq> ''''" using join_hd [of ids "''/''"] assms by (cases ids) auto
  have "filepath_Join [join ''/'' ids, f] = filepath_Clean (join ''/'' (ids @ [f]))"
    using ne assms(1) by (simp add: filepath_Join_def join_append)
  also have "\<dots> = filepath_Join [join ''/'' (ids @ [f])]"
    using ne assms(1) by (simp add: filepath_Join_def join_append)
  also have "\<dots> = filepath_Join (ids @ [f])"
  proof -
    obtain x xs where x: "ids = x # xs" using assms(1) by (cases ids) auto
    then have "x \<noteq> ''''" using assms(2) by (simp add: plain_seg_def)
    then show ?thesis using ne x by (simp add: filepath_Join_def join_Cons)
  qed
  also have "\<dots> = join ''/'' (ids @ [f])" by (rule filepath_Join_plain) (use assms in auto)
  finally show ?thesis .
qed

lemma resource_at:
  assumes s: "vfs_store s" and ids: "ids \<noteq> []" "plain_segs ids" "plain_seg f"
    and home: "home = filepath_Join ids"
  shows "item_at (container s) (filepath_Join [home, f]) (path_segs (container s) @ ids) f"
proof -
  have home': "home = join ''/'' ids" unfolding home by (rule filepath_Join_plain) (use ids in auto)
  show ?thesis unfolding home' Join_id [OF ids]
    using s ids by (intro item_at_join) (auto simp: vfs_store_def)
qed

lemma clusters_at:
  "vfs_store s \<Longrightarrow> legal_name n \<Longrightarrow>
    item_at (container s) (clusterFileStore_resourceID s n) (clusters_dir s) (n @ ''.json'')"
  unfolding clusters_dir_def clusterFileStore_resourceID_def
  by (rule resource_at) (auto simp: plain_consts plain_seg_name clusterFileStore_resourceHome_def vfs_store_def)

lemma credentials_at:
  "vfs_store s \<Longrightarrow> legal_name n \<Longrightarrow>
    item_at (container s) (credentialFileStore_resourceID s n) (credentials_dir s) (n @ ''.json'')"
  unfolding credentials_dir_def credentialFileStore_resourceID_def
  by (rule resource_at) (auto simp: plain_consts plain_seg_name credentialFileStore_resourceHome_def vfs_store_def)

lemma scope_at:
  assumes "vfs_scope s" "plain_seg kind" "plain_seg f"
    and "home = filepath_Join [''clusters'', cluster s, kind]"
  shows "item_at (container s) (filepath_Join [home, f]) (scope_dir s kind) f"
  unfolding scope_dir_def using assms by (intro resource_at) (auto simp: plain_consts vfs_scope_def)

lemma machines_at:
  "vfs_scope s \<Longrightarrow> legal_name n \<Longrightarrow>
    item_at (container s) (machineFileStore_resourceID s n) (scope_dir s ''machine'') (n @ ''.json'')"
  unfolding machineFileStore_resourceID_def
  by (rule scope_at) (auto simp: plain_consts plain_seg_name machineFileStore_resourceHome_def vfs_scope_def vfs_store_def)

lemma machinesets_at:
  "vfs_scope s \<Longrightarrow> legal_name n \<Longrightarrow>
    item_at (container s) (machineSetFileStore_resourceID s n) (scope_dir s ''machineset'') (n @ ''.json'')"
  unfolding machineSetFileStore_resourceID_def
  by (rule scope_at) (auto simp: plain_consts plain_seg_name machineSetFileStore_resourceHome_def vfs_scope_def vfs_store_def)

section \<open>The contract\<close>

definition stored_as :: "'a codec \<Rightarrow> ('a \<Rightarrow> 'a) \<Rightarrow> 'a \<Rightarrow> 'a option" where
  "stored_as J stamp x = (case reread J (stamp x) of Inl _ \<Rightarrow> None | Inr y \<Rightarrow> Some y)"

lemma stored_as_Some [simp]: "stored_as J stamp x = Some y \<longleftrightarrow> reread J (stamp x) = Inr y"
  by (simp add: stored_as_def split: sum.splits)

definition clusters_good :: "Cluster codec \<Rightarrow> 'z FileStore_scheme \<Rightarrow> os \<Rightarrow> bool" where
  "clusters_good J s st \<longleftrightarrow> vfs_store s \<and> json_good J (clusters_dir s) st"

definition credentials_good :: "Credential codec \<Rightarrow> 'z FileStore_scheme \<Rightarrow> os \<Rightarrow> bool" where
  "credentials_good J s st \<longleftrightarrow> vfs_store s \<and> json_good J (credentials_dir s) st"

definition machines_good :: "Machine codec \<Rightarrow> 'z clusterScope_scheme \<Rightarrow> os \<Rightarrow> bool" where
  "machines_good J s st \<longleftrightarrow> vfs_scope s \<and> json_good J (scope_dir s ''machine'') st"

definition machinesets_good :: "MachineSet codec \<Rightarrow> 'z clusterScope_scheme \<Rightarrow> os \<Rightarrow> bool" where
  "machinesets_good J s st \<longleftrightarrow> vfs_scope s \<and> json_good J (scope_dir s ''machineset'') st"

lemma legal_nonempty: "legal_name n \<Longrightarrow> n \<noteq> ''''"
  by (simp add: legal_name_def)

lemma already_exists:
  "ErrAlreadyExist (Err (a @ ''` already exists''))"
  "ErrAlreadyExist (Err m) \<Longrightarrow> ErrAlreadyExist (Err (c # m))"
proof -
  show "ErrAlreadyExist (Err (a @ ''` already exists''))"
    unfolding ErrAlreadyExist_def err_msg.simps
    using str_contains_append [of "a @ ''` ''" "''already exists''" "''''"] by simp
qed (simp add: ErrAlreadyExist_def)

text \<open>The three shapes of the methods.\<close>

lemma get_shape:
  assumes "json_good J segs st" "legal_name n" "item_at c i segs (n @ ''.json'')"
  shows "bindp (reason msg (query (stow_Item c i))) (\<lambda>item. read_object J item) st = (case json_view J segs st n of
      None \<Rightarrow> (Inl (Err (msg @ '' Reason: not found'')), st) | Some x \<Rightarrow> (Inr x, st))"
  using run_Item [OF assms] run_read [OF assms(1,2)] by (auto simp: prog_run split: option.splits)

lemma create_shape:
  assumes "json_good J segs st" "legal_name n" "item_at c i segs (n @ ''.json'')"
  shows "bindp (attempt (query (stow_Item c i))) (\<lambda>r. if is_ok r then fail e else m) st =
    (case json_view J segs st n of None \<Rightarrow> m st | Some _ \<Rightarrow> (Inl e, st))"
  using run_Item [OF assms] by (auto simp: prog_run split: option.splits)

lemma update_shape:
  assumes "json_good J segs st" "legal_name n" "item_at c i segs (n @ ''.json'')"
  shows "bindp (reason msg (query (stow_Item c i))) m st = (case json_view J segs st n of
      None \<Rightarrow> (Inl (Err (msg @ '' Reason: not found'')), st) | Some _ \<Rightarrow> m (json_path segs n) st)"
  using run_Item [OF assms] by (auto simp: prog_run split: option.splits)

lemma put_shape:
  assumes "json_good J segs st" "legal_name n" "item_at c i segs (n @ ''.json'')" "reread J x = Inr y"
  shows "\<exists>st'. bindp (put_object J c i x) (\<lambda>_. ret z) st = (Inr z, st') \<and> json_good J segs st' \<and>
    json_view J segs st' = (json_view J segs st)(n \<mapsto> y)"
  using run_put [OF assms] by (auto simp: prog_run)

lemmas method_shapes = get_shape create_shape update_shape

interpretation clusters: object_store "clusterFileStore_Get J s" "\<lambda>x. clusterFileStore_Create J s (Some x)"
  "\<lambda>x. clusterFileStore_Update J s (Some x)" c_Name assign_Cluster "stored_as J assign_Cluster"
  "clusters_good J s" legal_name "json_view J (clusters_dir s)" "clusterFileStore_Delete s" for J s
proof unfold_locales
qed (auto simp: clusters_good_def legal_nonempty clusterFileStore_Get_def clusterFileStore_Create_def
    clusterFileStore_Update_def clusterFileStore_Delete_def Let_def method_shapes [OF _ _ clusters_at] already_exists
    intro: put_shape [OF _ _ clusters_at] run_remove)

interpretation credentials: object_store "credentialFileStore_Get J s" "\<lambda>x. credentialFileStore_Create J s (Some x)"
  "\<lambda>x. credentialFileStore_Update J s (Some x)" cr_Name assign_Credential "stored_as J assign_Credential"
  "credentials_good J s" legal_name "json_view J (credentials_dir s)" "credentialFileStore_Delete s" for J s
proof unfold_locales
qed (auto simp: credentials_good_def legal_nonempty credentialFileStore_Get_def credentialFileStore_Create_def
    credentialFileStore_Update_def credentialFileStore_Delete_def Let_def method_shapes [OF _ _ credentials_at]
    already_exists intro: put_shape [OF _ _ credentials_at] run_remove)

lemma scope_cluster_nonempty: "vfs_scope s \<Longrightarrow> cluster s \<noteq> ''''"
  by (simp add: vfs_scope_def plain_seg_def)

interpretation machines: object_rw "machineFileStore_Get J s" "\<lambda>x. machineFileStore_Create J s (Some x)"
  "\<lambda>x. machineFileStore_Update J s (Some x)" m_Name assign_Machine "stored_as J assign_Machine"
  "machines_good J s" legal_name "json_view J (scope_dir s ''machine'')" for J s
proof unfold_locales
qed (auto simp: machines_good_def legal_nonempty scope_cluster_nonempty machineFileStore_Get_def
    machineFileStore_Create_def machineFileStore_Update_def Let_def method_shapes [OF _ _ machines_at]
    already_exists intro: put_shape [OF _ _ machines_at])

lemma machineset_path:
  "vfs_scope s \<Longrightarrow> legal_name n \<Longrightarrow>
    filepath_Join [container s, machineSetFileStore_resourceID s n] = json_path (scope_dir s ''machineset'') n"
  using machinesets_at [of s n] by (simp add: item_at_def json_path_def)

interpretation machinesets: object_store "machineSetFileStore_Get J s"
  "\<lambda>x. machineSetFileStore_Create J s (Some x)" "\<lambda>x. machineSetFileStore_Update J s (Some x)" ms_Name
  assign_MachineSet "stored_as J assign_MachineSet" "machinesets_good J s" legal_name
  "json_view J (scope_dir s ''machineset'')" "machineSetFileStore_Delete s" for J s
proof unfold_locales
qed (auto simp: machinesets_good_def legal_nonempty scope_cluster_nonempty machineSetFileStore_Get_def
    machineSetFileStore_Create_def machineSetFileStore_Update_def machineSetFileStore_Delete_def Let_def
    method_shapes [OF _ _ machinesets_at] already_exists machineset_path run_remove_missing
    intro: put_shape [OF _ _ machinesets_at] run_remove)

text \<open>
  \<^verbatim>\<open>UpdateStatus\<close> replaces the status of the stored object and nothing else of it, whatever the
  rest of the argument says.
\<close>

lemma UpdateStatus_existing:
  assumes good: "clusters_good J s st" and n: "legal_name (c_Name obj)"
    and x: "json_view J (clusters_dir s) st (c_Name obj) = Some x"
    and y: "reread J (x\<lparr>Status := Status obj\<rparr>) = Inr y"
  shows "\<exists>st'. clusterFileStore_UpdateStatus J s (Some obj) st = (Inr (x\<lparr>Status := Status obj\<rparr>), st') \<and>
    clusters_good J s st' \<and> json_view J (clusters_dir s) st' = (json_view J (clusters_dir s) st)(c_Name obj \<mapsto> y)"
proof -
  have good': "vfs_store s" "json_good J (clusters_dir s) st" using good by (auto simp: clusters_good_def)
  note at = clusters_at [OF good'(1) n]
  obtain st' where st': "put_object J (container s) (clusterFileStore_resourceID s (c_Name obj)) (x\<lparr>Status := Status obj\<rparr>) st
      = (Inr (), st')" "json_good J (clusters_dir s) st'"
    "json_view J (clusters_dir s) st' = (json_view J (clusters_dir s) st)(c_Name obj \<mapsto> y)"
    using run_put [OF good'(2) n at y] by blast
  have "clusterFileStore_UpdateStatus J s (Some obj) st = (Inr (x\<lparr>Status := Status obj\<rparr>), st')"
    using x st'(1) run_read [OF good'(2) n x] legal_nonempty [OF n]
    by (simp add: clusterFileStore_UpdateStatus_def Let_def update_shape [OF good'(2) n at]) (simp add: prog_run)
  with st' good'(1) show ?thesis by (auto simp: clusters_good_def)
qed

end
