(* ===== verification/Store_Vfs_List.thy ===== *)
theory Store_Vfs_List
  imports Store_Vfs_Correct
begin

text \<open>
  The \<^verbatim>\<open>List\<close> methods of the file store: the loop over pages of fifty entries ends, and returns
  every object of the home directory once, in directory order, whatever their number.
\<close>

section \<open>The entries of a directory\<close>

definition dir_entries :: "string list \<Rightarrow> os \<Rightarrow> (string \<times> node) list" where
  "dir_entries segs st = filter (\<lambda>e. is_child (abs_path segs) (fst e)) (fs st)"

definition file_paths :: "(string \<times> node) list \<Rightarrow> string list" where
  "file_paths es = map fst (filter (\<lambda>e. snd e \<noteq> Dir) es)"

lemma file_paths_append [simp]: "file_paths (a @ b) = file_paths a @ file_paths b"
  by (simp add: file_paths_def)

lemma dir_entry_path:
  assumes "os_wf st" "segs \<noteq> []" "plain_segs segs" "e \<in> set (dir_entries segs st)"
  obtains f where "plain_seg f" "fst e = abs_path (segs @ [f])"
proof -
  have child: "is_child (abs_path segs) (fst e)" and e: "e \<in> set (fs st)"
    using assms(4) by (auto simp: dir_entries_def)
  then have "canonical (fst e)" using assms(1) by (auto simp: os_wf_def list_all_iff)
  then have wf: "list_all plain_seg (path_segs (fst e))" "abs_path (path_segs (fst e)) = fst e"
    by (simp_all add: canonical_def)
  obtain f where f: "path_segs (fst e) = segs @ [f]" using child assms by (auto simp: is_child_def)
  show ?thesis by (rule that [of f]) (use wf f in \<open>simp_all\<close>)
qed

lemma distinct_dir_entries: "os_wf st \<Longrightarrow> distinct (map fst (dir_entries segs st))"
  by (simp add: os_wf_def dir_entries_def distinct_map_filter)

lemma read_items_append:
  "read_items J (a @ b) st = rbind (read_items J a st) (\<lambda>xs. rbind (read_items J b st) (\<lambda>ys. Inr (xs @ ys)))"
  by (induction a) (auto simp: rbind_def split: sum.splits)

lemma seek_cursor_nth:
  "distinct (map fst es) \<Longrightarrow> k < length es \<Longrightarrow> seek_cursor (fst (es ! k)) es = Inr (drop k es)"
proof (induction es arbitrary: k)
  case (Cons e es)
  show ?case
  proof (cases k)
    case (Suc j)
    with Cons.prems have "fst (es ! j) \<in> set (map fst es)" by simp
    with Cons.prems(1) have "fst e \<noteq> fst (es ! j)" by (metis distinct.simps(2) list.simps(9))
    with Suc Cons show ?thesis by simp
  qed simp
qed simp

section \<open>One page\<close>

text \<open>The home directory: a directory below the container, reached by the path \<^verbatim>\<open>List\<close> builds.\<close>

definition home_dir :: "string list \<Rightarrow> string list \<Rightarrow> os \<Rightarrow> bool" where
  "home_dir cs ids st \<longleftrightarrow> os_wf st \<and> cs \<noteq> [] \<and> ids \<noteq> [] \<and> plain_segs cs \<and> plain_segs ids \<and>
     os_Stat st (abs_path (cs @ ids)) = Stat_Found Dir"

abbreviation cursor_of :: "string list \<Rightarrow> string \<Rightarrow> string" where
  "cursor_of cs p \<equiv> drop (Suc (length (abs_path cs))) p"

lemma cursor_child:
  assumes "cs \<noteq> []" "ids \<noteq> []"
  shows "cursor_of cs (abs_path (cs @ ids @ [f])) = join ''/'' ids @ CHR ''/'' # f"
  using assms by (simp add: abs_path_def join_append)

lemma home_dir_entry:
  assumes home: "home_dir cs ids st" and e: "e \<in> set (dir_entries (cs @ ids) st)"
  shows "cursor_of cs (fst e) \<noteq> ''''" and "filepath_Join [abs_path cs, cursor_of cs (fst e)] = fst e"
    and "has_prefix (cursor_of cs (fst e)) (join ''/'' ids @ ''/'')"
proof -
  have h: "os_wf st" "cs \<noteq> []" "ids \<noteq> []" "plain_segs cs" "plain_segs ids"
    using home by (simp_all add: home_dir_def)
  obtain f where f: "plain_seg f" "fst e = abs_path (cs @ ids @ [f])"
    by (rule dir_entry_path [OF h(1) _ _ e]) (use h in auto)
  have cur: "cursor_of cs (fst e) = join ''/'' (ids @ [f])"
    using f(2) cursor_child [OF h(2,3)] h(3) by (simp add: join_append)
  then show "cursor_of cs (fst e) \<noteq> ''''" using h(3) by (simp add: join_append)
  show "has_prefix (cursor_of cs (fst e)) (join ''/'' ids @ ''/'')"
    unfolding cur using h(3) by (simp add: join_append has_prefix_def)
  have "filepath_Join [abs_path cs, join ''/'' (ids @ [f])] = abs_path (cs @ ids @ [f])"
    by (rule Join_abs_path) (use h f in auto)
  then show "filepath_Join [abs_path cs, cursor_of cs (fst e)] = fst e" unfolding cur unfolding f(2) .
qed

text \<open>The cursor of the entry with index \<open>k\<close>; at the start it is empty.\<close>

definition cursor_at :: "string list \<Rightarrow> (string \<times> node) list \<Rightarrow> nat \<Rightarrow> string" where
  "cursor_at cs es k = (if k = 0 then '''' else cursor_of cs (fst (es ! k)))"

lemma Browse_page:
  assumes home: "home_dir cs ids st" and es: "es = dir_entries (cs @ ids) st"
    and k: "k = 0 \<or> k < length es"
  shows "stow_Browse (abs_path cs) (join ''/'' ids @ ''/'') (cursor_at cs es k) n st =
    Inr (file_paths (take n (drop k es)),
      (if n < length es - k then cursor_of cs (fst (es ! (k + n))) else ''''))"
proof -
  have h: "os_wf st" "cs \<noteq> []" "ids \<noteq> []" "plain_segs cs" "plain_segs ids"
    and stat: "os_Stat st (abs_path (cs @ ids)) = Stat_Found Dir"
    using home by (simp_all add: home_dir_def)
  have dir: "os_ReadDir (filepath_Join [abs_path cs, join ''/'' ids @ ''/'']) st = Inr es"
  proof -
    have "os_resolve st (abs_path (cs @ ids)) = abs_path (cs @ ids)"
      by (rule resolve_abs_path) (use h in auto)
    then show ?thesis
      using stat by (simp add: os_ReadDir_def Join_abs_path_slash [OF h(2-5)] es dir_entries_def case_prod_unfold)
  qed
  have seek: "(if cursor_at cs es k \<noteq> '''' then seek_cursor (filepath_Join [abs_path cs, cursor_at cs es k]) es
      else Inr es) = Inr (drop k es)"
  proof (cases "k = 0")
    case False
    with k have lt: "k < length es" by simp
    then have "es ! k \<in> set (dir_entries (cs @ ids) st)" using es by (metis nth_mem)
    from home_dir_entry [OF home this] show ?thesis
      using False seek_cursor_nth [OF distinct_dir_entries [OF h(1)], of k "cs @ ids"] lt
      by (simp add: cursor_at_def es)
  qed (simp add: cursor_at_def)
  have items: "map fst (filter (\<lambda>(p, nd). nd \<noteq> Dir \<and> has_prefix (cursor_of cs p) (join ''/'' ids @ ''/'')) es')
      = file_paths es'" if "set es' \<subseteq> set es" for es'
    unfolding file_paths_def using that home_dir_entry(3) [OF home] es
    by (intro arg_cong [where f = "map fst"] filter_cong) auto
  have sub: "set (take n (drop k es)) \<subseteq> set es" "set (drop k es) \<subseteq> set es"
    using set_take_subset set_drop_subset by fast+
  have nth: "drop k es ! n = es ! (k + n)" if "n < length es - k"
    using that by (intro nth_drop) simp
  show ?thesis
  proof (cases "n < length es - k")
    case True
    then show ?thesis
      by (simp only: stow_Browse_def Let_def dir seek rbind_simps) (simp add: items [OF sub(1)] nth)
  next
    case False
    then show ?thesis
      by (simp only: stow_Browse_def Let_def dir seek rbind_simps) (simp add: items [OF sub(2)])
  qed
qed

section \<open>The loop\<close>

lemma list_loop_from:
  assumes home: "home_dir cs ids st" and es: "es = dir_entries (cs @ ids) st"
    and k: "k = 0 \<or> k < length es"
  shows "list_loop J (abs_path cs) (join ''/'' ids) msg (cursor_at cs es k) result st =
    Some (case read_items J (file_paths (drop k es)) st of
        Inl e \<Rightarrow> Inl (reason_err msg e) | Inr objs \<Rightarrow> Inr (result @ objs))"
  using k
proof (induction "length es - k" arbitrary: k result rule: less_induct)
  case less
  note page = Browse_page [OF home es less.prems, of pageSize]
  show ?case
  proof (cases "pageSize < length es - k")
    case True
    let ?k = "k + pageSize"
    have lt: "?k < length es" using True by simp
    then have "es ! ?k \<in> set (dir_entries (cs @ ids) st)" using es by (metis nth_mem)
    then have ne: "cursor_of cs (fst (es ! ?k)) \<noteq> ''''" by (rule home_dir_entry(1) [OF home])
    have cur: "cursor_of cs (fst (es ! ?k)) = cursor_at cs es ?k"
      by (simp add: cursor_at_def pageSize_def)
    have split: "drop k es = take pageSize (drop k es) @ drop ?k es"
      using append_take_drop_id [of pageSize "drop k es"] by (simp add: add.commute)
    have IH: "list_loop J (abs_path cs) (join ''/'' ids) msg (cursor_at cs es ?k) r st =
      Some (case read_items J (file_paths (drop ?k es)) st of
          Inl e \<Rightarrow> Inl (reason_err msg e) | Inr objs \<Rightarrow> Inr (r @ objs))" for r
      using lt by (intro less.hyps) (simp_all add: pageSize_def)
    have read: "read_items J (file_paths (drop k es)) st =
        rbind (read_items J (file_paths (take pageSize (drop k es))) st)
          (\<lambda>xs. rbind (read_items J (file_paths (drop ?k es)) st) (\<lambda>ys. Inr (xs @ ys)))"
      using arg_cong [OF split, of file_paths] by (simp only: file_paths_append read_items_append)
    have step: "list_loop J (abs_path cs) (join ''/'' ids) msg (cursor_at cs es k) result st =
      (case read_items J (file_paths (take pageSize (drop k es))) st of
          Inl e \<Rightarrow> Some (Inl (reason_err msg e))
        | Inr objs \<Rightarrow> list_loop J (abs_path cs) (join ''/'' ids) msg (cursor_at cs es ?k) (result @ objs) st)"
      by (subst list_loop.simps) (simp only: page True if_True if_False sum.case fst_conv snd_conv ne cur [symmetric])
    show ?thesis unfolding step IH read by (simp add: rbind_def split: sum.splits)
  next
    case False
    then have "take pageSize (drop k es) = drop k es" by simp
    with False show ?thesis by (subst list_loop.simps) (auto simp: page split: sum.splits)
  qed
qed

lemma list_loop_all:
  assumes "home_dir cs ids st"
  shows "list_loop J (abs_path cs) (join ''/'' ids) msg '''' [] st =
    Some (case read_items J (file_paths (dir_entries (cs @ ids) st)) st of
        Inl e \<Rightarrow> Inl (reason_err msg e) | Inr objs \<Rightarrow> Inr objs)"
  using list_loop_from [OF assms refl, of 0 J msg "[]"] by (simp add: cursor_at_def split: sum.splits)

section \<open>The objects of the home directory\<close>

text \<open>No file of the directory stands under another name than that of an object.\<close>

definition only_objects :: "string list \<Rightarrow> os \<Rightarrow> bool" where
  "only_objects segs st \<longleftrightarrow> list_all (\<lambda>p. has_suffix (last (path_segs p)) ''.json'' \<and> 5 < length (last (path_segs p)))
     (file_paths (dir_entries segs st))"

definition name_of :: "string \<Rightarrow> string" where
  "name_of p = trim_suffix (last (path_segs p)) ''.json''"

lemma only_objects_path:
  assumes "os_wf st" "segs \<noteq> []" "plain_segs segs" "only_objects segs st"
    and p: "p \<in> set (file_paths (dir_entries segs st))"
  shows "legal_name (name_of p)" and "json_path segs (name_of p) = p"
proof -
  obtain e where e: "e \<in> set (dir_entries segs st)" "fst e = p" using p by (auto simp: file_paths_def)
  obtain f where f: "plain_seg f" "p = abs_path (segs @ [f])"
    using dir_entry_path [OF assms(1-3) e(1)] e(2) by metis
  have segs: "path_segs p = segs @ [f]" unfolding f(2) by (rule path_segs_abs) (use assms f in auto)
  have "has_suffix (last (path_segs p)) ''.json''" "5 < length (last (path_segs p))"
    using assms(4) p unfolding only_objects_def list_all_iff by blast+
  then have f': "has_suffix f ''.json''" "5 < length f" unfolding segs by simp_all
  then obtain n where n1: "f = n @ ''.json''" unfolding has_suffix_iff suffix_def by blast
  with f'(2) have "n \<noteq> ''''" by (cases n) simp_all
  note n = n1 this
  have name: "name_of p = n" unfolding name_of_def segs n(1) by (simp only: last_snoc trim_suffix_append)
  have "CHR ''/'' \<notin> set f" using f(1) by (simp add: plain_seg_def)
  then show "legal_name (name_of p)" using n by (simp add: name legal_name_def)
  show "json_path segs (name_of p) = p" unfolding name json_path_def using f(2) n(1) by (simp only:)
qed

lemma read_items_map:
  assumes "\<And>p. p \<in> set ps \<Longrightarrow> rbind (os_ReadFile p st) (unmarshal J) = Inr (g p)"
  shows "read_items J ps st = Inr (map g ps)"
  using assms by (induction ps) simp_all

lemma in_file_paths:
  assumes "os_wf st" "segs \<noteq> []" "plain_segs segs" "plain_seg f"
    and "map_of (fs st) (abs_path (segs @ [f])) = Some (File d)"
  shows "abs_path (segs @ [f]) \<in> set (file_paths (dir_entries segs st))"
proof -
  have "path_segs (abs_path (segs @ [f])) = segs @ [f]" by (rule path_segs_abs) (use assms in auto)
  then have "is_child (abs_path segs) (abs_path (segs @ [f]))" using assms by (auto simp: is_child_def)
  then have "(abs_path (segs @ [f]), File d) \<in> set (dir_entries segs st)"
    using map_of_SomeD [OF assms(5)] by (simp add: dir_entries_def)
  then show ?thesis by (force simp: file_paths_def)
qed

text \<open>Where the home directory is in order, \<^verbatim>\<open>List\<close> returns the view.\<close>

lemma list_loop_view:
  assumes home: "home_dir cs ids st" and good: "json_good J (cs @ ids) st" and only: "only_objects (cs @ ids) st"
  shows "\<exists>names. distinct names \<and>
      set names = {n. legal_name n \<and> json_view J (cs @ ids) st n \<noteq> None} \<and>
      list_loop J (abs_path cs) (join ''/'' ids) msg '''' [] st =
        Some (Inr (map (\<lambda>n. the (json_view J (cs @ ids) st n)) names))"
proof -
  let ?segs = "cs @ ids" and ?view = "json_view J (cs @ ids) st"
  let ?ps = "file_paths (dir_entries ?segs st)"
  have wf: "os_wf st" and segs: "?segs \<noteq> []" "plain_segs ?segs"
    using home by (auto simp: home_dir_def)
  note obj = only_objects_path [OF wf segs only]
  have view: "rbind (os_ReadFile p st) (unmarshal J) = Inr (the (?view (name_of p)))" "?view (name_of p) \<noteq> None"
    if p: "p \<in> set ?ps" for p
  proof -
    have "\<exists>nd. map_of (fs st) p = Some nd"
      using p by (force simp: file_paths_def dir_entries_def intro: weak_map_of_SomeI)
    then obtain x where x: "?view (name_of p) = Some x"
      using json_good_entry(1) [OF good obj(1) [OF p]] obj(2) [OF p] by auto
    then show "?view (name_of p) \<noteq> None" by simp
    have "read_object J p st = (Inr x, st)" using run_read [OF good obj(1) [OF p] x] obj(2) [OF p] by simp
    then have "rbind (os_ReadFile p st) (unmarshal J) = Inr x"
      by (auto simp: read_object_def prog_run split: sum.splits)
    then show "rbind (os_ReadFile p st) (unmarshal J) = Inr (the (?view (name_of p)))" by (simp add: x)
  qed
  have "map (json_path ?segs) (map name_of ?ps) = ?ps" by (simp add: obj(2) map_idI)
  moreover have "distinct ?ps"
    using distinct_dir_entries [OF wf, of ?segs] by (simp add: file_paths_def distinct_map_filter)
  ultimately have dist: "distinct (map name_of ?ps)" by (metis distinct_map)
  have "set (map name_of ?ps) = {n. legal_name n \<and> ?view n \<noteq> None}"
  proof (intro equalityI subsetI)
    fix n assume "n \<in> {n. legal_name n \<and> ?view n \<noteq> None}"
    then have n: "legal_name n" "?view n \<noteq> None" by simp_all
    then obtain x where "?view n = Some x" by blast
    then obtain d where d: "map_of (fs st) (json_path ?segs n) = Some (File d)"
      using json_good_entry(2) [OF good n(1)] by blast
    then have p: "json_path ?segs n \<in> set ?ps"
      unfolding json_path_def using wf segs plain_seg_name [OF n(1)] by (intro in_file_paths)
    with obj(2) have "name_of (json_path ?segs n) = n" by (metis json_path_inj)
    with p show "n \<in> set (map name_of ?ps)" by (metis image_eqI set_map)
  qed (use obj(1) view(2) in auto)
  moreover have "read_items J ?ps st = Inr (map (\<lambda>n. the (?view n)) (map name_of ?ps))"
    using read_items_map [of ?ps st J "\<lambda>p. the (?view (name_of p))"] view(1) by (simp add: comp_def)
  ultimately show ?thesis using dist list_loop_all [OF home, of J msg] by (intro exI [of _ "map name_of ?ps"]) simp
qed

lemma home_clusters:
  assumes "vfs_store s"
  shows "container s = abs_path (path_segs (container s))"
    and "clusterFileStore_resourceHome s = join ''/'' [''clusters'']"
    and "credentialFileStore_resourceHome s = join ''/'' [''credentials'']"
proof -
  show "container s = abs_path (path_segs (container s))" using assms by (simp add: vfs_store_def)
  show "clusterFileStore_resourceHome s = join ''/'' [''clusters'']"
    using filepath_Join_plain [of "[''clusters'']"] assms
    by (auto simp: vfs_store_def clusterFileStore_resourceHome_def plain_consts)
  show "credentialFileStore_resourceHome s = join ''/'' [''credentials'']"
    using filepath_Join_plain [of "[''credentials'']"] assms
    by (auto simp: vfs_store_def credentialFileStore_resourceHome_def plain_consts)
qed

end
