(* ===== verification/Store_Vfs_Keys.thy ===== *)
theory Store_Vfs_Keys
  imports Store_Vfs_Correct
begin

text \<open>
  SSH keys and certificates of the file store: two files per entry.  What \<^verbatim>\<open>Create\<close> wrote, \<^verbatim>\<open>Get\<close>
  returns; \<^verbatim>\<open>Delete\<close> removes both files.
\<close>

section \<open>Plain files in a directory\<close>

definition files_ok :: "string list \<Rightarrow> os \<Rightarrow> bool" where
  "files_ok segs st \<longleftrightarrow> segs \<noteq> [] \<and> plain_segs segs \<and> dirs_ok st segs"

definition file_at :: "string list \<Rightarrow> os \<Rightarrow> string \<Rightarrow> node option" where
  "file_at segs st f = map_of (fs st) (abs_path (segs @ [f]))"

lemma abs_path_snoc_inj:
  "segs \<noteq> [] \<Longrightarrow> abs_path (segs @ [f]) = abs_path (segs @ [g]) \<longleftrightarrow> f = g"
  by (auto simp: abs_path_append)

lemma snoc_not_ancestor:
  assumes "segs \<noteq> []" "plain_segs segs"
  shows "abs_path (segs @ [f]) \<notin> set (ancestors (abs_path segs))"
proof
  assume "abs_path (segs @ [f]) \<in> set (ancestors (abs_path segs))"
  then have "length (abs_path (segs @ [f])) \<le> length (abs_path segs)" by (rule length_ancestor [OF assms])
  then show False using assms(1) by (simp add: abs_path_append)
qed

lemma file_Item:
  assumes "files_ok segs st" "plain_seg f" "item_at c i segs f"
  shows "stow_Item c i st = (case file_at segs st f of
      None \<Rightarrow> Inl (Err ''not found'')
    | Some Dir \<Rightarrow> Inl (Err ''unexpected directory'')
    | Some (File _) \<Rightarrow> Inr (abs_path (segs @ [f])))"
  unfolding file_at_def using assms by (intro Item_child) (auto simp: files_ok_def item_at_def)

lemma file_read:
  assumes "files_ok segs st" "plain_seg f" "file_at segs st f = Some (File d)"
  shows "os_ReadFile (abs_path (segs @ [f])) st = Inr d"
  using assms by (intro ReadFile_child) (auto simp: files_ok_def file_at_def)

lemma file_put:
  assumes ok: "files_ok segs st" and f: "plain_seg f" and i: "item_at c i segs f" and new: "file_at segs st f = None"
  shows "\<exists>st'. stow_Put c i d st = (Inr (abs_path (segs @ [f])), st') \<and> files_ok segs st' \<and>
    file_at segs st' = (file_at segs st)(f \<mapsto> File d)"
proof -
  have segs: "segs \<noteq> []" "plain_segs segs" "dirs_ok st segs" using ok by (simp_all add: files_ok_def)
  obtain st' where st': "stow_Put c i d st = (Inr (abs_path (segs @ [f])), st')"
    "map_of (fs st') = (\<lambda>p. if p = abs_path (segs @ [f]) then Some (File d)
        else if p \<in> set (ancestors (abs_path segs)) then Some Dir else map_of (fs st) p)"
    by (rule Put_child [of segs f st c i d]) (use segs f i new in \<open>auto simp: item_at_def file_at_def\<close>)
  have "\<not> is_file (fs st') p" if "p \<in> set (ancestors (abs_path segs))" for p
    using that snoc_not_ancestor [OF segs(1,2), of f] by (auto simp: is_file_def st'(2))
  then have "files_ok segs st'" using segs by (simp add: files_ok_def dirs_ok_def list_all_iff)
  moreover have "file_at segs st' = (file_at segs st)(f \<mapsto> File d)"
    using snoc_not_ancestor [OF segs(1,2)] by (auto simp: file_at_def fun_eq_iff st'(2) abs_path_snoc_inj [OF segs(1)])
  ultimately show ?thesis using st'(1) by blast
qed

lemma file_remove:
  assumes ok: "files_ok segs st" and f: "plain_seg f" and d: "file_at segs st f = Some (File d)"
  shows "\<exists>st'. stow_RemoveItem (abs_path (segs @ [f])) st = (Inr (), st') \<and> files_ok segs st' \<and>
    file_at segs st' = (file_at segs st)(f := None)"
proof -
  have segs: "segs \<noteq> []" "plain_segs segs" "dirs_ok st segs" using ok by (simp_all add: files_ok_def)
  let ?st = "st\<lparr>fs := AList.delete (abs_path (segs @ [f])) (fs st)\<rparr>"
  have "stow_RemoveItem (abs_path (segs @ [f])) st = (Inr (), ?st)"
    by (rule Remove_child) (use segs f d in \<open>auto simp: file_at_def\<close>)
  moreover have "files_ok segs ?st"
    using segs by (auto simp: files_ok_def dirs_ok_def list_all_iff is_file_def delete_conv')
  moreover have "file_at segs ?st = (file_at segs st)(f := None)"
    by (auto simp: file_at_def fun_eq_iff delete_conv' abs_path_snoc_inj [OF segs(1)])
  ultimately show ?thesis by blast
qed

section \<open>SSH keys\<close>

lemma plain_key: "CHR ''/'' \<notin> set n \<Longrightarrow> plain_seg (''id_'' @ n @ ''.pub'')" "CHR ''/'' \<notin> set n \<Longrightarrow> plain_seg (''id_'' @ n)"
  by (auto simp: plain_seg_def)

lemma ssh_at:
  assumes "vfs_scope s" "CHR ''/'' \<notin> set n"
  shows "item_at (container s) (sshKeyFileStore_pubKeyID s n) (scope_dir s ''ssh'') (''id_'' @ n @ ''.pub'')"
    and "item_at (container s) (sshKeyFileStore_privKeyID s n) (scope_dir s ''ssh'') (''id_'' @ n)"
  unfolding sshKeyFileStore_pubKeyID_def sshKeyFileStore_privKeyID_def
  using assms by (auto intro!: scope_at simp: plain_consts plain_key [simplified] sshKeyFileStore_resourceHome_def
      vfs_scope_def vfs_store_def)

lemma ssh_create_get:
  assumes s: "vfs_scope s" and n: "legal_name n" and ok: "files_ok (scope_dir s ''ssh'') st"
    and new: "file_at (scope_dir s ''ssh'') st (''id_'' @ n @ ''.pub'') = None"
      "file_at (scope_dir s ''ssh'') st (''id_'' @ n) = None"
    and keys: "pub \<noteq> ''''" "priv \<noteq> ''''"
  shows "\<exists>st'. sshKeyFileStore_Create s n pub priv st = (Inr (), st') \<and>
    sshKeyFileStore_Get s n st' = (Inr (pub, priv), st')"
proof -
  have slash: "CHR ''/'' \<notin> set n" "n \<noteq> ''''" using n by (simp_all add: legal_name_def)
  note at = ssh_at [OF s slash(1)] and pl = plain_key [OF slash(1)]
  let ?segs = "scope_dir s ''ssh''" and ?p = "''id_'' @ n @ ''.pub''" and ?q = "''id_'' @ n"
  have ne: "?q \<noteq> ?p" by simp
  obtain st1 where st1: "stow_Put (container s) (sshKeyFileStore_pubKeyID s n) pub st = (Inr (abs_path (?segs @ [?p])), st1)"
    "files_ok ?segs st1" "file_at ?segs st1 = (file_at ?segs st)(?p \<mapsto> File pub)"
    using file_put [OF ok pl(1) at(1) new(1)] by blast
  have "file_at ?segs st1 ?q = None" using new(2) ne st1(3) by simp
  then obtain st2 where st2: "stow_Put (container s) (sshKeyFileStore_privKeyID s n) priv st1 = (Inr (abs_path (?segs @ [?q])), st2)"
    "files_ok ?segs st2" "file_at ?segs st2 = (file_at ?segs st1)(?q \<mapsto> File priv)"
    using file_put [OF st1(2) pl(2) at(2)] by blast
  have files: "file_at ?segs st2 ?p = Some (File pub)" "file_at ?segs st2 ?q = Some (File priv)"
    using ne [symmetric] by (simp_all add: st2(3) st1(3))
  have i0: "stow_Item (container s) (sshKeyFileStore_pubKeyID s n) st = Inl (Err ''not found'')"
    using file_Item [OF ok pl(1) at(1)] new(1) by simp
  have i1: "stow_Item (container s) (sshKeyFileStore_privKeyID s n) st1 = Inl (Err ''not found'')"
    using file_Item [OF st1(2) pl(2) at(2)] \<open>file_at ?segs st1 ?q = None\<close> by simp
  have "sshKeyFileStore_Create s n pub priv st = (Inr (), st2)"
    using keys scope_cluster_nonempty [OF s]
    by (simp add: sshKeyFileStore_Create_def Let_def prog_run i0 i1 st1(1) st2(1))
  moreover have "sshKeyFileStore_Get s n st2 = (Inr (pub, priv), st2)"
    using slash(2) scope_cluster_nonempty [OF s] file_read [OF st2(2) pl(1) files(1)] file_read [OF st2(2) pl(2) files(2)]
      file_Item [OF st2(2) pl(1) at(1)] file_Item [OF st2(2) pl(2) at(2)] files
    by (simp add: sshKeyFileStore_Get_def prog_run)
  ultimately show ?thesis by blast
qed

section \<open>Certificates\<close>

lemma plain_crt: "CHR ''/'' \<notin> set n \<Longrightarrow> plain_seg (n @ ''.crt'')" "CHR ''/'' \<notin> set n \<Longrightarrow> plain_seg (n @ ''.key'')"
  by (rule plain_seg_ext; simp)+

lemma crt_at:
  assumes "vfs_scope s" "CHR ''/'' \<notin> set n"
  shows "item_at (container s) (certificateFileStore_certID s n) (scope_dir s ''pki'') (n @ ''.crt'')"
    and "item_at (container s) (certificateFileStore_keyID s n) (scope_dir s ''pki'') (n @ ''.key'')"
  unfolding certificateFileStore_certID_def certificateFileStore_keyID_def
  using assms by (auto intro!: scope_at simp: plain_consts plain_crt certificateFileStore_resourceHome_def
      vfs_scope_def vfs_store_def)

lemma cert_create_get:
  assumes s: "vfs_scope s" and n: "legal_name n" and ok: "files_ok (scope_dir s ''pki'') st"
    and new: "file_at (scope_dir s ''pki'') st (n @ ''.crt'') = None" "file_at (scope_dir s ''pki'') st (n @ ''.key'') = None"
    and pem: "ParseCertsPEM P (EncodeCertPEM P crt) = Inr [crt]" "ParsePrivateKeyPEM P (EncodePrivateKeyPEM P key) = Inr (RSA_Key key)"
  shows "\<exists>st'. certificateFileStore_Create P s n (Some crt) (Some key) st = (Inr (), st') \<and>
    certificateFileStore_Get P s n st' = (Inr (crt, key), st')"
proof -
  have slash: "CHR ''/'' \<notin> set n" "n \<noteq> ''''" using n by (simp_all add: legal_name_def)
  note at = crt_at [OF s slash(1)] and pl = plain_crt [OF slash(1)]
  let ?segs = "scope_dir s ''pki''" and ?p = "n @ ''.crt''" and ?q = "n @ ''.key''"
  have ne: "?q \<noteq> ?p" by simp
  obtain st1 where st1: "stow_Put (container s) (certificateFileStore_certID s n) (EncodeCertPEM P crt) st = (Inr (abs_path (?segs @ [?p])), st1)"
    "files_ok ?segs st1" "file_at ?segs st1 = (file_at ?segs st)(?p \<mapsto> File (EncodeCertPEM P crt))"
    using file_put [OF ok pl(1) at(1) new(1)] by blast
  have "file_at ?segs st1 ?q = None" using new(2) ne st1(3) by simp
  then obtain st2 where st2: "stow_Put (container s) (certificateFileStore_keyID s n) (EncodePrivateKeyPEM P key) st1 = (Inr (abs_path (?segs @ [?q])), st2)"
    "files_ok ?segs st2" "file_at ?segs st2 = (file_at ?segs st1)(?q \<mapsto> File (EncodePrivateKeyPEM P key))"
    using file_put [OF st1(2) pl(2) at(2)] by blast
  have files: "file_at ?segs st2 ?p = Some (File (EncodeCertPEM P crt))" "file_at ?segs st2 ?q = Some (File (EncodePrivateKeyPEM P key))"
    using ne [symmetric] by (simp_all add: st2(3) st1(3))
  have i0: "stow_Item (container s) (certificateFileStore_certID s n) st = Inl (Err ''not found'')"
    using file_Item [OF ok pl(1) at(1)] new(1) by simp
  have i1: "stow_Item (container s) (certificateFileStore_keyID s n) st1 = Inl (Err ''not found'')"
    using file_Item [OF st1(2) pl(2) at(2)] \<open>file_at ?segs st1 ?q = None\<close> by simp
  have "certificateFileStore_Create P s n (Some crt) (Some key) st = (Inr (), st2)"
    using scope_cluster_nonempty [OF s]
    by (simp add: certificateFileStore_Create_def Let_def prog_run i0 i1 st1(1) st2(1))
  moreover have "certificateFileStore_Get P s n st2 = (Inr (crt, key), st2)"
    using slash(2) scope_cluster_nonempty [OF s] file_read [OF st2(2) pl(1) files(1)] file_read [OF st2(2) pl(2) files(2)]
      file_Item [OF st2(2) pl(1) at(1)] file_Item [OF st2(2) pl(2) at(2)] files pem
    by (simp add: certificateFileStore_Get_def prog_run first_cert_def as_rsa_def)
  ultimately show ?thesis by blast
qed

end
