(* ===== verification/Store_Vfs_Props.thy ===== *)
theory Store_Vfs_Props
  imports Store_Vfs_List Store_Vfs_Keys
begin

text \<open>
  The properties of the file store, with a concrete codec and file system on which their
  hypotheses hold.
\<close>

section \<open>A concrete instance\<close>

text \<open>A codec that keeps the name of a cluster and drops the rest.\<close>

definition name_codec :: "Cluster codec" where
  "name_codec = \<lparr>marshal = (\<lambda>c. Inr (c_Name c)), unmarshal = (\<lambda>d. Inr (zero_Cluster\<lparr>c_ObjectMeta := zero_ObjectMeta\<lparr>Name := d\<rparr>\<rparr>))\<rparr>"

definition machine_codec :: "Machine codec" where
  "machine_codec = \<lparr>marshal = (\<lambda>m. Inr (m_Name m)), unmarshal = (\<lambda>d. Inr (zero_Machine\<lparr>m_ObjectMeta := zero_ObjectMeta\<lparr>Name := d\<rparr>\<rparr>))\<rparr>"

definition plain_pem :: "(string, string) pem" where
  "plain_pem = \<lparr>EncodeCertPEM = (\<lambda>c. c), EncodePrivateKeyPEM = (\<lambda>k. k), ParseCertsPEM = (\<lambda>d. Inr [d]),
     ParsePrivateKeyPEM = (\<lambda>d. Inr (RSA_Key d))\<rparr>"

definition named_cluster :: "string \<Rightarrow> Cluster" where
  "named_cluster n = zero_Cluster\<lparr>c_ObjectMeta := zero_ObjectMeta\<lparr>Name := n\<rparr>\<rparr>"

definition named_machine :: "string \<Rightarrow> Machine" where
  "named_machine n = zero_Machine\<lparr>m_ObjectMeta := zero_ObjectMeta\<lparr>Name := n\<rparr>\<rparr>"

definition demo_store :: FileStore where
  "demo_store = FileStore_New ''/p'' ''''"

definition demo_scope :: clusterScope where
  "demo_scope = FileStore_scope demo_store ''c1''"

definition demo_os :: os where
  "demo_os = \<lparr>cwd = ''/home'', fs = []\<rparr>"

lemmas demo_defs = demo_store_def demo_scope_def demo_os_def FileStore_New_def FileStore_scope_def

lemma demo_paths: "path_segs ''/p'' = [''p'']" "abs_path [''p''] = ''/p''"
  by (simp_all add: path_segs_def abs_path_def)

lemma demo_vfs: "vfs_store demo_store" "vfs_scope demo_scope"
  by (simp_all add: demo_defs vfs_store_def vfs_scope_def demo_paths plain_seg_def)

lemma demo_dirs: "dirs_ok demo_os segs"
  by (simp add: dirs_ok_def demo_os_def is_file_def list_all_iff)

lemma demo_good: "clusters_good J demo_store demo_os"
  using demo_vfs demo_dirs
  by (simp add: clusters_good_def json_good_def clusters_dir_def) (simp add: demo_defs demo_paths plain_seg_def)

lemma demo_machines_good: "machines_good J demo_scope demo_os"
  using demo_vfs demo_dirs
  by (simp add: machines_good_def json_good_def scope_dir_def) (simp add: demo_defs demo_paths plain_seg_def)

lemma demo_files_ok: "plain_seg k \<Longrightarrow> files_ok (scope_dir demo_scope k) demo_os"
  using demo_dirs by (simp add: files_ok_def scope_dir_def) (simp add: demo_defs demo_paths plain_seg_def)

lemma demo_view: "json_view J segs demo_os n = None" "file_at segs demo_os f = None"
  by (simp_all add: json_view_def file_at_def demo_os_def)

lemma name_codec_reread [simp]: "reread name_codec c = Inr (named_cluster (c_Name c))"
  by (simp add: name_codec_def reread_def named_cluster_def)

lemma machine_codec_reread [simp]: "reread machine_codec m = Inr (named_machine (m_Name m))"
  by (simp add: machine_codec_def reread_def named_machine_def)

lemma named_simps [simp]: "c_Name (named_cluster n) = n" "m_Name (named_machine n) = n"
  by (simp_all add: named_cluster_def named_machine_def zero_Cluster_def zero_Machine_def)

section \<open>Refinement\<close>

text \<open>C1. The file store of clusters implements a map from names to clusters: from a good state,
  every sequence of \<^verbatim>\<open>Get\<close>, \<^verbatim>\<open>Create\<close>, \<^verbatim>\<open>Update\<close> and \<^verbatim>\<open>Delete\<close> calls with legal names and encodable
  objects gives the replies of the same sequence on the map, and the files after it hold the
  map after it.\<close>

theorem vfs_clusters_refine_map:
  assumes "clusters_good J s st"
    and "list_all (op_ok c_Name legal_name (stored_as J assign_Cluster)) ops"
  shows "\<exists>st'. run_seq (run_op (clusterFileStore_Get J s) (\<lambda>x. clusterFileStore_Create J s (Some x))
          (\<lambda>x. clusterFileStore_Update J s (Some x)) (clusterFileStore_Delete s)) ops st =
        (fst (run_seq (spec_op c_Name assign_Cluster (\<lambda>x. the (stored_as J assign_Cluster x))) ops
          (json_view J (clusters_dir s) st)), st')
      \<and> clusters_good J s st' \<and> json_view J (clusters_dir s) st' =
          snd (run_seq (spec_op c_Name assign_Cluster (\<lambda>x. the (stored_as J assign_Cluster x))) ops
            (json_view J (clusters_dir s) st))"
  using assms by (rule clusters.run_seq_refines)

theorem vfs_clusters_refine_map_witness:
  "\<exists>st'. run_seq (run_op (clusterFileStore_Get name_codec demo_store)
        (\<lambda>x. clusterFileStore_Create name_codec demo_store (Some x))
        (\<lambda>x. clusterFileStore_Update name_codec demo_store (Some x)) (clusterFileStore_Delete demo_store))
      [OpGet ''c1'', OpCreate (named_cluster ''c1''), OpCreate (named_cluster ''c1''), OpGet ''c1'', OpDelete ''c1'',
       OpUpdate (named_cluster ''c1'')] demo_os =
    ([Refused, Got (assign_Cluster (named_cluster ''c1'')), Refused, Got (named_cluster ''c1''), Done, Refused], st')"
  using vfs_clusters_refine_map [of name_codec demo_store demo_os
      "[OpGet ''c1'', OpCreate (named_cluster ''c1''), OpCreate (named_cluster ''c1''), OpGet ''c1'',
        OpDelete ''c1'', OpUpdate (named_cluster ''c1'')]", OF demo_good]
  by (auto simp: legal_name_def stored_as_def demo_view)

text \<open>C21. \<^verbatim>\<open>UpdateStatus\<close> of the file store writes the status of its argument into the stored object
  and keeps everything else of it, whatever the rest of the argument says; other objects are not
  touched.\<close>

theorem vfs_update_status:
  assumes "clusters_good J s st" "legal_name (c_Name obj)"
    and "json_view J (clusters_dir s) st (c_Name obj) = Some x"
    and "reread J (x\<lparr>Status := Status obj\<rparr>) = Inr y"
  shows "\<exists>st'. clusterFileStore_UpdateStatus J s (Some obj) st = (Inr (x\<lparr>Status := Status obj\<rparr>), st') \<and>
    clusters_good J s st' \<and> json_view J (clusters_dir s) st' = (json_view J (clusters_dir s) st)(c_Name obj \<mapsto> y)"
  using assms by (rule UpdateStatus_existing)

theorem vfs_update_status_witness:
  "\<exists>st st'. clusterFileStore_UpdateStatus name_codec demo_store (Some (named_cluster ''c1'')) st =
      (Inr ((named_cluster ''c1'')\<lparr>Status := Status (named_cluster ''c1'')\<rparr>), st')"
proof -
  obtain st where "clusters_good name_codec demo_store st"
    "json_view name_codec (clusters_dir demo_store) st ''c1'' = Some (named_cluster ''c1'')"
    using clusters.create_new [OF demo_good, of "named_cluster ''c1''" name_codec "named_cluster ''c1''"]
    by (auto simp: legal_name_def demo_view)
  then show ?thesis
    using vfs_update_status [of name_codec demo_store st "named_cluster ''c1''" "named_cluster ''c1''"]
    by (auto simp: legal_name_def)
qed

text \<open>C7. \<^verbatim>\<open>List\<close> of the file store ends and returns the stored clusters, each exactly once, whatever
  their number: the loop over pages neither drops nor repeats one at a page boundary.\<close>

theorem vfs_list_complete:
  assumes "clusters_good J s st" "home_dir (path_segs (container s)) [''clusters''] st"
    and "only_objects (clusters_dir s) st"
  shows "\<exists>names. distinct names \<and>
      set names = {n. legal_name n \<and> json_view J (clusters_dir s) st n \<noteq> None} \<and>
      clusterFileStore_List J s st = Some (Inr (map (\<lambda>n. the (json_view J (clusters_dir s) st n)) names))"
proof -
  have s: "vfs_store s" "json_good J (clusters_dir s) st" using assms(1) by (simp_all add: clusters_good_def)
  show ?thesis
    unfolding clusterFileStore_List_def home_clusters(2) [OF s(1)]
    using list_loop_view [of "path_segs (container s)" "[''clusters'']" st J "''failed to list clusters.''"] assms(2,3) s
      home_clusters(1) [OF s(1)] by (simp add: clusters_dir_def)
qed

definition listed_os :: os where
  "listed_os = \<lparr>cwd = ''/'', fs = [(''/p'', Dir), (''/p/clusters'', Dir), (''/p/clusters/c1.json'', File ''c1'')]\<rparr>"

theorem vfs_list_complete_witness:
  "\<exists>names. set names = {n. legal_name n \<and> json_view name_codec (clusters_dir demo_store) listed_os n \<noteq> None} \<and>
    clusterFileStore_List name_codec demo_store listed_os =
      Some (Inr (map (\<lambda>n. the (json_view name_codec (clusters_dir demo_store) listed_os n)) names))"
proof -
  have dir: "clusters_dir demo_store = [''p'', ''clusters'']"
    by (simp add: clusters_dir_def demo_defs demo_paths)
  have "clusters_good name_codec demo_store listed_os"
    unfolding clusters_good_def json_good_def dir using demo_vfs(1)
    by (auto simp: plain_seg_def dirs_ok_def listed_os_def ancestors_def path_segs_def abs_path_def is_file_def
        json_path_def name_codec_def)
  moreover have "home_dir (path_segs (container demo_store)) [''clusters''] listed_os"
    by (simp add: home_dir_def demo_defs demo_paths os_wf_def canonical_def listed_os_def path_segs_def abs_path_def
        plain_seg_def filepath_IsAbs_def has_prefix_def os_Stat_def os_resolve_def filepath_Clean_def clean_step_def
        ancestors_def is_file_def)
  moreover have "only_objects (clusters_dir demo_store) listed_os"
    unfolding dir by (simp add: only_objects_def dir_entries_def listed_os_def is_child_def path_segs_def abs_path_def
        file_paths_def has_suffix_def has_prefix_def)
  ultimately show ?thesis using vfs_list_complete [of name_codec demo_store listed_os] by blast
qed

section \<open>Keys and certificates\<close>

text \<open>The SSH key pair that \<^verbatim>\<open>Create\<close> stored is what \<^verbatim>\<open>Get\<close> returns, byte by byte.\<close>

lemma vfs_ssh_roundtrip:
  assumes "vfs_scope s" "legal_name n" "files_ok (scope_dir s ''ssh'') st"
    and "file_at (scope_dir s ''ssh'') st (''id_'' @ n @ ''.pub'') = None" "file_at (scope_dir s ''ssh'') st (''id_'' @ n) = None"
    and "pub \<noteq> ''''" "priv \<noteq> ''''"
  shows "\<exists>st'. sshKeyFileStore_Create s n pub priv st = (Inr (), st') \<and> sshKeyFileStore_Get s n st' = (Inr (pub, priv), st')"
  using assms by (rule ssh_create_get)

text \<open>The certificate and key that \<^verbatim>\<open>Create\<close> stored are what \<^verbatim>\<open>Get\<close> returns, where the PEM encoder
  and parser are inverse to each other on them.\<close>

lemma vfs_certificate_roundtrip:
  assumes "vfs_scope s" "legal_name n" "files_ok (scope_dir s ''pki'') st"
    and "file_at (scope_dir s ''pki'') st (n @ ''.crt'') = None" "file_at (scope_dir s ''pki'') st (n @ ''.key'') = None"
    and "ParseCertsPEM P (EncodeCertPEM P crt) = Inr [crt]"
    and "ParsePrivateKeyPEM P (EncodePrivateKeyPEM P key) = Inr (RSA_Key key)"
  shows "\<exists>st'. certificateFileStore_Create P s n (Some crt) (Some key) st = (Inr (), st') \<and>
    certificateFileStore_Get P s n st' = (Inr (crt, key), st')"
  using assms by (rule cert_create_get)

section \<open>Machines\<close>

text \<open>\<^verbatim>\<open>Delete\<close> of the machine store looks in the wrong place: where the working directory of the
  process holds nothing at the path of the machine relative to the container, the call fails and
  the stored machine is still there.\<close>

lemma vfs_machine_delete_misses:
  assumes "machines_good J s st" "legal_name n" "json_view J (scope_dir s ''machine'') st n = Some m"
    and "os_Stat st (machineFileStore_resourceID s n) = Stat_NotExist"
  shows "\<exists>e. machineFileStore_Delete s n st = (Inl (Err e), st) \<and> machineFileStore_Get J s n st = (Inr m, st)"
proof -
  have "cluster s \<noteq> ''''" using assms(1) scope_cluster_nonempty by (auto simp: machines_good_def)
  then show ?thesis
    using assms(4) legal_nonempty [OF assms(2)] machines.get_found [OF assms(1-3)]
    by (simp add: machineFileStore_Delete_def stow_RemoveItem_def os_Remove_def)
qed

definition machine_os :: os where
  "machine_os = \<lparr>cwd = ''/home'', fs = [(''/p/clusters/c1/machine/m.json'', File ''m'')]\<rparr>"

lemma vfs_wf_ops:
  "invariant_of os_wf (clusterFileStore_Create J s oc)"
  "invariant_of os_wf (clusterFileStore_Update J s oc)"
  "invariant_of os_wf (clusterFileStore_UpdateStatus J s oc)"
  "invariant_of os_wf (clusterFileStore_Delete s n)"
  "invariant_of os_wf (machineFileStore_Create M sc om)"
  "invariant_of os_wf (machineFileStore_Update M sc om)"
  "invariant_of os_wf (machineFileStore_UpdateStatus M sc om)"
  "invariant_of os_wf (machineFileStore_Delete sc n)"
  "invariant_of os_wf (machineSetFileStore_Create S sc os)"
  "invariant_of os_wf (machineSetFileStore_Update S sc os)"
  "invariant_of os_wf (machineSetFileStore_UpdateStatus S sc os)"
  "invariant_of os_wf (machineSetFileStore_Delete sc n)"
  "invariant_of os_wf (sshKeyFileStore_Create sc n pub priv)"
  "invariant_of os_wf (sshKeyFileStore_Delete sc n)"
  "invariant_of os_wf (certificateFileStore_Create P sc n crt key)"
  "invariant_of os_wf (certificateFileStore_Delete sc n)"
  unfolding clusterFileStore_Create_def clusterFileStore_Update_def clusterFileStore_UpdateStatus_def
    clusterFileStore_Delete_def machineFileStore_Create_def machineFileStore_Update_def
    machineFileStore_UpdateStatus_def machineFileStore_Delete_def machineSetFileStore_Create_def
    machineSetFileStore_Update_def machineSetFileStore_UpdateStatus_def machineSetFileStore_Delete_def
    sshKeyFileStore_Create_def sshKeyFileStore_Delete_def certificateFileStore_Create_def
    certificateFileStore_Delete_def read_object_def put_object_def Let_def
  by (intro inv_rules)+

end
