(* ===== verification/Cloud_Vfs.thy ===== *)
theory Cloud_Vfs
  imports Registry Store_Vfs_Props
begin

text \<open>
  The file store behind the store interface of the orchestration, and a concrete environment over
  it in which every call succeeds.
\<close>

section \<open>The file store behind the interface\<close>

record codecs =
  k_Cluster :: "Cluster codec"
  k_Machine :: "Machine codec"
  k_MachineSet :: "MachineSet codec"
  k_Credential :: "Credential codec"
  k_pem :: "(bytes, bytes) pem"

text \<open>A \<^verbatim>\<open>List\<close> call on the world; a loop that did not end would be a program without result.\<close>

definition list_call :: "(os \<Rightarrow> 'a list res option) \<Rightarrow> (os, 'a list) prog" where
  "list_call f = (\<lambda>st. case f st of None \<Rightarrow> (Inl (Panic ''no result''), st) | Some r \<Rightarrow> (r, st))"

definition vfs_ops :: "codecs \<Rightarrow> FileStore \<Rightarrow> os store_ops" where
  "vfs_ops K s = \<lparr>
     so_cluster_Get = clusterFileStore_Get (k_Cluster K) s,
     so_cluster_Create = (\<lambda>c. clusterFileStore_Create (k_Cluster K) s (Some c)),
     so_cluster_Update = (\<lambda>c. clusterFileStore_Update (k_Cluster K) s (Some c)),
     so_cluster_UpdateStatus = (\<lambda>c. clusterFileStore_UpdateStatus (k_Cluster K) s (Some c)),
     so_cluster_UpdateUUID = (\<lambda>c. clusterFileStore_UpdateUUID s (Some c)),
     so_machine_List = (\<lambda>cl. list_call (machineFileStore_List (k_Machine K) (FileStore_scope s cl))),
     so_machine_Get = (\<lambda>cl. machineFileStore_Get (k_Machine K) (FileStore_scope s cl)),
     so_machine_Create = (\<lambda>cl m. machineFileStore_Create (k_Machine K) (FileStore_scope s cl) (Some m)),
     so_machine_Update = (\<lambda>cl m. machineFileStore_Update (k_Machine K) (FileStore_scope s cl) (Some m)),
     so_machine_Delete = (\<lambda>cl n. machineFileStore_Delete (FileStore_scope s cl) n),
     so_machineset_List = (\<lambda>cl. list_call (machineSetFileStore_List (k_MachineSet K) (FileStore_scope s cl))),
     so_machineset_Create = (\<lambda>cl m. machineSetFileStore_Create (k_MachineSet K) (FileStore_scope s cl) (Some m)),
     so_machineset_Update = (\<lambda>cl m. machineSetFileStore_Update (k_MachineSet K) (FileStore_scope s cl) (Some m)),
     so_machineset_Delete = (\<lambda>cl. machineSetFileStore_Delete (FileStore_scope s cl)),
     so_machineset_UpdateStatus = (\<lambda>cl m. machineSetFileStore_UpdateStatus (k_MachineSet K) (FileStore_scope s cl) (Some m)),
     so_credential_Get = credentialFileStore_Get (k_Credential K) s,
     so_ssh_Get = (\<lambda>cl. sshKeyFileStore_Get (FileStore_scope s cl)),
     so_ssh_Create = (\<lambda>cl. sshKeyFileStore_Create (FileStore_scope s cl)),
     so_cert_Get = (\<lambda>cl. certificateFileStore_Get (k_pem K) (FileStore_scope s cl)),
     so_cert_Create = (\<lambda>cl. certificateFileStore_Create (k_pem K) (FileStore_scope s cl)),
     so_cert_Delete = (\<lambda>cl. certificateFileStore_Delete (FileStore_scope s cl))\<rparr>"

section \<open>What the orchestration keeps of the file system\<close>

lemma inv_iff: "invariant_of I m \<longleftrightarrow> (\<forall>d. I d \<longrightarrow> I (snd (m d)))"
proof -
  have "(case m d of (r, d') \<Rightarrow> (case r of Inl e \<Rightarrow> I d' | Inr x \<Rightarrow> I d')) = I (snd (m d))" for d
    by (cases "m d"; cases "fst (m d)") simp_all
  then show ?thesis by (simp add: valid_def)
qed

lemma vfs_reads:
  "snd (clusterFileStore_Get J s n d) = d" "snd (machineFileStore_Get M sc n d) = d" "snd (credentialFileStore_Get C s n d) = d"
  "snd (sshKeyFileStore_Get sc n d) = d" "snd (certificateFileStore_Get P sc n d) = d" "snd (clusterFileStore_UpdateUUID s oc u d) = d"
  "snd (list_call f d) = d"
proof -
  let ?I = "\<lambda>d'. d' = d"
  have "invariant_of ?I (clusterFileStore_Get J s n)" "invariant_of ?I (machineFileStore_Get M sc n)"
    "invariant_of ?I (credentialFileStore_Get C s n)" "invariant_of ?I (sshKeyFileStore_Get sc n)"
    "invariant_of ?I (certificateFileStore_Get P sc n)" "invariant_of ?I (clusterFileStore_UpdateUUID s oc u)"
    unfolding clusterFileStore_Get_def machineFileStore_Get_def credentialFileStore_Get_def sshKeyFileStore_Get_def
      certificateFileStore_Get_def clusterFileStore_UpdateUUID_def read_object_def Let_def
    by (intro inv_rules)+
  then show "snd (clusterFileStore_Get J s n d) = d" "snd (machineFileStore_Get M sc n d) = d" "snd (credentialFileStore_Get C s n d) = d"
    "snd (sshKeyFileStore_Get sc n d) = d" "snd (certificateFileStore_Get P sc n d) = d" "snd (clusterFileStore_UpdateUUID s oc u d) = d"
    by (simp_all add: inv_iff)
  show "snd (list_call f d) = d" by (simp add: list_call_def split: option.split)
qed

lemma vfs_world_cluster:
  assumes "e_store E' = vfs_ops K s"
  shows "world_cluster E' (\<lambda>w. os_wf (w_store w))"
  by unfold_locales (simp_all add: assms vfs_ops_def vfs_reads vfs_wf_ops [unfolded inv_iff, rule_format])

text \<open>Clusters of the registered providers over the file store.\<close>

definition vfs_env :: "codecs \<Rightarrow> FileStore \<Rightarrow> (os, 'x) env \<Rightarrow> 'x provider_envs \<Rightarrow> (os, 'x) env" where
  "vfs_env K s E R = registry (E\<lparr>e_store := vfs_ops K s\<rparr>) R"

interpretation vfs_world: world_upd "vfs_env K s E R" "\<lambda>w. os_wf (w_store w)" for K s E R
  unfolding vfs_env_def by (rule world_cluster.registry_world, rule vfs_world_cluster) simp

section \<open>A concrete environment\<close>

text \<open>The provider is a managed one; the JSON encoder keeps the phase of a cluster.\<close>

definition phase_codec :: "Cluster codec" where
  "phase_codec = \<lparr>marshal = (\<lambda>c. Inr (c_Phase c)), unmarshal = (\<lambda>d. Inr (set_Phase d zero_Cluster))\<rparr>"

definition demo_Parse :: "string \<Rightarrow> time" where
  "demo_Parse s = (if s = '''' then 0 else if hd s = CHR ''-'' then - int (the (parse_digits 0 (tl s)))
     else int (the (parse_digits 0 s)))"

lemma demo_Parse_show [simp]: "demo_Parse (show_int t) = t"
proof -
  have "hd (show_nat n) \<noteq> CHR ''-''" for n
  proof
    assume "hd (show_nat n) = CHR ''-''"
    then have "CHR ''-'' \<in> set (show_nat n)" by (metis hd_in_set show_nat_not_Nil)
    then have "CHR ''-'' \<in> set ''0123456789''" by (rule subsetD [OF set_show_nat])
    then show False by simp
  qed
  then show ?thesis by (simp add: demo_Parse_def show_int_def parse_show_nat)
qed

lemma no_semicolon: "CHR '';'' \<notin> set (show_int i)"
proof -
  have "CHR '';'' \<notin> set (show_nat n)" for n
  proof
    assume "CHR '';'' \<in> set (show_nat n)"
    then have "CHR '';'' \<in> set ''0123456789''" by (rule subsetD [OF set_show_nat])
    then show False by simp
  qed
  then show ?thesis by (simp add: show_int_def)
qed

text \<open>An encoding of machine sets by replica count and deletion mark.\<close>

definition show_opt :: "int option \<Rightarrow> string" where
  "show_opt v = (case v of None \<Rightarrow> ''-'' | Some i \<Rightarrow> show_int i)"

definition read_opt :: "string \<Rightarrow> int option" where
  "read_opt s = (if s = ''-'' then None else Some (demo_Parse s))"

lemma show_int_not_dash: "show_int i \<noteq> ''-''"
proof -
  have "show_nat n \<noteq> ''-''" for n
    using set_show_nat [of n] by (cases "show_nat n = ''-''") simp_all
  then show ?thesis by (simp add: show_int_def)
qed

lemma opt_codec: "read_opt (show_opt v) = v" "CHR '';'' \<notin> set (show_opt v)"
  by (cases v; simp add: read_opt_def show_opt_def show_int_not_dash no_semicolon)+

definition read_machineset :: "string \<Rightarrow> MachineSet" where
  "read_machineset d = (case split_on (CHR '';'') d of
     [r, t] \<Rightarrow> zero_MachineSet\<lparr>ms_ObjectMeta := zero_ObjectMeta\<lparr>DeletionTimestamp := read_opt t\<rparr>,
       ms_Spec := (ms_Spec zero_MachineSet)\<lparr>Replicas := map_option word_of_int (read_opt r)\<rparr>\<rparr>
   | _ \<Rightarrow> zero_MachineSet)"

definition machineset_codec :: "MachineSet codec" where
  "machineset_codec = \<lparr>marshal = (\<lambda>m. Inr (show_opt (map_option uint (Replicas (ms_Spec m))) @ '';'' @
       show_opt (DeletionTimestamp (ms_ObjectMeta m)))), unmarshal = (\<lambda>d. Inr (read_machineset d))\<rparr>"

lemma machineset_reread:
  "reread machineset_codec x = Inr (zero_MachineSet\<lparr>ms_ObjectMeta := zero_ObjectMeta\<lparr>DeletionTimestamp := DeletionTimestamp (ms_ObjectMeta x)\<rparr>,
     ms_Spec := (ms_Spec zero_MachineSet)\<lparr>Replicas := Replicas (ms_Spec x)\<rparr>\<rparr>)"
  by (simp add: reread_def machineset_codec_def read_machineset_def split_on_append opt_codec option.map_comp comp_def option.map_ident)

definition demo_codecs :: codecs where
  "demo_codecs = \<lparr>k_Cluster = phase_codec, k_Machine = machine_codec, k_MachineSet = machineset_codec,
     k_Credential = \<lparr>marshal = (\<lambda>_. Inr ''''), unmarshal = (\<lambda>_. Inl (Err ''''))\<rparr>, k_pem = plain_pem\<rparr>"

definition demo_sys :: "'x sys_ops" where
  "demo_sys = \<lparr>time_Now = ret 0, time_Parse = demo_Parse, time_Format = show_int, mrnd_Intn = (\<lambda>_. ret 0),
     uuid_NewUUID = ret ''u'', cert_NewPrivateKey = ret ''k'',
     cert_NewSelfSignedCACert = (\<lambda>cn k. ret cn), cert_NewSignedCert = (\<lambda>cn os k c ck. ret cn), cert_EncodeCertPEM = id,
     cert_EncodePrivateKeyPEM = id, ssh_NewSSHKeyPair = ret \<lparr>PublicKey = ''p'', PrivateKey = ''q'', OpensshFingerprint = ''f''\<rparr>,
     ssh_ParseSSHKeyPair = (\<lambda>a b. Inr \<lparr>PublicKey = a, PrivateKey = b, OpensshFingerprint = ''f''\<rparr>),
     json_Machine = (\<lambda>_. Inr ''{}''), json_MachineSet = (\<lambda>_. Inr ''{}''), json_Cluster = (\<lambda>_. Inr ''{}''),
     json_Credential = (\<lambda>_. Inr ''{}''), poll_ticks = 180\<rparr>"

definition demo_kube :: "'x kube_ops" where
  "demo_kube = \<lparr>kubernetes_NewForConfig = (\<lambda>_. ret ()), clientset_NewForConfig = (\<lambda>_. ret ()),
     NewClientFromKubeconfig = (\<lambda>_ _. ret ()), Pods_List = ret (), ComponentStatuses_List = ret [], MasterNodes_List = ret [],
     Namespaces_GetUID = (\<lambda>_. ret ''uid''), Namespaces_Create = (\<lambda>_. ret ()), Secrets_Get = (\<lambda>_ _. ret ()),
     Secrets_Create = (\<lambda>_ _ _. ret ()), BootstrapSecrets_List = ret [],
     bootstrap_Apply = (\<lambda>_. ret ()), bootstrap_ContextNamespace = ret ''default'',
     phases_ApplyCluster = (\<lambda>_. ret ()), template_Execute = (\<lambda>_ _ _ _. Inr '''')\<rparr>"

definition demo_capi :: "'x capi_ops" where
  "demo_capi = \<lparr>Clusters_Get = (\<lambda>_ _. ret zero_CapiCluster), Clusters_UpdateStatus = (\<lambda>_ _. ret ()),
     Machines_Get = (\<lambda>_ _. ret zero_Machine), Machines_Create = (\<lambda>_ _. ret ()), Machines_UpdateStatus = (\<lambda>_ _. ret ()),
     Machines_List = ret [], Machines_Delete = (\<lambda>_ _. ret ()), MachineSets_List = ret [], MachineSets_Delete = (\<lambda>_ _. ret ()),
     MachineDeployments_List = ret [], MachineDeployments_Delete = (\<lambda>_ _. ret ())\<rparr>"

definition demo_manager :: "('s, 'x) cloud_manager" where
  "demo_manager = \<lparr>cm_SetCloudConnector = ret (), cm_CreateCredentials = ret (),
     cm_ApplyDelete = upd_cluster (set_Phase ClusterDeleted), cm_ApplyScale = ret (), cm_SetDefaultCluster = ret (),
     cm_GetDefaultMachineProviderSpec = (\<lambda>_ _. ret None), cm_PrepareCloud = ret (), cm_EnsureMaster = (\<lambda>_. ret ()),
     cm_GetMasterSKU = (\<lambda>_. ''''), cm_GetClusterAPIComponents = ret '''', cm_GetAdminClient = ret ()\<rparr>"

text \<open>A cloud that cannot be reached.\<close>

definition offline_li :: "'x li_env" where
  "offline_li = \<lparr>l_api = \<lparr>li_GetInstance = (\<lambda>_. fail (Err ''offline'')), li_ListInstances = fail (Err ''offline''),
      li_CreateInstance_call = (\<lambda>_. fail (Err ''offline'')), li_DeleteInstance = (\<lambda>_. fail (Err ''offline'')),
      li_ListStackscripts = (\<lambda>_. fail (Err ''offline'')), li_CreateStackscript = (\<lambda>_. fail (Err ''offline'')),
      li_UpdateStackscript = (\<lambda>_ _. fail (Err ''offline'')), li_DeleteStackscript_call = (\<lambda>_. fail (Err ''offline'')),
      li_ListNodeBalancers = fail (Err ''offline''), li_GetNodeBalancer = (\<lambda>_. fail (Err ''offline'')),
      li_CreateNodeBalancer_call = (\<lambda>_ _ _. fail (Err ''offline'')), li_DeleteNodeBalancer = (\<lambda>_. fail (Err ''offline'')),
      li_CreateNodeBalancerConfig_call = (\<lambda>_ _. fail (Err ''offline'')),
      li_ListNodeBalancerConfigs = (\<lambda>_. fail (Err ''offline'')), li_CreateNodeBalancerNode = (\<lambda>_ _ _. fail (Err ''offline''))\<rparr>,
    l_cred_IsValid = (\<lambda>_. Inr ()), l_spec = \<lparr>marshal = (\<lambda>_. Inr ''{}''), unmarshal = (\<lambda>_. Inr zero_LinodeSpec)\<rparr>,
    l_mstatus = \<lparr>marshal = (\<lambda>_. Inr ''{}''), unmarshal = (\<lambda>_. Inr \<lparr>lst_InstanceID = 0, lst_InstanceStatus = ''''\<rparr>)\<rparr>,
    l_cstatus = \<lparr>marshal = (\<lambda>_. Inr ''{}''), unmarshal = (\<lambda>_. Inr \<lparr>lcs_APIServerLB = None\<rparr>)\<rparr>,
    l_startup = plain_startup, l_template = '''', l_TokenCreate = ret ''t'', l_GeneratePassword = ret ''s'',
    l_client_Status_Machine = (\<lambda>_. ret ()), l_client_Status_Cluster = (\<lambda>_. ret ()), l_Nodes_List = (\<lambda>_. ret []),
    l_Nodes_Delete = (\<lambda>_. ret ()), l_entries = (\<lambda>_. []), l_connected = (\<lambda>_. True), l_set_connected = (\<lambda>_ x. x),
    l_ControllerManager = ''''\<rparr>"

definition offline_pk :: "'x packet_env" where
  "offline_pk = \<lparr>p_api = \<lparr>
      SSHKeys_Get = (\<lambda>_. ret NotFound), SSHKeys_ProjectList = (\<lambda>_. ret ([], Some (Err ''offline''))),
      SSHKeys_Create = (\<lambda>_ _ _. fail (Err ''offline'')), Devices_Create = (\<lambda>_. fail (Err ''offline'')),
      Devices_Get = (\<lambda>_. fail (Err ''offline'')), Devices_List = (\<lambda>_. fail (Err ''offline'')),
      Devices_Delete = (\<lambda>_. fail (Err ''offline''))\<rparr>,
    p_cred_IsValid = (\<lambda>_. (False, None)), p_ProjectID = (\<lambda>_. ''''), p_APIKey = (\<lambda>_. ''''),
    p_codecs = \<lparr>pk_ClusterSpec = \<lparr>marshal = (\<lambda>_. Inr ''{}''), unmarshal = (\<lambda>_. Inr zero_PacketClusterSpec)\<rparr>,
      pk_ClusterStatus = \<lparr>marshal = (\<lambda>_. Inr ''{}''), unmarshal = (\<lambda>_. Inr zero_PacketClusterStatus)\<rparr>,
      pk_MachineSpec = \<lparr>marshal = (\<lambda>_. Inr ''{}''), unmarshal = (\<lambda>_. Inr (zero_PacketMachineSpec\<lparr>Plan := ''p''\<rparr>))\<rparr>,
      pk_MachineStatus = \<lparr>marshal = (\<lambda>_. Inr ''{}''), unmarshal = (\<lambda>_. Inr zero_PacketMachineStatus)\<rparr>\<rparr>,
    p_yaml_MachineSpec = (\<lambda>_. Inr (zero_PacketMachineSpec\<lparr>Plan := ''p''\<rparr>)), p_json_CloudConfig = (\<lambda>_. Inr ''{}''),
    p_entries = (\<lambda>_. []), p_startup = plain_startup, p_template = '''', p_TokenCreate = fail (Err ''offline''),
    p_client_Status_Machine = (\<lambda>_. fail (Err ''offline'')), p_client_Status_Cluster = (\<lambda>_. fail (Err ''offline'')),
    p_connected = (\<lambda>_. False), p_set_connected = (\<lambda>_ x. x), p_ControllerManager = ''''\<rparr>"

definition offline_dk :: "'x dokube_env" where
  "offline_dk = \<lparr>dk_api = \<lparr>
      dk_Tags_Create = (\<lambda>_. fail (Err ''offline'')), dk_Tags_Delete = (\<lambda>_. fail (Err ''offline'')),
      Kubernetes_Create = (\<lambda>_. fail (Err ''offline'')), Kubernetes_Get = (\<lambda>_. fail (Err ''offline'')),
      Kubernetes_Delete = (\<lambda>_. fail (Err ''offline'')), Kubernetes_GetKubeConfig = (\<lambda>_. fail (Err ''offline'')),
      Kubernetes_ListNodePools = (\<lambda>_. fail (Err ''offline'')), Kubernetes_GetNodePool = (\<lambda>_ _. fail (Err ''offline'')),
      Kubernetes_CreateNodePool = (\<lambda>_ _. fail (Err ''offline'')), Kubernetes_UpdateNodePool = (\<lambda>_ _ _ _. fail (Err ''offline'')),
      Kubernetes_DeleteNodePool = (\<lambda>_ _. fail (Err ''offline''))\<rparr>,
    dk_cred_IsValid = (\<lambda>_. (False, None)), dk_json = (\<lambda>_. Inr ''{}''), dk_yaml = (\<lambda>_. Inr zero_DokubeConfig),
    dk_url_Host = Inr, dk_Load = (\<lambda>_. Inl (Err ''offline'')),
    dk_pem = plain_pem,
    dk_connected = (\<lambda>_. True), dk_set_connected = (\<lambda>_ x. x)\<rparr>"

definition demo_env :: "(os, 'x) env" where
  "demo_env = \<lparr>e_store = vfs_ops demo_codecs demo_store, e_sys = demo_sys, e_kube = demo_kube, e_capi = demo_capi,
     e_providers = [''gke'' \<mapsto> demo_manager], e_image = ''''\<rparr>"

definition demo_cluster :: Cluster where
  "demo_cluster = upd_CloudSpec (\<lambda>s. s\<lparr>CloudProvider := ''gke''\<rparr>) (set_Phase ClusterPending (named_cluster ''c1''))"

definition demo_world :: "(os, unit) world" where
  "demo_world = \<lparr>w_Cluster = demo_cluster, w_Certs = None, w_CloudManager = Some ''gke'', w_AdminClient = True,
     w_store = \<lparr>cwd = ''/'', fs = [(''/p'', Dir), (''/p/clusters'', Dir), (''/p/clusters/c1.json'', File ''Pending'')]\<rparr>, w_ext = ()\<rparr>"

lemmas demo_env_defs = demo_codecs_def demo_sys_def demo_kube_def demo_capi_def demo_manager_def demo_env_def

lemma demo_cluster_fields: "is_managed demo_cluster" "c_Name demo_cluster = ''c1''"
  by (simp_all add: demo_cluster_def is_managed_def cluster_upd ManagedProviders_def)

lemma demo_path: "filepath_Join [container demo_store, clusterFileStore_resourceID demo_store ''c1''] = ''/p/clusters/c1.json''"
  "\<not> filepath_IsAbs (clusterFileStore_resourceID demo_store ''c1'')"
  by (simp_all add: clusterFileStore_resourceID_def clusterFileStore_resourceHome_def demo_defs filepath_Join_def
      filepath_Clean_def clean_step_def filepath_IsAbs_def has_prefix_def)

lemma demo_stat: "fs st = [(''/p'', Dir), (''/p/clusters'', Dir), (''/p/clusters/c1.json'', File d)] \<Longrightarrow>
    os_Stat st ''/p/clusters/c1.json'' = Stat_Found (File d)"
  by (simp add: os_Stat_def os_resolve_def filepath_IsAbs_def has_prefix_def filepath_Clean_def clean_step_def path_segs_def
      ancestors_def abs_path_def is_file_def)

lemma demo_store_run:
  assumes "w_store w = w_store demo_world" "c_Name c = ''c1''"
  shows "\<exists>y. clusterFileStore_UpdateUUID demo_store (Some c) u (w_store w) = (Inr y, w_store w)"
    and "\<exists>y st'. clusterFileStore_UpdateStatus phase_codec demo_store (Some c) (w_store w) = (Inr y, st')"
proof -
  let ?st = "w_store demo_world"
  have item: "stow_Item (container demo_store) (clusterFileStore_resourceID demo_store ''c1'') ?st = Inr ''/p/clusters/c1.json''"
    by (simp add: stow_Item_def demo_path demo_stat demo_world_def)
  have read: "os_ReadFile ''/p/clusters/c1.json'' ?st = Inr ''Pending''"
    by (simp add: os_ReadFile_def demo_stat demo_world_def)
  have put: "\<exists>p st'. stow_Put (container demo_store) (clusterFileStore_resourceID demo_store ''c1'') d ?st = (Inr p, st')" for d
  proof -
    have path: "abs_path ([''p'', ''clusters''] @ [''c1.json'']) = ''/p/clusters/c1.json''" by (simp add: abs_path_def)
    have segs: "plain_segs [''p'', ''clusters'']" "plain_seg ''c1.json''" by (simp_all add: plain_seg_def)
    have dirs: "dirs_ok ?st [''p'', ''clusters'']"
      by (simp add: dirs_ok_def demo_world_def ancestors_def path_segs_def abs_path_def is_file_def)
    have nodir: "map_of (fs ?st) (abs_path ([''p'', ''clusters''] @ [''c1.json''])) \<noteq> Some Dir"
      unfolding path by (simp add: demo_world_def)
    show ?thesis
      by (rule Put_child [OF _ segs dirs nodir demo_path(1) [folded path], of d]) blast+
  qed
  show "\<exists>y. clusterFileStore_UpdateUUID demo_store (Some c) u (w_store w) = (Inr y, w_store w)"
    using assms item by (simp add: clusterFileStore_UpdateUUID_def Let_def prog_run)
  show "\<exists>y st'. clusterFileStore_UpdateStatus phase_codec demo_store (Some c) (w_store w) = (Inr y, st')"
  proof -
    obtain p st' where "stow_Put (container demo_store) (clusterFileStore_resourceID demo_store ''c1'') (c_Phase c) ?st = (Inr p, st')"
      using put by blast
    then show ?thesis
      using assms item read by (simp add: clusterFileStore_UpdateStatus_def read_object_def put_object_def Let_def prog_run phase_codec_def cluster_upd)
  qed
qed

lemma poll_at_once: "cond w = (Inr True, w') \<Longrightarrow> PollImmediate n cond w = (Inr (), w')"
  by (simp add: PollImmediate_def prog_run)

lemma demo_wait: "WaitForReadyMaster demo_env w = (Inr (), w)"
proof -
  have "waitForReadyAPIServer demo_env w = (Inr (), w)" unfolding waitForReadyAPIServer_def
    by (rule poll_at_once) (simp add: ok_or_false_def prog_run on_ext_def demo_env_defs)
  moreover have "waitForReadyComponents demo_env w = (Inr (), w)" unfolding waitForReadyComponents_def
    by (rule poll_at_once) (simp add: ok_or_false_def prog_run on_ext_def demo_env_defs)
  ultimately show ?thesis by (simp add: WaitForReadyMaster_def prog_run)
qed

end
