(* ===== verification/Store_Vfs_Frame.thy ===== *)
theory Store_Vfs_Frame
  imports Store_Vfs_Props
begin

text \<open>
  Which files the operations of the file store touch: the one of the object they are given and no other, whatever the state of the file
  system and whether they succeed or fail.
\<close>

section \<open>Changes within a set of paths\<close>

text \<open>Outside \<open>P\<close> everything is as before, but for directories that were created.\<close>

definition within :: "string set \<Rightarrow> os \<Rightarrow> os \<Rightarrow> bool" where
  "within P st t \<longleftrightarrow> cwd t = cwd st \<and>
     (\<forall>p. p \<notin> P \<longrightarrow> map_of (fs t) p = map_of (fs st) p \<or> map_of (fs st) p = None \<and> map_of (fs t) p = Some Dir)"

lemma within_refl [simp]: "within P st st"
  by (simp add: within_def)

lemma within_trans: "within P st t \<Longrightarrow> within P t u \<Longrightarrow> within P st u"
  unfolding within_def by metis

lemma within_mono: "within P st t \<Longrightarrow> P \<subseteq> P' \<Longrightarrow> within P' st t"
  unfolding within_def by blast

lemma within_file: "within P st t \<Longrightarrow> p \<notin> P \<Longrightarrow> map_of (fs st) p = Some (File b) \<Longrightarrow> map_of (fs t) p = Some (File b)"
  unfolding within_def by (metis option.distinct(1))

lemma mkdirs_within:
  "mkdirs ps f = Inr f' \<Longrightarrow> map_of f' q = map_of f q \<or> map_of f q = None \<and> map_of f' q = Some Dir"
proof (induction ps arbitrary: f)
  case (Cons p ps)
  show ?case
  proof (cases "map_of f p")
    case None
    then have "mkdirs ps (AList.update p Dir f) = Inr f'" using Cons.prems by simp
    from Cons.IH [OF this] show ?thesis using None by (auto simp: update_conv' split: if_splits)
  qed (use Cons in \<open>auto split: node.splits\<close>)
qed simp

lemma Put_within:
  assumes "stow_Put c i b st = (r, t)" "filepath_Join [c, i] = abs_path segs" "segs \<noteq> []" "plain_segs segs"
  shows "within {abs_path segs} st t \<and> (is_ok r \<longrightarrow> map_of (fs t) (abs_path segs) = Some (File b))"
proof -
  obtain q u where mk: "os_MkdirAll (filepath_Dir (abs_path segs)) st = (q, u)" by fastforce
  have u: "within {abs_path segs} st u"
    using mk by (auto simp: os_MkdirAll_def within_def dest: mkdirs_within split: sum.splits)
  show ?thesis
  proof (cases q)
    case (Inl e)
    then show ?thesis using mk u assms(1,2) by (auto simp: stow_Put_def Let_def prog_run is_ok_def)
  next
    case (Inr x)
    obtain q' v where wr: "os_WriteFile (abs_path segs) b u = (q', v)" by fastforce
    have v: "within {abs_path segs} u v" "is_ok q' \<longrightarrow> map_of (fs v) (abs_path segs) = Some (File b)"
      using wr assms(3,4) by (auto simp: os_WriteFile_def within_def is_ok_def update_conv' split: stat_result.splits node.splits)
    have "t = v" "is_ok r = is_ok q'"
      using assms(1,2) mk wr Inr by (auto simp: stow_Put_def Let_def prog_run is_ok_def split: sum.splits)
    then show ?thesis using within_trans [OF u v(1)] v(2) by simp
  qed
qed

lemma Remove_within:
  assumes "os_Remove p st = (r, t)" "os_resolve st p = q"
  shows "within {q} st t \<and> (is_ok r \<longrightarrow> map_of (fs t) q = None) \<and> (\<forall>x. map_of (fs st) x = None \<longrightarrow> map_of (fs t) x = None)"
  using assms by (auto simp: os_Remove_def within_def is_ok_def delete_conv' split: stat_result.splits if_splits)

section \<open>What an operation writes and removes\<close>

text \<open>The file of a store at the end of a path below its container.\<close>

definition in_store :: "'z FileStore_scheme \<Rightarrow> string list \<Rightarrow> string" where
  "in_store s ids = abs_path (path_segs (container s) @ ids)"

definition touches :: "string set \<Rightarrow> (os, 'a) prog \<Rightarrow> bool" where
  "touches P m \<longleftrightarrow> (\<forall>st. within P st (snd (m st)))"

text \<open>The files of \<open>fs\<close> are the only ones touched, and hold their data if the operation succeeds.\<close>

definition writes :: "(string \<times> bytes res) list \<Rightarrow> (os, 'a) prog \<Rightarrow> bool" where
  "writes files m \<longleftrightarrow> touches (fst ` set files) m \<and>
     (\<forall>st x. fst (m st) = Inr x \<longrightarrow> (\<forall>(p, d) \<in> set files. \<exists>b. d = Inr b \<and> map_of (fs (snd (m st))) p = Some (File b)))"

definition removes :: "string list \<Rightarrow> (os, 'a) prog \<Rightarrow> bool" where
  "removes ps m \<longleftrightarrow> touches (set ps) m \<and> (\<forall>st x. fst (m st) = Inr x \<longrightarrow> (\<forall>p \<in> set ps. map_of (fs (snd (m st))) p = None))"

lemma touchesI:
  assumes "\<And>st. invariant_of (within P st) m"
  shows "touches P m"
proof -
  have "within P st (snd (m st))" for st
    using valid_Inr [OF assms, of st st] valid_Inl [OF assms, of st st] by (cases "m st"; cases "fst (m st)") auto
  then show ?thesis by (simp add: touches_def)
qed

lemma writesI:
  assumes "\<And>st. valid (within (fst ` set files) st) m
    (\<lambda>_ t. within (fst ` set files) st t \<and> (\<forall>(p, d) \<in> set files. \<exists>b. d = Inr b \<and> map_of (fs t) p = Some (File b))) (\<lambda>_. within (fst ` set files) st)"
  shows "writes files m"
proof -
  have "touches (fst ` set files) m" by (rule touchesI, rule valid_weaken [OF assms]) auto
  moreover have "\<forall>(p, d) \<in> set files. \<exists>b. d = Inr b \<and> map_of (fs (snd (m st))) p = Some (File b)" if "fst (m st) = Inr x" for st x
    using valid_Inr [OF assms, of st st x "snd (m st)"] that by (cases "m st") simp
  ultimately show ?thesis unfolding writes_def by blast
qed

lemma removesI:
  assumes "\<And>st. valid (within (set ps) st) m (\<lambda>_ t. within (set ps) st t \<and> (\<forall>p \<in> set ps. map_of (fs t) p = None)) (\<lambda>_. within (set ps) st)"
  shows "removes ps m"
proof -
  have "touches (set ps) m" by (rule touchesI, rule valid_weaken [OF assms]) auto
  moreover have "\<forall>p \<in> set ps. map_of (fs (snd (m st))) p = None" if "fst (m st) = Inr x" for st x
    using valid_Inr [OF assms, of st st x "snd (m st)"] that by (cases "m st") simp
  ultimately show ?thesis unfolding removes_def by blast
qed

section \<open>The calls\<close>

lemma valid_Put:
  assumes "item_at c i segs f" "plain_segs (segs @ [f])" "abs_path (segs @ [f]) \<in> P"
    and "\<And>t u. R t \<Longrightarrow> within {abs_path (segs @ [f])} t u \<Longrightarrow> R u"
  shows "valid (\<lambda>t. within P st t \<and> R t) (stow_Put c i b)
    (\<lambda>_ t. within P st t \<and> R t \<and> map_of (fs t) (abs_path (segs @ [f])) = Some (File b)) (\<lambda>_. within P st)"
proof -
  have put: "within {abs_path (segs @ [f])} t u \<and> (is_ok r \<longrightarrow> map_of (fs u) (abs_path (segs @ [f])) = Some (File b))"
    if "stow_Put c i b t = (r, u)" for t r u
    by (rule Put_within [OF that]) (use assms in \<open>auto simp: item_at_def\<close>)
  have grow: "within {abs_path (segs @ [f])} t u \<Longrightarrow> within P st t \<Longrightarrow> within P st u" for t u
    using within_trans within_mono assms(3) by (metis empty_subsetI insert_subset)
  show ?thesis by (rule validI) (use put grow assms(4) in \<open>force simp: is_ok_def\<close>)+
qed

lemma valid_put_object:
  assumes "item_at c i segs f" "plain_segs (segs @ [f])"
  shows "valid (within {abs_path (segs @ [f])} st) (bindp (put_object J c i x) (\<lambda>_. ret y))
    (\<lambda>_ t. within {abs_path (segs @ [f])} st t \<and> (\<exists>b. marshal J x = Inr b \<and> map_of (fs t) (abs_path (segs @ [f])) = Some (File b)))
    (\<lambda>_. within {abs_path (segs @ [f])} st)"
proof (cases "marshal J x")
  case (Inr b)
  have "valid (within {abs_path (segs @ [f])} st) (stow_Put c i b)
      (\<lambda>_ t. within {abs_path (segs @ [f])} st t \<and> map_of (fs t) (abs_path (segs @ [f])) = Some (File b)) (\<lambda>_. within {abs_path (segs @ [f])} st)"
    using valid_Put [where R = "\<lambda>_. True", OF assms, of "{abs_path (segs @ [f])}" st b] by simp
  then show ?thesis by (fastforce simp: put_object_def Inr valid_def prog_run split: prod.splits sum.splits)
qed (simp add: put_object_def valid_def prog_run)

lemma valid_Remove:
  assumes "segs \<noteq> []" "plain_segs segs" "abs_path segs \<in> P"
  shows "valid (\<lambda>t. within P st t \<and> (\<forall>q \<in> D. map_of (fs t) q = None)) (stow_RemoveItem (abs_path segs))
    (\<lambda>_ t. within P st t \<and> (\<forall>q \<in> insert (abs_path segs) D. map_of (fs t) q = None)) (\<lambda>_. within P st)"
proof -
  have rm: "within {abs_path segs} t u \<and> (is_ok r \<longrightarrow> map_of (fs u) (abs_path segs) = None) \<and> (\<forall>x. map_of (fs t) x = None \<longrightarrow> map_of (fs u) x = None)"
    if "os_Remove (abs_path segs) t = (r, u)" for t r u
    by (rule Remove_within [OF that]) (use assms in simp)
  have grow: "within {abs_path segs} t u \<Longrightarrow> within P st t \<Longrightarrow> within P st u" for t u
    using within_trans within_mono assms(3) by (metis empty_subsetI insert_subset)
  show ?thesis unfolding stow_RemoveItem_def by (rule validI) (use rm grow in \<open>force simp: is_ok_def\<close>)+
qed

text \<open>An item that is found has the path of the item.\<close>

lemma valid_Item:
  assumes "item_at c i segs f" "valid I (g (abs_path (segs @ [f]))) Q F" "\<And>e t. I t \<Longrightarrow> F e t"
  shows "valid I (bindp (reason m (query (stow_Item c i))) g) Q F"
proof -
  have "stow_Item c i t = Inr p \<Longrightarrow> p = abs_path (segs @ [f])" for t p
    using assms(1) by (auto simp: stow_Item_def item_at_def Let_def split: stat_result.splits node.splits)
  then show ?thesis using assms(2,3)
    by (fastforce simp: valid_def prog_run split: prod.splits sum.splits)
qed

lemma valid_look:
  assumes "\<And>r. valid I (g r) Q F" "\<And>e t. I t \<Longrightarrow> F e t"
  shows "valid I (bindp (attempt (query q)) g) Q F"
  using assms by (fastforce simp: valid_def prog_run split: prod.splits sum.splits gerror.splits)

section \<open>The shapes of the operations\<close>

lemma create_writes:
  assumes "item_at c i segs f" "plain_segs (segs @ [f])"
  shows "writes [(abs_path (segs @ [f]), marshal J x)] (bindp (attempt (query (stow_Item c i)))
    (\<lambda>r. if is_ok r then fail e else bindp (put_object J c i x) (\<lambda>_. ret y)))"
proof (rule writesI, rule valid_look)
  show "valid (within (fst ` set [(abs_path (segs @ [f]), marshal J x)]) st) (if is_ok r then fail e else bindp (put_object J c i x) (\<lambda>_. ret y))
      (\<lambda>_ t. within (fst ` set [(abs_path (segs @ [f]), marshal J x)]) st t \<and>
         (\<forall>(p, d) \<in> set [(abs_path (segs @ [f]), marshal J x)]. \<exists>b. d = Inr b \<and> map_of (fs t) p = Some (File b)))
      (\<lambda>_. within (fst ` set [(abs_path (segs @ [f]), marshal J x)]) st)" for st and r :: "string res"
    using valid_put_object [OF assms, of st J x y] by (cases "is_ok r") (simp_all add: valid_def run_simps)
qed

lemma update_writes:
  assumes "item_at c i segs f" "plain_segs (segs @ [f])"
  shows "writes [(abs_path (segs @ [f]), marshal J x)] (bindp (reason m (query (stow_Item c i)))
    (\<lambda>_. bindp (put_object J c i x) (\<lambda>_. ret y)))"
  by (rule writesI, rule valid_Item [OF assms(1)]) (use valid_put_object [OF assms, of _ J x y] in simp_all)

lemma status_touches:
  assumes "item_at c i segs f" "plain_segs (segs @ [f])"
  shows "touches {abs_path (segs @ [f])} (bindp (reason m (query (stow_Item c i))) (\<lambda>item.
    bindp (read_object J item) (\<lambda>e. bindp (put_object J c i (h e)) (\<lambda>_. ret (h e)))))"
proof (rule touchesI, rule valid_Item [OF assms(1)])
  fix st
  have put: "invariant_of (within {abs_path (segs @ [f])} st) (bindp (put_object J c i (h e)) (\<lambda>_. ret (h e)))" for e
    by (rule valid_weaken [OF valid_put_object [OF assms, of st J "h e" "h e"]]) auto
  show "invariant_of (within {abs_path (segs @ [f])} st) (bindp (read_object J (abs_path (segs @ [f]))) (\<lambda>e.
      bindp (put_object J c i (h e)) (\<lambda>_. ret (h e))))"
    unfolding read_object_def by (intro inv_rules put)
qed

lemma delete_removes:
  assumes "item_at c i segs f" "plain_segs (segs @ [f])"
  shows "removes [abs_path (segs @ [f])] (bindp (reason m (query (stow_Item c i))) (\<lambda>item. stow_RemoveItem item))"
    and "removes [abs_path (segs @ [f])] (stow_RemoveItem (filepath_Join [c, i]))"
proof -
  have rm: "valid (within {abs_path (segs @ [f])} st) (stow_RemoveItem (abs_path (segs @ [f])))
      (\<lambda>_ t. within {abs_path (segs @ [f])} st t \<and> map_of (fs t) (abs_path (segs @ [f])) = None) (\<lambda>_. within {abs_path (segs @ [f])} st)" for st
    using valid_Remove [of "segs @ [f]" "{abs_path (segs @ [f])}" st "{}"] assms(2) by simp
  show "removes [abs_path (segs @ [f])] (bindp (reason m (query (stow_Item c i))) (\<lambda>item. stow_RemoveItem item))"
    by (rule removesI, rule valid_Item [OF assms(1)]) (use rm in simp_all)
  have "filepath_Join [c, i] = abs_path (segs @ [f])" using assms(1) by (simp add: item_at_def)
  then show "removes [abs_path (segs @ [f])] (stow_RemoveItem (filepath_Join [c, i]))"
    by (intro removesI) (use rm in simp_all)
qed

text \<open>Two files, the second written or removed after the first.\<close>

lemma pair_writes:
  assumes i: "item_at c i segs f" "plain_segs (segs @ [f])" and j: "item_at c j segs g" "plain_segs (segs @ [g])" and "f \<noteq> g"
  shows "writes [(abs_path (segs @ [f]), Inr a), (abs_path (segs @ [g]), Inr b)] (bindp (attempt (query (stow_Item c i))) (\<lambda>r.
    if is_ok r then fail e else bindp (reason m (stow_Put c i a)) (\<lambda>_. bindp (attempt (query (stow_Item c j))) (\<lambda>r2.
    if is_ok r2 then fail e2 else bindp (reason m2 (stow_Put c j b)) (\<lambda>_. ret ())))))"
proof (rule writesI, rule valid_look)
  let ?p = "abs_path (segs @ [f])" and ?q = "abs_path (segs @ [g])"
  fix st and r :: "string res"
  let ?I = "within {?p, ?q} st" and ?P = "\<lambda>t. map_of (fs t) ?p = Some (File a)" and ?Q = "\<lambda>t. map_of (fs t) ?q = Some (File b)"
  have pq: "?p \<noteq> ?q" using abs_path_inj [of "segs @ [f]" "segs @ [g]"] assms by auto
  have first: "valid ?I (reason m (stow_Put c i a)) (\<lambda>_ t. ?I t \<and> ?P t) (\<lambda>_. ?I)"
    using valid_Put [where R = "\<lambda>_. True", OF i, of "{?p, ?q}" st a]
    by (fastforce simp: valid_def prog_run split: prod.splits sum.splits)
  have "valid (\<lambda>t. ?I t \<and> ?P t) (stow_Put c j b) (\<lambda>_ t. ?I t \<and> ?P t \<and> ?Q t) (\<lambda>_. ?I)"
    by (rule valid_Put [OF j]) (use pq within_file in auto)
  then have second: "valid (\<lambda>t. ?I t \<and> ?P t) (bindp (reason m2 (stow_Put c j b)) (\<lambda>_. ret ())) (\<lambda>_ t. ?I t \<and> ?P t \<and> ?Q t) (\<lambda>_. ?I)"
    by (fastforce simp: valid_def prog_run split: prod.splits sum.splits)
  have "valid (\<lambda>t. ?I t \<and> ?P t) (bindp (attempt (query (stow_Item c j))) (\<lambda>r2. if is_ok r2 then fail e2 else bindp (reason m2 (stow_Put c j b)) (\<lambda>_. ret ())))
      (\<lambda>_ t. ?I t \<and> ?P t \<and> ?Q t) (\<lambda>_. ?I)"
  proof (rule valid_look)
    show "valid (\<lambda>t. ?I t \<and> ?P t) (if is_ok r2 then fail e2 else bindp (reason m2 (stow_Put c j b)) (\<lambda>_. ret ())) (\<lambda>_ t. ?I t \<and> ?P t \<and> ?Q t) (\<lambda>_. ?I)"
      for r2 :: "string res" using second by (cases "is_ok r2") (simp_all add: valid_def run_simps)
  qed simp
  from valid_bindp [OF first this]
  show "valid (within (fst ` set [(?p, Inr a), (?q, Inr b)]) st) (if is_ok r then fail e else bindp (reason m (stow_Put c i a)) (\<lambda>_.
      bindp (attempt (query (stow_Item c j))) (\<lambda>r2. if is_ok r2 then fail e2 else bindp (reason m2 (stow_Put c j b)) (\<lambda>_. ret ()))))
      (\<lambda>_ t. within (fst ` set [(?p, Inr a), (?q, Inr b)]) st t \<and>
         (\<forall>(p, d) \<in> set [(?p, Inr a), (?q, Inr b)]. \<exists>x. d = Inr x \<and> map_of (fs t) p = Some (File x)))
      (\<lambda>_. within (fst ` set [(?p, Inr a), (?q, Inr b)]) st)"
    by (cases "is_ok r") (simp_all add: valid_def run_simps)
qed simp

lemma pair_removes:
  assumes i: "item_at c i segs f" "plain_segs (segs @ [f])" and j: "item_at c j segs g" "plain_segs (segs @ [g])"
  shows "removes [abs_path (segs @ [f]), abs_path (segs @ [g])] (bindp (reason m (query (stow_Item c i))) (\<lambda>x.
    bindp (reason m2 (stow_RemoveItem x)) (\<lambda>_. bindp (reason m3 (query (stow_Item c j))) (\<lambda>y. reason m4 (stow_RemoveItem y)))))"
proof (rule removesI, rule valid_Item [OF i(1)])
  let ?p = "abs_path (segs @ [f])" and ?q = "abs_path (segs @ [g])"
  fix st
  let ?I = "within {?p, ?q} st"
  have first: "valid ?I (reason m2 (stow_RemoveItem ?p)) (\<lambda>_ t. ?I t \<and> map_of (fs t) ?p = None) (\<lambda>_. ?I)"
    using valid_Remove [of "segs @ [f]" "{?p, ?q}" st "{}"] i(2) by (fastforce simp: valid_def prog_run split: prod.splits sum.splits)
  have "valid (\<lambda>t. ?I t \<and> map_of (fs t) ?p = None) (reason m4 (stow_RemoveItem ?q)) (\<lambda>_ t. ?I t \<and> map_of (fs t) ?q = None \<and> map_of (fs t) ?p = None) (\<lambda>_. ?I)"
    using valid_Remove [of "segs @ [g]" "{?p, ?q}" st "{?p}"] j(2) by (fastforce simp: valid_def prog_run split: prod.splits sum.splits)
  from valid_Item [where g = "\<lambda>y. reason m4 (stow_RemoveItem y)", OF j(1) this, of m3]
  have "valid (\<lambda>t. ?I t \<and> map_of (fs t) ?p = None) (bindp (reason m3 (query (stow_Item c j))) (\<lambda>y. reason m4 (stow_RemoveItem y)))
      (\<lambda>_ t. ?I t \<and> map_of (fs t) ?q = None \<and> map_of (fs t) ?p = None) (\<lambda>_. ?I)" by simp
  from valid_bindp [OF first this]
  show "valid (within (set [?p, ?q]) st) (bindp (reason m2 (stow_RemoveItem ?p)) (\<lambda>_. bindp (reason m3 (query (stow_Item c j))) (\<lambda>y. reason m4 (stow_RemoveItem y))))
      (\<lambda>_ t. within (set [?p, ?q]) st t \<and> (\<forall>p \<in> set [?p, ?q]. map_of (fs t) p = None)) (\<lambda>_. within (set [?p, ?q]) st)"
    by (rule valid_weaken) auto
qed simp

lemma no_effect: "writes files (fail e)" "removes ps (fail e)" "touches P (fail e)"
  by (simp_all add: writes_def removes_def touches_def run_simps)

lemma writes_if: "writes files m \<Longrightarrow> writes files m' \<Longrightarrow> writes files (if b then m else m')"
  by simp

section \<open>Every operation and its file\<close>

lemma store_path: "abs_path (clusters_dir s @ [f]) = in_store s [''clusters'', f]"
    "abs_path (credentials_dir s @ [f]) = in_store s [''credentials'', f]"
    "abs_path (scope_dir sc k @ [f]) = in_store sc [''clusters'', cluster sc, k, f]"
  by (simp_all add: in_store_def clusters_dir_def credentials_dir_def scope_dir_def)

lemma plain_dirs:
  assumes "vfs_store s" "vfs_scope sc" "plain_seg k" "plain_seg f"
  shows "plain_segs (clusters_dir s @ [f])" "plain_segs (credentials_dir s @ [f])" "plain_segs (scope_dir sc k @ [f])"
  using assms by (auto simp: vfs_store_def vfs_scope_def clusters_dir_def credentials_dir_def scope_dir_def plain_consts)

text \<open>The machine store passes the path below the container to \<^verbatim>\<open>RemoveItem\<close>.\<close>

lemma machine_delete_touches:
  assumes "vfs_scope sc" "legal_name n"
  shows "within {filepath_Join [cwd st, ''clusters/'' @ cluster sc @ ''/machine/'' @ n @ ''.json'']} st (snd (machineFileStore_Delete sc n st))"
proof -
  have plain: "plain_segs [''clusters'', cluster sc, ''machine'']" "plain_seg (n @ ''.json'')"
    using assms plain_seg_name [OF assms(2)] by (simp_all add: vfs_scope_def plain_consts)
  have "machineFileStore_resourceHome sc = join ''/'' [''clusters'', cluster sc, ''machine'']"
    using filepath_Join_plain [of "[''clusters'', cluster sc, ''machine'']"] plain(1) assms(1)
    by (simp add: machineFileStore_resourceHome_def vfs_scope_def vfs_store_def)
  then have "machineFileStore_resourceID sc n = join ''/'' ([''clusters'', cluster sc, ''machine''] @ [n @ ''.json''])"
    using Join_id [OF _ plain] by (simp add: machineFileStore_resourceID_def)
  then have i: "machineFileStore_resourceID sc n = ''clusters/'' @ cluster sc @ ''/machine/'' @ n @ ''.json''" by simp
  have "\<not> filepath_IsAbs (machineFileStore_resourceID sc n)" using machines_at [OF assms] by (simp add: item_at_def)
  then have "os_resolve st (machineFileStore_resourceID sc n) = filepath_Join [cwd st, ''clusters/'' @ cluster sc @ ''/machine/'' @ n @ ''.json'']"
    by (simp add: os_resolve_def i)
  then show ?thesis
    using Remove_within [of "machineFileStore_resourceID sc n" st "fst (os_Remove (machineFileStore_resourceID sc n) st)"
        "snd (os_Remove (machineFileStore_resourceID sc n) st)"]
    by (simp add: machineFileStore_Delete_def stow_RemoveItem_def run_simps)
qed

text \<open>C13. An operation of the file store touches the file of its object and no other, in any state of the file system and whether it succeeds
  or fails: every other file keeps its content, no file and no directory goes, and directories are all that is new.  Where \<^verbatim>\<open>Create\<close> or
  \<^verbatim>\<open>Update\<close> succeeds, the file holds the encoding of the object, and where \<^verbatim>\<open>Delete\<close> succeeds it is gone.  SSH keys and certificates
  have two files.  Deletion of a machine is the exception: it touches the file at that path below the working directory of the process, and so
  no file of the store, unless the process runs there.\<close>

theorem store_touches_own_file:
  assumes "vfs_store s" "vfs_scope sc" "legal_name n" "c_Name c = n" "cr_Name cr = n" "m_Name m = n" "ms_Name ms = n"
  shows
   "writes [(in_store s [''clusters'', n @ ''.json''], marshal J (assign_Cluster c))] (clusterFileStore_Create J s (Some c)) \<and>
    writes [(in_store s [''clusters'', n @ ''.json''], marshal J (assign_Cluster c))] (clusterFileStore_Update J s (Some c)) \<and>
    touches {in_store s [''clusters'', n @ ''.json'']} (clusterFileStore_UpdateStatus J s (Some c)) \<and>
    removes [in_store s [''clusters'', n @ ''.json'']] (clusterFileStore_Delete s n) \<and>
    writes [(in_store s [''credentials'', n @ ''.json''], marshal C (assign_Credential cr))] (credentialFileStore_Create C s (Some cr)) \<and>
    writes [(in_store s [''credentials'', n @ ''.json''], marshal C (assign_Credential cr))] (credentialFileStore_Update C s (Some cr)) \<and>
    removes [in_store s [''credentials'', n @ ''.json'']] (credentialFileStore_Delete s n) \<and>
    writes [(in_store sc [''clusters'', cluster sc, ''machine'', n @ ''.json''], marshal M (assign_Machine m))] (machineFileStore_Create M sc (Some m)) \<and>
    writes [(in_store sc [''clusters'', cluster sc, ''machine'', n @ ''.json''], marshal M (assign_Machine m))] (machineFileStore_Update M sc (Some m)) \<and>
    touches {in_store sc [''clusters'', cluster sc, ''machine'', n @ ''.json'']} (machineFileStore_UpdateStatus M sc (Some m)) \<and>
    (\<forall>st. within {filepath_Join [cwd st, ''clusters/'' @ cluster sc @ ''/machine/'' @ n @ ''.json'']} st (snd (machineFileStore_Delete sc n st))) \<and>
    writes [(in_store sc [''clusters'', cluster sc, ''machineset'', n @ ''.json''], marshal S (assign_MachineSet ms))] (machineSetFileStore_Create S sc (Some ms)) \<and>
    writes [(in_store sc [''clusters'', cluster sc, ''machineset'', n @ ''.json''], marshal S (assign_MachineSet ms))] (machineSetFileStore_Update S sc (Some ms)) \<and>
    touches {in_store sc [''clusters'', cluster sc, ''machineset'', n @ ''.json'']} (machineSetFileStore_UpdateStatus S sc (Some ms)) \<and>
    removes [in_store sc [''clusters'', cluster sc, ''machineset'', n @ ''.json'']] (machineSetFileStore_Delete sc n) \<and>
    writes [(in_store sc [''clusters'', cluster sc, ''ssh'', ''id_'' @ n @ ''.pub''], Inr pub), (in_store sc [''clusters'', cluster sc, ''ssh'', ''id_'' @ n], Inr priv)]
      (sshKeyFileStore_Create sc n pub priv) \<and>
    removes [in_store sc [''clusters'', cluster sc, ''ssh'', ''id_'' @ n @ ''.pub''], in_store sc [''clusters'', cluster sc, ''ssh'', ''id_'' @ n]]
      (sshKeyFileStore_Delete sc n) \<and>
    writes [(in_store sc [''clusters'', cluster sc, ''pki'', n @ ''.crt''], Inr (EncodeCertPEM P crt)),
        (in_store sc [''clusters'', cluster sc, ''pki'', n @ ''.key''], Inr (EncodePrivateKeyPEM P key))]
      (certificateFileStore_Create P sc n (Some crt) (Some key)) \<and>
    removes [in_store sc [''clusters'', cluster sc, ''pki'', n @ ''.crt''], in_store sc [''clusters'', cluster sc, ''pki'', n @ ''.key'']]
      (certificateFileStore_Delete sc n)"
proof -
  have slash: "CHR ''/'' \<notin> set n" and ne: "n \<noteq> ''''" using assms(3) by (simp_all add: legal_name_def)
  have sc: "cluster sc \<noteq> ''''" using assms(2) by (rule scope_cluster_nonempty)
  have names: "c_Name (assign_Cluster c) = n" "cr_Name (assign_Credential cr) = n" "m_Name (assign_Machine m) = n" "ms_Name (assign_MachineSet ms) = n"
    using assms(4-7) by simp_all
  note json = plain_seg_name [OF assms(3)]
  note dirs = plain_dirs [OF assms(1,2)]
  note at = clusters_at [OF assms(1,3)] credentials_at [OF assms(1,3)] machines_at [OF assms(2,3)] machinesets_at [OF assms(2,3)]
  note plain = dirs(1,2) [OF plain_consts(1) json] dirs(3) [OF plain_consts(3) json] dirs(3) [OF plain_consts(4) json]
  note keys = ssh_at [OF assms(2) slash] dirs(3) [OF plain_consts(5) plain_key(1) [OF slash]] dirs(3) [OF plain_consts(5) plain_key(2) [OF slash]]
  note crts = crt_at [OF assms(2) slash] dirs(3) [OF plain_consts(6) plain_crt(1) [OF slash]] dirs(3) [OF plain_consts(6) plain_crt(2) [OF slash]]
  show ?thesis
    unfolding clusterFileStore_Create_def clusterFileStore_Update_def clusterFileStore_UpdateStatus_def clusterFileStore_Delete_def
      credentialFileStore_Create_def credentialFileStore_Update_def credentialFileStore_Delete_def machineFileStore_Create_def
      machineFileStore_Update_def machineFileStore_UpdateStatus_def machineSetFileStore_Create_def machineSetFileStore_Update_def
      machineSetFileStore_UpdateStatus_def machineSetFileStore_Delete_def sshKeyFileStore_Create_def sshKeyFileStore_Delete_def
      certificateFileStore_Create_def certificateFileStore_Delete_def option.case Let_def names store_path [symmetric]
      assms(4-7) if_not_P [OF ne] if_not_P [OF sc]
    by (intro conjI allI machine_delete_touches [OF assms(2,3)]
        create_writes [OF at(1) plain(1)] update_writes [OF at(1) plain(1)] status_touches [OF at(1) plain(1)] delete_removes(1) [OF at(1) plain(1)]
        create_writes [OF at(2) plain(2)] update_writes [OF at(2) plain(2)] delete_removes(1) [OF at(2) plain(2)]
        create_writes [OF at(3) plain(3)] update_writes [OF at(3) plain(3)] status_touches [OF at(3) plain(3)]
        create_writes [OF at(4) plain(4)] update_writes [OF at(4) plain(4)] status_touches [OF at(4) plain(4)] delete_removes(2) [OF at(4) plain(4)])
      (intro writes_if no_effect pair_writes [OF keys(1,3,2,4)] pair_removes [OF keys(1,3,2,4)] pair_writes [OF crts(1,3,2,4)] pair_removes [OF crts(1,3,2,4)];
       simp)+
qed

text \<open>The files of the cluster \<^verbatim>\<open>a\<close>.\<close>

theorem store_touches_own_file_witness:
  "writes [(in_store demo_store [''clusters'', ''a.json''], Inr ''a'')] (clusterFileStore_Create name_codec demo_store (Some (named_cluster ''a''))) \<and>
   removes [in_store demo_store [''clusters'', ''a.json'']] (clusterFileStore_Delete demo_store ''a'')"
proof -
  have names: "legal_name ''a''" "c_Name (named_cluster ''a'') = ''a''" "m_Name (named_machine ''a'') = ''a''"
    "cr_Name \<lparr>cr_TypeMeta = zero_TypeMeta, cr_ObjectMeta = zero_ObjectMeta\<lparr>Name := ''a''\<rparr>, cr_Spec = \<lparr>Provider = '''', Data = Map.empty\<rparr>\<rparr> = ''a''"
    "ms_Name (zero_MachineSet\<lparr>ms_ObjectMeta := zero_ObjectMeta\<lparr>Name := ''a''\<rparr>\<rparr>) = ''a''"
    by (simp_all add: legal_name_def)
  have json: "''a'' @ ''.json'' = ''a.json''" "marshal name_codec (assign_Cluster (named_cluster ''a'')) = Inr ''a''"
    by (simp_all add: name_codec_def)
  note all = store_touches_own_file [OF demo_vfs names(1,2,4,3,5), where J = name_codec, unfolded json]
  show ?thesis by (rule conjI [OF all [THEN conjunct1] all [THEN conjunct2, THEN conjunct2, THEN conjunct2, THEN conjunct1]])
qed

end
