(* ===== verification/Cloud_Props.thy ===== *)
theory Cloud_Props
  imports Cloud_Vfs Store_Vfs_Frame
begin

text \<open>
  Properties of the orchestration, over the registry of providers and the
  file store behind the store interface.
\<close>

section \<open>Phases\<close>

text \<open>C2. \<^verbatim>\<open>Apply\<close> moves the phase of a cluster forward along Pending, Ready, Deleting, Deleted and
  never back, whatever fails on the way.  If it succeeds, a pending cluster is ready, or deleted if
  it was marked for deletion; a ready or deleting cluster is deleted if it was marked for deletion
  and keeps its phase otherwise.  Name, provider and deletion mark stay.\<close>

theorem apply_phases:
  "valid (core_is (ClusterPending, n, d, cp)) (Apply (registry E R))
     (\<lambda>_. core_is (if d = None then ClusterReady else ClusterDeleted, n, d, cp))
     (\<lambda>_ w. \<exists>q. core_is (q, n, d, cp) w \<and> phase_step\<^sup>*\<^sup>* ClusterPending q) \<and>
   valid (core_is (ClusterReady, n, d, cp)) (Apply (registry E R))
     (\<lambda>_. core_is (if d = None then ClusterReady else ClusterDeleted, n, d, cp))
     (\<lambda>_ w. \<exists>q. core_is (q, n, d, cp) w \<and> phase_step\<^sup>*\<^sup>* ClusterReady q) \<and>
   valid (core_is (ClusterDeleting, n, d, cp)) (Apply (registry E R))
     (\<lambda>_. core_is (if d = None then ClusterDeleting else ClusterDeleted, n, d, cp))
     (\<lambda>_ w. \<exists>q. core_is (q, n, d, cp) w \<and> phase_step\<^sup>*\<^sup>* ClusterDeleting q)"
  by (intro conjI; rule valid_weaken [OF with_registry.Apply_Pending] valid_weaken [OF with_registry.Apply_existing])
    (auto simp: between_def)

text \<open>C17. On a cluster in no phase, in phase Deleted or in phase Upgrading, \<^verbatim>\<open>Apply\<close> touches nothing,
  whatever the provider: no store, cloud or cluster call is made.  It succeeds exactly if the
  cluster is already deleted.\<close>

theorem apply_guards:
  assumes "w_Phase w \<in> {'''', ClusterDeleted, ClusterUpgrading}"
  shows "\<exists>r. Apply E w = (r, w) \<and> (r = Inr () \<longleftrightarrow> w_Phase w = ClusterDeleted)"
  using assms by (auto simp: Apply_def prog_run)

section \<open>What is stored\<close>

definition phase_law :: "Cluster codec \<Rightarrow> bool" where
  "phase_law J \<longleftrightarrow> (\<forall>c d. marshal J c = Inr d \<longrightarrow> (\<exists>c'. unmarshal J d = Inr c' \<and> c_Phase c' = c_Phase c))"

definition stored_phase :: "Cluster codec \<Rightarrow> 'z FileStore_scheme \<Rightarrow> os \<Rightarrow> string \<Rightarrow> ClusterPhase option" where
  "stored_phase J s st n =
     (case map_of (fs st) (os_resolve st (filepath_Join [container s, clusterFileStore_resourceID s n])) of
        Some (File d) \<Rightarrow> (case unmarshal J d of Inl _ \<Rightarrow> None | Inr c \<Rightarrow> Some (c_Phase c))
      | _ \<Rightarrow> None)"

lemma Put_result:
  assumes "stow_Put c i d st = (Inr x, st')"
  shows "map_of (fs st') (os_resolve st' (filepath_Join [c, i])) = Some (File d)"
proof -
  obtain st1 where "os_WriteFile (filepath_Join [c, i]) d st1 = (Inr (), st')"
    using assms by (auto simp: stow_Put_def Let_def prog_run split: prod.splits sum.splits)
  then have "st' = st1\<lparr>fs := AList.update (os_resolve st1 (filepath_Join [c, i])) (File d) (fs st1)\<rparr>"
    by (auto simp: os_WriteFile_def split: stat_result.splits node.splits)
  then show ?thesis by (simp add: os_resolve_def update_conv')
qed

lemma UpdateStatus_stored:
  assumes "phase_law J" "clusterFileStore_UpdateStatus J s (Some obj) st = (Inr x, st')"
  shows "stored_phase J s st' (c_Name obj) = Some (c_Phase obj)"
proof -
  obtain y st1 where put: "put_object J (container s) (clusterFileStore_resourceID s (c_Name obj)) (y\<lparr>Status := Status obj\<rparr>) st1 = (Inr (), st')"
    using assms(2) by (auto simp: clusterFileStore_UpdateStatus_def Let_def prog_run split: if_splits prod.splits sum.splits)
  obtain d p where d: "marshal J (y\<lparr>Status := Status obj\<rparr>) = Inr d"
    "stow_Put (container s) (clusterFileStore_resourceID s (c_Name obj)) d st1 = (Inr p, st')"
    using put by (auto simp: put_object_def prog_run split: prod.splits sum.splits)
  obtain c' where "unmarshal J d = Inr c'" "c_Phase c' = c_Phase obj"
    using assms(1) d(1) unfolding phase_law_def by fastforce
  then show ?thesis using Put_result [OF d(2)] by (simp add: stored_phase_def)
qed

lemma store_status_persists:
  assumes "phase_law (k_Cluster K)"
  shows "valid (\<lambda>_. True) (bindp (upd_cluster (set_Phase p)) (\<lambda>_. store_cluster (so_cluster_UpdateStatus (vfs_ops K s))))
    (\<lambda>_ w. stored_phase (k_Cluster K) s (w_store w) (w_Name w) = Some p \<and> w_Phase w = p) (\<lambda>_ _. True)"
proof (rule validI)
  fix w :: "(os, 'x) world" and x w'
  assume "bindp (upd_cluster (set_Phase p)) (\<lambda>_. store_cluster (so_cluster_UpdateStatus (vfs_ops K s))) w = (Inr x, w')"
  then obtain y st' where "clusterFileStore_UpdateStatus (k_Cluster K) s (Some (set_Phase p (w_Cluster w))) (w_store w) = (Inr y, st')"
    "w_store w' = st'" "w_Cluster w' = assign_Cluster (set_Phase p (w_Cluster w))"
    by (auto simp: store_cluster_def upd_cluster_def prog_run vfs_ops_def split: prod.splits sum.splits)
  then show "stored_phase (k_Cluster K) s (w_store w') (w_Name w') = Some p \<and> w_Phase w' = p"
    using UpdateStatus_stored [OF assms] by (fastforce simp: cluster_upd)
qed simp

text \<open>C4. If \<^verbatim>\<open>ApplyCreate\<close> succeeds over the file store, the file of the cluster records the phase
  Ready; if the deletion of a DigitalOcean, Linode or Packet cluster succeeds, it records the phase Deleted.  The
  JSON encoder is only assumed to keep the phase.\<close>

theorem phases_persisted:
  assumes "phase_law (k_Cluster K)" and "e_store E = vfs_ops K s"
  shows "valid (\<lambda>_. True) (ApplyCreate E)
      (\<lambda>_ w. stored_phase (k_Cluster K) s (w_store w) (w_Name w) = Some ClusterReady \<and> w_Phase w = ClusterReady) (\<lambda>_ _. True) \<and>
    valid (\<lambda>_. True) (do_ApplyDelete E D)
      (\<lambda>_ w. stored_phase (k_Cluster K) s (w_store w) (w_Name w) = Some ClusterDeleted \<and> w_Phase w = ClusterDeleted) (\<lambda>_ _. True) \<and>
    valid (\<lambda>_. True) (li_ApplyDelete E L)
      (\<lambda>_ w. stored_phase (k_Cluster K) s (w_store w) (w_Name w) = Some ClusterDeleted \<and> w_Phase w = ClusterDeleted) (\<lambda>_ _. True) \<and>
    valid (\<lambda>_. True) (pk_ApplyDelete E P)
      (\<lambda>_ w. stored_phase (k_Cluster K) s (w_store w) (w_Name w) = Some ClusterDeleted \<and> w_Phase w = ClusterDeleted) (\<lambda>_ _. True)"
  unfolding ApplyCreate_def do_ApplyDelete_def li_ApplyDelete_def pk_ApplyDelete_def assms(2)
  by (intro conjI valid_last store_status_persists assms(1))

lemma demo_ApplyCreate: "\<exists>w'. ApplyCreate demo_env demo_world = (Inr (), w')"
proof -
  have u: "\<exists>y. clusterFileStore_UpdateUUID demo_store (Some demo_cluster) ''uid'' (w_store demo_world) = (Inr y, w_store demo_world)"
    by (rule demo_store_run) (simp_all add: demo_cluster_fields)
  have s: "\<exists>y st'. clusterFileStore_UpdateStatus phase_codec demo_store
      (Some (set_Phase ClusterReady (assign_Cluster demo_cluster))) (w_store demo_world) = (Inr y, st')"
    by (rule demo_store_run) (simp_all add: demo_cluster_fields cluster_upd)
  have cm: "GetCloudManager demo_env demo_world = (Inr demo_manager, demo_world)"
    by (simp add: GetCloudManager_def prog_run demo_world_def demo_env_def)
  have cl: "w_Cluster demo_world = demo_cluster" "GetAdminClient demo_env demo_world = (Inr (), demo_world)"
    by (simp_all add: demo_world_def GetAdminClient_def prog_run)
  have cmd: "cm_PrepareCloud demo_manager = ret ()" "cm_CreateCredentials demo_manager = ret ()"
    "cm_GetAdminClient demo_manager = ret ()"
    by (simp_all add: demo_manager_def)
  have env: "Namespaces_GetUID (e_kube demo_env) n = ret ''uid''" 
    "so_cluster_UpdateUUID (e_store demo_env) c = clusterFileStore_UpdateUUID demo_store (Some c)"
    "so_cluster_UpdateStatus (e_store demo_env) c = clusterFileStore_UpdateStatus phase_codec demo_store (Some c)" for n c
    by (simp_all add: demo_env_defs vfs_ops_def)
  show ?thesis using u s
    unfolding ApplyCreate_def
    by (auto simp: run_bindp run_simps cm cl cmd demo_wait env demo_cluster_fields store_cluster_def on_store_def on_ext_def upd_cluster_def
        split: prod.splits sum.splits)
qed

theorem apply_guards_witness:
  "\<exists>r. Apply demo_env (demo_world\<lparr>w_Cluster := set_Phase ClusterUpgrading demo_cluster\<rparr>) =
    (r, demo_world\<lparr>w_Cluster := set_Phase ClusterUpgrading demo_cluster\<rparr>) \<and> r \<noteq> Inr ()"
  using apply_guards [of "demo_world\<lparr>w_Cluster := set_Phase ClusterUpgrading demo_cluster\<rparr>" demo_env]
  by (auto simp: cluster_upd)

theorem phases_persisted_witness:
  "\<exists>w'. ApplyCreate demo_env demo_world = (Inr (), w') \<and>
    stored_phase phase_codec demo_store (w_store w') (w_Name w') = Some ClusterReady"
proof -
  obtain w' where run: "ApplyCreate demo_env demo_world = (Inr (), w')" using demo_ApplyCreate by blast
  have "phase_law (k_Cluster demo_codecs)" "e_store demo_env = vfs_ops demo_codecs demo_store"
    by (simp_all add: demo_codecs_def demo_env_def phase_law_def phase_codec_def cluster_upd)
  from valid_Inr [OF conjunct1 [OF phases_persisted [OF this]] _ run] run show ?thesis by (simp add: demo_codecs_def)
qed

section \<open>Machine sets and machines of a cluster\<close>

text \<open>The JSON encoder keeps replica count and deletion mark of a machine set.\<close>

definition machineset_law :: "MachineSet codec \<Rightarrow> bool" where
  "machineset_law J \<longleftrightarrow> (\<forall>x. \<exists>y. reread J x = Inr y \<and> Replicas (ms_Spec y) = Replicas (ms_Spec x) \<and>
     DeletionTimestamp (ms_ObjectMeta y) = DeletionTimestamp (ms_ObjectMeta x))"

text \<open>The machine set stored under a name has no replicas and is marked for deletion.\<close>

definition marked :: "MachineSet codec \<Rightarrow> FileStore \<Rightarrow> string \<Rightarrow> os \<Rightarrow> string \<Rightarrow> bool" where
  "marked J s c st n \<longleftrightarrow> (case json_view J (scope_dir (FileStore_scope s c) ''machineset'') st n of
     None \<Rightarrow> False | Some y \<Rightarrow> Replicas (ms_Spec y) = Some 0 \<and> DeletionTimestamp (ms_ObjectMeta y) \<noteq> None)"

lemma home_machinesets:
  assumes "vfs_scope s"
  shows "machineSetFileStore_resourceHome s = join ''/'' [''clusters'', cluster s, ''machineset'']"
proof -
  have "list_all plain_seg [''clusters'', cluster s, ''machineset'']" using assms by (simp add: vfs_scope_def plain_consts)
  then have "filepath_Join [''clusters'', cluster s, ''machineset''] = join ''/'' [''clusters'', cluster s, ''machineset'']"
    by (intro filepath_Join_plain) (auto simp: list_all_iff)
  then show ?thesis using assms by (simp add: vfs_scope_def vfs_store_def machineSetFileStore_resourceHome_def)
qed

lemma machineset_list_complete:
  assumes "machinesets_good J s st" "home_dir (path_segs (container s)) [''clusters'', cluster s, ''machineset''] st"
    and "only_objects (scope_dir s ''machineset'') st"
  shows "\<exists>names. distinct names \<and>
      set names = {n. legal_name n \<and> json_view J (scope_dir s ''machineset'') st n \<noteq> None} \<and>
      machineSetFileStore_List J s st = Some (Inr (map (\<lambda>n. the (json_view J (scope_dir s ''machineset'') st n)) names))"
proof -
  have s: "vfs_scope s" "json_good J (scope_dir s ''machineset'') st" using assms(1) by (simp_all add: machinesets_good_def)
  then have c: "container s = abs_path (path_segs (container s))" by (simp add: vfs_scope_def vfs_store_def)
  show ?thesis
    unfolding machineSetFileStore_List_def home_machinesets [OF s(1)]
    using list_loop_view [of "path_segs (container s)" "[''clusters'', cluster s, ''machineset'']" st J "''failed to list node groups.''"]
      assms(2,3) s(2) c by (simp add: scope_dir_def)
qed

lemma mark_machinesets_run:
  fixes E :: "(os, 'x) env" and w :: "(os, 'x) world"
  assumes store: "e_store E = vfs_ops K s" and law: "machineset_law (k_MachineSet K)"
    and clock: "\<And>x. is_ok (fst (time_Now (e_sys E) x))"
    and "machinesets_good (k_MachineSet K) (FileStore_scope s c) (w_store w)"
    and "\<And>ms. ms \<in> set mss \<Longrightarrow> legal_name (ms_Name ms) \<and>
      json_view (k_MachineSet K) (scope_dir (FileStore_scope s c) ''machineset'') (w_store w) (ms_Name ms) \<noteq> None"
  shows "\<exists>w'. mark_machinesets E c mss w = (Inr (), w') \<and> w_Cluster w' = w_Cluster w \<and>
    (\<forall>n. marked (k_MachineSet K) s c (w_store w) n \<or> n \<in> ms_Name ` set mss \<longrightarrow> marked (k_MachineSet K) s c (w_store w') n)"
  using assms(4,5)
proof (induction mss arbitrary: w)
  case Nil
  show ?case by (simp add: mark_machinesets_def prog_run)
next
  case (Cons ms mss)
  let ?J = "k_MachineSet K" and ?s = "FileStore_scope s c"
  let ?V = "json_view ?J (scope_dir ?s ''machineset'')"
  obtain now x where t: "time_Now (e_sys E) (w_ext w) = (Inr now, x)"
    using clock [of "w_ext w"] by (cases "time_Now (e_sys E) (w_ext w)") (auto simp: is_ok_def split: sum.splits)
  let ?m = "mark_deleted now ms"
  have nm: "ms_Name ?m = ms_Name ms" by (simp add: mark_deleted_def)
  have m: "Replicas (ms_Spec (assign_MachineSet ?m)) = Some 0" "DeletionTimestamp (ms_ObjectMeta (assign_MachineSet ?m)) = Some now"
    by (simp_all add: assign_MachineSet_def mark_deleted_def)
  obtain y where y: "reread ?J (assign_MachineSet ?m) = Inr y" "Replicas (ms_Spec y) = Some 0" "DeletionTimestamp (ms_ObjectMeta y) = Some now"
    using law [unfolded machineset_law_def, rule_format, of "assign_MachineSet ?m"] unfolding m by blast
  have pre: "legal_name (ms_Name ?m)" "?V (w_store w) (ms_Name ?m) \<noteq> None" using Cons.prems(2) [of ms] nm by simp_all
  then obtain z where z: "?V (w_store w) (ms_Name ?m) = Some z" by blast
  obtain st' where st': "machineSetFileStore_Update ?J ?s (Some ?m) (w_store w) = (Inr (assign_MachineSet ?m), st')"
    "machinesets_good ?J ?s st'" "?V st' = (?V (w_store w))(ms_Name ?m \<mapsto> y)"
    using machinesets.update_existing [OF Cons.prems(1) pre(1) z] y(1) by auto
  let ?w = "w\<lparr>w_ext := x, w_store := st'\<rparr>"
  have step: "mark_machinesets E c (ms # mss) w = mark_machinesets E c mss ?w"
    using t st'(1) by (simp add: mark_machinesets_def prog_run store vfs_ops_def)
  have grow: "marked ?J s c st' n" if "marked ?J s c (w_store w) n \<or> n = ms_Name ms" for n
    using that st'(3) y nm by (auto simp: marked_def)
  have "machinesets_good ?J ?s (w_store ?w)" using st'(2) by simp
  moreover have "legal_name (ms_Name m) \<and> ?V (w_store ?w) (ms_Name m) \<noteq> None" if "m \<in> set mss" for m
    using Cons.prems(2) [of m] that st'(3) by simp
  ultimately obtain w' where "mark_machinesets E c mss ?w = (Inr (), w')" "w_Cluster w' = w_Cluster ?w"
    "\<forall>n. marked ?J s c (w_store ?w) n \<or> n \<in> ms_Name ` set mss \<longrightarrow> marked ?J s c (w_store w') n"
    using Cons.IH [of ?w] by blast
  then show ?case using step grow by (intro exI [of _ w']) auto
qed

text \<open>C24. Deleting a cluster first marks its machine sets: where \<^verbatim>\<open>Apply\<close> finds the deletion mark on a cluster that is not yet
  deleted, every machine set that the file store holds for it, whatever number there are, is stored with no replicas and a
  deletion mark when \<^verbatim>\<open>ApplyDelete\<close> begins.  Assumed is that the directory of the machine sets is in order: readable, nothing but objects in
  it, each under its own name.\<close>

theorem machinesets_marked:
  fixes E :: "(os, 'x) env" and w :: "(os, 'x) world"
  assumes "e_store E = vfs_ops K s" "machineset_law (k_MachineSet K)" "\<And>x. is_ok (fst (time_Now (e_sys E) x))"
    and good: "machinesets_good (k_MachineSet K) (FileStore_scope s (w_Name w)) (w_store w)"
    and dir: "home_dir (path_segs (container s)) [''clusters'', w_Name w, ''machineset''] (w_store w)"
      "only_objects (scope_dir (FileStore_scope s (w_Name w)) ''machineset'') (w_store w)"
    and names: "\<And>n y. json_view (k_MachineSet K) (scope_dir (FileStore_scope s (w_Name w)) ''machineset'') (w_store w) n = Some y \<Longrightarrow> ms_Name y = n"
    and "DeletionTimestamp (c_ObjectMeta (w_Cluster w)) \<noteq> None" "w_Phase w \<noteq> ClusterDeleted"
  shows "\<exists>w'. apply_deletion E w = cloud_ApplyDelete E w' \<and> w_Cluster w' = w_Cluster w \<and>
    (\<forall>n. legal_name n \<and> json_view (k_MachineSet K) (scope_dir (FileStore_scope s (w_Name w)) ''machineset'') (w_store w) n \<noteq> None \<longrightarrow>
      marked (k_MachineSet K) s (w_Name w) (w_store w') n)"
proof -
  let ?J = "k_MachineSet K" and ?s = "FileStore_scope s (w_Name w)"
  let ?V = "json_view ?J (scope_dir ?s ''machineset'') (w_store w)"
  have sc: "container ?s = container s" "cluster ?s = w_Name w" by (simp_all add: FileStore_scope_def)
  obtain ns where ns: "set ns = {n. legal_name n \<and> ?V n \<noteq> None}"
    and list: "machineSetFileStore_List ?J ?s (w_store w) = Some (Inr (map (\<lambda>n. the (?V n)) ns))"
    using machineset_list_complete [OF good] dir unfolding sc by blast
  let ?mss = "map (\<lambda>n. the (?V n)) ns"
  have name: "ms_Name (the (?V n)) = n" if "n \<in> set ns" for n using that names unfolding ns by auto
  have "legal_name (ms_Name ms) \<and> ?V (ms_Name ms) \<noteq> None" if ms: "ms \<in> set ?mss" for ms
  proof -
    obtain n where n: "n \<in> set ns" "ms = the (?V n)" using ms by auto
    then show ?thesis using name [OF n(1)] ns by simp
  qed
  from mark_machinesets_run [OF assms(1-3) good this] obtain w' where
    run: "mark_machinesets E (w_Name w) ?mss w = (Inr (), w')" "w_Cluster w' = w_Cluster w"
    and marks: "\<And>n. n \<in> ms_Name ` set ?mss \<Longrightarrow> marked ?J s (w_Name w) (w_store w') n" by blast
  have "on_store (so_machineset_List (e_store E) (w_Name w)) w = (Inr ?mss, w)"
    by (simp add: assms(1) vfs_ops_def list_call_def list on_store_def)
  then have "apply_deletion E w = cloud_ApplyDelete E w'"
    using assms(8,9) run(1) by (simp add: apply_deletion_def prog_run del: run_on_store)
  moreover have "ms_Name ` set ?mss = {n. legal_name n \<and> ?V n \<noteq> None}" using name ns by (force simp: image_image)
  ultimately show ?thesis using run(2) marks by blast
qed

text \<open>An encoding that keeps the name too, and a cluster with one machine set that is to be deleted.\<close>

definition named_set_codec :: "MachineSet codec" where
  "named_set_codec = \<lparr>marshal = (\<lambda>m. Inr (show_opt (map_option uint (Replicas (ms_Spec m))) @ '';'' @
       show_opt (DeletionTimestamp (ms_ObjectMeta m)) @ '';'' @ ms_Name m)),
     unmarshal = (\<lambda>d. Inr (case split_on (CHR '';'') d of
        r # t # n # _ \<Rightarrow> zero_MachineSet\<lparr>ms_ObjectMeta := zero_ObjectMeta\<lparr>Name := n, DeletionTimestamp := read_opt t\<rparr>,
          ms_Spec := (ms_Spec zero_MachineSet)\<lparr>Replicas := map_option word_of_int (read_opt r)\<rparr>\<rparr>
      | _ \<Rightarrow> zero_MachineSet))\<rparr>"

lemma named_set_law: "machineset_law named_set_codec"
  unfolding machineset_law_def
proof
  fix x
  obtain n ns where "split_on (CHR '';'') (ms_Name x) = n # ns" by (cases "split_on (CHR '';'') (ms_Name x)") simp_all
  then show "\<exists>y. reread named_set_codec x = Inr y \<and> Replicas (ms_Spec y) = Replicas (ms_Spec x) \<and>
      DeletionTimestamp (ms_ObjectMeta y) = DeletionTimestamp (ms_ObjectMeta x)"
    by (simp add: reread_def named_set_codec_def split_on_append opt_codec option.map_comp comp_def option.map_ident)
qed

definition marked_env :: "(os, unit) env" where
  "marked_env = demo_env\<lparr>e_store := vfs_ops (demo_codecs\<lparr>k_MachineSet := named_set_codec\<rparr>) demo_store\<rparr>"

definition marked_world :: "(os, unit) world" where
  "marked_world = demo_world\<lparr>w_Cluster := demo_cluster\<lparr>c_ObjectMeta := (c_ObjectMeta demo_cluster)\<lparr>DeletionTimestamp := Some 1\<rparr>\<rparr>,
     w_store := \<lparr>cwd = ''/'', fs = [(''/p'', Dir), (''/p/clusters'', Dir), (''/p/clusters/c1'', Dir), (''/p/clusters/c1/machineset'', Dir),
       (''/p/clusters/c1/machineset/a.json'', File ''3;-;a'')]\<rparr>\<rparr>"

theorem machinesets_marked_witness:
  "\<exists>w'. apply_deletion marked_env marked_world = cloud_ApplyDelete marked_env w' \<and>
    marked named_set_codec demo_store ''c1'' (w_store w') ''a''"
proof -
  let ?K = "demo_codecs\<lparr>k_MachineSet := named_set_codec\<rparr>"
  have E: "e_store marked_env = vfs_ops ?K demo_store" "e_sys marked_env = demo_sys" "k_MachineSet ?K = named_set_codec"
    by (simp_all add: marked_env_def demo_env_def)
  have c: "w_Name marked_world = ''c1''" "DeletionTimestamp (c_ObjectMeta (w_Cluster marked_world)) \<noteq> None" "w_Phase marked_world \<noteq> ClusterDeleted"
    using demo_cluster_fields(2) by (simp_all add: marked_world_def) (simp add: demo_cluster_def cluster_upd)
  have dir: "scope_dir (FileStore_scope demo_store ''c1'') ''machineset'' = [''p'', ''clusters'', ''c1'', ''machineset'']"
    by (simp add: scope_dir_def demo_defs demo_paths)
  have one: "map_of (fs (w_store marked_world)) (json_path [''p'', ''clusters'', ''c1'', ''machineset''] n) =
      (if n = ''a'' then Some (File ''3;-;a'') else None)" for n
    by (auto simp: marked_world_def json_path_def abs_path_def)
  have read: "read_opt ''-'' = None" by (simp add: read_opt_def)
  have view: "json_view named_set_codec [''p'', ''clusters'', ''c1'', ''machineset''] (w_store marked_world) n =
      (if n = ''a'' then Some (zero_MachineSet\<lparr>ms_ObjectMeta := zero_ObjectMeta\<lparr>Name := ''a''\<rparr>,
         ms_Spec := (ms_Spec zero_MachineSet)\<lparr>Replicas := map_option word_of_int (read_opt ''3'')\<rparr>\<rparr>) else None)" for n
    by (simp add: json_view_def one named_set_codec_def read zero_ObjectMeta_def)
  have good: "machinesets_good named_set_codec (FileStore_scope demo_store ''c1'') (w_store marked_world)"
    unfolding machinesets_good_def json_good_def dir using demo_vfs(2) [unfolded demo_scope_def]
    by (auto simp: one named_set_codec_def plain_seg_def) (auto simp: dirs_ok_def marked_world_def ancestors_def path_segs_def abs_path_def is_file_def)
  have home: "home_dir (path_segs (container demo_store)) [''clusters'', ''c1'', ''machineset''] (w_store marked_world)"
    by (simp add: home_dir_def demo_defs demo_paths os_wf_def canonical_def marked_world_def path_segs_def abs_path_def
        plain_seg_def filepath_IsAbs_def has_prefix_def os_Stat_def os_resolve_def filepath_Clean_def clean_step_def
        ancestors_def is_file_def)
  have only: "only_objects (scope_dir (FileStore_scope demo_store ''c1'') ''machineset'') (w_store marked_world)"
    unfolding dir by (simp add: only_objects_def dir_entries_def marked_world_def is_child_def path_segs_def abs_path_def
        file_paths_def has_suffix_def has_prefix_def)
  have clock: "is_ok (fst (time_Now (e_sys marked_env) x))" for x by (simp add: E(2) demo_sys_def prog_run is_ok_def)
  have "\<exists>w'. apply_deletion marked_env marked_world = cloud_ApplyDelete marked_env w' \<and> w_Cluster w' = w_Cluster marked_world \<and>
    (\<forall>n. legal_name n \<and> json_view (k_MachineSet ?K) (scope_dir (FileStore_scope demo_store (w_Name marked_world)) ''machineset'') (w_store marked_world) n \<noteq> None \<longrightarrow>
      marked (k_MachineSet ?K) demo_store (w_Name marked_world) (w_store w') n)"
    by (rule machinesets_marked [OF E(1)])
      (use good home only named_set_law clock c view in \<open>auto simp: E(3) dir split: if_splits\<close>)
  then show ?thesis unfolding E(3) c(1) dir view by (auto simp: legal_name_def)
qed

text \<open>C40. \<^verbatim>\<open>ApplyUpgrade\<close> asks the store for the machine \<^verbatim>\<open><cluster>-master\<close>.  Where the stored machines carry
  the names the masters are created with, it fails before it upgrades anything.\<close>

theorem upgrade_misses_master:
  assumes "e_store E = vfs_ops K s" and "w_AdminClient w"
    and "machines_good (k_Machine K) (FileStore_scope s (w_Name w)) (w_store w)" "legal_name (w_Name w)"
    and "\<And>n. json_view (k_Machine K) (scope_dir (FileStore_scope s (w_Name w)) ''machine'') (w_store w) n \<noteq> None \<Longrightarrow>
      \<exists>i. n = MasterMachineName (w_Cluster w) i"
  shows "\<exists>e. ApplyUpgrade E same w = (Inl (Err e), w)"
proof -
  have "json_view (k_Machine K) (scope_dir (FileStore_scope s (w_Name w)) ''machine'') (w_store w) (w_Name w @ ''-master'') = None"
    using assms(5) by (force simp: MasterMachineName_def)
  moreover have "legal_name (w_Name w @ ''-master'')" using assms(4) by (simp add: legal_name_def)
  ultimately obtain e where "machineFileStore_Get (k_Machine K) (FileStore_scope s (w_Name w)) (w_Name w @ ''-master'') (w_store w) =
      (Inl (Err e), w_store w)"
    using machines.get_missing [OF assms(3)] by blast
  then show ?thesis
    using assms(1,2) by (simp add: ApplyUpgrade_def GetAdminClient_def prog_run vfs_ops_def Let_def)
qed

definition master_world :: "(os, unit) world" where
  "master_world = demo_world\<lparr>w_store := \<lparr>cwd = ''/'', fs = [(json_path [''p'', ''clusters'', ''c1'', ''machine''] ''c1-master-0'', File ''c1-master-0'')]\<rparr>\<rparr>"

theorem upgrade_misses_master_witness:
  "\<exists>e. ApplyUpgrade demo_env (\<lambda>_ _. Inr True) master_world = (Inl (Err e), master_world)"
proof (rule upgrade_misses_master [of _ demo_codecs demo_store])
  have dir: "scope_dir (FileStore_scope demo_store ''c1'') ''machine'' = [''p'', ''clusters'', ''c1'', ''machine'']"
    by (simp add: scope_dir_def demo_defs demo_paths)
  have c1: "w_Name master_world = ''c1''" by (simp add: master_world_def demo_world_def demo_cluster_fields)
  have J: "k_Machine demo_codecs = machine_codec" by (simp add: demo_codecs_def)
  show "machines_good (k_Machine demo_codecs) (FileStore_scope demo_store (w_Name master_world)) (w_store master_world)"
    unfolding machines_good_def json_good_def c1 dir J using demo_vfs(2)
    by (auto simp: demo_scope_def plain_seg_def dirs_ok_def master_world_def ancestors_def path_segs_def abs_path_def is_file_def
        json_path_def machine_codec_def)
  fix n
  assume "json_view (k_Machine demo_codecs) (scope_dir (FileStore_scope demo_store (w_Name master_world)) ''machine'') (w_store master_world) n \<noteq> None"
  then have "n = ''c1-master-0''" unfolding c1 dir by (simp add: json_view_def master_world_def split: if_splits)
  moreover have "MasterMachineName (w_Cluster master_world) 0 = ''c1-master-0''"
    by (simp add: MasterMachineName_def c1 show_int_def show_nat.simps digit_char_def)
  ultimately show "\<exists>i. n = MasterMachineName (w_Cluster master_world) i" by metis
qed (simp_all add: demo_env_def master_world_def demo_world_def demo_cluster_fields legal_name_def)

text \<open>Whatever names they are given, the mutating operations of the file store keep the file system well-formed
  (absolute cleaned paths, each once), and so do creation, \<^verbatim>\<open>Apply\<close> and deletion of clusters of the registered providers over it.\<close>

lemma files_stay_wf:
  "invariant_of os_wf (clusterFileStore_Create J s oc) \<and> invariant_of os_wf (clusterFileStore_Update J s oc) \<and>
   invariant_of os_wf (clusterFileStore_UpdateStatus J s oc) \<and> invariant_of os_wf (clusterFileStore_Delete s n) \<and>
   invariant_of os_wf (machineFileStore_Create M sc om) \<and> invariant_of os_wf (machineFileStore_Update M sc om) \<and>
   invariant_of os_wf (machineFileStore_UpdateStatus M sc om) \<and> invariant_of os_wf (machineFileStore_Delete sc n) \<and>
   invariant_of os_wf (machineSetFileStore_Create S sc os) \<and> invariant_of os_wf (machineSetFileStore_Update S sc os) \<and>
   invariant_of os_wf (machineSetFileStore_UpdateStatus S sc os) \<and> invariant_of os_wf (machineSetFileStore_Delete sc n) \<and>
   invariant_of os_wf (sshKeyFileStore_Create sc n pub priv) \<and> invariant_of os_wf (sshKeyFileStore_Delete sc n) \<and>
   invariant_of os_wf (certificateFileStore_Create P sc n crt key) \<and> invariant_of os_wf (certificateFileStore_Delete sc n) \<and>
   invariant_of (\<lambda>w. os_wf (w_store w)) (CreateCluster (vfs_env K st E R)) \<and> invariant_of (\<lambda>w. os_wf (w_store w)) (Apply (vfs_env K st E R)) \<and>
   invariant_of (\<lambda>w. os_wf (w_store w)) (cloud_Delete (vfs_env K st E R) n)"
  by (intro conjI vfs_wf_ops vfs_world.creation_keeps vfs_world.Apply_keeps vfs_world.Delete_keeps)

end
