(* ===== verification/Digitalocean_Props.thy ===== *)
theory Digitalocean_Props
  imports Cloud_Vfs
begin

text \<open>
  Properties of the DigitalOcean provider: identifiers of droplets, the machine actuator, the API
  endpoint that the preparation of the cloud leaves behind, and the load balancer.
\<close>

section \<open>Provider identifiers\<close>

lemma split_three: "split_on c p = [x, y, z] \<longleftrightarrow> p = x @ c # y @ c # z \<and> c \<notin> set x \<and> c \<notin> set y \<and> c \<notin> set z"
proof
  assume s: "split_on c p = [x, y, z]"
  then have "join [c] [x, y, z] = p" using join_split_on [of c p] by simp
  moreover have "c \<notin> set x" "c \<notin> set y" "c \<notin> set z" using s split_on_no_sep [of _ c p] by simp_all
  ultimately show "p = x @ c # y @ c # z \<and> c \<notin> set x \<and> c \<notin> set y \<and> c \<notin> set z" by simp
qed (simp add: split_on_append)

lemma trim_colon: "\<not> has_suffix u '':'' \<Longrightarrow> trim_suffix a '':'' = u \<longleftrightarrow> a = u \<or> a = u @ '':''"
proof (cases "has_suffix a '':''")
  case True
  assume u: "\<not> has_suffix u '':''"
  from True obtain b where "a = b @ '':''" by (auto simp: has_suffix_iff suffix_def)
  then show ?thesis using u by (auto simp: has_suffix_iff suffix_def)
next
  case False
  then have "a \<noteq> u @ '':''" by (auto simp: has_suffix_iff suffix_def)
  then show ?thesis using False by (auto simp: trim_suffix_def)
qed

text \<open>The identifiers of the provider \<open>u\<close> with the number \<open>i\<close>.\<close>

definition provider_id :: "string \<Rightarrow> string \<Rightarrow> int \<Rightarrow> bool" where
  "provider_id u p i \<longleftrightarrow> (\<exists>x y z. p = x @ ''/'' @ y @ ''/'' @ z \<and> CHR ''/'' \<notin> set (x @ y @ z) \<and> x \<in> {u, u @ '':''} \<and> atoi z = Some i)"

lemma provider_id_split:
  assumes "\<not> has_suffix u '':''"
  shows "provider_id u p i \<longleftrightarrow> (\<exists>x y z. split_on (CHR ''/'') p = [x, y, z] \<and> trim_suffix x '':'' = u \<and> atoi z = Some i)"
  unfolding split_three trim_colon [OF assms] provider_id_def by auto

lemma provider_id_print:
  assumes "0 \<le> k" "k < 2 ^ 63" "CHR ''/'' \<notin> set u"
  shows "provider_id u (u @ ''://'' @ show_int k) k"
proof -
  have "CHR ''/'' \<notin> set (show_nat (nat k))"
  proof
    assume "CHR ''/'' \<in> set (show_nat (nat k))"
    then have "CHR ''/'' \<in> set ''0123456789''" by (rule subsetD [OF set_show_nat])
    then show False by simp
  qed
  moreover have "atoi (show_nat (nat k)) = Some k" using assms atoi_show_nat [of "nat k"] by simp
  ultimately show ?thesis
    unfolding provider_id_def using assms(1,3)
    by (intro exI [of _ "u @ '':''"] exI [of _ "''''"] exI [of _ "show_int k"]) (simp add: show_int_def)
qed

lemma provider_id_unique:
  assumes "\<not> has_suffix u '':''" "\<not> has_suffix v '':''" "provider_id u p i" "provider_id v p j"
  shows "u = v \<and> i = j"
  using assms(3,4) unfolding provider_id_split [OF assms(1)] provider_id_split [OF assms(2)] by auto

lemma dropletID_iff: "dropletIDFromProviderID p = Inr i \<longleftrightarrow> provider_id do_UID p i"
proof -
  have "\<not> has_suffix do_UID '':''" by (simp add: do_UID_def has_suffix_iff suffix_def)
  note split = provider_id_split [OF this]
  show ?thesis
    unfolding split dropletIDFromProviderID_def by (auto split: list.splits option.splits if_splits)
qed

lemma printed_id:
  assumes "0 \<le> k" "k < 2 ^ 63"
  shows "dropletIDFromProviderID (''digitalocean://'' @ show_int k) = Inr k"
  using provider_id_print [OF assms, of do_UID] by (simp add: dropletID_iff do_UID_def)

section \<open>Droplets and the machine actuator\<close>

text \<open>The droplets there are, by ID and name; a status may change at any time.  Reading changes nothing of that, and shows what
  is there, but it may fail, and a listing need not be complete (\<^verbatim>\<open>godo\<close> answers in pages).  Creation and deletion have their
  effect, or with an error perhaps.\<close>

definition droplet_key :: "Droplet \<Rightarrow> int \<times> string" where
  "droplet_key d = (d_ID d, d_Name d)"

definition droplet_api :: "'x do_ops \<Rightarrow> ('x \<Rightarrow> (int \<times> string) list) \<Rightarrow> bool" where
  "droplet_api A droplets \<longleftrightarrow>
     (\<forall>ds. valid (\<lambda>x. droplets x = ds) (Droplets_List A)
        (\<lambda>l x. droplets x = ds \<and> droplet_key ` set l \<subseteq> set ds) (\<lambda>_ x. droplets x = ds)) \<and>
     (\<forall>ds i. valid (\<lambda>x. droplets x = ds) (Droplets_Get A i)
        (\<lambda>d x. droplets x = ds \<and> d_ID d = i \<and> droplet_key d \<in> set ds) (\<lambda>_ x. droplets x = ds)) \<and>
     (\<forall>ds r. valid (\<lambda>x. droplets x = ds) (Droplets_Create A r)
        (\<lambda>d x. d_Name d = dr_Name r \<and> droplets x = ds @ [droplet_key d])
        (\<lambda>_ x. droplets x = ds \<or> (\<exists>i. droplets x = ds @ [(i, dr_Name r)]))) \<and>
     (\<forall>ds i. valid (\<lambda>x. droplets x = ds) (Droplets_Delete A i)
        (\<lambda>_ x. droplets x = filter (\<lambda>d. fst d \<noteq> i) ds)
        (\<lambda>_ x. droplets x = ds \<or> droplets x = filter (\<lambda>d. fst d \<noteq> i) ds))"

lemma droplet_apiD:
  assumes "droplet_api A droplets"
  shows "valid (\<lambda>x. droplets x = ds) (Droplets_List A)
      (\<lambda>l x. droplets x = ds \<and> droplet_key ` set l \<subseteq> set ds) (\<lambda>_ x. droplets x = ds)"
    and "valid (\<lambda>x. droplets x = ds) (Droplets_Get A i)
      (\<lambda>d x. droplets x = ds \<and> d_ID d = i \<and> droplet_key d \<in> set ds) (\<lambda>_ x. droplets x = ds)"
    and "valid (\<lambda>x. droplets x = ds) (Droplets_Create A r) (\<lambda>d x. d_Name d = dr_Name r \<and> droplets x = ds @ [droplet_key d])
      (\<lambda>_ x. droplets x = ds \<or> (\<exists>i. droplets x = ds @ [(i, dr_Name r)]))"
    and "valid (\<lambda>x. droplets x = ds) (Droplets_Delete A i) (\<lambda>_ x. droplets x = filter (\<lambda>d. fst d \<noteq> i) ds)
      (\<lambda>_ x. droplets x = ds \<or> droplets x = filter (\<lambda>d. fst d \<noteq> i) ds)"
  using assms by (simp_all add: droplet_api_def)

text \<open>What the cloud answers when it is asked for a droplet of a name: the listing, and then the first droplet of that name again by
  its ID.\<close>

definition droplet_lookup :: "'x do_ops \<Rightarrow> string \<Rightarrow> ('x, Droplet) prog" where
  "droplet_lookup A n = bindp (Droplets_List A) (\<lambda>l. case find (\<lambda>d. d_Name d = n) l of
     None \<Rightarrow> fail (Err (''no droplet found with '' @ n @ '' name'')) | Some d \<Rightarrow> Droplets_Get A (d_ID d))"

lemma find_in_set: "find P xs = Some x \<Longrightarrow> x \<in> set xs \<and> P x"
  by (auto simp: find_Some_iff)

lemma instanceIfExists_lookup: "instanceIfExists D m = on_ext (droplet_lookup (d_api D) (m_Name m))"
  by (auto simp: fun_eq_iff instanceIfExists_def droplet_lookup_def prog_run split: prod.splits sum.splits option.splits)

text \<open>Looking changes no droplet; what is found is there.  If the listing is complete and its droplets can be read, a droplet is
  found exactly if there is one; if the listing fails, none is.\<close>

lemma droplet_lookup_finds:
  assumes api: "droplet_api A droplets"
  shows "valid (\<lambda>x. droplets x = ds) (droplet_lookup A n) (\<lambda>d x. droplets x = ds \<and> (d_ID d, n) \<in> set ds) (\<lambda>_ x. droplets x = ds)"
proof (rule validI)
  fix x d z assume x: "droplets x = ds" and run: "droplet_lookup A n x = (Inr d, z)"
  then obtain l y d0 where call: "Droplets_List A x = (Inr l, y)" "find (\<lambda>d. d_Name d = n) l = Some d0"
      "Droplets_Get A (d_ID d0) y = (Inr d, z)"
    by (auto simp: droplet_lookup_def prog_run split: prod.splits sum.splits option.splits)
  from valid_Inr [OF droplet_apiD(1) [OF api] x call(1)] have y: "droplets y = ds" "droplet_key ` set l \<subseteq> set ds" by simp_all
  from find_in_set [OF call(2)] y(2) have "(d_ID d0, n) \<in> set ds" by (auto simp: droplet_key_def)
  with valid_Inr [OF droplet_apiD(2) [OF api] y(1) call(3)] show "droplets z = ds \<and> (d_ID d, n) \<in> set ds" by simp
next
  fix x e z assume x: "droplets x = ds" and run: "droplet_lookup A n x = (Inl e, z)"
  show "droplets z = ds"
  proof (cases "Droplets_List A x")
    case (Pair r y)
    show ?thesis
    proof (cases r)
      case (Inl e')
      then show ?thesis using run Pair valid_Inl [OF droplet_apiD(1) [OF api] x] by (simp add: droplet_lookup_def prog_run)
    next
      case (Inr l)
      then have "droplets y = ds" using valid_Inr [OF droplet_apiD(1) [OF api] x] Pair by blast
      moreover have "droplets z = ds" if "droplets y = ds" "Droplets_Get A i y = (Inl e, z)" for i
        using that by (rule valid_Inl [OF droplet_apiD(2) [OF api]])
      ultimately show ?thesis using run Pair Inr by (auto simp: droplet_lookup_def prog_run split: option.splits)
    qed
  qed
qed

lemma droplet_lookup_answers:
  shows "Droplets_List A x = (Inl e, y) \<Longrightarrow> \<not> is_ok (fst (droplet_lookup A n x))"
    and "Droplets_List A x = (Inr l, y) \<Longrightarrow> droplet_key ` set l = set ds \<Longrightarrow>
      \<forall>d \<in> set l. is_ok (fst (Droplets_Get A (d_ID d) y)) \<Longrightarrow> is_ok (fst (droplet_lookup A n x)) \<longleftrightarrow> n \<in> snd ` set ds"
proof -
  show "Droplets_List A x = (Inl e, y) \<Longrightarrow> \<not> is_ok (fst (droplet_lookup A n x))"
    by (simp add: droplet_lookup_def prog_run)
  assume l: "Droplets_List A x = (Inr l, y)" "droplet_key ` set l = set ds" "\<forall>d \<in> set l. is_ok (fst (Droplets_Get A (d_ID d) y))"
  have "n \<in> snd ` set ds \<longleftrightarrow> find (\<lambda>d. d_Name d = n) l \<noteq> None"
    by (auto simp: l(2) [symmetric] image_image droplet_key_def find_None_iff)
  then show "is_ok (fst (droplet_lookup A n x)) \<longleftrightarrow> n \<in> snd ` set ds"
    using l(1,3) by (auto simp: droplet_lookup_def prog_run dest: find_in_set split: option.splits)
qed

lemma valid_on_ext_state:
  "valid P m Q F \<Longrightarrow> valid (\<lambda>w. P (w_ext w)) (on_ext m) (\<lambda>x w. Q x (w_ext w)) (\<lambda>e w. F e (w_ext w))"
  by (rule validI) (auto simp: on_ext_def split: prod.splits dest: valid_Inr valid_Inl)

lemma valid_on_ext_at:
  "valid P m Q F \<Longrightarrow> valid (\<lambda>w. P (w_ext w) \<and> R (w_Cluster w)) (on_ext m)
    (\<lambda>x w. Q x (w_ext w) \<and> R (w_Cluster w)) (\<lambda>e w. F e (w_ext w) \<and> R (w_Cluster w))"
  by (rule validI) (auto simp: on_ext_def split: prod.splits dest: valid_Inr valid_Inl)

text \<open>A part of the external state that a client call keeps is kept by the call in the world.\<close>

lemma on_ext_part: "(\<And>v. invariant_of (\<lambda>x. f x = v) m) \<Longrightarrow> invariant_of (\<lambda>w. P (f (w_ext w))) (on_ext m)"
  by (fastforce simp: valid_def on_ext_def split: prod.splits sum.splits)

lemma poll_inv [inv_rules]: "invariant_of I cond \<Longrightarrow> invariant_of I (PollImmediate n cond)"
proof -
  assume c: "invariant_of I cond"
  have "invariant_of I (poll_loop k cond)" for k
    by (induction k) (simp_all, (intro inv_rules c | assumption)+)
  then show ?thesis by (simp add: PollImmediate_def del: poll_loop.simps)
qed

lemma droplets_kept:
  assumes api: "droplet_api (d_api D) droplets"
  shows "invariant_of (\<lambda>w. P (droplets (w_ext w))) (instanceIfExists D m)"
    and "invariant_of (\<lambda>w. P (droplets (w_ext w))) (WaitForInstance E D i status)"
proof -
  show "invariant_of (\<lambda>w. P (droplets (w_ext w))) (instanceIfExists D m)"
    unfolding instanceIfExists_lookup
    by (rule on_ext_part [where f = droplets]) (rule valid_weaken [OF droplet_lookup_finds [OF api]], auto)
  have "invariant_of (\<lambda>w. P (droplets (w_ext w))) (on_ext (Droplets_Get (d_api D) i))"
    by (rule on_ext_part [where f = droplets]) (rule valid_weaken [OF droplet_apiD(2) [OF api]], auto)
  then show "invariant_of (\<lambda>w. P (droplets (w_ext w))) (WaitForInstance E D i status)"
    unfolding WaitForInstance_def ok_or_false_def by (intro inv_rules)
qed

abbreviation one_more :: "('a \<Rightarrow> string) \<Rightarrow> 'a list \<Rightarrow> string \<Rightarrow> 'a list \<Rightarrow> bool" where
  "one_more nm ds n l \<equiv> (\<exists>d. nm d = n \<and> l = ds @ [d])"

abbreviation at_most_one_more :: "'a list \<Rightarrow> 'a list \<Rightarrow> bool" where
  "at_most_one_more ds l \<equiv> (\<exists>new. length new \<le> 1 \<and> l = ds @ new)"

lemma at_most_one_moreI: "l = ds \<or> one_more nm ds n l \<Longrightarrow> at_most_one_more ds l"
  by (auto intro: exI [of _ "[]"] exI [of _ "[_]"])

lemma CreateInstance_droplets:
  assumes api: "droplet_api (d_api D) droplets"
  shows "valid (\<lambda>w. droplets (w_ext w) = ds) (CreateInstance E D c m script)
    (\<lambda>_ w. one_more snd ds (m_Name m) (droplets (w_ext w))) (\<lambda>_ w. at_most_one_more ds (droplets (w_ext w)))"
    (is "valid ?I _ (\<lambda>_. ?J) ?F")
proof -
  have new: "valid ?I (on_ext (Droplets_Create (d_api D) (droplet_request c m conf f script))) (\<lambda>_. ?J) ?F" for conf f
    by (rule valid_weaken [OF valid_on_ext_state [OF droplet_apiD(3) [OF api]]])
      (auto simp: droplet_request_def droplet_key_def intro: exI [of _ "[]"])
  have wait: "valid ?J (WaitForInstance E D i ''active'') (\<lambda>_. ?J) ?F" for i
    by (rule valid_weaken [OF droplets_kept(2) [OF api, of "one_more snd ds (m_Name m)"]])
       (auto intro: at_most_one_moreI)
  have key: "invariant_of ?I SSHKey_of_certs" unfolding SSHKey_of_certs_def by (intro inv_rules)
  show ?thesis unfolding CreateInstance_def
    by (intro valid_keep [where I = ?I] valid_bindp [OF new] wait key inv_rules at_most_one_moreI disjI1)
qed

lemma updateMachineStatus_droplets:
  assumes api: "droplet_api (d_api D) droplets"
    and status: "\<And>ds m. invariant_of (\<lambda>x. droplets x = ds) (d_client_Status_Machine D m)"
  shows "invariant_of (\<lambda>w. P (droplets (w_ext w))) (do_updateMachineStatus D m)"
  unfolding do_updateMachineStatus_def Let_def
  by (intro inv_rules droplets_kept [OF api] on_ext_part [where f = droplets and P = P] status)

text \<open>A creation that asks first: what it leaves depends on the answer \<open>B\<close> that a world in \<open>S\<close> gives.\<close>

lemma create_if_missing:
  assumes "valid S ex (\<lambda>b w. I w \<and> b = B) F"
    and "valid I create (\<lambda>_. J) F" "valid J status (\<lambda>_. J) F" "valid I status (\<lambda>_. I) F"
  shows "valid S (bindp ex (\<lambda>b. bindp (if b then ret () else create) (\<lambda>_. status))) (\<lambda>_ w. if B then I w else J w) F"
proof (rule valid_bindp [OF assms(1)], rule valid_assume)
  show "valid I (bindp (if b then ret () else create) (\<lambda>_. status)) (\<lambda>_ w. if B then I w else J w) F" if "b = B" for b
    using that assms(2-4) by (cases b) (simp_all add: valid_bindp)
qed

text \<open>C5. The machine actuator creates a droplet exactly if the cloud does not show it one with the name of the machine.  If
  one is shown when \<^verbatim>\<open>Create\<close> asks, a successful \<^verbatim>\<open>Create\<close> leaves the droplets as they are, otherwise it adds exactly
  one, with that name.  A failing \<^verbatim>\<open>Create\<close> adds at most one and removes none.  Where the listing is complete and its droplets can
  be read, a droplet is shown exactly if there is one, so that it is created once.  Where the listing fails, or leaves the droplet
  out, none is shown: \<^verbatim>\<open>Exists\<close> swallows the error, and a second droplet with the name is added.  Assumed is that reading
  leaves the droplets alone and shows only what is there, that creation and deletion have their effect (with an error, perhaps),
  and that token and status calls leave droplets alone.\<close>

theorem machine_create_once:
  assumes api: "droplet_api (d_api D) droplets"
    and token: "\<And>ds. invariant_of (\<lambda>x. droplets x = ds) (d_TokenCreate D)"
    and status: "\<And>ds m. invariant_of (\<lambda>x. droplets x = ds) (d_client_Status_Machine D m)"
  shows "valid (\<lambda>w. w_ext w = x) (do_Machine_Create E D m)
      (\<lambda>_ w. if is_ok (fst (droplet_lookup (d_api D) (m_Name m) x)) then droplets (w_ext w) = droplets x
         else one_more snd (droplets x) (m_Name m) (droplets (w_ext w)))
      (\<lambda>_ w. at_most_one_more (droplets x) (droplets (w_ext w))) \<and>
    (\<forall>l y. Droplets_List (d_api D) x = (Inr l, y) \<and> droplet_key ` set l = set (droplets x) \<and>
        (\<forall>d \<in> set l. is_ok (fst (Droplets_Get (d_api D) (d_ID d) y))) \<longrightarrow>
      (is_ok (fst (droplet_lookup (d_api D) (m_Name m) x)) \<longleftrightarrow> m_Name m \<in> snd ` set (droplets x))) \<and>
    (\<forall>e y. Droplets_List (d_api D) x = (Inl e, y) \<longrightarrow> \<not> is_ok (fst (droplet_lookup (d_api D) (m_Name m) x)))"
proof (intro conjI allI impI)
  let ?ds = "droplets x"
  let ?I = "\<lambda>w. droplets (w_ext w) = ?ds" and ?F = "\<lambda>_ w. at_most_one_more ?ds (droplets (w_ext w))"
  let ?J = "\<lambda>w. one_more snd ?ds (m_Name m) (droplets (w_ext w))"
  let ?create = "bindp (getKubeadmToken D) (\<lambda>token. bindp (do_RenderStartupScript E D m token) (\<lambda>script.
        bindp (gets w_Cluster) (\<lambda>c. CreateInstance E D c m script)))"
  note render = inv_do_render [OF keeps_args_ext [where P = "\<lambda>y. droplets y = ?ds"]]
  have ext: "invariant_of ?I (getKubeadmToken D)"
    unfolding getKubeadmToken_def by (intro inv_rules valid_on_ext_state token)
  have exists: "valid (\<lambda>w. w_ext w = x) (do_Exists D m)
      (\<lambda>b w. ?I w \<and> b = is_ok (fst (droplet_lookup (d_api D) (m_Name m) x))) ?F"
  proof -
    obtain r y where r: "droplet_lookup (d_api D) (m_Name m) x = (r, y)" by (cases "droplet_lookup (d_api D) (m_Name m) x")
    then have y: "droplets y = ?ds"
      using valid_Inr [OF droplet_lookup_finds [OF api] refl] valid_Inl [OF droplet_lookup_finds [OF api] refl] by (cases r) blast+
    have run: "do_Exists D m w = (case r of Inl (Panic p) \<Rightarrow> (Inl (Panic p), w\<lparr>w_ext := y\<rparr>) | _ \<Rightarrow> (Inr (is_ok r), w\<lparr>w_ext := y\<rparr>))"
      if "w_ext w = x" for w
      using that r by (cases r) (auto simp: do_Exists_def instanceIfExists_lookup run_bindp run_attempt run_simps on_ext_def split: gerror.split)
    show ?thesis using y r by (cases r) (auto simp: valid_def run split: gerror.split intro: exI [of _ "[]"])
  qed
  have J: "valid ?J (do_updateMachineStatus D m) (\<lambda>_. ?J) ?F"
    by (rule valid_weaken [OF updateMachineStatus_droplets [OF api status, of "one_more snd ?ds (m_Name m)"]])
       (auto intro: at_most_one_moreI)
  have I: "valid ?I (do_updateMachineStatus D m) (\<lambda>_. ?I) ?F"
    by (rule valid_weaken [OF updateMachineStatus_droplets [OF api status, of "\<lambda>l. l = ?ds"]])
       (auto intro: exI [of _ "[]"])
  have create: "valid ?I ?create (\<lambda>_. ?J) ?F"
    by (intro valid_keep [where I = ?I] ext render CreateInstance_droplets [OF api] inv_rules at_most_one_moreI disjI1)
  show "valid (\<lambda>w. w_ext w = x) (do_Machine_Create E D m)
      (\<lambda>_ w. if is_ok (fst (droplet_lookup (d_api D) (m_Name m) x)) then droplets (w_ext w) = droplets x
         else one_more snd (droplets x) (m_Name m) (droplets (w_ext w)))
      (\<lambda>_ w. at_most_one_more (droplets x) (droplets (w_ext w)))"
    unfolding do_Machine_Create_def
    by (intro valid_keep [where I = "\<lambda>w. w_ext w = x"] create_if_missing [OF exists create J I] inv_rules at_most_one_moreI disjI1) simp_all
qed (elim conjE, rule droplet_lookup_answers(2), assumption+, rule droplet_lookup_answers(1))

text \<open>A small cloud: its state is the list of droplets.\<close>

definition demo_do :: "Droplet list do_env" where
  "demo_do = \<lparr>d_api = \<lparr>
      Tags_Create = (\<lambda>_. ret ()), Tags_Delete = (\<lambda>_. ret ()), Tags_Get = (\<lambda>_. ret (Found ())),
      Keys_GetByFingerprint = (\<lambda>_. ret (Found 1)), Keys_Create = (\<lambda>_. ret 1), Keys_DeleteByFingerprint = (\<lambda>_. ret ()),
      Droplets_Create = (\<lambda>r ds. let d = \<lparr>d_ID = int (length ds), d_Name = dr_Name r, d_Status = ''active''\<rparr> in (Inr d, ds @ [d])),
      Droplets_Get = (\<lambda>i ds. ((case find (\<lambda>d. d_ID d = i) ds of None \<Rightarrow> Inl (Err ''not found'') | Some d \<Rightarrow> Inr d), ds)),
      Droplets_List = (\<lambda>ds. (Inr ds, ds)), Droplets_Delete = (\<lambda>i ds. (Inr (), filter (\<lambda>d. d_ID d \<noteq> i) ds)),
      Droplets_DeleteByTag = (\<lambda>_. ret ()), LoadBalancers_List = ret [],
      LoadBalancers_Get = (\<lambda>_. fail (Err ''not found'')), LoadBalancers_Create = (\<lambda>_. fail (Err ''quota'')),
      LoadBalancers_Update = (\<lambda>_ _. fail (Err ''quota'')), LoadBalancers_Delete = (\<lambda>_. ret ())\<rparr>,
    d_cred_IsValid = (\<lambda>_. Inr ()),
    d_spec = \<lparr>marshal = (\<lambda>_. Inr ''{}''),
      unmarshal = (\<lambda>_. Inr (zero_MachineProviderSpec\<lparr>dm_Image := ''i'', dm_Region := ''r'', dm_Size := ''s''\<rparr>))\<rparr>,
    d_mstatus = \<lparr>marshal = (\<lambda>_. Inr ''{}''), unmarshal = (\<lambda>_. Inr \<lparr>InstanceID = 0, InstanceStatus = ''''\<rparr>)\<rparr>,
    d_cstatus = \<lparr>marshal = (\<lambda>_. Inr ''{}''), unmarshal = (\<lambda>_. Inr \<lparr>APIServerLB = None\<rparr>)\<rparr>,
    d_cluster_spec = Inr ''{}'', d_startup = plain_startup, d_template = '''', d_TokenCreate = ret ''t'',
    d_client_Status_Machine = (\<lambda>_. ret ()), d_client_Status_Cluster = (\<lambda>_. ret ()), d_connected = (\<lambda>_. True),
    d_set_connected = (\<lambda>_ ds. ds), d_ControllerManager = ''''\<rparr>"

definition demo_do_world :: "(os, Droplet list) world" where
  "demo_do_world = \<lparr>w_Cluster = upd_Config (\<lambda>g. g\<lparr>KubernetesVersion := ''1.13.5''\<rparr>) zero_Cluster,
     w_Certs = Some \<lparr>CACert = \<lparr>Cert = '''', Key = ''''\<rparr>, FrontProxyCACert = \<lparr>Cert = '''', Key = ''''\<rparr>,
       ServiceAccountCert = \<lparr>Cert = '''', Key = ''''\<rparr>, EtcdCACert = \<lparr>Cert = '''', Key = ''''\<rparr>,
       SSHKey = \<lparr>PublicKey = '''', PrivateKey = '''', OpensshFingerprint = ''f''\<rparr>\<rparr>,
     w_CloudManager = None, w_AdminClient = False, w_store = demo_os, w_ext = []\<rparr>"

lemma demo_droplet_api: "droplet_api (d_api demo_do) (map droplet_key)"
  by (auto simp: droplet_api_def demo_do_def valid_def Let_def droplet_key_def filter_map comp_def dest: find_in_set
      split: option.splits)

lemma demo_lookup: "droplet_lookup (d_api demo_do) n ds = (case find (\<lambda>d. d_Name d = n) ds of
     None \<Rightarrow> (Inl (Err (''no droplet found with '' @ n @ '' name'')), ds)
   | Some d \<Rightarrow> ((case find (\<lambda>e. d_ID e = d_ID d) ds of None \<Rightarrow> Inl (Err ''not found'') | Some e \<Rightarrow> Inr e), ds))"
  by (simp add: droplet_lookup_def demo_do_def prog_run split: option.split)

lemma demo_do_calls:
  "invariant_of I (d_TokenCreate demo_do)" "invariant_of I (d_client_Status_Machine demo_do m)"
  by (simp_all add: demo_do_def valid_ret)

definition demo_do_machine :: Machine where
  "demo_do_machine = (named_machine ''m'')\<lparr>m_Spec := zero_MachineSpec\<lparr>ProviderSpec := Some ''{}''\<rparr>\<rparr>"

lemma demo_Machine_Create: "\<exists>w'. do_Machine_Create demo_env demo_do demo_do_machine demo_do_world = (Inr (), w')"
proof -
  have ex: "do_Exists demo_do demo_do_machine demo_do_world = (Inr False, demo_do_world)"
    by (simp add: do_Exists_def instanceIfExists_lookup demo_lookup on_ext_def prog_run demo_do_world_def)
  have st: "instanceIfExists demo_do demo_do_machine (demo_do_world\<lparr>w_ext := [\<lparr>d_ID = 0, d_Name = ''m'', d_Status = ''active''\<rparr>]\<rparr>) =
      (Inr \<lparr>d_ID = 0, d_Name = ''m'', d_Status = ''active''\<rparr>, demo_do_world\<lparr>w_ext := [\<lparr>d_ID = 0, d_Name = ''m'', d_Status = ''active''\<rparr>]\<rparr>)"
    by (simp add: instanceIfExists_lookup on_ext_def demo_lookup demo_do_machine_def named_machine_def)
  have wait: "WaitForInstance demo_env demo_do 0 ''active'' (demo_do_world\<lparr>w_ext := [\<lparr>d_ID = 0, d_Name = ''m'', d_Status = ''active''\<rparr>]\<rparr>) =
      (Inr (), demo_do_world\<lparr>w_ext := [\<lparr>d_ID = 0, d_Name = ''m'', d_Status = ''active''\<rparr>]\<rparr>)"
    unfolding WaitForInstance_def
    by (rule poll_at_once) (simp add: ok_or_false_def prog_run demo_do_def to_lower_def lower_char_def)
  have conf: "MachineConfigFromProviderSpec demo_do (ProviderSpec (m_Spec demo_do_machine)) =
      Inr (zero_MachineProviderSpec\<lparr>dm_Image := ''i'', dm_Region := ''r'', dm_Size := ''s''\<rparr>)"
    by (simp add: MachineConfigFromProviderSpec_def demo_do_machine_def demo_do_def)
  have val: "validateMachine (zero_MachineProviderSpec\<lparr>dm_Image := ''i'', dm_Region := ''r'', dm_Size := ''s''\<rparr>) = Inr ()"
    by (simp add: validateMachine_def)
  have none: "w_ext demo_do_world = []" by (simp add: demo_do_world_def)
  have token: "getKubeadmToken demo_do demo_do_world = (Inr (trim_space ''t''), demo_do_world)"
    by (simp add: getKubeadmToken_def prog_run demo_do_def)
  have create: "CreateInstance demo_env demo_do c demo_do_machine script demo_do_world =
      (Inr (), demo_do_world\<lparr>w_ext := [\<lparr>d_ID = 0, d_Name = ''m'', d_Status = ''active''\<rparr>]\<rparr>)" for c script
  proof -
    have key: "SSHKey_of_certs demo_do_world = (Inr \<lparr>PublicKey = '''', PrivateKey = '''', OpensshFingerprint = ''f''\<rparr>, demo_do_world)"
      by (simp add: SSHKey_of_certs_def prog_run demo_do_world_def)
    have nm: "dr_Name (droplet_request c demo_do_machine conf f script) = ''m''" for conf f
      by (simp add: droplet_request_def demo_do_machine_def named_machine_def)
    have "on_ext (Droplets_Create (d_api demo_do) r) demo_do_world = (Inr \<lparr>d_ID = 0, d_Name = dr_Name r, d_Status = ''active''\<rparr>,
        demo_do_world\<lparr>w_ext := [\<lparr>d_ID = 0, d_Name = dr_Name r, d_Status = ''active''\<rparr>]\<rparr>)" for r
      by (simp add: on_ext_def demo_do_def none Let_def)
    then show ?thesis
      by (simp add: CreateInstance_def run_bindp run_simps conf key wait nm)
  qed
  have env: "d_startup demo_do = plain_startup" "d_client_Status_Machine demo_do m = ret ()"
    "ProviderStatus (m_Status demo_do_machine) = None" "\<not> IsControlPlaneMachine demo_do_machine" for m
    by (simp_all add: demo_do_def demo_do_machine_def named_machine_def zero_Machine_def IsControlPlaneMachine_def zero_MachineSpec_def)
  have node: "\<exists>td'. do_NewNodeTemplateData demo_do demo_do_machine t td demo_do_world = (Inr td', demo_do_world) \<and>
      td_KubernetesVersion td' = td_KubernetesVersion td" if "td_KubeletExtraArgs td = OwnArgs a" for td t a
    using that by (simp add: do_NewNodeTemplateData_def set_arg_def prog_run JoinConfigurationYAML_def td_args_def env plain_startup_def)
  have render: "do_RenderStartupScript demo_env demo_do demo_do_machine t demo_do_world = (Inr '''', demo_do_world)" for t
    unfolding do_RenderStartupScript_def env
    by (rule render_plain_node)
      (use env node in \<open>simp_all add: do_hooks_def demo_do_world_def cluster_upd zero_Cluster_def zero_ClusterConfig_def\<close>)
  show ?thesis
    by (simp add: do_Machine_Create_def run_bindp run_simps conf val ex none token create do_updateMachineStatus_def st Let_def
        on_ext_def env render)
qed

theorem machine_create_once_witness:
  "\<exists>w' d. do_Machine_Create demo_env demo_do demo_do_machine demo_do_world = (Inr (), w') \<and> d_Name d = ''m'' \<and> w_ext w' = [d]"
proof -
  obtain w' where run: "do_Machine_Create demo_env demo_do demo_do_machine demo_do_world = (Inr (), w')"
    using demo_Machine_Create by blast
  have "m_Name demo_do_machine = ''m''" by (simp add: demo_do_machine_def named_machine_def)
  with valid_Inr [OF conjunct1 [OF machine_create_once [OF demo_droplet_api demo_do_calls, of "[]"]] _ run] run show ?thesis
    by (auto simp: demo_do_world_def demo_lookup map_eq_Cons_conv droplet_key_def)
qed

text \<open>C9. \<^verbatim>\<open>Delete\<close> of the machine actuator asks for the deletion of the droplet that the cloud shows it for the name of the machine,
  found again through its printed provider ID, and of no other.  That droplet is there and has the name.  If the call for its
  deletion succeeds, exactly the droplets of its ID are gone; if it fails, \<^verbatim>\<open>Delete\<close> reports success nevertheless.  If no droplet
  is shown, because there is none or because the listing fails, nothing is deleted and success is reported.\<close>

theorem machine_delete_precise:
  assumes api: "droplet_api (d_api D) droplets"
    and ids: "\<forall>d \<in> set (droplets x). 0 \<le> fst d \<and> fst d < 2 ^ 63"
  shows "valid (\<lambda>w. w_ext w = x) (do_Machine_Delete D m)
    (\<lambda>_ w. case droplet_lookup (d_api D) (m_Name m) x of
        (Inl _, _) \<Rightarrow> droplets (w_ext w) = droplets x
      | (Inr d, y) \<Rightarrow> (d_ID d, m_Name m) \<in> set (droplets x) \<and>
          (case Droplets_Delete (d_api D) (d_ID d) y of
             (Inr _, z) \<Rightarrow> w_ext w = z \<and> droplets z = filter (\<lambda>e. fst e \<noteq> d_ID d) (droplets x)
           | (Inl _, z) \<Rightarrow> w_ext w = z))
    (\<lambda>e w. (\<exists>p. e = Panic p) \<and> (droplets (w_ext w) = droplets x \<or>
       (\<exists>i. (i, m_Name m) \<in> set (droplets x) \<and> droplets (w_ext w) = filter (\<lambda>e. fst e \<noteq> i) (droplets x))))"
proof (cases "droplet_lookup (d_api D) (m_Name m) x")
  case (Pair r y)
  note finds = droplet_lookup_finds [OF api, of "droplets x" "m_Name m"]
  show ?thesis
  proof (cases r)
    case (Inl e)
    then have "droplets y = droplets x" using valid_Inl [OF finds refl] Pair by blast
    then show ?thesis
      using Inl Pair by (cases e) (auto simp: valid_def do_Machine_Delete_def instanceIfExists_lookup on_ext_def attempt_def prog_run)
  next
    case (Inr d)
    then have d: "droplets y = droplets x" "(d_ID d, m_Name m) \<in> set (droplets x)" using valid_Inr [OF finds refl] Pair by blast+
    then have parse: "dropletIDFromProviderID (''digitalocean://'' @ show_int (d_ID d)) = Inr (d_ID d)"
      using ids printed_id by fastforce
    obtain q z where q: "Droplets_Delete (d_api D) (d_ID d) y = (q, z)" by (cases "Droplets_Delete (d_api D) (d_ID d) y")
    have gone: "q = Inr u \<Longrightarrow> droplets z = filter (\<lambda>e. fst e \<noteq> d_ID d) (droplets x)"
      "q = Inl e \<Longrightarrow> droplets z = droplets x \<or> droplets z = filter (\<lambda>e. fst e \<noteq> d_ID d) (droplets x)" for u e
      using valid_Inr [OF droplet_apiD(4) [OF api] d(1)] valid_Inl [OF droplet_apiD(4) [OF api] d(1)] q by blast+
    have run: "do_Machine_Delete D m w = (case q of Inl (Panic p) \<Rightarrow> (Inl (Panic p), w\<lparr>w_ext := z\<rparr>) | _ \<Rightarrow> (Inr (), w\<lparr>w_ext := z\<rparr>))"
      if "w_ext w = x" for w
    proof -
      have first: "on_ext (droplet_lookup (d_api D) (m_Name m)) w = (Inr d, w\<lparr>w_ext := y\<rparr>)"
        and "on_ext (Droplets_Delete (d_api D) (d_ID d)) (w\<lparr>w_ext := y\<rparr>) = (q, w\<lparr>w_ext := z\<rparr>)"
        using that Pair Inr q by (simp_all add: on_ext_def)
      then have "DeleteInstanceByProviderID D (''digitalocean://'' @ show_int (d_ID d)) (w\<lparr>w_ext := y\<rparr>) = (q, w\<lparr>w_ext := z\<rparr>)"
        unfolding DeleteInstanceByProviderID_def parse by (simp add: run_bindp run_simps)
      with first show ?thesis
        by (simp add: do_Machine_Delete_def instanceIfExists_lookup run_bindp run_attempt run_simps split: sum.split gerror.split)
    qed
    show ?thesis
      using Pair Inr q d(2) gone by (cases q) (auto simp: valid_def run split: gerror.split)
  qed
qed

theorem machine_delete_precise_witness:
  "valid (\<lambda>w. w_ext w = [\<lparr>d_ID = 7, d_Name = ''m'', d_Status = ''active''\<rparr>, \<lparr>d_ID = 8, d_Name = ''n'', d_Status = ''active''\<rparr>])
    (do_Machine_Delete demo_do demo_do_machine :: ((os, Droplet list) world, unit) prog)
    (\<lambda>_ w. w_ext w = [\<lparr>d_ID = 8, d_Name = ''n'', d_Status = ''active''\<rparr>]) (\<lambda>e _. \<exists>p. e = Panic p)"
proof -
  let ?x = "[\<lparr>d_ID = 7, d_Name = ''m'', d_Status = ''active''\<rparr>, \<lparr>d_ID = 8, d_Name = ''n'', d_Status = ''active''\<rparr>]"
  have name: "m_Name demo_do_machine = ''m''" by (simp add: demo_do_machine_def named_machine_def)
  have "\<forall>d \<in> set (map droplet_key ?x). 0 \<le> fst d \<and> fst d < 2 ^ 63" by (simp add: droplet_key_def)
  note law = machine_delete_precise [where x = ?x and m = demo_do_machine, OF demo_droplet_api this]
  have found: "droplet_lookup (d_api demo_do) ''m'' ?x = (Inr \<lparr>d_ID = 7, d_Name = ''m'', d_Status = ''active''\<rparr>, ?x)"
    by (simp add: demo_lookup)
  have gone: "Droplets_Delete (d_api demo_do) 7 ?x = (Inr (), [\<lparr>d_ID = 8, d_Name = ''n'', d_Status = ''active''\<rparr>])"
    by (simp add: demo_do_def)
  show ?thesis by (rule valid_weaken [OF law]) (auto simp: name found gone)
qed

section \<open>Preparing the cloud\<close>

text \<open>The cluster \<open>c\<close> with the balancer at the address recorded in its status, and with that address as its last endpoint.\<close>

definition with_balancer :: "string \<Rightarrow> int \<Rightarrow> Cluster \<Rightarrow> Cluster" where
  "with_balancer ip port c = add_endpoint ip (set_LoadBalancer \<lparr>lb_DNS = '''', lb_IP = ip, lb_Port = port\<rparr> c)"

lemma with_balancer_fields:
  "cs_LoadBalancer (cst_Cloud (Status (with_balancer ip port c))) = \<lparr>lb_DNS = '''', lb_IP = ip, lb_Port = port\<rparr>"
  "c_Endpoints (with_balancer ip port c) = c_Endpoints c @ [\<lparr>Host = ip, Port = DefaultKubernetesBindPort\<rparr>]"
  "ip \<noteq> '''' \<Longrightarrow> APIServerURL (with_balancer ip port c) \<noteq> ''''"
  by (simp_all add: with_balancer_def APIServerURL_def endpoints_url_append set_LoadBalancer_def cluster_upd)

lemma record_lb:
  "valid (\<lambda>w. w_Cluster w = c \<and> X (w_ext w)) (bindp (upd_cluster (set_LoadBalancer \<lparr>lb_DNS = '''', lb_IP = ip, lb_Port = port\<rparr>)) (\<lambda>_.
    try_endpoints [\<lparr>AddrType = NodeExternalIP, Address = ip\<rparr>]))
  (\<lambda>_ w. w_Cluster w = with_balancer ip port c \<and> ip \<noteq> '''' \<and> X (w_ext w)) (\<lambda>_ _. True)"
  by (auto simp: valid_def prog_run upd_cluster_def try_endpoints_def SetClusterAPIEndpoints_def address_map_def with_balancer_def)

text \<open>The call that ended in the state \<open>x\<close> showed the balancer of the cluster: a listing by its name, or reading it by the ID
  that a listing or the request for a new one gave.\<close>

definition named_balancer :: "Cluster \<Rightarrow> DOLoadBalancer list \<Rightarrow> DOLoadBalancer option" where
  "named_balancer c = find (\<lambda>b. do_Name b = LoadBalancerName c)"

definition balancer_id :: "'x do_ops \<Rightarrow> Cluster \<Rightarrow> string \<Rightarrow> bool" where
  "balancer_id A c i \<longleftrightarrow> (\<exists>y y' b. do_ID b = i \<and>
     ((\<exists>l. LoadBalancers_List A y = (Inr l, y') \<and> named_balancer c l = Some b) \<or>
      LoadBalancers_Create A (buildLoadBalancerRequest c (LoadBalancerName c)) y = (Inr b, y')))"

definition balancer_shown :: "'x do_ops \<Rightarrow> Cluster \<Rightarrow> DOLoadBalancer \<Rightarrow> 'x \<Rightarrow> bool" where
  "balancer_shown A c b x \<longleftrightarrow>
     (\<exists>y l. LoadBalancers_List A y = (Inr l, x) \<and> named_balancer c l = Some b) \<or>
     (\<exists>y i. LoadBalancers_Get A i y = (Inr b, x) \<and> balancer_id A c i)"

lemma lbByName_shown:
  "valid (\<lambda>w. w_Cluster w = c) (lbByName D (LoadBalancerName c))
    (\<lambda>r w. w_Cluster w = c \<and> (\<forall>b. r = Found b \<longrightarrow> balancer_shown (d_api D) c b (w_ext w) \<and> balancer_id (d_api D) c (do_ID b))) (\<lambda>_ _. True)"
proof (rule validI)
  fix w r w' assume "w_Cluster w = c" "lbByName D (LoadBalancerName c) w = (Inr r, w')"
  then show "w_Cluster w' = c \<and> (\<forall>b. r = Found b \<longrightarrow> balancer_shown (d_api D) c b (w_ext w') \<and> balancer_id (d_api D) c (do_ID b))"
    by (auto simp: lbByName_def on_ext_def attempt_def prog_run balancer_shown_def balancer_id_def named_balancer_def
        split: prod.splits sum.splits gerror.splits option.splits)
qed simp

lemma waitActive_shown:
  assumes "balancer_id (d_api D) c i"
  shows "valid (\<lambda>w. w_Cluster w = c) (waitActive E D i)
    (\<lambda>b w. w_Cluster w = c \<and> balancer_shown (d_api D) c b (w_ext w)) (\<lambda>_ _. True)"
proof -
  have poll: "invariant_of (\<lambda>w. w_Cluster w = c) (PollImmediate n (ok_or_false (on_ext (LoadBalancers_Get (d_api D) i)) (\<lambda>b. ret (f b))))"
    for n and f :: "DOLoadBalancer \<Rightarrow> bool"
    unfolding ok_or_false_def by (intro inv_rules)
  have get: "valid (\<lambda>w. w_Cluster w = c) (on_ext (LoadBalancers_Get (d_api D) i))
      (\<lambda>b w. w_Cluster w = c \<and> balancer_shown (d_api D) c b (w_ext w)) (\<lambda>_ _. True)"
    using assms by (auto simp: valid_def on_ext_def balancer_shown_def split: prod.splits sum.splits)
  show ?thesis unfolding waitActive_def by (rule valid_keep [OF poll get TrueI])
qed

lemma createLoadBalancer_shown:
  "valid (\<lambda>w. w_Cluster w = c) (createLoadBalancer E D (LoadBalancerName c))
    (\<lambda>b w. w_Cluster w = c \<and> balancer_shown (d_api D) c b (w_ext w)) (\<lambda>_ _. True)"
proof -
  let ?C = "\<lambda>w. w_Cluster w = c"
  have new: "valid ?C (on_ext (LoadBalancers_Create (d_api D) (buildLoadBalancerRequest c (LoadBalancerName c))))
      (\<lambda>b w. ?C w \<and> balancer_id (d_api D) c (do_ID b)) (\<lambda>_ _. True)"
    by (auto simp: valid_def on_ext_def balancer_id_def split: prod.splits sum.splits)
  have create: "valid ?C (bindp (gets w_Cluster) (\<lambda>c'.
      bindp (on_ext (LoadBalancers_Create (d_api D) (buildLoadBalancerRequest c' (LoadBalancerName c)))) (\<lambda>b. waitActive E D (do_ID b))))
      (\<lambda>b w. ?C w \<and> balancer_shown (d_api D) c b (w_ext w)) (\<lambda>_ _. True)"
  proof (rule valid_run_eq)
    show "valid ?C (bindp (on_ext (LoadBalancers_Create (d_api D) (buildLoadBalancerRequest c (LoadBalancerName c)))) (\<lambda>b. waitActive E D (do_ID b)))
        (\<lambda>b w. ?C w \<and> balancer_shown (d_api D) c b (w_ext w)) (\<lambda>_ _. True)"
      by (intro valid_bindp [OF new] valid_assume waitActive_shown)
  qed (simp add: prog_run)
  show ?thesis unfolding createLoadBalancer_def
  proof (rule valid_bindp [OF lbByName_shown])
    fix r :: "DOLoadBalancer lookup"
    let ?P = "\<lambda>w. ?C w \<and> (\<forall>b. r = Found b \<longrightarrow> balancer_shown (d_api D) c b (w_ext w) \<and> balancer_id (d_api D) c (do_ID b))"
    show "valid ?P (case r of
        NotFound \<Rightarrow> bindp (gets w_Cluster) (\<lambda>c'.
          bindp (on_ext (LoadBalancers_Create (d_api D) (buildLoadBalancerRequest c' (LoadBalancerName c)))) (\<lambda>b. waitActive E D (do_ID b)))
      | Failed _ \<Rightarrow> fail (Panic ''nil pointer dereference'')
      | Found b \<Rightarrow> if do_Status b \<noteq> ''active'' then waitActive E D (do_ID b) else ret b)
      (\<lambda>b w. ?C w \<and> balancer_shown (d_api D) c b (w_ext w)) (\<lambda>_ _. True)"
    proof (cases r)
      case NotFound
      then show ?thesis using create by (simp add: valid_weaken)
    next
      case (Found b)
      have "valid ?P (waitActive E D (do_ID b)) (\<lambda>b w. ?C w \<and> balancer_shown (d_api D) c b (w_ext w)) (\<lambda>_ _. True)"
        using valid_Inr [OF waitActive_shown] Found by (intro validI) blast+
      then show ?thesis using Found by (auto simp: valid_def prog_run)
    qed (simp add: valid_def prog_run)
  qed
qed

text \<open>A successful preparation changes the cluster object in nothing but the balancer and its endpoint.\<close>

lemma do_PrepareCloud_endpoint:
  "valid (\<lambda>w. w_Cluster w = c) (do_PrepareCloud E D)
    (\<lambda>_ w. \<exists>b r rs. balancer_shown (d_api D) c b (w_ext w) \<and> do_ForwardingRules b = r # rs \<and> do_IP b \<noteq> '''' \<and>
       w_Cluster w = with_balancer (do_IP b) (EntryPort r) c) (\<lambda>_ _. True)"
proof -
  let ?C = "\<lambda>w. w_Cluster w = c" and ?B = "\<lambda>b w. w_Cluster w = c \<and> balancer_shown (d_api D) c b (w_ext w)"
  let ?Q = "\<lambda>w. \<exists>b r rs. balancer_shown (d_api D) c b (w_ext w) \<and> do_ForwardingRules b = r # rs \<and> do_IP b \<noteq> '''' \<and>
       w_Cluster w = with_balancer (do_IP b) (EntryPort r) c"
  let ?entry = "\<lambda>b. bindp (liftr (first_entry_port b)) (\<lambda>port.
     bindp (upd_cluster (set_LoadBalancer \<lparr>lb_DNS = '''', lb_IP = do_IP b, lb_Port = port\<rparr>)) (\<lambda>_.
     try_endpoints [\<lparr>AddrType = NodeExternalIP, Address = do_IP b\<rparr>]))"
  have recorded: "valid (?B b) (?entry b) (\<lambda>_. ?Q) (\<lambda>_ _. True)" for b
  proof (cases "do_ForwardingRules b")
    case (Cons r rs)
    then have p: "first_entry_port b = Inr (EntryPort r)" by (simp add: first_entry_port_def)
    show ?thesis unfolding p bindp_liftr
      by (rule valid_weaken [OF record_lb [where c = c and X = "balancer_shown (d_api D) c b"]]) (use Cons in auto)
  qed (simp add: first_entry_port_def valid_def prog_run)
  have balancer: "valid ?C (bindp (lbByName D (LoadBalancerName c)) (\<lambda>r. bindp (case r of
       NotFound \<Rightarrow> createLoadBalancer E D (LoadBalancerName c)
     | Failed _ \<Rightarrow> fail (Panic ''nil pointer dereference'')
     | Found b \<Rightarrow> ret b) ?entry)) (\<lambda>_. ?Q) (\<lambda>_ _. True)"
  proof (rule valid_bindp [OF lbByName_shown], rule valid_bindp [OF _ recorded])
    fix r :: "DOLoadBalancer lookup"
    show "valid (\<lambda>w. ?C w \<and> (\<forall>b. r = Found b \<longrightarrow> balancer_shown (d_api D) c b (w_ext w) \<and> balancer_id (d_api D) c (do_ID b)))
        (case r of NotFound \<Rightarrow> createLoadBalancer E D (LoadBalancerName c) | Failed _ \<Rightarrow> fail (Panic ''nil pointer dereference'')
         | Found b \<Rightarrow> ret b) ?B (\<lambda>_ _. True)"
      using createLoadBalancer_shown [of c E D] by (cases r) (simp_all add: valid_fail, auto simp: valid_def run_simps)
  qed
  have cluster: "valid ?C (bindp (gets w_Cluster) f) (\<lambda>_. ?Q) (\<lambda>_ _. True)" if "valid ?C (f c) (\<lambda>_. ?Q) (\<lambda>_ _. True)"
    for f
    using that by (auto simp: valid_def prog_run)
  have first: "invariant_of ?C (need_conn D)" "invariant_of ?C (getPublicKey D)" "invariant_of ?C (importPublicKey D)"
    "invariant_of ?C (getTags D)" "invariant_of ?C (createTags D)"
    unfolding need_conn_def getPublicKey_def importPublicKey_def getTags_def createTags_def SSHKey_of_certs_def by (intro inv_rules)+
  show ?thesis unfolding do_PrepareCloud_def
    by (intro valid_keep [where I = ?C] first inv_rules cluster balancer TrueI)
qed


section \<open>Errors of the cloud\<close>

text \<open>When the load balancers cannot be listed, creating one dereferences the balancer that was not found
  and panics, where deletion returns the error.\<close>

lemma lb_list_error:
  assumes "LoadBalancers_List (d_api D) (w_ext w) = (Inl (Err e), x)"
  shows "createLoadBalancer E D name w = (Inl (Panic ''nil pointer dereference''), w\<lparr>w_ext := x\<rparr>) \<and>
    deleteLoadBalancer D name w = (Inl (Err e), w\<lparr>w_ext := x\<rparr>)"
  using assms by (simp add: createLoadBalancer_def deleteLoadBalancer_def lbByName_def prog_run)

lemma CreateInstance_no_list:
  "CreateInstance E (D\<lparr>d_api := (d_api D)\<lparr>Droplets_List := f\<rparr>\<rparr>) = CreateInstance E D"
  by (simp add: fun_eq_iff CreateInstance_def WaitForInstance_def MachineConfigFromProviderSpec_def cong: option.case_cong)

text \<open>When the droplets cannot be listed, the machine actuator takes the machine for missing: \<^verbatim>\<open>Exists\<close> answers
  no, \<^verbatim>\<open>Delete\<close> reports success without deleting, and \<^verbatim>\<open>EnsureMaster\<close> does the same as with no droplet
  of that name.\<close>

lemma droplet_list_error_hidden:
  assumes "Droplets_List (d_api D) (w_ext w) = (Inl (Err e), x)"
  shows "do_Exists D m w = (Inr False, w\<lparr>w_ext := x\<rparr>) \<and> do_Machine_Delete D m w = (Inr (), w\<lparr>w_ext := x\<rparr>) \<and>
    do_EnsureMaster E D m w = do_EnsureMaster E (D\<lparr>d_api := (d_api D)\<lparr>Droplets_List := \<lambda>_. (Inr [], x)\<rparr>\<rparr>) m w"
proof (intro conjI)
  show "do_Exists D m w = (Inr False, w\<lparr>w_ext := x\<rparr>)" "do_Machine_Delete D m w = (Inr (), w\<lparr>w_ext := x\<rparr>)"
    using assms by (simp_all add: do_Exists_def do_Machine_Delete_def instanceIfExists_def prog_run)
  show "do_EnsureMaster E D m w = do_EnsureMaster E (D\<lparr>d_api := (d_api D)\<lparr>Droplets_List := \<lambda>_. (Inr [], x)\<rparr>\<rparr>) m w"
    using assms by (simp add: do_EnsureMaster_def instanceIfExists_def need_conn_def CreateInstance_no_list
        run_bindp run_simps run_attempt run_on_ext Let_def cong: sum.case_cong)
qed

end
