(* ===== verification/Linode_Props.thy ===== *)
theory Linode_Props
  imports Digitalocean_Props
begin

text \<open>
  Properties of the Linode provider, and those it shares with DigitalOcean: provider identifiers,
  the endpoint that the preparation of the cloud leaves behind, the machine actuator, and the stack
  scripts, which deletion leaves behind.
\<close>

section \<open>Provider identifiers\<close>

lemma instanceID_iff: "instanceIDFromProviderID p = Inr i \<longleftrightarrow> provider_id li_UID p i"
proof -
  have "\<not> has_suffix li_UID '':''" by (simp add: li_UID_def has_suffix_iff suffix_def)
  note split = provider_id_split [OF this]
  show ?thesis
    unfolding split instanceIDFromProviderID_def by (auto split: list.splits option.splits if_splits)
qed

text \<open>The identifiers of Packet: what stands behind the second slash, whatever it is.\<close>

lemma serverID_iff: "serverIDFromProviderID p = Inr s \<longleftrightarrow>
    (\<exists>x y. p = x @ ''/'' @ y @ ''/'' @ s \<and> CHR ''/'' \<notin> set (x @ y @ s) \<and> x \<in> {pk_UID, pk_UID @ '':''})"
proof -
  have "\<not> has_suffix pk_UID '':''" by (simp add: pk_UID_def has_suffix_iff suffix_def)
  note colon = trim_colon [OF this]
  have "serverIDFromProviderID p = Inr s \<longleftrightarrow> (\<exists>x y. split_on (CHR ''/'') p = [x, y, s] \<and> trim_suffix x '':'' = pk_UID)"
    by (auto simp: serverIDFromProviderID_def split: list.splits)
  then show ?thesis unfolding split_three colon by auto
qed

lemma serverID_unique:
  assumes "serverIDFromProviderID p = Inr s" "provider_id u p i" "\<not> has_suffix u '':''"
  shows "u = pk_UID"
proof -
  obtain x y z where "split_on (CHR ''/'') p = [x, y, z]" "trim_suffix x '':'' = u"
    using assms(2) unfolding provider_id_split [OF assms(3)] by blast
  then show ?thesis using assms(1) by (simp add: serverIDFromProviderID_def split: if_splits)
qed

text \<open>C25. Identifiers of machines: DigitalOcean and Linode accept an identifier exactly if it consists of three parts
  between slashes, of which the first is the provider, with or without colon, and the last a decimal number that fits an
  \<^verbatim>\<open>int\<close>; that number is the result.  Packet accepts any last part and gives it back.  The identifiers the
  actuators print are accepted, and no identifier is accepted by two of the providers.\<close>

theorem provider_ids:
  assumes "0 \<le> k" "k < 2 ^ 63" "CHR ''/'' \<notin> set t"
  shows "(dropletIDFromProviderID p = Inr i \<longleftrightarrow> provider_id ''digitalocean'' p i) \<and>
    (instanceIDFromProviderID p = Inr i \<longleftrightarrow> provider_id ''linode'' p i) \<and>
    (serverIDFromProviderID p = Inr s \<longleftrightarrow>
      (\<exists>x y. p = x @ ''/'' @ y @ ''/'' @ s \<and> CHR ''/'' \<notin> set (x @ y @ s) \<and> x \<in> {''packet'', ''packet:''})) \<and>
    dropletIDFromProviderID (''digitalocean://'' @ show_int k) = Inr k \<and>
    instanceIDFromProviderID (''linode://'' @ show_int k) = Inr k \<and>
    serverIDFromProviderID (''packet://'' @ t) = Inr t \<and>
    \<not> (is_ok (dropletIDFromProviderID p) \<and> is_ok (instanceIDFromProviderID p)) \<and>
    \<not> (is_ok (serverIDFromProviderID p) \<and> (is_ok (dropletIDFromProviderID p) \<or> is_ok (instanceIDFromProviderID p)))"
proof -
  have uids: "\<not> has_suffix do_UID '':''" "\<not> has_suffix li_UID '':''" "do_UID \<noteq> pk_UID" "li_UID \<noteq> pk_UID" "do_UID \<noteq> li_UID"
    by (simp_all add: do_UID_def li_UID_def pk_UID_def has_suffix_iff suffix_def)
  have "instanceIDFromProviderID (''linode://'' @ show_int k) = Inr k"
    using provider_id_print [OF assms(1,2), of li_UID] by (simp add: instanceID_iff li_UID_def)
  moreover have "serverIDFromProviderID (''packet://'' @ t) = Inr t"
    unfolding serverID_iff using assms(3) by (intro exI [of _ "''packet:''"] exI [of _ "''''"]) (simp add: pk_UID_def)
  moreover
  have ok: "is_ok r \<longleftrightarrow> (\<exists>x. r = Inr x)" for r :: "'z res" by (cases r) (auto simp: is_ok_def)
  have "False" if "provider_id do_UID p a" "provider_id li_UID p b" for a b
    using provider_id_unique [OF uids(1,2) that] uids(5) by simp
  then have "\<not> (is_ok (dropletIDFromProviderID p) \<and> is_ok (instanceIDFromProviderID p))"
    by (auto simp: ok dropletID_iff instanceID_iff)
  moreover have "False" if "serverIDFromProviderID p = Inr s" "provider_id do_UID p a \<or> provider_id li_UID p a" for s a
    using serverID_unique [OF that(1)] that(2) uids by metis
  then have "\<not> (is_ok (serverIDFromProviderID p) \<and> (is_ok (dropletIDFromProviderID p) \<or> is_ok (instanceIDFromProviderID p)))"
    by (auto simp: ok dropletID_iff instanceID_iff)
  ultimately show ?thesis
    using printed_id [OF assms(1,2)] dropletID_iff [of p i] instanceID_iff [of p i] serverID_iff [of p s]
    by (simp add: do_UID_def li_UID_def pk_UID_def)
qed

theorem provider_ids_witness:
  "dropletIDFromProviderID (''digitalocean://'' @ show_int 12345) = Inr 12345 \<and>
    instanceIDFromProviderID (''linode://'' @ show_int 12345) = Inr 12345 \<and>
    serverIDFromProviderID ''packet://a-b'' = Inr ''a-b''"
  using provider_ids [of 12345 "''a-b''"] by simp

section \<open>Preparing the cloud\<close>

text \<open>The calls that ended in the state \<open>x\<close> showed the balancer of the cluster: a listing by its name, or the request for a new one, which
  is read by the ID it gave and then gets its configuration.\<close>

definition li_balancer_shown :: "'x linode_ops \<Rightarrow> Cluster \<Rightarrow> NodeBalancer \<Rightarrow> 'x \<Rightarrow> bool" where
  "li_balancer_shown A c b x \<longleftrightarrow>
     (\<exists>y l. li_ListNodeBalancers A y = (Inr l, x) \<and> find_balancer (li_LoadBalancerName c) l = Inr (Some b)) \<or>
     (\<exists>y y1 y2 i conf k. li_CreateNodeBalancer_call A (li_LoadBalancerName c) (Zone (c_CloudSpec c)) 20 y = (Inr i, y1) \<and>
        li_GetNodeBalancer A i y1 = (Inr (Some b), y2) \<and> li_CreateNodeBalancerConfig_call A i conf y2 = (Inr k, x))"

lemma li_lbByName_shown:
  "valid (\<lambda>w. w_Cluster w = c) (li_lbByName D (li_LoadBalancerName c))
    (\<lambda>r w. w_Cluster w = c \<and> (\<forall>b. r = Found b \<longrightarrow> li_balancer_shown (l_api D) c b (w_ext w))) (\<lambda>_ _. True)"
proof (rule validI)
  fix w r w' assume "w_Cluster w = c" "li_lbByName D (li_LoadBalancerName c) w = (Inr r, w')"
  then show "w_Cluster w' = c \<and> (\<forall>b. r = Found b \<longrightarrow> li_balancer_shown (l_api D) c b (w_ext w'))"
    by (auto simp: li_lbByName_def li_client_def on_ext_def attempt_def prog_run li_balancer_shown_def nil_deref_def
        split: prod.splits sum.splits gerror.splits option.splits if_splits)
qed simp

lemma li_createLoadBalancer_shown:
  "valid (\<lambda>w. w_Cluster w = c) (li_createLoadBalancer D (li_LoadBalancerName c))
    (\<lambda>ob w. w_Cluster w = c \<and> (\<forall>b. ob = Some b \<longrightarrow> li_balancer_shown (l_api D) c b (w_ext w))) (\<lambda>_ _. True)"
proof -
  let ?C = "\<lambda>w. w_Cluster w = c"
  have new: "valid ?C (li_buildLoadBalancerRequest D (li_LoadBalancerName c))
      (\<lambda>b w. ?C w \<and> li_balancer_shown (l_api D) c b (w_ext w)) (\<lambda>_ _. True)"
  proof (rule validI)
    fix w b w' assume "?C w" "li_buildLoadBalancerRequest D (li_LoadBalancerName c) w = (Inr b, w')"
    then show "?C w' \<and> li_balancer_shown (l_api D) c b (w_ext w')"
      by (auto simp: li_buildLoadBalancerRequest_def li_createNodeBalancer_def li_createNodeBalancerConfig_def li_client_def
          on_ext_def prog_run li_balancer_shown_def split: prod.splits sum.splits option.splits if_splits)
  qed simp
  show ?thesis unfolding li_createLoadBalancer_def
  proof (rule valid_bindp [OF li_lbByName_shown])
    fix r :: "NodeBalancer lookup"
    show "valid (\<lambda>w. ?C w \<and> (\<forall>b. r = Found b \<longrightarrow> li_balancer_shown (l_api D) c b (w_ext w)))
        (case r of NotFound \<Rightarrow> bindp (li_buildLoadBalancerRequest D (li_LoadBalancerName c)) (\<lambda>nb. ret (Some nb))
         | Failed _ \<Rightarrow> ret None | Found lb \<Rightarrow> ret (Some lb))
        (\<lambda>ob w. ?C w \<and> (\<forall>b. ob = Some b \<longrightarrow> li_balancer_shown (l_api D) c b (w_ext w))) (\<lambda>_ _. True)"
    proof (cases r)
      case NotFound
      have "valid ?C (bindp (li_buildLoadBalancerRequest D (li_LoadBalancerName c)) (\<lambda>nb. ret (Some nb)))
          (\<lambda>ob w. ?C w \<and> (\<forall>b. ob = Some b \<longrightarrow> li_balancer_shown (l_api D) c b (w_ext w))) (\<lambda>_ _. True)"
        by (rule valid_bindp [OF new]) (simp add: valid_def run_simps)
      with NotFound show ?thesis by simp
    qed (simp_all add: valid_def run_simps)
  qed
qed

lemma li_PrepareCloud_endpoint:
  "valid (\<lambda>w. w_Cluster w = c) (li_PrepareCloud L)
    (\<lambda>_ w. \<exists>b ip. li_balancer_shown (l_api L) c b (w_ext w) \<and> nb_IPv4 b = Some ip \<and> ip \<noteq> '''' \<and>
       w_Cluster w = with_balancer ip DefaultKubernetesBindPort c) (\<lambda>_ _. True)"
proof -
  let ?C = "\<lambda>w. w_Cluster w = c"
  let ?B = "\<lambda>ob w. ?C w \<and> (\<forall>b. ob = Some b \<longrightarrow> li_balancer_shown (l_api L) c b (w_ext w))"
  let ?Q = "\<lambda>w. \<exists>b ip. li_balancer_shown (l_api L) c b (w_ext w) \<and> nb_IPv4 b = Some ip \<and> ip \<noteq> '''' \<and>
       w_Cluster w = with_balancer ip DefaultKubernetesBindPort c"
  let ?entry = "\<lambda>ob. bindp (liftr (deref_opt ob)) (\<lambda>b. bindp (liftr (deref_opt (nb_IPv4 b))) (\<lambda>ip.
     bindp (upd_cluster (set_LoadBalancer \<lparr>lb_DNS = '''', lb_IP = ip, lb_Port = DefaultKubernetesBindPort\<rparr>)) (\<lambda>_.
     try_endpoints [\<lparr>AddrType = NodeExternalIP, Address = ip\<rparr>])))"
  have recorded: "valid (?B ob) (?entry ob) (\<lambda>_. ?Q) (\<lambda>_ _. True)" for ob
  proof (cases ob)
    case (Some b)
    show ?thesis
    proof (cases "nb_IPv4 b")
      case None
      then show ?thesis using Some by (simp add: deref_opt_def valid_def prog_run)
    next
      case (Some ip)
      show ?thesis unfolding \<open>ob = Some b\<close> Some deref_opt_def option.case bindp_liftr
        by (rule valid_weaken [OF record_lb [where c = c and X = "li_balancer_shown (l_api L) c b"]]) (use Some in auto)
    qed
  qed (simp add: deref_opt_def valid_def prog_run)
  have balancer: "valid ?C (bindp (li_lbByName L (li_LoadBalancerName c)) (\<lambda>r. bindp (case r of
       Found lb \<Rightarrow> ret (Some lb) | NotFound \<Rightarrow> li_createLoadBalancer L (li_LoadBalancerName c)
     | Failed _ \<Rightarrow> li_createLoadBalancer L (li_LoadBalancerName c)) ?entry)) (\<lambda>_. ?Q) (\<lambda>_ _. True)"
  proof (rule valid_bindp [OF li_lbByName_shown], rule valid_bindp [OF _ recorded])
    fix r :: "NodeBalancer lookup"
    show "valid (\<lambda>w. ?C w \<and> (\<forall>b. r = Found b \<longrightarrow> li_balancer_shown (l_api L) c b (w_ext w)))
        (case r of Found lb \<Rightarrow> ret (Some lb) | NotFound \<Rightarrow> li_createLoadBalancer L (li_LoadBalancerName c)
         | Failed _ \<Rightarrow> li_createLoadBalancer L (li_LoadBalancerName c)) ?B (\<lambda>_ _. True)"
      using li_createLoadBalancer_shown [of c L] by (cases r) (simp_all, simp add: valid_def run_simps)
  qed
  then show ?thesis by (auto simp: li_PrepareCloud_def valid_def prog_run)
qed

text \<open>C18. If the preparation of the cloud succeeds, DigitalOcean or Linode has shown a balancer with the name for the cluster, or made one
  on a request with that name and shown it by the ID it got, in its last answers, and the cluster is the one
  of before but for the address of that balancer, which is not empty: the status records it, with the port of the balancer's first rule
  or that of the API server, and it is the last endpoint.  So the cluster has an API server URL and the admin client can be made.\<close>

theorem prepare_gives_endpoint:
  "valid (\<lambda>w. w_Cluster w = c) (do_PrepareCloud E D)
     (\<lambda>_ w. \<exists>b r rs. balancer_shown (d_api D) c b (w_ext w) \<and> do_ForwardingRules b = r # rs \<and> do_IP b \<noteq> '''' \<and>
        w_Cluster w = with_balancer (do_IP b) (EntryPort r) c \<and> APIServerURL (w_Cluster w) \<noteq> '''') (\<lambda>_ _. True) \<and>
   valid (\<lambda>w. w_Cluster w = c) (li_PrepareCloud L)
     (\<lambda>_ w. \<exists>b ip. li_balancer_shown (l_api L) c b (w_ext w) \<and> nb_IPv4 b = Some ip \<and> ip \<noteq> '''' \<and>
        w_Cluster w = with_balancer ip DefaultKubernetesBindPort c \<and> APIServerURL (w_Cluster w) \<noteq> '''') (\<lambda>_ _. True)"
  by (intro conjI valid_weaken [OF do_PrepareCloud_endpoint [of c]] valid_weaken [OF li_PrepareCloud_endpoint [of c]];
      metis with_balancer_fields(3))

text \<open>When the balancers cannot be listed, the error is dropped and the missing balancer dereferenced.\<close>

lemma li_prepare_panics:
  assumes "l_connected L (w_ext w)" "\<And>x. li_ListNodeBalancers (l_api L) x = (Inl (Err e), x)"
  shows "li_PrepareCloud L w = (Inl nil_deref, w)"
  using assms by (simp add: li_PrepareCloud_def li_createLoadBalancer_def li_lbByName_def li_client_def deref_opt_def prog_run)

section \<open>The machine actuator\<close>

text \<open>The instances there are, by ID and label.  Reading changes none and shows what is there, but it may fail and need not be complete;
  creation has its effect, or with an error perhaps; the calls on scripts and balancers leave instances alone.\<close>

definition instance_key :: "Instance \<Rightarrow> int \<times> string" where
  "instance_key d = (in_ID d, in_Label d)"

definition instance_api :: "'x linode_ops \<Rightarrow> ('x \<Rightarrow> (int \<times> string) list) \<Rightarrow> bool" where
  "instance_api A instances \<longleftrightarrow>
     (\<forall>ds. valid (\<lambda>x. instances x = ds) (li_ListInstances A)
        (\<lambda>l x. instances x = ds \<and> instance_key ` set l \<subseteq> set ds) (\<lambda>_ x. instances x = ds)) \<and>
     (\<forall>ds r. valid (\<lambda>x. instances x = ds) (li_CreateInstance_call A r)
        (\<lambda>d x. in_Label d = io_Label r \<and> instances x = ds @ [instance_key d])
        (\<lambda>_ x. instances x = ds \<or> (\<exists>i. instances x = ds @ [(i, io_Label r)]))) \<and>
     (\<forall>ds i. invariant_of (\<lambda>x. instances x = ds) (li_GetInstance A i)) \<and>
     (\<forall>ds f. invariant_of (\<lambda>x. instances x = ds) (li_ListStackscripts A f)) \<and>
     (\<forall>ds r. invariant_of (\<lambda>x. instances x = ds) (li_CreateStackscript A r)) \<and>
     (\<forall>ds i r. invariant_of (\<lambda>x. instances x = ds) (li_UpdateStackscript A i r)) \<and>
     (\<forall>ds. invariant_of (\<lambda>x. instances x = ds) (li_ListNodeBalancers A)) \<and>
     (\<forall>ds i. invariant_of (\<lambda>x. instances x = ds) (li_ListNodeBalancerConfigs A i)) \<and>
     (\<forall>ds i j r. invariant_of (\<lambda>x. instances x = ds) (li_CreateNodeBalancerNode A i j r))"

text \<open>What a listing shows of a name.\<close>

definition listed :: "('x, 'd list) prog \<Rightarrow> ('d \<Rightarrow> string) \<Rightarrow> string \<Rightarrow> 'x \<Rightarrow> 'd option" where
  "listed call nm n x = (case call x of (Inr l, _) \<Rightarrow> find (\<lambda>d. nm d = n) l | _ \<Rightarrow> None)"

lemma listed_answers:
  shows "call x = (Inl e, y) \<Longrightarrow> listed call nm n x = None"
    and "call x = (Inr l, y) \<Longrightarrow> listed call nm n x \<noteq> None \<longleftrightarrow> n \<in> nm ` set l"
  by (auto simp: listed_def find_None_iff)

lemma li_client_part: "(\<And>v. invariant_of (\<lambda>x. f x = v) m) \<Longrightarrow> invariant_of (\<lambda>w. P (f (w_ext w))) (li_client D m)"
  unfolding li_client_def by (intro inv_rules on_ext_part)

lemma valid_li_client:
  assumes "valid P m Q F" "\<And>x. P x \<Longrightarrow> F nil_deref x"
  shows "valid (\<lambda>w. P (w_ext w)) (li_client D m) (\<lambda>y w. Q y (w_ext w)) (\<lambda>e w. F e (w_ext w))"
  using assms by (fastforce simp: valid_def li_client_def prog_run split: prod.splits sum.splits)

lemma instance_apiD:
  assumes "instance_api A instances"
  shows "valid (\<lambda>x. instances x = ds) (li_ListInstances A) (\<lambda>l x. instances x = ds \<and> instance_key ` set l \<subseteq> set ds) (\<lambda>_ x. instances x = ds)"
    and "valid (\<lambda>x. instances x = ds) (li_CreateInstance_call A r)
      (\<lambda>d x. in_Label d = io_Label r \<and> instances x = ds @ [instance_key d])
      (\<lambda>_ x. instances x = ds \<or> (\<exists>i. instances x = ds @ [(i, io_Label r)]))"
    and "invariant_of (\<lambda>x. instances x = ds) (li_ListInstances A)"
proof -
  show list: "valid (\<lambda>x. instances x = ds) (li_ListInstances A) (\<lambda>l x. instances x = ds \<and> instance_key ` set l \<subseteq> set ds)
      (\<lambda>_ x. instances x = ds)" for ds
    using assms by (simp add: instance_api_def)
  show "invariant_of (\<lambda>x. instances x = ds) (li_ListInstances A)"
    by (rule valid_weaken [OF list]) auto
qed (use assms in \<open>simp add: instance_api_def\<close>)

lemma li_Exists_listed:
  assumes "instance_api (l_api D) instances"
  shows "valid (\<lambda>w. w_ext w = x) (li_Exists D m)
    (\<lambda>b w. instances (w_ext w) = instances x \<and> b = (listed (li_ListInstances (l_api D)) in_Label (m_Name m) x \<noteq> None))
    (\<lambda>_ w. instances (w_ext w) = instances x)"
proof -
  obtain r y where r: "li_ListInstances (l_api D) x = (r, y)" by (cases "li_ListInstances (l_api D) x")
  then have y: "instances y = instances x"
    using valid_Inr [OF instance_apiD(3) [OF assms] refl] valid_Inl [OF instance_apiD(3) [OF assms] refl] by (cases r) blast+
  let ?b = "listed (li_ListInstances (l_api D)) in_Label (m_Name m) x \<noteq> None"
  have ex: "li_Exists D m w = (if l_connected D x then
      (case r of Inl (Panic p) \<Rightarrow> (Inl (Panic p), w\<lparr>w_ext := y\<rparr>)
       | _ \<Rightarrow> (Inr ?b, w\<lparr>w_ext := y\<rparr>)) else (Inl nil_deref, w))"
    if "w_ext w = x" for w
    using that r
    by (cases r) (auto simp: li_Exists_def li_instanceIfExists_def li_client_def on_ext_def listed_def nil_deref_def prog_run
        split: option.split gerror.split)
  have run: "b = ?b \<and> instances (w_ext w') = instances x" if "li_Exists D m w = (Inr b, w')" "w_ext w = x" for w w' b
    using that(1) y unfolding ex [OF that(2)] by (auto split: if_splits sum.splits gerror.splits)
  moreover have "instances (w_ext w') = instances x" if "li_Exists D m w = (Inl e, w')" "w_ext w = x" for w w' e
    using that y unfolding ex [OF that(2)] by (auto split: if_splits sum.splits gerror.splits)
  ultimately show ?thesis by (intro validI) blast+
qed

lemma li_keeps_instances:
  assumes "instance_api (l_api D) instances"
  shows "invariant_of (\<lambda>w. P (instances (w_ext w))) (li_machine_scripts D m)"
    and "invariant_of (\<lambda>w. P (instances (w_ext w))) (li_createOrUpdateStackScript D m script)"
    and "invariant_of (\<lambda>w. P (instances (w_ext w))) (li_getStartupScriptID D m)"
    and "invariant_of (\<lambda>w. P (instances (w_ext w))) (li_waitForStatus E D i status)"
    and "invariant_of (\<lambda>w. P (instances (w_ext w))) (li_addNodeToBalancer D lb n ip)"
    and "invariant_of (\<lambda>w. P (instances (w_ext w))) (li_instanceIfExists D m)"
proof -
  note law = assms [unfolded instance_api_def]
  have calls: "invariant_of (\<lambda>w. P (instances (w_ext w))) (li_client D (li_GetInstance (l_api D) i))"
    "invariant_of (\<lambda>w. P (instances (w_ext w))) (li_client D (li_ListStackscripts (l_api D) f))"
    "invariant_of (\<lambda>w. P (instances (w_ext w))) (li_client D (li_CreateStackscript (l_api D) so))"
    "invariant_of (\<lambda>w. P (instances (w_ext w))) (li_client D (li_UpdateStackscript (l_api D) i so))"
    "invariant_of (\<lambda>w. P (instances (w_ext w))) (li_client D (li_ListNodeBalancers (l_api D)))"
    "invariant_of (\<lambda>w. P (instances (w_ext w))) (li_client D (li_ListNodeBalancerConfigs (l_api D) i))"
    "invariant_of (\<lambda>w. P (instances (w_ext w))) (li_client D (li_CreateNodeBalancerNode (l_api D) i j no))" for i j f so no
    by (rule li_client_part [where f = instances and P = P], simp add: law)+
  show scripts: "invariant_of (\<lambda>w. P (instances (w_ext w))) (li_machine_scripts D m)"
    unfolding li_machine_scripts_def Let_def by (intro inv_rules calls)
  show "invariant_of (\<lambda>w. P (instances (w_ext w))) (li_createOrUpdateStackScript D m script)"
    "invariant_of (\<lambda>w. P (instances (w_ext w))) (li_getStartupScriptID D m)"
    unfolding li_createOrUpdateStackScript_def li_getStartupScriptID_def by (intro inv_rules calls scripts)+
  show "invariant_of (\<lambda>w. P (instances (w_ext w))) (li_waitForStatus E D i status)"
    unfolding li_waitForStatus_def by (intro inv_rules calls)
  show "invariant_of (\<lambda>w. P (instances (w_ext w))) (li_addNodeToBalancer D lb n ip)"
    unfolding li_addNodeToBalancer_def li_lbByName_def found_lb_def by (intro inv_rules calls)
  have list: "invariant_of (\<lambda>w. P (instances (w_ext w))) (li_client D (li_ListInstances (l_api D)))"
    by (rule li_client_part [where f = instances and P = P]) (rule instance_apiD(3) [OF assms])
  show "invariant_of (\<lambda>w. P (instances (w_ext w))) (li_instanceIfExists D m)"
    unfolding li_instanceIfExists_def by (intro inv_rules list)
qed

lemma li_CreateInstance_instances:
  assumes api: "instance_api (l_api D) instances"
  shows "valid (\<lambda>w. instances (w_ext w) = ds) (li_CreateInstance E D m script)
    (\<lambda>_ w. one_more snd ds (m_Name m) (instances (w_ext w))) (\<lambda>_ w. at_most_one_more ds (instances (w_ext w)))"
    (is "valid ?I _ (\<lambda>_. ?J) ?F")
proof -
  note keeps = li_keeps_instances [OF api]
  have new: "valid ?I (li_client D (li_CreateInstance_call (l_api D) r)) (\<lambda>_. ?J) ?F" if "io_Label r = m_Name m" for r
    by (rule valid_weaken [OF valid_li_client [where D = D, OF instance_apiD(2) [OF api]]])
      (auto simp: that instance_key_def intro: exI [of _ "[]"])
  have J: "invariant_of ?J p \<Longrightarrow> valid ?J p (\<lambda>_. ?J) ?F" for p :: "(('b, 'a) world, 'c) prog"
    by (erule valid_weaken) (auto intro: at_most_one_moreI)
  have after: "valid ?J (bindp (li_waitForStatus E D i st) (\<lambda>_. bindp (liftr r1) (\<lambda>a. bindp (liftr r2) (\<lambda>b. ret (g a b)))))
      (\<lambda>_. ?J) ?F" for i st r1 r2 and g :: "string \<Rightarrow> string \<Rightarrow> NodeInfo"
    by (rule J, intro inv_rules keeps(4) [where P = "one_more snd ds (m_Name m)"])
  have key: "invariant_of ?I SSHKey_of_certs" unfolding SSHKey_of_certs_def by (intro inv_rules)
  show ?thesis unfolding li_CreateInstance_def
    by (intro valid_keep [where I = ?I] valid_bindp [OF new after] keeps(2,3) [where P = "\<lambda>l. l = ds"] key inv_rules at_most_one_moreI disjI1)
      simp
qed

lemma li_updateMachineStatus_instances:
  assumes api: "instance_api (l_api D) instances"
    and status: "\<And>ds m. invariant_of (\<lambda>x. instances x = ds) (l_client_Status_Machine D m)"
  shows "invariant_of (\<lambda>w. P (instances (w_ext w))) (li_updateMachineStatus D m)"
  unfolding li_updateMachineStatus_def
  by (intro inv_rules li_keeps_instances [OF api] on_ext_part [where f = instances and P = P] status)

text \<open>C22. The machine actuator of Linode creates an instance exactly if the listing does not show it one with the name of the machine.
  If one is shown when \<^verbatim>\<open>Create\<close> asks, a successful \<^verbatim>\<open>Create\<close> leaves the instances as they are, otherwise it adds exactly one, with
  that name.  A failing \<^verbatim>\<open>Create\<close> adds at most one and removes none, also where the failure is in the stack script before or in the load
  balancer after it.  Where the listing is complete, an instance is shown exactly if there is one, so that it is created once; where it
  fails, none is shown: \<^verbatim>\<open>Exists\<close> swallows the error, and a second instance with the name is added.\<close>

theorem linode_create_once:
  assumes api: "instance_api (l_api D) instances"
    and token: "\<And>ds. invariant_of (\<lambda>x. instances x = ds) (l_TokenCreate D)"
    and status: "\<And>ds m. invariant_of (\<lambda>x. instances x = ds) (l_client_Status_Machine D m)"
  shows "valid (\<lambda>w. w_ext w = x) (li_Machine_Create E D m)
      (\<lambda>_ w. if listed (li_ListInstances (l_api D)) in_Label (m_Name m) x \<noteq> None then instances (w_ext w) = instances x
         else one_more snd (instances x) (m_Name m) (instances (w_ext w)))
      (\<lambda>_ w. at_most_one_more (instances x) (instances (w_ext w))) \<and>
    (\<forall>l y. li_ListInstances (l_api D) x = (Inr l, y) \<and> instance_key ` set l = set (instances x) \<longrightarrow>
      (listed (li_ListInstances (l_api D)) in_Label (m_Name m) x \<noteq> None \<longleftrightarrow> m_Name m \<in> snd ` set (instances x))) \<and>
    (\<forall>e y. li_ListInstances (l_api D) x = (Inl e, y) \<longrightarrow> listed (li_ListInstances (l_api D)) in_Label (m_Name m) x = None)"
proof (intro conjI allI impI)
  let ?ds = "instances x"
  let ?I = "\<lambda>w. instances (w_ext w) = ?ds" and ?F = "\<lambda>_ w. at_most_one_more ?ds (instances (w_ext w))"
  let ?J = "\<lambda>w. one_more snd ?ds (m_Name m) (instances (w_ext w))"
  let ?balance = "\<lambda>c server. if IsControlPlaneMachine m
    then li_addNodeToBalancer D (li_LoadBalancerName c) (m_Name m) (ni_PrivateIP server) else ret ()"
  let ?create = "bindp (li_getKubeadmToken D) (\<lambda>token. bindp (gets w_Cluster) (\<lambda>c.
        bindp (li_RenderStartupScript E D m token) (\<lambda>script. bindp (li_CreateInstance E D m script) (?balance c))))"
  note render = inv_li_render [OF keeps_args_ext [where P = "\<lambda>y. instances y = ?ds"]]
  have ext: "invariant_of ?I (li_getKubeadmToken D)"
    unfolding li_getKubeadmToken_def by (intro inv_rules on_ext_part [where f = instances and P = "\<lambda>l. l = ?ds"] token)
  have exists: "valid (\<lambda>w. w_ext w = x) (li_Exists D m)
      (\<lambda>b w. ?I w \<and> b = (listed (li_ListInstances (l_api D)) in_Label (m_Name m) x \<noteq> None)) ?F"
    by (rule valid_weaken [OF li_Exists_listed [OF api, of x]]) (auto intro: exI [of _ "[]"])
  have J: "invariant_of ?J p \<Longrightarrow> valid ?J p (\<lambda>_. ?J) ?F" for p
    by (erule valid_weaken) (auto intro: at_most_one_moreI)
  have JS: "valid ?J (li_updateMachineStatus D m) (\<lambda>_. ?J) ?F"
    by (rule J) (rule li_updateMachineStatus_instances [OF api status, where P = "one_more snd ?ds (m_Name m)"])
  have I: "valid ?I (li_updateMachineStatus D m) (\<lambda>_. ?I) ?F"
    by (rule valid_weaken [OF li_updateMachineStatus_instances [OF api status, where P = "\<lambda>l. l = ?ds"]])
       (auto intro: exI [of _ "[]"])
  have balance: "valid ?J (?balance c server) (\<lambda>_. ?J) ?F" for c server
    by (rule J) (intro inv_rules li_keeps_instances(5) [OF api, where P = "one_more snd ?ds (m_Name m)"])
  have create: "valid ?I ?create (\<lambda>_. ?J) ?F"
    by (intro valid_keep [where I = ?I] ext render valid_bindp [OF li_CreateInstance_instances [OF api] balance] inv_rules
        at_most_one_moreI disjI1)
  show "valid (\<lambda>w. w_ext w = x) (li_Machine_Create E D m)
      (\<lambda>_ w. if listed (li_ListInstances (l_api D)) in_Label (m_Name m) x \<noteq> None then instances (w_ext w) = instances x
         else one_more snd (instances x) (m_Name m) (instances (w_ext w)))
      (\<lambda>_ w. at_most_one_more (instances x) (instances (w_ext w)))"
    unfolding li_Machine_Create_def
    by (intro valid_keep [where I = "\<lambda>w. w_ext w = x"] create_if_missing [OF exists create JS I] inv_rules at_most_one_moreI disjI1) simp_all
next
  fix l y assume "li_ListInstances (l_api D) x = (Inr l, y) \<and> instance_key ` set l = set (instances x)"
  moreover from this have "snd ` set (instances x) = in_Label ` set l" by (metis (no_types, lifting) image_cong image_image instance_key_def snd_conv)
  ultimately show "listed (li_ListInstances (l_api D)) in_Label (m_Name m) x \<noteq> None \<longleftrightarrow> m_Name m \<in> snd ` set (instances x)"
    using listed_answers(2) by metis
qed (rule listed_answers(1))

section \<open>Stack scripts\<close>

text \<open>Text that stands for itself in a JSON string, as the names of Kubernetes objects do.\<close>

definition json_plain :: "string \<Rightarrow> bool" where
  "json_plain s \<longleftrightarrow> CHR 0x22 \<notin> set s \<and> CHR 0x5C \<notin> set s"

lemma json_plain_append [simp]: "json_plain (s @ t) \<longleftrightarrow> json_plain s \<and> json_plain t"
  by (auto simp: json_plain_def)

text \<open>The script calls as documented: the filter selects by label, creation appends, an update replaces what has the
  identifier, deletion removes it; a failing call changes nothing.\<close>

definition script_api :: "'x linode_ops \<Rightarrow> ('x \<Rightarrow> Stackscript list) \<Rightarrow> bool" where
  "script_api A scripts \<longleftrightarrow>
     (\<forall>S n. json_plain n \<longrightarrow> valid (\<lambda>x. scripts x = S) (li_ListStackscripts A (label_filter n))
        (\<lambda>r x. scripts x = S \<and> r = filter (\<lambda>s. ss_Label s = n) S) (\<lambda>_ x. scripts x = S)) \<and>
     (\<forall>S r. valid (\<lambda>x. scripts x = S) (li_CreateStackscript A r)
        (\<lambda>s x. scripts x = S @ [s] \<and> ss_Label s = ss_Label r \<and> ss_Script s = ss_Script r \<and> ss_ID s \<notin> ss_ID ` set S)
        (\<lambda>_ x. scripts x = S)) \<and>
     (\<forall>S i r. valid (\<lambda>x. scripts x = S) (li_UpdateStackscript A i r)
        (\<lambda>s x. scripts x = map (\<lambda>t. if ss_ID t = i then s else t) S \<and> ss_ID s = i \<and> ss_Label s = ss_Label r \<and>
           ss_Script s = ss_Script r) (\<lambda>_ x. scripts x = S)) \<and>
     (\<forall>S i. valid (\<lambda>x. scripts x = S) (li_DeleteStackscript_call A i)
        (\<lambda>_ x. scripts x = filter (\<lambda>s. ss_ID s \<noteq> i) S) (\<lambda>_ x. scripts x = S))"

lemma script_laws:
  assumes "script_api A scripts"
  shows "json_plain n \<Longrightarrow> valid (\<lambda>x. scripts x = S) (li_ListStackscripts A (label_filter n))
        (\<lambda>r x. scripts x = S \<and> r = filter (\<lambda>s. ss_Label s = n) S) (\<lambda>_ x. scripts x = S)"
    and "valid (\<lambda>x. scripts x = S) (li_CreateStackscript A r)
        (\<lambda>s x. scripts x = S @ [s] \<and> ss_Label s = ss_Label r \<and> ss_Script s = ss_Script r \<and> ss_ID s \<notin> ss_ID ` set S)
        (\<lambda>_ x. scripts x = S)"
    and "valid (\<lambda>x. scripts x = S) (li_UpdateStackscript A i r)
        (\<lambda>s x. scripts x = map (\<lambda>t. if ss_ID t = i then s else t) S \<and> ss_ID s = i \<and> ss_Label s = ss_Label r \<and>
           ss_Script s = ss_Script r) (\<lambda>_ x. scripts x = S)"
    and "valid (\<lambda>x. scripts x = S) (li_DeleteStackscript_call A i)
        (\<lambda>_ x. scripts x = filter (\<lambda>s. ss_ID s \<noteq> i) S) (\<lambda>_ x. scripts x = S)"
  using assms unfolding script_api_def by blast+

text \<open>Exactly one script has the name, with this identifier and text, and the others are those of before.\<close>

definition script_is :: "string \<Rightarrow> int \<Rightarrow> string \<Rightarrow> Stackscript list \<Rightarrow> Stackscript list \<Rightarrow> bool" where
  "script_is n i text S S' \<longleftrightarrow> (\<exists>s. filter (\<lambda>s. ss_Label s = n) S' = [s] \<and> ss_ID s = i \<and> ss_Script s = text) \<and>
     filter (\<lambda>s. ss_Label s \<noteq> n) S' = filter (\<lambda>s. ss_Label s \<noteq> n) S"

lemma script_is_update:
  assumes "distinct (map ss_ID S)" "filter (\<lambda>s. ss_Label s = n) S = [t]" "ss_ID s = ss_ID t" "ss_Label s = n"
  shows "script_is n (ss_ID t) (ss_Script s) S (map (\<lambda>u. if ss_ID u = ss_ID t then s else u) S)"
proof -
  have t: "t \<in> set S" "ss_Label t = n" using arg_cong [OF assms(2), of set] by auto
  have same: "ss_ID u = ss_ID t \<longleftrightarrow> u = t" if "u \<in> set S" for u
    using assms(1) t(1) that by (auto simp: distinct_map dest: inj_onD)
  have map: "map (\<lambda>u. if ss_ID u = ss_ID t then s else u) S = map (\<lambda>u. if u = t then s else u) S"
    using same by (intro map_cong) auto
  have "filter (\<lambda>s. ss_Label s = n) (map (\<lambda>u. if u = t then s else u) S) =
      map (\<lambda>u. if u = t then s else u) (filter (\<lambda>s. ss_Label s = n) S)"
    using t(2) assms(4) by (simp add: filter_map comp_def if_distrib cong: filter_cong)
       (rule arg_cong [where f = "map _"], auto intro!: filter_cong)
  moreover have "filter (\<lambda>s. ss_Label s \<noteq> n) (map (\<lambda>u. if u = t then s else u) S) = filter (\<lambda>s. ss_Label s \<noteq> n) S"
    using t(2) assms(4) by (induction S) auto
  ultimately show ?thesis unfolding script_is_def map using assms(2,3) by simp
qed

lemma valid_li_client_at:
  assumes "valid P m Q F" "\<And>x. P x \<Longrightarrow> F nil_deref x"
  shows "valid (\<lambda>w. w_Cluster w = c \<and> P (w_ext w)) (li_client D m) (\<lambda>y w. w_Cluster w = c \<and> Q y (w_ext w)) (\<lambda>e w. F e (w_ext w))"
  using assms by (fastforce simp: valid_def li_client_def prog_run split: prod.splits sum.splits)

abbreviation has_scripts :: "('x \<Rightarrow> Stackscript list) \<Rightarrow> Cluster \<Rightarrow> Stackscript list \<Rightarrow> ('s, 'x) world \<Rightarrow> bool" where
  "has_scripts scripts c S w \<equiv> w_Cluster w = c \<and> scripts (w_ext w) = S"

lemma machine_scripts_spec:
  assumes api: "script_api (l_api D) scripts" and conf: "li_MachineConfig D (ProviderSpec (m_Spec m)) = Inr conf" "lm_Roles conf = role # rs"
    and plain: "json_plain (li_StartupScriptName c (m_Name m) role)"
  shows "valid (has_scripts scripts c S) (li_machine_scripts D m)
    (\<lambda>p w. has_scripts scripts c S w \<and> p = (li_StartupScriptName c (m_Name m) role, filter (\<lambda>s. ss_Label s = li_StartupScriptName c (m_Name m) role) S))
    (\<lambda>_ w. scripts (w_ext w) = S)"
proof -
  let ?n = "li_StartupScriptName c (m_Name m) role"
  let ?call = "bindp (li_client D (li_ListStackscripts (l_api D) (label_filter ?n))) (\<lambda>scripts. ret (?n, scripts))"
  have "valid (has_scripts scripts c S) (li_client D (li_ListStackscripts (l_api D) (label_filter ?n)))
      (\<lambda>r w. w_Cluster w = c \<and> scripts (w_ext w) = S \<and> r = filter (\<lambda>s. ss_Label s = ?n) S) (\<lambda>_ w. scripts (w_ext w) = S)"
    by (rule valid_li_client_at [OF script_laws(1) [OF api plain]]) simp
  then have v: "valid (has_scripts scripts c S) ?call
      (\<lambda>p w. has_scripts scripts c S w \<and> p = (?n, filter (\<lambda>s. ss_Label s = ?n) S)) (\<lambda>_ w. scripts (w_ext w) = S)"
    by (rule valid_bindp) (auto intro: valid_ret)
  have eq: "li_machine_scripts D m w = ?call w" if "w_Cluster w = c" for w
    using that by (auto simp: li_machine_scripts_def conf index_at_def Let_def prog_run split: prod.splits sum.splits)
  show ?thesis by (rule valid_run_eq [OF _ v], rule eq, erule conjunct1)
qed

lemma createOrUpdate_spec:
  assumes api: "script_api (l_api D) scripts" and conf: "li_MachineConfig D (ProviderSpec (m_Spec m)) = Inr conf" "lm_Roles conf = role # rs"
    and plain: "json_plain (li_StartupScriptName c (m_Name m) role)" and ids: "distinct (map ss_ID S)"
  shows "valid (has_scripts scripts c S) (li_createOrUpdateStackScript D m text)
    (\<lambda>i w. w_Cluster w = c \<and> script_is (li_StartupScriptName c (m_Name m) role) i text S (scripts (w_ext w))) (\<lambda>_ w. scripts (w_ext w) = S)"
    (is "valid ?I _ ?Q ?F")
proof -
  let ?n = "li_StartupScriptName c (m_Name m) role"
  let ?l = "filter (\<lambda>s. ss_Label s = ?n) S"
  have none: "valid ?I (bindp (li_client D (li_CreateStackscript (l_api D) r)) (\<lambda>s. ret (ss_ID s))) ?Q ?F"
    if "?l = []" "ss_Label r = ?n" "ss_Script r = text" for r
  proof (rule valid_bindp)
    show "valid ?I (li_client D (li_CreateStackscript (l_api D) r)) (\<lambda>s. ?Q (ss_ID s)) ?F"
      by (rule valid_weaken [OF valid_li_client_at [OF script_laws(2) [OF api]]])
         (use that in \<open>auto simp: script_is_def filter_empty_conv\<close>)
  qed (auto intro: valid_ret)
  have one: "valid ?I (bindp (li_client D (li_UpdateStackscript (l_api D) (ss_ID t) r)) (\<lambda>s. ret (ss_ID s))) ?Q ?F"
    if "?l = [t]" "ss_Label r = ss_Label t" "ss_Script r = text" for t r
  proof (rule valid_bindp)
    have n: "ss_Label t = ?n" using arg_cong [OF that(1), of set] by auto
    have "valid ?I (li_client D (li_UpdateStackscript (l_api D) (ss_ID t) r)) (\<lambda>s w. w_Cluster w = c \<and>
        scripts (w_ext w) = map (\<lambda>u. if ss_ID u = ss_ID t then s else u) S \<and> ss_ID s = ss_ID t \<and> ss_Label s = ss_Label r \<and>
        ss_Script s = ss_Script r) ?F"
      by (rule valid_li_client_at [OF script_laws(3) [OF api]]) simp
    then show "valid ?I (li_client D (li_UpdateStackscript (l_api D) (ss_ID t) r)) (\<lambda>s. ?Q (ss_ID s)) ?F"
    proof (rule valid_weaken)
      fix s and w :: "('b, 'a) world"
      assume "w_Cluster w = c \<and> scripts (w_ext w) = map (\<lambda>u. if ss_ID u = ss_ID t then s else u) S \<and> ss_ID s = ss_ID t \<and>
        ss_Label s = ss_Label r \<and> ss_Script s = ss_Script r"
      then show "?Q (ss_ID s) w" using script_is_update [OF ids that(1), of s] that(2,3) n by simp
    qed
  qed (auto intro: valid_ret)
  show ?thesis
    unfolding li_createOrUpdateStackScript_def
  proof (rule valid_bindp [OF machine_scripts_spec [OF api conf plain]], goal_cases)
    case (1 p)
    show ?case
    proof (cases "p = (?n, ?l)")
      case True
      show ?thesis
      proof (cases ?l)
        case Nil
        have "valid ?I (gets w_Cluster) (\<lambda>c' w. ?I w \<and> c' = c) ?F" by (auto intro: valid_gets)
        from valid_bindp [OF this valid_weaken [OF none [OF Nil]]] show ?thesis by (simp add: True Nil)
      next
        case (Cons t ts)
        then show ?thesis using one by (cases ts) (auto simp: True intro: valid_fail valid_weaken)
      qed
    qed (simp add: valid_def)
  qed
qed

lemma startup_id_spec:
  assumes api: "script_api (l_api D) scripts" and conf: "li_MachineConfig D (ProviderSpec (m_Spec m)) = Inr conf" "lm_Roles conf = role # rs"
    and plain: "json_plain (li_StartupScriptName c (m_Name m) role)" and one: "script_is (li_StartupScriptName c (m_Name m) role) i text S S'"
  shows "valid (has_scripts scripts c S') (li_getStartupScriptID D m) (\<lambda>j w. j = i \<and> scripts (w_ext w) = S') (\<lambda>_ w. scripts (w_ext w) = S')"
  unfolding li_getStartupScriptID_def
proof (rule valid_bindp [OF machine_scripts_spec [OF api conf plain]], goal_cases)
  case (1 p)
  let ?n = "li_StartupScriptName c (m_Name m) role"
  obtain s where s: "filter (\<lambda>s. ss_Label s = ?n) S' = [s]" "ss_ID s = i" using one by (auto simp: script_is_def)
  show ?case
    by (cases "p = (?n, [s])") (auto simp: s valid_def prog_run)
qed

text \<open>C23. The start-up script of a machine is kept up to date: where at most one stack script has the name of the machine,
  \<^verbatim>\<open>createOrUpdateStackScript\<close>, if it succeeds, leaves exactly one, holding the new text, and all others as they were; the
  identifier it returns is the one that \<^verbatim>\<open>CreateInstance\<close> then looks up for the new instance.  A failure changes no
  script, or happens after the script was written.\<close>

theorem linode_script_upsert:
  assumes api: "script_api (l_api D) scripts" and conf: "li_MachineConfig D (ProviderSpec (m_Spec m)) = Inr conf" "lm_Roles conf = role # rs"
    and plain: "json_plain (li_StartupScriptName c (m_Name m) role)" and ids: "distinct (map ss_ID S)"
  shows "valid (\<lambda>w. w_Cluster w = c \<and> scripts (w_ext w) = S)
    (bindp (li_createOrUpdateStackScript D m text) (\<lambda>i. bindp (li_getStartupScriptID D m) (\<lambda>j. ret (i, j))))
    (\<lambda>(i, j) w. i = j \<and> script_is (li_StartupScriptName c (m_Name m) role) i text S (scripts (w_ext w)))
    (\<lambda>_ w. scripts (w_ext w) = S \<or> (\<exists>i. script_is (li_StartupScriptName c (m_Name m) role) i text S (scripts (w_ext w))))"
    (is "valid ?I _ ?Q ?F")
proof -
  let ?n = "li_StartupScriptName c (m_Name m) role"
  let ?R = "\<lambda>i w. w_Cluster w = c \<and> script_is ?n i text S (scripts (w_ext w))"
  have get: "valid (?R i) (li_getStartupScriptID D m) (\<lambda>j w. j = i \<and> script_is ?n i text S (scripts (w_ext w))) ?F" for i
  proof (rule validI)
    fix w w' :: "('b, 'a) world" and j
    assume "?R i w" and run: "li_getStartupScriptID D m w = (Inr j, w')"
    then show "j = i \<and> script_is ?n i text S (scripts (w_ext w'))"
      using valid_Inr [OF startup_id_spec [OF api conf plain, of i "text" S "scripts (w_ext w)"] _ run] by simp
  next
    fix w w' :: "('b, 'a) world" and e
    assume "?R i w" and run: "li_getStartupScriptID D m w = (Inl e, w')"
    then show "?F e w'"
      using valid_Inl [OF startup_id_spec [OF api conf plain, of i "text" S "scripts (w_ext w)"] _ run] by auto
  qed
  have create: "valid ?I (li_createOrUpdateStackScript D m text) ?R ?F"
    by (rule valid_weaken [OF createOrUpdate_spec [OF api conf plain ids]]) auto
  show ?thesis
    by (rule valid_bindp [OF create], rule valid_bindp [OF get]) (auto intro: valid_ret)
qed

section \<open>Deletion leaves the stack scripts\<close>

text \<open>The scripts with a name that creation gives: the role of a provider spec is \<^verbatim>\<open>Master\<close> or \<^verbatim>\<open>Node\<close>, where
  deletion asks for \<^verbatim>\<open>master\<close> and \<^verbatim>\<open>node\<close>.\<close>

definition startup_script :: "Stackscript \<Rightarrow> bool" where
  "startup_script s \<longleftrightarrow> has_suffix (ss_Label s) ''-Master'' \<or> has_suffix (ss_Label s) ''-Node''"

lemma startup_script_names:
  "ss_Label s = li_StartupScriptName c m ''Master'' \<Longrightarrow> startup_script s"
  "ss_Label s = li_StartupScriptName c m ''Node'' \<Longrightarrow> startup_script s"
  "ss_Label s = li_StartupScriptName c m ''master'' \<Longrightarrow> \<not> startup_script s"
  "ss_Label s = li_StartupScriptName c m ''node'' \<Longrightarrow> \<not> startup_script s"
  by (auto simp: startup_script_def li_StartupScriptName_def has_suffix_iff suffix_def)

text \<open>Some scripts are gone, but no start-up script.\<close>

definition leaves :: "Stackscript list \<Rightarrow> Stackscript list \<Rightarrow> bool" where
  "leaves S l \<longleftrightarrow> (\<exists>P. (\<forall>s \<in> set S. startup_script s \<longrightarrow> P s) \<and> l = filter P S)"

lemma leaves_refl: "leaves S S"
  unfolding leaves_def by (rule exI [of _ "\<lambda>_. True"]) simp

lemma leaves_subset: "leaves S l \<Longrightarrow> set l \<subseteq> set S"
  by (auto simp: leaves_def)

lemma leaves_delete:
  assumes "leaves S l" "distinct (map ss_ID S)" "s \<in> set S" "\<not> startup_script s"
  shows "leaves S (filter (\<lambda>t. ss_ID t \<noteq> ss_ID s) l)"
proof -
  obtain P where P: "\<forall>s \<in> set S. startup_script s \<longrightarrow> P s" "l = filter P S" using assms(1) by (auto simp: leaves_def)
  have "P t \<and> ss_ID t \<noteq> ss_ID s" if "t \<in> set S" "startup_script t" for t
    using that P(1) assms(2-4) by (metis distinct_map inj_onD)
  then show ?thesis
    unfolding leaves_def P(2) by (intro exI [of _ "\<lambda>t. P t \<and> ss_ID t \<noteq> ss_ID s"]) (auto intro!: filter_cong)
qed

lemma leaves_startup:
  assumes "leaves S l"
  shows "filter startup_script l = filter startup_script S"
proof -
  obtain P where P: "\<forall>s \<in> set S. startup_script s \<longrightarrow> P s" "l = filter P S" using assms by (auto simp: leaves_def)
  show ?thesis unfolding P(2) filter_filter by (rule filter_cong) (use P(1) in auto)
qed

text \<open>What else deletion calls leaves the scripts alone; nodes have plain names.\<close>

definition scripts_alone :: "'x li_env \<Rightarrow> ('x \<Rightarrow> Stackscript list) \<Rightarrow> bool" where
  "scripts_alone D scripts \<longleftrightarrow>
     (\<forall>S l. valid (\<lambda>x. scripts x = S) (l_Nodes_List D l) (\<lambda>ns x. scripts x = S \<and> (\<forall>n \<in> set ns. json_plain (fst n))) (\<lambda>_ x. scripts x = S)) \<and>
     (\<forall>S n. invariant_of (\<lambda>x. scripts x = S) (l_Nodes_Delete D n)) \<and>
     (\<forall>S i. invariant_of (\<lambda>x. scripts x = S) (li_DeleteInstance (l_api D) i)) \<and>
     (\<forall>S. invariant_of (\<lambda>x. scripts x = S) (li_ListNodeBalancers (l_api D))) \<and>
     (\<forall>S i. invariant_of (\<lambda>x. scripts x = S) (li_DeleteNodeBalancer (l_api D) i))"

abbreviation script_inv :: "('x \<Rightarrow> Stackscript list) \<Rightarrow> Stackscript list \<Rightarrow> ('s, 'x) world \<Rightarrow> bool" where
  "script_inv scripts S w \<equiv> json_plain (c_Name (w_Cluster w)) \<and> leaves S (scripts (w_ext w))"

lemma inv_calls_world:
  assumes "invariant_of Q m"
  shows "invariant_of (\<lambda>w. R (w_Cluster w) \<and> Q (w_ext w)) (on_ext m)"
    and "invariant_of (\<lambda>w. R (w_Cluster w) \<and> Q (w_ext w)) (li_client D m)"
proof -
  show *: "invariant_of (\<lambda>w. R (w_Cluster w) \<and> Q (w_ext w)) (on_ext m)"
    using assms by (fastforce simp: valid_def on_ext_def split: prod.splits sum.splits)
  show "invariant_of (\<lambda>w. R (w_Cluster w) \<and> Q (w_ext w)) (li_client D m)"
    unfolding li_client_def by (intro inv_rules *)
qed

lemma script_inv_part:
  assumes "\<And>v. invariant_of (\<lambda>x. scripts x = v) m"
  shows "invariant_of (script_inv scripts S) (on_ext m)" "invariant_of (script_inv scripts S) (li_client D m)"
  using inv_part [where P = "leaves S", OF assms] by (rule inv_calls_world)+

lemma deleted_script:
  assumes api: "script_api A scripts" and ids: "distinct (map ss_ID S)" and s: "s \<in> set S" "\<not> startup_script s"
  shows "invariant_of (\<lambda>x. leaves S (scripts x)) (li_DeleteStackscript_call A (ss_ID s))"
proof (rule validI)
  fix x x' and y :: unit
  assume l: "leaves S (scripts x)" and run: "li_DeleteStackscript_call A (ss_ID s) x = (Inr y, x')"
  show "leaves S (scripts x')"
    using valid_Inr [OF script_laws(4) [OF api] refl run] leaves_delete [OF l ids s] by simp
next
  fix x x' e
  assume l: "leaves S (scripts x)" and run: "li_DeleteStackscript_call A (ss_ID s) x = (Inl e, x')"
  show "leaves S (scripts x')" using valid_Inl [OF script_laws(4) [OF api] refl run] l by simp
qed

lemma deleted_scripts:
  assumes api: "script_api (l_api D) scripts" and ids: "distinct (map ss_ID S)" and n: "json_plain n"
    and role: "role \<in> {''master'', ''node''}"
  shows "invariant_of (script_inv scripts S) (li_DeleteStackScript D n role)"
proof -
  let ?I = "script_inv scripts S"
  note del = inv_calls_world(2) [OF deleted_script [OF api ids], where R = "\<lambda>c. json_plain (c_Name c)" and D = D]
  have list: "valid ?I (li_client D (li_ListStackscripts (l_api D) (label_filter (li_StartupScriptName c n role))))
      (\<lambda>r w. ?I w \<and> (\<forall>s \<in> set r. s \<in> set S \<and> \<not> startup_script s)) (\<lambda>_. ?I)" if "json_plain (c_Name c)" for c
  proof -
    let ?l = "li_StartupScriptName c n role"
    have plain: "json_plain ?l" using that n role by (auto simp: li_StartupScriptName_def json_plain_def)
    have made: "\<not> startup_script s" if "ss_Label s = ?l" for s using that role startup_script_names by blast
    have "valid (\<lambda>x. leaves S (scripts x)) (li_ListStackscripts (l_api D) (label_filter ?l))
        (\<lambda>r x. leaves S (scripts x) \<and> (\<forall>s \<in> set r. s \<in> set S \<and> \<not> startup_script s)) (\<lambda>_ x. leaves S (scripts x))"
    proof (rule validI)
      fix x r x'
      assume l: "leaves S (scripts x)" and run: "li_ListStackscripts (l_api D) (label_filter ?l) x = (Inr r, x')"
      show "leaves S (scripts x') \<and> (\<forall>s \<in> set r. s \<in> set S \<and> \<not> startup_script s)"
        using valid_Inr [OF script_laws(1) [OF api plain] refl run] l leaves_subset [OF l] made by auto
    next
      fix x e x'
      assume l: "leaves S (scripts x)" and run: "li_ListStackscripts (l_api D) (label_filter ?l) x = (Inl e, x')"
      show "leaves S (scripts x')" using valid_Inl [OF script_laws(1) [OF api plain] refl run] l by simp
    qed
    then show ?thesis by (fastforce simp: valid_def li_client_def prog_run split: prod.splits sum.splits)
  qed
  have loop: "valid (\<lambda>w. ?I w \<and> (\<forall>s \<in> set r. s \<in> set S \<and> \<not> startup_script s))
      (for_each r (\<lambda>s. li_client D (li_DeleteStackscript_call (l_api D) (ss_ID s)))) (\<lambda>_. ?I) (\<lambda>_. ?I)" for r
    by (intro valid_assume valid_for_each) (use del in blast)
  have start: "valid ?I (gets w_Cluster) (\<lambda>c w. ?I w \<and> json_plain (c_Name c)) (\<lambda>_. ?I)" by (auto intro: valid_gets)
  show ?thesis
    unfolding li_DeleteStackScript_def
    by (rule valid_bindp [OF start], rule valid_assume, rule valid_bindp [OF list loop])
qed

lemma node_list_spec:
  assumes "scripts_alone D scripts"
  shows "valid (script_inv scripts S) (attempt (on_ext (l_Nodes_List D l)))
    (\<lambda>r w. script_inv scripts S w \<and> (\<forall>ns. r = Inr ns \<longrightarrow> (\<forall>n \<in> set ns. json_plain (fst n)))) (\<lambda>_. script_inv scripts S)"
proof -
  have law: "valid (\<lambda>x. scripts x = S') (l_Nodes_List D l) (\<lambda>ns x. scripts x = S' \<and> (\<forall>n \<in> set ns. json_plain (fst n)))
      (\<lambda>_ x. scripts x = S')" for S'
    using assms unfolding scripts_alone_def by blast
  have "valid (script_inv scripts S) (on_ext (l_Nodes_List D l))
      (\<lambda>ns w. script_inv scripts S w \<and> (\<forall>n \<in> set ns. json_plain (fst n))) (\<lambda>_. script_inv scripts S)"
  proof (rule validI)
    fix w ns w'
    assume I: "script_inv scripts S w" and "on_ext (l_Nodes_List D l) w = (Inr ns, w')"
    then obtain x where "l_Nodes_List D l (w_ext w) = (Inr ns, x)" "w' = w\<lparr>w_ext := x\<rparr>" by (auto simp: on_ext_def split: prod.splits)
    then show "script_inv scripts S w' \<and> (\<forall>n \<in> set ns. json_plain (fst n))" using valid_Inr [OF law refl] I by fastforce
  next
    fix w e w'
    assume I: "script_inv scripts S w" and "on_ext (l_Nodes_List D l) w = (Inl e, w')"
    then obtain x where "l_Nodes_List D l (w_ext w) = (Inl e, x)" "w' = w\<lparr>w_ext := x\<rparr>" by (auto simp: on_ext_def split: prod.splits)
    then show "script_inv scripts S w'" using valid_Inl [OF law refl] I by fastforce
  qed
  then show ?thesis by (intro valid_attempt) (auto elim: valid_weaken)
qed

lemma deletes_leave_scripts:
  assumes api: "script_api (l_api D) scripts" and ids: "distinct (map ss_ID S)" and alone: "scripts_alone D scripts"
  shows "invariant_of (script_inv scripts S) (li_delete_workers D)" "invariant_of (script_inv scripts S) (li_delete_masters D)"
proof -
  let ?I = "script_inv scripts S"
  have each: "valid (\<lambda>w. ?I w \<and> (\<forall>ns. r = Inr ns \<longrightarrow> (\<forall>n \<in> set ns. json_plain (fst n))))
      (case r of Inl e \<Rightarrow> ret () | Inr nodes \<Rightarrow> for_each nodes (\<lambda>mi. bindp (logged (li_DeleteStackScript D (fst mi) role)) (\<lambda>_. logged (f mi))))
      (\<lambda>_. ?I) (\<lambda>_. ?I)" if "\<And>mi. invariant_of ?I (f mi)" "role \<in> {''master'', ''node''}"
    for r :: "(string \<times> string) list res" and f role
  proof (rule valid_assume)
    assume "\<forall>ns. r = Inr ns \<longrightarrow> (\<forall>n \<in> set ns. json_plain (fst n))"
    moreover have "invariant_of ?I (bindp (logged (li_DeleteStackScript D (fst mi) role)) (\<lambda>_. logged (f mi)))"
      if "json_plain (fst mi)" for mi
      by (intro inv_rules deleted_scripts [OF api ids that \<open>role \<in> _\<close>] \<open>\<And>mi. invariant_of ?I (f mi)\<close>)
    ultimately show "invariant_of ?I (case r of Inl e \<Rightarrow> ret () | Inr nodes \<Rightarrow>
        for_each nodes (\<lambda>mi. bindp (logged (li_DeleteStackScript D (fst mi) role)) (\<lambda>_. logged (f mi))))"
      by (cases r) (simp_all add: valid_ret valid_for_each)
  qed
  note law = alone [unfolded scripts_alone_def]
  have calls: "invariant_of ?I (on_ext (l_Nodes_Delete D n))" "invariant_of ?I (li_DeleteInstanceByProviderID D p)" for n p
    unfolding li_DeleteInstanceByProviderID_def using law by (auto intro!: script_inv_part inv_rules)
  show "invariant_of ?I (li_delete_workers D)" "invariant_of ?I (li_delete_masters D)"
    unfolding li_delete_workers_def li_delete_masters_def
    by (rule valid_bindp [OF node_list_spec [OF alone]], rule each, rule calls, simp)+
qed

text \<open>Deleting a Linode cluster, whether it succeeds or fails, leaves every stack script that the creation of its
  machines can have made: deletion looks for the roles \<^verbatim>\<open>master\<close> and \<^verbatim>\<open>node\<close> where creation wrote
  \<^verbatim>\<open>Master\<close> and \<^verbatim>\<open>Node\<close>.\<close>

lemma linode_scripts_left:
  assumes api: "script_api (l_api D) scripts" and alone: "scripts_alone D scripts" and ids: "distinct (map ss_ID S)"
  shows "valid (\<lambda>w. w_AdminClient w \<and> json_plain (c_Name (w_Cluster w)) \<and> scripts (w_ext w) = S) (li_ApplyDelete E D)
    (\<lambda>_ w. filter startup_script (scripts (w_ext w)) = filter startup_script S)
    (\<lambda>_ w. filter startup_script (scripts (w_ext w)) = filter startup_script S)"
proof -
  let ?I = "script_inv scripts S" and ?L = "\<lambda>w. leaves S (scripts (w_ext w))"
  note law = alone [unfolded scripts_alone_def]
  have lb: "invariant_of ?I (li_lbByName D n)" "invariant_of ?I (li_deleteLoadBalancer D n)" for n
    unfolding li_deleteLoadBalancer_def li_lbByName_def found_lb_def using law by (auto intro!: script_inv_part inv_rules)
  have "invariant_of ?L (bindp (upd_cluster (set_Phase ClusterDeleted)) (\<lambda>_. store_cluster f))" for f
    by (auto simp: valid_def prog_run upd_cluster_def store_cluster_def split: prod.splits sum.splits)
  then have last: "valid ?I (bindp (upd_cluster (set_Phase ClusterDeleted)) (\<lambda>_. store_cluster f)) (\<lambda>_. ?L) (\<lambda>_. ?L)" for f
    by (rule valid_weaken) auto
  have "valid (\<lambda>w. w_AdminClient w \<and> json_plain (c_Name (w_Cluster w)) \<and> scripts (w_ext w) = S) (li_ApplyDelete E D) (\<lambda>_. ?L) (\<lambda>_. ?L)"
    unfolding li_ApplyDelete_def
  proof (rule valid_bindp [where R = "\<lambda>_. ?I"])
    show "valid (\<lambda>w. w_AdminClient w \<and> json_plain (c_Name (w_Cluster w)) \<and> scripts (w_ext w) = S) (GetAdminClient E) (\<lambda>_. ?I) (\<lambda>_. ?L)"
      by (simp add: valid_def GetAdminClient_def prog_run leaves_refl)
  qed (intro valid_keep [where I = ?I] last deletes_leave_scripts [OF api ids alone] lb inv_rules, auto)
  then show ?thesis by (rule valid_weaken) (auto dest: leaves_startup)
qed

section \<open>A small cloud\<close>

text \<open>Its state is the list of instances and the list of scripts; the filter of a listing is compared as text.\<close>

type_synonym li_state = "Instance list \<times> Stackscript list"

definition fresh_id :: "Stackscript list \<Rightarrow> int" where
  "fresh_id S = foldr (\<lambda>s n. max (ss_ID s + 1) n) S 1"

lemma fresh_id: "fresh_id S \<notin> ss_ID ` set S"
proof -
  have "s \<in> set S \<Longrightarrow> ss_ID s < fresh_id S" for s
    by (induction S) (auto simp: fresh_id_def)
  then show ?thesis by fastforce
qed

definition new_script :: "int \<Rightarrow> StackscriptOptions \<Rightarrow> Stackscript" where
  "new_script i r = \<lparr>ss_Label = ss_Label r, ss_Description = ss_Description r, ss_Images = ss_Images r, ss_Script = ss_Script r, ss_ID = i\<rparr>"

definition demo_li_api :: "li_state linode_ops" where
  "demo_li_api = (l_api offline_li)\<lparr>
     li_ListInstances := (\<lambda>(I, S). (Inr I, I, S)),
     li_GetInstance := (\<lambda>i (I, S). (Inr (find (\<lambda>d. in_ID d = i) I), I, S)),
     li_CreateInstance_call := (\<lambda>r (I, S).
       let d = \<lparr>in_ID = int (length I), in_Label = io_Label r, in_Status = ''running'', in_IPv4 = [''1.2.3.4'', ''10.0.0.1'']\<rparr> in (Inr d, I @ [d], S)),
     li_ListStackscripts := (\<lambda>f (I, S). (Inr (filter (\<lambda>s. label_filter (ss_Label s) = f) S), I, S)),
     li_CreateStackscript := (\<lambda>r (I, S). let s = new_script (fresh_id S) r in (Inr s, I, S @ [s])),
     li_UpdateStackscript := (\<lambda>i r (I, S). let s = new_script i r in (Inr s, I, map (\<lambda>t. if ss_ID t = i then s else t) S)),
     li_DeleteStackscript_call := (\<lambda>i (I, S). (Inr (), I, filter (\<lambda>s. ss_ID s \<noteq> i) S)),
     li_ListNodeBalancers := ret []\<rparr>"

definition demo_li :: "li_state li_env" where
  "demo_li = offline_li\<lparr>l_api := demo_li_api, l_Nodes_List := \<lambda>_. ret [(''m'', ''linode://1'')],
     l_spec := \<lparr>marshal = (\<lambda>_. Inr ''{}''), unmarshal = (\<lambda>_. Inr (zero_LinodeSpec\<lparr>lm_Image := ''i'', lm_Region := ''r'', lm_Type := ''t'', lm_Roles := [''Node'']\<rparr>))\<rparr>\<rparr>"

lemma demo_li_fields [simp]:
  "l_api demo_li = demo_li_api" "l_connected demo_li x" "l_Nodes_List demo_li l = ret [(''m'', ''linode://1'')]"
  "l_Nodes_Delete demo_li n = ret ()" "l_TokenCreate demo_li = ret ''t''" "l_client_Status_Machine demo_li m = ret ()"
  "l_startup demo_li = plain_startup" "marshal (l_mstatus demo_li) v = Inr ''{}''"
  "li_MachineConfig demo_li (Some raw) = Inr (zero_LinodeSpec\<lparr>lm_Image := ''i'', lm_Region := ''r'', lm_Type := ''t'', lm_Roles := [''Node'']\<rparr>)"
  by (simp_all add: demo_li_def offline_li_def li_MachineConfig_def)

lemma demo_li_calls [simp]:
  "li_ListInstances demo_li_api (I, S) = (Inr I, I, S)"
  "li_GetInstance demo_li_api i (I, S) = (Inr (find (\<lambda>d. in_ID d = i) I), I, S)"
  "li_ListStackscripts demo_li_api (label_filter n) (I, S) = (Inr (filter (\<lambda>s. ss_Label s = n) S), I, S)"
  "li_CreateStackscript demo_li_api r (I, S) = (Inr (new_script (fresh_id S) r), I, S @ [new_script (fresh_id S) r])"
  "li_UpdateStackscript demo_li_api i r (I, S) = (Inr (new_script i r), I, map (\<lambda>t. if ss_ID t = i then new_script i r else t) S)"
  "li_DeleteStackscript_call demo_li_api i (I, S) = (Inr (), I, filter (\<lambda>s. ss_ID s \<noteq> i) S)"
  "li_ListNodeBalancers demo_li_api = ret []"
  "li_ListNodeBalancerConfigs demo_li_api j = fail (Err ''offline'')"
  "li_CreateNodeBalancerNode demo_li_api j k no = fail (Err ''offline'')"
  "li_DeleteInstance demo_li_api j = fail (Err ''offline'')"
  "li_DeleteNodeBalancer demo_li_api j = fail (Err ''offline'')"
  by (simp_all add: demo_li_api_def offline_li_def Let_def label_filter_def)

lemma demo_li_create [simp]:
  "li_CreateInstance_call demo_li_api r (I, S) =
    (Inr \<lparr>in_ID = int (length I), in_Label = io_Label r, in_Status = ''running'', in_IPv4 = [''1.2.3.4'', ''10.0.0.1'']\<rparr>,
     I @ [\<lparr>in_ID = int (length I), in_Label = io_Label r, in_Status = ''running'', in_IPv4 = [''1.2.3.4'', ''10.0.0.1'']\<rparr>], S)"
  by (simp add: demo_li_api_def Let_def)

lemma demo_li_unknown_filter: "snd (li_ListStackscripts demo_li_api f x) = x"
  by (cases x) (simp add: demo_li_api_def)

lemma demo_instance_api: "instance_api (l_api demo_li) (map instance_key \<circ> fst)"
  by (auto simp: instance_api_def valid_def ret_def fail_def demo_li_api_def offline_li_def split_beta Let_def instance_key_def)

lemma demo_script_api: "script_api (l_api demo_li) snd"
  by (auto simp: script_api_def valid_def new_script_def fresh_id)

lemma demo_scripts_alone: "scripts_alone demo_li snd"
  by (auto simp: scripts_alone_def valid_def ret_def fail_def json_plain_def)

definition demo_li_world :: "(os, li_state) world" where
  "demo_li_world = \<lparr>w_Cluster = upd_CloudSpec (\<lambda>s. s\<lparr>Linode := Some \<lparr>RootPassword = ''s'', KernelID = ''''\<rparr>\<rparr>) (w_Cluster demo_do_world),
     w_Certs = w_Certs demo_do_world, w_CloudManager = None, w_AdminClient = True, w_store = demo_os, w_ext = ([], [])\<rparr>"

definition demo_li_script :: "string \<Rightarrow> int \<Rightarrow> Stackscript" where
  "demo_li_script role i = \<lparr>ss_Label = ''-m-'' @ role, ss_Description = '''', ss_Images = [], ss_Script = ''old'', ss_ID = i\<rparr>"

lemma demo_li_script [simp]: "ss_Label (demo_li_script r i) = ''-m-'' @ r" "ss_ID (demo_li_script r i) = i"
  by (simp_all add: demo_li_script_def)

lemma demo_li_cluster: "c_Name (w_Cluster demo_li_world) = ''''"
  by (simp add: demo_li_world_def demo_do_world_def cluster_upd zero_Cluster_def zero_ObjectMeta_def)

theorem linode_script_upsert_witness:
  "valid (\<lambda>w. w_Cluster w = w_Cluster demo_li_world \<and> snd (w_ext w) = [demo_li_script ''Node'' 7])
    (bindp (li_createOrUpdateStackScript demo_li demo_do_machine ''new'')
      (\<lambda>i. bindp (li_getStartupScriptID demo_li demo_do_machine) (\<lambda>j. ret (i, j))) :: ((os, li_state) world, int \<times> int) prog)
    (\<lambda>(i, j) w. i = j \<and> script_is ''-m-Node'' i ''new'' [demo_li_script ''Node'' 7] (snd (w_ext w)))
    (\<lambda>_ w. snd (w_ext w) = [demo_li_script ''Node'' 7] \<or> (\<exists>i. script_is ''-m-Node'' i ''new'' [demo_li_script ''Node'' 7] (snd (w_ext w))))"
proof -
  have n: "li_StartupScriptName (w_Cluster demo_li_world) (m_Name demo_do_machine) ''Node'' = ''-m-Node''"
    by (simp add: li_StartupScriptName_def demo_li_cluster demo_do_machine_def named_machine_def)
  have conf: "li_MachineConfig demo_li (ProviderSpec (m_Spec demo_do_machine)) =
      Inr (zero_LinodeSpec\<lparr>lm_Image := ''i'', lm_Region := ''r'', lm_Type := ''t'', lm_Roles := [''Node'']\<rparr>)"
    by (simp add: demo_do_machine_def)
  show ?thesis
    using linode_script_upsert [OF demo_script_api conf, of "''Node''" "[]" "w_Cluster demo_li_world" "[demo_li_script ''Node'' 7]" "''new''"]
    unfolding n by (simp add: json_plain_def)
qed

lemma demo_li_Machine_Create: "\<exists>w'. li_Machine_Create demo_env demo_li demo_do_machine demo_li_world = (Inr (), w')"
proof -
  have m: "ProviderSpec (m_Spec demo_do_machine) = Some ''{}''" "m_Name demo_do_machine = ''m''"
    "ProviderStatus (m_Status demo_do_machine) = None" "\<not> IsControlPlaneMachine demo_do_machine"
    by (simp_all add: demo_do_machine_def named_machine_def zero_Machine_def IsControlPlaneMachine_def zero_MachineSpec_def)
  have w: "w_ext demo_li_world = ([], [])" "w_Certs demo_li_world = w_Certs demo_do_world"
    "Linode (c_CloudSpec (w_Cluster demo_li_world)) = Some \<lparr>RootPassword = ''s'', KernelID = ''''\<rparr>"
    by (simp_all add: demo_li_world_def cluster_upd)
  obtain certs where certs: "w_Certs demo_do_world = Some certs" by (simp add: demo_do_world_def)
  have node: "\<exists>td'. li_NewNodeTemplateData demo_li demo_do_machine t td demo_li_world = (Inr td', demo_li_world) \<and>
      td_KubernetesVersion td' = td_KubernetesVersion td" if "td_KubeletExtraArgs td = OwnArgs a" for td t a
    using that by (simp add: li_NewNodeTemplateData_def set_arg_def prog_run JoinConfigurationYAML_def td_args_def plain_startup_def)
  have render: "li_RenderStartupScript demo_env demo_li demo_do_machine t demo_li_world = (Inr '''', demo_li_world)" for t
    unfolding li_RenderStartupScript_def demo_li_fields
    by (rule render_plain_node)
      (use m w certs node in \<open>simp_all add: li_hooks_def demo_li_world_def demo_do_world_def cluster_upd zero_Cluster_def zero_ClusterConfig_def\<close>)
  have wait: "li_waitForStatus demo_env demo_li i ''running'' v = (Inr (), v)"
    if "find (\<lambda>d. in_ID d = i) (fst (w_ext v)) \<noteq> None" "in_Status (the (find (\<lambda>d. in_ID d = i) (fst (w_ext v)))) = ''running''"
    for v :: "(os, li_state) world" and i
    unfolding li_waitForStatus_def
    by (rule poll_at_once) (cases "w_ext v", use that in \<open>auto simp: ok_or_false_def prog_run li_client_def\<close>)
  have same: "demo_li_world\<lparr>w_ext := ([], [])\<rparr> = demo_li_world" by (simp add: demo_li_world_def)
  show ?thesis
    using certs
    by (auto simp: same li_Machine_Create_def li_Exists_def li_validateMachine_def li_getKubeadmToken_def
        li_CreateInstance_def li_createOrUpdateStackScript_def li_getStartupScriptID_def li_machine_scripts_def
        li_updateMachineStatus_def li_instanceIfExists_def li_client_def prog_run m w wait
        index_at_def deref_opt_def SSHKey_of_certs_def Let_def new_script_def zero_LinodeSpec_def pwrap_def render)
qed

theorem linode_create_once_witness:
  "\<exists>w' d. li_Machine_Create demo_env demo_li demo_do_machine demo_li_world = (Inr (), w') \<and> in_Label d = ''m'' \<and> fst (w_ext w') = [d]"
proof -
  obtain w' where run: "li_Machine_Create demo_env demo_li demo_do_machine demo_li_world = (Inr (), w')"
    using demo_li_Machine_Create by blast
  have calls: "invariant_of (\<lambda>x. (map instance_key \<circ> fst) x = ds) (l_TokenCreate demo_li)"
    "invariant_of (\<lambda>x. (map instance_key \<circ> fst) x = ds) (l_client_Status_Machine demo_li m)"
    for ds m by (simp_all add: valid_ret)
  have "m_Name demo_do_machine = ''m''" by (simp add: demo_do_machine_def named_machine_def)
  with valid_Inr [OF conjunct1 [OF linode_create_once [OF demo_instance_api calls, of "([], [])"]] _ run] run show ?thesis
    by (auto simp: demo_li_world_def listed_def map_eq_Cons_conv instance_key_def)
qed

end
