(* ===== verification/Packet_Props.thy ===== *)
theory Packet_Props
  imports Linode_Props
begin

text \<open>
  Properties of the Packet provider: the first master and the endpoint it gives the cluster, and the
  error of a key that could not be imported, which is lost.
\<close>

section \<open>The first master\<close>

text \<open>The devices of each project, by ID and hostname.  Reading changes none and shows what is there, but it may fail and need
  not be complete; creation adds one to the project of the request, and perhaps does so too where it fails.\<close>

definition device_key :: "Device \<Rightarrow> string \<times> string" where
  "device_key d = (dv_ID d, dv_Hostname d)"

definition device_api :: "'x packet_ops \<Rightarrow> (string \<Rightarrow> 'x \<Rightarrow> (string \<times> string) list) \<Rightarrow> bool" where
  "device_api A devices \<longleftrightarrow>
     (\<forall>p ds. valid (\<lambda>x. devices p x = ds) (Devices_List A p)
        (\<lambda>l x. devices p x = ds \<and> device_key ` set l \<subseteq> set ds) (\<lambda>_ x. devices p x = ds)) \<and>
     (\<forall>p ds r. dc_ProjectID r = p \<longrightarrow> valid (\<lambda>x. devices p x = ds) (Devices_Create A r)
        (\<lambda>d x. dv_Hostname d = dc_Hostname r \<and> devices p x = ds @ [device_key d])
        (\<lambda>_ x. devices p x = ds \<or> (\<exists>i. devices p x = ds @ [(i, dc_Hostname r)]))) \<and>
     (\<forall>p ds i. invariant_of (\<lambda>x. devices p x = ds) (Devices_Get A i))"

text \<open>The cluster belongs to the project \<open>p\<close>, whose devices satisfy \<open>S\<close>.\<close>

definition in_project :: "(string \<Rightarrow> 'x \<Rightarrow> (string \<times> string) list) \<Rightarrow> string \<Rightarrow> ((string \<times> string) list \<Rightarrow> bool) \<Rightarrow> ('s, 'x) world \<Rightarrow> bool" where
  "in_project devices p S w \<longleftrightarrow> Project (c_CloudSpec (w_Cluster w)) = p \<and> S (devices p (w_ext w))"

lemma keeps_args_project: "keeps_args (in_project devices p S)"
  by (simp add: keeps_args_def valid_def prog_run upd_cluster_def in_project_def set_args_def cluster_upd)

lemmas project_render = inv_pk_render [OF keeps_args_project]

lemma on_ext_project:
  "(\<And>ds. invariant_of (\<lambda>x. devices p x = ds) m) \<Longrightarrow> invariant_of (in_project devices p S) (on_ext m)"
  by (fastforce simp: in_project_def valid_def on_ext_def split: prod.splits sum.splits)

lemma project_read:
  assumes "device_api (p_api P) devices"
  shows "invariant_of (in_project devices p S) (on_ext (Devices_Get (p_api P) i))"
    and "invariant_of (in_project devices p S) (pk_waitForInstance E P i status)"
proof -
  show g: "invariant_of (in_project devices p S) (on_ext (Devices_Get (p_api P) i))" for i
    using assms by (intro on_ext_project) (simp add: device_api_def)
  show "invariant_of (in_project devices p S) (pk_waitForInstance E P i status)"
    unfolding pk_waitForInstance_def by (intro inv_rules g)
qed

text \<open>What the search for the machine gives: it fails exactly if the listing shows none of that name.\<close>

lemma pk_instanceIfExists_listed:
  assumes "p_connected P (w_ext w)" and "Devices_List (p_api P) (Project (c_CloudSpec (w_Cluster w))) (w_ext w) = (r, y)"
    and "\<nexists>q. r = Inl (Panic q)"
  shows "\<exists>a. pk_instanceIfExists P m w = (a, w\<lparr>w_ext := y\<rparr>) \<and> (\<nexists>q. a = Inl (Panic q)) \<and>
    (is_ok a \<longleftrightarrow> listed (Devices_List (p_api P) (Project (c_CloudSpec (w_Cluster w)))) dv_Hostname (m_Name m) (w_ext w) \<noteq> None)"
  using assms by (cases r) (auto simp: pk_instanceIfExists_def pk_conn_def listed_def is_ok_def prog_run split: option.splits)

lemma pk_CreateInstance_devices:
  assumes api: "device_api (p_api P) devices"
  shows "valid (in_project devices p (\<lambda>l. l = ds)) (pk_CreateInstance E P m script)
    (\<lambda>_. in_project devices p (one_more snd ds (m_Name m))) (\<lambda>_. in_project devices p (at_most_one_more ds))"
    (is "valid ?I _ (\<lambda>_. ?J) (\<lambda>_. ?F)")
proof -
  have weak: "?I w \<Longrightarrow> ?F w" "?J w \<Longrightarrow> ?F w" for w
    by (auto simp: in_project_def intro: at_most_one_moreI)
  have new: "valid ?I (on_ext (Devices_Create (p_api P) (pk_device_request c m conf script))) (\<lambda>_. ?J) (\<lambda>_. ?F)"
    if "Project (c_CloudSpec c) = p" for c conf
  proof -
    let ?r = "pk_device_request c m conf script"
    have r: "dc_ProjectID ?r = p" "dc_Hostname ?r = m_Name m" using that by (simp_all add: pk_device_request_def)
    have law: "valid (\<lambda>x. devices p x = ds) (Devices_Create (p_api P) ?r)
        (\<lambda>d x. dv_Hostname d = dc_Hostname ?r \<and> devices p x = ds @ [device_key d])
        (\<lambda>_ x. devices p x = ds \<or> (\<exists>i. devices p x = ds @ [(i, dc_Hostname ?r)]))"
      using api r(1) unfolding device_api_def by blast
    show ?thesis
      by (rule valid_weaken [OF valid_on_ext_at [OF law, where R = "\<lambda>c. Project (c_CloudSpec c) = p"]],
          simp add: in_project_def, auto simp: in_project_def device_key_def r(2) intro: exI [of _ "[]"])
  qed
  have rest: "valid ?J (bindp (pk_waitForInstance E P i ''active'') (\<lambda>_. bindp (on_ext (Devices_Get (p_api P) i)) (\<lambda>host. ret (f host))))
      (\<lambda>_. ?J) (\<lambda>_. ?F)" for i and f :: "Device \<Rightarrow> NodeInfo"
    by (rule valid_weaken [where P = ?J and Q = "\<lambda>_. ?J" and E = "\<lambda>_. ?J"], intro inv_rules project_read [OF api]) (use weak in auto)
  have create: "valid ?I (bindp (on_ext (Devices_Create (p_api P) (pk_device_request c m conf script))) (\<lambda>server.
      bindp (pk_waitForInstance E P (dv_ID server) ''active'') (\<lambda>_. bindp (on_ext (Devices_Get (p_api P) (dv_ID server))) (\<lambda>host.
      ret (f host))))) (\<lambda>_. ?J) (\<lambda>_. ?F)" if "Project (c_CloudSpec c) = p" for c conf and f :: "Device \<Rightarrow> NodeInfo"
    by (rule valid_bindp [OF new [OF that] rest])
  have cluster: "valid ?I (bindp (gets w_Cluster) g) (\<lambda>_. ?J) (\<lambda>_. ?F)"
    if "\<And>c. Project (c_CloudSpec c) = p \<Longrightarrow> valid ?I (g c) (\<lambda>_. ?J) (\<lambda>_. ?F)" for g :: "Cluster \<Rightarrow> (_, NodeInfo) prog"
    using that by (auto simp: valid_def in_project_def prog_run)
  show ?thesis unfolding pk_CreateInstance_def pk_conn_def
    by (intro valid_keep [where I = ?I and m = "gets _"] valid_if valid_fail weak(1) valid_keep [where I = ?I and m = "liftr _"] inv_rules cluster create)
qed

lemma pk_EnsureMaster_devices:
  assumes api: "device_api (p_api P) devices"
  shows "valid (\<lambda>w. Project (c_CloudSpec (w_Cluster w)) = p \<and> w_ext w = x) (pk_EnsureMaster E P m)
    (\<lambda>_ w. if listed (Devices_List (p_api P) p) dv_Hostname (m_Name m) x \<noteq> None then devices p (w_ext w) = devices p x
       else one_more snd (devices p x) (m_Name m) (devices p (w_ext w)) \<and> APIServerURL (w_Cluster w) \<noteq> '''')
    (\<lambda>_ w. at_most_one_more (devices p x) (devices p (w_ext w)))"
proof -
  let ?ds = "devices p x" and ?shown = "listed (Devices_List (p_api P) p) dv_Hostname (m_Name m) x \<noteq> None"
  let ?I = "in_project devices p (\<lambda>l. l = ?ds)" and ?J = "in_project devices p (one_more snd ?ds (m_Name m))"
  let ?F = "in_project devices p (at_most_one_more ?ds)" and ?U = "\<lambda>w. APIServerURL (w_Cluster w) \<noteq> ''''"
  have weak: "?I w \<Longrightarrow> ?F w" "?J w \<Longrightarrow> ?F w" for w
    by (auto simp: in_project_def intro: at_most_one_moreI)
  obtain r y where r: "Devices_List (p_api P) p x = (r, y)" by (cases "Devices_List (p_api P) p x")
  have "valid (\<lambda>z. devices p z = ?ds) (Devices_List (p_api P) p) (\<lambda>l z. devices p z = ?ds \<and> device_key ` set l \<subseteq> set ?ds)
      (\<lambda>_ z. devices p z = ?ds)" using api by (simp add: device_api_def)
  then have y: "devices p y = ?ds" using r by (cases r) (auto dest: valid_Inr valid_Inl)
  have look: "valid (\<lambda>w. Project (c_CloudSpec (w_Cluster w)) = p \<and> w_ext w = x) (attempt (pk_instanceIfExists P m))
      (\<lambda>a w. ?I w \<and> is_ok a = ?shown) (\<lambda>_. ?F)"
  proof -
    have "case attempt (pk_instanceIfExists P m) w of (r, w') \<Rightarrow> (case r of Inl e \<Rightarrow> ?F w' | Inr a \<Rightarrow> ?I w' \<and> is_ok a = ?shown)"
      if w: "Project (c_CloudSpec (w_Cluster w)) = p" "w_ext w = x" for w
    proof -
      consider (dead) "\<not> p_connected P x" | (panic) q where "p_connected P x" "r = Inl (Panic q)"
        | (answer) "p_connected P x" "\<nexists>q. r = Inl (Panic q)" by blast
      then show ?thesis
      proof cases
        case dead
        then show ?thesis using w weak(1) [of w]
          by (simp add: attempt_def pk_instanceIfExists_def pk_conn_def nil_deref_def in_project_def prog_run)
      next
        case panic
        then show ?thesis using w r y weak(1) [of "w\<lparr>w_ext := y\<rparr>"]
          by (simp add: attempt_def pk_instanceIfExists_def pk_conn_def in_project_def prog_run)
      next
        case answer
        then obtain a where "pk_instanceIfExists P m w = (a, w\<lparr>w_ext := y\<rparr>)" "\<nexists>q. a = Inl (Panic q)" "is_ok a = ?shown"
          using pk_instanceIfExists_listed [of P w r y m] w r by auto
        then show ?thesis using w y by (auto simp: attempt_def in_project_def split: sum.splits gerror.splits)
      qed
    qed
    then show ?thesis unfolding valid_def by (intro allI impI) (erule conjE, assumption)
  qed
  have url: "valid ?J (try_endpoints a) (\<lambda>_ w. ?J w \<and> ?U w) (\<lambda>_. ?F)" for a
  proof (rule validI)
    show "?J w' \<and> ?U w'" if J: "?J w" and run: "try_endpoints a w = (Inr x, w')" for w x w'
    proof -
      from run obtain c' where c': "SetClusterAPIEndpoints (w_Cluster w) a = Inr c'" "w' = w\<lparr>w_Cluster := c'\<rparr>"
        by (auto simp: try_endpoints_def prog_run upd_cluster_def split: sum.splits)
      obtain u where "u \<noteq> ''''" "c' = add_endpoint u (w_Cluster w)" by (rule SetClusterAPIEndpoints_Inr [OF c'(1)])
      then show ?thesis
        using J c'(2) by (auto simp: in_project_def add_endpoint_def APIServerURL_def cluster_upd endpoints_url_append)
    qed
    show "?F w'" if "?J w" "try_endpoints a w = (Inl e, w')" for w e w'
      using that weak(2) by (auto simp: try_endpoints_def prog_run upd_cluster_def split: sum.splits)
  qed
  have store: "valid (\<lambda>w. ?J w \<and> ?U w) (store_cluster f) (\<lambda>_ w. ?J w \<and> ?U w) (\<lambda>_. ?F)" for f
    by (rule validI)
       (auto simp: store_cluster_def prog_run upd_cluster_def in_project_def APIServerURL_def cluster_upd intro: at_most_one_moreI
         split: prod.splits sum.splits)
  have create: "valid ?I (bindp (pk_RenderStartupScript E P m '''') (\<lambda>script. bindp (pk_CreateInstance E P m script) (\<lambda>master.
      bindp (try_endpoints (pk_addresses master)) (\<lambda>_. store_cluster (so_cluster_Update (e_store E))))))
      (\<lambda>_ w. ?J w \<and> ?U w) (\<lambda>_. ?F)"
    by (intro valid_keep [where I = ?I, OF project_render] valid_bindp [OF pk_CreateInstance_devices [OF api]] valid_bindp [OF url] store weak(1))
  have "valid (\<lambda>w. Project (c_CloudSpec (w_Cluster w)) = p \<and> w_ext w = x) (pk_EnsureMaster E P m)
      (\<lambda>_ w. if ?shown then ?I w else ?J w \<and> ?U w) (\<lambda>_. ?F)"
    unfolding pk_EnsureMaster_def
  proof (rule valid_bindp [OF look], rule valid_assume)
    show "valid ?I (if is_ok a then ret () else bindp (pk_RenderStartupScript E P m '''') (\<lambda>script. bindp (pk_CreateInstance E P m script)
        (\<lambda>master. bindp (try_endpoints (pk_addresses master)) (\<lambda>_. store_cluster (so_cluster_Update (e_store E))))))
        (\<lambda>_ w. if ?shown then ?I w else ?J w \<and> ?U w) (\<lambda>_. ?F)" if "is_ok a = ?shown" for a :: "Device res"
      using that create by (cases "is_ok a") (simp_all add: valid_def run_simps)
  qed
  then show ?thesis by (rule valid_weaken) (auto simp: in_project_def split: if_splits)
qed

text \<open>C26. The first master of a Packet cluster is created exactly if the listing of the project shows no device with its name.  If
  none is shown, a successful \<^verbatim>\<open>EnsureMaster\<close> adds exactly one device, with that name, and gives the cluster an API server URL; if
  one is shown, it leaves the devices as they are; a failing one adds at most one.  Where the listing is complete, a device is shown
  exactly if there is one; where it fails, none is shown, since \<^verbatim>\<open>EnsureMaster\<close> drops the error, so that a second master is
  created.  And where the device is shown nothing else is done: after a run that failed between the creation of the device and the end of
  \<^verbatim>\<open>EnsureMaster\<close>, the next one leaves the cluster as it is, without URL, and making the admin client fails.\<close>

theorem packet_master_once:
  assumes "device_api (p_api P) devices"
  shows "valid (\<lambda>w. Project (c_CloudSpec (w_Cluster w)) = p \<and> w_ext w = x) (pk_EnsureMaster E P m)
      (\<lambda>_ w. if listed (Devices_List (p_api P) p) dv_Hostname (m_Name m) x \<noteq> None then devices p (w_ext w) = devices p x
         else one_more snd (devices p x) (m_Name m) (devices p (w_ext w)) \<and> APIServerURL (w_Cluster w) \<noteq> '''')
      (\<lambda>_ w. at_most_one_more (devices p x) (devices p (w_ext w))) \<and>
    (\<forall>l y. Devices_List (p_api P) p x = (Inr l, y) \<and> device_key ` set l = set (devices p x) \<longrightarrow>
      (listed (Devices_List (p_api P) p) dv_Hostname (m_Name m) x \<noteq> None \<longleftrightarrow> m_Name m \<in> snd ` set (devices p x))) \<and>
    (\<forall>e y. Devices_List (p_api P) p x = (Inl e, y) \<longrightarrow> listed (Devices_List (p_api P) p) dv_Hostname (m_Name m) x = None) \<and>
    (\<forall>w l y. Devices_List (p_api P) (Project (c_CloudSpec (w_Cluster w))) (w_ext w) = (Inr l, y) \<and> m_Name m \<in> dv_Hostname ` set l \<and>
        p_connected P (w_ext w) \<longrightarrow>
      pk_EnsureMaster E P m w = (Inr (), w\<lparr>w_ext := y\<rparr>) \<and>
      (APIServerURL (w_Cluster w) = '''' \<and> \<not> w_AdminClient w \<longrightarrow>
        bindp (pk_EnsureMaster E P m) (\<lambda>_. GetAdminClient E) w = (Inl (no_endpoint (w_Name w)), w\<lparr>w_ext := y\<rparr>)))"
proof (intro conjI allI impI)
  fix w :: "('b, 'a) world" and l y
  assume w: "Devices_List (p_api P) (Project (c_CloudSpec (w_Cluster w))) (w_ext w) = (Inr l, y) \<and> m_Name m \<in> dv_Hostname ` set l \<and>
      p_connected P (w_ext w)"
  then obtain a where a: "pk_instanceIfExists P m w = (a, w\<lparr>w_ext := y\<rparr>)" "is_ok a"
    using pk_instanceIfExists_listed [of P w "Inr l" y m] listed_answers(2) [of _ "w_ext w" l y dv_Hostname "m_Name m"] by blast
  then show same: "pk_EnsureMaster E P m w = (Inr (), w\<lparr>w_ext := y\<rparr>)"
    by (auto simp: pk_EnsureMaster_def attempt_def is_ok_def prog_run split: sum.splits)
  assume "APIServerURL (w_Cluster w) = '''' \<and> \<not> w_AdminClient w"
  then show "bindp (pk_EnsureMaster E P m) (\<lambda>_. GetAdminClient E) w = (Inl (no_endpoint (w_Name w)), w\<lparr>w_ext := y\<rparr>)"
    by (simp add: run_bindp same GetAdminClient_def run_simps)
next
  fix l y assume "Devices_List (p_api P) p x = (Inr l, y) \<and> device_key ` set l = set (devices p x)"
  moreover from this have "snd ` set (devices p x) = dv_Hostname ` set l"
    by (metis (no_types, lifting) image_cong image_image device_key_def snd_conv)
  ultimately show "listed (Devices_List (p_api P) p) dv_Hostname (m_Name m) x \<noteq> None \<longleftrightarrow> m_Name m \<in> snd ` set (devices p x)"
    using listed_answers(2) by metis
qed (rule pk_EnsureMaster_devices [OF assms], rule listed_answers(1))

section \<open>The SSH key\<close>

text \<open>An SSH key that cannot be imported goes unnoticed: where the project has no key with the name of the
  cluster's and the creation of one fails, whatever the error, preparing the cloud succeeds and changes nothing, because
  the search for the key that follows the failure hides it with an error of its own, which is none.\<close>

lemma packet_key_error_lost:
  assumes "p_connected P (w_ext w)" "w_Certs w = Some cs" "SSHKeyExternalID (cst_Cloud (Status (w_Cluster w))) = ''''"
    and list: "SSHKeys_ProjectList (p_api P) (Project (c_CloudSpec (w_Cluster w))) (w_ext w) = (Inr (keys, None), w_ext w)"
    and "SSHKeyName (c_CloudSpec (w_Cluster w)) \<notin> key_Label ` set keys"
    and create: "SSHKeys_Create (p_api P) (PublicKey (SSHKey cs)) (SSHKeyName (c_CloudSpec (w_Cluster w)))
      (Project (c_CloudSpec (w_Cluster w))) (w_ext w) = (Inl (Err e), w_ext w)"
  shows "pk_PrepareCloud P w = (Inr (), w)"
proof -
  have "find (\<lambda>k. key_Label k = SSHKeyName (c_CloudSpec (w_Cluster w))) keys = None"
    using assms(5) by (auto simp: find_None_iff image_iff)
  then have search: "pk_getPublicKey P w = (Inr (False, ''''), w)"
    using assms(1,3) list by (simp add: pk_getPublicKey_def pk_conn_def prog_run Let_def)
  then have "pk_importPublicKey P w = (Inr '''', w)"
    using assms(1,2) create by (simp add: pk_importPublicKey_def pk_conn_def prog_run SSHKey_of_certs_def)
  moreover have "set_SSHKeyExternalID '''' (w_Cluster w) = w_Cluster w"
    using assms(3) by (simp add: set_SSHKeyExternalID_def upd_CloudStatus_def)
  ultimately show ?thesis using search by (simp add: pk_PrepareCloud_def prog_run upd_cluster_def)
qed

section \<open>A small cloud\<close>

text \<open>Its state is the list of devices of the one project; it refuses keys.\<close>

definition demo_pk :: "Device list packet_env" where
  "demo_pk = offline_pk\<lparr>p_api := \<lparr>
      SSHKeys_Get = (\<lambda>_. ret NotFound), SSHKeys_ProjectList = (\<lambda>_. ret ([], None)),
      SSHKeys_Create = (\<lambda>_ _ _. fail (Err ''key is not valid'')),
      Devices_Create = (\<lambda>r ds. let d = \<lparr>dv_ID = show_nat (length ds), dv_Hostname = dc_Hostname r, dv_State = ''active'', dv_Network = []\<rparr>
        in (Inr d, ds @ [d])),
      Devices_Get = (\<lambda>i ds. ((case find (\<lambda>d. dv_ID d = i) ds of None \<Rightarrow> Inl (Err ''not found'') | Some d \<Rightarrow> Inr d), ds)),
      Devices_List = (\<lambda>_ ds. (Inr ds, ds)), Devices_Delete = (\<lambda>i ds. (Inr (), filter (\<lambda>d. dv_ID d \<noteq> i) ds))\<rparr>,
    p_connected := (\<lambda>_. True)\<rparr>"

lemma demo_device_api: "device_api (p_api demo_pk) (\<lambda>_. map device_key)"
  by (simp add: device_api_def demo_pk_def valid_def Let_def device_key_def)

definition half_world :: "(os, Device list) world" where
  "half_world = \<lparr>w_Cluster = named_cluster ''c1'', w_Certs = w_Certs demo_do_world, w_CloudManager = None, w_AdminClient = False,
     w_store = demo_os, w_ext = [\<lparr>dv_ID = ''0'', dv_Hostname = ''m'', dv_State = ''active'', dv_Network = []\<rparr>]\<rparr>"

lemma half_fields: "APIServerURL (w_Cluster half_world) = ''''" "\<not> w_AdminClient half_world" "w_Name half_world = ''c1''"
  "SSHKeyExternalID (cst_Cloud (Status (w_Cluster half_world))) = ''''"
  by (simp_all add: half_world_def named_cluster_def zero_Cluster_def zero_CapiCluster_def zero_CloudStatus_def
      APIServerURL_def)

theorem packet_master_once_witness:
  "pk_EnsureMaster demo_env demo_pk (named_machine ''m'') half_world = (Inr (), half_world) \<and>
    bindp (pk_EnsureMaster demo_env demo_pk (named_machine ''m'')) (\<lambda>_. GetAdminClient demo_env) half_world =
      (Inl (no_endpoint ''c1''), half_world) \<and>
    valid (\<lambda>w. Project (c_CloudSpec (w_Cluster w)) = '''' \<and> w_ext w = []) (pk_EnsureMaster demo_env demo_pk (named_machine ''m''))
      (\<lambda>_ w. one_more snd [] ''m'' (map device_key (w_ext w)) \<and> APIServerURL (w_Cluster w) \<noteq> '''') (\<lambda>_ _. True)"
proof -
  note all = packet_master_once [OF demo_device_api, where m = "named_machine ''m''" and E = demo_env]
  have none: "listed (Devices_List (p_api demo_pk) '''') dv_Hostname (m_Name (named_machine ''m'')) [] = None"
    by (simp add: listed_def demo_pk_def)
  have "valid (\<lambda>w. Project (c_CloudSpec (w_Cluster w)) = '''' \<and> w_ext w = []) (pk_EnsureMaster demo_env demo_pk (named_machine ''m''))
      (\<lambda>_ w. one_more snd [] ''m'' (map device_key (w_ext w)) \<and> APIServerURL (w_Cluster w) \<noteq> '''') (\<lambda>_ _. True)"
    by (rule valid_weaken [OF conjunct1 [OF all [where p = "''''" and x = "[]"]]])
      (simp_all only: none, simp_all add: named_machine_def)
  moreover have "Devices_List (p_api demo_pk) (Project (c_CloudSpec (w_Cluster half_world))) (w_ext half_world) =
      (Inr (w_ext half_world), w_ext half_world) \<and> m_Name (named_machine ''m'') \<in> dv_Hostname ` set (w_ext half_world) \<and> p_connected demo_pk (w_ext half_world)"
    by (simp add: half_world_def named_machine_def demo_pk_def)
  then have "pk_EnsureMaster demo_env demo_pk (named_machine ''m'') half_world = (Inr (), half_world\<lparr>w_ext := w_ext half_world\<rparr>) \<and>
      bindp (pk_EnsureMaster demo_env demo_pk (named_machine ''m'')) (\<lambda>_. GetAdminClient demo_env) half_world =
        (Inl (no_endpoint ''c1''), half_world\<lparr>w_ext := w_ext half_world\<rparr>)"
    using conjunct2 [OF conjunct2 [OF conjunct2 [OF all]]] half_fields(1-3) by metis
  ultimately show ?thesis by simp
qed

end
