(* ===== verification/Gce_Types.thy ===== *)
theory Gce_Types
  imports Linode
begin

text \<open>
  The provider objects of the Google providers, \<^verbatim>\<open>apis/v1alpha1/gce\<close>: the configurations of clusters and machines
  and their encoding.
\<close>

section \<open>Configurations (provider_config.go)\<close>

record gce_Disk =
  DiskSizeGb :: int
  DiskType :: string

record GCEMachineProviderSpec =
  gms_TypeMeta :: TypeMeta
  gms_ObjectMeta :: ObjectMeta
  gms_Roles :: "string list"
  gms_Zone :: string
  gms_MachineType :: string
  gms_OS :: string
  Disks :: "gce_Disk list"

record gce_KeyPair =
  gkp_Cert :: bytes
  gkp_Key :: bytes

record GCEClusterProviderSpec =
  gcs_TypeMeta :: TypeMeta
  gcs_ObjectMeta :: ObjectMeta
  gcs_Project :: string
  gcs_CAKeyPair :: gce_KeyPair
  gcs_EtcdCAKeyPair :: gce_KeyPair
  gcs_FrontProxyCAKeyPair :: gce_KeyPair
  gcs_SAKeyPair :: gce_KeyPair
  gcs_AdminKubeconfig :: string
  gcs_DiscoveryHashes :: "string list"
  gcs_ClusterConfiguration :: ClusterConfiguration

record GCEClusterProviderStatus =
  gct_TypeMeta :: TypeMeta
  gct_ObjectMeta :: ObjectMeta

definition zero_GCEMachineSpec :: GCEMachineProviderSpec where
  "zero_GCEMachineSpec = \<lparr>gms_TypeMeta = zero_TypeMeta, gms_ObjectMeta = zero_ObjectMeta, gms_Roles = [], gms_Zone = '''',
     gms_MachineType = '''', gms_OS = '''', Disks = []\<rparr>"

definition zero_gce_KeyPair :: gce_KeyPair where
  "zero_gce_KeyPair = \<lparr>gkp_Cert = '''', gkp_Key = ''''\<rparr>"

definition zero_ClusterConfiguration :: ClusterConfiguration where
  "zero_ClusterConfiguration = \<lparr>kc_APIVersion = '''', kc_Kind = '''', ServiceSubnet = '''', PodSubnet = '''', DNSDomain = '''',
     kc_KubernetesVersion = '''', kc_APIServerExtraArgs = Map.empty, kc_APIServerExtraVolumes = [], CertSANs = [],
     kc_ControllerManagerExtraArgs = Map.empty, kc_ControllerManagerExtraVolumes = [], kc_SchedulerExtraArgs = Map.empty,
     kc_ConfClusterName = '''', ControlPlaneEndpoint = ''''\<rparr>"

definition zero_GCEClusterSpec :: GCEClusterProviderSpec where
  "zero_GCEClusterSpec = \<lparr>gcs_TypeMeta = zero_TypeMeta, gcs_ObjectMeta = zero_ObjectMeta, gcs_Project = '''',
     gcs_CAKeyPair = zero_gce_KeyPair, gcs_EtcdCAKeyPair = zero_gce_KeyPair, gcs_FrontProxyCAKeyPair = zero_gce_KeyPair,
     gcs_SAKeyPair = zero_gce_KeyPair, gcs_AdminKubeconfig = '''', gcs_DiscoveryHashes = [],
     gcs_ClusterConfiguration = zero_ClusterConfiguration\<rparr>"

definition zero_GCEClusterStatus :: GCEClusterProviderStatus where
  "zero_GCEClusterStatus = \<lparr>gct_TypeMeta = zero_TypeMeta, gct_ObjectMeta = zero_ObjectMeta\<rparr>"

definition role_name :: "MachineRole \<Rightarrow> string" where
  "role_name role = (case role of MasterMachineRole \<Rightarrow> ''Master'' | NodeMachineRole \<Rightarrow> ''Node'')"

section \<open>Encoding (util.go)\<close>

record gce_codecs =
  gk_ClusterSpec :: "GCEClusterProviderSpec codec"
  gk_ClusterStatus :: "GCEClusterProviderStatus codec"
  gk_MachineSpec :: "GCEMachineProviderSpec codec"

definition gce_ClusterConfig :: "gce_codecs \<Rightarrow> bytes option \<Rightarrow> GCEClusterProviderSpec res" where
  "gce_ClusterConfig K providerConfig =
     (case providerConfig of None \<Rightarrow> Inr zero_GCEClusterSpec | Some raw \<Rightarrow> unmarshal (gk_ClusterSpec K) raw)"

definition gce_ClusterStatus :: "gce_codecs \<Rightarrow> bytes option \<Rightarrow> GCEClusterProviderStatus res" where
  "gce_ClusterStatus K extension =
     (case extension of None \<Rightarrow> Inr zero_GCEClusterStatus | Some raw \<Rightarrow> unmarshal (gk_ClusterStatus K) raw)"

definition gce_MachineConfig :: "gce_codecs \<Rightarrow> bytes option \<Rightarrow> GCEMachineProviderSpec res" where
  "gce_MachineConfig K providerConfig =
     (case providerConfig of None \<Rightarrow> Inr zero_GCEMachineSpec | Some raw \<Rightarrow> unmarshal (gk_MachineSpec K) raw)"

text \<open>A \<^verbatim>\<open>nil\<close> object is encoded as an extension without bytes.\<close>

definition gce_EncodeMachineSpec :: "gce_codecs \<Rightarrow> GCEMachineProviderSpec option \<Rightarrow> bytes res" where
  "gce_EncodeMachineSpec K spec = (case spec of None \<Rightarrow> Inr '''' | Some s \<Rightarrow> marshal (gk_MachineSpec K) s)"

definition gce_EncodeClusterStatus :: "gce_codecs \<Rightarrow> GCEClusterProviderStatus option \<Rightarrow> bytes res" where
  "gce_EncodeClusterStatus K status = (case status of None \<Rightarrow> Inr '''' | Some s \<Rightarrow> marshal (gk_ClusterStatus K) s)"

definition gce_EncodeClusterSpec :: "gce_codecs \<Rightarrow> GCEClusterProviderSpec option \<Rightarrow> bytes res" where
  "gce_EncodeClusterSpec K spec = (case spec of None \<Rightarrow> Inr '''' | Some s \<Rightarrow> marshal (gk_ClusterSpec K) s)"

definition gce_encode_pair :: "'x sys_ops \<Rightarrow> CertKeyPair \<Rightarrow> gce_KeyPair" where
  "gce_encode_pair S p = \<lparr>gkp_Cert = cert_EncodeCertPEM S (Cert p), gkp_Key = cert_EncodePrivateKeyPEM S (Key p)\<rparr>"

definition SetGCEclusterProviderConfig ::
  "('s, 'x) env \<Rightarrow> gce_codecs \<Rightarrow> string \<Rightarrow> (('s, 'x) world, unit) prog" where
  "SetGCEclusterProviderConfig E K project =
     bindp (gets w_Certs) (\<lambda>mo.
     bindp (liftr (deref_opt mo)) (\<lambda>certs.
     let pair = gce_encode_pair (e_sys E) in
     bindp (pwrap ''failed to encode cluster provider spec'' (liftr (gce_EncodeClusterSpec K (Some
       (zero_GCEClusterSpec
         \<lparr>gcs_TypeMeta := \<lparr>Kind = ''GCEClusterProviderSpec'', APIVersion = ''gceproviderconfig/v1alpha1''\<rparr>,
          gcs_Project := project,
          gcs_CAKeyPair := pair (CACert certs), gcs_EtcdCAKeyPair := pair (EtcdCACert certs),
          gcs_FrontProxyCAKeyPair := pair (FrontProxyCACert certs), gcs_SAKeyPair := pair (ServiceAccountCert certs)\<rparr>))))) (\<lambda>raw.
     upd_cluster (set_ccProviderSpec raw))))"

end
