(* ===== verification/Gke.thy ===== *)
theory Gke
  imports Managed Gce_Types
begin

text \<open>
  The provider of managed Google clusters, \<^verbatim>\<open>cloud/providers/gke\<close>: connector (\<^verbatim>\<open>cloud.go\<close>), cloud manager
  (\<^verbatim>\<open>apply.go\<close>, \<^verbatim>\<open>context.go\<close>, \<^verbatim>\<open>create.go\<close>, \<^verbatim>\<open>wrapper.go\<close>) and the manager of a node group (\<^verbatim>\<open>ngm.go\<close>).  A change
  in the cloud is an operation that the code waits for.  The container and compute services are a record of
  operations; project and zone are arguments where they decide what is meant.
\<close>

section \<open>The API client\<close>

record NodePool =
  gp_Name :: string
  gp_MachineType :: string
  gp_DiskSizeGb :: int
  gp_ImageType :: string
  gp_InitialNodeCount :: int

record container_Cluster =
  ClusterIpv4Cidr :: string
  gcl_Name :: string
  InitialClusterVersion :: string
  gcl_Username :: string
  gcl_Password :: string
  IssueClientCertificate :: bool
  gcl_Network :: string
  gcl_PolicyEnabled :: bool
  gcl_PolicyProvider :: string
  gcl_NodePools :: "NodePool list"

text \<open>What the code reads of a cluster in the cloud.\<close>

record gke_ClusterInfo =
  gci_Endpoint :: string
  gci_ClusterCaCertificate :: bytes
  gci_ClientCertificate :: bytes
  gci_ClientKey :: bytes

record 'x gke_ops =
  gk_Clusters_List :: "string \<Rightarrow> string \<Rightarrow> ('x, unit) prog"
  gk_Operations_Get :: "string \<Rightarrow> string \<Rightarrow> string \<Rightarrow> ('x, string) prog"
  gk_Networks_Insert :: "string \<Rightarrow> string \<Rightarrow> string \<Rightarrow> ('x, unit) prog"
  gk_Networks_Get :: "string \<Rightarrow> string \<Rightarrow> ('x, string) prog"
  gk_Clusters_Get :: "string \<Rightarrow> string \<Rightarrow> string \<Rightarrow> ('x, gke_ClusterInfo) prog"
  gk_Clusters_Create :: "string \<Rightarrow> string \<Rightarrow> container_Cluster \<Rightarrow> ('x, string) prog"
  gk_Clusters_Delete :: "string \<Rightarrow> string \<Rightarrow> string \<Rightarrow> ('x, string) prog"
  gk_NodePools_Get :: "string \<Rightarrow> string \<Rightarrow> string \<Rightarrow> string \<Rightarrow> ('x, unit) prog"
  gk_NodePools_Create :: "string \<Rightarrow> string \<Rightarrow> string \<Rightarrow> NodePool \<Rightarrow> ('x, string) prog"
  gk_NodePools_Delete :: "string \<Rightarrow> string \<Rightarrow> string \<Rightarrow> string \<Rightarrow> ('x, string) prog"
  gk_NodePools_SetSize :: "string \<Rightarrow> string \<Rightarrow> string \<Rightarrow> string \<Rightarrow> int \<Rightarrow> ('x, string) prog"
  gk_NewForConfig :: "rest_config \<Rightarrow> string \<Rightarrow> string \<Rightarrow> ('x, unit) prog"

text \<open>\<^verbatim>\<open>IsValid\<close> answers with a flag and an error; the making of the two services may fail.\<close>

record 'x gke_env =
  gk_api :: "'x gke_ops"
  gk_cred_IsValid :: "Credential \<Rightarrow> bool \<times> gerror option"
  gk_ProjectID :: "Credential \<Rightarrow> string"
  gk_NewServices :: "Credential \<Rightarrow> unit res"
  gk_codecs :: gce_codecs
  gk_base64 :: "bytes \<Rightarrow> bytes res"
  gk_pem :: "(bytes, bytes) pem"
  gk_GeneratePassword :: "('x, string) prog"
  gk_connected :: "'x \<Rightarrow> bool"
  gk_set_connected :: "bool \<Rightarrow> 'x \<Rightarrow> 'x"

definition gk_UID :: string where "gk_UID = ''gke''"
definition defaultNetwork :: string where "defaultNetwork = ''default''"

definition gk_conn :: "'x gke_env \<Rightarrow> (('s, 'x) world, 'a) prog \<Rightarrow> (('s, 'x) world, 'a) prog" where
  "gk_conn G m = bindp (gets (gk_connected G \<circ> w_ext)) (\<lambda>b. if b then m else fail nil_deref)"

text \<open>A call that takes the project and the zone of the cluster.\<close>

definition in_zone :: "'x gke_env \<Rightarrow> (string \<Rightarrow> string \<Rightarrow> ('x, 'a) prog) \<Rightarrow> (('s, 'x) world, 'a) prog" where
  "in_zone G call = gk_conn G (bindp (gets w_Cluster) (\<lambda>c. on_ext (call (Project (c_CloudSpec c)) (Zone (c_CloudSpec c)))))"

section \<open>The connector (cloud.go)\<close>

definition gk_set_Project :: "string \<Rightarrow> Cluster \<Rightarrow> Cluster" where
  "gk_set_Project p = upd_CloudSpec (\<lambda>s. s\<lparr>Project := p\<rparr>)"

definition gk_IsUnauthorized :: "'x gke_env \<Rightarrow> string \<Rightarrow> (('s, 'x) world, bool \<times> string) prog" where
  "gk_IsUnauthorized G project =
     bindp (attempt (on_ext (gk_Clusters_List (gk_api G) project ''us-central1-b''))) (\<lambda>r.
     ret (if is_ok r then (True, '''') else (False, ''Credential missing required authorization'')))"

definition gk_newconnector :: "('s, 'x) env \<Rightarrow> 'x gke_env \<Rightarrow> (('s, 'x) world, bool) prog" where
  "gk_newconnector E G =
     bindp (GetCredential E) (\<lambda>cred.
     let (ok, err) = gk_cred_IsValid G cred in
     if \<not> ok then (case err of Some e \<Rightarrow> fail e | None \<Rightarrow> ret False)
     else bindp (upd_cluster (gk_set_Project (gk_ProjectID G cred))) (\<lambda>_.
       bindp (liftr (gk_NewServices G cred)) (\<lambda>_.
       bindp (gk_IsUnauthorized G (gk_ProjectID G cred)) (\<lambda>(ok, msg).
       if ok then ret True else fail (Err msg)))))"

definition gk_waitForZoneOperation :: "('s, 'x) env \<Rightarrow> 'x gke_env \<Rightarrow> string \<Rightarrow> (('s, 'x) world, unit) prog" where
  "gk_waitForZoneOperation E G operation = gk_conn G (PollImmediate (poll_ticks (e_sys E))
     (ok_or_false (in_zone G (\<lambda>p z. gk_Operations_Get (gk_api G) p z operation)) (\<lambda>status. ret (status = ''DONE''))))"

definition gk_ensureNetworks :: "'x gke_env \<Rightarrow> (('s, 'x) world, unit) prog" where
  "gk_ensureNetworks G = gk_conn G
     (bindp (gets w_Cluster) (\<lambda>c.
      bindp (liftr (index_at (Pods (c_Network c)) 0)) (\<lambda>cidr.
      on_ext (gk_Networks_Insert (gk_api G) (Project (c_CloudSpec c)) defaultNetwork cidr))))"

definition set_Pods :: "string list \<Rightarrow> Cluster \<Rightarrow> Cluster" where
  "set_Pods cidrs = upd_Network (\<lambda>n. n\<lparr>Pods := cidrs\<rparr>)"

definition gk_getNetworks :: "'x gke_env \<Rightarrow> (('s, 'x) world, bool) prog" where
  "gk_getNetworks G = gk_conn G
     (bindp (gets w_Cluster) (\<lambda>c.
      bindp (on_ext (gk_Networks_Get (gk_api G) (Project (c_CloudSpec c)) defaultNetwork)) (\<lambda>range.
      bindp (upd_cluster (set_Pods [range])) (\<lambda>_. ret True))))"

definition gk_createCluster :: "'x gke_env \<Rightarrow> container_Cluster \<Rightarrow> (('s, 'x) world, string) prog" where
  "gk_createCluster G kluster = in_zone G (\<lambda>p z. gk_Clusters_Create (gk_api G) p z kluster)"

definition gk_deleteCluster :: "'x gke_env \<Rightarrow> (('s, 'x) world, string) prog" where
  "gk_deleteCluster G = bindp (gets w_Name) (\<lambda>cl. in_zone G (\<lambda>p z. gk_Clusters_Delete (gk_api G) p z cl))"

text \<open>The node pool of a machine set: its provider configuration must name a disk.\<close>

definition gk_node_pool :: "'x gke_env \<Rightarrow> MachineSet \<Rightarrow> NodePool res" where
  "gk_node_pool G ng =
     rbind (gce_MachineConfig (gk_codecs G) (ProviderSpec (TemplateSpec (ms_Spec ng)))) (\<lambda>spec.
     rbind (index_at (Disks spec) 0) (\<lambda>disk.
     rbind (replicas_of ng) (\<lambda>n.
     Inr \<lparr>gp_Name = ms_Name ng, gp_MachineType = gms_MachineType spec, gp_DiskSizeGb = DiskSizeGb disk, gp_ImageType = gms_OS spec,
          gp_InitialNodeCount = sint n\<rparr>)))"

definition gk_addNodePool :: "'x gke_env \<Rightarrow> MachineSet \<Rightarrow> (('s, 'x) world, string) prog" where
  "gk_addNodePool G ng = gk_conn G
     (bindp (liftr (gk_node_pool G ng)) (\<lambda>np.
      bindp (gets w_Name) (\<lambda>cl. in_zone G (\<lambda>p z. gk_NodePools_Create (gk_api G) p z cl np))))"

definition deleteNoodPool :: "'x gke_env \<Rightarrow> MachineSet \<Rightarrow> (('s, 'x) world, string) prog" where
  "deleteNoodPool G ng = bindp (gets w_Name) (\<lambda>cl. in_zone G (\<lambda>p z. gk_NodePools_Delete (gk_api G) p z cl (ms_Name ng)))"

definition gk_adjustNodePool :: "'x gke_env \<Rightarrow> MachineSet \<Rightarrow> (('s, 'x) world, string) prog" where
  "gk_adjustNodePool G ng = gk_conn G
     (bindp (liftr (replicas_of ng)) (\<lambda>n.
      bindp (gets w_Name) (\<lambda>cl. in_zone G (\<lambda>p z. gk_NodePools_SetSize (gk_api G) p z cl (ms_Name ng) (sint n)))))"

section \<open>Cluster description, certificates and endpoint (wrapper.go)\<close>

definition encodeCluster :: "('s, 'x) env \<Rightarrow> 'x gke_env \<Rightarrow> (('s, 'x) world, container_Cluster) prog" where
  "encodeCluster E G =
     bindp (gets w_Cluster) (\<lambda>c.
     bindp (on_store (so_machineset_List (e_store E) (c_Name c))) (\<lambda>nodeGroups.
     bindp (liftr (map_res (gk_node_pool G) nodeGroups)) (\<lambda>nodePools.
     bindp (liftr (index_at (Pods (c_Network c)) 0)) (\<lambda>cidr.
     bindp (liftr (deref_opt (GKE (c_CloudSpec c)))) (\<lambda>spec.
     ret \<lparr>ClusterIpv4Cidr = cidr, gcl_Name = c_Name c, InitialClusterVersion = KubernetesVersion (c_Config c),
          gcl_Username = UserName spec, gcl_Password = Password spec, IssueClientCertificate = True,
          gcl_Network = NetworkName spec, gcl_PolicyEnabled = True, gcl_PolicyProvider = NetworkProvider (c_CloudSpec c),
          gcl_NodePools = nodePools\<rparr>)))))"

definition gk_retrieveClusterStatus :: "gke_ClusterInfo \<Rightarrow> (('s, 'x) world, unit) prog" where
  "gk_retrieveClusterStatus k = upd_cluster (append_endpoint (gci_Endpoint k))"

definition gk_StoreCertificate :: "('s, 'x) env \<Rightarrow> 'x gke_env \<Rightarrow> gke_ClusterInfo \<Rightarrow> (('s, 'x) world, unit) prog" where
  "gk_StoreCertificate E G k =
     bindp (gets w_Name) (\<lambda>cl.
     bindp (drop_ca E cl) (\<lambda>caKey.
     bindp (liftr (gk_base64 G (gci_ClusterCaCertificate k))) (\<lambda>caCert.
     bindp (liftr (ParseCertsPEM (gk_pem G) caCert)) (\<lambda>crts.
     bindp (liftr (index_at crts 0)) (\<lambda>crt.
     bindp (on_store (so_cert_Create (e_store E) cl ''ca'' (Some crt) caKey)) (\<lambda>_.
     bindp (set_CACert crt) (\<lambda>_.
     bindp (liftr (gk_base64 G (gci_ClientCertificate k))) (\<lambda>adminCert.
     bindp (liftr (gk_base64 G (gci_ClientKey k))) (\<lambda>adminKey.
     bindp (liftr (ParseCertsPEM (gk_pem G) adminCert)) (\<lambda>aCrts.
     bindp (liftr (ParsePrivateKeyPEM (gk_pem G) adminKey)) (\<lambda>aKey.
     bindp (liftr (index_at aCrts 0)) (\<lambda>aCrt.
     bindp (liftr (as_rsa aKey)) (\<lambda>key.
     on_store (so_cert_Create (e_store E) cl ''admin'' (Some aCrt) (Some key)))))))))))))))"

section \<open>The manager of a node group (ngm.go)\<close>

definition gk_and_wait :: "('s, 'x) env \<Rightarrow> 'x gke_env \<Rightarrow> (('s, 'x) world, string) prog \<Rightarrow> (('s, 'x) world, unit) prog" where
  "gk_and_wait E G start = bindp start (\<lambda>op. gk_waitForZoneOperation E G op)"

text \<open>A pool that cannot be read counts as one that is not there.\<close>

definition gk_ng_Apply :: "('s, 'x) env \<Rightarrow> 'x gke_env \<Rightarrow> MachineSet \<Rightarrow> (('s, 'x) world, unit) prog" where
  "gk_ng_Apply E G ng =
     (let record_size = bindp (liftr (scaled ng)) (\<lambda>ng'.
            bindp (gets w_Name) (\<lambda>cl.
            bindp (on_store (so_machineset_UpdateStatus (e_store E) cl ng')) (\<lambda>_. ret ()))) in
      bindp (gets w_Name) (\<lambda>cl.
      bindp (attempt (in_zone G (\<lambda>p z. gk_NodePools_Get (gk_api G) p z cl (ms_Name ng)))) (\<lambda>np.
      if \<not> is_ok np then bindp (gk_and_wait E G (gk_addNodePool G ng)) (\<lambda>_. record_size)
      else bindp (liftr (to_delete ng)) (\<lambda>gone.
        if gone then bindp (gk_and_wait E G (deleteNoodPool G ng)) (\<lambda>_.
          on_store (so_machineset_Delete (e_store E) cl (ms_Name ng)))
        else bindp (gk_and_wait E G (gk_adjustNodePool G ng)) (\<lambda>_. record_size)))))"

section \<open>The cloud manager (context.go, apply.go, create.go)\<close>

text \<open>A connector that was set is kept.\<close>

definition gk_SetCloudConnector :: "('s, 'x) env \<Rightarrow> 'x gke_env \<Rightarrow> (('s, 'x) world, unit) prog" where
  "gk_SetCloudConnector E G =
     bindp (gets (gk_connected G \<circ> w_ext)) (\<lambda>b.
     if b then ret ()
     else bindp (attempt (gk_newconnector E G)) (\<lambda>r.
       bindp (modify (\<lambda>w. w\<lparr>w_ext := gk_set_connected G (r = Inr True) (w_ext w)\<rparr>)) (\<lambda>_.
       bindp (liftr r) (\<lambda>_. ret ()))))"

definition gk_get_cluster :: "'x gke_env \<Rightarrow> string \<Rightarrow> string \<Rightarrow> (('s, 'x) world, gke_ClusterInfo) prog" where
  "gk_get_cluster G p z = gk_conn G (bindp (gets w_Name) (\<lambda>cl. on_ext (gk_Clusters_Get (gk_api G) p z cl)))"

definition gk_PrepareCloud :: "('s, 'x) env \<Rightarrow> 'x gke_env \<Rightarrow> (('s, 'x) world, unit) prog" where
  "gk_PrepareCloud E G =
     bindp (gk_SetCloudConnector E G) (\<lambda>_.
     bindp (attempt (gk_getNetworks G)) (\<lambda>found.
     bindp (if is_ok found then ret () else gk_ensureNetworks G) (\<lambda>_.
     bindp (gets w_Cluster) (\<lambda>c.
     let p = Project (c_CloudSpec c); z = Zone (c_CloudSpec c) in
     bindp (attempt (gk_get_cluster G p z)) (\<lambda>r.
     bindp (case r of
         Inr k \<Rightarrow> ret k
       | Inl _ \<Rightarrow>
           bindp (encodeCluster E G) (\<lambda>kluster.
           bindp (gk_and_wait E G (gk_createCluster G kluster)) (\<lambda>_.
           bindp (gk_get_cluster G p z) (\<lambda>k.
           bindp (gk_StoreCertificate E G k) (\<lambda>_. ret k))))) (\<lambda>k.
     gk_retrieveClusterStatus k))))))"

definition gk_ApplyScale :: "('s, 'x) env \<Rightarrow> 'x gke_env \<Rightarrow> (('s, 'x) world, unit) prog" where
  "gk_ApplyScale E G =
     bindp (gets w_Name) (\<lambda>cl.
     bindp (on_store (so_machineset_List (e_store E) cl)) (\<lambda>nodeGroups.
     bindp (for_each nodeGroups (gk_ng_Apply E G)) (\<lambda>_.
     store_cluster (so_cluster_Update (e_store E)))))"

definition gk_ApplyDelete :: "('s, 'x) env \<Rightarrow> 'x gke_env \<Rightarrow> (('s, 'x) world, unit) prog" where
  "gk_ApplyDelete E G =
     bindp (store_cluster (so_cluster_UpdateStatus (e_store E))) (\<lambda>_.
     bindp (gk_deleteCluster G) (\<lambda>op.
     bindp (attempt (gk_waitForZoneOperation E G op)) (\<lambda>r. case r of
       Inr _ \<Rightarrow> ret ()
     | Inl e \<Rightarrow> bindp (upd_cluster (set_Reason (err_msg e))) (\<lambda>_. fail e))))"

definition gk_GetDefaultMachineProviderSpec ::
  "'x gke_env \<Rightarrow> string \<Rightarrow> MachineRole \<Rightarrow> (('s, 'x) world, bytes option) prog" where
  "gk_GetDefaultMachineProviderSpec G sku role =
     bindp (gets w_Cluster) (\<lambda>c.
     bindp (liftr (marshal (gk_MachineSpec (gk_codecs G)) (zero_GCEMachineSpec
       \<lparr>gms_Zone := Zone (c_CloudSpec c), gms_MachineType := sku, gms_Roles := [role_name role],
        Disks := [\<lparr>DiskSizeGb = 100, DiskType = ''pd-standard''\<rparr>]\<rparr>))) (\<lambda>raw.
     ret (Some raw)))"

definition gk_AdminUsername :: string where "gk_AdminUsername = ''pharmer''"

definition gk_defaults :: "string \<Rightarrow> Cluster \<Rightarrow> Cluster" where
  "gk_defaults password = upd_Config (\<lambda>g. g\<lparr>Cloud := (Cloud g)\<lparr>InstanceImage := ''Ubuntu'',
     GKE := Some \<lparr>UserName = gk_AdminUsername, Password = password, NetworkName = ''default''\<rparr>\<rparr>,
     SSHUserName := gk_AdminUsername\<rparr>)"

definition gk_SetDefaultCluster :: "'x gke_env \<Rightarrow> (('s, 'x) world, unit) prog" where
  "gk_SetDefaultCluster G = bindp (on_ext (gk_GeneratePassword G)) (\<lambda>password. upd_cluster (gk_defaults password))"

definition NewGKEAdminClient :: "('s, 'x) env \<Rightarrow> 'x gke_env \<Rightarrow> (('s, 'x) world, unit) prog" where
  "NewGKEAdminClient E G =
     bindp (gets w_Cluster) (\<lambda>c.
     bindp (GetAdminCertificate E (c_Name c)) (\<lambda>p.
     let host = APIServerURL c in
     if host = '''' then fail (no_endpoint_here (c_Name c))
     else bindp (liftr (deref_opt (GKE (c_CloudSpec c)))) (\<lambda>spec.
       bindp GetCaCertPair (\<lambda>ca.
       on_ext (gk_NewForConfig (gk_api G)
         \<lparr>rc_Host = host, CAData = cert_EncodeCertPEM (e_sys E) (Cert ca),
          CertData = cert_EncodeCertPEM (e_sys E) (fst p), KeyData = cert_EncodePrivateKeyPEM (e_sys E) (snd p)\<rparr>
         (UserName spec) (Password spec))))))"

definition gk_GetKubeConfig :: "('s, 'x) env \<Rightarrow> (('s, 'x) world, ManagedKubeConfig) prog" where
  "gk_GetKubeConfig E =
     bindp (gets w_Cluster) (\<lambda>c.
     bindp GetCaCertPair (\<lambda>ca.
     bindp (liftr (deref_opt (GKE (c_CloudSpec c)))) (\<lambda>spec.
     ret ((managed_config c (APIServerURL c) (cert_EncodeCertPEM (e_sys E) (Cert ca)))
       \<lparr>kx_Username := UserName spec, kx_Password := Password spec\<rparr>))))"

definition gk_EnsureMaster :: "Machine \<Rightarrow> (('s, 'x) world, unit) prog" where
  "gk_EnsureMaster m = ret ()"

definition gk_CreateCredentials :: "(('s, 'x) world, unit) prog" where
  "gk_CreateCredentials = ret ()"

definition gk_GetMasterSKU :: "int32 \<Rightarrow> string" where
  "gk_GetMasterSKU totalNodes = ''''"

definition gk_GetClusterAPIComponents :: "(('s, 'x) world, string) prog" where
  "gk_GetClusterAPIComponents = ret ''''"

definition gk_manager :: "('s, 'x) env \<Rightarrow> 'x gke_env \<Rightarrow> ('s, 'x) cloud_manager" where
  "gk_manager E G =
     \<lparr>cm_SetCloudConnector = gk_SetCloudConnector E G, cm_CreateCredentials = gk_CreateCredentials,
      cm_ApplyDelete = gk_ApplyDelete E G, cm_ApplyScale = gk_ApplyScale E G,
      cm_SetDefaultCluster = gk_SetDefaultCluster G,
      cm_GetDefaultMachineProviderSpec = gk_GetDefaultMachineProviderSpec G, cm_PrepareCloud = gk_PrepareCloud E G,
      cm_EnsureMaster = gk_EnsureMaster, cm_GetMasterSKU = gk_GetMasterSKU,
      cm_GetClusterAPIComponents = gk_GetClusterAPIComponents,
      cm_GetAdminClient = NewGKEAdminClient E G\<rparr>"

end
