(* ===== verification/Gke_Correct.thy ===== *)
theory Gke_Correct
  imports Gke Dokube_Correct
begin

text \<open>
  The provider of managed Google clusters meets the contract of a cloud manager, with a deletion that ends in the
  phase Deleting.
\<close>

lemma inv_gk_conn [inv_rules]: "invariant_of I m \<Longrightarrow> invariant_of I (gk_conn G m)"
  unfolding gk_conn_def by (intro inv_rules)

lemma gk_manager_fields:
  "cm_SetCloudConnector (gk_manager E G) = gk_SetCloudConnector E G"
  "cm_CreateCredentials (gk_manager E G) = gk_CreateCredentials"
  "cm_ApplyDelete (gk_manager E G) = gk_ApplyDelete E G"
  "cm_ApplyScale (gk_manager E G) = gk_ApplyScale E G"
  "cm_SetDefaultCluster (gk_manager E G) = gk_SetDefaultCluster G"
  "cm_GetDefaultMachineProviderSpec (gk_manager E G) = gk_GetDefaultMachineProviderSpec G"
  "cm_PrepareCloud (gk_manager E G) = gk_PrepareCloud E G"
  "cm_EnsureMaster (gk_manager E G) = gk_EnsureMaster"
  "cm_GetClusterAPIComponents (gk_manager E G) = gk_GetClusterAPIComponents"
  "cm_GetAdminClient (gk_manager E G) = NewGKEAdminClient E G"
  by (simp_all add: gk_manager_def)

context world_inv
begin

lemma keep_gk_calls [inv_rules]:
  "invariant_of I (in_zone G call)"
  "invariant_of I (gk_waitForZoneOperation E G op)"
  "invariant_of I (gk_IsUnauthorized G p)"
  "invariant_of I (gk_get_cluster G p z)"
  "invariant_of I (encodeCluster E G)"
  unfolding in_zone_def gk_waitForZoneOperation_def gk_IsUnauthorized_def gk_get_cluster_def encodeCluster_def
  by (intro inv_rules; simp?)+

lemma keep_gk_pools [inv_rules]:
  "invariant_of I (gk_ensureNetworks G)"
  "invariant_of I (gk_createCluster G k)"
  "invariant_of I (gk_deleteCluster G)"
  "invariant_of I (gk_addNodePool G ng)"
  "invariant_of I (deleteNoodPool G ng)"
  "invariant_of I (gk_adjustNodePool G ng)"
  unfolding gk_ensureNetworks_def gk_createCluster_def gk_deleteCluster_def gk_addNodePool_def deleteNoodPool_def gk_adjustNodePool_def
  by (intro inv_rules keep_gk_calls)+

lemma keep_gk_and_wait [inv_rules]: "invariant_of I m \<Longrightarrow> invariant_of I (gk_and_wait E G m)"
  unfolding gk_and_wait_def by (intro inv_rules keep_gk_calls)

lemma keep_gk_ng_Apply [inv_rules]: "invariant_of I (gk_ng_Apply E G ng)"
  unfolding gk_ng_Apply_def Let_def by (intro inv_rules keep_gk_calls keep_gk_pools keep_gk_and_wait)

lemma keep_gk_certs [inv_rules]:
  "invariant_of I (set_CACert crt)" "invariant_of I (gk_StoreCertificate E G k)" "invariant_of I (NewGKEAdminClient E G)"
proof -
  show c: "invariant_of I (set_CACert crt)" for crt
    unfolding set_CACert_def by (intro inv_rules)
  show "invariant_of I (gk_StoreCertificate E G k)"
    unfolding gk_StoreCertificate_def by (intro inv_rules c keep_managed)
  show "invariant_of I (NewGKEAdminClient E G)"
    unfolding NewGKEAdminClient_def Let_def by (intro inv_rules keep_managed)
qed

end

lemma core_gk_updates [inv_rules]:
  "invariant_of (core_is k) (upd_cluster (gk_defaults p))"
  "invariant_of (core_is k) (upd_cluster (gk_set_Project p))"
  "invariant_of (core_is k) (upd_cluster (set_Pods ps))"
  by (rule inv_upd_cluster; simp add: core_of_def gk_defaults_def gk_set_Project_def set_Pods_def cluster_upd)+

lemma keep_gk_manager:
  "invariant_of (core_is k) (gk_SetCloudConnector E G)"
  "invariant_of (core_is k) gk_CreateCredentials"
  "invariant_of (core_is k) (gk_SetDefaultCluster G)"
  "invariant_of (core_is k) (gk_GetDefaultMachineProviderSpec G sku role)"
  "invariant_of (core_is k) (gk_PrepareCloud E G)"
  "invariant_of (core_is k) (gk_EnsureMaster m)"
  "invariant_of (core_is k) gk_GetClusterAPIComponents"
  "invariant_of (core_is k) (gk_ApplyScale E G)"
  "invariant_of (core_is k) (gk_ApplyDelete E G)"
  "invariant_of (core_is k) (NewGKEAdminClient E G)"
  unfolding gk_PrepareCloud_def gk_SetCloudConnector_def gk_newconnector_def gk_CreateCredentials_def gk_SetDefaultCluster_def
    gk_GetDefaultMachineProviderSpec_def gk_getNetworks_def gk_retrieveClusterStatus_def gk_EnsureMaster_def
    gk_GetClusterAPIComponents_def gk_ApplyScale_def gk_ApplyDelete_def Let_def
  by (intro inv_rules)+

interpretation gke: cloud_provider "gk_manager E G" ClusterDeleting for E G
  by (unfold_locales; (unfold gk_manager_fields)?; (rule keep_gk_manager)?)
    (simp_all add: valid_weaken [OF keep_gk_manager(9)])

end
