(* ===== verification/Managed_Props.thy ===== *)
theory Managed_Props
  imports Gke_Correct Cloud_Vfs Digitalocean_Props
begin

text \<open>
  Properties of the managed providers: what scaling does to the node pools of a Google cluster, the phase in which
  its deletion ends, and what becomes of a machine set of a DigitalOcean cluster that is to go.
\<close>

section \<open>Deletion of a Google cluster\<close>

definition gke_registry :: "('s, 'x) env \<Rightarrow> 'x gke_env \<Rightarrow> ('s, 'x) env" where
  "gke_registry E G = E\<lparr>e_providers := [gk_UID \<mapsto> gk_manager E G]\<rparr>"

interpretation with_gke: late_orchestration "gke_registry E G" for E G
proof (rule late_orchestration.intro, rule orchestration.intro)
  show "ClusterDeleting = ClusterDeleting \<or> ClusterDeleting = ClusterDeleted" by simp
next
  fix p cm
  assume "e_providers (gke_registry E G) p = Some cm"
  then have "cm = gk_manager E G" by (simp add: gke_registry_def split: if_splits)
  then show "cloud_provider cm ClusterDeleting" using gke.cloud_provider_axioms by simp
qed

text \<open>A Google cluster is never deleted as far as its record says.\<close>

lemma gke_never_deleted:
  "valid (core_is (ClusterDeleting, n, d, cp)) (Apply (gke_registry E G))
     (\<lambda>_. core_is (ClusterDeleting, n, d, cp)) (\<lambda>_. core_is (ClusterDeleting, n, d, cp))"
  using with_gke.never_deleted by blast

section \<open>The node pools of a Google cluster\<close>

text \<open>
  What the service holds for a cluster: its node pools with their sizes, and the operations it has accepted, by their names, each with the
  change it is to make to one pool.  An accepted operation runs; at any time it may complete, which makes the change, or be cancelled,
  which makes none.  The status \<^verbatim>\<open>DONE\<close> is that of both.
\<close>

record pool_change =
  ch_pool :: string
  ch_size :: "int option"

datatype op_status = Running | Completed | Cancelled

record pool_service =
  sv_pools :: "string \<rightharpoonup> int"
  sv_ops :: "string \<rightharpoonup> pool_change \<times> op_status"

inductive op_step :: "pool_service \<Rightarrow> pool_service \<Rightarrow> bool" where
  completes: "sv_ops s i = Some (c, Running) \<Longrightarrow>
     op_step s \<lparr>sv_pools = (sv_pools s)(ch_pool c := ch_size c), sv_ops = (sv_ops s)(i \<mapsto> (c, Completed))\<rparr>"
| is_cancelled: "sv_ops s i = Some (c, Running) \<Longrightarrow> op_step s (s\<lparr>sv_ops := (sv_ops s)(i \<mapsto> (c, Cancelled))\<rparr>)"

inductive_cases op_stepE: "op_step s t"

abbreviation progress :: "pool_service \<Rightarrow> pool_service \<Rightarrow> bool" where "progress \<equiv> rtranclp op_step"

definition quiet :: "pool_service \<Rightarrow> bool" where
  "quiet s \<longleftrightarrow> (\<forall>i c. sv_ops s i \<noteq> Some (c, Running))"

definition accepted :: "pool_service \<Rightarrow> string \<Rightarrow> pool_change \<Rightarrow> pool_service \<Rightarrow> bool" where
  "accepted s i c t \<longleftrightarrow> (\<exists>u. progress s u \<and> sv_ops u i = None \<and> progress (u\<lparr>sv_ops := (sv_ops u)(i \<mapsto> (c, Running))\<rparr>) t)"

text \<open>What is expected of the service: a pool that is read is there, and creating one that is there is refused; a change that
  is accepted is a new operation; asking for pools and operations changes nothing but what the running operations do meanwhile, and an
  operation that is reported as \<^verbatim>\<open>DONE\<close> runs no more.  Reading may fail at any time, and nothing is assumed of a refused change.\<close>

definition pool_api :: "'x gke_ops \<Rightarrow> (string \<Rightarrow> string \<Rightarrow> string \<Rightarrow> 'x \<Rightarrow> pool_service) \<Rightarrow> bool" where
  "pool_api A S \<longleftrightarrow> (\<forall>p z cl s.
     (\<forall>n. valid (\<lambda>x. S p z cl x = s) (gk_NodePools_Get A p z cl n)
        (\<lambda>_ x. progress s (S p z cl x) \<and> (quiet s \<longrightarrow> sv_pools s n \<noteq> None)) (\<lambda>_ x. progress s (S p z cl x))) \<and>
     (\<forall>np. valid (\<lambda>x. S p z cl x = s) (gk_NodePools_Create A p z cl np)
        (\<lambda>i x. accepted s i \<lparr>ch_pool = gp_Name np, ch_size = Some (gp_InitialNodeCount np)\<rparr> (S p z cl x) \<and> (quiet s \<longrightarrow> sv_pools s (gp_Name np) = None)) (\<lambda>_ _. True)) \<and>
     (\<forall>n. valid (\<lambda>x. S p z cl x = s) (gk_NodePools_Delete A p z cl n) (\<lambda>i x. accepted s i \<lparr>ch_pool = n, ch_size = None\<rparr> (S p z cl x)) (\<lambda>_ _. True)) \<and>
     (\<forall>n k. valid (\<lambda>x. S p z cl x = s) (gk_NodePools_SetSize A p z cl n k) (\<lambda>i x. accepted s i \<lparr>ch_pool = n, ch_size = Some k\<rparr> (S p z cl x)) (\<lambda>_ _. True)) \<and>
     (\<forall>i. valid (\<lambda>x. S p z cl x = s) (gk_Operations_Get A p z i)
        (\<lambda>st x. progress s (S p z cl x) \<and> (st = ''DONE'' \<longrightarrow> (\<nexists>c. sv_ops (S p z cl x) i = Some (c, Running)))) (\<lambda>_ x. progress s (S p z cl x))))"

lemma pool_apiD:
  assumes "pool_api A S"
  shows "valid (\<lambda>x. S p z cl x = s) (gk_NodePools_Get A p z cl n)
        (\<lambda>_ x. progress s (S p z cl x) \<and> (quiet s \<longrightarrow> sv_pools s n \<noteq> None)) (\<lambda>_ x. progress s (S p z cl x))"
    and "valid (\<lambda>x. S p z cl x = s) (gk_NodePools_Create A p z cl np)
        (\<lambda>i x. accepted s i \<lparr>ch_pool = gp_Name np, ch_size = Some (gp_InitialNodeCount np)\<rparr> (S p z cl x) \<and> (quiet s \<longrightarrow> sv_pools s (gp_Name np) = None)) (\<lambda>_ _. True)"
    and "valid (\<lambda>x. S p z cl x = s) (gk_NodePools_Delete A p z cl n) (\<lambda>i x. accepted s i \<lparr>ch_pool = n, ch_size = None\<rparr> (S p z cl x)) (\<lambda>_ _. True)"
    and "valid (\<lambda>x. S p z cl x = s) (gk_NodePools_SetSize A p z cl n k) (\<lambda>i x. accepted s i \<lparr>ch_pool = n, ch_size = Some k\<rparr> (S p z cl x)) (\<lambda>_ _. True)"
    and "valid (\<lambda>x. S p z cl x = s) (gk_Operations_Get A p z i)
        (\<lambda>st x. progress s (S p z cl x) \<and> (st = ''DONE'' \<longrightarrow> (\<nexists>c. sv_ops (S p z cl x) i = Some (c, Running)))) (\<lambda>_ x. progress s (S p z cl x))"
  using assms unfolding pool_api_def by blast+

text \<open>The end of the operation \<open>i\<close> with the change \<open>c\<close>, accepted by a service where none was running.\<close>

definition ended :: "pool_service \<Rightarrow> string \<Rightarrow> pool_change \<Rightarrow> pool_service \<Rightarrow> bool" where
  "ended s i c t \<longleftrightarrow> sv_ops s i = None \<and>
     (t = \<lparr>sv_pools = (sv_pools s)(ch_pool c := ch_size c), sv_ops = (sv_ops s)(i \<mapsto> (c, Completed))\<rparr> \<or>
      t = s\<lparr>sv_ops := (sv_ops s)(i \<mapsto> (c, Cancelled))\<rparr>)"

lemma quiet_step: "quiet s \<Longrightarrow> \<not> op_step s t"
  by (auto simp: quiet_def elim!: op_stepE)

lemma quiet_progress: "quiet s \<Longrightarrow> progress s t \<longleftrightarrow> t = s"
  using quiet_step by (blast elim: converse_rtranclpE)

lemma ended_quiet: "quiet s \<Longrightarrow> ended s i c t \<Longrightarrow> quiet t"
  by (auto simp: quiet_def ended_def split: if_splits)

definition underway :: "pool_service \<Rightarrow> string \<Rightarrow> pool_change \<Rightarrow> pool_service \<Rightarrow> bool" where
  "underway s i c t \<longleftrightarrow> sv_ops s i = None \<and> t = s\<lparr>sv_ops := (sv_ops s)(i \<mapsto> (c, Running))\<rparr> \<or> ended s i c t"

lemma underway_step:
  assumes "quiet s" "underway s i c t" "op_step t u"
  shows "underway s i c u"
proof (cases "ended s i c t")
  case True
  then show ?thesis using quiet_step [OF ended_quiet [OF assms(1)]] assms(3) by blast
next
  case False
  then have t: "sv_ops s i = None" "t = s\<lparr>sv_ops := (sv_ops s)(i \<mapsto> (c, Running))\<rparr>" using assms(2) by (auto simp: underway_def)
  from assms(3) show ?thesis unfolding t(2)
    by (cases rule: op_step.cases) (use assms(1) t(1) in \<open>auto simp: quiet_def underway_def ended_def split: if_splits\<close>)
qed

lemma underway_progress:
  assumes "quiet s" "underway s i c t" "progress t u"
  shows "underway s i c u"
  using assms(3,2) by (induction rule: rtranclp_induct) (auto intro: underway_step [OF assms(1)])

lemma accepted_underway:
  assumes "quiet s" "accepted s i c t"
  shows "underway s i c t"
proof -
  from assms(2) have "sv_ops s i = None" "progress (s\<lparr>sv_ops := (sv_ops s)(i \<mapsto> (c, Running))\<rparr>) t"
    using quiet_progress [OF assms(1)] by (auto simp: accepted_def)
  then show ?thesis using underway_progress [OF assms(1), of i c "s\<lparr>sv_ops := (sv_ops s)(i \<mapsto> (c, Running))\<rparr>"] by (simp add: underway_def)
qed

lemma underway_over: "underway s i c t \<Longrightarrow> (\<nexists>d. sv_ops t i = Some (d, Running)) \<Longrightarrow> ended s i c t"
  by (auto simp: underway_def)

abbreviation service_of :: "(string \<Rightarrow> string \<Rightarrow> string \<Rightarrow> 'x \<Rightarrow> pool_service) \<Rightarrow> Cluster \<Rightarrow> 'x \<Rightarrow> pool_service" where
  "service_of S c \<equiv> S (Project (c_CloudSpec c)) (Zone (c_CloudSpec c)) (c_Name c)"

text \<open>The cluster is \<open>c\<close>, and what the service holds for it satisfies \<open>Q\<close>.\<close>

definition in_service where
  "in_service S c Q w \<longleftrightarrow> Q (service_of S c (w_ext w)) \<and> w_Cluster w = c"

text \<open>What a machine set asks for.\<close>

definition wanted :: "MachineSet \<Rightarrow> bool \<Rightarrow> int option" where
  "wanted ng there = (case Replicas (ms_Spec ng) of None \<Rightarrow> None
     | Some n \<Rightarrow> if there \<and> (n = 0 \<or> DeletionTimestamp (ms_ObjectMeta ng) \<noteq> None) then None else Some (sint n))"

definition pool_wanted :: "pool_service \<Rightarrow> MachineSet \<Rightarrow> pool_change" where
  "pool_wanted s ng = \<lparr>ch_pool = ms_Name ng, ch_size = wanted ng (sv_pools s (ms_Name ng) \<noteq> None)\<rparr>"

lemma in_service_ext:
  assumes "\<And>s. Q s \<Longrightarrow> valid (\<lambda>x. service_of S c x = s) (call (Project (c_CloudSpec c)) (Zone (c_CloudSpec c)))
    (\<lambda>y x. R y (service_of S c x)) (\<lambda>_ x. F (service_of S c x))" "\<And>s. Q s \<Longrightarrow> F s"
  shows "valid (in_service S c Q) (in_zone G call) (\<lambda>y. in_service S c (R y)) (\<lambda>_. in_service S c F)"
proof (rule validI)
  fix w y w' assume w: "in_service S c Q w" and run: "in_zone G call w = (Inr y, w')"
  then obtain x where "call (Project (c_CloudSpec c)) (Zone (c_CloudSpec c)) (w_ext w) = (Inr y, x)" "w' = w\<lparr>w_ext := x\<rparr>"
    by (auto simp: in_service_def in_zone_def gk_conn_def prog_run split: prod.splits if_splits)
  then show "in_service S c (R y) w'"
    using w valid_Inr [OF assms(1) refl] by (auto simp: in_service_def)
next
  fix w e w' assume w: "in_service S c Q w" and run: "in_zone G call w = (Inl e, w')"
  obtain r x where call: "call (Project (c_CloudSpec c)) (Zone (c_CloudSpec c)) (w_ext w) = (r, x)" by fastforce
  then have "in_zone G call w = (if gk_connected G (w_ext w) then (r, w\<lparr>w_ext := x\<rparr>) else (Inl nil_deref, w))"
    using w by (simp add: in_service_def in_zone_def gk_conn_def prog_run)
  then show "in_service S c F w'"
    using w run call assms(2) valid_Inl [OF assms(1) refl] by (auto simp: in_service_def split: if_splits)
qed

lemma in_service_store: "invariant_of (in_service S c Q) (on_store m)"
  by (auto simp: valid_def in_service_def prog_run split: prod.splits sum.splits)

lemma valid_poll:
  assumes "invariant_of I cond" "valid I cond (\<lambda>b w. b \<longrightarrow> J w) (\<lambda>_ _. True)"
  shows "valid I (PollImmediate n cond) (\<lambda>_. J) (\<lambda>_ _. True)"
proof -
  have both: "valid I cond (\<lambda>b w. I w \<and> (b \<longrightarrow> J w)) (\<lambda>_ _. True)"
    using assms by (fastforce simp: valid_def split: prod.splits sum.splits)
  have "valid I (poll_loop k cond) (\<lambda>_. J) (\<lambda>_ _. True)" for k
  proof (induction k)
    case 0
    show ?case unfolding poll_loop.simps by (rule valid_bindp [OF both]) (auto simp: valid_def run_simps)
  next
    case (Suc k)
    have "valid (\<lambda>w. I w \<and> (b \<longrightarrow> J w)) (if b then ret () else poll_loop k cond) (\<lambda>_. J) (\<lambda>_ _. True)" for b
      using valid_weaken [OF Suc] by (cases b) (auto simp: valid_def run_simps)
    then show ?case unfolding poll_loop.simps by (rule valid_bindp [OF both])
  qed
  then show ?thesis by (simp add: PollImmediate_def del: poll_loop.simps)
qed

lemma valid_ok_or_false:
  assumes "valid I m (\<lambda>x w. f x \<longrightarrow> J w) (\<lambda>_ _. True)"
  shows "valid I (ok_or_false m (\<lambda>x. ret (f x))) (\<lambda>b w. b \<longrightarrow> J w) (\<lambda>_ _. True)"
  using assms by (fastforce simp: valid_def ok_or_false_def prog_run split: prod.splits sum.splits gerror.splits)

lemma valid_after_liftr:
  "(\<And>x. r = Inr x \<Longrightarrow> valid P (f x) Q (\<lambda>_ _. True)) \<Longrightarrow> valid P (bindp (liftr r) f) Q (\<lambda>_ _. True)"
  by (cases r) (simp_all add: bindp_liftr valid_def run_simps)

lemma valid_gk_conn: "valid P m Q (\<lambda>_ _. True) \<Longrightarrow> valid P (gk_conn G m) Q (\<lambda>_ _. True)"
  by (auto simp: valid_def gk_conn_def prog_run)

text \<open>Waiting for an operation: what is left has ended.\<close>

lemma wait_ended:
  assumes "pool_api (gk_api G) S" "quiet s"
  shows "valid (in_service S c (underway s i d)) (gk_waitForZoneOperation E G i) (\<lambda>_. in_service S c (ended s i d)) (\<lambda>_ _. True)"
proof -
  let ?I = "in_service S c (underway s i d)" and ?get = "in_zone G (\<lambda>p z. gk_Operations_Get (gk_api G) p z i)"
  have get: "valid ?I ?get (\<lambda>st. in_service S c (\<lambda>t. underway s i d t \<and> (st = ''DONE'' \<longrightarrow> ended s i d t))) (\<lambda>_. ?I)"
    by (rule in_service_ext, rule valid_weaken [OF pool_apiD(5) [OF assms(1)]])
      (auto intro: underway_progress [OF assms(2)] underway_over)
  have "invariant_of ?I (ok_or_false ?get (\<lambda>st. ret (st = ''DONE'')))"
    unfolding ok_or_false_def by (intro inv_rules valid_weaken [OF get]) (auto simp: in_service_def)
  moreover have "valid ?I (ok_or_false ?get (\<lambda>st. ret (st = ''DONE''))) (\<lambda>b w. b \<longrightarrow> in_service S c (ended s i d) w) (\<lambda>_ _. True)"
    by (rule valid_ok_or_false, rule valid_weaken [OF get]) (auto simp: in_service_def)
  ultimately have "valid ?I (PollImmediate n (ok_or_false ?get (\<lambda>st. ret (st = ''DONE'')))) (\<lambda>_. in_service S c (ended s i d)) (\<lambda>_ _. True)"
    for n by (rule valid_poll)
  then show ?thesis unfolding gk_waitForZoneOperation_def by (rule valid_gk_conn)
qed

text \<open>A change of one pool that is requested and waited for.\<close>

definition pool_changed :: "pool_service \<Rightarrow> pool_change \<Rightarrow> pool_service \<Rightarrow> bool" where
  "pool_changed s d t \<longleftrightarrow> quiet t \<and> (\<exists>i. ended s i d t)"

lemma change_and_wait:
  assumes "pool_api (gk_api G) S" "quiet s"
    and "valid (in_service S c (\<lambda>t. t = s)) m (\<lambda>i. in_service S c (underway s i d)) (\<lambda>_ _. True)"
  shows "valid (in_service S c (\<lambda>t. t = s)) (gk_and_wait E G m) (\<lambda>_. in_service S c (pool_changed s d)) (\<lambda>_ _. True)"
  unfolding gk_and_wait_def
proof (rule valid_bindp [OF assms(3)])
  show "valid (in_service S c (underway s i d)) (gk_waitForZoneOperation E G i) (\<lambda>_. in_service S c (pool_changed s d)) (\<lambda>_ _. True)" for i
    by (rule valid_weaken [OF wait_ended [OF assms(1,2)]]) (use ended_quiet [OF assms(2)] in \<open>auto simp: in_service_def pool_changed_def\<close>)
qed

lemma in_service_name:
  "valid (in_service S c Q) (f (c_Name c)) R F \<Longrightarrow> valid (in_service S c Q) (bindp (gets w_Name) f) R F"
  by (auto simp: valid_def in_service_def prog_run)

lemma gk_node_pool_Inr:
  "gk_node_pool G ng = Inr np \<Longrightarrow>
    \<exists>n. Replicas (ms_Spec ng) = Some n \<and> gp_Name np = ms_Name ng \<and> gp_InitialNodeCount np = sint n"
  by (auto simp: gk_node_pool_def replicas_of_def deref_opt_def rbind_def split: sum.splits option.splits)

lemma pool_changes:
  assumes "pool_api (gk_api G) S" "quiet s" "Replicas (ms_Spec ng) = Some n"
  shows "valid (in_service S c (\<lambda>t. t = s)) (gk_addNodePool G ng)
      (\<lambda>i. in_service S c (\<lambda>t. underway s i \<lparr>ch_pool = ms_Name ng, ch_size = Some (sint n)\<rparr> t \<and> sv_pools s (ms_Name ng) = None)) (\<lambda>_ _. True)"
    and "valid (in_service S c (\<lambda>t. t = s)) (deleteNoodPool G ng) (\<lambda>i. in_service S c (underway s i \<lparr>ch_pool = ms_Name ng, ch_size = None\<rparr>)) (\<lambda>_ _. True)"
    and "valid (in_service S c (\<lambda>t. t = s)) (gk_adjustNodePool G ng) (\<lambda>i. in_service S c (underway s i \<lparr>ch_pool = ms_Name ng, ch_size = Some (sint n)\<rparr>)) (\<lambda>_ _. True)"
proof -
  note api = pool_apiD [OF assms(1)] and accepted = accepted_underway [OF assms(2)]
  have "valid (in_service S c (\<lambda>t. t = s)) (in_zone G (\<lambda>p z. gk_NodePools_Create (gk_api G) p z (c_Name c) np))
      (\<lambda>i. in_service S c (\<lambda>t. underway s i \<lparr>ch_pool = ms_Name ng, ch_size = Some (sint n)\<rparr> t \<and> sv_pools s (ms_Name ng) = None)) (\<lambda>_. in_service S c (\<lambda>_. True))"
    if np: "gk_node_pool G ng = Inr np" for np
    by (rule in_service_ext, rule valid_weaken [OF api(2)]) (use gk_node_pool_Inr [OF np] assms(2,3) accepted in auto)
  then show "valid (in_service S c (\<lambda>t. t = s)) (gk_addNodePool G ng)
      (\<lambda>i. in_service S c (\<lambda>t. underway s i \<lparr>ch_pool = ms_Name ng, ch_size = Some (sint n)\<rparr> t \<and> sv_pools s (ms_Name ng) = None)) (\<lambda>_ _. True)"
    unfolding gk_addNodePool_def by (intro valid_gk_conn valid_after_liftr in_service_name) (rule valid_weaken, assumption?, auto)
  have del: "valid (in_service S c (\<lambda>t. t = s)) (in_zone G (\<lambda>p z. gk_NodePools_Delete (gk_api G) p z (c_Name c) (ms_Name ng)))
      (\<lambda>i. in_service S c (underway s i \<lparr>ch_pool = ms_Name ng, ch_size = None\<rparr>)) (\<lambda>_. in_service S c (\<lambda>_. True))"
    by (rule in_service_ext, rule valid_weaken [OF api(3)]) (use accepted in auto)
  show "valid (in_service S c (\<lambda>t. t = s)) (deleteNoodPool G ng) (\<lambda>i. in_service S c (underway s i \<lparr>ch_pool = ms_Name ng, ch_size = None\<rparr>)) (\<lambda>_ _. True)"
    unfolding deleteNoodPool_def by (rule in_service_name, rule valid_weaken [OF del]) auto
  have "valid (in_service S c (\<lambda>t. t = s)) (in_zone G (\<lambda>p z. gk_NodePools_SetSize (gk_api G) p z (c_Name c) (ms_Name ng) (sint n)))
      (\<lambda>i. in_service S c (underway s i \<lparr>ch_pool = ms_Name ng, ch_size = Some (sint n)\<rparr>)) (\<lambda>_. in_service S c (\<lambda>_. True))"
    by (rule in_service_ext, rule valid_weaken [OF api(4)]) (use accepted in auto)
  then show "valid (in_service S c (\<lambda>t. t = s)) (gk_adjustNodePool G ng) (\<lambda>i. in_service S c (underway s i \<lparr>ch_pool = ms_Name ng, ch_size = Some (sint n)\<rparr>)) (\<lambda>_ _. True)"
    unfolding gk_adjustNodePool_def replicas_of_def deref_opt_def assms(3) option.case bindp_liftr
    by (intro valid_gk_conn in_service_name) (erule valid_weaken, auto)
qed

lemma valid_never: "valid P m (\<lambda>_ _. False) F \<Longrightarrow> valid P (bindp m f) Q F"
  by (rule valid_bindp) (auto simp: valid_def)

lemma ng_Apply_pools:
  assumes api: "pool_api (gk_api G) S" and quiet: "quiet s"
  shows "valid (in_service S c (\<lambda>t. t = s)) (gk_ng_Apply E G ng) (\<lambda>_. in_service S c (pool_changed s (pool_wanted s ng))) (\<lambda>_ _. True)"
proof (cases "Replicas (ms_Spec ng)")
  case None
  then obtain e1 e2 where e: "to_delete ng = Inl e1" "gk_node_pool G ng = Inl e2"
    using gk_node_pool_Inr [of G ng]
    by (cases "gk_node_pool G ng") (auto simp: to_delete_def replicas_of_def deref_opt_def rbind_def)
  have add: "valid (\<lambda>_. True) (gk_and_wait E G (gk_addNodePool G ng)) (\<lambda>_ _. False) (\<lambda>_ _. True)"
    by (simp add: gk_and_wait_def gk_addNodePool_def gk_conn_def e valid_def prog_run)
  have stop: "valid (\<lambda>_. True) (liftr (Inl e1)) (\<lambda>_ _. False) (\<lambda>_ _. True)" by (simp add: valid_def prog_run)
  have "valid (\<lambda>_. True) (gk_ng_Apply E G ng) (\<lambda>_. in_service S c (pool_changed s (pool_wanted s ng))) (\<lambda>_ _. True)"
    unfolding gk_ng_Apply_def Let_def e by (intro valid_last valid_if valid_never [OF add] valid_never [OF stop])
  then show ?thesis by (rule valid_weaken) auto
next
  case (Some n)
  let ?I = "in_service S c (\<lambda>t. t = s)" and ?J = "in_service S c (pool_changed s (pool_wanted s ng))"
  let ?size = "bindp (liftr (scaled ng)) (\<lambda>ng'. bindp (gets w_Name) (\<lambda>cl.
      bindp (on_store (so_machineset_UpdateStatus (e_store E) cl ng')) (\<lambda>_. ret ())))"
  have size: "valid ?J ?size (\<lambda>_. ?J) (\<lambda>_ _. True)"
    by (rule valid_weaken [where P = ?J and Q = "\<lambda>_. ?J" and E = "\<lambda>_. ?J"], intro inv_rules in_service_store) auto
  have gone: "to_delete ng = Inr (n = 0 \<or> DeletionTimestamp (ms_ObjectMeta ng) \<noteq> None)"
    by (simp add: Some to_delete_def replicas_of_def deref_opt_def rbind_def)
  note change = change_and_wait [OF api quiet]
  have add: "valid ?I (bindp (gk_and_wait E G (gk_addNodePool G ng)) (\<lambda>_. ?size)) (\<lambda>_. ?J) (\<lambda>_ _. True)"
  proof (cases "sv_pools s (ms_Name ng)")
    case None
    then have "pool_wanted s ng = \<lparr>ch_pool = ms_Name ng, ch_size = Some (sint n)\<rparr>" by (simp add: pool_wanted_def wanted_def Some)
    then have "valid ?I (gk_addNodePool G ng) (\<lambda>i. in_service S c (underway s i (pool_wanted s ng))) (\<lambda>_ _. True)"
      by (intro valid_weaken [OF pool_changes(1) [where c = c, OF api quiet Some]]) (auto simp: in_service_def)
    from valid_bindp [OF change [OF this] size] show ?thesis .
  next
    case (Some k)
    have "valid ?I (gk_addNodePool G ng) (\<lambda>_ _. False) (\<lambda>_ _. True)"
      by (rule valid_weaken [OF pool_changes(1) [where c = c, OF api quiet \<open>Replicas (ms_Spec ng) = Some n\<close>]]) (use Some in \<open>auto simp: in_service_def\<close>)
    then show ?thesis unfolding gk_and_wait_def bindp_assoc by (rule valid_never)
  qed
  have branch: "valid ?I (if \<not> is_ok np then bindp (gk_and_wait E G (gk_addNodePool G ng)) (\<lambda>_. ?size)
      else bindp (liftr (to_delete ng)) (\<lambda>gone.
        if gone then bindp (gk_and_wait E G (deleteNoodPool G ng)) (\<lambda>_. on_store (so_machineset_Delete (e_store E) (c_Name c) (ms_Name ng)))
        else bindp (gk_and_wait E G (gk_adjustNodePool G ng)) (\<lambda>_. ?size))) (\<lambda>_. ?J) (\<lambda>_ _. True)"
    if "is_ok np \<longrightarrow> sv_pools s (ms_Name ng) \<noteq> None" for np :: "unit res"
  proof (cases "is_ok np")
    case True
    have d: "pool_wanted s ng = \<lparr>ch_pool = ms_Name ng, ch_size = if n = 0 \<or> DeletionTimestamp (ms_ObjectMeta ng) \<noteq> None then None else Some (sint n)\<rparr>"
      using that True by (auto simp: pool_wanted_def wanted_def Some)
    have del: "valid ?J (on_store m) (\<lambda>_. ?J) (\<lambda>_ _. True)" for m :: "('b, unit) prog"
      by (rule valid_weaken [OF in_service_store]) auto
    show ?thesis
    proof (cases "n = 0 \<or> DeletionTimestamp (ms_ObjectMeta ng) \<noteq> None")
      case go: True
      then have "valid ?I (deleteNoodPool G ng) (\<lambda>i. in_service S c (underway s i (pool_wanted s ng))) (\<lambda>_ _. True)"
        using pool_changes(2) [OF api quiet Some, of c] d by simp
      from valid_bindp [OF change [OF this] del] go True show ?thesis by (simp add: gone bindp_liftr)
    next
      case stay: False
      then have "valid ?I (gk_adjustNodePool G ng) (\<lambda>i. in_service S c (underway s i (pool_wanted s ng))) (\<lambda>_ _. True)"
        using pool_changes(3) [OF api quiet Some, of c] d by simp
      from valid_bindp [OF change [OF this] size] stay True show ?thesis by (simp add: gone bindp_liftr)
    qed
  qed (use add in simp)
  have get: "valid ?I (in_zone G (\<lambda>p z. gk_NodePools_Get (gk_api G) p z (c_Name c) (ms_Name ng)))
      (\<lambda>_. in_service S c (\<lambda>t. t = s \<and> sv_pools s (ms_Name ng) \<noteq> None)) (\<lambda>_. ?I)"
    by (rule in_service_ext, rule valid_weaken [OF pool_apiD(1) [OF api]]) (auto simp: quiet_progress quiet)
  have look: "valid ?I (attempt (in_zone G (\<lambda>p z. gk_NodePools_Get (gk_api G) p z (c_Name c) (ms_Name ng))))
      (\<lambda>np w. ?I w \<and> (is_ok np \<longrightarrow> sv_pools s (ms_Name ng) \<noteq> None)) (\<lambda>_ _. True)"
  proof (rule validI)
    fix w np w' assume w: "?I w" and run: "attempt (in_zone G (\<lambda>p z. gk_NodePools_Get (gk_api G) p z (c_Name c) (ms_Name ng))) w = (Inr np, w')"
    then have "in_zone G (\<lambda>p z. gk_NodePools_Get (gk_api G) p z (c_Name c) (ms_Name ng)) w = (np, w')"
      by (auto simp: attempt_def split: prod.splits sum.splits gerror.splits)
    then show "?I w' \<and> (is_ok np \<longrightarrow> sv_pools s (ms_Name ng) \<noteq> None)"
      using valid_Inr [OF get w] valid_Inl [OF get w] by (cases np) (auto simp: is_ok_def in_service_def)
  qed simp
  show ?thesis unfolding gk_ng_Apply_def Let_def
    by (intro in_service_name valid_bindp [OF look] valid_assume branch)
qed

text \<open>What scaling leaves: no operation runs, those of before are as they were, a pool of no machine set is untouched, and for each
  machine set there is a new operation with the change it asks for, that has completed and left the pool as it is asked for, or
  was cancelled and left it as it was.\<close>

definition pools_scaled :: "pool_service \<Rightarrow> MachineSet list \<Rightarrow> pool_service \<Rightarrow> bool" where
  "pools_scaled s ngs t \<longleftrightarrow> quiet t \<and>
     (\<forall>i. sv_ops s i \<noteq> None \<longrightarrow> sv_ops t i = sv_ops s i) \<and>
     (\<forall>n. n \<notin> ms_Name ` set ngs \<longrightarrow> sv_pools t n = sv_pools s n) \<and>
     (\<forall>ng \<in> set ngs. \<exists>i st. sv_ops s i = None \<and> sv_ops t i = Some (pool_wanted s ng, st) \<and>
        (st = Completed \<and> sv_pools t (ms_Name ng) = wanted ng (sv_pools s (ms_Name ng) \<noteq> None) \<or>
         st = Cancelled \<and> sv_pools t (ms_Name ng) = sv_pools s (ms_Name ng)))"

lemma pools_scaled_Cons:
  assumes first: "pool_changed s (pool_wanted s ng) u" and rest: "pools_scaled u ngs t" and new: "ms_Name ng \<notin> ms_Name ` set ngs"
  shows "pools_scaled s (ng # ngs) t"
proof -
  from first obtain i where i: "sv_ops s i = None" and u: "ended s i (pool_wanted s ng) u" by (auto simp: pool_changed_def ended_def)
  then obtain st where ops: "sv_ops u = (sv_ops s)(i \<mapsto> (pool_wanted s ng, st))"
    and pools: "st = Completed \<and> sv_pools u = (sv_pools s)(ms_Name ng := wanted ng (sv_pools s (ms_Name ng) \<noteq> None)) \<or>
      st = Cancelled \<and> sv_pools u = sv_pools s"
    by (auto simp: ended_def pool_wanted_def)
  have other: "sv_pools u n = sv_pools s n" if "n \<noteq> ms_Name ng" for n using pools that by auto
  have kept: "sv_ops t j = sv_ops u j" if "sv_ops u j \<noteq> None" for j using rest that by (auto simp: pools_scaled_def)
  have old: "sv_ops t j = sv_ops s j" if "sv_ops s j \<noteq> None" for j
  proof -
    have "j \<noteq> i" using that i by auto
    then have "sv_ops u j = sv_ops s j" using ops by simp
    then show ?thesis using kept that by simp
  qed
  have one: "sv_ops t i = Some (pool_wanted s ng, st)" using kept [of i] ops by simp
  have head: "sv_pools t (ms_Name ng) = sv_pools u (ms_Name ng)" using rest new by (simp add: pools_scaled_def)
  have tail: "\<exists>j st. sv_ops s j = None \<and> sv_ops t j = Some (pool_wanted s m, st) \<and>
        (st = Completed \<and> sv_pools t (ms_Name m) = wanted m (sv_pools s (ms_Name m) \<noteq> None) \<or>
         st = Cancelled \<and> sv_pools t (ms_Name m) = sv_pools s (ms_Name m))" if m: "m \<in> set ngs" for m
  proof -
    have same: "sv_pools u (ms_Name m) = sv_pools s (ms_Name m)" using m new by (intro other) (metis image_eqI)
    obtain j st' where "sv_ops u j = None" and rest': "sv_ops t j = Some (pool_wanted u m, st')"
      "st' = Completed \<and> sv_pools t (ms_Name m) = wanted m (sv_pools u (ms_Name m) \<noteq> None) \<or>
       st' = Cancelled \<and> sv_pools t (ms_Name m) = sv_pools u (ms_Name m)"
      using rest m unfolding pools_scaled_def by blast
    then have "sv_ops s j = None" using ops by (simp split: if_splits)
    then show ?thesis using rest' same by (auto simp: pool_wanted_def)
  qed
  have "\<exists>j st. sv_ops s j = None \<and> sv_ops t j = Some (pool_wanted s ng, st) \<and>
        (st = Completed \<and> sv_pools t (ms_Name ng) = wanted ng (sv_pools s (ms_Name ng) \<noteq> None) \<or>
         st = Cancelled \<and> sv_pools t (ms_Name ng) = sv_pools s (ms_Name ng))"
    using i one head pools by auto
  moreover have "quiet t" "\<And>n. n \<notin> ms_Name ` set (ng # ngs) \<Longrightarrow> sv_pools t n = sv_pools s n"
    using rest other by (auto simp: pools_scaled_def)
  ultimately show ?thesis using old tail unfolding pools_scaled_def by (simp only: set_simps ball_simps) blast
qed

lemma in_service_each:
  "(\<And>u. R u \<Longrightarrow> valid (in_service S c (\<lambda>t. t = u)) m Q F) \<Longrightarrow> valid (in_service S c R) m Q F"
  by (fastforce simp: valid_def in_service_def)

lemma scale_loop:
  assumes api: "pool_api (gk_api G) S" and "quiet s" "distinct (map ms_Name ngs)"
  shows "valid (in_service S c (\<lambda>t. t = s)) (for_each ngs (gk_ng_Apply E G)) (\<lambda>_. in_service S c (pools_scaled s ngs)) (\<lambda>_ _. True)"
  using assms(2,3)
proof (induction ngs arbitrary: s)
  case Nil
  then show ?case by (simp add: valid_def prog_run in_service_def pools_scaled_def)
next
  case (Cons ng ngs)
  have "valid (in_service S c (pool_changed s (pool_wanted s ng))) (for_each ngs (gk_ng_Apply E G))
      (\<lambda>_. in_service S c (pools_scaled s (ng # ngs))) (\<lambda>_ _. True)"
  proof (rule in_service_each)
    fix u assume u: "pool_changed s (pool_wanted s ng) u"
    then have "quiet u" by (simp add: pool_changed_def)
    from Cons.IH [OF this] Cons.prems(2) have "valid (in_service S c (\<lambda>t. t = u)) (for_each ngs (gk_ng_Apply E G))
        (\<lambda>_. in_service S c (pools_scaled u ngs)) (\<lambda>_ _. True)" by simp
    then show "valid (in_service S c (\<lambda>t. t = u)) (for_each ngs (gk_ng_Apply E G))
        (\<lambda>_. in_service S c (pools_scaled s (ng # ngs))) (\<lambda>_ _. True)"
      using pools_scaled_Cons [OF u] Cons.prems(2) by (elim valid_weaken) (auto simp: in_service_def)
  qed
  from valid_bindp [OF ng_Apply_pools [OF api Cons.prems(1)] this] show ?case by simp
qed

text \<open>C11. Scaling a Google cluster: \<^verbatim>\<open>ApplyScale\<close> on machine sets with distinct names, at a moment when no operation
  on the pools of the cluster runs, succeeds only if it has requested for every set the change of its pool that the set asks for, and waited
  for the end of the operation: the pool is of the size of the set, or removed if the set has no replicas or a deletion mark, unless the
  service cancelled the operation, which the code does not tell from its completion; then the pool is as it was.  Nothing runs any more, and pools without a
  machine set are not touched.  A set that is to go and has no pool is given one.\<close>

theorem gke_scale:
  assumes "pool_api (gk_api G) S" and "quiet (service_of S (w_Cluster w) (w_ext w))"
    and "so_machineset_List (e_store E) (w_Name w) (w_store w) = (Inr ngs, s')" "distinct (map ms_Name ngs)"
    and "gk_ApplyScale E G w = (Inr (), w')"
  shows "pools_scaled (service_of S (w_Cluster w) (w_ext w)) ngs (service_of S (w_Cluster w) (w_ext w'))"
proof -
  let ?c = "w_Cluster w" and ?w = "w\<lparr>w_store := s'\<rparr>"
  have start: "in_service S ?c (\<lambda>t. t = service_of S ?c (w_ext w)) ?w" by (simp add: in_service_def)
  obtain v where v: "for_each ngs (gk_ng_Apply E G) ?w = (Inr (), v)" "store_cluster (so_cluster_Update (e_store E)) v = (Inr (), w')"
    using assms(3,5) by (auto simp: gk_ApplyScale_def prog_run split: prod.splits sum.splits)
  have "w_ext w' = w_ext v" using v(2) by (auto simp: store_cluster_def upd_cluster_def prog_run split: prod.splits sum.splits)
  then show ?thesis using valid_Inr [OF scale_loop [OF assms(1,2,4)] start v(1)] by (simp add: in_service_def)
qed

text \<open>A service with the pools of one cluster, and machine sets that ask for a new pool, a size and a removal.  Its operations, in the order of
  acceptance, are named by strings of that length; the one that is asked for is completed.\<close>

type_synonym demo_service = "(string \<rightharpoonup> int) \<times> (pool_change \<times> op_status) list"

definition op_name :: "nat \<Rightarrow> string" where "op_name k = replicate k CHR ''x''"

definition demo_pools :: "demo_service \<Rightarrow> pool_service" where
  "demo_pools x = \<lparr>sv_pools = fst x, sv_ops = (\<lambda>i. if i = op_name (length i) \<and> length i < length (snd x) then Some (snd x ! length i) else None)\<rparr>"

definition demo_accept :: "pool_change \<Rightarrow> (demo_service, string) prog" where
  "demo_accept c = (\<lambda>(P, os). (Inr (op_name (length os)), (P, os @ [(c, Running)])))"

definition demo_ask :: "string \<Rightarrow> (demo_service, string) prog" where
  "demo_ask i = (\<lambda>(P, os). case sv_ops (demo_pools (P, os)) i of
     None \<Rightarrow> (Inl (Err ''notFound''), (P, os))
   | Some (c, Running) \<Rightarrow> (Inr ''DONE'', (P(ch_pool c := ch_size c), os[length i := (c, Completed)]))
   | Some _ \<Rightarrow> (Inr ''DONE'', (P, os)))"

definition demo_gke :: "demo_service gke_env" where
  "demo_gke = \<lparr>gk_api = \<lparr>gk_Clusters_List = (\<lambda>_ _. ret ()), gk_Operations_Get = (\<lambda>_ _. demo_ask),
      gk_Networks_Insert = (\<lambda>_ _ _. ret ()), gk_Networks_Get = (\<lambda>_ _. ret ''10.0.0.0/8''),
      gk_Clusters_Get = (\<lambda>_ _ _. fail (Err ''notFound'')), gk_Clusters_Create = (\<lambda>_ _ _. ret ''op''),
      gk_Clusters_Delete = (\<lambda>_ _ _. ret ''op''),
      gk_NodePools_Get = (\<lambda>_ _ _ n x. ((if fst x n = None then Inl (Err ''notFound'') else Inr ()), x)),
      gk_NodePools_Create = (\<lambda>_ _ _ np x. if fst x (gp_Name np) = None
        then demo_accept \<lparr>ch_pool = gp_Name np, ch_size = Some (gp_InitialNodeCount np)\<rparr> x else (Inl (Err ''alreadyExists''), x)),
      gk_NodePools_Delete = (\<lambda>_ _ _ n. demo_accept \<lparr>ch_pool = n, ch_size = None\<rparr>),
      gk_NodePools_SetSize = (\<lambda>_ _ _ n k. demo_accept \<lparr>ch_pool = n, ch_size = Some k\<rparr>), gk_NewForConfig = (\<lambda>_ _ _. ret ())\<rparr>,
    gk_cred_IsValid = (\<lambda>_. (True, None)), gk_ProjectID = (\<lambda>_. ''p''), gk_NewServices = (\<lambda>_. Inr ()),
    gk_codecs = \<lparr>gk_ClusterSpec = \<lparr>marshal = (\<lambda>_. Inr ''''), unmarshal = (\<lambda>_. Inr zero_GCEClusterSpec)\<rparr>,
      gk_ClusterStatus = \<lparr>marshal = (\<lambda>_. Inr ''''), unmarshal = (\<lambda>_. Inr zero_GCEClusterStatus)\<rparr>,
      gk_MachineSpec = \<lparr>marshal = (\<lambda>_. Inr ''''),
        unmarshal = (\<lambda>_. Inr (zero_GCEMachineSpec\<lparr>Disks := [\<lparr>DiskSizeGb = 100, DiskType = ''''\<rparr>]\<rparr>))\<rparr>\<rparr>,
    gk_base64 = Inr, gk_pem = plain_pem, gk_GeneratePassword = ret ''s'', gk_connected = (\<lambda>_. True), gk_set_connected = (\<lambda>_ P. P)\<rparr>"

definition sized_set :: "string \<Rightarrow> int32 \<Rightarrow> MachineSet" where
  "sized_set n k = zero_MachineSet\<lparr>ms_ObjectMeta := zero_ObjectMeta\<lparr>Name := n\<rparr>,
     ms_Spec := (ms_Spec zero_MachineSet)\<lparr>Replicas := Some k, TemplateSpec := zero_MachineSpec\<lparr>ProviderSpec := Some ''''\<rparr>\<rparr>\<rparr>"

definition sized_sets :: "MachineSet list" where
  "sized_sets = [sized_set ''a'' 3, sized_set ''b'' 2, sized_set ''c'' 0]"

definition scale_env :: "(os, demo_service) env" where
  "scale_env = demo_env\<lparr>e_store := (vfs_ops demo_codecs demo_store)\<lparr>so_machineset_List := (\<lambda>_. ret sized_sets),
     so_machineset_UpdateStatus := (\<lambda>_ m. ret m), so_machineset_Delete := (\<lambda>_ _. ret ()), so_cluster_Update := ret\<rparr>\<rparr>"

definition scale_world :: "(os, demo_service) world" where
  "scale_world = \<lparr>w_Cluster = demo_cluster, w_Certs = None, w_CloudManager = Some ''gke'', w_AdminClient = True,
     w_store = w_store demo_world, w_ext = ([''b'' \<mapsto> 5, ''c'' \<mapsto> 4, ''d'' \<mapsto> 9], [])\<rparr>"

lemma op_name_length [simp]: "length (op_name k) = k"
  by (simp add: op_name_def)

lemma demo_accepted: "demo_accept c x = (Inr i, y) \<Longrightarrow> accepted (demo_pools x) i c (demo_pools y)"
proof -
  assume run: "demo_accept c x = (Inr i, y)"
  obtain P os where x: "x = (P, os)" by (cases x)
  have i: "i = op_name (length os)" and y: "y = (P, os @ [(c, Running)])" using run by (simp_all add: demo_accept_def x)
  have "demo_pools y = (demo_pools x)\<lparr>sv_ops := (sv_ops (demo_pools x))(i \<mapsto> (c, Running))\<rparr>"
    by (auto simp: demo_pools_def x y i fun_eq_iff nth_append less_Suc_eq)
  moreover have "sv_ops (demo_pools x) i = None" by (simp add: demo_pools_def x i)
  ultimately show ?thesis unfolding accepted_def by (intro exI [of _ "demo_pools x"]) simp
qed

lemma demo_asked:
  assumes "demo_ask i x = (r, y)"
  shows "progress (demo_pools x) (demo_pools y) \<and> (is_ok r \<longrightarrow> (\<nexists>c. sv_ops (demo_pools y) i = Some (c, Running)))"
proof -
  obtain P os where x: "x = (P, os)" by (cases x)
  show ?thesis
  proof (cases "sv_ops (demo_pools x) i")
    case None
    then show ?thesis using assms by (simp add: demo_ask_def x is_ok_def)
  next
    case (Some e)
    obtain c st where e: "e = (c, st)" by (cases e)
    have i: "i = op_name (length i)" "length i < length os" using Some by (auto simp: demo_pools_def x split: if_splits)
    show ?thesis
    proof (cases st)
      case Running
      then have y: "y = (P(ch_pool c := ch_size c), os[length i := (c, Completed)])" using assms Some by (simp add: demo_ask_def x e)
      have "demo_pools y = \<lparr>sv_pools = (sv_pools (demo_pools x))(ch_pool c := ch_size c), sv_ops = (sv_ops (demo_pools x))(i \<mapsto> (c, Completed))\<rparr>"
        using i by (auto simp: demo_pools_def x y fun_eq_iff nth_list_update)
      then show ?thesis using op_step.completes [of "demo_pools x" i c] Some e Running by auto
    qed (use assms Some e in \<open>auto simp: demo_ask_def x\<close>)
  qed
qed

lemma demo_pool_api: "pool_api (gk_api demo_gke) (\<lambda>_ _ _. demo_pools)"
proof -
  have pools: "sv_pools (demo_pools x) = fst x" for x by (simp add: demo_pools_def)
  have err: "\<not> is_ok (Inl e)" for e :: gerror by (simp add: is_ok_def)
  have ok: "is_ok (Inr r)" for r :: string by (simp add: is_ok_def)
  show ?thesis unfolding pool_api_def
    by (intro allI conjI; rule validI)
      (auto simp: demo_gke_def pools split: if_splits dest: demo_accepted demo_asked [THEN conjunct1] demo_asked [THEN conjunct2, THEN mp, OF _ ok])
qed

lemma sized_set_fields:
  "ms_Name (sized_set n k) = n" "Replicas (ms_Spec (sized_set n k)) = Some k" "DeletionTimestamp (ms_ObjectMeta (sized_set n k)) = None"
  "ProviderSpec (TemplateSpec (ms_Spec (sized_set n k))) = Some ''''"
  by (simp_all add: sized_set_def zero_ObjectMeta_def)

lemma demo_gke_wait:
  assumes "w_ext w = (P, os @ [(d, Running)])"
  shows "gk_waitForZoneOperation E demo_gke (op_name (length os)) w =
    (Inr (), w\<lparr>w_ext := (P(ch_pool d := ch_size d), os @ [(d, Completed)])\<rparr>)"
proof -
  have ask: "demo_ask (op_name (length os)) (P, os @ [(d, Running)]) = (Inr ''DONE'', (P(ch_pool d := ch_size d), os @ [(d, Completed)]))"
    by (simp add: demo_ask_def demo_pools_def)
  have "ok_or_false (in_zone demo_gke (\<lambda>p z. gk_Operations_Get (gk_api demo_gke) p z (op_name (length os)))) (\<lambda>st. ret (st = ''DONE'')) w =
      (Inr True, w\<lparr>w_ext := (P(ch_pool d := ch_size d), os @ [(d, Completed)])\<rparr>)"
    using assms by (simp add: ok_or_false_def in_zone_def gk_conn_def demo_gke_def ask prog_run)
  then have "PollImmediate (poll_ticks (e_sys E)) (ok_or_false (in_zone demo_gke (\<lambda>p z. gk_Operations_Get (gk_api demo_gke) p z (op_name (length os))))
      (\<lambda>st. ret (st = ''DONE''))) w = (Inr (), w\<lparr>w_ext := (P(ch_pool d := ch_size d), os @ [(d, Completed)])\<rparr>)"
    by (rule poll_at_once)
  moreover have "gk_connected demo_gke x" for x by (simp add: demo_gke_def)
  ultimately show ?thesis by (simp add: gk_waitForZoneOperation_def gk_conn_def run_bindp run_simps)
qed

lemma demo_ng:
  assumes "w_ext w = (P, os)" "z = (if P n \<noteq> None \<and> k = 0 then None else Some (sint k))"
  shows "gk_ng_Apply scale_env demo_gke (sized_set n k) w =
    (Inr (), w\<lparr>w_ext := (P(n := z), os @ [(\<lparr>ch_pool = n, ch_size = z\<rparr>, Completed)])\<rparr>)"
proof -
  have go: "to_delete (sized_set n k) = Inr (k = 0)" "scaled (sized_set n k) \<noteq> Inl e" for e
    by (simp_all add: to_delete_def scaled_def replicas_of_def deref_opt_def rbind_def sized_set_fields)
  then obtain ng' where sc: "scaled (sized_set n k) = Inr ng'" by (cases "scaled (sized_set n k)") auto
  have ops: "gk_NodePools_Get (gk_api demo_gke) p y cl n (P, os) = ((if P n = None then Inl (Err ''notFound'') else Inr ()), (P, os))"
    "gk_NodePools_Delete (gk_api demo_gke) p y cl n (P, os) = (Inr (op_name (length os)), (P, os @ [(\<lparr>ch_pool = n, ch_size = None\<rparr>, Running)]))"
    "gk_NodePools_SetSize (gk_api demo_gke) p y cl n i (P, os) = (Inr (op_name (length os)), (P, os @ [(\<lparr>ch_pool = n, ch_size = Some i\<rparr>, Running)]))"
    "P (gp_Name np) = None \<Longrightarrow> gk_NodePools_Create (gk_api demo_gke) p y cl np (P, os) =
      (Inr (op_name (length os)), (P, os @ [(\<lparr>ch_pool = gp_Name np, ch_size = Some (gp_InitialNodeCount np)\<rparr>, Running)]))"
    "gk_connected demo_gke x" for p y cl i np x
    by (simp_all add: demo_gke_def demo_accept_def)
  have store: "so_machineset_UpdateStatus (e_store scale_env) cl m = ret m" "so_machineset_Delete (e_store scale_env) cl n = ret ()" for cl m
    by (simp_all add: scale_env_def)
  obtain np where np: "gk_node_pool demo_gke (sized_set n k) = Inr np" "gp_Name np = n" "gp_InitialNodeCount np = sint k"
    by (simp add: gk_node_pool_def demo_gke_def gce_MachineConfig_def index_at_def replicas_of_def deref_opt_def rbind_def sized_set_fields)
  show ?thesis
    using assms by (cases "P n") (simp_all add: gk_ng_Apply_def Let_def in_zone_def gk_conn_def gk_and_wait_def gk_addNodePool_def
      deleteNoodPool_def gk_adjustNodePool_def go sc ops store np replicas_of_def deref_opt_def is_ok_def sized_set_fields demo_gke_wait prog_run)
qed

lemma scale_runs: "\<exists>w'. gk_ApplyScale scale_env demo_gke scale_world = (Inr (), w') \<and>
    map (fst (w_ext w')) [''a'', ''b'', ''c'', ''d''] = [Some 3, Some 2, None, Some 9]"
proof -
  have store: "so_machineset_List (e_store scale_env) cl = ret sized_sets" "so_cluster_Update (e_store scale_env) = ret" for cl
    by (simp_all add: scale_env_def fun_eq_iff)
  let ?w = "\<lambda>x. scale_world\<lparr>w_ext := x\<rparr>"
  have step: "gk_ng_Apply scale_env demo_gke (sized_set n k) (?w (P, os)) =
      (Inr (), ?w (P(n := if P n \<noteq> None \<and> k = 0 then None else Some (sint k)),
        os @ [(\<lparr>ch_pool = n, ch_size = if P n \<noteq> None \<and> k = 0 then None else Some (sint k)\<rparr>, Completed)]))" for n k P os
    using demo_ng [of "?w (P, os)" P os _ n k] by simp
  have w: "scale_world = ?w ([''b'' \<mapsto> 5, ''c'' \<mapsto> 4, ''d'' \<mapsto> 9], [])" by (simp add: scale_world_def)
  let ?x = "([''d'' \<mapsto> 9, ''a'' \<mapsto> 3, ''b'' \<mapsto> 2], [(\<lparr>ch_pool = ''a'', ch_size = Some 3\<rparr>, Completed),
    (\<lparr>ch_pool = ''b'', ch_size = Some 2\<rparr>, Completed), (\<lparr>ch_pool = ''c'', ch_size = None\<rparr>, Completed)]) :: demo_service"
  have loop: "for_each sized_sets (gk_ng_Apply scale_env demo_gke) scale_world = (Inr (), ?w ?x)"
    by (subst w) (simp add: sized_sets_def run_bindp run_simps step)
  have on: "on_store (ret sized_sets) scale_world = (Inr sized_sets, scale_world)"
    and cl: "store_cluster ret u = (Inr (), u\<lparr>w_Cluster := assign_Cluster (w_Cluster u)\<rparr>)" for u :: "(os, demo_service) world"
    by (simp_all add: on_store_def store_cluster_def upd_cluster_def run_bindp run_simps)
  have "gk_ApplyScale scale_env demo_gke scale_world = (Inr (), (?w ?x)\<lparr>w_Cluster := assign_Cluster (w_Cluster (?w ?x))\<rparr>)"
    unfolding gk_ApplyScale_def run_bindp run_simps store on loop cl prod.case sum.case by (rule refl)
  then show ?thesis by simp
qed

theorem gke_scale_witness:
  "\<exists>w'. gk_ApplyScale scale_env demo_gke scale_world = (Inr (), w') \<and> pools_scaled (demo_pools (w_ext scale_world)) sized_sets (demo_pools (w_ext w')) \<and>
    fst (w_ext w') ''a'' = Some 3 \<and> fst (w_ext w') ''b'' = Some 2 \<and> fst (w_ext w') ''c'' = None \<and> fst (w_ext w') ''d'' = Some 9"
proof -
  obtain w' where run: "gk_ApplyScale scale_env demo_gke scale_world = (Inr (), w')"
    and x: "map (fst (w_ext w')) [''a'', ''b'', ''c'', ''d''] = [Some 3, Some 2, None, Some 9]"
    using scale_runs by (elim exE conjE) (rule that)
  have sets: "so_machineset_List (e_store scale_env) (w_Name scale_world) (w_store scale_world) = (Inr sized_sets, w_store scale_world)"
    by (simp add: scale_env_def prog_run)
  have names: "distinct (map ms_Name sized_sets)" by (simp add: sized_sets_def sized_set_fields)
  have quiet: "quiet (demo_pools (w_ext scale_world))" by (simp add: quiet_def demo_pools_def scale_world_def)
  show ?thesis using run gke_scale [OF demo_pool_api quiet sets names run] x by simp
qed

section \<open>Removal of a machine set of a DigitalOcean cluster\<close>

lemma machineset_status_missing:
  assumes good: "machinesets_good J s st" and n: "legal_name (ms_Name m)"
    and gone: "json_view J (scope_dir s ''machineset'') st (ms_Name m) = None"
  shows "\<exists>e. machineSetFileStore_UpdateStatus J s (Some m) st = (Inl e, st)"
proof -
  have good': "vfs_scope s" "json_good J (scope_dir s ''machineset'') st" using good by (auto simp: machinesets_good_def)
  note at = machinesets_at [OF good'(1) n]
  show ?thesis
    using gone legal_nonempty [OF n] scope_cluster_nonempty [OF good'(1)]
    by (simp add: machineSetFileStore_UpdateStatus_def Let_def update_shape [OF good'(2) n at])
qed

lemma remove_then_status:
  assumes good: "machinesets_good J s st" and n: "legal_name (ms_Name m)"
  shows "\<exists>e st'. bindp (machineSetFileStore_Delete s (ms_Name m)) (\<lambda>_. machineSetFileStore_UpdateStatus J s (Some m)) st = (Inl e, st') \<and>
    json_view J (scope_dir s ''machineset'') st' (ms_Name m) = None"
proof (cases "json_view J (scope_dir s ''machineset'') st (ms_Name m)")
  case None
  then show ?thesis using machinesets.delete_missing [OF good n None] by (auto simp: prog_run)
next
  case (Some y)
  obtain st' where st': "machineSetFileStore_Delete s (ms_Name m) st = (Inr (), st')"
    "machinesets_good J s st'" "json_view J (scope_dir s ''machineset'') st' (ms_Name m) = None"
    using machinesets.delete_existing [OF good n Some] by auto
  then show ?thesis using machineset_status_missing [OF st'(2) n st'(3)] by (auto simp: prog_run)
qed

text \<open>The calls on the pools leave the store and the name of the cluster alone.\<close>

lemma dk_pool_calls:
  "invariant_of (\<lambda>w. w_store w = st \<and> w_Name w = cl) (dk_getNodePool D ng)"
  "invariant_of (\<lambda>w. w_store w = st \<and> w_Name w = cl) (dk_deleteNodePool D ng)"
proof -
  have [inv_rules]: "invariant_of (\<lambda>w. w_store w = st \<and> w_Name w = cl) (on_ext m)" for m
    by (auto simp: valid_def prog_run split: prod.splits sum.splits)
  show "invariant_of (\<lambda>w. w_store w = st \<and> w_Name w = cl) (dk_getNodePool D ng)"
    "invariant_of (\<lambda>w. w_store w = st \<and> w_Name w = cl) (dk_deleteNodePool D ng)"
    unfolding dk_getNodePool_def dk_deleteNodePool_def getNodePoolIDFromName_def dk_ClusterID_def by (intro inv_rules)+
qed

text \<open>A call for a pool gives the pool or an error, never \<^verbatim>\<open>nil\<close> and no error.\<close>

definition pool_or_error :: "'x dokube_ops \<Rightarrow> bool" where
  "pool_or_error A \<longleftrightarrow> (\<forall>c i x. fst (Kubernetes_GetNodePool A c i x) \<noteq> Inr None)"

lemma dk_getNodePool_found:
  assumes "pool_or_error (dk_api D)" "dk_getNodePool D ng w = (Inr np, w')"
  shows "np \<noteq> None"
proof -
  have law: "Kubernetes_GetNodePool (dk_api D) c i x \<noteq> (Inr None, y)" for c i x y
    using assms(1) unfolding pool_or_error_def by (metis fst_conv)
  show ?thesis
  proof
    assume "np = None"
    with assms(2) show False
      by (auto simp: dk_getNodePool_def dk_conn_def dk_ClusterID_def prog_run law split: prod.splits sum.splits if_splits)
  qed
qed

text \<open>C38. A machine set of a managed DigitalOcean cluster that is to go makes scaling fail, always: over the file store the
  node group manager removes the pool and then the machine set, and then asks the store to update the status of that
  machine set, which is an error.  If the removal of the pool succeeds the machine set is gone nevertheless.\<close>

theorem dokube_removal_fails:
  fixes E :: "(os, 'x) env" and w :: "(os, 'x) world"
  assumes store: "e_store E = vfs_ops K s" and api: "pool_or_error (dk_api D)"
    and good: "machinesets_good (k_MachineSet K) (FileStore_scope s (w_Name w)) (w_store w)"
    and name: "legal_name (ms_Name ng)" and go: "to_delete ng = Inr True"
  shows "\<exists>e w'. dk_ng_Apply E D ng w = (Inl e, w') \<and>
    (\<forall>np w1 w2. dk_getNodePool D ng w = (Inr np, w1) \<and> dk_deleteNodePool D ng w1 = (Inr (), w2) \<longrightarrow>
      json_view (k_MachineSet K) (scope_dir (FileStore_scope s (w_Name w)) ''machineset'') (w_store w') (ms_Name ng) = None)"
proof -
  let ?J = "k_MachineSet K" and ?s = "FileStore_scope s (w_Name w)"
  obtain ng' where ng': "scaled ng = Inr ng'" "ms_Name ng' = ms_Name ng"
    using go by (auto simp: to_delete_def scaled_def rbind_def split: sum.splits)
  show ?thesis
  proof (cases "dk_getNodePool D ng w")
    case (Pair r w1)
    show ?thesis
    proof (cases r)
      case (Inl e)
      then show ?thesis using Pair by (auto simp: dk_ng_Apply_def prog_run)
    next
      case (Inr np)
      then have np: "np \<noteq> None" using dk_getNodePool_found [OF api] Pair by blast
      have w1: "w_store w1 = w_store w" "w_Name w1 = w_Name w"
        using valid_Inr [OF dk_pool_calls(1) _ Pair [unfolded Inr], of "w_store w" "w_Name w"] by auto
      show ?thesis
      proof (cases "dk_deleteNodePool D ng w1")
        case d: (Pair q w2)
        show ?thesis
        proof (cases q)
          case (Inl e)
          then show ?thesis using Pair Inr np d by (auto simp: dk_ng_Apply_def prog_run go)
        next
          case q: (Inr u)
          have w2: "w_store w2 = w_store w" "w_Name w2 = w_Name w"
            using valid_Inr [OF dk_pool_calls(2) _ d [unfolded q], of "w_store w" "w_Name w"] w1 by auto
          have "dk_ng_Apply E D ng w = (case bindp (machineSetFileStore_Delete ?s (ms_Name ng'))
              (\<lambda>_. machineSetFileStore_UpdateStatus ?J ?s (Some ng')) (w_store w) of
                (Inl e, st') \<Rightarrow> (Inl e, w2\<lparr>w_store := st'\<rparr>) | (Inr _, st') \<Rightarrow> (Inr (), w2\<lparr>w_store := st'\<rparr>))"
            using Pair Inr np d q w2
            by (auto simp: dk_ng_Apply_def prog_run go ng' store vfs_ops_def split: prod.splits sum.splits)
          then show ?thesis using remove_then_status [OF good, of ng'] name ng'(2) by auto
        qed
      qed
    qed
  qed
qed

definition demo_dokube :: "unit dokube_env" where
  "demo_dokube = offline_dk\<lparr>dk_api := (dk_api offline_dk)\<lparr>
     Kubernetes_ListNodePools := (\<lambda>_. ret [\<lparr>knp_ID = ''1'', knp_Name = ''a'', knp_Size = ''s'', knp_Count = 3\<rparr>]),
     Kubernetes_GetNodePool := (\<lambda>_ _. ret (Some \<lparr>knp_ID = ''1'', knp_Name = ''a'', knp_Size = ''s'', knp_Count = 3\<rparr>)),
     Kubernetes_DeleteNodePool := (\<lambda>_ _. ret ())\<rparr>\<rparr>"

definition dokube_world :: "(os, unit) world" where
  "dokube_world = \<lparr>w_Cluster = upd_CloudSpec (\<lambda>s. s\<lparr>Dokube := Some \<lparr>ClusterID = ''k''\<rparr>\<rparr>) (named_cluster ''c1''), w_Certs = None,
     w_CloudManager = Some ''dokube'', w_AdminClient = True,
     w_store = \<lparr>cwd = ''/'', fs = [(''/p/clusters/c1/machineset/a.json'', File ''0;-'')]\<rparr>, w_ext = ()\<rparr>"

theorem dokube_removal_fails_witness:
  "\<exists>e w'. dk_ng_Apply demo_env demo_dokube (sized_set ''a'' 0) dokube_world = (Inl e, w') \<and>
    json_view machineset_codec (scope_dir (FileStore_scope demo_store ''c1'') ''machineset'') (w_store w') ''a'' = None"
proof -
  let ?ng = "sized_set ''a'' 0"
  have E: "e_store demo_env = vfs_ops demo_codecs demo_store" "k_MachineSet demo_codecs = machineset_codec"
    by (simp_all add: demo_env_def demo_codecs_def)
  have dir: "scope_dir (FileStore_scope demo_store ''c1'') ''machineset'' = [''p'', ''clusters'', ''c1'', ''machineset'']"
    by (simp add: scope_dir_def demo_defs demo_paths)
  have scope: "vfs_scope (FileStore_scope demo_store ''c1'')" using demo_vfs(2) by (simp add: demo_scope_def)
  have good: "machinesets_good machineset_codec (FileStore_scope demo_store ''c1'') (w_store dokube_world)"
    unfolding machinesets_good_def json_good_def dir using scope
    by (auto simp: plain_seg_def dirs_ok_def dokube_world_def ancestors_def path_segs_def abs_path_def is_file_def
        json_path_def machineset_codec_def)
  have name: "w_Name dokube_world = ''c1''" by (simp add: dokube_world_def cluster_upd)
  have api: "pool_or_error (dk_api demo_dokube)" by (simp add: pool_or_error_def demo_dokube_def run_simps)
  have go: "to_delete ?ng = Inr True" "legal_name (ms_Name ?ng)"
    by (simp_all add: to_delete_def replicas_of_def deref_opt_def rbind_def sized_set_fields legal_name_def)
  have cid: "dk_ClusterID dokube_world = (Inr ''k'', dokube_world)"
    by (simp add: dk_ClusterID_def deref_opt_def prog_run) (simp add: dokube_world_def cluster_upd prog_run)
  have same: "dokube_world\<lparr>w_ext := ()\<rparr> = dokube_world" by (simp add: dokube_world_def)
  have calls: "dk_getNodePool demo_dokube ?ng dokube_world = (Inr (Some \<lparr>knp_ID = ''1'', knp_Name = ''a'', knp_Size = ''s'', knp_Count = 3\<rparr>), dokube_world)"
    "dk_deleteNodePool demo_dokube ?ng dokube_world = (Inr (), dokube_world)"
    by (simp_all add: dk_getNodePool_def dk_deleteNodePool_def getNodePoolIDFromName_def dk_conn_def cid same
        demo_dokube_def offline_dk_def sized_set_fields prog_run)
  show ?thesis
    using dokube_removal_fails [OF E(1) api, of dokube_world ?ng] good go calls by (auto simp: E(2) name sized_set_fields)
qed

end
