(* ===== verification/Aws_Types.thy ===== *)
theory Aws_Types
  imports Startup Store_Vfs "HOL-Library.Finite_Map" "HOL-Library.Multiset"
begin

text \<open>
  The objects of the AWS provider, \<^verbatim>\<open>apis/v1alpha1/aws\<close>: resource tags (\<^verbatim>\<open>tags.go\<close>), subnets and ingress rules
  (\<^verbatim>\<open>types.go\<close>), the configurations and status of clusters and machines with their encoding (\<^verbatim>\<open>util.go\<close>).

  A map of tags is a finite map, or absent where the code may see a \<^verbatim>\<open>nil\<close> map.  A slice of pointers to
  ingress rules is a list of addresses into a heap of rules, since \<^verbatim>\<open>Equals\<close> sorts the fields of both rules in
  place.
\<close>

section \<open>Tags (tags.go)\<close>

type_synonym tags = "(string, string) fmap"

definition NameKubernetesClusterPrefix :: string where "NameKubernetesClusterPrefix = ''kubernetes.io/cluster/''"
definition NameAWSProviderPrefix :: string where "NameAWSProviderPrefix = ''sigs.k8s.io/cluster-api-provider-aws/''"
definition NameAWSProviderManaged :: string where "NameAWSProviderManaged = NameAWSProviderPrefix @ ''managed''"
definition NameAWSClusterAPIRole :: string where "NameAWSClusterAPIRole = NameAWSProviderPrefix @ ''role''"
definition ResourceLifecycleOwned :: string where "ResourceLifecycleOwned = ''owned''"

text \<open>Reading a \<^verbatim>\<open>nil\<close> map finds nothing.\<close>

definition tag_of :: "tags option \<Rightarrow> string \<Rightarrow> string option" where
  "tag_of m k = (case m of None \<Rightarrow> None | Some t \<Rightarrow> fmlookup t k)"

text \<open>\<^verbatim>\<open>reflect.DeepEqual\<close> tells a \<^verbatim>\<open>nil\<close> map from an empty one.\<close>

definition Map_Equals :: "tags option \<Rightarrow> tags option \<Rightarrow> bool" where
  "Map_Equals m other = (m = other)"

definition HasOwned :: "tags option \<Rightarrow> string \<Rightarrow> bool" where
  "HasOwned m name = (tag_of m (filepath_Join [NameKubernetesClusterPrefix, name]) = Some ResourceLifecycleOwned)"

definition HasManaged :: "tags option \<Rightarrow> bool" where
  "HasManaged m = (tag_of m NameAWSProviderManaged = Some ''true'')"

definition GetRole :: "tags option \<Rightarrow> string" where
  "GetRole m = (case tag_of m NameAWSClusterAPIRole of None \<Rightarrow> '''' | Some r \<Rightarrow> r)"

definition Map_Difference :: "tags option \<Rightarrow> tags option \<Rightarrow> tags" where
  "Map_Difference m other = (case m of None \<Rightarrow> fmempty
     | Some t \<Rightarrow> fmfilter (\<lambda>k. \<not> (tag_of other k \<noteq> None \<and> fmlookup t k = tag_of other k)) t)"

definition ClusterKey :: "string \<Rightarrow> string" where
  "ClusterKey name = NameKubernetesClusterPrefix @ name"

record BuildParams =
  Lifecycle :: string
  bp_ClusterName :: string
  ResourceID :: string
  bp_Name :: "string option"
  bp_Role :: "string option"
  Additional :: "tags option"

definition Build :: "BuildParams \<Rightarrow> tags" where
  "Build params =
     (let t0 = (case Additional params of None \<Rightarrow> fmempty | Some t \<Rightarrow> t);
          t1 = fmupd (ClusterKey (bp_ClusterName params)) (Lifecycle params) t0;
          t2 = (if Lifecycle params = ResourceLifecycleOwned then fmupd NameAWSProviderManaged ''true'' t1 else t1);
          t3 = (case bp_Role params of None \<Rightarrow> t2 | Some r \<Rightarrow> fmupd NameAWSClusterAPIRole r t2)
      in case bp_Name params of None \<Rightarrow> t3 | Some n \<Rightarrow> fmupd ''Name'' n t3)"

text \<open>
  The client of EC2 is a call \<open>CreateTags\<close>; in which order Go ranges over the entries of a map is left to
  \<open>ord\<close>.
\<close>

definition aws_Apply ::
  "(string list \<Rightarrow> (string \<times> string) list \<Rightarrow> ('x, unit) prog) \<Rightarrow> (tags \<Rightarrow> (string \<times> string) list) \<Rightarrow> BuildParams \<Rightarrow> ('x, unit) prog" where
  "aws_Apply CreateTags ord params =
     pwrap (''failed to tag resource \"'' @ ResourceID params @ ''\" in cluster \"'' @ bp_ClusterName params @ ''\"'')
       (CreateTags [ResourceID params] (ord (Build params)))"

definition Ensure ::
  "(string list \<Rightarrow> (string \<times> string) list \<Rightarrow> ('x, unit) prog) \<Rightarrow> (tags \<Rightarrow> (string \<times> string) list) \<Rightarrow>
     tags option \<Rightarrow> BuildParams \<Rightarrow> ('x, unit) prog" where
  "Ensure CreateTags ord current params =
     (let want = Build params in
      if \<not> Map_Equals current (Some want) then aws_Apply CreateTags ord params else ret ())"

section \<open>Subnets and the network (types.go, clusterproviderconfig.go)\<close>

record VPCSpec =
  vpc_ID :: string
  vpc_CidrBlock :: string
  InternetGatewayID :: "string option"
  vpc_Tags :: "tags option"

record SubnetSpec =
  sn_ID :: string
  sn_CidrBlock :: string
  AvailabilityZone :: string
  IsPublic :: bool
  RouteTableID :: "string option"
  NatGatewayID :: "string option"
  sn_Tags :: "tags option"

record NetworkSpec =
  VPC :: VPCSpec
  Subnets :: "SubnetSpec list"

definition VPCSpec_String :: "VPCSpec \<Rightarrow> string" where
  "VPCSpec_String v = ''id='' @ vpc_ID v"

definition VPCSpec_IsProvided :: "VPCSpec \<Rightarrow> bool" where
  "VPCSpec_IsProvided v \<longleftrightarrow> vpc_ID v \<noteq> '''' \<and> \<not> HasManaged (vpc_Tags v)"

definition SubnetSpec_String :: "SubnetSpec \<Rightarrow> string" where
  "SubnetSpec_String s = ''id='' @ sn_ID s @ ''/az='' @ AvailabilityZone s @ ''/public='' @ (if IsPublic s then ''true'' else ''false'')"

definition Subnets_ToMap :: "SubnetSpec list \<Rightarrow> (string, SubnetSpec) fmap" where
  "Subnets_ToMap s = foldl (\<lambda>res x. fmupd (sn_ID x) x res) fmempty s"

definition Subnets_FindByID :: "SubnetSpec list \<Rightarrow> string \<Rightarrow> SubnetSpec option" where
  "Subnets_FindByID s i = find (\<lambda>x. sn_ID x = i) s"

definition FilterPrivate :: "SubnetSpec list \<Rightarrow> SubnetSpec list" where
  "FilterPrivate s = filter (\<lambda>x. \<not> IsPublic x) s"

definition FilterPublic :: "SubnetSpec list \<Rightarrow> SubnetSpec list" where
  "FilterPublic s = filter IsPublic s"

section \<open>Ingress rules (types.go)\<close>

record IngressRule =
  Description :: string
  Protocol :: string
  FromPort :: int
  ToPort :: int
  CidrBlocks :: "string list"
  SourceSecurityGroupIDs :: "string list"

definition IngressRule_String :: "IngressRule \<Rightarrow> string" where
  "IngressRule_String i = ''protocol='' @ Protocol i @ ''/range=['' @ show_int (FromPort i) @ ''-'' @ show_int (ToPort i) @
     '']/description='' @ Description i"

type_synonym rules = "nat \<Rightarrow> IngressRule"

definition sort_cidrs :: "nat \<Rightarrow> rules \<Rightarrow> rules" where
  "sort_cidrs p h = h(p := (h p)\<lparr>CidrBlocks := sort (CidrBlocks (h p))\<rparr>)"

definition sort_groups :: "nat \<Rightarrow> rules \<Rightarrow> rules" where
  "sort_groups p h = h(p := (h p)\<lparr>SourceSecurityGroupIDs := sort (SourceSecurityGroupIDs (h p))\<rparr>)"

text \<open>\<^verbatim>\<open>Equals\<close> on two pointers: the answer, and the heap with the sorted fields.\<close>

definition Equals :: "nat \<Rightarrow> nat \<Rightarrow> rules \<Rightarrow> bool \<times> rules" where
  "Equals i j h =
     (if length (CidrBlocks (h i)) \<noteq> length (CidrBlocks (h j)) then (False, h)
      else let h1 = sort_cidrs j (sort_cidrs i h) in
      if CidrBlocks (h1 i) \<noteq> CidrBlocks (h1 j) then (False, h1)
      else if length (SourceSecurityGroupIDs (h1 i)) \<noteq> length (SourceSecurityGroupIDs (h1 j)) then (False, h1)
      else let h2 = sort_groups j (sort_groups i h1) in
      if SourceSecurityGroupIDs (h2 i) \<noteq> SourceSecurityGroupIDs (h2 j) then (False, h2)
      else (Description (h2 i) = Description (h2 j) \<and> FromPort (h2 i) = FromPort (h2 j) \<and> ToPort (h2 i) = ToPort (h2 j) \<and>
            Protocol (h2 i) = Protocol (h2 j), h2))"

text \<open>The inner loop of \<^verbatim>\<open>Difference\<close>, which stops at the first equal rule, and the outer one.\<close>

fun rule_found :: "nat \<Rightarrow> nat list \<Rightarrow> rules \<Rightarrow> bool \<times> rules" where
  "rule_found x [] h = (False, h)"
| "rule_found x (y # ys) h = (case Equals x y h of (e, h') \<Rightarrow> if e then (True, h') else rule_found x ys h')"

fun IngressRules_Difference :: "nat list \<Rightarrow> nat list \<Rightarrow> rules \<Rightarrow> nat list \<times> rules" where
  "IngressRules_Difference [] os h = ([], h)"
| "IngressRules_Difference (x # xs) os h =
     (case rule_found x os h of (found, h') \<Rightarrow>
      case IngressRules_Difference xs os h' of (out, h'') \<Rightarrow> (if found then out else x # out, h''))"

section \<open>Configurations and status\<close>

record KeyPair =
  kp_Cert :: bytes
  kp_Key :: bytes

definition HasCertAndKey :: "KeyPair \<Rightarrow> bool" where
  "HasCertAndKey kp \<longleftrightarrow> length (kp_Cert kp) \<noteq> 0 \<and> length (kp_Key kp) \<noteq> 0"

record AWSClusterProviderSpec =
  acs_TypeMeta :: TypeMeta
  acs_ObjectMeta :: ObjectMeta
  acs_NetworkSpec :: NetworkSpec
  acs_Region :: string
  acs_SSHKeyName :: string
  CAKeyPair :: KeyPair
  EtcdCAKeyPair :: KeyPair
  FrontProxyCAKeyPair :: KeyPair
  SAKeyPair :: KeyPair
  acs_ClusterConfiguration :: "ClusterConfiguration option"

record AWSResourceReference =
  ref_ID :: "string option"
  ref_ARN :: "string option"
  ref_Filters :: "(string \<times> string list) list"

record AWSMachineProviderSpec =
  ams_TypeMeta :: TypeMeta
  ams_ObjectMeta :: ObjectMeta
  AMI :: AWSResourceReference
  ImageLookupOrg :: string
  InstanceType :: string
  AdditionalTags :: "tags option"
  IAMInstanceProfile :: string
  PublicIP :: "bool option"
  AdditionalSecurityGroups :: "AWSResourceReference list"
  ams_Subnet :: "AWSResourceReference option"
  KeyName :: string
  RootDeviceSize :: int
  ams_Join :: "JoinConfiguration option"
  ams_Init :: "InitConfiguration option"

record AWSMachineProviderStatus =
  amst_TypeMeta :: TypeMeta
  amst_ObjectMeta :: ObjectMeta
  amst_InstanceID :: "string option"
  amst_InstanceState :: "string option"
  amst_Conditions :: "(string \<times> string \<times> time \<times> time \<times> string \<times> string) list"

definition zero_KeyPair :: KeyPair where "zero_KeyPair = \<lparr>kp_Cert = '''', kp_Key = ''''\<rparr>"
definition zero_Reference :: AWSResourceReference where "zero_Reference = \<lparr>ref_ID = None, ref_ARN = None, ref_Filters = []\<rparr>"

definition zero_NetworkSpec :: NetworkSpec where
  "zero_NetworkSpec = \<lparr>VPC = \<lparr>vpc_ID = '''', vpc_CidrBlock = '''', InternetGatewayID = None, vpc_Tags = None\<rparr>, Subnets = []\<rparr>"

definition zero_AWSClusterProviderSpec :: AWSClusterProviderSpec where
  "zero_AWSClusterProviderSpec = \<lparr>acs_TypeMeta = zero_TypeMeta, acs_ObjectMeta = zero_ObjectMeta, acs_NetworkSpec = zero_NetworkSpec,
     acs_Region = '''', acs_SSHKeyName = '''', CAKeyPair = zero_KeyPair, EtcdCAKeyPair = zero_KeyPair, FrontProxyCAKeyPair = zero_KeyPair,
     SAKeyPair = zero_KeyPair, acs_ClusterConfiguration = None\<rparr>"

definition zero_AWSMachineProviderSpec :: AWSMachineProviderSpec where
  "zero_AWSMachineProviderSpec = \<lparr>ams_TypeMeta = zero_TypeMeta, ams_ObjectMeta = zero_ObjectMeta, AMI = zero_Reference,
     ImageLookupOrg = '''', InstanceType = '''', AdditionalTags = None, IAMInstanceProfile = '''', PublicIP = None,
     AdditionalSecurityGroups = [], ams_Subnet = None, KeyName = '''', RootDeviceSize = 0, ams_Join = None, ams_Init = None\<rparr>"

definition zero_AWSMachineProviderStatus :: AWSMachineProviderStatus where
  "zero_AWSMachineProviderStatus = \<lparr>amst_TypeMeta = zero_TypeMeta, amst_ObjectMeta = zero_ObjectMeta, amst_InstanceID = None,
     amst_InstanceState = None, amst_Conditions = []\<rparr>"

section \<open>Encoding (util.go)\<close>

record aws_codecs =
  ak_ClusterSpec :: "AWSClusterProviderSpec codec"
  ak_MachineSpec :: "AWSMachineProviderSpec codec"
  ak_MachineStatus :: "AWSMachineProviderStatus codec"

definition aws_ClusterConfig :: "aws_codecs \<Rightarrow> bytes option \<Rightarrow> AWSClusterProviderSpec res" where
  "aws_ClusterConfig K providerConfig = (case providerConfig of
     None \<Rightarrow> Inr zero_AWSClusterProviderSpec | Some raw \<Rightarrow> unmarshal (ak_ClusterSpec K) raw)"

definition aws_MachineConfig :: "aws_codecs \<Rightarrow> bytes option \<Rightarrow> AWSMachineProviderSpec res" where
  "aws_MachineConfig K providerConfig = (case providerConfig of
     None \<Rightarrow> Inr zero_AWSMachineProviderSpec | Some raw \<Rightarrow> unmarshal (ak_MachineSpec K) raw)"

definition aws_MachineStatus :: "aws_codecs \<Rightarrow> bytes option \<Rightarrow> AWSMachineProviderStatus res" where
  "aws_MachineStatus K extension = (case extension of
     None \<Rightarrow> Inr zero_AWSMachineProviderStatus | Some raw \<Rightarrow> unmarshal (ak_MachineStatus K) raw)"

text \<open>A \<^verbatim>\<open>nil\<close> object is encoded as an extension without bytes.\<close>

definition EncodeMachineStatus :: "aws_codecs \<Rightarrow> AWSMachineProviderStatus option \<Rightarrow> bytes res" where
  "EncodeMachineStatus K status = (case status of None \<Rightarrow> Inr '''' | Some s \<Rightarrow> marshal (ak_MachineStatus K) s)"

definition EncodeMachineSpec :: "aws_codecs \<Rightarrow> AWSMachineProviderSpec option \<Rightarrow> bytes res" where
  "EncodeMachineSpec K spec = (case spec of None \<Rightarrow> Inr '''' | Some s \<Rightarrow> marshal (ak_MachineSpec K) s)"

definition EncodeClusterSpec :: "aws_codecs \<Rightarrow> AWSClusterProviderSpec option \<Rightarrow> bytes res" where
  "EncodeClusterSpec K spec = (case spec of None \<Rightarrow> Inr '''' | Some s \<Rightarrow> marshal (ak_ClusterSpec K) s)"

end
