(* ===== verification/Aws.thy ===== *)
theory Aws
  imports Aws_Types
begin

text \<open>
  The AWS provider, \<^verbatim>\<open>cloud/providers/aws\<close>: the connector to the cloud (\<^verbatim>\<open>cloud.go\<close>) with the namer
  (\<^verbatim>\<open>namer.go\<close>).  The clients of EC2, ELB, IAM and STS are a record of operations on the external state; an
  answer is reduced to the parts the code reads.  A call that fails answers with an empty output beside the
  error, and where the code reads that output first, so does the model.
\<close>

section \<open>The API clients\<close>

type_synonym filters = "(string \<times> string list) list"

record PolicyPage =
  pp_Names :: "string list"
  pp_IsTruncated :: bool
  pp_Marker :: "string option"

record NatGateway =
  nat_ID :: string
  nat_State :: string

record RouteTable =
  rt_ID :: string
  rt_Associations :: "(string \<times> bool) list"

record IpPermission =
  IpProtocol :: string
  ip_FromPort :: int
  ip_ToPort :: int
  IpRanges :: "(string \<times> string) list"
  UserIdGroupPairs :: "(string \<times> string) list"

record SecurityGroup =
  sg_ID :: string
  sg_Ingress :: "IpPermission list"
  sg_Egress :: "IpPermission list"

record Ec2Instance =
  ec_ID :: string
  ec_State :: string
  ec_RootDeviceName :: string
  ec_Devices :: "(string \<times> string option) list"

record RunInstancesInput =
  ri_InstanceType :: string
  ri_SubnetId :: string
  ri_ImageId :: string
  ri_IamInstanceProfile :: "string option"
  ri_KeyName :: string
  ri_UserData :: string
  ri_SecurityGroupIds :: "string list"
  ri_Tags :: "(string \<times> string) list"

record LoadBalancerInput =
  lbi_Name :: string
  lbi_Subnets :: "string list"
  lbi_SecurityGroups :: "string list"
  lbi_Scheme :: string
  lbi_Listeners :: "(string \<times> int \<times> string \<times> int) list"
  lbi_Tags :: "(string \<times> string) list"

record HealthCheckInput =
  hci_Target :: string
  hci_Interval :: int
  hci_Timeout :: int
  hci_Healthy :: int
  hci_Unhealthy :: int

text \<open>Sessions, STS and IAM.\<close>

record 'x iam_ops =
  NewSession :: "string \<Rightarrow> string \<Rightarrow> string \<Rightarrow> ('x, unit) prog"
  SharedSession :: "('x, unit) prog"
  GetCallerIdentity :: "('x, string) prog"
  ListPolicies :: "string option \<Rightarrow> ('x, PolicyPage) prog"
  GetInstanceProfile :: "string \<Rightarrow> ('x, bool) prog"
  CreateRole :: "string \<Rightarrow> string \<Rightarrow> ('x, unit) prog"
  PutRolePolicy :: "string \<Rightarrow> string \<Rightarrow> string \<Rightarrow> ('x, unit) prog"
  CreateInstanceProfile :: "string \<Rightarrow> ('x, unit) prog"
  AddRoleToInstanceProfile :: "string \<Rightarrow> string \<Rightarrow> ('x, unit) prog"
  RemoveRoleFromInstanceProfile :: "string \<Rightarrow> string \<Rightarrow> ('x, unit) prog"
  DeleteRolePolicy :: "string \<Rightarrow> string \<Rightarrow> ('x, unit) prog"
  DeleteRole :: "string \<Rightarrow> ('x, unit) prog"
  DeleteInstanceProfile :: "string \<Rightarrow> ('x, unit) prog"

text \<open>EC2: the network.\<close>

record 'x net_ops =
  DescribeVpcs :: "filters \<Rightarrow> ('x, string list) prog"
  CreateVpc :: "string \<Rightarrow> ('x, string) prog"
  WaitUntilVpcAvailable :: "string \<Rightarrow> ('x, unit) prog"
  DeleteVpc :: "string \<Rightarrow> ('x, unit) prog"
  DescribeSubnets :: "filters \<Rightarrow> ('x, string list) prog"
  CreateSubnet :: "string \<Rightarrow> string \<Rightarrow> string \<Rightarrow> ('x, string) prog"
  WaitUntilSubnetAvailable :: "string \<Rightarrow> ('x, unit) prog"
  ModifySubnetAttribute :: "string \<Rightarrow> ('x, unit) prog"
  DeleteSubnet :: "string \<Rightarrow> ('x, unit) prog"
  DescribeInternetGateways :: "filters \<Rightarrow> ('x, string list) prog"
  CreateInternetGateway :: "('x, string) prog"
  AttachInternetGateway :: "string \<Rightarrow> string \<Rightarrow> ('x, unit) prog"
  DetachInternetGateway :: "string \<Rightarrow> string \<Rightarrow> ('x, unit) prog"
  DeleteInternetGateway :: "string \<Rightarrow> ('x, unit) prog"
  DescribeNatGateways :: "filters \<Rightarrow> string list \<Rightarrow> ('x, NatGateway list) prog"
  CreateNatGateway :: "string \<Rightarrow> string \<Rightarrow> ('x, string) prog"
  WaitUntilNatGatewayAvailable :: "string \<Rightarrow> ('x, unit) prog"
  DeleteNatGateway :: "string \<Rightarrow> ('x, unit) prog"
  DescribeRouteTables :: "filters \<Rightarrow> ('x, RouteTable list) prog"
  CreateRouteTable :: "string \<Rightarrow> ('x, string) prog"
  CreateRoute :: "string \<Rightarrow> string \<Rightarrow> string \<Rightarrow> ('x, unit) prog"
  AssociateRouteTable :: "string \<Rightarrow> string \<Rightarrow> ('x, unit) prog"
  DisassociateRouteTable :: "string \<Rightarrow> ('x, unit) prog"
  DeleteRouteTable :: "string \<Rightarrow> ('x, unit) prog"

text \<open>EC2: keys, tags, images, security groups, instances, addresses.\<close>

record 'x ec2_ops =
  DescribeImages :: "string \<Rightarrow> filters \<Rightarrow> ('x, string list) prog"
  DescribeVolumes :: "string option \<Rightarrow> ('x, int option list) prog"
  DescribeKeyPairs :: "string list \<Rightarrow> ('x, string list) prog"
  ImportKeyPair :: "string \<Rightarrow> bytes \<Rightarrow> ('x, unit) prog"
  DeleteKeyPair :: "string \<Rightarrow> ('x, unit) prog"
  CreateTags :: "string list \<Rightarrow> (string \<times> string) list \<Rightarrow> ('x, unit) prog"
  DescribeSecurityGroups :: "filters \<Rightarrow> ('x, SecurityGroup list) prog"
  CreateSecurityGroup :: "string \<Rightarrow> string \<Rightarrow> string \<Rightarrow> ('x, string) prog"
  AuthorizeSecurityGroupIngress :: "string \<Rightarrow> IpPermission list \<Rightarrow> ('x, unit) prog"
  RevokeSecurityGroupIngress :: "string \<Rightarrow> IpPermission list \<Rightarrow> ('x, unit) prog"
  RevokeSecurityGroupEgress :: "string \<Rightarrow> IpPermission list \<Rightarrow> ('x, unit) prog"
  DeleteSecurityGroup :: "string \<Rightarrow> ('x, unit) prog"
  DescribeInstances :: "filters \<Rightarrow> string list \<Rightarrow> ('x, Ec2Instance list list) prog"
  RunInstances :: "RunInstancesInput \<Rightarrow> ('x, Ec2Instance list) prog"
  TerminateInstances :: "string list \<Rightarrow> ('x, unit) prog"
  WaitUntilInstanceTerminated :: "string list \<Rightarrow> ('x, unit) prog"
  AllocateAddress :: "('x, string \<times> string) prog"
  DescribeAddresses :: "filters \<Rightarrow> ('x, string list) prog"
  ReleaseAddress :: "string \<Rightarrow> ('x, unit) prog"

text \<open>ELB.\<close>

record 'x elb_ops =
  DescribeLoadBalancers :: "string list \<Rightarrow> ('x, string list) prog"
  CreateLoadBalancer :: "LoadBalancerInput \<Rightarrow> ('x, string) prog"
  ConfigureHealthCheck :: "string \<Rightarrow> HealthCheckInput \<Rightarrow> ('x, unit) prog"
  DeleteLoadBalancer :: "string \<Rightarrow> ('x, unit) prog"
  RegisterInstancesWithLoadBalancer :: "string list \<Rightarrow> string \<Rightarrow> ('x, unit) prog"

text \<open>
  What the provider takes from elsewhere: credential check, encoders, start-up script, the texts of the IAM
  policies (\<^verbatim>\<open>iam.go\<close>) and of the user data of the bastion, the order in which Go ranges over a map, and the
  field \<^verbatim>\<open>conn\<close> of the cloud manager.
\<close>

record 'x aws_env =
  a_iam :: "'x iam_ops"
  a_net :: "'x net_ops"
  a_ec2 :: "'x ec2_ops"
  a_elb :: "'x elb_ops"
  a_cred_IsValid :: "Credential \<Rightarrow> unit res"
  a_codecs :: aws_codecs
  a_startup :: startup_ops
  a_template :: string
  IAMMasterRole :: string
  IAMNodeRole :: string
  IAMMasterPolicy :: string
  IAMControllerPolicy :: string
  IAMNodePolicy :: string
  NewBastion :: "string res"
  base64_Encode :: "string \<Rightarrow> string"
  map_order :: "(string \<times> string) list \<Rightarrow> ('x, (string \<times> string) list) prog"
  a_connected :: "'x \<Rightarrow> bool"
  a_set_connected :: "bool \<Rightarrow> 'x \<Rightarrow> 'x"
  a_ControllerManager :: string

section \<open>Strings and loops\<close>

text \<open>\<^verbatim>\<open>strings.Replace(s, old, new, 1)\<close> with \<open>old\<close> not empty.\<close>

fun replace_first :: "string \<Rightarrow> string \<Rightarrow> string \<Rightarrow> string" where
  "replace_first old new [] = []"
| "replace_first old new (c # s) =
     (if has_prefix (c # s) old then new @ drop (length old) (c # s) else c # replace_first old new s)"

text \<open>A loop that runs until its body says so; one that never ends has no result.\<close>

partial_function (option) loop_run :: "('w, bool) prog \<Rightarrow> 'w \<Rightarrow> (unit res \<times> 'w) option" where
  "loop_run body w = (case body w of
     (Inl e, w') \<Rightarrow> Some (Inl e, w')
   | (Inr done, w') \<Rightarrow> (if done then Some (Inr (), w') else loop_run body w'))"

definition forever :: "('w, bool) prog \<Rightarrow> ('w, unit) prog" where
  "forever body = (\<lambda>w. case loop_run body w of None \<Rightarrow> (Inl (Panic ''no result''), w) | Some r \<Rightarrow> r)"

text \<open>\<^verbatim>\<open>xs[0]\<close>.\<close>

definition index0 :: "'a list \<Rightarrow> 'a res" where
  "index0 xs = (case xs of [] \<Rightarrow> Inl (Panic ''index out of range'') | x # _ \<Rightarrow> Inr x)"

section \<open>Names (namer.go)\<close>

definition MasterName :: "Cluster \<Rightarrow> string" where "MasterName c = c_Name c @ ''-master''"
definition ControlPlanePolicyName :: "Cluster \<Rightarrow> string" where "ControlPlanePolicyName c = ''controller.'' @ c_Name c @ ''.pharmer''"
definition BastionName :: "Cluster \<Rightarrow> string" where "BastionName c = c_Name c @ ''-bastion''"
definition VPCName :: "Cluster \<Rightarrow> string" where "VPCName c = c_Name c @ ''-vpc''"
definition GenMasterSGName :: "Cluster \<Rightarrow> string" where "GenMasterSGName c = c_Name c @ ''-controlplane''"
definition GenNodeSGName :: "Cluster \<Rightarrow> string" where "GenNodeSGName c = c_Name c @ ''-node''"
definition GenBastionSGName :: "Cluster \<Rightarrow> string" where "GenBastionSGName c = c_Name c @ ''-bastion''"

definition bastion :: string where "bastion = ''bastion''"

definition owned_key :: "Cluster \<Rightarrow> string" where "owned_key c = ''kubernetes.io/cluster/'' @ c_Name c"
definition managed_key :: string where "managed_key = ''sigs.k8s.io/cluster-api-provider-aws/managed''"
definition role_key :: string where "role_key = ''sigs.k8s.io/cluster-api-provider-aws/role''"

section \<open>Fields of the cluster object\<close>

text \<open>The AWS parts of configuration and status are pointers.\<close>

definition aws_spec :: "(('s, 'x) world, AWSSpec) prog" where
  "aws_spec = bindp (gets w_Cluster) (\<lambda>c. case AWS (c_CloudSpec c) of
     None \<Rightarrow> fail (Panic ''nil pointer dereference'') | Some a \<Rightarrow> ret a)"

definition aws_status :: "(('s, 'x) world, AWSStatus) prog" where
  "aws_status = bindp (gets w_Cluster) (\<lambda>c. case cs_AWS (cst_Cloud (Status c)) of
     None \<Rightarrow> fail (Panic ''nil pointer dereference'') | Some a \<Rightarrow> ret a)"

definition put_aws_status :: "AWSStatus \<Rightarrow> Cluster \<Rightarrow> Cluster" where
  "put_aws_status a = upd_CloudStatus (\<lambda>s. s\<lparr>cs_AWS := Some a\<rparr>)"

definition upd_aws_status :: "(AWSStatus \<Rightarrow> AWSStatus) \<Rightarrow> (('s, 'x) world, unit) prog" where
  "upd_aws_status f = bindp aws_status (\<lambda>a. upd_cluster (put_aws_status (f a)))"

definition set_Reason :: "string \<Rightarrow> Cluster \<Rightarrow> Cluster" where
  "set_Reason r c = c\<lparr>Status := (Status c)\<lparr>Reason := r\<rparr>\<rparr>"

text \<open>\<^verbatim>\<open>Status.Reason = err.Error(); return errors.Wrap(err, "")\<close>.\<close>

definition aws_with_reason :: "(('s, 'x) world, 'a) prog \<Rightarrow> (('s, 'x) world, 'a) prog" where
  "aws_with_reason m = bindp (attempt m) (\<lambda>r. case r of
     Inl e \<Rightarrow> bindp (upd_cluster (set_Reason (err_msg e))) (\<lambda>_. fail (wrap_err '''' e))
   | Inr x \<Rightarrow> ret x)"

text \<open>\<^verbatim>\<open>if x, found, err = get(); !found { x, err = setup() }\<close> where an error is only logged.\<close>

definition get_or :: "('w, 'a) prog \<Rightarrow> ('w, 'a) prog \<Rightarrow> ('w, 'a) prog" where
  "get_or get setup = bindp (attempt get) (\<lambda>r. case r of Inl _ \<Rightarrow> setup | Inr x \<Rightarrow> ret x)"

section \<open>The connector\<close>

partial_function (option) list_policies ::
  "'x iam_ops \<Rightarrow> string option \<Rightarrow> string list \<Rightarrow> 'x \<Rightarrow> (string list \<times> 'x) option" where
  "list_policies A marker names x = (case ListPolicies A marker x of
     (Inl e, x') \<Rightarrow> Some (names, x')
   | (Inr p, x') \<Rightarrow> (if \<not> pp_IsTruncated p then Some (names @ pp_Names p, x')
       else list_policies A (pp_Marker p) (names @ pp_Names p) x'))"

definition required_policies :: "string list" where
  "required_policies = [''IAMFullAccess'', ''AmazonEC2FullAccess'', ''AmazonEC2ContainerRegistryFullAccess'',
     ''AmazonS3FullAccess'', ''AmazonRoute53FullAccess'']"

definition authorized :: "string list \<Rightarrow> bool \<times> string" where
  "authorized policies = (let missing = filter (\<lambda>n. n \<notin> set policies) required_policies in
     if missing \<noteq> [] then (False, ''Credential missing required authorization: '' @ join '', '' missing) else (True, ''''))"

definition aws_IsUnauthorized :: "'x aws_env \<Rightarrow> (('s, 'x) world, bool \<times> string) prog" where
  "aws_IsUnauthorized A = (\<lambda>w. case list_policies (a_iam A) None [] (w_ext w) of
     None \<Rightarrow> (Inl (Panic ''no result''), w) | Some (names, x) \<Rightarrow> (Inr (authorized names), w\<lparr>w_ext := x\<rparr>))"

definition aws_newconnector :: "('s, 'x) env \<Rightarrow> 'x aws_env \<Rightarrow> (('s, 'x) world, unit) prog" where
  "aws_newconnector E A =
     bindp (gets w_Cluster) (\<lambda>c.
     let name = CredentialName (c_Config c) in
     bindp (on_store (so_credential_Get (e_store E) name)) (\<lambda>cred.
     bindp (reason (''credential '' @ name @ '' is invalid.'') (liftr (a_cred_IsValid A cred))) (\<lambda>_.
     let key = (\<lambda>k. case Data (cr_Spec cred) k of None \<Rightarrow> '''' | Some v \<Rightarrow> v) in
     bindp (on_ext (NewSession (a_iam A) (Region (c_CloudSpec c)) (key ''accessKeyID'') (key ''secretAccessKey''))) (\<lambda>_.
     bindp (aws_IsUnauthorized A) (\<lambda>ok.
     if fst ok then ret ()
     else fail (Err (''credential '' @ name @ '' does not have necessary authorization. Reason: '' @ snd ok)))))))"

fun root_device :: "'x ec2_ops \<Rightarrow> string \<Rightarrow> (string \<times> string option) list \<Rightarrow> (('s, 'x) world, int option) prog" where
  "root_device A root [] = ret None"
| "root_device A root ((name, volume) # rest) =
     (if name = root
      then bindp (on_ext (DescribeVolumes A volume)) (\<lambda>volumes. case volumes of
             [] \<Rightarrow> fail (Err (''no volumes found for id \"'' @ (case volume of None \<Rightarrow> '''' | Some v \<Rightarrow> v) @ ''\"''))
           | v # _ \<Rightarrow> ret v)
      else root_device A root rest)"

definition getInstanceRootDeviceSize :: "'x aws_env \<Rightarrow> Ec2Instance \<Rightarrow> (('s, 'x) world, int option) prog" where
  "getInstanceRootDeviceSize A i = root_device (a_ec2 A) (ec_RootDeviceName i) (ec_Devices i)"

definition detectUbuntuImage :: "'x aws_env \<Rightarrow> (('s, 'x) world, unit) prog" where
  "detectUbuntuImage A =
     bindp (upd_cluster (upd_CloudSpec (\<lambda>s. s\<lparr>OS := ''ubuntu''\<rparr>))) (\<lambda>_.
     bindp (on_ext (DescribeImages (a_ec2 A) ''099720109477''
              [(''name'', [''ubuntu/images/hvm-ssd/ubuntu-xenial-16.04-amd64-server-20170619.1''])])) (\<lambda>images.
     bindp (liftr (index0 images)) (\<lambda>image.
     upd_cluster (upd_CloudSpec (\<lambda>s. s\<lparr>InstanceImage := image\<rparr>)))))"

end
