(* ===== verification/Aws_Network.thy ===== *)
theory Aws_Network
  imports Aws
begin

text \<open>
  The connector of the AWS provider, continued (\<^verbatim>\<open>cloud/providers/aws/cloud.go\<close>): IAM profiles and keys, the
  network with its gateways and route tables, security groups, the load balancer, instances, and the deletion
  of all of them.
\<close>

section \<open>IAM profiles\<close>

definition getIAMProfile :: "'x aws_env \<Rightarrow> (('s, 'x) world, bool) prog" where
  "getIAMProfile A =
     bindp aws_spec (\<lambda>s.
     bindp (on_ext (GetInstanceProfile (a_iam A) (IAMProfileMaster s))) (\<lambda>found.
     if \<not> found then ret False else on_ext (GetInstanceProfile (a_iam A) (IAMProfileNode s))))"

text \<open>A failing session is printed, and the function returns no error.\<close>

definition createIAMProfile :: "'x aws_env \<Rightarrow> string \<Rightarrow> string \<Rightarrow> (('s, 'x) world, unit) prog" where
  "createIAMProfile A role key =
     bindp (attempt (on_ext (SharedSession (a_iam A)))) (\<lambda>session. case session of
       Inl _ \<Rightarrow> ret ()
     | Inr _ \<Rightarrow>
     bindp (on_ext (GetCallerIdentity (a_iam A))) (\<lambda>account.
     bindp (on_ext (CreateRole (a_iam A) key (trim_space (if role = ''master'' then IAMMasterRole A else IAMNodeRole A)))) (\<lambda>_.
     bindp (if role = ''master''
            then bindp (on_ext (PutRolePolicy (a_iam A) key key (trim_space (IAMMasterPolicy A)))) (\<lambda>_.
                 bindp (on_ext (PutRolePolicy (a_iam A) key (replace_first ''master'' ''controller'' key)
                         (trim_space (replace_all ''ACCOUNT_ID'' account (IAMControllerPolicy A))))) (\<lambda>_.
                 on_ext (PutRolePolicy (a_iam A) key (replace_first ''master'' ''node'' key) (trim_space (IAMNodePolicy A)))))
            else on_ext (PutRolePolicy (a_iam A) key key (trim_space (IAMNodePolicy A)))) (\<lambda>_.
     bindp (on_ext (CreateInstanceProfile (a_iam A) key)) (\<lambda>_.
     on_ext (AddRoleToInstanceProfile (a_iam A) key key))))))"

text \<open>\<^verbatim>\<open>r.InstanceProfile == nil\<close> after an error that says \<^verbatim>\<open>NoSuchEntity\<close>, or in the answer.\<close>

definition ensure_profile :: "'x aws_env \<Rightarrow> string \<Rightarrow> string \<Rightarrow> (('s, 'x) world, unit) prog" where
  "ensure_profile A role key =
     bindp (attempt (on_ext (GetInstanceProfile (a_iam A) key))) (\<lambda>r. case r of
       Inl e \<Rightarrow> if \<not> str_contains (err_msg e) ''NoSuchEntity'' then fail e else createIAMProfile A role key
     | Inr found \<Rightarrow> if \<not> found then createIAMProfile A role key else ret ())"

definition conn_ensureIAMProfile :: "'x aws_env \<Rightarrow> (('s, 'x) world, unit) prog" where
  "conn_ensureIAMProfile A =
     bindp aws_spec (\<lambda>s.
     bindp (ensure_profile A ''master'' (IAMProfileMaster s)) (\<lambda>_.
     ensure_profile A ''node'' (IAMProfileNode s)))"

text \<open>Errors are logged only.\<close>

definition try_ext :: "('x, 'a) prog \<Rightarrow> (('s, 'x) world, unit) prog" where
  "try_ext m = bindp (attempt (on_ext m)) (\<lambda>_. ret ())"

definition deleteRolePolicy :: "'x aws_env \<Rightarrow> string \<Rightarrow> (('s, 'x) world, unit) prog" where
  "deleteRolePolicy A role =
     bindp (try_ext (RemoveRoleFromInstanceProfile (a_iam A) role role)) (\<lambda>_.
     bindp (try_ext (DeleteRolePolicy (a_iam A) role role)) (\<lambda>_.
     bindp aws_spec (\<lambda>s.
     bindp (gets w_Cluster) (\<lambda>c.
     bindp (if role = IAMProfileMaster s
            then bindp (try_ext (DeleteRolePolicy (a_iam A) (IAMProfileNode s) role)) (\<lambda>_.
                 try_ext (DeleteRolePolicy (a_iam A) (ControlPlanePolicyName c) role))
            else ret ()) (\<lambda>_.
     bindp (try_ext (DeleteRole (a_iam A) role)) (\<lambda>_.
     try_ext (DeleteInstanceProfile (a_iam A) role)))))))"

definition deleteIAMProfile :: "'x aws_env \<Rightarrow> (('s, 'x) world, unit) prog" where
  "deleteIAMProfile A =
     bindp aws_spec (\<lambda>s.
     bindp (deleteRolePolicy A (IAMProfileMaster s)) (\<lambda>_.
     deleteRolePolicy A (IAMProfileNode s)))"

section \<open>Keys\<close>

definition aws_getPublicKey :: "'x aws_env \<Rightarrow> (('s, 'x) world, bool) prog" where
  "aws_getPublicKey A =
     bindp (gets w_Cluster) (\<lambda>c.
     bindp (on_ext (DescribeKeyPairs (a_ec2 A) [SSHKeyName (c_CloudSpec c)])) (\<lambda>keys.
     ret (keys \<noteq> [])))"

definition aws_importPublicKey :: "'x aws_env \<Rightarrow> (('s, 'x) world, unit) prog" where
  "aws_importPublicKey A =
     bindp (gets w_Cluster) (\<lambda>c.
     bindp (gets w_Certs) (\<lambda>mo. case mo of
       None \<Rightarrow> fail (Panic ''nil pointer dereference'')
     | Some certs \<Rightarrow> on_ext (ImportKeyPair (a_ec2 A) (SSHKeyName (c_CloudSpec c)) (PublicKey (SSHKey certs)))))"

definition aws_deleteSSHKey :: "'x aws_env \<Rightarrow> (('s, 'x) world, unit) prog" where
  "aws_deleteSSHKey A = bindp (gets w_Cluster) (\<lambda>c. on_ext (DeleteKeyPair (a_ec2 A) (SSHKeyName (c_CloudSpec c))))"

section \<open>Tags\<close>

definition addTag :: "'x aws_env \<Rightarrow> string \<Rightarrow> string \<times> string \<Rightarrow> (('s, 'x) world, unit) prog" where
  "addTag A i kv = pwrap (''failed to add tag '' @ fst kv @ '':'' @ snd kv @ '' to id   '' @ i)
     (on_ext (CreateTags (a_ec2 A) [i] [kv]))"

definition addTags :: "'x aws_env \<Rightarrow> string \<Rightarrow> (string \<times> string) list \<Rightarrow> (('s, 'x) world, unit) prog" where
  "addTags A i tags = bindp (on_ext (map_order A tags)) (\<lambda>kvs. for_each kvs (addTag A i))"

section \<open>VPC and subnets\<close>

definition vpc_filters :: "Cluster \<Rightarrow> filters" where
  "vpc_filters c = [(''tag:Name'', [VPCName c]), (''tag-key'', [owned_key c])]"

text \<open>An error of the call is not looked at: the empty answer beside it is reported as not found.\<close>

definition getVpc :: "'x aws_env \<Rightarrow> (('s, 'x) world, string) prog" where
  "getVpc A =
     bindp (gets w_Cluster) (\<lambda>c.
     bindp (attempt (on_ext (DescribeVpcs (a_net A) (vpc_filters c)))) (\<lambda>r. case r of
       Inr (v # _) \<Rightarrow> ret v
     | _ \<Rightarrow> fail (Err ''VPC not found'')))"

definition vpc_tags :: "Cluster \<Rightarrow> (string \<times> string) list" where
  "vpc_tags c = [(''Name'', c_Name c @ ''-vpc''), (owned_key c, ''owned''), (managed_key, ''true'')]"

definition setupVpc :: "'x aws_env \<Rightarrow> (('s, 'x) world, string) prog" where
  "setupVpc A =
     bindp aws_spec (\<lambda>s.
     bindp (on_ext (CreateVpc (a_net A) (VpcCIDR s))) (\<lambda>vpcID.
     bindp (pwrap (''failed to wait for vpc \"'' @ vpcID @ ''\"'') (on_ext (WaitUntilVpcAvailable (a_net A) vpcID))) (\<lambda>_.
     bindp (gets w_Cluster) (\<lambda>c.
     bindp (addTags A vpcID (vpc_tags c)) (\<lambda>_.
     ret vpcID)))))"

definition deleteVpc :: "'x aws_env \<Rightarrow> string \<Rightarrow> (('s, 'x) world, unit) prog" where
  "deleteVpc A vpcID = on_ext (DeleteVpc (a_net A) vpcID)"

definition getSubnet :: "'x aws_env \<Rightarrow> string \<Rightarrow> string \<Rightarrow> (('s, 'x) world, string) prog" where
  "getSubnet A vpcID privacy =
     bindp (gets w_Cluster) (\<lambda>c.
     bindp (on_ext (DescribeSubnets (a_net A) [(''availabilityZone'', [Zone (c_CloudSpec c)]), (''vpc-id'', [vpcID]),
              (''tag:Name'', [c_Name c @ ''-subnet-'' @ privacy])])) (\<lambda>subnets. case subnets of
       [] \<Rightarrow> fail (Err (''No '' @ privacy @ '' subnet found''))
     | s # _ \<Rightarrow> ret s))"

definition subnet_tags :: "Cluster \<Rightarrow> string \<Rightarrow> string \<Rightarrow> (string \<times> string) list" where
  "subnet_tags c privacy role = [(''Name'', c_Name c @ ''-subnet-'' @ privacy), (owned_key c, ''owned''), (managed_key, ''true''), (role_key, role)]"

definition setupPrivateSubnet :: "'x aws_env \<Rightarrow> string \<Rightarrow> (('s, 'x) world, string) prog" where
  "setupPrivateSubnet A vpcID =
     bindp aws_spec (\<lambda>s.
     bindp (gets w_Cluster) (\<lambda>c.
     bindp (on_ext (CreateSubnet (a_net A) (PrivateSubnetCIDR s) vpcID (Zone (c_CloudSpec c)))) (\<lambda>i.
     bindp (addTags A i (subnet_tags c ''private'' ''common'')) (\<lambda>_.
     ret i))))"

definition setupPublicSubnet :: "'x aws_env \<Rightarrow> string \<Rightarrow> (('s, 'x) world, string) prog" where
  "setupPublicSubnet A vpcID =
     bindp aws_spec (\<lambda>s.
     bindp (gets w_Cluster) (\<lambda>c.
     bindp (on_ext (CreateSubnet (a_net A) (PublicSubnetCIDR s) vpcID (Zone (c_CloudSpec c)))) (\<lambda>i.
     bindp (pwrap (''failed to wait for subnet \"'' @ i @ ''\"'') (on_ext (WaitUntilSubnetAvailable (a_net A) i))) (\<lambda>_.
     bindp (on_ext (ModifySubnetAttribute (a_net A) i)) (\<lambda>_.
     bindp (addTags A i (subnet_tags c ''public'' bastion)) (\<lambda>_.
     ret i))))))"

definition deleteSubnetID :: "'x aws_env \<Rightarrow> string \<Rightarrow> (('s, 'x) world, unit) prog" where
  "deleteSubnetID A vpcID =
     bindp (gets w_Cluster) (\<lambda>c.
     bindp (on_ext (DescribeSubnets (a_net A) [(''vpc-id'', [vpcID]), (''tag-key'', [owned_key c])])) (\<lambda>subnets.
     for_each subnets (\<lambda>s. on_ext (DeleteSubnet (a_net A) s))))"

section \<open>Gateways\<close>

definition getInternetGateway :: "'x aws_env \<Rightarrow> string \<Rightarrow> (('s, 'x) world, string) prog" where
  "getInternetGateway A vpcID =
     bindp (on_ext (DescribeInternetGateways (a_net A) [(''attachment.vpc-id'', [vpcID])])) (\<lambda>igws. case igws of
       [] \<Rightarrow> fail (Err ''IGW not found'') | i # _ \<Rightarrow> ret i)"

definition common_tags :: "Cluster \<Rightarrow> string \<Rightarrow> string \<Rightarrow> (string \<times> string) list" where
  "common_tags c name role = [(''Name'', name), (owned_key c, ''owned''), (managed_key, ''true''), (role_key, role)]"

definition setupInternetGateway :: "'x aws_env \<Rightarrow> string \<Rightarrow> (('s, 'x) world, string) prog" where
  "setupInternetGateway A vpcID =
     bindp (on_ext (CreateInternetGateway (a_net A))) (\<lambda>i.
     bindp (on_ext (AttachInternetGateway (a_net A) i vpcID)) (\<lambda>_.
     bindp (gets w_Cluster) (\<lambda>c.
     bindp (addTags A i (common_tags c (c_Name c @ ''-igw'') ''common'')) (\<lambda>_.
     ret i))))"

definition deleteInternetGateway :: "'x aws_env \<Rightarrow> string \<Rightarrow> (('s, 'x) world, unit) prog" where
  "deleteInternetGateway A vpcID =
     bindp (on_ext (DescribeInternetGateways (a_net A) [(''attachment.vpc-id'', [vpcID])])) (\<lambda>igws.
     for_each igws (\<lambda>i. bindp (on_ext (DetachInternetGateway (a_net A) i vpcID)) (\<lambda>_.
       on_ext (DeleteInternetGateway (a_net A) i))))"

definition allocateElasticIP :: "'x aws_env \<Rightarrow> (('s, 'x) world, string \<times> string) prog" where
  "allocateElasticIP A =
     bindp (on_ext (AllocateAddress (a_ec2 A))) (\<lambda>address.
     bindp (gets w_Cluster) (\<lambda>c.
     bindp (addTags A (fst address) (common_tags c (c_Name c @ ''-eip-apiserver'') ''apiserver'')) (\<lambda>_.
     ret address)))"

definition findElasticIP :: "'x aws_env \<Rightarrow> (('s, 'x) world, string list) prog" where
  "findElasticIP A = bindp (gets w_Cluster) (\<lambda>c.
     on_ext (DescribeAddresses (a_ec2 A) [(''tag:Name'', [c_Name c @ ''-eip-apiserver'']), (''tag-key'', [owned_key c])]))"

definition releaseReservedIP :: "('s, 'x) env \<Rightarrow> 'x aws_env \<Rightarrow> (('s, 'x) world, unit) prog" where
  "releaseReservedIP E A =
     bindp (findElasticIP A) (\<lambda>ips. case ips of
       [] \<Rightarrow> ret ()
     | ip # _ \<Rightarrow> bindp (on_ext (ReleaseAddress (a_ec2 A) ip)) (\<lambda>_.
         PollImmediate (poll_ticks (e_sys E)) (ok_or_false (findElasticIP A) (\<lambda>ips. ret (ips = [])))))"

definition getNatGateway :: "'x aws_env \<Rightarrow> string \<Rightarrow> (('s, 'x) world, string) prog" where
  "getNatGateway A vpcID =
     bindp (on_ext (DescribeNatGateways (a_net A) [(''vpc-id'', [vpcID]), (''state'', [''available'', ''pending''])] [])) (\<lambda>nats. case nats of
       [] \<Rightarrow> fail (Err ''NAT not found'') | n # _ \<Rightarrow> ret (nat_ID n))"

text \<open>The output of \<^verbatim>\<open>CreateNatGateway\<close> is read before its error.\<close>

definition setupNatGateway :: "'x aws_env \<Rightarrow> string \<Rightarrow> (('s, 'x) world, string) prog" where
  "setupNatGateway A publicSubnetID =
     bindp (allocateElasticIP A) (\<lambda>address.
     bindp (attempt (on_ext (CreateNatGateway (a_net A) (fst address) publicSubnetID))) (\<lambda>r. case r of
       Inl _ \<Rightarrow> fail (Panic ''nil pointer dereference'')
     | Inr i \<Rightarrow>
     bindp (pwrap (''failed to wait for nat gateway \"'' @ i @ ''\" in subnet \"'' @ publicSubnetID @ ''\"'')
             (on_ext (WaitUntilNatGatewayAvailable (a_net A) i))) (\<lambda>_.
     bindp (gets w_Cluster) (\<lambda>c.
     bindp (addTags A i (common_tags c (c_Name c @ ''-nat'') ''common'')) (\<lambda>_.
     ret i)))))"

definition deleteNatGateway :: "('s, 'x) env \<Rightarrow> 'x aws_env \<Rightarrow> string \<Rightarrow> (('s, 'x) world, unit) prog" where
  "deleteNatGateway E A natID =
     (if natID = '''' then ret ()
      else bindp (on_ext (DeleteNatGateway (a_net A) natID)) (\<lambda>_.
        PollImmediate (poll_ticks (e_sys E)) (ok_or_false (on_ext (DescribeNatGateways (a_net A) [] [natID])) (\<lambda>nats. case nats of
          [] \<Rightarrow> ret True | n # _ \<Rightarrow> ret (nat_State n = ''deleted'')))))"

section \<open>Route tables\<close>

definition getRouteTable :: "'x aws_env \<Rightarrow> string \<Rightarrow> string \<Rightarrow> (('s, 'x) world, string) prog" where
  "getRouteTable A privacy vpcID =
     bindp (gets w_Cluster) (\<lambda>c.
     bindp (on_ext (DescribeRouteTables (a_net A) [(''vpc-id'', [vpcID]), (''tag-key'', [owned_key c]),
              (''tag:Name'', [c_Name c @ ''-rt-'' @ privacy])])) (\<lambda>rts. case rts of
       [] \<Rightarrow> fail (Err ''Route table not found'') | r # _ \<Rightarrow> ret (rt_ID r)))"

text \<open>If the tags cannot be set, an empty identifier is returned without error.\<close>

definition setupRouteTable ::
  "'x aws_env \<Rightarrow> string \<Rightarrow> string \<Rightarrow> string \<Rightarrow> string \<Rightarrow> string \<Rightarrow> string \<Rightarrow> (('s, 'x) world, string) prog" where
  "setupRouteTable A privacy vpcID igwID natID publicSubnetID privateSubnetID =
     bindp (on_ext (CreateRouteTable (a_net A) vpcID)) (\<lambda>i.
     bindp (gets w_Cluster) (\<lambda>c.
     bindp (attempt (addTags A i (common_tags c (c_Name c @ ''-rt-'' @ privacy) (if privacy = ''public'' then bastion else ''common'')))) (\<lambda>r. case r of
       Inl _ \<Rightarrow> ret ''''
     | Inr _ \<Rightarrow>
     bindp (if privacy = ''public''
            then bindp (pwrap ''failed to create public route'' (on_ext (CreateRoute (a_net A) i ''0.0.0.0/0'' igwID))) (\<lambda>_.
                 pwrap ''failed to associate route table to subnet'' (on_ext (AssociateRouteTable (a_net A) i publicSubnetID)))
            else bindp (pwrap ''failed to create private route'' (on_ext (CreateRoute (a_net A) i ''0.0.0.0/0'' natID))) (\<lambda>_.
                 pwrap (''failed to associate route table to subnet \"'' @ privateSubnetID @ ''\"'')
                   (on_ext (AssociateRouteTable (a_net A) i privateSubnetID)))) (\<lambda>_.
     ret i))))"

definition deleteRouteTable :: "'x aws_env \<Rightarrow> string \<Rightarrow> (('s, 'x) world, unit) prog" where
  "deleteRouteTable A vpcID =
     bindp (gets w_Cluster) (\<lambda>c.
     bindp (on_ext (DescribeRouteTables (a_net A) [(''vpc-id'', [vpcID]), (''tag-key'', [owned_key c])])) (\<lambda>rts.
     for_each rts (\<lambda>rt.
       bindp (for_each (rt_Associations rt) (\<lambda>(assoc, main). if main then ret () else on_ext (DisassociateRouteTable (a_net A) assoc))) (\<lambda>_.
       if \<not> (\<exists>a \<in> set (rt_Associations rt). snd a) then on_ext (DeleteRouteTable (a_net A) (rt_ID rt)) else ret ()))))"

end
