(* ===== verification/Aws_Compute.thy ===== *)
theory Aws_Compute
  imports Aws_Network
begin

text \<open>
  The connector of the AWS provider, continued (\<^verbatim>\<open>cloud/providers/aws/cloud.go\<close>): load balancer, security
  groups, bastion and master instances.
\<close>

section \<open>The load balancer\<close>

definition apiserver_name :: "Cluster \<Rightarrow> string" where "apiserver_name c = c_Name c @ ''-apiserver''"

definition getLoadBalancer :: "'x aws_env \<Rightarrow> (('s, 'x) world, string) prog" where
  "getLoadBalancer A =
     bindp (gets w_Cluster) (\<lambda>c.
     bindp (on_ext (DescribeLoadBalancers (a_elb A) [apiserver_name c])) (\<lambda>lbs. case lbs of
       [] \<Rightarrow> ret '''' | dns # _ \<Rightarrow> ret dns))"

text \<open>The condition asks for the message of an error that is \<^verbatim>\<open>nil\<close> when the load balancer is still described.\<close>

definition lb_gone :: "'x aws_env \<Rightarrow> (('s, 'x) world, bool) prog" where
  "lb_gone A = bindp (attempt (getLoadBalancer A)) (\<lambda>r. case r of
     Inr _ \<Rightarrow> fail (Panic ''nil pointer dereference'')
   | Inl e \<Rightarrow> ret (str_contains (err_msg e) ''LoadBalancerNotFound''))"

definition aws_deleteLoadBalancer :: "('s, 'x) env \<Rightarrow> 'x aws_env \<Rightarrow> (('s, 'x) world, bool) prog" where
  "aws_deleteLoadBalancer E A =
     bindp (gets w_Cluster) (\<lambda>c.
     bindp (on_ext (DeleteLoadBalancer (a_elb A) (apiserver_name c))) (\<lambda>_.
     bindp (PollImmediate (poll_ticks (e_sys E)) (lb_gone A)) (\<lambda>_.
     ret True)))"

definition lb_input :: "Cluster \<Rightarrow> string \<Rightarrow> string \<Rightarrow> LoadBalancerInput" where
  "lb_input c publicSubnetID sg = \<lparr>lbi_Name = apiserver_name c, lbi_Subnets = [publicSubnetID], lbi_SecurityGroups = [sg],
     lbi_Scheme = ''Internet-facing'', lbi_Listeners = [(''TCP'', 6443, ''TCP'', 6443)],
     lbi_Tags = [(role_key, ''apiserver''), (owned_key c, ''owned''), (managed_key, ''true'')]\<rparr>"

definition lb_health :: HealthCheckInput where
  "lb_health = \<lparr>hci_Target = ''TCP:6443'', hci_Interval = 10, hci_Timeout = 5, hci_Healthy = 5, hci_Unhealthy = 3\<rparr>"

definition setupLoadBalancer :: "'x aws_env \<Rightarrow> string \<Rightarrow> (('s, 'x) world, string) prog" where
  "setupLoadBalancer A publicSubnetID =
     bindp (gets w_Cluster) (\<lambda>c.
     bindp aws_status (\<lambda>st.
     bindp (on_ext (CreateLoadBalancer (a_elb A) (lb_input c publicSubnetID (MasterSGId st)))) (\<lambda>dns.
     bindp (on_ext (ConfigureHealthCheck (a_elb A) (apiserver_name c) lb_health)) (\<lambda>_.
     ret dns))))"

section \<open>Security groups\<close>

definition getSecurityGroupID :: "'x aws_env \<Rightarrow> string \<Rightarrow> string \<Rightarrow> (('s, 'x) world, string option) prog" where
  "getSecurityGroupID A vpcID groupName =
     bindp (on_ext (DescribeSecurityGroups (a_ec2 A) [(''vpc-id'', [vpcID]), (''group-name'', [groupName])])) (\<lambda>groups. case groups of
       [] \<Rightarrow> ret None | g # _ \<Rightarrow> ret (Some (sg_ID g)))"

definition createSecurityGroup :: "'x aws_env \<Rightarrow> string \<Rightarrow> string \<Rightarrow> string \<Rightarrow> (('s, 'x) world, unit) prog" where
  "createSecurityGroup A vpcID groupName instanceType =
     bindp (on_ext (CreateSecurityGroup (a_ec2 A) groupName (''kubernetes security group for '' @ instanceType) vpcID)) (\<lambda>i.
     bindp (gets w_Cluster) (\<lambda>c.
     addTags A i (common_tags c (c_Name c @ ''-'' @ instanceType) instanceType)))"

text \<open>One group: its identifier goes to the status, empty if the group is not there or cannot be looked up.\<close>

definition setup_group ::
  "'x aws_env \<Rightarrow> string \<Rightarrow> (AWSSpec \<Rightarrow> string) \<Rightarrow> (string \<Rightarrow> AWSStatus \<Rightarrow> AWSStatus) \<Rightarrow> string \<Rightarrow> (('s, 'x) world, unit) prog" where
  "setup_group A vpcID name put instanceType =
     bindp aws_spec (\<lambda>s.
     bindp (attempt (getSecurityGroupID A vpcID (name s))) (\<lambda>r.
     bindp (upd_aws_status (put (case r of Inr (Some i) \<Rightarrow> i | _ \<Rightarrow> ''''))) (\<lambda>_. case r of
       Inl e \<Rightarrow> fail e
     | Inr None \<Rightarrow> createSecurityGroup A vpcID (name s) instanceType
     | Inr (Some _) \<Rightarrow> ret ())))"

text \<open>One group of \<^verbatim>\<open>detectSecurityGroups\<close>; \<open>kind\<close> is a word of the message.\<close>

definition detect_group ::
  "'x aws_env \<Rightarrow> string \<Rightarrow> (AWSSpec \<Rightarrow> string) \<Rightarrow> (AWSStatus \<Rightarrow> string) \<Rightarrow> (string \<Rightarrow> AWSStatus \<Rightarrow> AWSStatus) \<Rightarrow> string \<Rightarrow>
     (('s, 'x) world, unit) prog" where
  "detect_group A vpcID name get put kind =
     bindp aws_status (\<lambda>st.
     if get st = ''''
     then bindp aws_spec (\<lambda>s.
          bindp (attempt (getSecurityGroupID A vpcID (name s))) (\<lambda>r.
          bindp (upd_aws_status (put (case r of Inr (Some i) \<Rightarrow> i | _ \<Rightarrow> ''''))) (\<lambda>_. case r of
            Inr (Some _) \<Rightarrow> ret ()
          | _ \<Rightarrow> fail (Err (''[] could not detect Kubernetes '' @ kind @
                 '' security group.  Make sure you'' @ [CHR 0x27] @ ''ve launched a cluster with appctl'')))))
     else ret ())"

definition put_master :: "string \<Rightarrow> AWSStatus \<Rightarrow> AWSStatus" where "put_master i st = st\<lparr>MasterSGId := i\<rparr>"
definition put_node :: "string \<Rightarrow> AWSStatus \<Rightarrow> AWSStatus" where "put_node i st = st\<lparr>NodeSGId := i\<rparr>"
definition put_bastion :: "string \<Rightarrow> AWSStatus \<Rightarrow> AWSStatus" where "put_bastion i st = st\<lparr>BastionSGId := i\<rparr>"

definition detectSecurityGroups :: "'x aws_env \<Rightarrow> string \<Rightarrow> (('s, 'x) world, unit) prog" where
  "detectSecurityGroups A vpcID =
     bindp (detect_group A vpcID MasterSGName MasterSGId put_master ''master'') (\<lambda>_.
     bindp (detect_group A vpcID NodeSGName NodeSGId put_node ''node'') (\<lambda>_.
     detect_group A vpcID BastionSGName BastionSGId put_bastion ''bastion''))"

definition getGroupID :: "AWSStatus \<Rightarrow> string \<Rightarrow> string res" where
  "getGroupID st role =
     (if role = bastion then Inr (BastionSGId st)
      else if role = ''controlplane'' then Inr (MasterSGId st)
      else if role = ''node'' then Inr (NodeSGId st)
      else Inl (Err ''error''))"

definition tcp_rule :: "int \<Rightarrow> int \<Rightarrow> (string \<times> string) list \<Rightarrow> (string \<times> string) list \<Rightarrow> IpPermission" where
  "tcp_rule from_port to_port ranges groups =
     \<lparr>IpProtocol = ''tcp'', ip_FromPort = from_port, ip_ToPort = to_port, IpRanges = ranges, UserIdGroupPairs = groups\<rparr>"

definition getIngressRules :: "AWSStatus \<Rightarrow> string \<Rightarrow> IpPermission list res" where
  "getIngressRules st role =
     (if role = bastion then Inr [tcp_rule 22 22 [(''SSH'', ''0.0.0.0/0'')] []]
      else if role = ''controlplane'' then Inr
        [tcp_rule 22 22 [] [(''SSH'', BastionSGId st)],
         tcp_rule 6443 6443 [(''Kubernetes API'', ''0.0.0.0/0'')] [],
         tcp_rule 2379 2379 [] [(''etcd'', MasterSGId st)],
         tcp_rule 2380 2380 [] [(''etcd peer'', MasterSGId st)],
         tcp_rule 179 179 [] [(''bgp (calico)'', MasterSGId st), (''bgp (calico)'', NodeSGId st)]]
      else if role = ''node'' then Inr
        [tcp_rule 22 22 [] [(''SSH'', BastionSGId st)],
         tcp_rule 30000 32767 [(''Node Port Services'', ''0.0.0.0/0'')] [],
         tcp_rule 10250 10250 [] [(''Kubelet API'', MasterSGId st)],
         tcp_rule 179 179 [] [(''bgp (calico)'', MasterSGId st), (''bgp (calico)'', NodeSGId st)]]
      else Inl (Err (''Cannot determine ingress rules for unknown security group role \"'' @ role @ ''\"'')))"

text \<open>The body of the last loop of \<^verbatim>\<open>setupSecurityGroups\<close>.\<close>

definition authorize_group :: "'x aws_env \<Rightarrow> string \<Rightarrow> (('s, 'x) world, unit) prog" where
  "authorize_group A role =
     bindp aws_status (\<lambda>st.
     bindp (liftr (getIngressRules st role)) (\<lambda>rules.
     bindp (liftr (getGroupID st role)) (\<lambda>groupID.
     on_ext (AuthorizeSecurityGroupIngress (a_ec2 A) groupID rules))))"

definition setupSecurityGroups :: "'x aws_env \<Rightarrow> string \<Rightarrow> (('s, 'x) world, unit) prog" where
  "setupSecurityGroups A vpcID =
     bindp (setup_group A vpcID MasterSGName put_master ''controlplane'') (\<lambda>_.
     bindp (setup_group A vpcID NodeSGName put_node ''node'') (\<lambda>_.
     bindp (setup_group A vpcID BastionSGName put_bastion bastion) (\<lambda>_.
     bindp (detectSecurityGroups A vpcID) (\<lambda>_.
     for_each [bastion, ''controlplane'', ''node''] (authorize_group A)))))"

definition delete_groups :: "'x aws_env \<Rightarrow> string \<Rightarrow> (('s, 'x) world, unit) prog" where
  "delete_groups A vpcID =
     bindp (gets w_Cluster) (\<lambda>c.
     bindp (on_ext (DescribeSecurityGroups (a_ec2 A) [(''vpc-id'', [vpcID]), (''tag-key'', [owned_key c])])) (\<lambda>groups.
     bindp (for_each groups (\<lambda>g.
       bindp (if sg_Ingress g \<noteq> [] then on_ext (RevokeSecurityGroupIngress (a_ec2 A) (sg_ID g) (sg_Ingress g)) else ret ()) (\<lambda>_.
       if sg_Egress g \<noteq> [] then on_ext (RevokeSecurityGroupEgress (a_ec2 A) (sg_ID g) (sg_Egress g)) else ret ()))) (\<lambda>_.
     for_each groups (\<lambda>g. on_ext (DeleteSecurityGroup (a_ec2 A) (sg_ID g))))))"

text \<open>The condition of the poll answers \<^verbatim>\<open>false, nil\<close> at the first call that fails.\<close>

definition deleteSecurityGroup :: "('s, 'x) env \<Rightarrow> 'x aws_env \<Rightarrow> string \<Rightarrow> (('s, 'x) world, unit) prog" where
  "deleteSecurityGroup E A vpcID =
     (if vpcID = '''' then ret ()
      else PollImmediate (poll_ticks (e_sys E)) (ok_or_false (delete_groups A vpcID) (\<lambda>_. ret True)))"

section \<open>The bastion\<close>

definition running_filters :: "string \<Rightarrow> string \<Rightarrow> filters" where
  "running_filters name role = [(''tag:Name'', [name]), (''tag:'' @ role_key, [role]), (''instance-state-name'', [''running''])]"

definition getBastion :: "'x aws_env \<Rightarrow> (('s, 'x) world, unit) prog" where
  "getBastion A =
     bindp (gets w_Cluster) (\<lambda>c.
     bindp (pwrap ''failed to describe bastion host''
             (on_ext (DescribeInstances (a_ec2 A) (running_filters (BastionName c) bastion) []))) (\<lambda>reservations.
     if \<exists>i \<in> set (concat reservations). ec_State i \<noteq> ''terminated'' then ret ()
     else fail (Err ''bastion host not found'')))"

definition bastion_images :: "(string \<times> string) list" where
  "bastion_images = [(''ap-northeast-1'', ''ami-d39a02b5''), (''ap-northeast-2'', ''ami-67973709''), (''ap-south-1'', ''ami-5d055232''),
     (''ap-southeast-1'', ''ami-325d2e4e''), (''ap-southeast-2'', ''ami-37df2255''), (''ca-central-1'', ''ami-f0870294''),
     (''eu-central-1'', ''ami-af79ebc0''), (''eu-west-1'', ''ami-4d46d534''), (''eu-west-2'', ''ami-d7aab2b3''),
     (''eu-west-3'', ''ami-5e0eb923''), (''sa-east-1'', ''ami-1157157d''), (''us-east-1'', ''ami-41e0b93b''),
     (''us-east-2'', ''ami-2581aa40''), (''us-west-1'', ''ami-79aeae19''), (''us-west-2'', ''ami-1ee65166'')]"

definition getBastionAMI :: "string \<Rightarrow> string" where
  "getBastionAMI region = (case map_of bastion_images region of None \<Rightarrow> ''unknown region'' | Some i \<Rightarrow> i)"

definition instance_tags :: "Cluster \<Rightarrow> string \<Rightarrow> string \<Rightarrow> (string \<times> string) list" where
  "instance_tags c name role = [(''Name'', name), (role_key, role), (owned_key c, ''owned''), (managed_key, ''true'')]"

definition run_instance :: "'x aws_env \<Rightarrow> RunInstancesInput \<Rightarrow> (('s, 'x) world, Ec2Instance) prog" where
  "run_instance A input =
     bindp (pwrap ''failed to run instance'' (on_ext (RunInstances (a_ec2 A) input))) (\<lambda>instances. case instances of
       [] \<Rightarrow> fail (Err ''no instance returned for reservation'')
     | i # _ \<Rightarrow> ret i)"

definition setupBastion :: "'x aws_env \<Rightarrow> string \<Rightarrow> (('s, 'x) world, unit) prog" where
  "setupBastion A publicSubnetID =
     bindp (gets w_Cluster) (\<lambda>c.
     bindp (liftr (NewBastion A)) (\<lambda>userData.
     bindp aws_status (\<lambda>st.
     bindp (run_instance A \<lparr>ri_InstanceType = ''t2.micro'', ri_SubnetId = publicSubnetID,
        ri_ImageId = getBastionAMI (Region (c_CloudSpec c)), ri_IamInstanceProfile = None, ri_KeyName = SSHKeyName (c_CloudSpec c),
        ri_UserData = base64_Encode A userData, ri_SecurityGroupIds = [BastionSGId st],
        ri_Tags = instance_tags c (BastionName c) bastion\<rparr>) (\<lambda>_.
     ret ()))))"

section \<open>Master instances\<close>

definition getMaster :: "'x aws_env \<Rightarrow> string \<Rightarrow> (('s, 'x) world, bool) prog" where
  "getMaster A name =
     bindp (on_ext (DescribeInstances (a_ec2 A) (running_filters name ''controlplane'') [])) (\<lambda>reservations.
     ret (reservations \<noteq> []))"

definition state_reached :: "'x aws_env \<Rightarrow> string \<Rightarrow> string \<Rightarrow> (('s, 'x) world, bool) prog" where
  "state_reached A instanceID state =
     bindp (on_ext (DescribeInstances (a_ec2 A) [] [instanceID])) (\<lambda>reservations.
     bindp (liftr (index0 reservations)) (\<lambda>instances.
     bindp (liftr (index0 instances)) (\<lambda>i.
     ret (ec_State i = state))))"

definition waitForInstanceState :: "'x aws_env \<Rightarrow> string \<Rightarrow> string \<Rightarrow> (('s, 'x) world, unit) prog" where
  "waitForInstanceState A instanceID state = forever (state_reached A instanceID state)"

definition startMaster :: "'x aws_env \<Rightarrow> Machine \<Rightarrow> string \<Rightarrow> string \<Rightarrow> (('s, 'x) world, Ec2Instance) prog" where
  "startMaster A machine privateSubnetID script =
     bindp (detectUbuntuImage A) (\<lambda>_.
     bindp (liftr (aws_MachineConfig (a_codecs A) (ProviderSpec (m_Spec machine)))) (\<lambda>providerSpec.
     bindp aws_spec (\<lambda>s.
     bindp aws_status (\<lambda>st.
     bindp (gets w_Cluster) (\<lambda>c.
     bindp (run_instance A \<lparr>ri_InstanceType = InstanceType providerSpec, ri_SubnetId = privateSubnetID,
        ri_ImageId = InstanceImage (c_CloudSpec c), ri_IamInstanceProfile = Some (IAMProfileMaster s),
        ri_KeyName = SSHKeyName (c_CloudSpec c), ri_UserData = base64_Encode A script, ri_SecurityGroupIds = [MasterSGId st],
        ri_Tags = instance_tags c (m_Name machine) (case Labels (m_ObjectMeta machine) ''set'' of None \<Rightarrow> '''' | Some l \<Rightarrow> l)\<rparr>) (\<lambda>i.
     bindp (waitForInstanceState A (ec_ID i) ''running'') (\<lambda>_.
     bindp (on_ext (RegisterInstancesWithLoadBalancer (a_elb A) [ec_ID i] (apiserver_name c))) (\<lambda>_.
     bindp (on_ext (DescribeInstances (a_ec2 A) [] [ec_ID i])) (\<lambda>reservations.
     bindp (liftr (index0 reservations)) (\<lambda>instances.
     liftr (index0 instances)))))))))))"

definition deleteInstance :: "'x aws_env \<Rightarrow> string \<Rightarrow> (('s, 'x) world, unit) prog" where
  "deleteInstance A role =
     bindp (gets w_Cluster) (\<lambda>c.
     bindp (on_ext (DescribeInstances (a_ec2 A) [(''tag:'' @ role_key, [role]), (''tag-key'', [owned_key c])] [])) (\<lambda>reservations.
     let instances = map ec_ID (concat reservations) in
     if instances = [] then ret ()
     else bindp (on_ext (TerminateInstances (a_ec2 A) instances)) (\<lambda>_.
          on_ext (WaitUntilInstanceTerminated (a_ec2 A) instances))))"

end
