(* ===== verification/Aws_Manager.thy ===== *)
theory Aws_Manager
  imports Aws_Compute Digitalocean
begin

text \<open>
  The cloud manager of the AWS provider: \<^verbatim>\<open>apply.go\<close>, \<^verbatim>\<open>create.go\<close>, \<^verbatim>\<open>context.go\<close> and \<^verbatim>\<open>startupscript.go\<close> of
  \<^verbatim>\<open>cloud/providers/aws\<close>.
\<close>

section \<open>What PrepareCloud ensures (apply.go)\<close>

definition ensureIAMProfile :: "'x aws_env \<Rightarrow> (('s, 'x) world, unit) prog" where
  "ensureIAMProfile A =
     bindp (attempt (getIAMProfile A)) (\<lambda>r. case r of
       Inr True \<Rightarrow> ret () | _ \<Rightarrow> conn_ensureIAMProfile A)"

definition ensurePublicKey :: "'x aws_env \<Rightarrow> (('s, 'x) world, unit) prog" where
  "ensurePublicKey A =
     bindp (attempt (aws_getPublicKey A)) (\<lambda>r. case r of
       Inr True \<Rightarrow> ret () | _ \<Rightarrow> aws_importPublicKey A)"

definition ensureVPC :: "'x aws_env \<Rightarrow> (('s, 'x) world, string) prog" where
  "ensureVPC A = get_or (getVpc A) (setupVpc A)"

definition ensureSubnet :: "'x aws_env \<Rightarrow> (('s, 'x) world, string \<times> string) prog" where
  "ensureSubnet A =
     bindp (pwrap ''vpc not found'' (getVpc A)) (\<lambda>vpcID.
     bindp (get_or (getSubnet A vpcID ''public'') (setupPublicSubnet A vpcID)) (\<lambda>publicSubnetID.
     bindp (get_or (getSubnet A vpcID ''private'') (setupPrivateSubnet A vpcID)) (\<lambda>privateSubnetID.
     ret (publicSubnetID, privateSubnetID))))"

definition ensureInternetGateway :: "'x aws_env \<Rightarrow> string \<Rightarrow> (('s, 'x) world, string) prog" where
  "ensureInternetGateway A vpcID = get_or (getInternetGateway A vpcID) (setupInternetGateway A vpcID)"

definition ensureNatGateway :: "'x aws_env \<Rightarrow> string \<Rightarrow> string \<Rightarrow> (('s, 'x) world, string) prog" where
  "ensureNatGateway A vpcID publicSubnetID = get_or (getNatGateway A vpcID) (setupNatGateway A publicSubnetID)"

definition ensureRouteTable ::
  "'x aws_env \<Rightarrow> string \<Rightarrow> string \<Rightarrow> string \<Rightarrow> string \<Rightarrow> string \<Rightarrow> (('s, 'x) world, string \<times> string) prog" where
  "ensureRouteTable A vpcID gatewayID natID publicSubnetID privateSubnetID =
     bindp (get_or (getRouteTable A ''public'' vpcID) (setupRouteTable A ''public'' vpcID gatewayID natID publicSubnetID privateSubnetID)) (\<lambda>pub.
     bindp (get_or (getRouteTable A ''private'' vpcID) (setupRouteTable A ''private'' vpcID gatewayID natID publicSubnetID privateSubnetID)) (\<lambda>priv.
     ret (pub, priv)))"

definition ensureSecurityGroup :: "'x aws_env \<Rightarrow> string \<Rightarrow> (('s, 'x) world, unit) prog" where
  "ensureSecurityGroup A vpcID =
     bindp aws_spec (\<lambda>s.
     bindp (attempt (getSecurityGroupID A vpcID (MasterSGName s))) (\<lambda>r. case r of
       Inr (Some _) \<Rightarrow> detectSecurityGroups A vpcID
     | _ \<Rightarrow> aws_with_reason (setupSecurityGroups A vpcID)))"

definition ensureBastion :: "'x aws_env \<Rightarrow> string \<Rightarrow> (('s, 'x) world, unit) prog" where
  "ensureBastion A publicSubnetID = get_or (getBastion A) (aws_with_reason (setupBastion A publicSubnetID))"

text \<open>The variable \<^verbatim>\<open>found\<close> is never set: the load balancer is set up whether it is there or not.\<close>

definition ensureLoadBalancer :: "'x aws_env \<Rightarrow> string \<Rightarrow> (('s, 'x) world, unit) prog" where
  "ensureLoadBalancer A publicSubnetID =
     bindp (attempt (getLoadBalancer A)) (\<lambda>_.
     bindp (aws_with_reason (setupLoadBalancer A publicSubnetID)) (\<lambda>loadbalancerDNS.
     if loadbalancerDNS = '''' then fail (Err (''load balancer dns can'' @ [CHR 0x27] @ ''t be empty''))
     else bindp (upd_cluster (set_LoadBalancer \<lparr>lb_DNS = loadbalancerDNS, lb_IP = '''', lb_Port = DefaultKubernetesBindPort\<rparr>)) (\<lambda>_.
     pwrap ''Error setting controlplane endpoints''
       (try_endpoints [\<lparr>AddrType = NodeExternalIP, Address = loadbalancerDNS\<rparr>]))))"

section \<open>PrepareCloud, EnsureMaster, ApplyDelete (apply.go)\<close>

definition network_spec :: "Cluster \<Rightarrow> AWSSpec \<Rightarrow> string \<Rightarrow> string \<Rightarrow> string \<Rightarrow> string \<Rightarrow> string \<Rightarrow> string \<Rightarrow> string \<Rightarrow> NetworkSpec" where
  "network_spec c s vpcID gatewayID natID publicSubnetID privateSubnetID publicRouteTableID privateRouteTableID =
     \<lparr>VPC = \<lparr>vpc_ID = vpcID, vpc_CidrBlock = VpcCIDR s, InternetGatewayID = Some gatewayID,
        vpc_Tags = Some (fmupd ''sigs.k8s.io/cluster-api-provider-aws/managed'' ''true'' fmempty)\<rparr>,
      Subnets =
        [\<lparr>sn_ID = publicSubnetID, sn_CidrBlock = PublicSubnetCIDR s, AvailabilityZone = Zone (c_CloudSpec c), IsPublic = True,
          RouteTableID = Some publicRouteTableID, NatGatewayID = Some natID, sn_Tags = None\<rparr>,
         \<lparr>sn_ID = privateSubnetID, sn_CidrBlock = PrivateSubnetCIDR s, AvailabilityZone = Zone (c_CloudSpec c), IsPublic = False,
          RouteTableID = Some privateRouteTableID, NatGatewayID = None, sn_Tags = None\<rparr>]\<rparr>"

definition aws_PrepareCloud :: "('s, 'x) env \<Rightarrow> 'x aws_env \<Rightarrow> (('s, 'x) world, unit) prog" where
  "aws_PrepareCloud E A =
     bindp (gets (a_connected A \<circ> w_ext)) (\<lambda>conn. if \<not> conn then fail (Panic ''nil pointer dereference'') else
     bindp (pwrap ''failed to ensure iam profile'' (ensureIAMProfile A)) (\<lambda>_.
     bindp (pwrap ''failed to import public key'' (ensurePublicKey A)) (\<lambda>_.
     bindp (pwrap ''failed to ensure vpc'' (ensureVPC A)) (\<lambda>vpcID.
     bindp (pwrap ''failed to ensure subnets'' (ensureSubnet A)) (\<lambda>(publicSubnetID, privateSubnetID).
     bindp (pwrap ''failed to ensure igw'' (ensureInternetGateway A vpcID)) (\<lambda>gatewayID.
     bindp (pwrap ''failed to ensure nat'' (ensureNatGateway A vpcID publicSubnetID)) (\<lambda>natID.
     bindp (pwrap ''failed to ensure route table''
             (ensureRouteTable A vpcID gatewayID natID publicSubnetID privateSubnetID)) (\<lambda>(publicRouteTableID, privateRouteTableID).
     bindp (pwrap ''failed to ensure security group'' (ensureSecurityGroup A vpcID)) (\<lambda>_.
     bindp (pwrap ''failed to ensure bastion'' (ensureBastion A publicSubnetID)) (\<lambda>_.
     bindp (pwrap ''failed to ensure load balancer'' (ensureLoadBalancer A publicSubnetID)) (\<lambda>_.
     bindp (gets w_Cluster) (\<lambda>c.
     bindp (pwrap ''failed to decode provider spec''
             (liftr (aws_ClusterConfig (a_codecs A) (ccs_ProviderSpec (cc_Spec (ClusterAPI (Spec c))))))) (\<lambda>clusterSpec.
     bindp aws_spec (\<lambda>s.
     bindp (liftr (EncodeClusterSpec (a_codecs A) (Some (clusterSpec\<lparr>acs_NetworkSpec :=
         network_spec c s vpcID gatewayID natID publicSubnetID privateSubnetID publicRouteTableID privateRouteTableID\<rparr>)))) (\<lambda>raw.
     bindp (upd_cluster (set_ccProviderSpec raw)) (\<lambda>_.
     store_cluster (so_cluster_Update (e_store E))))))))))))))))))"

definition aws_GetMasterSKU :: "int32 \<Rightarrow> string" where
  "aws_GetMasterSKU totalNodes =
     (let n = sint totalNodes in
      if n > 500 then ''c4.8xlarge'' else if n > 250 then ''c4.4xlarge'' else if n > 100 then ''t2.2xlarge''
      else if n > 10 then ''t2.xlarge'' else ''t2.large'')"

section \<open>Start-up script (startupscript.go)\<close>

definition aws_NewNodeTemplateData :: "Machine \<Rightarrow> string \<Rightarrow> TemplateData \<Rightarrow> (('s, 'x) world, TemplateData) prog" where
  "aws_NewNodeTemplateData machine token td =
     bindp (gets w_Cluster) (\<lambda>c.
     set_arg ''cloud-provider'' (CloudProvider (c_CloudSpec c)) (td\<lparr>td_ExternalProvider := False\<rparr>))"

definition aws_NewMasterTemplateData :: "Machine \<Rightarrow> string \<Rightarrow> TemplateData \<Rightarrow> (('s, 'x) world, TemplateData) prog" where
  "aws_NewMasterTemplateData machine token td =
     bindp (gets w_Cluster) (\<lambda>c.
     bindp (liftr (GetDefaultKubeadmClusterConfig c (Some \<lparr>hp_Name = ''cloud-config'', hp_HostPath = ''/etc/kubernetes/ccm'',
              hp_MountPath = ''/etc/kubernetes/ccm''\<rparr>))) (\<lambda>cfg.
     ret (td\<lparr>td_ClusterConfiguration :=
       Some (cfg\<lparr>kc_ControllerManagerExtraArgs := [''cloud-provider'' \<mapsto> CloudProvider (c_CloudSpec c)]\<rparr>)\<rparr>)))"

definition aws_hooks :: "('s, 'x) template_hooks" where
  "aws_hooks = \<lparr>th_Node = aws_NewNodeTemplateData, th_Master = aws_NewMasterTemplateData\<rparr>"

definition aws_RenderStartupScript :: "('s, 'x) env \<Rightarrow> 'x aws_env \<Rightarrow> Machine \<Rightarrow> string \<Rightarrow> (('s, 'x) world, string) prog" where
  "aws_RenderStartupScript E A machine token = RenderStartupScript E (a_startup A) aws_hooks machine token (a_template A)"

text \<open>Errors of the look-ups are logged, and the identifier is empty then.\<close>

definition or_empty :: "('w, string) prog \<Rightarrow> ('w, string) prog" where
  "or_empty m = bindp (attempt m) (\<lambda>r. ret (case r of Inl _ \<Rightarrow> '''' | Inr x \<Rightarrow> x))"

definition master_created :: "('s, 'x) env \<Rightarrow> 'x aws_env \<Rightarrow> Machine \<Rightarrow> Ec2Instance \<Rightarrow> (('s, 'x) world, unit) prog" where
  "master_created E A leader i =
     bindp (liftr (aws_MachineConfig (a_codecs A) (ProviderSpec (m_Spec leader)))) (\<lambda>spec.
     bindp (gets w_Cluster) (\<lambda>c.
     bindp (pwrap ''failed to get root device size for master instance'' (getInstanceRootDeviceSize A i)) (\<lambda>size. case size of
       None \<Rightarrow> fail (Panic ''nil pointer dereference'')
     | Some n \<Rightarrow>
     bindp (liftr (EncodeMachineSpec (a_codecs A) (Some (spec\<lparr>AMI := zero_Reference\<lparr>ref_ID := Some (InstanceImage (c_CloudSpec c))\<rparr>,
              RootDeviceSize := n\<rparr>)))) (\<lambda>rawSpec.
     bindp (liftr (EncodeMachineStatus (a_codecs A) (Some (zero_AWSMachineProviderStatus\<lparr>amst_InstanceID := Some (ec_ID i)\<rparr>)))) (\<lambda>rawStatus.
     bindp (pwrap ''error updating master machine in pharmer storage''
       (on_store (so_machine_Update (e_store E) (c_Name c)
         (leader\<lparr>m_Spec := (m_Spec leader)\<lparr>ProviderSpec := Some rawSpec\<rparr>,
                 m_Status := (m_Status leader)\<lparr>ProviderStatus := Some rawStatus\<rparr>\<rparr>)))) (\<lambda>_.
     ret ()))))))"

definition aws_EnsureMaster :: "('s, 'x) env \<Rightarrow> 'x aws_env \<Rightarrow> Machine \<Rightarrow> (('s, 'x) world, unit) prog" where
  "aws_EnsureMaster E A leader =
     bindp (gets (a_connected A \<circ> w_ext)) (\<lambda>conn. if \<not> conn then fail (Panic ''nil pointer dereference'') else
     bindp (attempt (getMaster A (m_Name leader))) (\<lambda>found.
     if found = Inr True then ret ()
     else bindp (aws_RenderStartupScript E A leader '''') (\<lambda>script.
     bindp (or_empty (getVpc A)) (\<lambda>vpcID.
     bindp (or_empty (getSubnet A vpcID ''private'')) (\<lambda>privateSubnetID.
     bindp (aws_with_reason (startMaster A leader privateSubnetID script)) (\<lambda>i.
     bindp (store_cluster (so_cluster_Update (e_store E))) (\<lambda>_.
     master_created E A leader i)))))))"

text \<open>Both branches of the code dereference \<^verbatim>\<open>NatGatewayID\<close> of the first subnet.\<close>

definition nat_of_spec :: "AWSClusterProviderSpec \<Rightarrow> string res" where
  "nat_of_spec spec = (case Subnets (acs_NetworkSpec spec) of
     [] \<Rightarrow> Inr ''''
   | s # _ \<Rightarrow> (case NatGatewayID s of None \<Rightarrow> Inl (Panic ''nil pointer dereference'') | Some i \<Rightarrow> Inr i))"

definition aws_ApplyDelete :: "('s, 'x) env \<Rightarrow> 'x aws_env \<Rightarrow> (('s, 'x) world, unit) prog" where
  "aws_ApplyDelete E A =
     bindp (gets (a_connected A \<circ> w_ext)) (\<lambda>conn. if \<not> conn then fail (Panic ''nil pointer dereference'') else
     bindp (attempt (deleteInstance A ''controlplane'')) (\<lambda>_.
     bindp (attempt (aws_deleteSSHKey A)) (\<lambda>_.
     bindp (deleteIAMProfile A) (\<lambda>_.
     bindp (pwrap ''error deleting load balancer'' (aws_deleteLoadBalancer E A)) (\<lambda>_.
     bindp (pwrap ''error deleting bastion instance'' (deleteInstance A bastion)) (\<lambda>_.
     bindp (gets w_Cluster) (\<lambda>c.
     bindp (liftr (aws_ClusterConfig (a_codecs A) (ccs_ProviderSpec (cc_Spec (ClusterAPI (Spec c)))))) (\<lambda>clusterSpec.
     bindp (attempt (getVpc A)) (\<lambda>r. case r of
       Inl _ \<Rightarrow> ret ()
     | Inr vpcID \<Rightarrow>
     bindp (liftr (nat_of_spec clusterSpec)) (\<lambda>natID.
     bindp (pwrap ''error deleting security group'' (deleteSecurityGroup E A vpcID)) (\<lambda>_.
     bindp (pwrap ''error deleting route table'' (deleteRouteTable A vpcID)) (\<lambda>_.
     bindp (pwrap ''error deleting NAT'' (deleteNatGateway E A natID)) (\<lambda>_.
     bindp (pwrap ''error deleting Elastic IP'' (releaseReservedIP E A)) (\<lambda>_.
     bindp (pwrap ''error deleting Interget Gateway'' (deleteInternetGateway A vpcID)) (\<lambda>_.
     bindp (pwrap ''error deleting Subnets'' (deleteSubnetID A vpcID)) (\<lambda>_.
     pwrap ''error deleting VPC'' (deleteVpc A vpcID)))))))))))))))))"

section \<open>The rest of the cloud manager (create.go, context.go)\<close>

definition aws_type :: "string \<Rightarrow> TypeMeta" where
  "aws_type kind = \<lparr>Kind = kind, APIVersion = ''awsprovider/v1alpha1''\<rparr>"

definition aws_GetDefaultMachineProviderSpec ::
  "'x aws_env \<Rightarrow> string \<Rightarrow> MachineRole \<Rightarrow> (('s, 'x) world, bytes option) prog" where
  "aws_GetDefaultMachineProviderSpec A sku role =
     bindp (gets w_Cluster) (\<lambda>c.
     bindp aws_spec (\<lambda>s.
     bindp (liftr (EncodeMachineSpec (a_codecs A) (Some (zero_AWSMachineProviderSpec\<lparr>ams_TypeMeta := aws_type ''AWSMachineProviderSpec'',
        InstanceType := sku, KeyName := SSHKeyName (c_CloudSpec c),
        IAMInstanceProfile := (if role = NodeMachineRole then IAMProfileNode s else IAMProfileMaster s)\<rparr>)))) (\<lambda>raw.
     ret (Some raw))))"

definition zero_AWSSpec :: AWSSpec where
  "zero_AWSSpec = \<lparr>IAMProfileMaster = '''', IAMProfileNode = '''', MasterSGName = '''', NodeSGName = '''', BastionSGName = '''',
     VpcCIDR = '''', VpcCIDRBase = '''', MasterIPSuffix = '''', PrivateSubnetCIDR = '''', PublicSubnetCIDR = ''''\<rparr>"

definition default_AWSSpec :: "Cluster \<Rightarrow> AWSSpec \<Rightarrow> AWSSpec" where
  "default_AWSSpec c s = s\<lparr>MasterSGName := GenMasterSGName c, NodeSGName := GenNodeSGName c, BastionSGName := GenBastionSGName c,
     IAMProfileMaster := ''master.'' @ c_Name c @ ''.pharmer'', IAMProfileNode := ''node.'' @ c_Name c @ ''.pharmer'',
     VpcCIDRBase := ''10.0'', MasterIPSuffix := ''.9'', VpcCIDR := ''10.0.0.0/16'', PublicSubnetCIDR := ''10.0.1.0/24'',
     PrivateSubnetCIDR := ''10.0.0.0/24''\<rparr>"

text \<open>The status is initialised anew: phase Pending, and the AWS part empty.\<close>

definition aws_defaults :: "Cluster \<Rightarrow> Cluster" where
  "aws_defaults c = (upd_Config (\<lambda>g. g\<lparr>
       Cloud := (Cloud g)\<lparr>AWS := Some (default_AWSSpec c (case AWS (Cloud g) of None \<Rightarrow> zero_AWSSpec | Some s \<Rightarrow> s))\<rparr>,
       APIServerExtraArgs := [''cloud-provider'' \<mapsto> CloudProvider (Cloud g)], SSHUserName := ''ubuntu''\<rparr>) c)
     \<lparr>Status := \<lparr>Phase = ClusterPending, Reason = '''',
        cst_Cloud = zero_CloudStatus\<lparr>cs_AWS := Some \<lparr>MasterSGId = '''', NodeSGId = '''', BastionSGId = ''''\<rparr>\<rparr>\<rparr>\<rparr>"

definition aws_pem_pair :: "('s, 'x) env \<Rightarrow> CertKeyPair \<Rightarrow> KeyPair" where
  "aws_pem_pair E k = \<lparr>kp_Cert = cert_EncodeCertPEM (e_sys E) (Cert k), kp_Key = cert_EncodePrivateKeyPEM (e_sys E) (Key k)\<rparr>"

definition SetClusterProviderConfig :: "('s, 'x) env \<Rightarrow> 'x aws_env \<Rightarrow> (('s, 'x) world, unit) prog" where
  "SetClusterProviderConfig E A =
     bindp (gets w_Cluster) (\<lambda>c.
     bindp (gets w_Certs) (\<lambda>mo. case mo of
       None \<Rightarrow> fail (Panic ''nil pointer dereference'')
     | Some certs \<Rightarrow>
     bindp (liftr (EncodeClusterSpec (a_codecs A) (Some (zero_AWSClusterProviderSpec\<lparr>acs_TypeMeta := aws_type ''AWSClusterProviderSpec'',
        acs_ObjectMeta := zero_ObjectMeta\<lparr>Name := c_Name c\<rparr>, acs_Region := Region (c_CloudSpec c), acs_SSHKeyName := SSHKeyName (c_CloudSpec c),
        CAKeyPair := aws_pem_pair E (CACert certs), EtcdCAKeyPair := aws_pem_pair E (EtcdCACert certs),
        FrontProxyCAKeyPair := aws_pem_pair E (FrontProxyCACert certs), SAKeyPair := aws_pem_pair E (ServiceAccountCert certs)\<rparr>)))) (\<lambda>raw.
     upd_cluster (set_ccProviderSpec raw))))"

definition aws_SetDefaultCluster :: "('s, 'x) env \<Rightarrow> 'x aws_env \<Rightarrow> (('s, 'x) world, unit) prog" where
  "aws_SetDefaultCluster E A = bindp (upd_cluster aws_defaults) (\<lambda>_. SetClusterProviderConfig E A)"

definition aws_SetCloudConnector :: "('s, 'x) env \<Rightarrow> 'x aws_env \<Rightarrow> (('s, 'x) world, unit) prog" where
  "aws_SetCloudConnector E A =
     bindp (attempt (aws_newconnector E A)) (\<lambda>r.
     bindp (modify (\<lambda>w. w\<lparr>w_ext := a_set_connected A (is_ok r) (w_ext w)\<rparr>)) (\<lambda>_. liftr r))"

definition newline :: string where "newline = [CHR 0x0A]"

definition aws_CreateCredentials :: "('s, 'x) env \<Rightarrow> (('s, 'x) world, unit) prog" where
  "aws_CreateCredentials E =
     bindp (CreateNamespace E ''aws-provider-system'') (\<lambda>_.
     bindp (gets w_Cluster) (\<lambda>c.
     bindp (on_store (so_credential_Get (e_store E) (CredentialName (c_Config c)))) (\<lambda>cred.
     let data = (\<lambda>k. case Data (cr_Spec cred) k of None \<Rightarrow> '''' | Some v \<Rightarrow> v) in
     CreateSecret E ''aws-provider-manager-bootstrap-credentials'' ''aws-provider-system''
       [(''credentials'', ''[default]'' @ newline @ ''aws_access_key_id = '' @ data ''accessKeyID'' @ newline @
          ''aws_secret_access_key = '' @ data ''secretAccessKey'' @ newline @ ''region = '' @ Region (c_CloudSpec c) @ newline)])))"

definition aws_ApplyScale :: "(('s, 'x) world, unit) prog" where
  "aws_ApplyScale = fail (Panic ''implement me'')"

definition aws_GetClusterAPIComponents :: "'x aws_env \<Rightarrow> (('s, 'x) world, string) prog" where
  "aws_GetClusterAPIComponents A = ret (a_ControllerManager A)"

definition aws_UID :: string where "aws_UID = ''aws''"

definition aws_manager :: "('s, 'x) env \<Rightarrow> 'x aws_env \<Rightarrow> ('s, 'x) cloud_manager" where
  "aws_manager E A =
     \<lparr>cm_SetCloudConnector = aws_SetCloudConnector E A, cm_CreateCredentials = aws_CreateCredentials E,
      cm_ApplyDelete = aws_ApplyDelete E A, cm_ApplyScale = aws_ApplyScale,
      cm_SetDefaultCluster = aws_SetDefaultCluster E A,
      cm_GetDefaultMachineProviderSpec = aws_GetDefaultMachineProviderSpec A, cm_PrepareCloud = aws_PrepareCloud E A,
      cm_EnsureMaster = aws_EnsureMaster E A, cm_GetMasterSKU = aws_GetMasterSKU,
      cm_GetClusterAPIComponents = aws_GetClusterAPIComponents A,
      cm_GetAdminClient = GetAdminClient E\<rparr>"

end
