(* ===== verification/Aws_Correct.thy ===== *)
theory Aws_Correct
  imports Aws_Manager Linode_Correct
begin

text \<open>
  The AWS provider as a cloud manager: it meets the contract of \<open>cloud_provider\<close> with the final phase Deleting,
  since its \<^verbatim>\<open>ApplyDelete\<close> never says that the cluster is deleted.
\<close>

section \<open>Loops\<close>

lemma loop_run_inv: "loop_run body w = Some p \<Longrightarrow> invariant_of I body \<Longrightarrow> I w \<Longrightarrow> I (snd p)"
proof (induction body w p rule: loop_run.raw_induct [rotated 1, consumes 1])
  case (1 run body w p)
  show ?case
  proof (cases "body w")
    case (Pair r w')
    then have w': "I w'" using valid_Inr [OF 1(3,4)] valid_Inl [OF 1(3,4)] by (cases r) blast+
    show ?thesis
      using 1(2) Pair w' 1(1) [of body w' p] 1(3) by (auto split: sum.splits if_splits)
  qed
qed

lemma inv_forever [inv_rules]: "invariant_of I body \<Longrightarrow> invariant_of I (forever body)"
  by (rule validI) (auto simp: forever_def split: option.splits dest: loop_run_inv)

section \<open>What the connector leaves alone\<close>

lemma aws_manager_fields:
  "cm_SetCloudConnector (aws_manager E A) = aws_SetCloudConnector E A"
  "cm_CreateCredentials (aws_manager E A) = aws_CreateCredentials E"
  "cm_ApplyDelete (aws_manager E A) = aws_ApplyDelete E A"
  "cm_ApplyScale (aws_manager E A) = aws_ApplyScale"
  "cm_SetDefaultCluster (aws_manager E A) = aws_SetDefaultCluster E A"
  "cm_GetDefaultMachineProviderSpec (aws_manager E A) = aws_GetDefaultMachineProviderSpec A"
  "cm_PrepareCloud (aws_manager E A) = aws_PrepareCloud E A"
  "cm_EnsureMaster (aws_manager E A) = aws_EnsureMaster E A"
  "cm_GetClusterAPIComponents (aws_manager E A) = aws_GetClusterAPIComponents A"
  "cm_GetAdminClient (aws_manager E A) = GetAdminClient E"
  by (simp_all add: aws_manager_def)

lemma inv_bool [inv_rules]: "invariant_of I m \<Longrightarrow> invariant_of I n \<Longrightarrow> invariant_of I (case b of True \<Rightarrow> m | False \<Rightarrow> n)"
  by (cases b) simp_all

lemma inv_or_empty [inv_rules]: "invariant_of I m \<Longrightarrow> invariant_of I (or_empty m)"
  unfolding or_empty_def by (intro inv_rules)

lemma inv_get_or [inv_rules]: "invariant_of I m \<Longrightarrow> invariant_of I n \<Longrightarrow> invariant_of I (get_or m n)"
  unfolding get_or_def by (intro inv_rules)

lemma inv_aws_fields [inv_rules]: "invariant_of I aws_spec" "invariant_of I aws_status"
  unfolding aws_spec_def aws_status_def by (intro inv_rules)+

lemma inv_aws_render:
  "keeps_args I \<Longrightarrow> invariant_of I (aws_RenderStartupScript E A m token)"
  unfolding aws_RenderStartupScript_def aws_hooks_def
  by (rule inv_RenderStartupScript)
    (simp_all add: aws_NewNodeTemplateData_def aws_NewMasterTemplateData_def, (intro inv_rules inv_set_arg | assumption)+)

text \<open>
  A predicate that survives calls to the cloud and the assignments to the cluster object that the connector
  makes.
\<close>

locale aws_keeps =
  fixes I :: "('s, 'x) world \<Rightarrow> bool"
  assumes cloud: "I w \<Longrightarrow> I (w\<lparr>w_ext := x\<rparr>)"
    and os: "invariant_of I (upd_cluster (upd_CloudSpec (\<lambda>s. s\<lparr>OS := os\<rparr>)))"
    and image: "invariant_of I (upd_cluster (upd_CloudSpec (\<lambda>s. s\<lparr>InstanceImage := img\<rparr>)))"
    and status: "invariant_of I (upd_cluster (put_aws_status a))"
    and reason: "invariant_of I (upd_cluster (set_Reason r))"
    and balancer: "invariant_of I (upd_cluster (set_LoadBalancer lb))"
    and provider_spec: "invariant_of I (upd_cluster (set_ccProviderSpec raw))"
    and endpoints: "invariant_of I (try_endpoints addrs)"
begin

lemma inv_cloud [inv_rules]: "invariant_of I (on_ext m)"
  by (auto simp: valid_def prog_run intro: cloud split: prod.splits sum.splits)

lemmas updates [inv_rules] = os image status reason balancer provider_spec endpoints

lemma keep_helpers [inv_rules]:
  "invariant_of I m \<Longrightarrow> invariant_of I (aws_with_reason m)"
  "invariant_of I (upd_aws_status g)"
  "invariant_of I (try_ext k)"
  "invariant_of I (addTag A i kv)"
  "invariant_of I (addTags A i tags)"
  unfolding aws_with_reason_def upd_aws_status_def try_ext_def addTags_def addTag_def by (intro inv_rules | assumption)+

lemma keep_unauthorized [inv_rules]: "invariant_of I (aws_IsUnauthorized A)"
  by (auto simp: aws_IsUnauthorized_def valid_def intro: cloud split: option.splits)

lemma keep_iam [inv_rules]:
  "invariant_of I (getIAMProfile A)"
  "invariant_of I (conn_ensureIAMProfile A)"
  "invariant_of I (deleteIAMProfile A)"
  "invariant_of I (aws_getPublicKey A)"
  "invariant_of I (aws_importPublicKey A)"
  "invariant_of I (aws_deleteSSHKey A)"
  unfolding getIAMProfile_def conn_ensureIAMProfile_def ensure_profile_def createIAMProfile_def deleteIAMProfile_def deleteRolePolicy_def
    aws_getPublicKey_def aws_importPublicKey_def aws_deleteSSHKey_def
  by (intro inv_rules)+

lemma keep_gets [inv_rules]:
  "invariant_of I (getVpc A)"
  "invariant_of I (getSubnet A v p)"
  "invariant_of I (getInternetGateway A v)"
  "invariant_of I (getNatGateway A v)"
  "invariant_of I (getRouteTable A p v)"
  "invariant_of I (getLoadBalancer A)"
  "invariant_of I (getSecurityGroupID A v n)"
  "invariant_of I (getBastion A)"
  "invariant_of I (getMaster A n)"
  "invariant_of I (findElasticIP A)"
  unfolding getVpc_def getSubnet_def getInternetGateway_def getNatGateway_def getRouteTable_def getLoadBalancer_def
    getSecurityGroupID_def getBastion_def getMaster_def findElasticIP_def
  by (intro inv_rules)+

lemma keep_setups [inv_rules]:
  "invariant_of I (setupVpc A)"
  "invariant_of I (setupPrivateSubnet A v)"
  "invariant_of I (setupPublicSubnet A v)"
  "invariant_of I (setupInternetGateway A v)"
  "invariant_of I (setupNatGateway A s)"
  "invariant_of I (setupRouteTable A p v i n s1 s2)"
  "invariant_of I (setupLoadBalancer A s)"
  "invariant_of I (setupBastion A s)"
  unfolding setupVpc_def setupPrivateSubnet_def setupPublicSubnet_def setupInternetGateway_def setupNatGateway_def
    allocateElasticIP_def setupRouteTable_def setupLoadBalancer_def setupBastion_def run_instance_def
  by (intro inv_rules)+

lemma keep_groups [inv_rules]:
  "invariant_of I (detectSecurityGroups A v)"
  "invariant_of I (setupSecurityGroups A v)"
  unfolding setupSecurityGroups_def detectSecurityGroups_def setup_group_def detect_group_def createSecurityGroup_def authorize_group_def
  by (intro inv_rules)+

lemma keep_master [inv_rules]:
  "invariant_of I (startMaster A m s script)"
  "invariant_of I (getInstanceRootDeviceSize A i)"
proof -
  have "invariant_of I (root_device B r ds)" for B r ds
    by (induction B r ds rule: root_device.induct) (simp_all, (intro inv_rules impI conjI | assumption)+)
  then show "invariant_of I (getInstanceRootDeviceSize A i)" by (simp add: getInstanceRootDeviceSize_def)
qed (unfold startMaster_def detectUbuntuImage_def run_instance_def waitForInstanceState_def state_reached_def, intro inv_rules)

lemma keep_deletes [inv_rules]:
  "invariant_of I (aws_deleteLoadBalancer E A)"
  "invariant_of I (deleteSecurityGroup E A v)"
  "invariant_of I (deleteRouteTable A v)"
  "invariant_of I (deleteNatGateway E A n)"
  "invariant_of I (releaseReservedIP E A)"
  "invariant_of I (deleteInternetGateway A v)"
  "invariant_of I (deleteSubnetID A v)"
  "invariant_of I (deleteVpc A v)"
  "invariant_of I (deleteInstance A role)"
  unfolding aws_deleteLoadBalancer_def lb_gone_def deleteSecurityGroup_def delete_groups_def deleteRouteTable_def deleteNatGateway_def
    releaseReservedIP_def deleteInternetGateway_def deleteSubnetID_def deleteVpc_def deleteInstance_def Let_def
  by (intro inv_rules)+

lemma keep_ensures [inv_rules]:
  "invariant_of I (ensureIAMProfile A)"
  "invariant_of I (ensurePublicKey A)"
  "invariant_of I (ensureVPC A)"
  "invariant_of I (ensureSubnet A)"
  "invariant_of I (ensureInternetGateway A v)"
  "invariant_of I (ensureNatGateway A v s)"
  "invariant_of I (ensureRouteTable A v g n s1 s2)"
  "invariant_of I (ensureSecurityGroup A v)"
  "invariant_of I (ensureBastion A s)"
  "invariant_of I (ensureLoadBalancer A s)"
  unfolding ensureIAMProfile_def ensurePublicKey_def ensureVPC_def ensureSubnet_def ensureInternetGateway_def ensureNatGateway_def
    ensureRouteTable_def ensureSecurityGroup_def ensureBastion_def ensureLoadBalancer_def
  by (intro inv_rules)+

lemma keep_ApplyDelete: "invariant_of I (aws_ApplyDelete E A)"
  unfolding aws_ApplyDelete_def by (intro inv_rules)

end

section \<open>The contract\<close>

lemma core_aws [simp]:
  "core_of (upd_CloudSpec (\<lambda>s. s\<lparr>OS := os\<rparr>) c) = core_of c"
  "core_of (upd_CloudSpec (\<lambda>s. s\<lparr>InstanceImage := img\<rparr>) c) = core_of c"
  "core_of (put_aws_status a c) = core_of c"
  "core_of (set_Reason r c) = core_of c"
  by (simp_all add: core_of_def put_aws_status_def set_Reason_def upd_CloudSpec_def cluster_upd)

interpretation core_aws: aws_keeps "core_is k" for k
  by unfold_locales (simp_all add: core_do_updates core_try_endpoints, (rule inv_upd_cluster; simp)+)

lemmas core_aws_render [inv_rules] = inv_aws_render [OF keeps_args_core]

lemma keep_aws_manager:
  "invariant_of (core_is k) (aws_SetCloudConnector E A)"
  "invariant_of (core_is k) (aws_CreateCredentials E)"
  "invariant_of (core_is k) (aws_GetDefaultMachineProviderSpec A sku role)"
  "invariant_of (core_is k) (aws_PrepareCloud E A)"
  "invariant_of (core_is k) (aws_EnsureMaster E A m)"
  "invariant_of (core_is k) (aws_GetClusterAPIComponents A)"
  "invariant_of (core_is k) aws_ApplyScale"
  "invariant_of (core_is k) (GetAdminClient E)"
  unfolding aws_SetCloudConnector_def aws_newconnector_def aws_CreateCredentials_def aws_GetDefaultMachineProviderSpec_def
    aws_PrepareCloud_def aws_EnsureMaster_def master_created_def aws_GetClusterAPIComponents_def aws_ApplyScale_def Let_def
  by (intro inv_rules)+

lemma keep_aws_defaults: "invariant_of (core_is (ClusterPending, r)) (aws_SetDefaultCluster E A)"
proof -
  have "core_of (aws_defaults c) = (ClusterPending, snd (core_of c))" for c
    by (simp add: core_of_def aws_defaults_def cluster_upd)
  then have "invariant_of (core_is (ClusterPending, r)) (upd_cluster aws_defaults)"
    by (intro inv_upd_cluster) auto
  then show ?thesis
    unfolding aws_SetDefaultCluster_def SetClusterProviderConfig_def by (intro inv_rules)
qed

interpretation aws: cloud_provider "aws_manager E A" ClusterDeleting for E A
proof (unfold_locales, unfold aws_manager_fields)
  show "valid (core_is (ClusterDeleting, r)) (aws_ApplyDelete E A) (\<lambda>_. core_is (ClusterDeleting, r))
      (\<lambda>_ w. core_is (ClusterDeleting, r) w \<or> core_is (ClusterDeleting, r) w)" for r
    using core_aws.keep_ApplyDelete by simp
qed (rule keep_aws_manager keep_aws_defaults | simp)+

text \<open>The file store under this provider.\<close>

sublocale world_cluster \<subseteq> aws_files: aws_keeps I
  by unfold_locales (use ext in blast, (intro inv_rules)+)

context world_cluster
begin

lemmas keep_aws_render [inv_rules] = inv_aws_render [OF keeps_args_cluster]

lemma aws_manager_keeps: "manager_keeps I (aws_manager E A)"
proof -
  have "invariant_of I (aws_SetCloudConnector E A)" "invariant_of I (aws_CreateCredentials E)" "invariant_of I (aws_SetDefaultCluster E A)"
    "invariant_of I (aws_GetDefaultMachineProviderSpec A sku role)" "invariant_of I (aws_PrepareCloud E A)"
    "invariant_of I (aws_EnsureMaster E A m)" "invariant_of I (aws_GetClusterAPIComponents A)" "invariant_of I aws_ApplyScale" "invariant_of I (GetAdminClient E)" for sku role m
    unfolding aws_SetCloudConnector_def aws_newconnector_def aws_CreateCredentials_def aws_SetDefaultCluster_def SetClusterProviderConfig_def
      aws_GetDefaultMachineProviderSpec_def aws_PrepareCloud_def aws_EnsureMaster_def master_created_def aws_GetClusterAPIComponents_def
      aws_ApplyScale_def Let_def
    by (intro inv_rules)+
  then show ?thesis by (simp add: manager_keeps_def aws_manager_fields aws_files.keep_ApplyDelete)
qed

end

section \<open>The registry\<close>

text \<open>An environment whose only provider is AWS.\<close>

definition aws_registry :: "('s, 'x) env \<Rightarrow> 'x aws_env \<Rightarrow> ('s, 'x) env" where
  "aws_registry E A = E\<lparr>e_providers := [aws_UID \<mapsto> aws_manager E A]\<rparr>"

interpretation with_aws: late_orchestration "aws_registry E A" for E A
proof (rule late_orchestration.intro, rule orchestration.intro)
  show "ClusterDeleting = ClusterDeleting \<or> ClusterDeleting = ClusterDeleted" by simp
next
  fix p cm
  assume "e_providers (aws_registry E A) p = Some cm"
  then have "cm = aws_manager E A" by (simp add: aws_registry_def split: if_splits)
  then show "cloud_provider cm ClusterDeleting" using aws.cloud_provider_axioms by simp
qed

end
