(* ===== verification/Aws_Tags_Props.thy ===== *)
theory Aws_Tags_Props
  imports Aws_Types Store_Vfs_Correct
begin

text \<open>
  Properties of the objects of the AWS provider: the tags by which resources are recognised, and the difference
  of two lists of ingress rules.
\<close>

section \<open>Tags\<close>

lemma tag_keys [simp]:
  "NameAWSProviderManaged \<noteq> NameAWSClusterAPIRole" "NameAWSClusterAPIRole \<noteq> NameAWSProviderManaged"
  "NameAWSProviderManaged \<noteq> ''Name''" "NameAWSClusterAPIRole \<noteq> ''Name''" "''Name'' \<noteq> NameAWSProviderManaged"
  "''Name'' \<noteq> NameAWSClusterAPIRole" "ClusterKey n \<noteq> ''Name''" "ClusterKey n \<noteq> NameAWSProviderManaged"
  "ClusterKey n \<noteq> NameAWSClusterAPIRole" "''Name'' \<noteq> ClusterKey n" "NameAWSProviderManaged \<noteq> ClusterKey n"
  "NameAWSClusterAPIRole \<noteq> ClusterKey n" "ClusterKey m = ClusterKey n \<longleftrightarrow> m = n"
  by (simp_all add: ClusterKey_def NameKubernetesClusterPrefix_def NameAWSProviderManaged_def NameAWSProviderPrefix_def
      NameAWSClusterAPIRole_def)

lemma owned_path:
  assumes "plain_seg n"
  shows "filepath_Join [NameKubernetesClusterPrefix, n] = ClusterKey n"
  using assms
  by (simp add: filepath_Join_def join_Cons NameKubernetesClusterPrefix_def ClusterKey_def filepath_Clean_def plain_seg_def
      clean_step_def)

lemma tag_of_Build:
  "tag_of (Some (Build p)) (ClusterKey n) =
     (if n = bp_ClusterName p then Some (Lifecycle p) else tag_of (Additional p) (ClusterKey n))"
  "tag_of (Some (Build p)) NameAWSProviderManaged =
     (if Lifecycle p = ResourceLifecycleOwned then Some ''true'' else tag_of (Additional p) NameAWSProviderManaged)"
  "tag_of (Some (Build p)) NameAWSClusterAPIRole =
     (case bp_Role p of None \<Rightarrow> tag_of (Additional p) NameAWSClusterAPIRole | Some r \<Rightarrow> Some r)"
  "tag_of (Some (Build p)) ''Name'' = (case bp_Name p of None \<Rightarrow> tag_of (Additional p) ''Name'' | Some n \<Rightarrow> Some n)"
  by (auto simp: tag_of_def Build_def Let_def split: option.splits)

text \<open>C33. What \<^verbatim>\<open>Build\<close> writes, the readers find: a resource built as owned by a cluster whose name is a plain path
  segment has the tags of an owned and managed resource of that cluster, and a role that was given is read back.
  A resource built with another lifecycle is not owned by the cluster.  For every other cluster, and where no role
  is given, the additional tags decide.\<close>

theorem tags_built:
  assumes "plain_seg (bp_ClusterName p)" "plain_seg n"
  shows "(HasOwned (Some (Build p)) n \<longleftrightarrow>
      (if n = bp_ClusterName p then Lifecycle p = ResourceLifecycleOwned else HasOwned (Additional p) n)) \<and>
    (HasManaged (Some (Build p)) \<longleftrightarrow> (Lifecycle p = ResourceLifecycleOwned \<or> HasManaged (Additional p))) \<and>
    GetRole (Some (Build p)) = (case bp_Role p of None \<Rightarrow> GetRole (Additional p) | Some r \<Rightarrow> r)"
  using assms by (auto simp: HasOwned_def owned_path HasManaged_def GetRole_def tag_of_Build split: option.splits)

theorem tags_built_witness:
  "HasOwned (Some (Build \<lparr>Lifecycle = ''owned'', bp_ClusterName = ''c1'', ResourceID = ''i'', bp_Name = None, bp_Role = Some ''common'',
     Additional = None\<rparr>)) ''c1''"
  using tags_built [of "\<lparr>Lifecycle = ''owned'', bp_ClusterName = ''c1'', ResourceID = ''i'', bp_Name = None, bp_Role = Some ''common'',
     Additional = None\<rparr>" "''c1''"] by (simp add: plain_seg_def ResourceLifecycleOwned_def)

text \<open>A name that is not a plain segment: the tag that is written is not the tag that is looked for.\<close>

lemma owned_not_found:
  "\<not> HasOwned (Some (Build \<lparr>Lifecycle = ''owned'', bp_ClusterName = ''a/'', ResourceID = ''i'', bp_Name = None, bp_Role = None,
     Additional = None\<rparr>)) ''a/''"
proof -
  have "filepath_Join [NameKubernetesClusterPrefix, ''a/''] = ClusterKey ''a''"
    by (simp add: filepath_Join_def join_Cons NameKubernetesClusterPrefix_def ClusterKey_def filepath_Clean_def clean_step_def)
  then show ?thesis by (simp add: HasOwned_def tag_of_Build) (simp add: tag_of_def)
qed

lemma Difference_lookup:
  "fmlookup (Map_Difference m other) k = (if tag_of m k \<noteq> tag_of other k then tag_of m k else None)"
  by (auto simp: Map_Difference_def tag_of_def split: option.splits)

text \<open>The difference holds the entries that are missing or different in the other map, and is empty exactly if the
  other map contains the first.\<close>

lemma tags_difference:
  "fmlookup (Map_Difference m other) k = Some v \<longleftrightarrow> tag_of m k = Some v \<and> tag_of other k \<noteq> Some v"
  "Map_Difference m other = fmempty \<longleftrightarrow> (\<forall>k v. tag_of m k = Some v \<longrightarrow> tag_of other k = Some v)"
proof -
  show l: "fmlookup (Map_Difference m other) k = Some v \<longleftrightarrow> tag_of m k = Some v \<and> tag_of other k \<noteq> Some v" for k v
    by (auto simp: Difference_lookup)
  have "Map_Difference m other = fmempty \<longleftrightarrow> (\<forall>k v. fmlookup (Map_Difference m other) k \<noteq> Some v)"
    by (metis fmap_ext fmempty_lookup not_Some_eq)
  then show "Map_Difference m other = fmempty \<longleftrightarrow> (\<forall>k v. tag_of m k = Some v \<longrightarrow> tag_of other k = Some v)"
    by (auto simp: l)
qed

text \<open>\<^verbatim>\<open>Ensure\<close> writes tags exactly if the present ones are not those it wants, an extra tag included.\<close>

lemma Ensure_writes:
  "Ensure C ord current p x = (if current = Some (Build p) then (Inr (), x) else aws_Apply C ord p x)"
  by (simp add: Ensure_def Map_Equals_def prog_run)

section \<open>Ingress rules\<close>

text \<open>Two rules are the same if they agree up to the order of their ranges and groups.\<close>

definition rule_content :: "IngressRule \<Rightarrow> string \<times> string \<times> int \<times> int \<times> string multiset \<times> string multiset" where
  "rule_content r = (Description r, Protocol r, FromPort r, ToPort r, mset (CidrBlocks r), mset (SourceSecurityGroupIDs r))"

lemma sort_eq_iff: "sort xs = sort ys \<longleftrightarrow> mset xs = mset (ys :: string list)"
  by (metis mset_sort properties_for_sort sorted_sort)

lemma content_sorts [simp]:
  "rule_content (sort_cidrs p h q) = rule_content (h q)"
  "rule_content (sort_groups p h q) = rule_content (h q)"
  by (simp_all add: rule_content_def sort_cidrs_def sort_groups_def)

lemma Equals_content:
  assumes "Equals i j h = (e, h')"
  shows "(e \<longleftrightarrow> rule_content (h i) = rule_content (h j)) \<and> (\<forall>p. rule_content (h' p) = rule_content (h p))"
proof
  have c: "CidrBlocks (sort_cidrs j (sort_cidrs i h) i) = CidrBlocks (sort_cidrs j (sort_cidrs i h) j) \<longleftrightarrow>
      mset (CidrBlocks (h i)) = mset (CidrBlocks (h j))"
    and f: "SourceSecurityGroupIDs (sort_cidrs j (sort_cidrs i h) q) = SourceSecurityGroupIDs (h q)"
      "Description (sort_cidrs j (sort_cidrs i h) q) = Description (h q)"
      "Protocol (sort_cidrs j (sort_cidrs i h) q) = Protocol (h q)"
      "FromPort (sort_cidrs j (sort_cidrs i h) q) = FromPort (h q)" "ToPort (sort_cidrs j (sort_cidrs i h) q) = ToPort (h q)" for q
    by (auto simp: sort_cidrs_def sort_eq_iff)
  have g: "SourceSecurityGroupIDs (sort_groups j (sort_groups i k) i) = SourceSecurityGroupIDs (sort_groups j (sort_groups i k) j) \<longleftrightarrow>
      mset (SourceSecurityGroupIDs (k i)) = mset (SourceSecurityGroupIDs (k j))"
    and k: "Description (sort_groups j (sort_groups i k) q) = Description (k q)"
      "Protocol (sort_groups j (sort_groups i k) q) = Protocol (k q)"
      "FromPort (sort_groups j (sort_groups i k) q) = FromPort (k q)" "ToPort (sort_groups j (sort_groups i k) q) = ToPort (k q)" for k q
    by (auto simp: sort_groups_def sort_eq_iff)
  note len = mset_eq_length [of "CidrBlocks (h i)" "CidrBlocks (h j)"]
    mset_eq_length [of "SourceSecurityGroupIDs (h i)" "SourceSecurityGroupIDs (h j)"]
  show "e \<longleftrightarrow> rule_content (h i) = rule_content (h j)"
    using assms len by (auto simp: Equals_def Let_def rule_content_def c g f k split: if_splits)
  show "\<forall>p. rule_content (h' p) = rule_content (h p)"
    using assms by (auto simp: Equals_def Let_def split: if_splits)
qed

lemma found_content:
  "rule_found x ys h = (e, h') \<Longrightarrow>
    (e \<longleftrightarrow> (\<exists>y \<in> set ys. rule_content (h x) = rule_content (h y))) \<and> (\<forall>p. rule_content (h' p) = rule_content (h p))"
  by (induction x ys h rule: rule_found.induct) (auto split: prod.splits if_splits dest!: Equals_content)

text \<open>C34. The difference of two lists of ingress rules keeps, in their order, exactly the rules of the first list that
  agree with no rule of the second up to the order of ranges and groups.  Though it sorts the fields of the rules of
  both lists in place, the content of every rule stays.\<close>

theorem ingress_difference:
  "fst (IngressRules_Difference xs ys h) = [x \<leftarrow> xs. \<not> (\<exists>y \<in> set ys. rule_content (h x) = rule_content (h y))] \<and>
   rule_content \<circ> snd (IngressRules_Difference xs ys h) = rule_content \<circ> h"
proof (induction xs arbitrary: h)
  case (Cons x xs)
  obtain e h1 where f: "rule_found x ys h = (e, h1)" by fastforce
  then have c: "rule_content (h1 p) = rule_content (h p)" for p using found_content by blast
  show ?case
    using Cons.IH [of h1] found_content [OF f] by (auto simp: f c fun_eq_iff split: prod.splits)
qed (simp add: fun_eq_iff)

end
