(* ===== verification/Aws_Props.thy ===== *)
theory Aws_Props
  imports Aws_Correct Aws_Tags_Props Linode_Props
begin

text \<open>
  Properties of the AWS provider: the phases of its clusters, the endpoint and the network that the preparation of
  the cloud leaves behind, the VPC, the ports that are open, the loop that waits for an instance, and deletion.
\<close>

section \<open>Phases\<close>

text \<open>C31. A cluster on AWS is never deleted as far as its record says: if \<^verbatim>\<open>Apply\<close> succeeds on a cluster that is marked
  for deletion, the cluster is in phase Deleting, and whatever fails, it is not in phase Deleted either.
  Otherwise the phases are those of the other providers.\<close>

theorem aws_never_deleted:
  "valid (core_is (ClusterPending, n, d, cp)) (Apply (aws_registry E A))
     (\<lambda>_. core_is (if d = None then ClusterReady else ClusterDeleting, n, d, cp))
     (\<lambda>_ w. \<exists>q \<in> {ClusterPending, ClusterReady, ClusterDeleting}. core_is (q, n, d, cp) w) \<and>
   valid (core_is (ClusterReady, n, d, cp)) (Apply (aws_registry E A))
     (\<lambda>_. core_is (if d = None then ClusterReady else ClusterDeleting, n, d, cp))
     (\<lambda>_ w. \<exists>q \<in> {ClusterReady, ClusterDeleting}. core_is (q, n, d, cp) w) \<and>
   valid (core_is (ClusterDeleting, n, d, cp)) (Apply (aws_registry E A))
     (\<lambda>_. core_is (ClusterDeleting, n, d, cp)) (\<lambda>_. core_is (ClusterDeleting, n, d, cp))"
  by (rule with_aws.never_deleted)

section \<open>Deletion of the load balancer\<close>

lemma poll_success:
  assumes "PollImmediate n cond w = (Inr (), w')" "invariant_of I cond" "I w"
  shows "\<exists>w1. I w1 \<and> cond w1 = (Inr True, w')"
proof -
  have "poll_loop k cond v = (Inr (), w') \<Longrightarrow> I v \<Longrightarrow> \<exists>w1. I w1 \<and> cond w1 = (Inr True, w')" for k v
  proof (induction k arbitrary: v)
    case 0
    then show ?case by (cases "cond v") (auto simp: prog_run split: sum.splits if_splits)
  next
    case (Suc k)
    then show ?case
      by (cases "cond v") (auto simp: prog_run split: sum.splits if_splits dest: valid_Inr [OF assms(2)])
  qed
  then show ?thesis using assms unfolding PollImmediate_def by blast
qed

text \<open>C32. Deleting the load balancer succeeds only once describing it fails with \<^verbatim>\<open>LoadBalancerNotFound\<close>.  If the load
  balancer is still described when the code polls for the first time, the deletion of the cluster ends in a panic,
  as the message of an error is asked for that is not there.\<close>

theorem aws_delete_balancer:
  "valid (\<lambda>w. w_Cluster w = c) (aws_deleteLoadBalancer E A)
     (\<lambda>_ w. \<exists>x m. DescribeLoadBalancers (a_elb A) [apiserver_name c] x = (Inl (Err m), w_ext w) \<and> str_contains m ''LoadBalancerNotFound'')
     (\<lambda>_ _. True) \<and>
   valid (\<lambda>w. w_Cluster w = c \<and> (\<exists>x1 lbs x2. DeleteLoadBalancer (a_elb A) (apiserver_name c) (w_ext w) = (Inr (), x1) \<and>
        DescribeLoadBalancers (a_elb A) [apiserver_name c] x1 = (Inr lbs, x2))) (aws_deleteLoadBalancer E A)
     (\<lambda>_ _. False) (\<lambda>e _. e = Panic ''nil pointer dereference'')"
proof
  have inv: "invariant_of (\<lambda>w. w_Cluster w = c) (lb_gone A)"
    unfolding lb_gone_def getLoadBalancer_def by (intro inv_rules)
  show "valid (\<lambda>w. w_Cluster w = c) (aws_deleteLoadBalancer E A)
     (\<lambda>_ w. \<exists>x m. DescribeLoadBalancers (a_elb A) [apiserver_name c] x = (Inl (Err m), w_ext w) \<and> str_contains m ''LoadBalancerNotFound'')
     (\<lambda>_ _. True)"
  proof (rule validI)
    fix w b w'
    assume w: "w_Cluster w = c" and run: "aws_deleteLoadBalancer E A w = (Inr b, w')"
    then obtain x where "PollImmediate (poll_ticks (e_sys E)) (lb_gone A) (w\<lparr>w_ext := x\<rparr>) = (Inr (), w')"
      by (auto simp: aws_deleteLoadBalancer_def on_ext_def prog_run split: prod.splits sum.splits)
    from poll_success [OF this inv] w obtain v where "w_Cluster v = c" "lb_gone A v = (Inr True, w')" by auto
    then show "\<exists>x m. DescribeLoadBalancers (a_elb A) [apiserver_name c] x = (Inl (Err m), w_ext w') \<and> str_contains m ''LoadBalancerNotFound''"
      by (fastforce simp: lb_gone_def getLoadBalancer_def on_ext_def prog_run split: prod.splits sum.splits list.splits gerror.splits)
  qed simp
qed (auto simp: valid_def aws_deleteLoadBalancer_def PollImmediate_def lb_gone_def getLoadBalancer_def on_ext_def prog_run split: list.splits)

section \<open>A cloud for the examples\<close>

text \<open>A cloud that cannot be reached; an example says which calls answer.\<close>

abbreviation offline :: "('x, 'a) prog" where "offline \<equiv> fail (Err ''offline'')"

definition offline_iam_ops :: "'x iam_ops" where
  "offline_iam_ops = \<lparr>NewSession = (\<lambda>_ _ _. offline), SharedSession = offline,
     GetCallerIdentity = offline, ListPolicies = (\<lambda>_. offline),
     GetInstanceProfile = (\<lambda>_. offline), CreateRole = (\<lambda>_ _. offline),
     PutRolePolicy = (\<lambda>_ _ _. offline), CreateInstanceProfile = (\<lambda>_. offline),
     AddRoleToInstanceProfile = (\<lambda>_ _. offline),
     RemoveRoleFromInstanceProfile = (\<lambda>_ _. offline),
     DeleteRolePolicy = (\<lambda>_ _. offline), DeleteRole = (\<lambda>_. offline),
     DeleteInstanceProfile = (\<lambda>_. offline)\<rparr>"

definition offline_net_ops :: "'x net_ops" where
  "offline_net_ops = \<lparr>DescribeVpcs = (\<lambda>_. offline),
     CreateVpc = (\<lambda>_. offline), WaitUntilVpcAvailable = (\<lambda>_. offline),
     DeleteVpc = (\<lambda>_. offline), DescribeSubnets = (\<lambda>_. offline),
     CreateSubnet = (\<lambda>_ _ _. offline), WaitUntilSubnetAvailable = (\<lambda>_. offline),
     ModifySubnetAttribute = (\<lambda>_. offline), DeleteSubnet = (\<lambda>_. offline),
     DescribeInternetGateways = (\<lambda>_. offline), CreateInternetGateway = offline,
     AttachInternetGateway = (\<lambda>_ _. offline),
     DetachInternetGateway = (\<lambda>_ _. offline),
     DeleteInternetGateway = (\<lambda>_. offline),
     DescribeNatGateways = (\<lambda>_ _. offline), CreateNatGateway = (\<lambda>_ _. offline),
     WaitUntilNatGatewayAvailable = (\<lambda>_. offline),
     DeleteNatGateway = (\<lambda>_. offline), DescribeRouteTables = (\<lambda>_. offline),
     CreateRouteTable = (\<lambda>_. offline), CreateRoute = (\<lambda>_ _ _. offline),
     AssociateRouteTable = (\<lambda>_ _. offline),
     DisassociateRouteTable = (\<lambda>_. offline), DeleteRouteTable = (\<lambda>_. offline)\<rparr>"

definition offline_ec2_ops :: "'x ec2_ops" where
  "offline_ec2_ops = \<lparr>DescribeImages = (\<lambda>_ _. offline),
     DescribeVolumes = (\<lambda>_. offline), DescribeKeyPairs = (\<lambda>_. offline),
     ImportKeyPair = (\<lambda>_ _. offline), DeleteKeyPair = (\<lambda>_. offline),
     CreateTags = (\<lambda>_ _. offline), DescribeSecurityGroups = (\<lambda>_. offline),
     CreateSecurityGroup = (\<lambda>_ _ _. offline),
     AuthorizeSecurityGroupIngress = (\<lambda>_ _. offline),
     RevokeSecurityGroupIngress = (\<lambda>_ _. offline),
     RevokeSecurityGroupEgress = (\<lambda>_ _. offline),
     DeleteSecurityGroup = (\<lambda>_. offline), DescribeInstances = (\<lambda>_ _. offline),
     RunInstances = (\<lambda>_. offline), TerminateInstances = (\<lambda>_. offline),
     WaitUntilInstanceTerminated = (\<lambda>_. offline), AllocateAddress = offline,
     DescribeAddresses = (\<lambda>_. offline), ReleaseAddress = (\<lambda>_. offline)\<rparr>"

definition offline_elb_ops :: "'x elb_ops" where
  "offline_elb_ops = \<lparr>DescribeLoadBalancers = (\<lambda>_. offline),
     CreateLoadBalancer = (\<lambda>_. offline), ConfigureHealthCheck = (\<lambda>_ _. offline),
     DeleteLoadBalancer = (\<lambda>_. offline),
     RegisterInstancesWithLoadBalancer = (\<lambda>_ _. offline)\<rparr>"

definition blank_codec :: "'a \<Rightarrow> 'a codec" where
  "blank_codec z = \<lparr>marshal = (\<lambda>_. Inr ''{}''), unmarshal = (\<lambda>_. Inr z)\<rparr>"

definition offline_aws :: "'x aws_env" where
  "offline_aws = \<lparr>a_iam = offline_iam_ops, a_net = offline_net_ops, a_ec2 = offline_ec2_ops, a_elb = offline_elb_ops,
     a_cred_IsValid = (\<lambda>_. Inr ()),
     a_codecs = \<lparr>ak_ClusterSpec = blank_codec zero_AWSClusterProviderSpec, ak_MachineSpec = blank_codec zero_AWSMachineProviderSpec,
       ak_MachineStatus = blank_codec zero_AWSMachineProviderStatus\<rparr>,
     a_startup = plain_startup, a_template = '''', IAMMasterRole = '''', IAMNodeRole = '''', IAMMasterPolicy = '''',
     IAMControllerPolicy = '''', IAMNodePolicy = '''', NewBastion = Inr '''', base64_Encode = id, map_order = (\<lambda>kvs. ret kvs),
     a_connected = (\<lambda>_. True), a_set_connected = (\<lambda>_ x. x), a_ControllerManager = ''''\<rparr>"

definition aws_world :: "'s \<Rightarrow> 'x \<Rightarrow> ('s, 'x) world" where
  "aws_world s x = \<lparr>w_Cluster = aws_defaults (named_cluster ''c1''), w_Certs = None, w_CloudManager = None, w_AdminClient = False,
     w_store = s, w_ext = x\<rparr>"

section \<open>Waiting for an instance\<close>


lemma loop_run_never:
  "loop_run body w = Some p \<Longrightarrow> J w \<Longrightarrow> (\<And>v. J v \<Longrightarrow> \<exists>v'. body v = (Inr False, v') \<and> J v') \<Longrightarrow> False"
proof (induction body w p rule: loop_run.raw_induct [rotated 1, consumes 1])
  case (1 run body w p)
  obtain v' where "body w = (Inr False, v')" "J v'" using 1(4) [OF 1(3)] by blast
  then show ?case using 1(1) [of body v' p] 1(2) 1(4) by auto
qed

lemma loop_run_steps:
  assumes "\<And>k. k < n \<Longrightarrow> body (v k) = (Inr False, v (Suc k))" "body (v n) = (Inr True, w')"
  shows "loop_run body (v 0) = Some (Inr (), w')"
proof -
  have "k \<le> n \<Longrightarrow> loop_run body (v (n - k)) = Some (Inr (), w')" for k
  proof (induction k)
    case 0
    show ?case by (subst loop_run.simps) (simp add: assms(2))
  next
    case (Suc k)
    then have "Suc (n - Suc k) = n - k" by simp
    with Suc show ?case by (subst loop_run.simps) (simp add: assms(1))
  qed
  from this [of n] show ?thesis by simp
qed

text \<open>C30. Waiting for a state of an instance: the loop asks for the instance until it is in that state and then returns,
  after exactly as many calls as that takes; if the state is never reached, it has no result.  An answer without
  the instance is a panic.\<close>

theorem aws_wait_instance:
  assumes "\<And>k. DescribeInstances (a_ec2 A) [] [i] (x k) = (Inr [[inst k]], x (Suc k))"
  shows "(\<forall>n. ec_State (inst n) = s \<and> (\<forall>k < n. ec_State (inst k) \<noteq> s) \<longrightarrow>
      waitForInstanceState A i s (w\<lparr>w_ext := x 0\<rparr>) = (Inr (), w\<lparr>w_ext := x (Suc n)\<rparr>)) \<and>
    ((\<forall>k. ec_State (inst k) \<noteq> s) \<longrightarrow> loop_run (state_reached A i s) (w\<lparr>w_ext := x 0\<rparr>) = None) \<and>
    (\<forall>y y'. DescribeInstances (a_ec2 A) [] [i] y = (Inr [], y') \<longrightarrow>
      waitForInstanceState A i s (w\<lparr>w_ext := y\<rparr>) = (Inl (Panic ''index out of range''), w\<lparr>w_ext := y'\<rparr>))"
proof -
  have step: "state_reached A i s (w\<lparr>w_ext := x k\<rparr>) = (Inr (ec_State (inst k) = s), w\<lparr>w_ext := x (Suc k)\<rparr>)" for k
    by (simp add: state_reached_def on_ext_def index0_def prog_run assms)
  have "waitForInstanceState A i s (w\<lparr>w_ext := x 0\<rparr>) = (Inr (), w\<lparr>w_ext := x (Suc n)\<rparr>)"
    if "ec_State (inst n) = s" "\<forall>k < n. ec_State (inst k) \<noteq> s" for n
    using that loop_run_steps [of n "state_reached A i s" "\<lambda>k. w\<lparr>w_ext := x k\<rparr>" "w\<lparr>w_ext := x (Suc n)\<rparr>"]
    by (simp add: step waitForInstanceState_def forever_def)
  moreover have "loop_run (state_reached A i s) (w\<lparr>w_ext := x 0\<rparr>) = None" if "\<forall>k. ec_State (inst k) \<noteq> s"
  proof (rule ccontr)
    assume "loop_run (state_reached A i s) (w\<lparr>w_ext := x 0\<rparr>) \<noteq> None"
    then obtain p where "loop_run (state_reached A i s) (w\<lparr>w_ext := x 0\<rparr>) = Some p" by blast
    then show False
      by (rule loop_run_never [where J = "\<lambda>v. \<exists>k. v = w\<lparr>w_ext := x k\<rparr>"]) (use that step in auto)
  qed
  moreover have "waitForInstanceState A i s (w\<lparr>w_ext := y\<rparr>) = (Inl (Panic ''index out of range''), w\<lparr>w_ext := y'\<rparr>)"
    if "DescribeInstances (a_ec2 A) [] [i] y = (Inr [], y')" for y y'
    by (simp add: waitForInstanceState_def forever_def, subst loop_run.simps)
      (simp add: state_reached_def on_ext_def index0_def prog_run that)
  ultimately show ?thesis by blast
qed

text \<open>An instance that runs from the third call on; the state counts the calls.\<close>

definition booting :: "nat aws_env" where
  "booting = offline_aws\<lparr>a_ec2 := offline_ec2_ops\<lparr>DescribeInstances := (\<lambda>_ _ k.
     (Inr [[\<lparr>ec_ID = ''i'', ec_State = (if k < 2 then ''pending'' else ''running''), ec_RootDeviceName = '''', ec_Devices = []\<rparr>]], Suc k))\<rparr>\<rparr>"

theorem aws_wait_instance_witness:
  "waitForInstanceState booting ''i'' ''running'' (aws_world () 0) = (Inr (), aws_world () 3)"
  using aws_wait_instance [of booting "''i''" "\<lambda>k. k"
      "\<lambda>k. \<lparr>ec_ID = ''i'', ec_State = (if k < 2 then ''pending'' else ''running''), ec_RootDeviceName = '''', ec_Devices = []\<rparr>"
      "''running''" "aws_world () 0"]
  by (auto simp: booting_def aws_world_def split: if_splits dest: spec [of _ 2])

section \<open>What the preparation of the cloud leaves behind\<close>

text \<open>The balancer of a cluster as the calls gave it: created with the request for this cluster and its group of masters, and checked
  by its name, which was the last call.\<close>

definition elb_gave :: "'x aws_env \<Rightarrow> Cluster \<Rightarrow> string \<Rightarrow> 'x \<Rightarrow> bool" where
  "elb_gave A c dns y \<longleftrightarrow> (\<exists>st x x' subnet. cs_AWS (cst_Cloud (Status c)) = Some st \<and>
     CreateLoadBalancer (a_elb A) (lb_input c subnet (MasterSGId st)) x = (Inr dns, x') \<and>
     ConfigureHealthCheck (a_elb A) (apiserver_name c) lb_health x' = (Inr (), y))"

text \<open>The status names the load balancer by the DNS name, and the last endpoint of the cluster is that name.\<close>

definition dns_endpoint :: "string \<Rightarrow> Cluster \<Rightarrow> bool" where
  "dns_endpoint dns c \<longleftrightarrow> dns \<noteq> '''' \<and>
     cs_LoadBalancer (cst_Cloud (Status c)) = \<lparr>lb_DNS = dns, lb_IP = '''', lb_Port = DefaultKubernetesBindPort\<rparr> \<and>
     c_Endpoints c \<noteq> [] \<and> last (c_Endpoints c) = \<lparr>Host = dns, Port = DefaultKubernetesBindPort\<rparr>"

lemma balancer_kept:
  "dns_endpoint d (set_ccProviderSpec raw c) = dns_endpoint d c" "dns_endpoint d (assign_Cluster c) = dns_endpoint d c"
  "elb_gave A (set_ccProviderSpec raw c) d y = elb_gave A c d y" "elb_gave A (assign_Cluster c) d y = elb_gave A c d y"
  by (simp_all add: dns_endpoint_def elb_gave_def lb_input_def apiserver_name_def owned_key_def set_ccProviderSpec_def cluster_upd)

lemma aws_with_reason_Inr: "aws_with_reason m w = (Inr x, w') \<Longrightarrow> m w = (Inr x, w')"
  by (auto simp: aws_with_reason_def prog_run split: prod.splits sum.splits gerror.splits)

lemma pwrap_Inr: "pwrap t m w = (Inr x, w') \<Longrightarrow> m w = (Inr x, w')"
  by (auto simp: pwrap_def rwrap_def split: prod.splits sum.splits)

lemma on_ext_iff: "on_ext m w = (r, w') \<longleftrightarrow> (\<exists>x. m (w_ext w) = (r, x) \<and> w' = w\<lparr>w_ext := x\<rparr>)"
  by (auto simp: on_ext_def split: prod.splits)

lemma aws_status_Inr: "aws_status w = (Inr st, w') \<longleftrightarrow> cs_AWS (cst_Cloud (Status (w_Cluster w))) = Some st \<and> w' = w"
  by (auto simp: aws_status_def prog_run split: option.splits)

lemma aws_spec_Inr: "aws_spec w = (Inr a, w') \<longleftrightarrow> AWS (c_CloudSpec (w_Cluster w)) = Some a \<and> w' = w"
  by (auto simp: aws_spec_def prog_run split: option.splits)

lemma setupLoadBalancer_gave:
  assumes "setupLoadBalancer A s w = (Inr dns, w')"
  shows "elb_gave A (w_Cluster w') dns (w_ext w')"
  using assms by (auto simp: setupLoadBalancer_def bindp_Inr_iff on_ext_iff aws_status_Inr run_simps elb_gave_def) blast

lemma balancer_endpoint:
  assumes "ensureLoadBalancer A s w = (Inr (), w')"
  shows "\<exists>dns. elb_gave A (w_Cluster w') dns (w_ext w') \<and> dns_endpoint dns (w_Cluster w')"
proof -
  from assms obtain dns w1 w2 where dns: "dns \<noteq> ''''" and gave: "elb_gave A (w_Cluster w1) dns (w_ext w1)"
    and w': "w' = w1\<lparr>w_Cluster := add_endpoint dns (set_LoadBalancer \<lparr>lb_DNS = dns, lb_IP = '''', lb_Port = DefaultKubernetesBindPort\<rparr> (w_Cluster w1))\<rparr>"
    by (auto simp: ensureLoadBalancer_def bindp_Inr_iff upd_cluster_def try_endpoints_def SetClusterAPIEndpoints_def address_map_def run_simps
        dest!: pwrap_Inr aws_with_reason_Inr setupLoadBalancer_gave split: if_splits)
  have "elb_gave A (w_Cluster w') dns (w_ext w')"
    using gave by (simp add: w' elb_gave_def lb_input_def apiserver_name_def owned_key_def set_LoadBalancer_def cluster_upd)
  then show ?thesis using dns by (auto simp: w' dns_endpoint_def set_LoadBalancer_def cluster_upd)
qed

text \<open>The network that the steps of the preparation ensured, by the identifiers they returned, each step with those of the ones before.\<close>

definition network_ensured :: "'x aws_env \<Rightarrow> string \<Rightarrow> string \<Rightarrow> string \<Rightarrow> string \<Rightarrow> string \<Rightarrow> string \<Rightarrow> string \<Rightarrow> ('s, 'x) world \<Rightarrow> bool" where
  "network_ensured A v p q g n rp rq w \<longleftrightarrow> (\<exists>w0 w1 w2 w3 w4.
     ensureVPC A w0 = (Inr v, w1) \<and> ensureSubnet A w1 = (Inr (p, q), w2) \<and> ensureInternetGateway A v w2 = (Inr g, w3) \<and>
     ensureNatGateway A v p w3 = (Inr n, w4) \<and> ensureRouteTable A v g n p q w4 = (Inr (rp, rq), w))"

text \<open>A specification that records it: a managed VPC, and one public and one private subnet, with the blocks of the cluster's configuration
  and in its zone.\<close>

definition network_recorded ::
  "Cluster \<Rightarrow> string \<Rightarrow> string \<Rightarrow> string \<Rightarrow> string \<Rightarrow> string \<Rightarrow> string \<Rightarrow> string \<Rightarrow> NetworkSpec \<Rightarrow> bool" where
  "network_recorded c v p q g n rp rq N \<longleftrightarrow>
     vpc_ID (VPC N) = v \<and> HasManaged (vpc_Tags (VPC N)) \<and> InternetGatewayID (VPC N) = Some g \<and>
     (\<exists>a pub priv. AWS (c_CloudSpec c) = Some a \<and> vpc_CidrBlock (VPC N) = VpcCIDR a \<and>
        Subnets N = [pub, priv] \<and> IsPublic pub \<and> \<not> IsPublic priv \<and>
        (sn_ID pub, sn_CidrBlock pub, NatGatewayID pub, RouteTableID pub) = (p, PublicSubnetCIDR a, Some n, Some rp) \<and>
        (sn_ID priv, sn_CidrBlock priv, NatGatewayID priv, RouteTableID priv) = (q, PrivateSubnetCIDR a, None, Some rq) \<and>
        AvailabilityZone pub = Zone (c_CloudSpec c) \<and> AvailabilityZone priv = Zone (c_CloudSpec c))"

definition recorded :: "aws_codecs \<Rightarrow> (AWSClusterProviderSpec \<Rightarrow> bool) \<Rightarrow> Cluster \<Rightarrow> bool" where
  "recorded K P c \<longleftrightarrow> (\<exists>s. aws_ClusterConfig K (ccs_ProviderSpec (cc_Spec (ClusterAPI (Spec c)))) = Inr s \<and> P s)"

lemma recorded_assign [simp]: "recorded K P (assign_Cluster c) = recorded K P c"
  by (simp add: recorded_def cluster_upd)

text \<open>The JSON of a provider configuration is read back as it was.\<close>

definition spec_law :: "aws_codecs \<Rightarrow> bool" where
  "spec_law K \<longleftrightarrow> (\<forall>s raw. marshal (ak_ClusterSpec K) s = Inr raw \<longrightarrow> unmarshal (ak_ClusterSpec K) raw = Inr s)"

lemma recorded_spec:
  assumes "spec_law K" "EncodeClusterSpec K (Some s) = Inr raw"
  shows "recorded K P (set_ccProviderSpec raw c) = P s"
  using assms by (simp add: spec_law_def recorded_def EncodeClusterSpec_def aws_ClusterConfig_def set_ccProviderSpec_def cluster_upd)

text \<open>A preparation that succeeds, step by step.\<close>

lemma aws_PrepareCloud_steps:
  fixes w :: "('s, 'x) world"
  assumes "aws_PrepareCloud E A w = (Inr (), w')"
  obtains v p q g n rp rq w0 w1 w2 s a raw where "network_ensured A v p q g n rp rq (w0 :: ('s, 'x) world)"
    "ensureLoadBalancer A p (w1 :: ('s, 'x) world) = (Inr (), w2)"
    "AWS (c_CloudSpec (w_Cluster w2)) = Some a"
    "EncodeClusterSpec (a_codecs A) (Some (s\<lparr>acs_NetworkSpec := network_spec (w_Cluster w2) a v g n p q rp rq\<rparr>)) = Inr raw"
    "w_Cluster w' = assign_Cluster (set_ccProviderSpec raw (w_Cluster w2))" "w_ext w' = w_ext w2"
proof -
  have pair: "(case z of (x, y) \<Rightarrow> f x y) u = r \<longleftrightarrow> (\<exists>x y. z = (x, y) \<and> f x y u = r)" for z u r and f :: "'x \<Rightarrow> 'y \<Rightarrow> 'u \<Rightarrow> 'r"
    by (cases z) auto
  have store: "store_cluster f u = (Inr (), u') \<Longrightarrow> w_Cluster u' = assign_Cluster (w_Cluster u) \<and> w_ext u' = w_ext u"
    for f and u u' :: "('s, 'x) world"
    by (auto simp: store_cluster_def on_store_def upd_cluster_def prog_run split: prod.splits sum.splits)
  from assms show ?thesis
    by (clarsimp simp: aws_PrepareCloud_def bindp_Inr_iff pair aws_spec_Inr upd_cluster_def run_simps split: if_splits dest!: pwrap_Inr store)
      (rule that, unfold network_ensured_def, blast+)
qed

text \<open>C19. If the preparation of the cloud succeeds on AWS, the last of its calls to the load balancer service created the balancer of this
  cluster, with the group of its masters, and configured its health check; the status of the cluster names the balancer by the DNS name that
  the creation returned, which is not empty, that name with the port of the API server is the last endpoint, and the cluster has an API server URL.\<close>

theorem aws_prepare_endpoint:
  "valid (\<lambda>_. True) (aws_PrepareCloud E A)
    (\<lambda>_ (w :: ('s, 'x) world). \<exists>dns. elb_gave A (w_Cluster w) dns (w_ext w) \<and> dns_endpoint dns (w_Cluster w) \<and> APIServerURL (w_Cluster w) \<noteq> '''') (\<lambda>_ _. True)"
proof (rule validI)
  fix w w' :: "('s, 'x) world" and u assume "aws_PrepareCloud E A w = (Inr u, w')"
  then have "aws_PrepareCloud E A w = (Inr (), w')" by simp
  then obtain p raw and w1 w2 :: "('s, 'x) world" where "ensureLoadBalancer A p w1 = (Inr (), w2)"
    and w': "w_Cluster w' = assign_Cluster (set_ccProviderSpec raw (w_Cluster w2))" "w_ext w' = w_ext w2"
    by (rule aws_PrepareCloud_steps) blast
  then obtain dns where dns: "elb_gave A (w_Cluster w2) dns (w_ext w2)" "dns_endpoint dns (w_Cluster w2)"
    using balancer_endpoint by blast
  have url: "dns_endpoint dns c \<Longrightarrow> APIServerURL c \<noteq> ''''" for c
    by (cases "c_Endpoints c" rule: rev_cases) (auto simp: dns_endpoint_def APIServerURL_def endpoints_url_append)
  have "elb_gave A (w_Cluster w') dns (w_ext w') \<and> dns_endpoint dns (w_Cluster w')" using dns by (simp add: w' balancer_kept)
  then show "\<exists>dns. elb_gave A (w_Cluster w') dns (w_ext w') \<and> dns_endpoint dns (w_Cluster w') \<and> APIServerURL (w_Cluster w') \<noteq> ''''"
    using url by blast
qed simp


lemma valid_option:
  "valid P m Q F \<Longrightarrow> (\<And>x. valid P (f x) Q F) \<Longrightarrow> valid P (case z of None \<Rightarrow> m | Some x \<Rightarrow> f x) Q F"
  by (cases z) simp_all

lemma valid_pwrap: "valid P m Q (\<lambda>_. G) \<Longrightarrow> valid P (pwrap t m) Q (\<lambda>_. G)"
  by (fastforce simp: valid_def pwrap_def rwrap_def split: prod.splits sum.splits)

lemma record_spec:
  assumes "spec_law K" "P s"
  shows "valid (\<lambda>_. True) (bindp (liftr (EncodeClusterSpec K (Some s))) (\<lambda>raw. upd_cluster (set_ccProviderSpec raw)))
    (\<lambda>_ w. recorded K P (w_Cluster w)) (\<lambda>_ _. True)"
  using assms by (auto simp: valid_def prog_run upd_cluster_def recorded_spec split: sum.splits)

text \<open>C20. The configuration that a successful preparation stores in the cluster object records the network that its steps ensured: the VPC,
  marked as managed, the public and the private subnet, the internet and the NAT gateway and the route tables, each with the identifier
  that its step returned, and each step worked on those before it.  So deletion finds the NAT gateway that was ensured where it looks for it.  With the
  configuration that a new cluster gets, deletion finds no gateway, and does not panic either.\<close>

theorem aws_network_recorded:
  assumes "spec_law (a_codecs A)"
  shows "valid (\<lambda>_. True) (aws_PrepareCloud E A)
      (\<lambda>_ w. \<exists>v p q g n rp rq w0. network_ensured A v p q g n rp rq (w0 :: ('s, 'x) world) \<and>
         recorded (a_codecs A) (\<lambda>s. network_recorded (w_Cluster w) v p q g n rp rq (acs_NetworkSpec s) \<and> nat_of_spec s = Inr n) (w_Cluster w))
      (\<lambda>_ _. True) \<and>
    valid (\<lambda>_. True) (aws_SetDefaultCluster E A)
      (\<lambda>_ w. recorded (a_codecs A) (\<lambda>s. nat_of_spec s = Inr '''') (w_Cluster (w :: ('s, 'x) world))) (\<lambda>_ _. True)"
proof
  show "valid (\<lambda>_. True) (aws_PrepareCloud E A)
      (\<lambda>_ w. \<exists>v p q g n rp rq w0. network_ensured A v p q g n rp rq (w0 :: ('s, 'x) world) \<and>
         recorded (a_codecs A) (\<lambda>s. network_recorded (w_Cluster w) v p q g n rp rq (acs_NetworkSpec s) \<and> nat_of_spec s = Inr n) (w_Cluster w))
      (\<lambda>_ _. True)"
  proof (rule validI)
    fix w w' :: "('s, 'x) world" and u assume "aws_PrepareCloud E A w = (Inr u, w')"
    then have "aws_PrepareCloud E A w = (Inr (), w')" by simp
    then obtain v p q g n rp rq w0 s a raw and w2 :: "('s, 'x) world" where ensured: "network_ensured A v p q g n rp rq (w0 :: ('s, 'x) world)"
      and a: "AWS (c_CloudSpec (w_Cluster w2)) = Some a"
      and raw: "EncodeClusterSpec (a_codecs A) (Some (s\<lparr>acs_NetworkSpec := network_spec (w_Cluster w2) a v g n p q rp rq\<rparr>)) = Inr raw"
      and w': "w_Cluster w' = assign_Cluster (set_ccProviderSpec raw (w_Cluster w2))"
      by (rule aws_PrepareCloud_steps) blast
    have "network_recorded (w_Cluster w') v p q g n rp rq (network_spec (w_Cluster w2) a v g n p q rp rq)"
      using a by (simp add: w' network_recorded_def network_spec_def HasManaged_def tag_of_def NameAWSProviderManaged_def NameAWSProviderPrefix_def
          set_ccProviderSpec_def cluster_upd)
    then have "recorded (a_codecs A) (\<lambda>s. network_recorded (w_Cluster w') v p q g n rp rq (acs_NetworkSpec s) \<and> nat_of_spec s = Inr n) (w_Cluster w')"
      by (simp add: w' recorded_spec [OF assms raw]) (simp add: nat_of_spec_def network_spec_def)
    with ensured show "\<exists>v p q g n rp rq w0. network_ensured A v p q g n rp rq (w0 :: ('s, 'x) world) \<and>
         recorded (a_codecs A) (\<lambda>s. network_recorded (w_Cluster w') v p q g n rp rq (acs_NetworkSpec s) \<and> nat_of_spec s = Inr n) (w_Cluster w')"
      by blast
  qed simp
  have fresh: "nat_of_spec (zero_AWSClusterProviderSpec\<lparr>acs_TypeMeta := t, acs_ObjectMeta := m, acs_Region := r, acs_SSHKeyName := k,
      CAKeyPair := k1, EtcdCAKeyPair := k2, FrontProxyCAKeyPair := k3, SAKeyPair := k4\<rparr>) = Inr ''''" for t m r k k1 k2 k3 k4
    by (simp add: nat_of_spec_def zero_AWSClusterProviderSpec_def zero_NetworkSpec_def)
  show "valid (\<lambda>_. True) (aws_SetDefaultCluster E A)
      (\<lambda>_ w. recorded (a_codecs A) (\<lambda>s. nat_of_spec s = Inr '''') (w_Cluster (w :: ('s, 'x) world))) (\<lambda>_ _. True)"
    unfolding aws_SetDefaultCluster_def SetClusterProviderConfig_def
    by (rule record_spec [where P = "\<lambda>s. nat_of_spec s = Inr ''''", OF assms fresh] | rule valid_option valid_fail TrueI | rule valid_last)+
qed

text \<open>A cloud where everything is there but the load balancer, and encoders that know two configurations.\<close>

definition prepared_spec :: AWSClusterProviderSpec where
  "prepared_spec = zero_AWSClusterProviderSpec\<lparr>acs_NetworkSpec :=
     network_spec (named_cluster ''c1'') (default_AWSSpec (named_cluster ''c1'') zero_AWSSpec) ''v'' ''g'' ''n'' ''s'' ''s'' ''r'' ''r''\<rparr>"

definition two_specs :: "AWSClusterProviderSpec codec" where
  "two_specs = \<lparr>marshal = (\<lambda>s. if s = zero_AWSClusterProviderSpec then Inr ''{}'' else if s = prepared_spec then Inr ''{network}''
      else Inl (Err ''unknown'')),
     unmarshal = (\<lambda>d. if d = ''{}'' then Inr zero_AWSClusterProviderSpec else if d = ''{network}'' then Inr prepared_spec else Inl (Err ''unknown''))\<rparr>"

definition found_aws :: "unit aws_env" where
  "found_aws = offline_aws\<lparr>
     a_codecs := \<lparr>ak_ClusterSpec = two_specs, ak_MachineSpec = blank_codec zero_AWSMachineProviderSpec,
       ak_MachineStatus = blank_codec zero_AWSMachineProviderStatus\<rparr>,
     a_iam := offline_iam_ops\<lparr>GetInstanceProfile := (\<lambda>_. ret True)\<rparr>,
     a_net := offline_net_ops\<lparr>DescribeVpcs := (\<lambda>_. ret [''v'']), DescribeSubnets := (\<lambda>_. ret [''s'']),
       DescribeInternetGateways := (\<lambda>_. ret [''g'']), DescribeNatGateways := (\<lambda>_ _. ret [\<lparr>nat_ID = ''n'', nat_State = ''available''\<rparr>]),
       DescribeRouteTables := (\<lambda>_. ret [\<lparr>rt_ID = ''r'', rt_Associations = []\<rparr>])\<rparr>,
     a_ec2 := offline_ec2_ops\<lparr>DescribeKeyPairs := (\<lambda>_. ret [''k'']),
       DescribeSecurityGroups := (\<lambda>_. ret [\<lparr>sg_ID = ''sg'', sg_Ingress = [], sg_Egress = []\<rparr>]),
       DescribeInstances := (\<lambda>_ _. ret [[\<lparr>ec_ID = ''b'', ec_State = ''running'', ec_RootDeviceName = '''', ec_Devices = []\<rparr>]])\<rparr>,
     a_elb := offline_elb_ops\<lparr>CreateLoadBalancer := (\<lambda>_. ret ''c1.elb.amazonaws.com''), ConfigureHealthCheck := (\<lambda>_ _. ret ())\<rparr>\<rparr>"

definition stored_env :: "(os, unit) env" where
  "stored_env = \<lparr>e_store = (vfs_ops demo_codecs demo_store)\<lparr>so_cluster_Update := ret\<rparr>, e_sys = demo_sys, e_kube = demo_kube,
     e_capi = demo_capi, e_providers = Map.empty, e_image = []\<rparr>"

lemma two_specs_law: "spec_law (a_codecs found_aws)"
  by (simp add: spec_law_def found_aws_def two_specs_def)

lemma found_prepared: "\<exists>w'. aws_PrepareCloud stored_env found_aws (aws_world s ()) = (Inr (), w')"
proof -
  note run = on_ext_def prog_run pwrap_def rwrap_def get_or_def
  have ops: "GetInstanceProfile (a_iam found_aws) = (\<lambda>_. ret True)" "DescribeVpcs (a_net found_aws) = (\<lambda>_. ret [''v''])"
    "DescribeSubnets (a_net found_aws) = (\<lambda>_. ret [''s''])" "DescribeInternetGateways (a_net found_aws) = (\<lambda>_. ret [''g''])"
    "DescribeNatGateways (a_net found_aws) = (\<lambda>_ _. ret [\<lparr>nat_ID = ''n'', nat_State = ''available''\<rparr>])"
    "DescribeRouteTables (a_net found_aws) = (\<lambda>_. ret [\<lparr>rt_ID = ''r'', rt_Associations = []\<rparr>])"
    "DescribeKeyPairs (a_ec2 found_aws) = (\<lambda>_. ret [''k''])"
    "DescribeSecurityGroups (a_ec2 found_aws) = (\<lambda>_. ret [\<lparr>sg_ID = ''sg'', sg_Ingress = [], sg_Egress = []\<rparr>])"
    "DescribeInstances (a_ec2 found_aws) = (\<lambda>_ _. ret [[\<lparr>ec_ID = ''b'', ec_State = ''running'', ec_RootDeviceName = [], ec_Devices = []\<rparr>]])"
    "CreateLoadBalancer (a_elb found_aws) = (\<lambda>_. ret ''c1.elb.amazonaws.com'')" "ConfigureHealthCheck (a_elb found_aws) = (\<lambda>_ _. ret ())"
    "DescribeLoadBalancers (a_elb found_aws) = (\<lambda>_. offline)" "a_connected found_aws x" for x
    by (simp_all add: found_aws_def offline_aws_def offline_elb_ops_def)
  let ?w = "aws_world s () :: (os, unit) world" and ?a = "default_AWSSpec (named_cluster ''c1'') zero_AWSSpec"
  have spec: "AWS (c_CloudSpec (w_Cluster ?w)) = Some ?a" "cs_AWS (cst_Cloud (Status (w_Cluster ?w))) = Some \<lparr>MasterSGId = [], NodeSGId = [], BastionSGId = []\<rparr>"
    by (simp_all add: aws_world_def aws_defaults_def named_cluster_def zero_Cluster_def zero_ClusterConfig_def zero_CloudSpec_def cluster_upd)
  have same: "ensureIAMProfile found_aws ?w = (Inr (), ?w)" "ensurePublicKey found_aws ?w = (Inr (), ?w)"
    "ensureVPC found_aws ?w = (Inr ''v'', ?w)" "ensureSubnet found_aws ?w = (Inr (''s'', ''s''), ?w)"
    "ensureInternetGateway found_aws ''v'' ?w = (Inr ''g'', ?w)" "ensureNatGateway found_aws ''v'' ''s'' ?w = (Inr ''n'', ?w)"
    "ensureRouteTable found_aws ''v'' ''g'' ''n'' ''s'' ''s'' ?w = (Inr (''r'', ''r''), ?w)" 
    by (simp_all add: run ops spec ensureIAMProfile_def getIAMProfile_def aws_spec_def ensurePublicKey_def aws_getPublicKey_def
      ensureVPC_def getVpc_def ensureSubnet_def getSubnet_def ensureInternetGateway_def getInternetGateway_def ensureNatGateway_def
      getNatGateway_def ensureRouteTable_def getRouteTable_def)
  let ?st = "\<lparr>MasterSGId = ''sg'', NodeSGId = ''sg'', BastionSGId = ''sg''\<rparr>"
  obtain w1 where groups: "ensureSecurityGroup found_aws ''v'' ?w = (Inr (), w1)" "w_ext w1 = ()"
      "AWS (c_CloudSpec (w_Cluster w1)) = Some ?a" "cs_AWS (cst_Cloud (Status (w_Cluster w1))) = Some ?st"
      "Spec (w_Cluster w1) = Spec (w_Cluster ?w)"
    by (simp add: run ops spec ensureSecurityGroup_def aws_spec_def aws_status_def getSecurityGroupID_def detectSecurityGroups_def
        detect_group_def upd_aws_status_def upd_cluster_def put_aws_status_def put_master_def put_node_def put_bastion_def cluster_upd)
  have bastion: "ensureBastion found_aws ''s'' w1 = (Inr (), w1)"
    by (simp add: run ops ensureBastion_def getBastion_def)
  obtain w2 where lb: "ensureLoadBalancer found_aws ''s'' w1 = (Inr (), w2)"
      "AWS (c_CloudSpec (w_Cluster w2)) = Some ?a" "Zone (c_CloudSpec (w_Cluster w2)) = []"
      "ccs_ProviderSpec (cc_Spec (ClusterAPI (Spec (w_Cluster w2)))) = None"
    using groups by (simp add: run ops ensureLoadBalancer_def aws_with_reason_def setupLoadBalancer_def getLoadBalancer_def aws_status_def upd_cluster_def
      try_endpoints_def SetClusterAPIEndpoints_def address_map_def add_endpoint_def set_Endpoints_def set_LoadBalancer_def cluster_upd
      aws_world_def aws_defaults_def named_cluster_def zero_Cluster_def zero_ClusterConfig_def zero_CloudSpec_def zero_CapiCluster_def)
  have "network_spec (w_Cluster w2) ?a v g n s1 s2 r1 r2 = network_spec (named_cluster ''c1'') ?a v g n s1 s2 r1 r2" for v g n s1 s2 r1 r2
    by (simp add: network_spec_def lb named_cluster_def zero_Cluster_def zero_ClusterConfig_def zero_CloudSpec_def)
  then have enc: "EncodeClusterSpec (a_codecs found_aws) (Some (zero_AWSClusterProviderSpec\<lparr>acs_NetworkSpec :=
      network_spec (w_Cluster w2) ?a ''v'' ''g'' ''n'' ''s'' ''s'' ''r'' ''r''\<rparr>)) = Inr ''{network}''"
    by (simp add: EncodeClusterSpec_def found_aws_def two_specs_def prepared_spec_def zero_AWSClusterProviderSpec_def zero_NetworkSpec_def
        network_spec_def)
  show ?thesis
    by (simp add: aws_PrepareCloud_def run ops same groups bastion lb aws_ClusterConfig_def aws_spec_def enc stored_env_def store_cluster_def
        on_store_def upd_cluster_def set_ccProviderSpec_def cluster_upd)
qed

theorem aws_network_recorded_witness:
  "\<exists>w'. aws_PrepareCloud stored_env found_aws (aws_world (w_store demo_world) ()) = (Inr (), w') \<and>
     recorded (a_codecs found_aws) (\<lambda>s. nat_of_spec s = Inr ''n'') (w_Cluster w')"
proof -
  obtain w' where run: "aws_PrepareCloud stored_env found_aws (aws_world (w_store demo_world) ()) = (Inr (), w')" using found_prepared by blast
  have n: "n = ''n''" if "network_ensured found_aws v p q g n rp rq w" for v p q g n rp rq and w :: "(os, unit) world"
    using that by (auto simp: network_ensured_def ensureNatGateway_def get_or_def getNatGateway_def found_aws_def offline_aws_def
        on_ext_def prog_run split: prod.splits)
  from valid_Inr [OF conjunct1 [OF aws_network_recorded [OF two_specs_law]] _ run] n run show ?thesis
    by (auto simp: recorded_def)
qed

section \<open>The ports that are open\<close>

text \<open>The rules of a group that admit everybody, by their ports.\<close>

definition open_ports :: "IpPermission list \<Rightarrow> (int \<times> int) list" where
  "open_ports rs = map (\<lambda>r. (ip_FromPort r, ip_ToPort r)) (filter (\<lambda>r. \<exists>d. (d, ''0.0.0.0/0'') \<in> set (IpRanges r)) rs)"

text \<open>What the calls may do: only authorising adds a rule to the log of grants.\<close>

definition grant_api :: "'x aws_env \<Rightarrow> ('x \<Rightarrow> (string \<times> IpPermission list) list) \<Rightarrow> bool" where
  "grant_api A grants \<longleftrightarrow>
     (\<forall>gs g rs. valid (\<lambda>x. grants x = gs) (AuthorizeSecurityGroupIngress (a_ec2 A) g rs)
        (\<lambda>_ x. grants x = gs @ [(g, rs)]) (\<lambda>_ x. grants x = gs)) \<and>
     (\<forall>gs f. invariant_of (\<lambda>x. grants x = gs) (DescribeSecurityGroups (a_ec2 A) f)) \<and>
     (\<forall>gs n d v. invariant_of (\<lambda>x. grants x = gs) (CreateSecurityGroup (a_ec2 A) n d v)) \<and>
     (\<forall>gs i kvs. invariant_of (\<lambda>x. grants x = gs) (CreateTags (a_ec2 A) i kvs)) \<and>
     (\<forall>gs kvs. invariant_of (\<lambda>x. grants x = gs) (map_order A kvs))"

lemma open_rules:
  assumes "getIngressRules st role = Inr rs"
  shows "open_ports rs = (if role = ''bastion'' then [(22, 22)] else if role = ''controlplane'' then [(6443, 6443)] else [(30000, 32767)])"
    and "\<forall>r \<in> set rs. snd ` set (UserIdGroupPairs r) \<subseteq> {MasterSGId st, NodeSGId st, BastionSGId st}"
  using assms by (auto simp: getIngressRules_def open_ports_def tcp_rule_def bastion_def split: if_splits)

lemma inv_ext_upd [inv_rules]: "invariant_of (\<lambda>w. P (w_ext w)) (upd_cluster f)"
  by (simp add: valid_def prog_run upd_cluster_def)

lemma groups_grant_nothing:
  assumes "grant_api A grants"
  shows "invariant_of (\<lambda>w :: ('s, 'x) world. grants (w_ext w) = gs) (setup_group A v name put t)"
    and "invariant_of (\<lambda>w :: ('s, 'x) world. grants (w_ext w) = gs) (detectSecurityGroups A v)"
proof -
  let ?I = "\<lambda>w :: ('s, 'x) world. grants (w_ext w) = gs"
  note law = assms [unfolded grant_api_def]
  note part = on_ext_part [where f = grants and P = "\<lambda>g. g = gs"]
  have calls: "invariant_of ?I (on_ext (DescribeSecurityGroups (a_ec2 A) f))" "invariant_of ?I (on_ext (CreateSecurityGroup (a_ec2 A) n d u))"
    "invariant_of ?I (on_ext (CreateTags (a_ec2 A) i kvs))" "invariant_of ?I (on_ext (map_order A kvs))" for f n d u i kvs
    by (rule part, use law in simp)+
  show "invariant_of ?I (setup_group A v name put t)"
    unfolding setup_group_def getSecurityGroupID_def createSecurityGroup_def addTags_def addTag_def upd_aws_status_def
    by (intro inv_rules calls)
  show "invariant_of ?I (detectSecurityGroups A v)"
    unfolding detectSecurityGroups_def detect_group_def getSecurityGroupID_def upd_aws_status_def
    by (intro inv_rules calls)
qed

lemma valid_status:
  assumes "\<And>st. valid (\<lambda>w. P w \<and> cs_AWS (cst_Cloud (Status (w_Cluster w))) = Some st) (f st) Q F" "\<And>e w. P w \<Longrightarrow> F e w"
  shows "valid P (bindp aws_status f) Q F"
proof (unfold valid_def, intro allI impI)
  fix w assume "P w"
  then show "case bindp aws_status f w of (Inl e, s') \<Rightarrow> F e s' | (Inr x, s') \<Rightarrow> Q x s'"
  proof (cases "cs_AWS (cst_Cloud (Status (w_Cluster w)))")
    case None
    then show ?thesis using assms(2) \<open>P w\<close> by (simp add: aws_status_def prog_run)
  next
    case (Some st)
    then have "bindp aws_status f w = f st w" by (simp add: aws_status_def prog_run)
    then show ?thesis using assms(1) [of st] \<open>P w\<close> Some by (simp add: valid_def)
  qed
qed

lemma grant_step:
  assumes "grant_api A grants"
  shows "valid (\<lambda>w. grants (w_ext w) = gs \<and> cs_AWS (cst_Cloud (Status (w_Cluster w))) = Some st)
    (authorize_group A role)
    (\<lambda>_ w. \<exists>g rs. (grants (w_ext w) = gs @ [(g, rs)] \<and> cs_AWS (cst_Cloud (Status (w_Cluster w))) = Some st) \<and>
       getIngressRules st role = Inr rs \<and> getGroupID st role = Inr g)
    (\<lambda>_ w. grants (w_ext w) = gs)"
proof -
  let ?st = "\<lambda>c. cs_AWS (cst_Cloud (Status c)) = Some st"
  have grant: "valid (\<lambda>w. grants (w_ext w) = gs \<and> ?st (w_Cluster w)) (on_ext (AuthorizeSecurityGroupIngress (a_ec2 A) g rs))
      (\<lambda>_ w. grants (w_ext w) = gs @ [(g, rs)] \<and> ?st (w_Cluster w)) (\<lambda>_ w. grants (w_ext w) = gs)" for g rs
  proof -
    have "valid (\<lambda>x. grants x = gs) (AuthorizeSecurityGroupIngress (a_ec2 A) g rs) (\<lambda>_ x. grants x = gs @ [(g, rs)]) (\<lambda>_ x. grants x = gs)"
      using assms by (simp add: grant_api_def)
    from valid_on_ext_at [OF this, where R = ?st] show ?thesis by (rule valid_weaken) auto
  qed
  show ?thesis
    unfolding authorize_group_def
  proof (rule valid_status)
    fix st'
    show "valid (\<lambda>w. (grants (w_ext w) = gs \<and> ?st (w_Cluster w)) \<and> cs_AWS (cst_Cloud (Status (w_Cluster w))) = Some st')
      (bindp (liftr (getIngressRules st' role)) (\<lambda>rules. bindp (liftr (getGroupID st' role)) (\<lambda>groupID.
       on_ext (AuthorizeSecurityGroupIngress (a_ec2 A) groupID rules))))
      (\<lambda>_ w. \<exists>g rs. (grants (w_ext w) = gs @ [(g, rs)] \<and> ?st (w_Cluster w)) \<and> getIngressRules st role = Inr rs \<and> getGroupID st role = Inr g)
      (\<lambda>_ w. grants (w_ext w) = gs)"
    proof (cases "st' = st")
      case True
      show ?thesis
      proof (cases "getIngressRules st role")
        case (Inr rs)
        show ?thesis
        proof (cases "getGroupID st role")
          case (Inr g)
          with \<open>getIngressRules st role = Inr rs\<close> True show ?thesis
            by (simp add: bindp_liftr) (rule valid_weaken [OF grant [of g rs]]; simp)
        qed (use Inr True in \<open>auto simp: bindp_liftr intro!: valid_fail\<close>)
      qed (use True in \<open>auto simp: bindp_liftr intro!: valid_fail\<close>)
    qed (auto simp: valid_def)
  qed simp
qed

text \<open>Grants that open nothing but the ports that are meant to be open.\<close>

definition fair_grants :: "(string \<times> IpPermission list) list \<Rightarrow> bool" where
  "fair_grants ts \<longleftrightarrow> (\<forall>(g, rs) \<in> set ts. set (open_ports rs) \<subseteq> {(22, 22), (6443, 6443), (30000, 32767)})"

lemma grant_then:
  assumes "grant_api A grants" "fair_grants ts"
    and m: "\<And>g rs. getIngressRules st role = Inr rs \<Longrightarrow> getGroupID st role = Inr g \<Longrightarrow> fair_grants (ts @ [(g, rs)]) \<Longrightarrow>
      valid (\<lambda>w. grants (w_ext w) = gs @ ts @ [(g, rs)] \<and> cs_AWS (cst_Cloud (Status (w_Cluster w))) = Some st) m Q
        (\<lambda>_ w. \<exists>ts. grants (w_ext w) = gs @ ts \<and> fair_grants ts)"
  shows "valid (\<lambda>w. grants (w_ext w) = gs @ ts \<and> cs_AWS (cst_Cloud (Status (w_Cluster w))) = Some st)
      (bindp (authorize_group A role) (\<lambda>_. m)) Q (\<lambda>_ w. \<exists>ts. grants (w_ext w) = gs @ ts \<and> fair_grants ts)"
proof (rule valid_bindp)
  let ?R = "\<lambda>w. \<exists>g rs. (grants (w_ext w) = (gs @ ts) @ [(g, rs)] \<and> cs_AWS (cst_Cloud (Status (w_Cluster w))) = Some st) \<and>
      getIngressRules st role = Inr rs \<and> getGroupID st role = Inr g"
  show "valid (\<lambda>w. grants (w_ext w) = gs @ ts \<and> cs_AWS (cst_Cloud (Status (w_Cluster w))) = Some st) (authorize_group A role) (\<lambda>_. ?R)
      (\<lambda>_ w. \<exists>ts. grants (w_ext w) = gs @ ts \<and> fair_grants ts)"
    by (rule valid_weaken [OF grant_step [OF assms(1)]]) (use assms(2) in auto)
  have fair: "fair_grants (ts @ [(g, rs)])" if "getIngressRules st role = Inr rs" for g rs
    using assms(2) open_rules(1) [OF that] by (auto simp: fair_grants_def split: if_splits)
  show "valid ?R m Q (\<lambda>_ w. \<exists>ts. grants (w_ext w) = gs @ ts \<and> fair_grants ts)"
    unfolding valid_def using m [OF _ _ fair] by (fastforce simp: valid_def)
qed

text \<open>C14. Setting up the security groups opens to everybody exactly port 22 in the group of the bastion, port 6443 in the
  group of the control plane and the node ports in the group of the nodes; whatever else is permitted is permitted to the
  groups of the cluster.  If it fails, it has opened no other port either.\<close>

theorem aws_open_ports:
  assumes "grant_api A grants"
  shows "valid (\<lambda>w. grants (w_ext w) = gs) (setupSecurityGroups A vpcID)
    (\<lambda>_ w. \<exists>st rb rc rn. cs_AWS (cst_Cloud (Status (w_Cluster w))) = Some st \<and>
       grants (w_ext w) = gs @ [(BastionSGId st, rb), (MasterSGId st, rc), (NodeSGId st, rn)] \<and>
       open_ports rb = [(22, 22)] \<and> open_ports rc = [(6443, 6443)] \<and> open_ports rn = [(30000, 32767)] \<and>
       (\<forall>r \<in> set (rb @ rc @ rn). snd ` set (UserIdGroupPairs r) \<subseteq> {MasterSGId st, NodeSGId st, BastionSGId st}))
    (\<lambda>_ w. \<exists>ts. grants (w_ext w) = gs @ ts \<and> fair_grants ts)"
  (is "valid ?P _ ?Q ?F")
proof -
  let ?st = "\<lambda>w st. cs_AWS (cst_Cloud (Status (w_Cluster w))) = Some st"
  have fair0: "fair_grants []" by (simp add: fair_grants_def)
  have loop: "valid (\<lambda>w. grants (w_ext w) = gs @ [] \<and> ?st w st) (for_each [bastion, ''controlplane'', ''node''] (authorize_group A)) ?Q ?F" for st
  proof (simp only: for_each.simps, rule grant_then [OF assms fair0])
    fix gb rb assume b: "getIngressRules st bastion = Inr rb" "getGroupID st bastion = Inr gb" "fair_grants ([] @ [(gb, rb)])"
    show "valid (\<lambda>w. grants (w_ext w) = gs @ [] @ [(gb, rb)] \<and> ?st w st)
      (bindp (authorize_group A ''controlplane'') (\<lambda>_. bindp (authorize_group A ''node'') (\<lambda>_. ret ()))) ?Q ?F"
    proof (rule grant_then [OF assms b(3)])
      fix gc rc assume c: "getIngressRules st ''controlplane'' = Inr rc" "getGroupID st ''controlplane'' = Inr gc"
        "fair_grants (([] @ [(gb, rb)]) @ [(gc, rc)])"
      show "valid (\<lambda>w. grants (w_ext w) = gs @ ([] @ [(gb, rb)]) @ [(gc, rc)] \<and> ?st w st)
        (bindp (authorize_group A ''node'') (\<lambda>_. ret ())) ?Q ?F"
      proof (rule grant_then [OF assms c(3)], rule valid_ret)
        fix gn rn and w :: "('b, 'a) world"
        assume n: "getIngressRules st ''node'' = Inr rn" "getGroupID st ''node'' = Inr gn"
          and w: "grants (w_ext w) = gs @ (([] @ [(gb, rb)]) @ [(gc, rc)]) @ [(gn, rn)] \<and> ?st w st"
        have "gb = BastionSGId st" "gc = MasterSGId st" "gn = NodeSGId st"
          using b(2) c(2) n(2) by (simp_all add: getGroupID_def bastion_def)
        then show "?Q () w"
          using w open_rules [OF b(1)] open_rules [OF c(1)] open_rules [OF n(1)]
          by (intro exI [of _ st] exI [of _ rb] exI [of _ rc] exI [of _ rn]) (simp add: bastion_def ball_Un)
      qed
    qed
  qed
  have all: "valid ?P (for_each [bastion, ''controlplane'', ''node''] (authorize_group A)) ?Q ?F"
    unfolding valid_def
  proof (intro allI impI)
    fix w :: "('b, 'a) world" assume w: "grants (w_ext w) = gs"
    show "case for_each [bastion, ''controlplane'', ''node''] (authorize_group A) w of (Inl e, s') \<Rightarrow> ?F e s' | (Inr x, s') \<Rightarrow> ?Q x s'"
    proof (cases "cs_AWS (cst_Cloud (Status (w_Cluster w)))")
      case None
      then show ?thesis using w fair0 by (auto simp: authorize_group_def aws_status_def prog_run)
    next
      case (Some st)
      show ?thesis by (rule loop [of st, unfolded valid_def, THEN spec, THEN mp]) (simp add: w Some)
    qed
  qed
  have keep: "valid ?P m (\<lambda>_. ?P) ?F" if "invariant_of ?P m" for m :: "(('b, 'a) world, unit) prog"
    by (rule valid_weaken [OF that]) (use fair0 in auto)
  show ?thesis
    unfolding setupSecurityGroups_def
    by (intro valid_bindp [OF keep] groups_grant_nothing [OF assms] all)
qed

text \<open>A cloud that has the groups, named like their identifiers, and records the grants.\<close>

definition granting :: "(string \<times> IpPermission list) list aws_env" where
  "granting = offline_aws\<lparr>a_ec2 := offline_ec2_ops\<lparr>
     DescribeSecurityGroups := (\<lambda>f. ret [\<lparr>sg_ID = hd (snd (f ! 1)), sg_Ingress = [], sg_Egress = []\<rparr>]),
     AuthorizeSecurityGroupIngress := (\<lambda>g rs gs. (Inr (), gs @ [(g, rs)]))\<rparr>\<rparr>"

lemma granting_api: "grant_api granting (\<lambda>gs. gs)"
  by (simp add: grant_api_def granting_def offline_aws_def offline_ec2_ops_def valid_def prog_run)

lemma granting_run: "\<exists>w'. setupSecurityGroups granting ''v'' (aws_world () []) = (Inr (), w')"
proof -
  have ops: "DescribeSecurityGroups (a_ec2 granting) f = ret [\<lparr>sg_ID = hd (snd (f ! 1)), sg_Ingress = [], sg_Egress = []\<rparr>]"
    "AuthorizeSecurityGroupIngress (a_ec2 granting) g rs gs = (Inr (), gs @ [(g, rs)])" for f g rs gs
    by (simp_all add: granting_def)
  have spec: "AWS (c_CloudSpec (w_Cluster (aws_world s x))) = Some (default_AWSSpec (named_cluster ''c1'') zero_AWSSpec)"
    "cs_AWS (cst_Cloud (Status (w_Cluster (aws_world s x)))) = Some \<lparr>MasterSGId = [], NodeSGId = [], BastionSGId = []\<rparr>" for s x
    by (simp_all add: aws_world_def aws_defaults_def named_cluster_def zero_Cluster_def zero_ClusterConfig_def zero_CloudSpec_def cluster_upd)
  show ?thesis
    by (simp add: on_ext_def prog_run ops spec setupSecurityGroups_def setup_group_def aws_spec_def aws_status_def getSecurityGroupID_def
        detectSecurityGroups_def detect_group_def upd_aws_status_def upd_cluster_def put_aws_status_def put_master_def put_node_def
        put_bastion_def cluster_upd authorize_group_def getIngressRules_def getGroupID_def bastion_def default_AWSSpec_def
        GenMasterSGName_def GenNodeSGName_def GenBastionSGName_def)
qed

theorem aws_open_ports_witness:
  "\<exists>w' (st :: AWSStatus) rb rc rn. setupSecurityGroups granting ''v'' (aws_world () []) = (Inr (), w') \<and>
     w_ext w' = [(BastionSGId st, rb), (MasterSGId st, rc), (NodeSGId st, rn)] \<and>
     open_ports rb = [(22, 22)] \<and> open_ports rc = [(6443, 6443)] \<and> open_ports rn = [(30000, 32767)]"
proof -
  obtain w' where run: "setupSecurityGroups granting ''v'' (aws_world () []) = (Inr (), w')" using granting_run by blast
  have "w_ext (aws_world () []) = []" by (simp add: aws_world_def)
  from valid_Inr [OF aws_open_ports [OF granting_api] this run] obtain st :: AWSStatus and rb rc rn where q:
    "w_ext w' = [] @ [(BastionSGId st, rb), (MasterSGId st, rc), (NodeSGId st, rn)]"
    "open_ports rb = [(22, 22)]" "open_ports rc = [(6443, 6443)]" "open_ports rn = [(30000, 32767)]"
    by (elim exE conjE) (rule that, assumption+)
  show ?thesis using run q [unfolded append_Nil] by blast
qed

section \<open>The VPC\<close>

text \<open>VPCs with their tags, as the calls show them.  A look-up asks for a name and a tag that marks the cluster.\<close>

type_synonym vpcs = "(string \<times> (string \<rightharpoonup> string)) list"

definition vpc_of :: "Cluster \<Rightarrow> string \<times> (string \<rightharpoonup> string) \<Rightarrow> bool" where
  "vpc_of c v \<longleftrightarrow> snd v ''Name'' = Some (VPCName c) \<and> snd v (owned_key c) \<noteq> None"

definition tag_vpc :: "string \<Rightarrow> string \<times> string \<Rightarrow> vpcs \<Rightarrow> vpcs" where
  "tag_vpc i kv = map (\<lambda>v. if fst v = i then (i, (snd v)(fst kv \<mapsto> snd kv)) else v)"

text \<open>A description changes nothing, but it may fail, and nothing is assumed of its answer.  A creation gives a fresh identifier and
  tagging sets the tag; with an error, both may or may not have had their effect.\<close>

definition vpc_api :: "'x aws_env \<Rightarrow> ('x \<Rightarrow> vpcs) \<Rightarrow> bool" where
  "vpc_api A vpcs \<longleftrightarrow>
     (\<forall>vs f. invariant_of (\<lambda>x. vpcs x = vs) (DescribeVpcs (a_net A) f)) \<and>
     (\<forall>vs cidr. valid (\<lambda>x. vpcs x = vs) (CreateVpc (a_net A) cidr)
        (\<lambda>i x. i \<notin> fst ` set vs \<and> vpcs x = vs @ [(i, Map.empty)]) (\<lambda>_ x. vpcs x = vs \<or> (\<exists>i. vpcs x = vs @ [(i, Map.empty)]))) \<and>
     (\<forall>vs i. invariant_of (\<lambda>x. vpcs x = vs) (WaitUntilVpcAvailable (a_net A) i)) \<and>
     (\<forall>vs i kv. valid (\<lambda>x. vpcs x = vs) (CreateTags (a_ec2 A) [i] [kv]) (\<lambda>_ x. vpcs x = tag_vpc i kv vs)
        (\<lambda>_ x. vpcs x = vs \<or> vpcs x = tag_vpc i kv vs)) \<and>
     (\<forall>vs kvs. valid (\<lambda>x. vpcs x = vs) (map_order A kvs) (\<lambda>kvs' x. mset kvs' = mset kvs \<and> vpcs x = vs) (\<lambda>_ x. vpcs x = vs))"

lemma vpc_tags_map:
  assumes "mset kvs = mset (vpc_tags c)"
  shows "map_of (rev kvs) ''Name'' = Some (VPCName c)" "map_of (rev kvs) (owned_key c) = Some ''owned''"
proof -
  have "mset (map fst kvs) = mset (map fst (vpc_tags c))" using assms by (metis mset_map)
  then have "distinct (map fst kvs)"
    using mset_eq_imp_distinct_iff by (fastforce simp: vpc_tags_def owned_key_def managed_key_def)
  then have d: "distinct (map fst (rev kvs))" by (simp add: rev_map [symmetric])
  have "set (rev kvs) = set (vpc_tags c)" using assms by (metis set_mset_mset set_rev)
  then show "map_of (rev kvs) ''Name'' = Some (VPCName c)" "map_of (rev kvs) (owned_key c) = Some ''owned''"
    using map_of_is_SomeI [OF d] by (simp_all add: vpc_tags_def VPCName_def)
qed

lemma tag_new: "i \<notin> fst ` set vs \<Longrightarrow> tag_vpc i kv (vs @ [(i, m)]) = vs @ [(i, m(fst kv \<mapsto> snd kv))]"
  by (induction vs) (auto simp: tag_vpc_def)

lemma addTag_vpc:
  assumes "vpc_api A vpcs" "i \<notin> fst ` set vs"
  shows "valid (\<lambda>w. vpcs (w_ext w) = vs @ [(i, m)] \<and> w_Cluster w = c) (for_each kvs (addTag A i))
    (\<lambda>_ w. vpcs (w_ext w) = vs @ [(i, m ++ map_of (rev kvs))] \<and> w_Cluster w = c) (\<lambda>_ w. \<exists>m'. vpcs (w_ext w) = vs @ [(i, m')])"
proof (induction kvs arbitrary: m)
  case (Cons kv kvs)
  have "valid (\<lambda>x. vpcs x = us) (CreateTags (a_ec2 A) [i] [kv]) (\<lambda>_ x. vpcs x = tag_vpc i kv us)
      (\<lambda>_ x. vpcs x = us \<or> vpcs x = tag_vpc i kv us)" for us
    using assms(1) unfolding vpc_api_def by blast
  from valid_on_ext_at [OF this, where R = "\<lambda>c'. c' = c"]
  have step: "valid (\<lambda>w. vpcs (w_ext w) = vs @ [(i, m)] \<and> w_Cluster w = c) (addTag A i kv)
      (\<lambda>_ w. vpcs (w_ext w) = vs @ [(i, m(fst kv \<mapsto> snd kv))] \<and> w_Cluster w = c) (\<lambda>_ w. \<exists>m'. vpcs (w_ext w) = vs @ [(i, m')])"
    unfolding addTag_def by (rule valid_pwrap [OF valid_weaken]) (auto simp: tag_new [OF assms(2)])
  have eq: "m ++ map_of (rev (kv # kvs)) = m(fst kv \<mapsto> snd kv) ++ map_of (rev kvs)"
    by (cases kv) (auto simp: map_add_def fun_eq_iff split: option.splits)
  show ?case unfolding eq for_each.simps by (rule valid_bindp [OF step Cons.IH])
qed (simp add: valid_def prog_run)

lemma setupVpc_new:
  assumes "vpc_api A vpcs"
  shows "valid (\<lambda>w. vpcs (w_ext w) = vs \<and> w_Cluster w = c) (setupVpc A)
    (\<lambda>i w. \<exists>m. vpcs (w_ext w) = vs @ [(i, m)] \<and> vpc_of c (i, m) \<and> i \<notin> fst ` set vs)
    (\<lambda>_ w. \<exists>us. vpcs (w_ext w) = vs @ us \<and> length us \<le> 1)"
  (is "valid ?P _ ?Q ?F")
proof -
  note law = assms [unfolded vpc_api_def]
  let ?new = "\<lambda>i w. (i \<notin> fst ` set vs \<and> vpcs (w_ext w) = vs @ [(i, Map.empty)]) \<and> w_Cluster w = c"
  have create: "valid ?P (on_ext (CreateVpc (a_net A) cidr)) ?new ?F" for cidr
  proof (rule valid_weaken [OF valid_on_ext_at [where R = "\<lambda>c'. c' = c"]])
    show "valid (\<lambda>x. vpcs x = vs) (CreateVpc (a_net A) cidr) (\<lambda>i x. i \<notin> fst ` set vs \<and> vpcs x = vs @ [(i, Map.empty)])
        (\<lambda>_ x. vpcs x = vs \<or> (\<exists>i. vpcs x = vs @ [(i, Map.empty)]))" using law by blast
  qed auto
  have wait: "valid (?new i) (on_ext (WaitUntilVpcAvailable (a_net A) i)) (\<lambda>_. ?new i) ?F" for i
  proof (rule valid_weaken [OF valid_on_ext_at [where R = "\<lambda>c'. c' = c \<and> i \<notin> fst ` set vs"]])
    show "invariant_of (\<lambda>x. vpcs x = vs @ [(i, Map.empty)]) (WaitUntilVpcAvailable (a_net A) i)" using law by blast
  qed auto
  have order: "valid (?new i) (on_ext (map_order A kvs)) (\<lambda>kvs' w. mset kvs' = mset kvs \<and> ?new i w) ?F" for i kvs
  proof (rule valid_weaken [OF valid_on_ext_at [where R = "\<lambda>c'. c' = c \<and> i \<notin> fst ` set vs"]])
    show "valid (\<lambda>x. vpcs x = vs @ [(i, Map.empty)]) (map_order A kvs) (\<lambda>kvs' x. mset kvs' = mset kvs \<and> vpcs x = vs @ [(i, Map.empty)])
        (\<lambda>_ x. vpcs x = vs @ [(i, Map.empty)])" using law by blast
  qed auto
  have tags: "valid (\<lambda>w. mset kvs = mset (vpc_tags c) \<and> ?new i w) (for_each kvs (addTag A i)) (\<lambda>_. ?Q i) ?F" for i kvs
  proof (cases "mset kvs = mset (vpc_tags c) \<and> i \<notin> fst ` set vs")
    case True
    then have t: "vpc_of c (i, Map.empty ++ map_of (rev kvs))" using vpc_tags_map [of kvs c] by (simp add: vpc_of_def)
    show ?thesis
      by (rule valid_weaken [OF addTag_vpc [OF assms, of i vs Map.empty c kvs]]) (use True t in auto)
  qed (auto simp: valid_def)
  have spec: "valid ?P aws_spec (\<lambda>_. ?P) ?F"
    by (rule valid_weaken [OF inv_aws_fields(1) [where I = "\<lambda>w. vpcs (w_ext w) = vs \<and> w_Cluster w = c"]]) auto
  have cluster: "valid (?new i) (gets w_Cluster) (\<lambda>c' w. c' = c \<and> ?new i w) ?F" for i by (simp add: valid_def prog_run)
  have tagging: "valid (\<lambda>w. c' = c \<and> ?new i w) (bindp (addTags A i (vpc_tags c')) (\<lambda>_. ret i)) ?Q ?F" for i c'
  proof (cases "c' = c")
    case True
    have "valid (?new i) (addTags A i (vpc_tags c)) (\<lambda>_. ?Q i) ?F"
      unfolding addTags_def by (rule valid_bindp [OF order tags])
    from valid_bindp [OF this valid_ret [where x = i and Q = ?Q]] True show ?thesis by simp
  qed (simp add: valid_def)
  show ?thesis
    unfolding setupVpc_def
    by (rule valid_bindp [OF spec], rule valid_bindp [OF create], rule valid_bindp [OF valid_pwrap [OF wait]],
        rule valid_bindp [OF cluster tagging])
qed

text \<open>C10. A cluster gets the VPC that the description by its name and its tag gives, or a new one.  If the description answers with a
  VPC, \<^verbatim>\<open>ensureVPC\<close> returns the first one and changes nothing.  Otherwise it adds exactly one if it succeeds, and at most one if it fails,
  and the new one carries the name and the tag by which it is looked up.  If the description is complete, it answers with a VPC exactly if
  there is one with the tags of the cluster, so that there is one VPC for it; if it fails, no VPC is found, since \<^verbatim>\<open>getVpc\<close> drops the
  error, and a second VPC is added.\<close>

theorem aws_vpc_once:
  assumes "vpc_api A vpcs"
  shows "valid (\<lambda>w. w_ext w = x \<and> w_Cluster w = c) (ensureVPC A)
      (\<lambda>i w. case fst (DescribeVpcs (a_net A) (vpc_filters c) x) of
          Inr (v # _) \<Rightarrow> i = v \<and> vpcs (w_ext w) = vpcs x
        | _ \<Rightarrow> \<exists>m. vpcs (w_ext w) = vpcs x @ [(i, m)] \<and> vpc_of c (i, m) \<and> i \<notin> fst ` set (vpcs x))
      (\<lambda>_ w. (\<nexists>v l. fst (DescribeVpcs (a_net A) (vpc_filters c) x) = Inr (v # l)) \<and>
         (\<exists>us. vpcs (w_ext w) = vpcs x @ us \<and> length us \<le> 1)) \<and>
    (fst (DescribeVpcs (a_net A) (vpc_filters c) x) = Inr (map fst (filter (vpc_of c) (vpcs x))) \<longrightarrow>
      ((\<exists>v l. fst (DescribeVpcs (a_net A) (vpc_filters c) x) = Inr (v # l)) \<longleftrightarrow> (\<exists>v\<in>set (vpcs x). vpc_of c v)))"
  (is "valid ?P _ ?Q ?F \<and> _")
proof (intro conjI impI)
  obtain r y where r: "DescribeVpcs (a_net A) (vpc_filters c) x = (r, y)" by (cases "DescribeVpcs (a_net A) (vpc_filters c) x")
  have "invariant_of (\<lambda>z. vpcs z = vpcs x) (DescribeVpcs (a_net A) (vpc_filters c))" using assms unfolding vpc_api_def by blast
  then have y: "vpcs y = vpcs x" using r by (cases r) (auto dest: valid_Inr valid_Inl)
  show "valid ?P (ensureVPC A) ?Q ?F"
    unfolding valid_def
  proof (intro allI impI)
    fix w :: "('b, 'a) world"
    assume w: "w_ext w = x \<and> w_Cluster w = c"
    have new: "vpcs (w_ext (w\<lparr>w_ext := y\<rparr>)) = vpcs x \<and> w_Cluster (w\<lparr>w_ext := y\<rparr>) = c" using w y by simp
    consider (found) v l where "r = Inr (v # l)" | (dead) p where "r = Inl (Panic p)" | (none) "r = Inr [] \<or> (\<exists>e. r = Inl (Err e))"
      by (cases r; metis gerror.exhaust list.exhaust)
    then show "case ensureVPC A w of (q, w') \<Rightarrow> (case q of
        Inl e \<Rightarrow> (\<nexists>v l. fst (DescribeVpcs (a_net A) (vpc_filters c) x) = Inr (v # l)) \<and>
          (\<exists>us. vpcs (w_ext w') = vpcs x @ us \<and> length us \<le> 1)
      | Inr i \<Rightarrow> (case fst (DescribeVpcs (a_net A) (vpc_filters c) x) of
          Inr (v # _) \<Rightarrow> i = v \<and> vpcs (w_ext w') = vpcs x
        | _ \<Rightarrow> \<exists>m. vpcs (w_ext w') = vpcs x @ [(i, m)] \<and> vpc_of c (i, m) \<and> i \<notin> fst ` set (vpcs x)))"
    proof cases
      case none
      then have "ensureVPC A w = setupVpc A (w\<lparr>w_ext := y\<rparr>)"
        using r w by (auto simp: ensureVPC_def get_or_def getVpc_def on_ext_def attempt_def prog_run)
      then show ?thesis
        using setupVpc_new [OF assms, of "vpcs x" c, unfolded valid_def, THEN spec, THEN mp, OF new] none r
        by (cases "setupVpc A (w\<lparr>w_ext := y\<rparr>)") (auto split: sum.splits)
    qed (use r w y in \<open>auto simp: ensureVPC_def get_or_def getVpc_def on_ext_def attempt_def prog_run intro: exI [of _ "[]"]\<close>)
  qed
next
  assume complete: "fst (DescribeVpcs (a_net A) (vpc_filters c) x) = Inr (map fst (filter (vpc_of c) (vpcs x)))"
  show "(\<exists>v l. fst (DescribeVpcs (a_net A) (vpc_filters c) x) = Inr (v # l)) \<longleftrightarrow> (\<exists>v\<in>set (vpcs x). vpc_of c v)"
    unfolding complete by (cases "filter (vpc_of c) (vpcs x)") (auto simp: filter_empty_conv dest: filter_eq_ConsD)
qed

text \<open>A cloud that keeps VPCs.\<close>

definition vpc_cloud :: "vpcs aws_env" where
  "vpc_cloud = offline_aws\<lparr>
     a_net := offline_net_ops\<lparr>
       DescribeVpcs := (\<lambda>f vs. (Inr (map fst (filter (\<lambda>v. snd v ''Name'' = Some (hd (snd (f ! 0))) \<and> snd v (hd (snd (f ! 1))) \<noteq> None) vs)), vs)),
       CreateVpc := (\<lambda>_ vs. let i = concat (map fst vs) @ ''v'' in (Inr i, vs @ [(i, Map.empty)])),
       WaitUntilVpcAvailable := (\<lambda>_. ret ())\<rparr>,
     a_ec2 := offline_ec2_ops\<lparr>CreateTags := (\<lambda>is kvs vs. (Inr (), tag_vpc (hd is) (hd kvs) vs))\<rparr>\<rparr>"

lemma vpc_cloud_api: "vpc_api vpc_cloud (\<lambda>vs. vs)"
proof -
  have fresh: "concat (map fst vs) @ ''v'' \<noteq> fst v" if "v \<in> set vs" for v and vs :: vpcs
  proof
    have "length (fst v) \<le> length (concat (map fst vs))"
      using that by (auto simp: length_concat intro!: member_le_sum_list)
    moreover assume "concat (map fst vs) @ ''v'' = fst v"
    from arg_cong [OF this, of length] have "length (concat (map fst vs)) + 1 = length (fst v)" by simp
    ultimately show False by linarith
  qed
  have "vpc_of c = (\<lambda>v. snd v ''Name'' = Some (hd (snd (vpc_filters c ! 0))) \<and> snd v (hd (snd (vpc_filters c ! 1))) \<noteq> None)" for c
    by (simp add: vpc_of_def vpc_filters_def fun_eq_iff)
  then show ?thesis
    using fresh by (auto simp: vpc_api_def vpc_cloud_def valid_def offline_aws_def prog_run Let_def)
qed

theorem aws_vpc_once_witness:
  "\<exists>i m w'. ensureVPC vpc_cloud (aws_world () []) = (Inr i, w') \<and> w_ext w' = [(i, m)] \<and> vpc_of (aws_defaults (named_cluster ''c1'')) (i, m)"
proof -
  have "AWS (c_CloudSpec (w_Cluster (aws_world s x))) = Some (default_AWSSpec (named_cluster ''c1'') zero_AWSSpec)" for s x
    by (simp add: aws_world_def aws_defaults_def named_cluster_def zero_Cluster_def zero_ClusterConfig_def zero_CloudSpec_def cluster_upd)
  moreover have "DescribeVpcs (a_net vpc_cloud) f [] = (Inr [], [])" "CreateVpc (a_net vpc_cloud) cidr [] = (Inr ''v'', [(''v'', Map.empty)])"
    "WaitUntilVpcAvailable (a_net vpc_cloud) = (\<lambda>_. ret ())" "map_order vpc_cloud = ret"
    "CreateTags (a_ec2 vpc_cloud) [i] [kv] vs = (Inr (), tag_vpc i kv vs)" for f cidr i kv vs
    by (simp_all add: vpc_cloud_def offline_aws_def Let_def)
  ultimately obtain i w' where run: "ensureVPC vpc_cloud (aws_world () []) = (Inr i, w')"
    by (simp add: ensureVPC_def get_or_def getVpc_def setupVpc_def addTags_def addTag_def pwrap_def rwrap_def on_ext_def prog_run
        aws_spec_def vpc_tags_def aws_world_def)
  have "w_ext (aws_world () []) = [] \<and> w_Cluster (aws_world () []) = aws_defaults (named_cluster ''c1'')" by (simp add: aws_world_def)
  from valid_Inr [OF conjunct1 [OF aws_vpc_once [OF vpc_cloud_api]] this run] run show ?thesis
    by (auto simp: vpc_cloud_def split: list.splits)
qed

end
