(* ===== verification/Core_Props.thy ===== *)
theory Core_Props
  imports Cloud_Vfs
begin

text \<open>
  Properties of the parts of the orchestration that compute: the defaults of a new cluster, node
  counts, machine names and kubeadm tokens.
\<close>

section \<open>Defaults of a new cluster\<close>

text \<open>The defaults of a new cluster: preparing it panics exactly if no zone is given.  Otherwise name
  and zone stay, the region is the zone without its last character, the cluster is pending, has no
  API endpoint yet, the cluster network is that of its network provider, and preparing it again
  with the same stamps changes nothing.\<close>

lemma cluster_defaults:
  "case default_cluster uid created generation c of
     Inl e \<Rightarrow> Zone (c_CloudSpec c) = '''' \<and> (\<exists>p. e = Panic p)
   | Inr c' \<Rightarrow> c_Name c' = c_Name c \<and> UID (c_ObjectMeta c') = uid \<and>
       Zone (c_CloudSpec c') = Zone (c_CloudSpec c) \<and> (\<exists>z. Zone (c_CloudSpec c) = Region (c_CloudSpec c') @ [z]) \<and>
       c_Phase c' = ClusterPending \<and> APIServerURL c' = '''' \<and>
       SSHKeyName (c_CloudSpec c') = GenSSHKeyName (c_Name c) \<and>
       c_Network c' = \<lparr>Services = [DefaultServicesSubnet],
          Pods = [default_podSubnet (NetworkProvider (c_CloudSpec c))], ServiceDomain = DefaultServiceDNSDomain\<rparr> \<and>
       default_cluster uid created generation c' = Inr c'"
proof (cases "Zone (c_CloudSpec c) = ''''")
  case True
  then show ?thesis
    by (simp add: default_cluster_def Let_def InitClusterAPI_def stamp_meta_def SetNetworkingDefaults_def cluster_upd)
next
  case False
  then show ?thesis
    by (simp add: default_cluster_def Let_def InitClusterAPI_def stamp_meta_def SetNetworkingDefaults_def
        upd_Config_def upd_CloudSpec_def upd_ClusterAPI_def upd_Network_def assign_Cluster_def assign_CapiCluster_def
        assign_type_def fill_network_def zero_CapiCluster_def APIServerURL_def GenSSHKeyName_def GenSSHKeyExternalID_def
        zero_TypeMeta_def) (metis append_butlast_last_id)
qed

section \<open>Node counts\<close>

lemma nodeCount_from_eq:
  "nodeCount_from n mss = (if \<exists>ms \<in> set mss. Replicas (ms_Spec ms) = None then Inl (Panic ''nil pointer dereference'')
     else Inr (n + sum_list (map (the \<circ> Replicas \<circ> ms_Spec) mss)))"
  by (induction n mss rule: nodeCount_from.induct) (auto split: option.splits simp: add.assoc comp_def)

lemma sint_sum_list: "sint (sum_list rs :: int32) = signed_take_bit 31 (sum_list (map sint rs))"
proof (induction rs)
  case (Cons r rs)
  have "sint (r + sum_list rs) = signed_take_bit 31 (sint r + sint (sum_list rs))"
    by (simp add: sint_word_ariths)
  also have "\<dots> = signed_take_bit 31 (sint r + sum_list (map sint rs))"
    using signed_take_bit_add [of 31 "sint r" "signed_take_bit 31 (sum_list (map sint rs))"]
      signed_take_bit_add [of 31 "sint r" "sum_list (map sint rs)"] by (simp add: Cons)
  finally show ?case by simp
qed simp

text \<open>C35. The node count that selects the master size: it panics exactly if some machine set has no
  replica count; otherwise it is the sum of the replica counts, wrapped around to 32 bits.\<close>

theorem node_count_wraps:
  "case nodeCount mss of
     Inl e \<Rightarrow> (\<exists>ms \<in> set mss. Replicas (ms_Spec ms) = None) \<and> (\<exists>p. e = Panic p)
   | Inr n \<Rightarrow> (\<exists>rs. map (Replicas \<circ> ms_Spec) mss = map Some rs \<and> sint n = signed_take_bit 31 (sum_list (map sint rs)))"
proof (cases "\<exists>ms \<in> set mss. Replicas (ms_Spec ms) = None")
  case False
  then have "map (Replicas \<circ> ms_Spec) mss = map Some (map (the \<circ> Replicas \<circ> ms_Spec) mss)" by auto
  then show ?thesis using False unfolding nodeCount_def nodeCount_from_eq
    by (simp del: map_map add: sint_sum_list)
qed (auto simp: nodeCount_def nodeCount_from_eq)

section \<open>Kubeadm tokens\<close>

lemma ParseToken_iff:
  "ParseToken t = Inr (i, s) \<longleftrightarrow>
    t = decodeToken i s \<and> length i = 6 \<and> length s = 16 \<and> list_all token_char i \<and> list_all token_char s"
proof
  assume "ParseToken t = Inr (i, s)"
  then have len: "length t = 23" and p: "i = take 6 t" "s = drop 7 t" "t ! 6 = CHR ''.''"
    and c: "list_all token_char (take 6 t)" "list_all token_char (drop 7 t)"
    by (auto simp: ParseToken_def split: if_splits)
  have "t = take 6 t @ t ! 6 # drop (Suc 6) t" using len by (intro id_take_nth_drop) simp
  then have "t = decodeToken i s" by (simp add: p decodeToken_def)
  then show "t = decodeToken i s \<and> length i = 6 \<and> length s = 16 \<and> list_all token_char i \<and> list_all token_char s"
    using len c by (simp add: p)
next
  assume "t = decodeToken i s \<and> length i = 6 \<and> length s = 16 \<and> list_all token_char i \<and> list_all token_char s"
  then show "ParseToken t = Inr (i, s)" by (simp add: ParseToken_def decodeToken_def nth_append)
qed

lemma valid_on_ext:
  "valid (\<lambda>_. True) m (\<lambda>x _. Q x) (\<lambda>e _. F e) \<Longrightarrow> valid (\<lambda>_. True) (on_ext m) (\<lambda>x _. Q x) (\<lambda>e _. F e)"
  by (rule validI) (auto simp: on_ext_def split: prod.splits dest: valid_Inr valid_Inl)

lemma valid_pure: "valid (\<lambda>_. True) m Q F \<Longrightarrow> valid (\<lambda>_. P) m (\<lambda>x s. P \<and> Q x s) F"
  by (fastforce simp: valid_def split: prod.splits sum.splits)

lemma RandStringRunes_ok:
  fixes E :: "('s, 'x) env"
  assumes "\<And>n. 0 < n \<Longrightarrow> valid (\<lambda>_. True) (mrnd_Intn (e_sys E) n) (\<lambda>i _. i < n) (\<lambda>_ _. False)"
  shows "valid (\<lambda>_. True) (RandStringRunes E n) (\<lambda>s _. length s = n \<and> list_all token_char s) (\<lambda>_ _. False)"
proof (induction n)
  case 0
  show ?case by (simp add: valid_ret)
next
  case (Suc n)
  have draw: "valid (\<lambda>_. True) (on_ext (mrnd_Intn (e_sys E) (length letterRunes)) :: (('s, 'x) world, nat) prog)
      (\<lambda>i _. i < length letterRunes) (\<lambda>_ _. False)"
    by (intro valid_on_ext assms) (simp add: letterRunes_def)
  have "token_char (letterRunes ! i)" if "i < length letterRunes" for i
  proof -
    have "set letterRunes \<subseteq> {c. token_char c}" by (simp add: letterRunes_def token_char_def)
    then show ?thesis using that nth_mem by blast
  qed
  then show ?case
    unfolding RandStringRunes.simps
    by (intro valid_bindp [OF draw] valid_if valid_fail valid_bindp [OF valid_pure [OF Suc]] valid_ret) auto
qed

text \<open>C12. Kubeadm tokens: reading a token gives id and secret exactly if the token is six characters, a dot
  and sixteen characters of a-z and 0-9, printing them gives the token back, and a token made from
  random numbers in range can always be read.\<close>

theorem token_roundtrip:
  assumes "\<And>n. 0 < n \<Longrightarrow> valid (\<lambda>_. True) (mrnd_Intn (e_sys E) n) (\<lambda>i _. i < n) (\<lambda>_ _. False)"
  shows "valid (\<lambda>_. True) (GetKubeadmToken E)
      (\<lambda>t _. \<exists>i s. ParseToken t = Inr (i, s) \<and> t = decodeToken i s) (\<lambda>_ _. False) \<and>
    (ParseToken t = Inr (i, s) \<longleftrightarrow> t = decodeToken i s \<and> length i = 6 \<and> length s = 16 \<and>
       list_all token_char i \<and> list_all token_char s)"
proof
  show "valid (\<lambda>_. True) (GetKubeadmToken E)
      (\<lambda>t _. \<exists>i s. ParseToken t = Inr (i, s) \<and> t = decodeToken i s) (\<lambda>_ _. False)"
    unfolding GetKubeadmToken_def ParseToken_iff
    by (intro valid_bindp [OF RandStringRunes_ok [OF assms]] valid_bindp [OF valid_pure [OF RandStringRunes_ok [OF assms]]] valid_ret)
       (auto simp: decodeToken_def)
qed (rule ParseToken_iff)

theorem token_roundtrip_witness:
  "valid (\<lambda>_. True) (GetKubeadmToken demo_env) (\<lambda>t _. \<exists>i s. ParseToken t = Inr (i, s) \<and> t = decodeToken i s) (\<lambda>_ _. False) \<and>
   ParseToken ''abcdef.0123456789abcdef'' = Inr (''abcdef'', ''0123456789abcdef'')"
  using token_roundtrip [of demo_env "''abcdef.0123456789abcdef''" "''abcdef''" "''0123456789abcdef''"]
  by (simp add: demo_env_def demo_sys_def valid_ret decodeToken_def token_char_def)

text \<open>The secret as the API server lists it later.\<close>

definition listed_secret :: "(string \<times> bytes) list \<Rightarrow> BootstrapSecret" where
  "listed_secret data = (let get = (\<lambda>k. case map_of data k of None \<Rightarrow> '''' | Some v \<Rightarrow> v) in
     \<lparr>bs_Expiration = get ''expiration'', bs_TokenID = get ''token-id'', bs_TokenSecret = get ''token-secret''\<rparr>)"

lemma find_token_eq:
  "find_token parse now ss = map_option (\<lambda>s. decodeToken (bs_TokenID s) (bs_TokenSecret s))
     (find (\<lambda>s. now + sixty_minutes < parse (bs_Expiration s)) ss)"
  by (induction ss) auto

text \<open>Token reuse: the first listed token that is valid for more than an hour is taken, and a token made
  with the default duration is taken again while no more than 23 hours less a second have passed.
  Printing and reading a time may lose less than a second, as RFC 3339 does.\<close>

lemma token_reused:
  assumes rfc: "\<And>t. t - 1000000000 < time_Parse (e_sys E) (time_Format (e_sys E) t)"
    and now: "time_Now (e_sys E) (w_ext w) = (Inr now, x)"
    and data: "encodeTokenSecretData E i s DefaultTokenDuration usages groups descr w = (Inr entries, w')"
    and later: "later \<le> now + 23 * sixty_minutes - 1000000000"
  shows "find_token (time_Parse (e_sys E)) later (listed_secret entries # others) = Some (decodeToken i s) \<and>
    find_token (time_Parse (e_sys E)) later others =
      map_option (\<lambda>s. decodeToken (bs_TokenID s) (bs_TokenSecret s))
        (find (\<lambda>s. later + sixty_minutes < time_Parse (e_sys E) (bs_Expiration s)) others)"
proof -
  have "map_of entries ''expiration'' = Some (time_Format (e_sys E) (now + DefaultTokenDuration))"
    "map_of entries ''token-id'' = Some i" "map_of entries ''token-secret'' = Some s"
    using data now by (auto simp: encodeTokenSecretData_def prog_run DefaultTokenDuration_def sixty_minutes_def)
  moreover have "later + sixty_minutes < time_Parse (e_sys E) (time_Format (e_sys E) (now + DefaultTokenDuration))"
    using rfc [of "now + DefaultTokenDuration"] later by (simp add: DefaultTokenDuration_def)
  ultimately show ?thesis by (simp add: find_token_eq listed_secret_def)
qed

end
