(* ===== verification/Kube_Version_Correct.thy ===== *)
theory Kube_Version_Correct
  imports Kube_Version
begin

text \<open>
  Facts on version numbers: what the scanners match, that printing a semantic version and parsing
  it gives it back, and the order of versions, with the pre-releases on which it is no order.
\<close>

section \<open>Scanners\<close>

definition dotted_word :: "(char \<Rightarrow> bool) \<Rightarrow> string \<Rightarrow> bool" where
  "dotted_word P s \<longleftrightarrow> (\<forall>a \<in> set (split_on (CHR ''.'') s). a \<noteq> [] \<and> list_all P a)"

definition stops :: "(char \<Rightarrow> bool) \<Rightarrow> string \<Rightarrow> bool" where
  "stops P r \<longleftrightarrow> (r = [] \<or> \<not> P (hd r)) \<and> \<not> (\<exists>c t. r = CHR ''.'' # c # t \<and> P c)"

lemma dotted_append: "dotted P s = (a, r) \<Longrightarrow> s = a @ r"
proof (induction P s arbitrary: a r rule: dotted.induct)
  case (1 P s)
  show ?case
  proof (cases "takeWhile P s = []")
    case True
    then show ?thesis using "1.prems" by (simp add: dotted.simps [of P s])
  next
    case False
    note run = "1.prems" [unfolded dotted.simps [of P s] Let_def, simplified False if_False]
    have s: "s = takeWhile P s @ dropWhile P s" by simp
    show ?thesis
    proof (cases "\<exists>d t. dropWhile P s = CHR ''.'' # d # t \<and> P d")
      case True
      then obtain d t where r: "dropWhile P s = CHR ''.'' # d # t" "P d" by blast
      obtain b r' where b: "dotted P (d # t) = (b, r')" by (cases "dotted P (d # t)")
      have "d # t = b @ r'" by (rule "1.IH" [OF refl refl False r(1) refl _ b]) (simp add: r(2))
      moreover have "a = takeWhile P s @ CHR ''.'' # b" "r = r'" using run r b by simp_all
      ultimately show ?thesis using s r(1) by (metis append.assoc append_Cons)
    next
      case False
      then have "(a, r) = (takeWhile P s, dropWhile P s)"
        using run by (auto split: list.splits if_splits)
      then show ?thesis using s by simp
    qed
  qed
qed

lemma takeWhile_run: "list_all P a \<Longrightarrow> r = [] \<or> \<not> P (hd r) \<Longrightarrow> takeWhile P (a @ r) = a \<and> dropWhile P (a @ r) = r"
  by (induction a) (cases r; simp)+

lemma dotted_join:
  assumes "\<not> P (CHR ''.'')" "stops P r"
  shows "segs \<noteq> [] \<Longrightarrow> (\<And>a. a \<in> set segs \<Longrightarrow> a \<noteq> [] \<and> list_all P a) \<Longrightarrow> dotted P (join ''.'' segs @ r) = (join ''.'' segs, r)"
proof (induction segs rule: induct_list012)
  case (2 a)
  have "takeWhile P (a @ r) = a" "dropWhile P (a @ r) = r"
    using takeWhile_run [of P a r] 2 assms(2) by (auto simp: stops_def)
  then show ?case
    using 2 assms(2) by (auto simp: dotted.simps [of P "a @ r"] stops_def split: list.splits)
next
  case (3 a b segs)
  let ?rest = "join ''.'' (b # segs) @ r"
  have a: "a \<noteq> []" "list_all P a" and b: "b \<noteq> []" "list_all P b" using 3(4) by auto
  obtain d t where d: "?rest = d # t" "P d"
  proof -
    have "?rest = b @ (if segs = [] then r else ''.'' @ join ''.'' segs @ r)" by (cases segs) simp_all
    moreover obtain d t where "b = d # t" "P d" using b by (cases b) auto
    ultimately show ?thesis using that by simp
  qed
  have rec: "dotted P (d # t) = (join ''.'' (b # segs), r)" using 3(2) 3(4) d(1) by simp
  have run: "takeWhile P (a @ CHR ''.'' # d # t) = a" "dropWhile P (a @ CHR ''.'' # d # t) = CHR ''.'' # d # t"
    using takeWhile_run [of P a "CHR ''.'' # d # t"] a assms(1) by simp_all
  have "join ''.'' (a # b # segs) @ r = a @ CHR ''.'' # d # t" using d(1) by simp
  then show ?case using a d(2) rec by (simp add: dotted.simps [of P "a @ CHR ''.'' # d # t"] run del: join.simps) simp
qed simp

lemma dotted_nonempty: "P d \<Longrightarrow> dotted P (d # t) = (b, r) \<Longrightarrow> b \<noteq> []"
  by (auto simp: dotted.simps [of P "d # t"] Let_def split: list.splits if_splits prod.splits)

lemma dotted_result:
  "\<not> P (CHR ''.'') \<Longrightarrow> dotted P s = (a, r) \<Longrightarrow> a \<noteq> [] \<Longrightarrow> dotted_word P a \<and> P (hd a)"
proof (induction P s arbitrary: a r rule: dotted.induct)
  case (1 P s)
  have w: "list_all P (takeWhile P s)" by (simp add: list_all_iff) (metis set_takeWhileD)
  note dot = "1.prems"(1)
  show ?case
  proof (cases "takeWhile P s = []")
    case True
    then show ?thesis using "1.prems"(2,3) by (simp add: dotted.simps [of P s])
  next
    case False
    note run = "1.prems"(2) [unfolded dotted.simps [of P s] Let_def, simplified False if_False]
    have nodot: "CHR ''.'' \<notin> set (takeWhile P s)" using w dot by (auto simp: list_all_iff)
    have hd: "P (hd (takeWhile P s))" using w False by (cases "takeWhile P s") auto
    show ?thesis
    proof (cases "\<exists>d t. dropWhile P s = CHR ''.'' # d # t \<and> P d")
      case True
      then obtain d t where r: "dropWhile P s = CHR ''.'' # d # t" "P d" by blast
      obtain b r' where b: "dotted P (d # t) = (b, r')" by (cases "dotted P (d # t)")
      have a: "a = takeWhile P s @ CHR ''.'' # b" using run r b by simp
      have "b \<noteq> []" using dotted_nonempty [OF r(2) b] .
      then have "dotted_word P b" using "1.IH" [OF refl refl False r(1) refl _ dot b] r(2) by simp
      then show ?thesis using w False hd unfolding a dotted_word_def by (simp add: split_on_append nodot)
    next
      case no: False
      then have "a = takeWhile P s" using run by (auto split: list.splits if_splits)
      then show ?thesis using w False hd nodot by (simp add: dotted_word_def)
    qed
  qed
qed

section \<open>Printing and parsing\<close>

lemma digit_class: "is_digit c \<longleftrightarrow> digit_val c \<noteq> None"
  by (auto simp: is_digit_def digit_val_def Let_def)

lemma digits_not: "\<not> is_digit (CHR ''.'')" "\<not> is_digit (CHR ''v'')" "\<not> is_digit (CHR ''-'')" "\<not> is_digit (CHR ''+'')"
  "\<not> is_ident (CHR ''.'')" "\<not> is_ident (CHR ''+'')" "is_ident (CHR ''-'')"
  by (simp_all add: is_digit_def is_ident_def is_lower_def is_upper_def)

lemma show_nat_digits: "list_all is_digit (show_nat n)"
  using set_show_nat [of n] by (auto simp: list_all_iff is_digit_def dest!: subsetD)

lemma show_nat_zero: "has_prefix (show_nat n) ''0'' \<longleftrightarrow> n = 0"
proof (induction n rule: show_nat.induct)
  case (1 n)
  show ?case
  proof (cases "n < 10")
    case True
    then show ?thesis using nat_less_10 [of n] by (auto simp: show_nat.simps [of n] digit_char_def has_prefix_def)
  next
    case False
    obtain c s where "show_nat (n div 10) = c # s" by (cases "show_nat (n div 10)") simp_all
    then show ?thesis using 1 False by (simp add: show_nat.simps [of n] has_prefix_def)
  qed
qed

lemma show_nat_canonical: "\<not> zero_prefixed (show_nat n)"
  using show_nat.simps [of 0] by (cases "n = 0") (simp_all add: zero_prefixed_def show_nat_zero digit_char_def)

lemma parse_comps_show:
  "list_all (\<lambda>n. n < 2 ^ 64) ns \<Longrightarrow> parse_comps semver first str (map show_nat ns) = Inr ns"
  by (induction ns arbitrary: first) (simp_all add: show_nat_canonical parse_uint_show_nat)

text \<open>The values that semantic versions have.\<close>

definition version_ok :: "KubeVersion \<Rightarrow> bool" where
  "version_ok v \<longleftrightarrow> v_semver v \<and> length (v_components v) = 3 \<and> list_all (\<lambda>n. n < 2 ^ 64) (v_components v) \<and>
     (v_preRelease v \<noteq> [] \<longrightarrow> dotted_word is_ident (v_preRelease v)) \<and>
     (\<forall>p \<in> set (split_on (CHR ''.'') (v_preRelease v)). parse_uint p \<noteq> None \<longrightarrow> \<not> zero_prefixed p) \<and>
     (v_buildMetadata v \<noteq> [] \<longrightarrow> dotted_word is_ident (v_buildMetadata v))"

lemma parse_comps_ok:
  "parse_comps semver first str parts = Inr ns \<Longrightarrow> length ns = length parts \<and> list_all (\<lambda>n. n < 2 ^ 64) ns"
proof (induction parts arbitrary: first ns)
  case (Cons p parts)
  then obtain n ms where n: "parse_uint p = Some n" "parse_comps semver False str parts = Inr ms" "ns = n # ms"
    by (auto simp: rbind_Inr_iff split: if_splits option.splits)
  have "n < 2 ^ 64" using n(1) by (auto simp: parse_uint_def split: option.splits if_splits)
  then show ?case using Cons.IH [OF n(2)] n(3) by simp
qed simp

lemma after_mark_ok:
  assumes "after_mark m s = (p, r)" "p \<noteq> []"
  shows "dotted_word is_ident p"
proof (cases s)
  case (Cons c t)
  then obtain r' where "dotted is_ident t = (p, r')" using assms by (auto simp: after_mark_def split: if_splits prod.splits)
  then show ?thesis using dotted_result [where P = is_ident, OF digits_not(5)] assms(2) by blast
qed (use assms in \<open>simp add: after_mark_def\<close>)

lemma ParseSemantic_ok:
  assumes "ParseSemantic str = Inr v"
  shows "version_ok v"
proof -
  obtain numbers extra where d: "dotted is_digit (version_body str) = (numbers, extra)"
    by (cases "dotted is_digit (version_body str)")
  note run = assms [unfolded ParseSemantic_def parse_version_def Let_def d prod.case]
  from run obtain ns where ns: "parse_comps True True str (split_on (CHR ''.'') numbers) = Inr ns"
    "length (split_on (CHR ''.'') numbers) = 3" "v_components v = ns" "v_semver v"
    by (auto simp: rbind_Inr_iff split: prod.splits if_splits option.splits)
  have rest: "(v_preRelease v = [] \<and> v_buildMetadata v = []) \<or>
      (extra_match extra = Some (v_preRelease v, v_buildMetadata v) \<and>
       find (\<lambda>part. parse_uint part \<noteq> None \<and> zero_prefixed part) (split_on (CHR ''.'') (v_preRelease v)) = None)"
    using run by (auto simp: rbind_Inr_iff split: prod.splits if_splits option.splits)
  show ?thesis
    using parse_comps_ok [OF ns(1)] ns rest
    by (auto simp: version_ok_def extra_match_def find_None_iff parse_uint_def dest: after_mark_ok
        split: prod.splits if_splits)
qed

lemma dotted_word_scan: "dotted_word P w \<Longrightarrow> \<not> P (CHR ''.'') \<Longrightarrow> stops P r \<Longrightarrow> dotted P (w @ r) = (w, r)"
  using dotted_join [of P r "split_on (CHR ''.'') w"] join_split_on [of "CHR ''.''" w] by (simp add: dotted_word_def)

lemma in_split_on: "x \<in> set s \<Longrightarrow> x = c \<or> (\<exists>a \<in> set (split_on c s). x \<in> set a)"
  by (induction s) (auto split: list.splits)

lemma dotted_word_chars: "dotted_word P w \<Longrightarrow> x \<in> set w \<Longrightarrow> P x \<or> x = CHR ''.''"
  using in_split_on [of x w "CHR ''.''"] by (auto simp: dotted_word_def list_all_iff)

lemma after_mark_word:
  assumes "dotted_word is_ident w" "w \<noteq> []" "stops is_ident r"
  shows "after_mark m (m # w @ r) = (w, r)"
  using dotted_word_scan [OF assms(1) digits_not(5) assms(3)] assms(2) by (simp add: after_mark_def)

lemma after_mark_none: "s = [] \<or> hd s \<noteq> m \<Longrightarrow> after_mark m s = ([], s)"
  by (cases s) (auto simp: after_mark_def)

lemma printed_parses:
  assumes ok: "version_ok v" and body: "version_body str = version_String v"
  shows "ParseSemantic str = Inr v"
proof -
  let ?N = "join ''.'' (map show_nat (v_components v))"
  let ?M = "if v_buildMetadata v \<noteq> [] then CHR ''+'' # v_buildMetadata v else []"
  let ?E = "(if v_preRelease v \<noteq> [] then CHR ''-'' # v_preRelease v else []) @ ?M"
  note ok = ok [unfolded version_ok_def]
  have "length (v_components v) = 3" using ok by blast
  then obtain a b c where abc: "v_components v = [a, b, c]" by (auto simp: length_Suc_conv numeral_3_eq_3)
  have E: "stops is_digit ?E" "stops is_ident ?M" "CHR 0x0A \<notin> set ?E"
  proof -
    show "stops is_digit ?E" "stops is_ident ?M" by (auto simp: stops_def digits_not)
    have "CHR 0x0A \<notin> set w" if "dotted_word is_ident w" for w
      using dotted_word_chars [OF that, of "CHR 0x0A"] by (auto simp: is_ident_def is_digit_def is_lower_def is_upper_def)
    then show "CHR 0x0A \<notin> set ?E" using ok by auto
  qed
  have scan: "dotted is_digit (version_String v) = (?N, ?E)"
    unfolding version_String_def using show_nat_digits abc by (intro dotted_join digits_not E) auto
  have split: "split_on (CHR ''.'') ?N = map show_nat (v_components v)"
  proof (rule split_on_join)
    show "CHR ''.'' \<notin> set x" if "x \<in> set (map show_nat (v_components v))" for x
      using that show_nat_digits digits_not(1) by (auto simp: list_all_iff)
  qed (simp add: abc)
  have extra: "extra_match ?E = Some (v_preRelease v, v_buildMetadata v)"
  proof -
    have "after_mark (CHR ''-'') ?E = (v_preRelease v, ?M)"
      using ok after_mark_word [OF _ _ E(2), of "v_preRelease v" "CHR ''-''"] after_mark_none [of ?M "CHR ''-''"] by auto
    moreover have "after_mark (CHR ''+'') ?M = (v_buildMetadata v, [])"
      using ok after_mark_word [of "v_buildMetadata v" "[]" "CHR ''+''"] after_mark_none [of "[]" "CHR ''+''"] by (auto simp: stops_def)
    ultimately show ?thesis by (simp add: extra_match_def)
  qed
  have find: "find (\<lambda>part. parse_uint part \<noteq> None \<and> zero_prefixed part) (split_on (CHR ''.'') (v_preRelease v)) = None"
    using ok by (auto simp: find_None_iff)
  have N: "?N \<noteq> []" by (simp add: abc)
  have comps: "parse_comps True True str (map show_nat (v_components v)) = Inr (v_components v)" for str
    using ok by (intro parse_comps_show) simp
  have len: "length (split_on (CHR ''.'') ?N) = 3" unfolding split using ok by simp
  show ?thesis
  proof (cases "?E = []")
    case True
    then have "v_preRelease v = []" "v_buildMetadata v = []" by (auto split: if_splits)
    then show ?thesis
      using ok N body scan E(3) len comps
      unfolding ParseSemantic_def parse_version_def Let_def by (simp add: split)
  next
    case False
    then show ?thesis
      using ok N body scan E(3) len comps extra find
      unfolding ParseSemantic_def parse_version_def Let_def by (simp add: split)
  qed
qed

lemma body_printed:
  assumes "version_ok v" "list_all re_space ws"
  shows "version_body (ws @ version_String v) = version_String v" "version_body (ws @ CHR ''v'' # version_String v) = version_String v"
proof -
  have "length (v_components v) = 3" using assms(1) unfolding version_ok_def by blast
  then obtain a b c where abc: "v_components v = [a, b, c]" by (auto simp: length_Suc_conv numeral_3_eq_3)
  obtain d t where d: "version_String v = d # t" "is_digit d"
    using show_nat_digits [of a] by (cases "show_nat a") (auto simp: version_String_def abc)
  have "dropWhile re_space (ws @ s) = dropWhile re_space s" for s using assms(2) by (induction ws) auto
  then show "version_body (ws @ version_String v) = version_String v" "version_body (ws @ CHR ''v'' # version_String v) = version_String v"
    using d by (auto simp: version_body_def re_space_def is_digit_def)
qed

section \<open>Order\<close>

text \<open>The components as a sequence, of which only finitely many are not zero, in lexicographic order.\<close>

definition component :: "nat list \<Rightarrow> nat \<Rightarrow> nat" where
  "component xs i = (if i < length xs then xs ! i else 0)"

definition lex_less :: "nat list \<Rightarrow> nat list \<Rightarrow> bool" where
  "lex_less xs ys \<longleftrightarrow> (\<exists>i. component xs i < component ys i \<and> (\<forall>j < i. component xs j = component ys j))"

lemma component_simps [simp]: "component [] i = 0" "component (x # xs) 0 = x" "component (x # xs) (Suc i) = component xs i"
  by (simp_all add: component_def)

lemma lex_less_Cons [simp]: "lex_less (x # xs) (y # ys) \<longleftrightarrow> x < y \<or> x = y \<and> lex_less xs ys"
proof
  assume "lex_less (x # xs) (y # ys)"
  then obtain i where i: "component (x # xs) i < component (y # ys) i" "\<forall>j < i. component (x # xs) j = component (y # ys) j"
    by (auto simp: lex_less_def)
  show "x < y \<or> x = y \<and> lex_less xs ys"
  proof (cases i)
    case (Suc k)
    then have "x = y" "component xs k < component ys k" "\<forall>j < k. component xs j = component ys j" using i by auto
    then show ?thesis by (auto simp: lex_less_def)
  qed (use i in simp)
next
  assume "x < y \<or> x = y \<and> lex_less xs ys"
  then show "lex_less (x # xs) (y # ys)"
  proof
    assume "x = y \<and> lex_less xs ys"
    then obtain i where "component xs i < component ys i" "\<forall>j < i. component xs j = component ys j" "x = y" by (auto simp: lex_less_def)
    then show ?thesis unfolding lex_less_def by (intro exI [of _ "Suc i"]) (auto simp: less_Suc_eq_0_disj)
  qed (auto simp: lex_less_def intro!: exI [of _ 0])
qed

lemma lex_less_Nil [simp]: "\<not> lex_less xs []" "lex_less [] ys \<longleftrightarrow> \<not> onlyZeros ys"
proof -
  show "\<not> lex_less xs []" by (simp add: lex_less_def)
  show "lex_less [] ys \<longleftrightarrow> \<not> onlyZeros ys"
  proof
    assume "lex_less [] ys"
    then obtain i where "0 < component ys i" by (auto simp: lex_less_def)
    then show "\<not> onlyZeros ys" by (auto simp: component_def onlyZeros_def list_all_iff split: if_splits)
  next
    assume "\<not> onlyZeros ys"
    then have "\<exists>i. 0 < component ys i" by (force simp: onlyZeros_def list_all_iff in_set_conv_nth component_def)
    then obtain i where i: "0 < component ys i" "\<forall>j < i. \<not> 0 < component ys j"
      using exists_least_iff [of "\<lambda>i. 0 < component ys i"] by blast
    then show "lex_less [] ys" unfolding lex_less_def by (intro exI [of _ i]) simp
  qed
qed

lemma cmp_components_Cons:
  "cmp_components (x # xs) (y # ys) = (if y < x then 1 else if x < y then -1 else cmp_components xs ys)"
  by (simp add: cmp_components_def)

lemma cmp_components_lex:
  "cmp_components v w = (if lex_less v w then -1 else if lex_less w v then 1 else 0)"
proof (induction v arbitrary: w)
  case Nil
  show ?case by (cases w) (auto simp: cmp_components_def)
next
  case (Cons x xs)
  show ?case
  proof (cases w)
    case Nil
    then show ?thesis by (auto simp: cmp_components_def)
  next
    case (Cons y ys)
    then show ?thesis using Cons.IH by (cases x y rule: linorder_cases) (simp_all add: cmp_components_Cons)
  qed
qed

lemma lex_total: "\<not> lex_less xs ys \<Longrightarrow> \<not> lex_less ys xs \<Longrightarrow> component xs = component ys"
proof (rule ccontr)
  assume no: "\<not> lex_less xs ys" "\<not> lex_less ys xs" and "component xs \<noteq> component ys"
  then have "\<exists>i. component xs i \<noteq> component ys i" by (simp add: fun_eq_iff)
  then obtain i where i: "component xs i \<noteq> component ys i" "\<forall>j < i. component xs j = component ys j"
    using exists_least_iff [of "\<lambda>i. component xs i \<noteq> component ys i"] by blast
  then have eq: "\<forall>j < i. component ys j = component xs j" by simp
  from i(1) consider "component xs i < component ys i" | "component ys i < component xs i" by linarith
  then show False using no i(2) eq unfolding lex_less_def by cases blast+
qed

lemma lex_trans: "lex_less xs ys \<Longrightarrow> lex_less ys zs \<Longrightarrow> lex_less xs zs"
proof -
  assume "lex_less xs ys" "lex_less ys zs"
  then obtain i k where i: "component xs i < component ys i" "\<And>j. j < i \<Longrightarrow> component xs j = component ys j"
    and k: "component ys k < component zs k" "\<And>j. j < k \<Longrightarrow> component ys j = component zs j" unfolding lex_less_def by blast
  have "component xs (min i k) < component zs (min i k)"
    using i(1) i(2) [of k] k(1) k(2) [of i] by (cases i k rule: linorder_cases) simp_all
  moreover have "component xs j = component zs j" if "j < min i k" for j using that i(2) [of j] k(2) [of j] by simp
  ultimately show ?thesis unfolding lex_less_def by blast
qed

lemma lex_less_self: "\<not> lex_less xs xs"
  by (simp add: lex_less_def)

lemma lex_irrefl: "lex_less xs ys \<Longrightarrow> \<not> lex_less ys xs"
  using lex_trans [of xs ys xs] lex_less_self by blast

lemma cmp_ident_anti: "cmp_ident y x = - cmp_ident x y"
  by (auto simp: cmp_ident_def split: option.splits)

lemma cmp_idents_anti: "cmp_idents ys xs = - cmp_idents xs ys"
proof (induction xs ys rule: cmp_idents.induct)
  case (1 x xs y ys)
  have "cmp_ident y x = - cmp_ident x y" by (rule cmp_ident_anti)
  with 1 show ?case by simp
qed simp_all

lemma cmp_components_anti: "cmp_components w v = - cmp_components v w"
  unfolding cmp_components_lex using lex_irrefl [of v w] by auto

lemma compare_anti: "compareInternal w v = - compareInternal v w"
proof (cases "cmp_components (v_components v) (v_components w) = 0")
  case True
  then have z: "cmp_components (v_components w) (v_components v) = 0"
    by (subst cmp_components_anti) simp
  show ?thesis unfolding compareInternal_def True z by (auto intro: cmp_idents_anti)
next
  case False
  then have "cmp_components (v_components w) (v_components v) \<noteq> 0"
    by (subst cmp_components_anti) simp
  with False show ?thesis unfolding compareInternal_def by (auto intro: cmp_components_anti)
qed

lemma cmp_idents_range: "cmp_idents xs ys \<in> {-1, 0, 1}"
  by (induction xs ys rule: cmp_idents.induct) (auto simp: cmp_ident_def split: option.splits)

lemma compare_range: "compareInternal v w \<in> {-1, 0, 1}"
  using cmp_idents_range by (auto simp: compareInternal_def cmp_components_lex split: if_splits)

section \<open>Properties\<close>

lemma release_order:
  assumes "v_preRelease v = []" "v_preRelease w = []"
  shows "LessThan v w \<longleftrightarrow> lex_less (v_components v) (v_components w)"
    "AtLeast v w \<longleftrightarrow> \<not> lex_less (v_components v) (v_components w)"
  using assms lex_irrefl [of "v_components v" "v_components w"]
  by (auto simp: LessThan_def AtLeast_def compareInternal_def cmp_components_lex split: if_splits)

lemma LessThan_irrefl: "\<not> LessThan v v"
  by (simp add: LessThan_def compareInternal_def cmp_components_lex lex_less_self)

lemma LessThan_AtLeast: "LessThan v w \<longleftrightarrow> \<not> AtLeast v w"
  by (simp add: LessThan_def AtLeast_def)

lemma LessThan_asym: "LessThan v w \<Longrightarrow> \<not> LessThan w v"
  using compare_anti [of v w] by (simp add: LessThan_def)

text \<open>C27. What \<^verbatim>\<open>ParseSemantic\<close> accepts is printed canonically: printing the version, with or without
  leading space and the letter \<^verbatim>\<open>v\<close>, and parsing it again gives the same version, whatever the string
  it came from looked like.\<close>

theorem version_roundtrip:
  assumes "ParseSemantic str = Inr v" "list_all re_space ws"
  shows "ParseSemantic (ws @ version_String v) = Inr v \<and> ParseSemantic (ws @ CHR ''v'' # version_String v) = Inr v"
  using assms by (meson ParseSemantic_ok body_printed printed_parses)

lemmas version_eval = ParseSemantic_def ParseGeneric_def parse_version_def version_body_def re_space_def dotted.simps
  is_digit_def is_ident_def is_lower_def is_upper_def parse_uint_def digit_val_def zero_prefixed_def has_prefix_def
  extra_match_def after_mark_def Let_def rbind_def quoted_def version_String_def

lemma parse_rc: "ParseSemantic ''v1.11.0-rc.2+build'' =
  Inr \<lparr>v_components = [1, 11, 0], v_semver = True, v_preRelease = ''rc.2'', v_buildMetadata = ''build''\<rparr>"
  by (simp add: version_eval)

theorem version_roundtrip_witness:
  "ParseSemantic ('' '' @ CHR ''v'' # version_String
       \<lparr>v_components = [1, 11, 0], v_semver = True, v_preRelease = ''rc.2'', v_buildMetadata = ''build''\<rparr>) =
   Inr \<lparr>v_components = [1, 11, 0], v_semver = True, v_preRelease = ''rc.2'', v_buildMetadata = ''build''\<rparr>"
  using version_roundtrip [OF parse_rc, of "'' ''"] by (simp add: re_space_def)

text \<open>C28. The comparison of versions is antisymmetric, and on versions without pre-release it is the
  lexicographic order of their components (missing components are 0), a strict total order.  With
  pre-releases it is no order: an identifier that is no number is compared as text with numbers, and three
  versions can be each less than the next in a circle.\<close>

theorem version_order:
  "compareInternal w v = - compareInternal v w \<and>
   (v_preRelease v = [] \<and> v_preRelease w = [] \<longrightarrow>
      (LessThan v w \<longleftrightarrow> lex_less (v_components v) (v_components w)) \<and>
      (LessThan v w \<or> LessThan w v \<or> component (v_components v) = component (v_components w))) \<and>
   (\<exists>a b c. ParseSemantic ''1.0.0-2'' = Inr a \<and> ParseSemantic ''1.0.0-10'' = Inr b \<and> ParseSemantic ''1.0.0-1a'' = Inr c \<and>
      LessThan a b \<and> LessThan b c \<and> LessThan c a)"
proof (intro conjI impI)
  show "compareInternal w v = - compareInternal v w" by (rule compare_anti)
next
  assume "v_preRelease v = [] \<and> v_preRelease w = []"
  then show "LessThan v w \<longleftrightarrow> lex_less (v_components v) (v_components w)"
    "LessThan v w \<or> LessThan w v \<or> component (v_components v) = component (v_components w)"
    using lex_total by (auto simp: release_order)
next
  have pre: "ParseSemantic (''1.0.0-'' @ p) = Inr \<lparr>v_components = [1, 0, 0], v_semver = True, v_preRelease = p, v_buildMetadata = []\<rparr>"
    if "p \<in> {''2'', ''10'', ''1a''}" for p using that by (auto simp: version_eval)
  show "\<exists>a b c. ParseSemantic ''1.0.0-2'' = Inr a \<and> ParseSemantic ''1.0.0-10'' = Inr b \<and> ParseSemantic ''1.0.0-1a'' = Inr c \<and>
      LessThan a b \<and> LessThan b c \<and> LessThan c a"
    using pre [of "''2''"] pre [of "''10''"] pre [of "''1a''"]
    by (simp add: LessThan_def compareInternal_def cmp_components_def onlyZeros_def cmp_ident_def parse_uint_def digit_val_def)
qed

theorem version_order_witness:
  "LessThan \<lparr>v_components = [1, 9], v_semver = False, v_preRelease = [], v_buildMetadata = []\<rparr>
            \<lparr>v_components = [1, 10], v_semver = False, v_preRelease = [], v_buildMetadata = []\<rparr>"
  using version_order [of "\<lparr>v_components = [1, 10], v_semver = False, v_preRelease = [], v_buildMetadata = []\<rparr>"
                          "\<lparr>v_components = [1, 9], v_semver = False, v_preRelease = [], v_buildMetadata = []\<rparr>"] by simp

end
