(* ===== verification/Semver_Correct.thy ===== *)
theory Semver_Correct
  imports Semver Kube_Version_Correct Api_Cluster
begin

text \<open>
  The versions of \<^verbatim>\<open>gomodules.xyz/version\<close>: what \<^verbatim>\<open>NewVersion\<close> accepts, and that printing a version and
  reading it again gives an equal one.
\<close>

section \<open>What is read\<close>

lemma sem_char_dot: "\<not> sem_char (CHR ''.'')" "\<not> sem_char (CHR ''+'')" "sem_char (CHR ''-'')"
  by (simp_all add: sem_char_def digits_not)

definition sem_word :: "string \<Rightarrow> bool" where
  "sem_word w \<longleftrightarrow> w = [] \<or> dotted_word sem_char w \<and> sem_char (hd w)"

definition sem_ok :: "SemVersion \<Rightarrow> bool" where
  "sem_ok v \<longleftrightarrow> (\<exists>ns. sv_segments v = map int ns \<and> 3 \<le> length ns \<and> list_all (\<lambda>n. n < 2 ^ 63) ns) \<and>
     sem_word (sv_pre v) \<and> sem_word (sv_metadata v)"

lemma dotted_sem_word: "dotted sem_char s = (a, r) \<Longrightarrow> sem_word a"
  using dotted_result [where P = sem_char, OF sem_char_dot(1)] by (cases "a = []") (auto simp: sem_word_def)

lemma sem_pre_word: "sem_pre r = (p, r') \<Longrightarrow> sem_word p"
  by (auto simp: sem_pre_def dest: dotted_sem_word split: list.splits if_splits) (auto simp: sem_word_def)

lemma sem_metadata_word: "sem_metadata r = Some m \<Longrightarrow> sem_word m"
  by (auto simp: sem_metadata_def dest: dotted_sem_word split: list.splits if_splits prod.splits) (auto simp: sem_word_def)

lemma parse_u64_digits:
  "list_all is_digit ds \<Longrightarrow> parse_u64 n ds = (k, e) \<Longrightarrow> e = NoError \<or> e = ErrRange"
  by (induction n ds rule: parse_u64.induct) (auto simp: digit_class split: option.splits if_splits)

lemma parse_segments_ok:
  assumes "\<forall>s \<in> set strs. s \<noteq> [] \<and> list_all is_digit s" "parse_segments strs = Inr vals"
  shows "\<exists>ns. vals = map int ns \<and> length ns = length strs \<and> list_all (\<lambda>n. n < 2 ^ 63) ns"
  using assms
proof (induction strs arbitrary: vals)
  case (Cons str strs)
  obtain val where val: "ParseInt str = (val, NoError)"
    using Cons.prems(2) by (cases "ParseInt str") (auto simp: rbind_Inr_iff split: if_splits)
  with Cons.prems(2) obtain vs where vs: "parse_segments strs = Inr vs" "vals = val # vs" by (auto simp: rbind_Inr_iff)
  then obtain ns where ns: "vs = map int ns" "length ns = length strs" "list_all (\<lambda>n. n < 2 ^ 63) ns"
    using Cons.IH [OF _ vs(1)] Cons.prems(1) by auto
  obtain c cs where str: "str = c # cs" "is_digit c" using Cons.prems(1) by (cases str) auto
  then have "c \<noteq> CHR ''-''" "c \<noteq> CHR ''+''" using digits_not by auto
  then obtain k where "val = int k" "k < 2 ^ 63"
    using val str by (auto simp: ParseInt_def Let_def split: prod.splits if_splits)
  then show ?case using ns vs by (intro exI [of _ "k # ns"]) simp
qed simp

lemma sem_pre_nil: "sem_pre [] = ([], [])"
  by (simp add: sem_pre_def)

lemma NewVersion_ok:
  assumes "NewVersion s = Inr v"
  shows "sem_ok v"
proof -
  obtain numbers pre metadata where m: "versionRegexp s = Some (numbers, pre, metadata)"
    using assms by (auto simp: NewVersion_def split: option.splits)
  then obtain r where n: "numbers \<noteq> []" "\<exists>t. dotted is_digit t = (numbers, r)" "\<exists>r'. sem_pre r = (pre, r') \<and> sem_metadata r' = Some metadata"
    by (auto simp: versionRegexp_def split: list.splits prod.splits option.splits if_splits)
  then have "dotted_word is_digit numbers" using dotted_result [where P = is_digit, OF digits_not(1)] by blast
  then have digits: "\<forall>s \<in> set (split_on (CHR ''.'') numbers). s \<noteq> [] \<and> list_all is_digit s" by (simp add: dotted_word_def)
  obtain vals where vals: "parse_segments (split_on (CHR ''.'') numbers) = Inr vals"
    "sv_segments v = vals @ replicate (3 - length vals) 0" "sv_pre v = pre" "sv_metadata v = metadata"
    using assms m by (auto simp: NewVersion_def rbind_Inr_iff)
  obtain ns where ns: "vals = map int ns" "length ns = length (split_on (CHR ''.'') numbers)" "list_all (\<lambda>n. n < 2 ^ 63) ns"
    using parse_segments_ok [OF digits vals(1)] by blast
  have "sv_segments v = map int (ns @ replicate (3 - length ns) 0)" using vals(2) ns(1) by simp
  moreover have "list_all (\<lambda>n. n < 2 ^ 63) (ns @ replicate (3 - length ns) 0)" using ns(3) by (auto simp: list_all_iff)
  moreover have "3 \<le> length (ns @ replicate (3 - length ns) 0)" by simp
  ultimately show ?thesis unfolding sem_ok_def using vals(3,4) n(3) sem_pre_word sem_metadata_word by blast
qed

section \<open>Printing and reading again\<close>

lemma parse_u64_show: "m < 2 ^ 64 \<Longrightarrow> parse_digits n ds = Some m \<Longrightarrow> n \<le> m \<Longrightarrow> parse_u64 n ds = (m, NoError)"
proof (induction n ds arbitrary: m rule: parse_u64.induct)
  case (2 n c cs)
  then obtain d where d: "digit_val c = Some d" "parse_digits (10 * n + d) cs = Some m" by (auto split: option.splits)
  have grow: "parse_digits k xs = Some m' \<Longrightarrow> k \<le> m'" for k xs m'
    by (induction k xs rule: parse_digits.induct) (force split: option.splits)+
  then have le: "10 * n + d \<le> m" using d(2) by blast
  then show ?case using 2 d by auto
qed simp

lemma ParseInt_show: "n < 2 ^ 63 \<Longrightarrow> ParseInt (show_nat n) = (int n, NoError)"
proof -
  assume n: "n < 2 ^ 63"
  obtain c cs where s: "show_nat n = c # cs" "is_digit c"
    using show_nat_digits [of n] by (cases "show_nat n") auto
  then have "c \<noteq> CHR ''-''" "c \<noteq> CHR ''+''" using digits_not by auto
  moreover have "parse_u64 0 (show_nat n) = (n, NoError)" using n by (intro parse_u64_show parse_show_nat) auto
  ultimately show ?thesis using n s by (simp add: ParseInt_def)
qed

lemma parse_segments_show: "list_all (\<lambda>n. n < 2 ^ 63) ns \<Longrightarrow> parse_segments (map show_nat ns) = Inr (map int ns)"
  by (induction ns) (simp_all add: ParseInt_show)

lemma sem_word_scan: "sem_word w \<Longrightarrow> w \<noteq> [] \<Longrightarrow> stops sem_char r \<Longrightarrow> dotted sem_char (w @ r) = (w, r)"
  by (intro dotted_word_scan) (auto simp: sem_word_def sem_char_dot)

lemma sem_pre_printed:
  assumes "sem_word p" "stops sem_char r" "r = [] \<or> hd r = CHR ''+''"
  shows "sem_pre ((if p \<noteq> [] then CHR ''-'' # p else []) @ r) = (p, r)"
proof (cases "p = []")
  case True
  then show ?thesis using assms(2,3) by (cases r) (auto simp: sem_pre_def stops_def)
next
  case False
  then have "sem_char (hd p)" using assms(1) by (simp add: sem_word_def)
  moreover have "hd (p @ r) = hd p" using False by simp
  ultimately show ?thesis using sem_word_scan [OF assms(1) False assms(2)] False by (simp add: sem_pre_def)
qed

lemma sem_metadata_printed: "sem_word m \<Longrightarrow> sem_metadata (if m \<noteq> [] then CHR ''+'' # m else []) = Some m"
  using sem_word_scan [of m "[]"] by (cases m) (auto simp: sem_metadata_def sem_word_def stops_def)

lemma printed_reads:
  assumes "sem_ok v"
  shows "NewVersion (sem_String v) = Inr (v\<lparr>sv_si := length (sv_segments v), sv_original := sem_String v\<rparr>)"
proof -
  obtain ns where ns: "sv_segments v = map int ns" "3 \<le> length ns" "list_all (\<lambda>n. n < 2 ^ 63) ns"
    and w: "sem_word (sv_pre v)" "sem_word (sv_metadata v)" using assms unfolding sem_ok_def by blast
  let ?N = "join ''.'' (map show_nat ns)"
  let ?M = "if sv_metadata v \<noteq> [] then CHR ''+'' # sv_metadata v else []"
  let ?E = "(if sv_pre v \<noteq> [] then CHR ''-'' # sv_pre v else []) @ ?M"
  have shown: "map show_int (map int ns) = map show_nat ns" by (simp add: show_int_def)
  have str: "sem_String v = ?N @ ?E" unfolding sem_String_def ns(1) shown by simp
  have ne: "ns \<noteq> []" using ns(2) by auto
  have scan: "dotted is_digit (?N @ ?E) = (?N, ?E)"
    using ne show_nat_digits by (intro dotted_join digits_not) (auto simp: stops_def digits_not)
  obtain c t where c: "?N @ ?E = c # t" "is_digit c" "?N \<noteq> []"
  proof -
    obtain n ms where "ns = n # ms" using ne by (cases ns) auto
    moreover obtain d s where "show_nat n = d # s" "is_digit d" using show_nat_digits [of n] by (cases "show_nat n") auto
    ultimately have "?N = d # tl ?N" by (cases ms) auto
    then show thesis using that [of d "tl ?N @ ?E"] \<open>is_digit d\<close> by (metis append_Cons list.distinct(1))
  qed
  have v: "c \<noteq> CHR ''v''" using c(2) digits_not by auto
  have M: "stops sem_char ?M" "?M = [] \<or> hd ?M = CHR ''+''" by (auto simp: stops_def sem_char_dot)
  have pre: "sem_pre ?E = (sv_pre v, ?M)" by (rule sem_pre_printed [OF w(1) M])
  have "versionRegexp (c # t) = Some (?N, sv_pre v, sv_metadata v)"
    using scan [unfolded c(1)] pre sem_metadata_printed [OF w(2)] v c(3) unfolding versionRegexp_def by simp
  then have re: "versionRegexp (sem_String v) = Some (?N, sv_pre v, sv_metadata v)" unfolding str c(1) .
  have split: "split_on (CHR ''.'') ?N = map show_nat ns"
  proof (rule split_on_join)
    show "CHR ''.'' \<notin> set x" if "x \<in> set (map show_nat ns)" for x
      using that show_nat_digits digits_not(1) by (auto simp: list_all_iff)
  qed (simp add: ne)
  show ?thesis unfolding NewVersion_def re using ns(2) by (simp add: split parse_segments_show [OF ns(3)] ns(1))
qed

section \<open>Supported versions\<close>

lemma sem_String_release:
  assumes "sv_pre v = []" "sv_metadata v = []" "sv_segments v \<noteq> []"
    and "sem_String v = join ''.'' (map show_int is)" "is \<noteq> []"
  shows "sv_segments v = is"
proof -
  have nodot: "CHR ''.'' \<notin> set (show_int i)" for i
    using set_show_nat [of "nat i"] set_show_nat [of "nat (- i)"] by (auto simp: show_int_def dest: subsetD)
  have "map show_int (sv_segments v) = map show_int is"
    using assms by (intro join_inj [of "CHR ''.''"]) (auto simp: sem_String_def nodot)
  then show ?thesis using show_int_inj by (metis injI inj_map_eq_map)
qed

end
