(* ===== verification/Startup_Props.thy ===== *)
theory Startup_Props
  imports Linode_Props Semver_Correct
begin

text \<open>
  The properties of the start-up scripts: for which versions there are any, which token
  a machine joins with, what rendering does to the cluster object, and the kubeadm configuration of a new
  cluster.
\<close>

section \<open>Versions\<close>

lemma show_small: "show_int 1 = ''1''" "show_int 0 = ''0''" "show_int 12 = ''12''" "show_int 13 = ''13''" "show_int 14 = ''14''"
  by (simp_all add: show_int_def show_nat.simps digit_char_def)

lemma length_segments: "NewVersion s = Inr v \<Longrightarrow> 3 \<le> length (sv_segments v)"
  using NewVersion_ok unfolding sem_ok_def by fastforce

lemma supported_minor:
  assumes "NewVersion s = Inr v"
  shows "prekVersions (sem_String (ResetPatch (ResetPrerelease (ResetMetadata v)))) \<noteq> None \<longleftrightarrow>
    (\<exists>m p. sv_segments v = [1, m, p] \<and> m \<in> {12, 13, 14})"
proof -
  let ?r = "ResetPatch (ResetPrerelease (ResetMetadata v))"
  have r: "sv_pre ?r = []" "sv_metadata ?r = []" "sv_segments ?r = (sv_segments v)[2 := 0]"
    by (simp_all add: ResetPatch_def ResetPrerelease_def ResetMetadata_def)
  have ne: "sv_segments ?r \<noteq> []" using length_segments [OF assms] r(3) by auto
  have dom: "prekVersions s \<noteq> None \<longleftrightarrow> (\<exists>m \<in> {12, 13, 14}. s = join ''.'' (map show_int [1, m, 0]))" for s
    by (auto simp: prekVersions_def show_small split: if_splits)
  have "(\<exists>m \<in> {12, 13, 14}. sem_String ?r = join ''.'' (map show_int [1, m, 0])) \<longleftrightarrow>
      (\<exists>m \<in> {12, 13, 14}. (sv_segments v)[2 := 0] = [1, m, 0])"
  proof (intro bex_cong refl iffI)
    fix m assume "sem_String ?r = join ''.'' (map show_int [1, m, 0])"
    from sem_String_release [OF r(1,2) ne this] show "(sv_segments v)[2 := 0] = [1, m, 0]" unfolding r(3) by simp
  next
    fix m assume s: "(sv_segments v)[2 := 0] = [1, m, 0]"
    show "sem_String ?r = join ''.'' (map show_int [1, m, 0])" unfolding sem_String_def r s by simp
  qed
  also have "(\<exists>m \<in> {12, 13, 14}. (sv_segments v)[2 := 0] = [1, m, 0]) \<longleftrightarrow> (\<exists>m p. sv_segments v = [1, m, p] \<and> m \<in> {12, 13, 14})"
  proof
    assume "\<exists>m \<in> {12, 13, 14}. (sv_segments v)[2 := 0] = [1, m, 0]"
    then obtain m where m: "m \<in> {12, 13, 14}" "(sv_segments v)[2 := 0] = [1, m, 0]" by blast
    then have "length (sv_segments v) = 3" by (metis length_list_update length_Cons list.size(3) numeral_3_eq_3)
    then obtain a b c where "sv_segments v = [a, b, c]" by (auto simp: length_Suc_conv numeral_3_eq_3)
    with m show "\<exists>m p. sv_segments v = [1, m, p] \<and> m \<in> {12, 13, 14}" by simp
  next
    assume "\<exists>m p. sv_segments v = [1, m, p] \<and> m \<in> {12, 13, 14}"
    then obtain m p where m: "sv_segments v = [1, m, p]" "m \<in> {12, 13, 14}" by blast
    have "(sv_segments v)[2 := 0] = [1, m, 0]" unfolding m(1) by simp
    with m(2) show "\<exists>m \<in> {12, 13, 14}. (sv_segments v)[2 := 0] = [1, m, 0]" by blast
  qed
  finally show ?thesis unfolding dom .
qed

lemma cni_minor: "prekVersions s \<noteq> None \<Longrightarrow> kubernetesCNIVersions s \<noteq> None"
  by (auto simp: prekVersions_def kubernetesCNIVersions_def split: if_splits)

definition supported :: "string \<Rightarrow> bool" where
  "supported k \<longleftrightarrow> (\<exists>v m p. NewVersion k = Inr v \<and> sv_pre v = [] \<and> sv_segments v = [1, m, p] \<and> m \<in> {12, 13, 14})"

lemma methods_supported:
  "(\<exists>a b. PackageList td = Inr a \<and> PrekVersion td = Inr b) \<longleftrightarrow> supported (td_KubernetesVersion td)"
proof (cases "NewVersion (td_KubernetesVersion td)")
  case (Inl e)
  then show ?thesis by (simp add: PackageList_def supported_def)
next
  case (Inr v)
  let ?minor = "sem_String (ResetPatch (ResetPrerelease (ResetMetadata v)))"
  have prek: "(\<exists>b. PrekVersion td = Inr b) \<longleftrightarrow> sv_pre v = [] \<and> prekVersions ?minor \<noteq> None"
    by (auto simp: PrekVersion_def Inr Let_def split: option.splits)
  have older: "IsVersionLessThan td ''1.12.0'' \<noteq> Inl e" for e
    using version_13(2) by (simp add: IsVersionLessThan_def Inr)
  have pkgs: "\<exists>a. PackageList td = Inr a" if p: "sv_pre v = []" "kubernetesCNIVersions ?minor \<noteq> None"
    using that older by (cases "IsVersionLessThan td ''1.12.0''") (auto simp: PackageList_def Inr Let_def split: option.splits)
  have "(\<exists>a b. PackageList td = Inr a \<and> PrekVersion td = Inr b) \<longleftrightarrow> sv_pre v = [] \<and> prekVersions ?minor \<noteq> None"
    using prek pkgs cni_minor by metis
  also have "\<dots> \<longleftrightarrow> supported (td_KubernetesVersion td)"
    unfolding supported_minor [OF Inr] using Inr by (auto simp: supported_def)
  finally show ?thesis .
qed

section \<open>What rendering does\<close>

definition own_keys :: "string set" where
  "own_keys = {''node-labels'', ''cloud-provider'', ''enable-controller-attach-detach'', ''keep-terminated-pod-volumes''}"

text \<open>From \<open>w0\<close> on, at most these keys of the map of the cluster object change, and nothing if there is no map.\<close>

definition args_frame :: "('s, 'x) world \<Rightarrow> ('s, 'x) world \<Rightarrow> bool" where
  "args_frame w0 w \<longleftrightarrow> w = w0 \<or> KubeletExtraArgs (c_Config (w_Cluster w0)) \<noteq> None \<and>
     (\<exists>m. w = w0\<lparr>w_Cluster := set_args m (w_Cluster w0)\<rparr> \<and> (\<forall>k. k \<notin> own_keys \<longrightarrow> m k = cluster_args (w_Cluster w0) k))"

definition good_ref :: "('s, 'x) world \<Rightarrow> TemplateData \<Rightarrow> bool" where
  "good_ref w0 td \<longleftrightarrow> (td_KubeletExtraArgs td = ClusterArgs \<longrightarrow> KubeletExtraArgs (c_Config (w_Cluster w0)) \<noteq> None)"

lemma set_args_simps [simp]:
  "cluster_args (set_args m c) = m" "set_args m (set_args m' c) = set_args m c"
  "KubernetesVersion (c_Config (set_args m c)) = KubernetesVersion (c_Config c)"
  "KubeletExtraArgs (c_Config (set_args m c)) = Some m"
  by (simp_all add: set_args_def cluster_args_def upd_Config_def)

lemma args_frame_refl: "args_frame w w"
  by (simp add: args_frame_def)

lemma args_frame_version: "args_frame w0 w \<Longrightarrow> KubernetesVersion (c_Config (w_Cluster w)) = KubernetesVersion (c_Config (w_Cluster w0))"
  by (auto simp: args_frame_def)

lemma args_frame_none: "args_frame w0 w \<Longrightarrow> KubeletExtraArgs (c_Config (w_Cluster w)) = None \<longleftrightarrow> KubeletExtraArgs (c_Config (w_Cluster w0)) = None"
  by (auto simp: args_frame_def)

lemma args_frame_set:
  assumes "args_frame w0 w" "KubeletExtraArgs (c_Config (w_Cluster w0)) \<noteq> None" "k \<in> own_keys"
  shows "args_frame w0 (w\<lparr>w_Cluster := set_args ((cluster_args (w_Cluster w))(k \<mapsto> v)) (w_Cluster w)\<rparr>)"
proof -
  from assms(1) consider "w = w0" | m where "w = w0\<lparr>w_Cluster := set_args m (w_Cluster w0)\<rparr>" "\<forall>k. k \<notin> own_keys \<longrightarrow> m k = cluster_args (w_Cluster w0) k"
    unfolding args_frame_def by blast
  then show ?thesis
  proof cases
    case 1
    then show ?thesis unfolding args_frame_def using assms(2,3)
      by (intro disjI2 conjI exI [of _ "(cluster_args (w_Cluster w0))(k \<mapsto> v)"]) auto
  next
    case (2 m)
    then show ?thesis unfolding args_frame_def using assms(2,3)
      by (intro disjI2 conjI exI [of _ "m(k \<mapsto> v)"]) auto
  qed
qed

text \<open>What a step keeps: the frame, and of the data all but the map, the configurations and the provider flag.\<close>

definition same_td :: "TemplateData \<Rightarrow> TemplateData \<Rightarrow> bool" where
  "same_td td td' \<longleftrightarrow> td_KubernetesVersion td' = td_KubernetesVersion td \<and> td_KubeadmToken td' = td_KubeadmToken td \<and>
     td_APIServerAddress td' = td_APIServerAddress td \<and> td_CAHash td' = td_CAHash td"

definition td_frame :: "('s, 'x) world \<Rightarrow> TemplateData \<Rightarrow> TemplateData \<Rightarrow> ('s, 'x) world \<Rightarrow> bool" where
  "td_frame w0 td0 td w \<longleftrightarrow> args_frame w0 w \<and> good_ref w0 td \<and> same_td td0 td"

lemma frame_set_arg:
  "k \<in> own_keys \<Longrightarrow> valid (td_frame w0 td0 td) (set_arg k v td) (td_frame w0 td0) (\<lambda>_. args_frame w0)"
  using args_frame_set [of w0 _ k v]
  by (cases "td_KubeletExtraArgs td")
     (auto simp: td_frame_def valid_def set_arg_def prog_run upd_cluster_def good_ref_def same_td_def)

lemma frame_join:
  "valid (td_frame w0 td0 td) (bindp (attempt (JoinConfigurationYAML T td)) (\<lambda>r. ret (td\<lparr>td_JoinConfiguration := f r\<rparr>)))
    (td_frame w0 td0) (\<lambda>_. args_frame w0)"
proof (rule valid_bindp)
  show "valid (td_frame w0 td0 td) (attempt (JoinConfigurationYAML T td)) (\<lambda>_. td_frame w0 td0 td) (\<lambda>_. args_frame w0)"
    by (rule valid_attempt) (auto simp: valid_def JoinConfigurationYAML_def td_args_def prog_run td_frame_def split: sum.splits)
qed (auto simp: valid_def prog_run td_frame_def good_ref_def same_td_def)

definition hooks_frame :: "('s, 'x) template_hooks \<Rightarrow> bool" where
  "hooks_frame H \<longleftrightarrow> (\<forall>w0 td0 m t td. valid (td_frame w0 td0 td) (th_Node H m t td) (td_frame w0 td0) (\<lambda>_. args_frame w0) \<and>
     valid (td_frame w0 td0 td) (th_Master H m t td) (td_frame w0 td0) (\<lambda>_. args_frame w0))"

lemma frame_external: "td_frame w0 td0 td w \<Longrightarrow> td_frame w0 td0 (td\<lparr>td_ExternalProvider := b\<rparr>) w"
  by (simp add: td_frame_def good_ref_def same_td_def)

lemma frame_cluster_config:
  "valid (td_frame w0 td0 td) (bindp (gets w_Cluster) (\<lambda>c. bindp (liftr (GetDefaultKubeadmClusterConfig c h))
      (\<lambda>conf. ret (td\<lparr>td_ClusterConfiguration := Some conf\<rparr>)))) (td_frame w0 td0) (\<lambda>_. args_frame w0)"
  by (auto simp: valid_def prog_run td_frame_def good_ref_def same_td_def split: sum.splits)

lemma valid_pre: "valid P m Q E \<Longrightarrow> (\<And>w. P' w \<Longrightarrow> P w) \<Longrightarrow> valid P' m Q E"
  by (auto simp: valid_def)

lemma hooks_frame_do: "hooks_frame (do_hooks D)"
  unfolding hooks_frame_def do_hooks_def do_NewNodeTemplateData_def do_NewMasterTemplateData_def template_hooks.simps
  by (intro allI conjI valid_bindp [OF valid_pre [OF frame_set_arg frame_external]] frame_cluster_config)
     (auto simp: own_keys_def intro: frame_join)

lemma hooks_frame_li: "hooks_frame (li_hooks D)"
  unfolding hooks_frame_def li_hooks_def li_NewNodeTemplateData_def li_NewMasterTemplateData_def template_hooks.simps
  by (intro allI conjI valid_bindp [OF valid_pre [OF frame_set_arg frame_external]] valid_bindp [OF frame_set_arg]
      frame_cluster_config) (auto simp: own_keys_def intro: frame_join)

lemma frame_NewNode:
  assumes "hooks_frame H" "w_Certs w0 = Some certs"
  shows "valid (\<lambda>w. w = w0) (NewNodeTemplateData E T H m token)
    (td_frame w0 (base_TemplateData E T certs (w_Cluster w0) token)) (\<lambda>_. args_frame w0)"
proof -
  let ?td = "base_TemplateData E T certs (w_Cluster w0) token"
  have "td_frame w0 ?td ?td w0"
    by (simp add: td_frame_def args_frame_refl good_ref_def same_td_def base_TemplateData_def)
  then have "valid (\<lambda>w. w = w0) (set_arg ''node-labels'' l ?td) (td_frame w0 ?td) (\<lambda>_. args_frame w0)" for l
    by (intro valid_pre [OF frame_set_arg]) (auto simp: own_keys_def)
  then have "valid (\<lambda>w. w = w0) (bindp (set_arg ''node-labels'' l ?td) (\<lambda>td. th_Node H m token td)) (td_frame w0 ?td) (\<lambda>_. args_frame w0)" for l
    using assms(1) by (intro valid_bindp) (auto simp: hooks_frame_def)
  then show ?thesis using assms(2) by (simp add: valid_def NewNodeTemplateData_def prog_run)
qed

lemma frame_NewMaster:
  assumes "hooks_frame H" "w_Certs w0 = Some certs"
  shows "valid (\<lambda>w. w = w0) (NewMasterTemplateData E T H m token)
    (td_frame w0 (base_TemplateData E T certs (w_Cluster w0) '''')) (\<lambda>_. args_frame w0)"
proof -
  let ?td = "base_TemplateData E T certs (w_Cluster w0) ''''"
  have join: "valid (td_frame w0 ?td td) (if token \<noteq> '''' then
          let td2 = (td\<lparr>td_InitConfiguration := i\<rparr>)\<lparr>td_ControlPlaneJoin := True\<rparr> in
          bindp (\<lambda>w. case JoinConfigurationYAML T td2 w of
                   (Inl e, w') \<Rightarrow> (Inl (Panic (err_msg e)), w') | (Inr s, w') \<Rightarrow> (Inr s, w')) (\<lambda>joinConf.
          ret (td2\<lparr>td_JoinConfiguration := joinConf\<rparr>))
        else ret (td\<lparr>td_InitConfiguration := i\<rparr>)) (td_frame w0 ?td) (\<lambda>_. args_frame w0)" for td i
    by (auto simp: valid_def Let_def prog_run JoinConfigurationYAML_def td_args_def td_frame_def good_ref_def same_td_def split: sum.splits)
  show ?thesis
    unfolding NewMasterTemplateData_def Let_def
    using assms(1) join
    by (intro valid_bindp [OF frame_NewNode [OF assms]] valid_bindp [OF frame_set_arg] valid_bindp [OF join [unfolded Let_def]])
       (auto simp: hooks_frame_def own_keys_def)
qed

lemma render_frame:
  assumes "hooks_frame H"
  shows "valid (\<lambda>w. w = w0) (RenderStartupScript E T H m token tpl)
    (\<lambda>_ w. args_frame w0 w \<and> supported (KubernetesVersion (c_Config (w_Cluster w0)))) (\<lambda>_. args_frame w0)" (is "valid ?P _ ?Q ?F")
proof (cases "w_Certs w0")
  case None
  then show ?thesis
    by (auto simp: valid_def RenderStartupScript_def NewMasterTemplateData_def NewNodeTemplateData_def prog_run args_frame_refl
        split: sum.splits)
next
  case (Some certs)
  let ?td = "base_TemplateData E T certs (w_Cluster w0)"
  have version: "td_KubernetesVersion (?td t) = KubernetesVersion (c_Config (w_Cluster w0))" for t
    by (simp add: base_TemplateData_def)
  have exec: "valid (td_frame w0 (?td t) td) (ExecuteTemplate T tpl role td) ?Q ?F" for t td role
  proof (rule validI)
    fix w x w' assume w: "td_frame w0 (?td t) td w" "ExecuteTemplate T tpl role td w = (Inr x, w')"
    have "invariant_of (\<lambda>v. v = w) (ExecuteTemplate T tpl role td)" by (rule inv_ExecuteTemplate)
    with w(2) have "w' = w" by (auto simp: valid_def split: prod.splits sum.splits)
    moreover have "\<exists>a b. PackageList td = Inr a \<and> PrekVersion td = Inr b"
      using w(2) by (auto simp: ExecuteTemplate_def tpl_call_def prog_run split: sum.splits)
    then have "supported (td_KubernetesVersion td)" by (simp only: methods_supported)
    ultimately show "?Q x w'" using w(1) version by (auto simp: td_frame_def same_td_def)
  next
    fix w e w' assume w: "td_frame w0 (?td t) td w" "ExecuteTemplate T tpl role td w = (Inl e, w')"
    have "invariant_of (\<lambda>v. v = w) (ExecuteTemplate T tpl role td)" by (rule inv_ExecuteTemplate)
    with w have "w' = w" by (auto simp: valid_def split: prod.splits sum.splits)
    then show "?F e w'" using w(1) by (simp add: td_frame_def)
  qed
  have parse: "valid ?P (liftr (tpl_Parse T tpl)) (\<lambda>_. ?P) ?F"
    by (auto simp: valid_def prog_run args_frame_refl split: sum.splits)
  show ?thesis
    unfolding RenderStartupScript_def
    by (intro valid_bindp [OF parse] valid_if valid_bindp [OF frame_NewMaster [OF assms Some]] valid_bindp [OF frame_NewNode [OF assms Some]] exec)
qed

section \<open>Joining\<close>

definition args_of :: "TemplateData \<Rightarrow> ('s, 'x) world \<Rightarrow> string \<rightharpoonup> string" where
  "args_of td w = (case td_KubeletExtraArgs td of ClusterArgs \<Rightarrow> cluster_args (w_Cluster w) | OwnArgs m \<Rightarrow> m)"

lemma set_arg_result:
  "set_arg k v td w = (Inr td', w') \<Longrightarrow>
    td' = td\<lparr>td_KubeletExtraArgs := td_KubeletExtraArgs td'\<rparr> \<and> args_of td' w' = (args_of td w)(k \<mapsto> v)"
  by (auto simp: set_arg_def args_of_def prog_run upd_cluster_def split: map_ref.splits)

lemma join_yaml: "JoinConfigurationYAML T td w = (yaml_Join T (join_config td (args_of td w)), w)"
  by (simp add: JoinConfigurationYAML_def td_args_def args_of_def prog_run)

text \<open>The join configuration that a hook computes for a node, with the data it got.\<close>

definition hook_joins :: "startup_ops \<Rightarrow> ('s, 'x) template_hooks \<Rightarrow> bool" where
  "hook_joins T H \<longleftrightarrow> (\<forall>m t td w td' w'.
     (th_Node H m t td w = (Inr td', w') \<longrightarrow>
        (\<exists>args. args ''cloud-provider'' = Some ''external'' \<and> td_KubeadmToken td' = td_KubeadmToken td \<and>
           td_JoinConfiguration td' = (case yaml_Join T (join_config td args) of Inl _ \<Rightarrow> '''' | Inr s \<Rightarrow> s))) \<and>
     (th_Master H m t td w = (Inr td', w') \<longrightarrow> td_JoinConfiguration td' = td_JoinConfiguration td))"

lemma join_config_same:
  "same_td td td' \<Longrightarrow> td_ControlPlaneJoin td' = td_ControlPlaneJoin td \<Longrightarrow> join_config td' args = join_config td args"
  by (simp add: join_config_def same_td_def)

lemma attempt_join:
  assumes "bindp (attempt (JoinConfigurationYAML T td)) (\<lambda>r. ret (td\<lparr>td_JoinConfiguration := (case r of Inl _ \<Rightarrow> '''' | Inr joinConf \<Rightarrow> joinConf)\<rparr>)) w = (Inr td', w')"
  shows "td' = td\<lparr>td_JoinConfiguration := (case yaml_Join T (join_config td (args_of td w)) of Inl _ \<Rightarrow> '''' | Inr s \<Rightarrow> s)\<rparr>"
  using assms by (auto simp: prog_run join_yaml split: sum.splits gerror.splits)

lemma set_arg_same:
  assumes "set_arg k v td w = (Inr td', w')"
  shows "join_config td' = join_config td" "td_KubeadmToken td' = td_KubeadmToken td"
    "td_ControlPlaneJoin td' = td_ControlPlaneJoin td" "td_JoinConfiguration td' = td_JoinConfiguration td"
proof -
  obtain r where td': "td' = td\<lparr>td_KubeletExtraArgs := r\<rparr>" using set_arg_result [OF assms] by blast
  show "join_config td' = join_config td" "td_KubeadmToken td' = td_KubeadmToken td"
    "td_ControlPlaneJoin td' = td_ControlPlaneJoin td" "td_JoinConfiguration td' = td_JoinConfiguration td"
    by (simp_all add: td' join_config_def fun_eq_iff)
qed

lemma join_config_external: "join_config (td\<lparr>td_ExternalProvider := b\<rparr>) = join_config td"
  by (simp add: join_config_def fun_eq_iff)

lemma hook_joins_do: "hook_joins (d_startup D) (do_hooks D)"
proof -
  have node: "\<exists>args. args ''cloud-provider'' = Some ''external'' \<and> td_KubeadmToken td' = td_KubeadmToken td \<and>
      td_JoinConfiguration td' = (case yaml_Join (d_startup D) (join_config td args) of Inl _ \<Rightarrow> '''' | Inr s \<Rightarrow> s)"
    if "do_NewNodeTemplateData D m t td w = (Inr td', w')" for m t td td' and w w' :: "('a, 'b) world"
  proof -
    from that obtain td1 w1 where s: "set_arg ''cloud-provider'' ''external'' (td\<lparr>td_ExternalProvider := True\<rparr>) w = (Inr td1, w1)"
      and j: "bindp (attempt (JoinConfigurationYAML (d_startup D) td1)) (\<lambda>r. ret (td1\<lparr>td_JoinConfiguration := (case r of Inl _ \<Rightarrow> '''' | Inr joinConf \<Rightarrow> joinConf)\<rparr>)) w1 = (Inr td', w')"
      by (auto simp: do_NewNodeTemplateData_def bindp_Inr_iff)
    show ?thesis
      using attempt_join [OF j] set_arg_result [OF s] set_arg_same [OF s]
      by (intro exI [of _ "args_of td1 w1"]) (simp add: join_config_external)
  qed
  show ?thesis
    unfolding hook_joins_def do_hooks_def using node
    by (auto simp: do_NewMasterTemplateData_def prog_run split: sum.splits)
qed

lemma hook_joins_li: "hook_joins (l_startup D) (li_hooks D)"
proof -
  have node: "\<exists>args. args ''cloud-provider'' = Some ''external'' \<and> td_KubeadmToken td' = td_KubeadmToken td \<and>
      td_JoinConfiguration td' = (case yaml_Join (l_startup D) (join_config td args) of Inl _ \<Rightarrow> '''' | Inr s \<Rightarrow> s)"
    if "li_NewNodeTemplateData D m t td w = (Inr td', w')" for m t td td' and w w' :: "('a, 'b) world"
  proof -
    from that obtain td1 w1 td2 w2 td3 w3
      where s: "set_arg ''cloud-provider'' ''external'' (td\<lparr>td_ExternalProvider := True\<rparr>) w = (Inr td1, w1)"
      and s2: "set_arg ''enable-controller-attach-detach'' ''false'' td1 w1 = (Inr td2, w2)"
      and s3: "set_arg ''keep-terminated-pod-volumes'' ''true'' td2 w2 = (Inr td3, w3)"
      and j: "bindp (attempt (JoinConfigurationYAML (l_startup D) td3)) (\<lambda>r. ret (td3\<lparr>td_JoinConfiguration := (case r of Inl _ \<Rightarrow> '''' | Inr joinConf \<Rightarrow> joinConf)\<rparr>)) w3 = (Inr td', w')"
      by (auto simp: li_NewNodeTemplateData_def bindp_Inr_iff)
    show ?thesis
      using attempt_join [OF j] set_arg_result [OF s] set_arg_result [OF s2] set_arg_result [OF s3]
        set_arg_same [OF s] set_arg_same [OF s2] set_arg_same [OF s3]
      by (intro exI [of _ "args_of td3 w3"]) (simp add: join_config_external)
  qed
  show ?thesis
    unfolding hook_joins_def li_hooks_def using node
    by (auto simp: li_NewMasterTemplateData_def prog_run split: sum.splits)
qed

lemma node_joins:
  assumes "hook_joins T H" "w_Certs w = Some certs" "NewNodeTemplateData E T H m token w = (Inr td, w')"
  shows "td_KubeadmToken td = token \<and> (\<exists>j. jc_Token j = token \<and> jc_APIServerEndpoint j = APIServerAddress (w_Cluster w) \<and>
    jc_CACertHashes j = [pubkeypin_Hash T (Cert (CACert certs))] \<and> jc_KubeletExtraArgs j ''cloud-provider'' = Some ''external'' \<and>
    td_JoinConfiguration td = (case yaml_Join T j of Inl _ \<Rightarrow> '''' | Inr s \<Rightarrow> s))"
proof -
  let ?td = "base_TemplateData E T certs (w_Cluster w) token"
  obtain l td1 w1 where s: "set_arg ''node-labels'' l ?td w = (Inr td1, w1)" and h: "th_Node H m token td1 w1 = (Inr td, w')"
    using assms(2,3) by (auto simp: NewNodeTemplateData_def prog_run split: prod.splits sum.splits)
  obtain args where "args ''cloud-provider'' = Some ''external''" "td_KubeadmToken td = td_KubeadmToken td1"
    "td_JoinConfiguration td = (case yaml_Join T (join_config td1 args) of Inl _ \<Rightarrow> '''' | Inr s \<Rightarrow> s)"
    using assms(1) h unfolding hook_joins_def by blast
  then show ?thesis
    using set_arg_same [OF s]
    by (intro conjI exI [of _ "join_config ?td args"]) (simp_all add: join_config_def base_TemplateData_def)
qed

lemma master_joins:
  assumes "hook_joins T H" "NewMasterTemplateData E T H m token w = (Inr td, w')" "token \<noteq> ''''"
  shows "\<exists>j. yaml_Join T j = Inr (td_JoinConfiguration td) \<and> jc_Token j = '''' \<and> jc_ControlPlane j \<noteq> None"
proof -
  obtain td1 w1 where n: "NewNodeTemplateData E T H m '''' w = (Inr td1, w1)"
    using assms(2) by (auto simp: NewMasterTemplateData_def prog_run split: prod.splits sum.splits)
  obtain certs where certs: "w_Certs w = Some certs"
    using n by (auto simp: NewNodeTemplateData_def prog_run split: option.splits)
  have t1: "td_KubeadmToken td1 = ''''" using node_joins [OF assms(1) certs n] by blast
  obtain td2 w2 where s: "set_arg ''node-labels'' (NodeLabels_String [(NodePoolKey, m_Name m)]) td1 w1 = (Inr td2, w2)"
    using assms(2) n by (auto simp: NewMasterTemplateData_def prog_run split: prod.splits sum.splits)
  let ?td = "td2\<lparr>td_InitConfiguration := Some (''kubeadm.k8s.io/v1beta1'', ''InitConfiguration'', 6443), td_ControlPlaneJoin := True\<rparr>"
  obtain conf w3 where j: "yaml_Join T (join_config ?td (args_of ?td w2)) = Inr conf"
    and h: "th_Master H m token (?td\<lparr>td_JoinConfiguration := conf\<rparr>) w3 = (Inr td, w')"
    using assms(2,3) n s
    by (auto simp: NewMasterTemplateData_def prog_run join_yaml Let_def split: prod.splits sum.splits)
  have "td_JoinConfiguration td = conf" using assms(1) h unfolding hook_joins_def by force
  then show ?thesis using j set_arg_same [OF s] t1
    by (intro exI [of _ "join_config ?td (args_of ?td w2)"]) (simp add: join_config_def)
qed

section \<open>Properties\<close>

text \<open>There is a start-up script for the releases 1.12, 1.13 and 1.14 only: \<^verbatim>\<open>PackageList\<close> and \<^verbatim>\<open>PrekVersion\<close> both
  answer exactly if the version of the cluster parses to \<open>1.m.p\<close> with \<open>m\<close> one of these and no pre-release,
  whatever \<open>p\<close> is and whatever build metadata or letter \<^verbatim>\<open>v\<close> the string has.\<close>

lemma startup_supported:
  "(\<exists>packages prek. PackageList td = Inr packages \<and> PrekVersion td = Inr prek) \<longleftrightarrow>
   (\<exists>v m p. NewVersion (td_KubernetesVersion td) = Inr v \<and> sv_pre v = [] \<and> sv_segments v = [1, m, p] \<and> m \<in> {12, 13, 14})"
  using methods_supported [of td] by (simp add: supported_def)

text \<open>Rendering the start-up script with either provider changes nothing of the world but the kubelet
  arguments of the cluster object, of these only the four keys that the code sets, and nothing at all if the
  cluster has no map of arguments; a script is rendered for supported versions only.\<close>

lemma startup_frame:
  "valid (\<lambda>w. w = w0) (do_RenderStartupScript E D m token)
     (\<lambda>_ w. args_frame w0 w \<and> supported (KubernetesVersion (c_Config (w_Cluster w0)))) (\<lambda>_. args_frame w0) \<and>
   valid (\<lambda>w. w = w0) (li_RenderStartupScript E L m token)
     (\<lambda>_ w. args_frame w0 w \<and> supported (KubernetesVersion (c_Config (w_Cluster w0)))) (\<lambda>_. args_frame w0)"
  unfolding do_RenderStartupScript_def li_RenderStartupScript_def
  using render_frame [OF hooks_frame_do] render_frame [OF hooks_frame_li] by blast

text \<open>The join configuration of a node has the token it was given, the API server address of the cluster, the
  hash of its CA certificate and an external cloud provider.  That of a further control plane machine has an
  empty token, whatever token was given: \<^verbatim>\<open>NewMasterTemplateData\<close> passes an empty one on.\<close>

lemma startup_join_tokens:
  assumes provider: "T = d_startup D \<and> H = do_hooks D \<or> T = l_startup L \<and> H = li_hooks L"
    and certs: "w_Certs w = Some certs"
  shows "(NewNodeTemplateData E T H m token w = (Inr td, w') \<longrightarrow>
      (\<exists>j. jc_Token j = token \<and> jc_APIServerEndpoint j = APIServerAddress (w_Cluster w) \<and>
         jc_CACertHashes j = [pubkeypin_Hash T (Cert (CACert certs))] \<and> jc_KubeletExtraArgs j ''cloud-provider'' = Some ''external'' \<and>
         td_JoinConfiguration td = (case yaml_Join T j of Inl _ \<Rightarrow> '''' | Inr s \<Rightarrow> s))) \<and>
    (NewMasterTemplateData E T H m token w = (Inr td, w') \<and> token \<noteq> '''' \<longrightarrow>
      (\<exists>j. yaml_Join T j = Inr (td_JoinConfiguration td) \<and> jc_Token j = '''' \<and> jc_ControlPlane j \<noteq> None))"
proof -
  have H: "hook_joins T H" using provider hook_joins_do hook_joins_li by blast
  show ?thesis using node_joins [OF H certs] master_joins [OF H] by blast
qed

definition token_startup :: startup_ops where
  "token_startup = plain_startup\<lparr>yaml_Join := (\<lambda>j. Inr (''token='' @ jc_Token j))\<rparr>"

definition startup_world :: "(os, Droplet list) world" where
  "startup_world = demo_do_world\<lparr>w_Cluster := SetNetworkingDefaults ''calico'' (w_Cluster demo_do_world)\<rparr>"

lemma startup_world_fields:
  "w_Certs startup_world = w_Certs demo_do_world" "KubeletExtraArgs (c_Config (w_Cluster startup_world)) = None"
  "Services (c_Network (w_Cluster startup_world)) = [DefaultServicesSubnet]" "Pods (c_Network (w_Cluster startup_world)) = [calicoPodSubnet]"
  by (simp_all add: startup_world_def demo_do_world_def SetNetworkingDefaults_def upd_Network_def upd_ClusterAPI_def upd_Config_def
      fill_network_def default_podSubnet_def zero_Cluster_def zero_CapiCluster_def zero_ClusterConfig_def Let_def)

text \<open>The cluster record that \<^verbatim>\<open>CreateCluster\<close> fills in always gives a kubeadm configuration: no index is out of
  range, the subnets are the defaults (the pod subnet that of the network provider), and once a load
  balancer is in the status, the control plane endpoint is its address, for which the API server certificate
  is valid too.\<close>

lemma kubeadm_config_of_new_cluster:
  assumes "default_cluster uid created generation c0 = Inr c"
  shows "\<exists>cfg. GetDefaultKubeadmClusterConfig (set_LoadBalancer lb c) hostPath = Inr cfg \<and>
    ServiceSubnet cfg = DefaultServicesSubnet \<and> PodSubnet cfg = default_podSubnet (NetworkProvider (c_CloudSpec c)) \<and>
    DNSDomain cfg = DefaultServiceDNSDomain \<and> kc_KubernetesVersion cfg = KubernetesVersion (c_Config c) \<and>
    (let a = (if lb_DNS lb \<noteq> '''' then lb_DNS lb else lb_IP lb) in
       if a = '''' then ControlPlaneEndpoint cfg = ''''
       else ControlPlaneEndpoint cfg = a @ '':'' @ show_int (lb_Port lb) \<and> a \<in> set (CertSANs cfg))"
proof -
  have n: "c_Network c = \<lparr>Services = [DefaultServicesSubnet], Pods = [default_podSubnet (NetworkProvider (c_CloudSpec c))],
      ServiceDomain = DefaultServiceDNSDomain\<rparr>"
    using assms
    by (auto simp: default_cluster_def Let_def InitClusterAPI_def stamp_meta_def assign_Cluster_def SetNetworkingDefaults_def
        upd_Network_def upd_ClusterAPI_def upd_Config_def upd_CloudSpec_def assign_CapiCluster_def fill_network_def zero_CapiCluster_def
        split: if_splits)
  have l: "c_Network (set_LoadBalancer lb c) = c_Network c" "c_Config (set_LoadBalancer lb c) = c_Config c"
    "cs_LoadBalancer (cst_Cloud (Status (set_LoadBalancer lb c))) = lb"
    by (simp_all add: set_LoadBalancer_def upd_CloudStatus_def)
  show ?thesis
    by (simp add: GetDefaultKubeadmClusterConfig_def controlPlaneEndpointsFromLB_def first_block_def l n Let_def)
qed

end
