(* ===== verification/Store_Fake.thy ===== *)
theory Store_Fake
  imports Store_Spec
begin

text \<open>
  The in-memory store, \<^verbatim>\<open>store/providers/fake\<close>, which the tests and a missing configuration use.

  The maps hold pointers to the objects of the caller: after \<^verbatim>\<open>Create(obj)\<close> the caller and the store
  share \<^verbatim>\<open>obj\<close>, and \<^verbatim>\<open>Get\<close> hands the same pointer to everyone.  So a container is modelled with the
  heap of the objects of its type: a map from resource identifiers to addresses and a map from
  addresses to objects.  An absent address is a \<^verbatim>\<open>nil\<close> argument.  \<^verbatim>\<open>List\<close> visits a Go map in an order
  that the runtime chooses: the order is an argument.  The mutex of a store makes its methods run
  one after the other, which is how the model runs them.
\<close>

type_synonym addr = nat

record 'a fake_container =
  fk_ids :: "string \<rightharpoonup> addr"
  fk_objs :: "addr \<rightharpoonup> 'a"
  fk_next :: addr

definition empty_container :: "'a fake_container" where
  "empty_container = \<lparr>fk_ids = Map.empty, fk_objs = Map.empty, fk_next = 0\<rparr>"

definition deref :: "addr \<Rightarrow> ('a fake_container, 'a) prog" where
  "deref p = (\<lambda>s. case fk_objs s p of None \<Rightarrow> (Inl (Panic ''nil pointer dereference''), s) | Some x \<Rightarrow> (Inr x, s))"

definition assign_at :: "addr \<Rightarrow> ('a \<Rightarrow> 'a) \<Rightarrow> ('a fake_container, 'a) prog" where
  "assign_at p f = bindp (deref p) (\<lambda>x. bindp (modify (\<lambda>s. s\<lparr>fk_objs := (fk_objs s)(p \<mapsto> f x)\<rparr>)) (\<lambda>_. ret (f x)))"

text \<open>\<^verbatim>\<open>new(T)\<close> with contents, as the callers make the objects they pass.\<close>

definition new_object :: "'a \<Rightarrow> ('a fake_container, addr) prog" where
  "new_object x = (\<lambda>s. (Inr (fk_next s), s\<lparr>fk_objs := (fk_objs s)(fk_next s \<mapsto> x), fk_next := Suc (fk_next s)\<rparr>))"

definition put_id :: "string \<Rightarrow> addr \<Rightarrow> ('a fake_container, unit) prog" where
  "put_id i p = modify (\<lambda>s. s\<lparr>fk_ids := (fk_ids s)(i \<mapsto> p)\<rparr>)"

definition delete_id :: "string \<Rightarrow> ('a fake_container, unit) prog" where
  "delete_id i = modify (\<lambda>s. s\<lparr>fk_ids := (fk_ids s)(i := None)\<rparr>)"

definition list_values :: "string list \<Rightarrow> ('a fake_container, addr list) prog" where
  "list_values order = gets (\<lambda>s. List.map_filter (fk_ids s) order)"

section \<open>Clusters (cluster.go)\<close>

definition fake_clusters_resourceID :: "string \<Rightarrow> string" where
  "fake_clusters_resourceID name = filepath_Join [''clusters'', name @ ''.json'']"

definition fake_clusters_List :: "string list \<Rightarrow> (Cluster fake_container, addr list) prog" where
  "fake_clusters_List order = list_values order"

definition fake_clusters_Get :: "string \<Rightarrow> (Cluster fake_container, addr) prog" where
  "fake_clusters_Get name =
     (if name = '''' then fail (Err ''missing cluster name'')
      else bindp (gets (\<lambda>s. fk_ids s (fake_clusters_resourceID name))) (\<lambda>existing. case existing of
        None \<Rightarrow> fail (Err (''cluster `'' @ name @ ''` does not exist''))
      | Some p \<Rightarrow> ret p))"

definition fake_clusters_Create :: "addr option \<Rightarrow> (Cluster fake_container, addr) prog" where
  "fake_clusters_Create oobj = (case oobj of
     None \<Rightarrow> fail (Err ''missing cluster'')
   | Some p \<Rightarrow> bindp (deref p) (\<lambda>obj0.
       if c_Name obj0 = '''' then fail (Err ''missing cluster name'')
       else bindp (assign_at p assign_Cluster) (\<lambda>obj.
         bindp (gets (\<lambda>s. fk_ids s (fake_clusters_resourceID (c_Name obj)))) (\<lambda>e.
         if e \<noteq> None then fail (Err (''cluster `'' @ c_Name obj @ ''` already exists''))
         else bindp (put_id (fake_clusters_resourceID (c_Name obj)) p) (\<lambda>_. ret p)))))"

definition fake_clusters_Update :: "addr option \<Rightarrow> (Cluster fake_container, addr) prog" where
  "fake_clusters_Update oobj = (case oobj of
     None \<Rightarrow> fail (Err ''missing cluster'')
   | Some p \<Rightarrow> bindp (deref p) (\<lambda>obj0.
       if c_Name obj0 = '''' then fail (Err ''missing cluster name'')
       else bindp (assign_at p assign_Cluster) (\<lambda>obj.
         bindp (gets (\<lambda>s. fk_ids s (fake_clusters_resourceID (c_Name obj)))) (\<lambda>e.
         if e = None then fail (Err (''cluster `'' @ c_Name obj @ ''` does not exist''))
         else bindp (put_id (fake_clusters_resourceID (c_Name obj)) p) (\<lambda>_. ret p)))))"

definition fake_clusters_Delete :: "string \<Rightarrow> (Cluster fake_container, unit) prog" where
  "fake_clusters_Delete name =
     (if name = '''' then fail (Err ''missing cluster name'')
      else bindp (gets (\<lambda>s. fk_ids s (fake_clusters_resourceID name))) (\<lambda>e.
        if e = None then fail (Err ''cluster not found'')
        else delete_id (fake_clusters_resourceID name)))"

text \<open>\<^verbatim>\<open>existing.Status = obj.Status\<close> writes into the shared object.\<close>

definition fake_clusters_UpdateStatus :: "addr option \<Rightarrow> (Cluster fake_container, addr) prog" where
  "fake_clusters_UpdateStatus oobj = (case oobj of
     None \<Rightarrow> fail (Err ''missing cluster'')
   | Some p \<Rightarrow> bindp (deref p) (\<lambda>obj0.
       if c_Name obj0 = '''' then fail (Err ''missing cluster name'')
       else bindp (assign_at p assign_Cluster) (\<lambda>obj.
         bindp (gets (\<lambda>s. fk_ids s (fake_clusters_resourceID (c_Name obj)))) (\<lambda>e. case e of
           None \<Rightarrow> fail (Err (''cluster `'' @ c_Name obj @ ''` does not exist''))
         | Some existing \<Rightarrow> bindp (assign_at existing (\<lambda>x. x\<lparr>Status := Status obj\<rparr>)) (\<lambda>_.
             bindp (put_id (fake_clusters_resourceID (c_Name obj)) existing) (\<lambda>_. ret existing))))))"

definition fake_clusters_UpdateUUID :: "addr option \<Rightarrow> string \<Rightarrow> (Cluster fake_container, addr) prog" where
  "fake_clusters_UpdateUUID oobj uuid = (case oobj of
     None \<Rightarrow> fail (Err ''missing cluster'')
   | Some p \<Rightarrow> bindp (deref p) (\<lambda>obj0.
       if c_Name obj0 = '''' then fail (Err ''missing cluster name'')
       else bindp (assign_at p assign_Cluster) (\<lambda>obj.
         bindp (gets (\<lambda>s. fk_ids s (fake_clusters_resourceID (c_Name obj)))) (\<lambda>e.
         if e = None then fail (Err (''cluster `'' @ c_Name obj @ ''` does not exist'')) else ret p))))"

section \<open>Credentials (credential.go)\<close>

definition fake_credentials_resourceID :: "string \<Rightarrow> string" where
  "fake_credentials_resourceID name = filepath_Join [''credentials'', name @ ''.json'']"

definition fake_credentials_List :: "string list \<Rightarrow> (Credential fake_container, addr list) prog" where
  "fake_credentials_List order = list_values order"

definition fake_credentials_Get :: "string \<Rightarrow> (Credential fake_container, addr) prog" where
  "fake_credentials_Get name =
     (if name = '''' then fail (Err ''missing credential name'')
      else bindp (gets (\<lambda>s. fk_ids s (fake_credentials_resourceID name))) (\<lambda>existing. case existing of
        None \<Rightarrow> fail (Err (''credential `'' @ name @ ''` does not exist''))
      | Some p \<Rightarrow> ret p))"

definition fake_credentials_Create :: "addr option \<Rightarrow> (Credential fake_container, addr) prog" where
  "fake_credentials_Create oobj = (case oobj of
     None \<Rightarrow> fail (Err ''missing credential'')
   | Some p \<Rightarrow> bindp (deref p) (\<lambda>obj0.
       if cr_Name obj0 = '''' then fail (Err ''missing credential name'')
       else bindp (assign_at p assign_Credential) (\<lambda>obj.
         bindp (gets (\<lambda>s. fk_ids s (fake_credentials_resourceID (cr_Name obj)))) (\<lambda>e.
         if e \<noteq> None then fail (Err (''credential `'' @ cr_Name obj @ ''` already exists''))
         else bindp (put_id (fake_credentials_resourceID (cr_Name obj)) p) (\<lambda>_. ret p)))))"

definition fake_credentials_Update :: "addr option \<Rightarrow> (Credential fake_container, addr) prog" where
  "fake_credentials_Update oobj = (case oobj of
     None \<Rightarrow> fail (Err ''missing credential'')
   | Some p \<Rightarrow> bindp (deref p) (\<lambda>obj0.
       if cr_Name obj0 = '''' then fail (Err ''missing credential name'')
       else bindp (assign_at p assign_Credential) (\<lambda>obj.
         bindp (gets (\<lambda>s. fk_ids s (fake_credentials_resourceID (cr_Name obj)))) (\<lambda>e.
         if e = None then fail (Err (''credential `'' @ cr_Name obj @ ''` does not exist''))
         else bindp (put_id (fake_credentials_resourceID (cr_Name obj)) p) (\<lambda>_. ret p)))))"

definition fake_credentials_Delete :: "string \<Rightarrow> (Credential fake_container, unit) prog" where
  "fake_credentials_Delete name =
     (if name = '''' then fail (Err ''missing credential name'')
      else bindp (gets (\<lambda>s. fk_ids s (fake_credentials_resourceID name))) (\<lambda>e.
        if e = None then fail (Err ''credential not found'')
        else delete_id (fake_credentials_resourceID name)))"

section \<open>Machine sets (machineset.go)\<close>

definition fake_machinesets_resourceID :: "string \<Rightarrow> string \<Rightarrow> string" where
  "fake_machinesets_resourceID cl name = filepath_Join [filepath_Join [''clusters'', cl, ''machineset''], name @ ''.json'']"

definition fake_machinesets_List :: "string list \<Rightarrow> (MachineSet fake_container, addr list) prog" where
  "fake_machinesets_List order = list_values order"

definition fake_machinesets_Get :: "string \<Rightarrow> string \<Rightarrow> (MachineSet fake_container, addr) prog" where
  "fake_machinesets_Get cl name =
     (if cl = '''' then fail (Err ''missing cluster name'')
      else if name = '''' then fail (Err ''missing node group name'')
      else bindp (gets (\<lambda>s. fk_ids s (fake_machinesets_resourceID cl name))) (\<lambda>item. case item of
        None \<Rightarrow> fail (Err (''NodeGroup `'' @ name @ ''` does not exist''))
      | Some p \<Rightarrow> ret p))"

definition fake_machinesets_Create :: "string \<Rightarrow> addr option \<Rightarrow> (MachineSet fake_container, addr) prog" where
  "fake_machinesets_Create cl oobj =
     (if cl = '''' then fail (Err ''missing cluster name'')
      else case oobj of
        None \<Rightarrow> fail (Err ''missing node group'')
      | Some p \<Rightarrow> bindp (deref p) (\<lambda>obj0.
          if ms_Name obj0 = '''' then fail (Err ''missing node group name'')
          else bindp (assign_at p assign_MachineSet) (\<lambda>obj.
            bindp (gets (\<lambda>s. fk_ids s (fake_machinesets_resourceID cl (ms_Name obj)))) (\<lambda>e.
            if e \<noteq> None then fail (Err (''NodeGroup `'' @ ms_Name obj @ ''` already exists''))
            else bindp (put_id (fake_machinesets_resourceID cl (ms_Name obj)) p) (\<lambda>_. ret p)))))"

text \<open>\<^verbatim>\<open>Update\<close> of machine sets and of machines does not ask whether the object exists.\<close>

definition fake_machinesets_Update :: "string \<Rightarrow> addr option \<Rightarrow> (MachineSet fake_container, addr) prog" where
  "fake_machinesets_Update cl oobj =
     (if cl = '''' then fail (Err ''missing cluster name'')
      else case oobj of
        None \<Rightarrow> fail (Err ''missing node group'')
      | Some p \<Rightarrow> bindp (deref p) (\<lambda>obj0.
          if ms_Name obj0 = '''' then fail (Err ''missing node group name'')
          else bindp (assign_at p assign_MachineSet) (\<lambda>obj.
            bindp (put_id (fake_machinesets_resourceID cl (ms_Name obj)) p) (\<lambda>_. ret p))))"

definition fake_machinesets_Delete :: "string \<Rightarrow> string \<Rightarrow> (MachineSet fake_container, unit) prog" where
  "fake_machinesets_Delete cl name =
     (if cl = '''' then fail (Err ''missing cluster name'')
      else if name = '''' then fail (Err ''missing node group name'')
      else bindp (gets (\<lambda>s. fk_ids s (fake_machinesets_resourceID cl name))) (\<lambda>e.
        if e = None then fail (Err ''machineset item not found'')
        else delete_id (fake_machinesets_resourceID cl name)))"

definition fake_machinesets_UpdateStatus :: "string \<Rightarrow> addr option \<Rightarrow> (MachineSet fake_container, addr) prog" where
  "fake_machinesets_UpdateStatus cl oobj =
     (if cl = '''' then fail (Err ''missing cluster name'')
      else case oobj of
        None \<Rightarrow> fail (Err ''missing node group'')
      | Some p \<Rightarrow> bindp (deref p) (\<lambda>obj0.
          if ms_Name obj0 = '''' then fail (Err ''missing node group name'')
          else bindp (assign_at p assign_MachineSet) (\<lambda>obj.
            bindp (gets (\<lambda>s. fk_ids s (fake_machinesets_resourceID cl (ms_Name obj)))) (\<lambda>e. case e of
              None \<Rightarrow> fail (Err (''NodeGroup `'' @ ms_Name obj @ ''` does not exist''))
            | Some existing \<Rightarrow> bindp (assign_at existing (\<lambda>x. x\<lparr>ms_Status := ms_Status obj\<rparr>)) (\<lambda>_.
                bindp (put_id (fake_machinesets_resourceID cl (ms_Name obj)) existing) (\<lambda>_. ret existing))))))"

section \<open>Machines (machine.go)\<close>

definition fake_machines_resourceID :: "string \<Rightarrow> string \<Rightarrow> string" where
  "fake_machines_resourceID cl name = filepath_Join [filepath_Join [''clusters'', cl, ''nodeGroups''], name @ ''.json'']"

definition fake_machines_List :: "string list \<Rightarrow> (Machine fake_container, addr list) prog" where
  "fake_machines_List order = list_values order"

definition fake_machines_Get :: "string \<Rightarrow> string \<Rightarrow> (Machine fake_container, addr) prog" where
  "fake_machines_Get cl name =
     (if cl = '''' then fail (Err ''missing cluster name'')
      else if name = '''' then fail (Err ''missing node group name'')
      else bindp (gets (\<lambda>s. fk_ids s (fake_machines_resourceID cl name))) (\<lambda>item. case item of
        None \<Rightarrow> fail (Err (''NodeGroup `'' @ name @ ''` does not exist''))
      | Some p \<Rightarrow> ret p))"

definition fake_machines_Create :: "string \<Rightarrow> addr option \<Rightarrow> (Machine fake_container, addr) prog" where
  "fake_machines_Create cl oobj =
     (if cl = '''' then fail (Err ''missing cluster name'')
      else case oobj of
        None \<Rightarrow> fail (Err ''missing node group'')
      | Some p \<Rightarrow> bindp (deref p) (\<lambda>obj0.
          if m_Name obj0 = '''' then fail (Err ''missing node group name'')
          else bindp (assign_at p assign_Machine) (\<lambda>obj.
            bindp (gets (\<lambda>s. fk_ids s (fake_machines_resourceID cl (m_Name obj)))) (\<lambda>e.
            if e \<noteq> None then fail (Err (''NodeGroup `'' @ m_Name obj @ ''` already exists''))
            else bindp (put_id (fake_machines_resourceID cl (m_Name obj)) p) (\<lambda>_. ret p)))))"

definition fake_machines_Update :: "string \<Rightarrow> addr option \<Rightarrow> (Machine fake_container, addr) prog" where
  "fake_machines_Update cl oobj =
     (if cl = '''' then fail (Err ''missing cluster name'')
      else case oobj of
        None \<Rightarrow> fail (Err ''missing node group'')
      | Some p \<Rightarrow> bindp (deref p) (\<lambda>obj0.
          if m_Name obj0 = '''' then fail (Err ''missing node group name'')
          else bindp (assign_at p assign_Machine) (\<lambda>obj.
            bindp (put_id (fake_machines_resourceID cl (m_Name obj)) p) (\<lambda>_. ret p))))"

definition fake_machines_Delete :: "string \<Rightarrow> string \<Rightarrow> (Machine fake_container, unit) prog" where
  "fake_machines_Delete cl name =
     (if cl = '''' then fail (Err ''missing cluster name'')
      else if name = '''' then fail (Err ''missing node group name'')
      else bindp (gets (\<lambda>s. fk_ids s (fake_machines_resourceID cl name))) (\<lambda>e.
        if e = None then fail (Err (''machine \"'' @ name @ ''\" not found''))
        else delete_id (fake_machines_resourceID cl name)))"

definition fake_machines_UpdateStatus :: "string \<Rightarrow> addr option \<Rightarrow> (Machine fake_container, addr) prog" where
  "fake_machines_UpdateStatus cl oobj =
     (if cl = '''' then fail (Err ''missing cluster name'')
      else case oobj of
        None \<Rightarrow> fail (Err ''missing node group'')
      | Some p \<Rightarrow> bindp (deref p) (\<lambda>obj0.
          if m_Name obj0 = '''' then fail (Err ''missing node group name'')
          else bindp (assign_at p assign_Machine) (\<lambda>obj.
            bindp (gets (\<lambda>s. fk_ids s (fake_machines_resourceID cl (m_Name obj)))) (\<lambda>e. case e of
              None \<Rightarrow> fail (Err (''NodeGroup `'' @ m_Name obj @ ''` does not exist''))
            | Some existing \<Rightarrow> bindp (assign_at existing (\<lambda>x. x\<lparr>m_Status := m_Status obj\<rparr>)) (\<lambda>_.
                bindp (put_id (fake_machines_resourceID cl (m_Name obj)) existing) (\<lambda>_. ret existing))))))"

section \<open>SSH keys (ssh.go)\<close>

text \<open>The bytes of keys, certificates and private keys are never changed in place: these maps hold values.\<close>

type_synonym fake_keys = "string \<rightharpoonup> bytes"

definition fake_ssh_home :: "string \<Rightarrow> string" where
  "fake_ssh_home cl = filepath_Join [''clusters'', cl, ''ssh'']"

definition fake_pubKeyID :: "string \<Rightarrow> string \<Rightarrow> string" where
  "fake_pubKeyID cl name = filepath_Join [fake_ssh_home cl, ''id_'' @ name @ ''.pub'']"

definition fake_privKeyID :: "string \<Rightarrow> string \<Rightarrow> string" where
  "fake_privKeyID cl name = filepath_Join [fake_ssh_home cl, ''id_'' @ name]"

definition fake_ssh_Get :: "string \<Rightarrow> string \<Rightarrow> (fake_keys, bytes \<times> bytes) prog" where
  "fake_ssh_Get cl name =
     (if cl = '''' then fail (Err ''missing cluster name'')
      else if name = '''' then fail (Err ''missing ssh key name'')
      else bindp (gets (\<lambda>m. (m (fake_pubKeyID cl name), m (fake_privKeyID cl name)))) (\<lambda>(pub, priv).
        case pub of
          None \<Rightarrow> fail (Err (''SSH `id_'' @ name @ ''.pub` does not exist''))
        | Some a \<Rightarrow> (case priv of
              None \<Rightarrow> fail (Err (''SSH key `id_'' @ name @ ''` does not exist''))
            | Some b \<Rightarrow> ret (a, b))))"

definition fake_ssh_Create :: "string \<Rightarrow> string \<Rightarrow> bytes \<Rightarrow> bytes \<Rightarrow> (fake_keys, unit) prog" where
  "fake_ssh_Create cl name pubKey privKey =
     (if cl = '''' then fail (Err ''missing cluster name'')
      else if pubKey = [] then fail (Err ''empty ssh public key'')
      else if privKey = [] then fail (Err ''empty ssh private key'')
      else modify (\<lambda>m. m(fake_pubKeyID cl name \<mapsto> pubKey, fake_privKeyID cl name \<mapsto> privKey)))"

definition fake_ssh_Delete :: "string \<Rightarrow> string \<Rightarrow> (fake_keys, unit) prog" where
  "fake_ssh_Delete cl name =
     (if cl = '''' then fail (Err ''missing cluster name'')
      else if name = '''' then fail (Err ''missing ssh key name'')
      else bindp (gets (\<lambda>m. m (fake_pubKeyID cl name))) (\<lambda>e.
        if e = None then fail (Err ''sshkey not found'')
        else modify (\<lambda>m. m(fake_pubKeyID cl name := None, fake_privKeyID cl name := None))))"

section \<open>Certificates (certificate.go)\<close>

record ('c, 'k) fake_certs =
  fk_certs :: "string \<rightharpoonup> 'c"
  fk_keys :: "string \<rightharpoonup> 'k"

definition fake_pki_home :: "string \<Rightarrow> string" where
  "fake_pki_home cl = filepath_Join [''clusters'', cl, ''pki'']"

definition fake_certID :: "string \<Rightarrow> string \<Rightarrow> string" where
  "fake_certID cl name = filepath_Join [fake_pki_home cl, name @ ''.crt'']"

definition fake_keyID :: "string \<Rightarrow> string \<Rightarrow> string" where
  "fake_keyID cl name = filepath_Join [fake_pki_home cl, name @ ''.key'']"

definition fake_certs_Get :: "string \<Rightarrow> string \<Rightarrow> (('c, 'k) fake_certs, 'c \<times> 'k) prog" where
  "fake_certs_Get cl name =
     (if cl = '''' then fail (Err ''missing cluster name'')
      else if name = '''' then fail (Err ''missing certificate name'')
      else bindp (gets (\<lambda>m. (fk_certs m (fake_certID cl name), fk_keys m (fake_keyID cl name)))) (\<lambda>(crt, key).
        case crt of
          None \<Rightarrow> fail (Err (''certificate `'' @ name @ ''.crt` does not exist''))
        | Some a \<Rightarrow> (case key of
              None \<Rightarrow> fail (Err (''certificate key `'' @ name @ ''.key` does not exist''))
            | Some b \<Rightarrow> ret (a, b))))"

definition fake_certs_Create :: "string \<Rightarrow> string \<Rightarrow> 'c option \<Rightarrow> 'k option \<Rightarrow> (('c, 'k) fake_certs, unit) prog" where
  "fake_certs_Create cl name crt key =
     (if cl = '''' then fail (Err ''missing cluster name'')
      else case crt of
        None \<Rightarrow> fail (Err ''missing certificate'')
      | Some a \<Rightarrow> (case key of
          None \<Rightarrow> fail (Err ''missing certificate key'')
        | Some b \<Rightarrow> modify (\<lambda>m. m\<lparr>fk_certs := (fk_certs m)(fake_certID cl name \<mapsto> a),
            fk_keys := (fk_keys m)(fake_keyID cl name \<mapsto> b)\<rparr>)))"

definition fake_certs_Delete :: "string \<Rightarrow> string \<Rightarrow> (('c, 'k) fake_certs, unit) prog" where
  "fake_certs_Delete cl name =
     (if cl = '''' then fail (Err ''missing cluster name'')
      else if name = '''' then fail (Err ''missing certificate name'')
      else bindp (gets (\<lambda>m. fk_certs m (fake_certID cl name))) (\<lambda>e.
        if e = None then fail (Err ''certificate not found'')
        else modify (\<lambda>m. m\<lparr>fk_certs := (fk_certs m)(fake_certID cl name := None),
            fk_keys := (fk_keys m)(fake_keyID cl name := None)\<rparr>)))"

section \<open>The store (store.go)\<close>

record FakeStore =
  fks_clusters :: "Cluster fake_container"
  fks_credentials :: "Credential fake_container option"
  fks_machineSet :: "string \<rightharpoonup> MachineSet fake_container"
  fks_machine :: "string \<rightharpoonup> Machine fake_container"
  fks_certificates :: "string \<rightharpoonup> (bytes, bytes) fake_certs"
  fks_sshKeys :: "string \<rightharpoonup> fake_keys"

definition FakeStore_New :: FakeStore where
  "FakeStore_New = \<lparr>fks_clusters = empty_container, fks_credentials = None, fks_machineSet = Map.empty,
     fks_machine = Map.empty, fks_certificates = Map.empty, fks_sshKeys = Map.empty\<rparr>"

text \<open>
  An accessor returns the sub-store, making it on the first call; a method of the sub-store then
  changes the one the map holds.  So a call through an accessor is the method run on that entry.
\<close>

definition FakeStore_Clusters :: "(Cluster fake_container, 'b) prog \<Rightarrow> (FakeStore, 'b) prog" where
  "FakeStore_Clusters m = (\<lambda>s. case m (fks_clusters s) of (r, c) \<Rightarrow> (r, s\<lparr>fks_clusters := c\<rparr>))"

definition FakeStore_Credentials :: "(Credential fake_container, 'b) prog \<Rightarrow> (FakeStore, 'b) prog" where
  "FakeStore_Credentials m = (\<lambda>s.
     case m (case fks_credentials s of None \<Rightarrow> empty_container | Some c \<Rightarrow> c) of (r, c) \<Rightarrow> (r, s\<lparr>fks_credentials := Some c\<rparr>))"

definition FakeStore_MachineSet :: "string \<Rightarrow> (MachineSet fake_container, 'b) prog \<Rightarrow> (FakeStore, 'b) prog" where
  "FakeStore_MachineSet cl m = (\<lambda>s.
     case m (case fks_machineSet s cl of None \<Rightarrow> empty_container | Some c \<Rightarrow> c) of
       (r, c) \<Rightarrow> (r, s\<lparr>fks_machineSet := (fks_machineSet s)(cl \<mapsto> c)\<rparr>))"

definition FakeStore_Machine :: "string \<Rightarrow> (Machine fake_container, 'b) prog \<Rightarrow> (FakeStore, 'b) prog" where
  "FakeStore_Machine cl m = (\<lambda>s.
     case m (case fks_machine s cl of None \<Rightarrow> empty_container | Some c \<Rightarrow> c) of
       (r, c) \<Rightarrow> (r, s\<lparr>fks_machine := (fks_machine s)(cl \<mapsto> c)\<rparr>))"

definition FakeStore_Certificates :: "string \<Rightarrow> ((bytes, bytes) fake_certs, 'b) prog \<Rightarrow> (FakeStore, 'b) prog" where
  "FakeStore_Certificates cl m = (\<lambda>s.
     case m (case fks_certificates s cl of None \<Rightarrow> \<lparr>fk_certs = Map.empty, fk_keys = Map.empty\<rparr> | Some c \<Rightarrow> c) of
       (r, c) \<Rightarrow> (r, s\<lparr>fks_certificates := (fks_certificates s)(cl \<mapsto> c)\<rparr>))"

definition FakeStore_SSHKeys :: "string \<Rightarrow> (fake_keys, 'b) prog \<Rightarrow> (FakeStore, 'b) prog" where
  "FakeStore_SSHKeys cl m = (\<lambda>s.
     case m (case fks_sshKeys s cl of None \<Rightarrow> Map.empty | Some c \<Rightarrow> c) of
       (r, c) \<Rightarrow> (r, s\<lparr>fks_sshKeys := (fks_sshKeys s)(cl \<mapsto> c)\<rparr>))"

end
