(* ===== verification/Store_Fake_Correct.thy ===== *)
theory Store_Fake_Correct
  imports Store_Fake
begin

text \<open>
  The in-memory store meets the contract of \<open>Store_Spec\<close>: clusters and credentials the full one,
  machines and machine sets the part that is silent on \<^verbatim>\<open>Update\<close> of a missing object, which they
  insert.  The contract speaks of values: a caller makes a new object for each call that takes one
  and reads the object that a call returns.  What sharing an object does is stated separately.
\<close>

section \<open>Calls by value\<close>

definition read_result :: "('a fake_container, addr) prog \<Rightarrow> ('a fake_container, 'a) prog" where
  "read_result m = bindp m deref"

definition with_new :: "(addr option \<Rightarrow> ('a fake_container, addr) prog) \<Rightarrow> 'a \<Rightarrow> ('a fake_container, 'a) prog" where
  "with_new f x = bindp (new_object x) (\<lambda>p. read_result (f (Some p)))"

definition fk_legal :: "string \<Rightarrow> bool" where
  "fk_legal n \<longleftrightarrow> n \<noteq> '''' \<and> CHR ''/'' \<notin> set n"

definition fk_view :: "(string \<Rightarrow> string) \<Rightarrow> 'a fake_container \<Rightarrow> string \<rightharpoonup> 'a" where
  "fk_view rid s n = (if fk_legal n then (case fk_ids s (rid n) of None \<Rightarrow> None | Some p \<Rightarrow> fk_objs s p) else None)"

text \<open>Every pointer in the map points to an object, and objects are below the next free address.\<close>

definition fk_good :: "'a fake_container \<Rightarrow> bool" where
  "fk_good s \<longleftrightarrow> (\<forall>p. fk_objs s p \<noteq> None \<longrightarrow> p < fk_next s) \<and> (\<forall>i p. fk_ids s i = Some p \<longrightarrow> fk_objs s p \<noteq> None)"

definition id_inj :: "(string \<Rightarrow> string) \<Rightarrow> bool" where
  "id_inj rid \<longleftrightarrow> (\<forall>m n. fk_legal m \<longrightarrow> fk_legal n \<longrightarrow> rid m = rid n \<longrightarrow> m = n)"

lemma fk_lookup:
  assumes "fk_good s" "fk_legal n"
  shows "fk_view rid s n = None \<longleftrightarrow> fk_ids s (rid n) = None"
    and "fk_view rid s n = Some x \<longleftrightarrow> (\<exists>p. fk_ids s (rid n) = Some p \<and> fk_objs s p = Some x)"
  using assms by (auto simp: fk_view_def fk_good_def split: option.splits)

lemma good_empty: "fk_good empty_container"
  by (simp add: fk_good_def empty_container_def)

lemma view_empty: "fk_view rid empty_container n = None"
  by (simp add: fk_view_def empty_container_def)

text \<open>The state after an object was made and stamped, and after it was entered under an identifier.\<close>

definition with_object :: "'a \<Rightarrow> 'a fake_container \<Rightarrow> 'a fake_container" where
  "with_object x s = s\<lparr>fk_objs := (fk_objs s)(fk_next s \<mapsto> x), fk_next := Suc (fk_next s)\<rparr>"

definition entered :: "string \<Rightarrow> 'a \<Rightarrow> 'a fake_container \<Rightarrow> 'a fake_container" where
  "entered i x s = (with_object x s)\<lparr>fk_ids := (fk_ids s)(i \<mapsto> fk_next s)\<rparr>"

lemma not_next: "fk_good s \<Longrightarrow> fk_ids s i = Some p \<Longrightarrow> p \<noteq> fk_next s"
  unfolding fk_good_def by (metis less_irrefl)

lemma with_object_keeps: "fk_good s \<Longrightarrow> fk_good (with_object x s) \<and> fk_view rid (with_object x s) = fk_view rid s"
  by (auto simp: with_object_def fk_view_def fun_eq_iff dest: not_next split: option.splits)
     (auto simp: fk_good_def less_Suc_eq)

lemma entered_keeps:
  assumes "fk_good s" "fk_legal n" "id_inj rid"
  shows "fk_good (entered (rid n) x s)" "fk_view rid (entered (rid n) x s) = (fk_view rid s)(n \<mapsto> x)"
proof -
  show "fk_good (entered (rid n) x s)"
    using assms(1) by (auto simp: fk_good_def entered_def with_object_def less_Suc_eq)
  have "rid m = rid n \<longleftrightarrow> m = n" if "fk_legal m" for m using assms(2,3) that by (auto simp: id_inj_def)
  then show "fk_view rid (entered (rid n) x s) = (fk_view rid s)(n \<mapsto> x)"
    using assms(1,2) by (auto simp: entered_def with_object_def fk_view_def fun_eq_iff dest: not_next split: option.splits)
qed

lemma deleted_keeps:
  assumes "fk_good s" "fk_legal n" "id_inj rid"
  shows "fk_good (s\<lparr>fk_ids := (fk_ids s)(rid n := None)\<rparr>)"
    "fk_view rid (s\<lparr>fk_ids := (fk_ids s)(rid n := None)\<rparr>) = (fk_view rid s)(n := None)"
  using assms by (auto simp: fk_good_def fk_view_def id_inj_def fun_eq_iff split: option.splits)

text \<open>The run of the steps all methods are made of.\<close>

lemma fake_steps [prog_run]:
  "fk_objs s p = Some x \<Longrightarrow> deref p s = (Inr x, s)"
  "fk_objs s p = Some x \<Longrightarrow> assign_at p f s = (Inr (f x), s\<lparr>fk_objs := (fk_objs s)(p \<mapsto> f x)\<rparr>)"
  "new_object x s = (Inr (fk_next s), with_object x s)"
  "put_id i p s = (Inr (), s\<lparr>fk_ids := (fk_ids s)(i \<mapsto> p)\<rparr>)"
  "delete_id i s = (Inr (), s\<lparr>fk_ids := (fk_ids s)(i := None)\<rparr>)"
  by (simp_all add: deref_def assign_at_def new_object_def put_id_def delete_id_def with_object_def run_bindp run_simps)

text \<open>The shapes of the methods, over the identifier, the stamp and the name of an object type.\<close>

lemma fake_get_run:
  assumes "fk_good s" "fk_legal n"
  shows "read_result (bindp (gets (\<lambda>s. fk_ids s (rid n))) (\<lambda>e. case e of None \<Rightarrow> fail err | Some p \<Rightarrow> ret p)) s =
    ((case fk_view rid s n of None \<Rightarrow> Inl err | Some x \<Rightarrow> Inr x), s)"
  using assms fk_lookup [OF assms] by (auto simp: read_result_def prog_run fk_view_def fk_good_def split: option.splits)

lemma stamped_object:
  "(with_object x s)\<lparr>fk_objs := (fk_objs (with_object x s))(fk_next s \<mapsto> y)\<rparr> = with_object y s"
  by (simp add: with_object_def)

lemma entered_object: "(with_object y s)\<lparr>fk_ids := (fk_ids s)(i \<mapsto> fk_next s)\<rparr> = entered i y s"
  by (simp add: entered_def with_object_def)

lemma object_there: "fk_objs (with_object x s) (fk_next s) = Some x" "fk_ids (with_object x s) = fk_ids s"
  "fk_objs (entered i x s) (fk_next s) = Some x"
  by (simp_all add: with_object_def entered_def)

lemmas fake_objects = stamped_object entered_object object_there

lemma fake_put_run:
  "with_new (\<lambda>oobj. case oobj of None \<Rightarrow> fail e0 | Some p \<Rightarrow> bindp (deref p) (\<lambda>obj0.
       if nm obj0 = '''' then fail e1 else bindp (assign_at p stamp) (\<lambda>obj.
         bindp (put_id (rid (nm obj)) p) (\<lambda>_. ret p)))) x s =
   (if nm x = '''' then (Inl e1, with_object x s) else (Inr (stamp x), entered (rid (nm (stamp x))) (stamp x) s))"
  by (simp add: with_new_def read_result_def prog_run fake_objects)

lemma fake_guarded_run:
  "with_new (\<lambda>oobj. case oobj of None \<Rightarrow> fail e0 | Some p \<Rightarrow> bindp (deref p) (\<lambda>obj0.
       if nm obj0 = '''' then fail e1 else bindp (assign_at p stamp) (\<lambda>obj.
         bindp (gets (\<lambda>s. fk_ids s (rid (nm obj)))) (\<lambda>e. if b e then fail (e2 obj)
         else bindp (put_id (rid (nm obj)) p) (\<lambda>_. ret p))))) x s =
   (if nm x = '''' then (Inl e1, with_object x s)
    else if b (fk_ids s (rid (nm (stamp x)))) then (Inl (e2 (stamp x)), with_object (stamp x) s)
    else (Inr (stamp x), entered (rid (nm (stamp x))) (stamp x) s))"
  by (simp add: with_new_def read_result_def prog_run fake_objects)

section \<open>Identifiers\<close>

lemma fk_legal_seg: "fk_legal n \<Longrightarrow> plain_seg (n @ ''.json'')"
  by (rule plain_seg_json) (simp add: fk_legal_def)

lemma id_inj_flat: "plain_seg home \<Longrightarrow> id_inj (\<lambda>n. filepath_Join [home, n @ ''.json''])"
proof (unfold id_inj_def, intro allI impI)
  fix m n assume h: "plain_seg home" and l: "fk_legal m" "fk_legal n"
    and eq: "filepath_Join [home, m @ ''.json''] = filepath_Join [home, n @ ''.json'']"
  have j: "filepath_Join [home, k @ ''.json''] = join ''/'' [home, k @ ''.json'']" if "fk_legal k" for k
    using h fk_legal_seg [OF that] by (intro filepath_Join_plain) auto
  have "[home, m @ ''.json''] = [home, n @ ''.json'']"
    using eq [unfolded j [OF l(1)] j [OF l(2)]] h fk_legal_seg [OF l(1)] fk_legal_seg [OF l(2)]
    by (intro plain_join_inj) auto
  then show "m = n" by simp
qed

lemma fake_clusters_inj: "id_inj fake_clusters_resourceID" and fake_credentials_inj: "id_inj fake_credentials_resourceID"
  using id_inj_flat [of "''clusters''"] id_inj_flat [of "''credentials''"]
  by (simp_all add: fake_clusters_resourceID_def fake_credentials_resourceID_def plain_seg_def id_inj_def)

lemma id_inj_nested:
  assumes "plain_seg cl" "plain_seg kind"
  shows "id_inj (\<lambda>n. filepath_Join [filepath_Join [''clusters'', cl, kind], n @ ''.json''])"
proof (unfold id_inj_def, intro allI impI)
  fix m n assume l: "fk_legal m" "fk_legal n"
    and eq: "filepath_Join [filepath_Join [''clusters'', cl, kind], m @ ''.json''] = filepath_Join [filepath_Join [''clusters'', cl, kind], n @ ''.json'']"
  have c: "plain_seg ''clusters''" by (simp add: plain_seg_def)
  have j: "filepath_Join [filepath_Join [''clusters'', cl, kind], k @ ''.json''] = join ''/'' [''clusters'', cl, kind, k @ ''.json'']"
    if "fk_legal k" for k
  proof -
    have "filepath_Join [''clusters'', cl, kind] = join ''/'' [''clusters'', cl, kind]"
      using assms c by (intro filepath_Join_plain) auto
    then have "filepath_Join [filepath_Join [''clusters'', cl, kind], k @ ''.json''] = filepath_Join [''clusters'', cl, kind, k @ ''.json'']"
      by (simp add: filepath_Join_def)
    also have "\<dots> = join ''/'' [''clusters'', cl, kind, k @ ''.json'']"
      using assms c fk_legal_seg [OF that] by (intro filepath_Join_plain) auto
    finally show ?thesis .
  qed
  have "[''clusters'', cl, kind, m @ ''.json''] = [''clusters'', cl, kind, n @ ''.json'']"
    using eq [unfolded j [OF l(1)] j [OF l(2)]] assms c fk_legal_seg [OF l(1)] fk_legal_seg [OF l(2)]
    by (intro plain_join_inj) auto
  then show "m = n" by simp
qed

section \<open>The contract\<close>

lemma fake_already_exists: "ErrAlreadyExist (Err (a @ b @ ''` already exists''))"
proof -
  have "a @ b @ ''` already exists'' = (a @ b @ ''` '') @ ''already exists'' @ ''''" by simp
  then show ?thesis unfolding ErrAlreadyExist_def err_msg.simps by (metis str_contains_append)
qed

text \<open>What a method does by value, whatever its messages.\<close>

definition fake_getter :: "(string \<Rightarrow> string) \<Rightarrow> (string \<Rightarrow> ('a fake_container, 'a) prog) \<Rightarrow> bool" where
  "fake_getter rid get \<longleftrightarrow> (\<forall>n s. fk_good s \<longrightarrow> fk_legal n \<longrightarrow>
     (\<exists>e. get n s = ((case fk_view rid s n of None \<Rightarrow> Inl (Err e) | Some x \<Rightarrow> Inr x), s)))"

definition fake_putter ::
  "(addr option \<Rightarrow> bool) \<Rightarrow> (gerror \<Rightarrow> bool) \<Rightarrow> (string \<Rightarrow> string) \<Rightarrow> ('a \<Rightarrow> string) \<Rightarrow> ('a \<Rightarrow> 'a) \<Rightarrow>
    ('a \<Rightarrow> ('a fake_container, 'a) prog) \<Rightarrow> bool" where
  "fake_putter refuse err rid nm stamp put \<longleftrightarrow> (\<forall>x s. nm x \<noteq> [] \<longrightarrow>
     (if refuse (fk_ids s (rid (nm x))) then (\<exists>e. err (Err e) \<and> put x s = (Inl (Err e), with_object (stamp x) s))
      else put x s = (Inr (stamp x), entered (rid (nm x)) (stamp x) s)))"

definition fake_remover :: "(string \<Rightarrow> string) \<Rightarrow> (string \<Rightarrow> ('a fake_container, unit) prog) \<Rightarrow> bool" where
  "fake_remover rid del \<longleftrightarrow> (\<forall>n s. n \<noteq> '''' \<longrightarrow>
     (if fk_ids s (rid n) = None then (\<exists>e. del n s = (Inl (Err e), s))
      else del n s = (Inr (), s\<lparr>fk_ids := (fk_ids s)(rid n := None)\<rparr>)))"

lemma fake_putterD:
  assumes "fake_putter refuse err rid nm stamp put" "fk_legal (nm x)"
  shows "refuse (fk_ids s (rid (nm x))) \<Longrightarrow> \<exists>e. err (Err e) \<and> put x s = (Inl (Err e), with_object (stamp x) s)"
    and "\<not> refuse (fk_ids s (rid (nm x))) \<Longrightarrow> put x s = (Inr (stamp x), entered (rid (nm x)) (stamp x) s)"
  using assms by (auto simp: fake_putter_def fk_legal_def split: if_splits)

lemma fake_base:
  assumes inj: "id_inj rid" and get: "fake_getter rid get" and create: "fake_putter (\<lambda>e. e \<noteq> None) ErrAlreadyExist rid nm stamp create"
    and update: "fake_putter refuse err rid nm stamp update" "\<And>p. \<not> refuse (Some p)"
  shows "object_base get create update nm stamp (\<lambda>x. Some (stamp x)) fk_good fk_legal (fk_view rid)"
proof
  fix s :: "'a fake_container" and n and x y z :: 'a
  assume s: "fk_good s"
  show "get n s = (Inr x, s)" if "fk_legal n" "fk_view rid s n = Some x"
    using get s that by (fastforce simp: fake_getter_def)
  show "\<exists>e. get n s = (Inl (Err e), s)" if "fk_legal n" "fk_view rid s n = None"
    using get s that by (fastforce simp: fake_getter_def)
  show "\<exists>s'. create x s = (Inr (stamp x), s') \<and> fk_good s' \<and> fk_view rid s' = (fk_view rid s)(nm x \<mapsto> y)"
    if n: "fk_legal (nm x)" and v: "fk_view rid s (nm x) = None" and y: "Some (stamp x) = Some y"
    using fake_putterD(2) [OF create n, of s] fk_lookup(1) [OF s n, of rid] v y entered_keeps [OF s n inj] by simp
  show "\<exists>e s'. create x s = (Inl (Err e), s') \<and> ErrAlreadyExist (Err e) \<and> fk_good s' \<and> fk_view rid s' = fk_view rid s"
    if n: "fk_legal (nm x)" and v: "fk_view rid s (nm x) = Some z"
    using fake_putterD(1) [OF create n, of s] fk_lookup(1) [OF s n, of rid] v with_object_keeps [OF s] by auto
  show "\<exists>s'. update x s = (Inr (stamp x), s') \<and> fk_good s' \<and> fk_view rid s' = (fk_view rid s)(nm x \<mapsto> y)"
    if n: "fk_legal (nm x)" and v: "fk_view rid s (nm x) = Some z" and y: "Some (stamp x) = Some y"
    using fake_putterD(2) [OF update(1) n, of s] fk_lookup(2) [OF s n, of rid z] update(2) v y entered_keeps [OF s n inj] by auto
qed

lemma fake_store:
  assumes inj: "id_inj rid" and get: "fake_getter rid get" and create: "fake_putter (\<lambda>e. e \<noteq> None) ErrAlreadyExist rid nm stamp create"
    and update: "fake_putter (\<lambda>e. e = None) (\<lambda>_. True) rid nm stamp update" and del: "fake_remover rid del"
  shows "object_store get create update nm stamp (\<lambda>x. Some (stamp x)) fk_good fk_legal (fk_view rid) del"
proof (intro object_store.intro object_rw.intro object_rw_axioms.intro object_store_axioms.intro fake_base [OF inj get create update])
  fix s :: "'a fake_container" and n and x :: 'a
  assume s: "fk_good s"
  show "\<exists>e s'. update x s = (Inl (Err e), s') \<and> fk_good s' \<and> fk_view rid s' = fk_view rid s"
    if "fk_legal (nm x)" "fk_view rid s (nm x) = None"
    using fake_putterD(1) [OF update that(1), of s] fk_lookup(1) [OF s that(1), of rid] that(2) with_object_keeps [OF s] by auto
  show "\<exists>s'. del n s = (Inr (), s') \<and> fk_good s' \<and> fk_view rid s' = (fk_view rid s)(n := None)"
    if "fk_legal n" "fk_view rid s n = Some x"
    using del that fk_lookup(2) [OF s that(1), of rid] deleted_keeps [OF s that(1) inj]
    by (auto simp: fake_remover_def fk_legal_def)
  show "\<exists>e. del n s = (Inl (Err e), s)" if "fk_legal n" "fk_view rid s n = None"
    using del that fk_lookup(1) [OF s that(1), of rid] by (auto simp: fake_remover_def fk_legal_def)
qed simp

text \<open>The methods have these shapes.\<close>

lemma fake_getterI:
  assumes "\<And>n. n \<noteq> '''' \<Longrightarrow> get n = bindp (gets (\<lambda>s. fk_ids s (rid n))) (\<lambda>e. case e of None \<Rightarrow> fail (Err (err n)) | Some p \<Rightarrow> ret p)"
  shows "fake_getter rid (\<lambda>n. read_result (get n))"
  unfolding fake_getter_def
proof (intro allI impI)
  fix n and s :: "'a fake_container"
  assume s: "fk_good s" "fk_legal n"
  then have "n \<noteq> ''''" by (simp add: fk_legal_def)
  with fake_get_run [OF s, of rid "Err (err n)"]
  show "\<exists>e. read_result (get n) s = ((case fk_view rid s n of None \<Rightarrow> Inl (Err e) | Some x \<Rightarrow> Inr x), s)"
    unfolding assms [OF \<open>n \<noteq> ''''\<close>] by blast
qed

lemma fake_putterI:
  assumes "put = (\<lambda>oobj. case oobj of None \<Rightarrow> fail e0 | Some p \<Rightarrow> bindp (deref p) (\<lambda>obj0.
       if nm obj0 = '''' then fail e1 else bindp (assign_at p stamp) (\<lambda>obj.
         bindp (gets (\<lambda>s. fk_ids s (rid (nm obj)))) (\<lambda>e. if b e then fail (Err (e2 obj))
         else bindp (put_id (rid (nm obj)) p) (\<lambda>_. ret p)))))"
    and "\<And>x. nm (stamp x) = nm x" "\<And>x. err (Err (e2 x))"
  shows "fake_putter b err rid nm stamp (with_new put)"
  unfolding fake_putter_def assms(1) fake_guarded_run [where nm = nm and rid = rid and stamp = stamp] assms(2)
  using assms(3) by simp

lemma fake_removerI:
  assumes "\<And>n. n \<noteq> '''' \<Longrightarrow> del n = bindp (gets (\<lambda>s. fk_ids s (rid n))) (\<lambda>e. if e = None then fail (Err (err n)) else delete_id (rid n))"
  shows "fake_remover rid del"
  unfolding fake_remover_def using assms by (auto simp: prog_run)

interpretation fake_clusters: object_store "\<lambda>n. read_result (fake_clusters_Get n)" "with_new fake_clusters_Create"
  "with_new fake_clusters_Update" c_Name assign_Cluster "\<lambda>x. Some (assign_Cluster x)" fk_good fk_legal
  "fk_view fake_clusters_resourceID" fake_clusters_Delete
proof (rule fake_store [OF fake_clusters_inj])
  show "fake_getter fake_clusters_resourceID (\<lambda>n. read_result (fake_clusters_Get n))"
    by (rule fake_getterI) (simp only: fake_clusters_Get_def if_False)
  show "fake_putter (\<lambda>e. e \<noteq> None) ErrAlreadyExist fake_clusters_resourceID c_Name assign_Cluster (with_new fake_clusters_Create)"
    by (rule fake_putterI [OF ext [OF fake_clusters_Create_def]]) (simp_all only: assign_Cluster_fields fake_already_exists)
  show "fake_putter (\<lambda>e. e = None) (\<lambda>_. True) fake_clusters_resourceID c_Name assign_Cluster (with_new fake_clusters_Update)"
    by (rule fake_putterI [OF ext [OF fake_clusters_Update_def]]) simp_all
  show "fake_remover fake_clusters_resourceID fake_clusters_Delete"
    by (rule fake_removerI) (simp only: fake_clusters_Delete_def if_False)
qed

interpretation fake_credentials: object_store "\<lambda>n. read_result (fake_credentials_Get n)" "with_new fake_credentials_Create"
  "with_new fake_credentials_Update" cr_Name assign_Credential "\<lambda>x. Some (assign_Credential x)" fk_good fk_legal
  "fk_view fake_credentials_resourceID" fake_credentials_Delete
proof (rule fake_store [OF fake_credentials_inj])
  show "fake_getter fake_credentials_resourceID (\<lambda>n. read_result (fake_credentials_Get n))"
    by (rule fake_getterI) (simp only: fake_credentials_Get_def if_False)
  show "fake_putter (\<lambda>e. e \<noteq> None) ErrAlreadyExist fake_credentials_resourceID cr_Name assign_Credential (with_new fake_credentials_Create)"
    by (rule fake_putterI [OF ext [OF fake_credentials_Create_def]]) (simp_all only: assign_names fake_already_exists)
  show "fake_putter (\<lambda>e. e = None) (\<lambda>_. True) fake_credentials_resourceID cr_Name assign_Credential (with_new fake_credentials_Update)"
    by (rule fake_putterI [OF ext [OF fake_credentials_Update_def]]) simp_all
  show "fake_remover fake_credentials_resourceID fake_credentials_Delete"
    by (rule fake_removerI) (simp only: fake_credentials_Delete_def if_False)
qed

text \<open>Machines and machine sets: \<^verbatim>\<open>Update\<close> never refuses.  The cluster name is one path segment.\<close>

lemma fake_inserterI:
  assumes "put = (\<lambda>oobj. case oobj of None \<Rightarrow> fail e0 | Some p \<Rightarrow> bindp (deref p) (\<lambda>obj0.
       if nm obj0 = '''' then fail e1 else bindp (assign_at p stamp) (\<lambda>obj.
         bindp (put_id (rid (nm obj)) p) (\<lambda>_. ret p))))"
    and "\<And>x. nm (stamp x) = nm x"
  shows "fake_putter (\<lambda>_. False) (\<lambda>_. True) rid nm stamp (with_new put)"
  unfolding fake_putter_def assms(1) fake_put_run [where nm = nm and rid = rid and stamp = stamp] assms(2) by simp

lemma object_base_if:
  "(P \<Longrightarrow> object_base get create update nm stamp st good legal view) \<Longrightarrow>
    object_base get create update nm stamp st (\<lambda>s. P \<and> good s) legal view"
  by (cases P) (simp_all add: object_base_def)

lemma seg_nonempty: "plain_seg cl \<Longrightarrow> (cl = '''') = False"
  by (simp add: plain_seg_def)

interpretation fake_machines: object_base "\<lambda>n. read_result (fake_machines_Get cl n)" "with_new (fake_machines_Create cl)"
  "with_new (fake_machines_Update cl)" m_Name assign_Machine "\<lambda>x. Some (assign_Machine x)"
  "\<lambda>s. plain_seg cl \<and> fk_good s" fk_legal "fk_view (fake_machines_resourceID cl)" for cl
proof (rule object_base_if, rule fake_base)
  assume cl: "plain_seg cl"
  note ne = seg_nonempty [OF cl]
  show "id_inj (fake_machines_resourceID cl)"
    using id_inj_nested [OF cl, of "''nodeGroups''"] by (simp add: fake_machines_resourceID_def [abs_def] plain_seg_def)
  show "fake_getter (fake_machines_resourceID cl) (\<lambda>n. read_result (fake_machines_Get cl n))"
    by (rule fake_getterI) (simp only: fake_machines_Get_def ne if_False)
  show "fake_putter (\<lambda>e. e \<noteq> None) ErrAlreadyExist (fake_machines_resourceID cl) m_Name assign_Machine (with_new (fake_machines_Create cl))"
    by (rule fake_putterI [OF ext [OF fake_machines_Create_def [of cl, unfolded ne if_False]]]) (simp_all only: assign_names fake_already_exists)
  show "fake_putter (\<lambda>_. False) (\<lambda>_. True) (fake_machines_resourceID cl) m_Name assign_Machine (with_new (fake_machines_Update cl))"
    by (rule fake_inserterI [OF ext [OF fake_machines_Update_def [of cl, unfolded ne if_False]]]) simp
qed simp

interpretation fake_machinesets: object_base "\<lambda>n. read_result (fake_machinesets_Get cl n)" "with_new (fake_machinesets_Create cl)"
  "with_new (fake_machinesets_Update cl)" ms_Name assign_MachineSet "\<lambda>x. Some (assign_MachineSet x)"
  "\<lambda>s. plain_seg cl \<and> fk_good s" fk_legal "fk_view (fake_machinesets_resourceID cl)" for cl
proof (rule object_base_if, rule fake_base)
  assume cl: "plain_seg cl"
  note ne = seg_nonempty [OF cl]
  show "id_inj (fake_machinesets_resourceID cl)"
    using id_inj_nested [OF cl, of "''machineset''"] by (simp add: fake_machinesets_resourceID_def [abs_def] plain_seg_def)
  show "fake_getter (fake_machinesets_resourceID cl) (\<lambda>n. read_result (fake_machinesets_Get cl n))"
    by (rule fake_getterI) (simp only: fake_machinesets_Get_def ne if_False)
  show "fake_putter (\<lambda>e. e \<noteq> None) ErrAlreadyExist (fake_machinesets_resourceID cl) ms_Name assign_MachineSet (with_new (fake_machinesets_Create cl))"
    by (rule fake_putterI [OF ext [OF fake_machinesets_Create_def [of cl, unfolded ne if_False]]]) (simp_all only: assign_names fake_already_exists)
  show "fake_putter (\<lambda>_. False) (\<lambda>_. True) (fake_machinesets_resourceID cl) ms_Name assign_MachineSet (with_new (fake_machinesets_Update cl))"
    by (rule fake_inserterI [OF ext [OF fake_machinesets_Update_def [of cl, unfolded ne if_False]]]) simp
qed simp

section \<open>Properties\<close>

text \<open>C16. The in-memory store of clusters refines a map: every sequence of calls, each with objects of its own,
  gives the replies of the same calls on a map from names to stamped clusters, which the store then holds.\<close>

theorem fake_clusters_refine_map:
  assumes "list_all (op_ok c_Name fk_legal (\<lambda>x. Some (assign_Cluster x))) ops"
  shows "\<exists>s'. run_seq (run_op (\<lambda>n. read_result (fake_clusters_Get n)) (with_new fake_clusters_Create)
        (with_new fake_clusters_Update) fake_clusters_Delete) ops (fks_clusters FakeStore_New) =
      (fst (run_seq (spec_op c_Name assign_Cluster assign_Cluster) ops Map.empty), s') \<and>
    fk_view fake_clusters_resourceID s' = snd (run_seq (spec_op c_Name assign_Cluster assign_Cluster) ops Map.empty)"
proof -
  have "fk_good (fks_clusters FakeStore_New)" by (simp add: FakeStore_New_def good_empty)
  moreover have "fk_view fake_clusters_resourceID (fks_clusters FakeStore_New) = Map.empty"
    by (simp add: fun_eq_iff fk_view_def FakeStore_New_def empty_container_def)
  ultimately show ?thesis using fake_clusters.run_seq_refines [OF _ assms] by fastforce
qed

text \<open>The caller shares what it stores: a change of the object after \<^verbatim>\<open>Create\<close> shows in the next \<^verbatim>\<open>Get\<close> without an
  \<^verbatim>\<open>Update\<close>, and \<^verbatim>\<open>UpdateStatus\<close> with an object of its own changes the object of the caller.\<close>

lemma fake_store_shares:
  assumes "fk_objs s p = Some x" "c_Name x \<noteq> ''''" "fk_ids s (fake_clusters_resourceID (c_Name x)) = None"
    and "fk_objs s q = Some y" "c_Name y = c_Name x" "q \<noteq> p"
  shows "fst (bindp (fake_clusters_Create (Some p)) (\<lambda>_. bindp (assign_at p f) (\<lambda>_.
      read_result (fake_clusters_Get (c_Name x)))) s) = Inr (f (assign_Cluster x)) \<and>
    fst (bindp (fake_clusters_Create (Some p)) (\<lambda>_. bindp (fake_clusters_UpdateStatus (Some q)) (\<lambda>_. deref p)) s) =
      Inr ((assign_Cluster x)\<lparr>Status := Status y\<rparr>)"
  using assms by (simp add: fake_clusters_Create_def fake_clusters_Get_def fake_clusters_UpdateStatus_def read_result_def prog_run)

theorem fake_clusters_refine_map_witness:
  "\<exists>s'. run_seq (run_op (\<lambda>n. read_result (fake_clusters_Get n)) (with_new fake_clusters_Create)
        (with_new fake_clusters_Update) fake_clusters_Delete)
      [OpCreate (zero_Cluster\<lparr>c_ObjectMeta := zero_ObjectMeta\<lparr>Name := ''c''\<rparr>\<rparr>), OpDelete ''c'', OpGet ''c''] (fks_clusters FakeStore_New) =
    ([Got (assign_Cluster (zero_Cluster\<lparr>c_ObjectMeta := zero_ObjectMeta\<lparr>Name := ''c''\<rparr>\<rparr>)), Done, Refused], s')"
  using fake_clusters_refine_map [of "[OpCreate (zero_Cluster\<lparr>c_ObjectMeta := zero_ObjectMeta\<lparr>Name := ''c''\<rparr>\<rparr>), OpDelete ''c'', OpGet ''c'']"]
  by (auto simp: fk_legal_def)

text \<open>\<^verbatim>\<open>Update\<close> of a machine that the in-memory store does not have inserts it, where the file store refuses.\<close>

lemma fake_machine_update_inserts:
  assumes "plain_seg cl" "fk_good s" "fk_legal (m_Name x)" "fk_view (fake_machines_resourceID cl) s (m_Name x) = None"
  shows "\<exists>s'. with_new (fake_machines_Update cl) x s = (Inr (assign_Machine x), s') \<and> fk_good s' \<and>
    fk_view (fake_machines_resourceID cl) s' = (fk_view (fake_machines_resourceID cl) s)(m_Name x \<mapsto> assign_Machine x)"
proof -
  have "id_inj (fake_machines_resourceID cl)"
    using id_inj_nested [OF assms(1), of "''nodeGroups''"] by (simp add: fake_machines_resourceID_def [abs_def] plain_seg_def)
  moreover have "fake_putter (\<lambda>_. False) (\<lambda>_. True) (fake_machines_resourceID cl) m_Name assign_Machine (with_new (fake_machines_Update cl))"
    by (rule fake_inserterI [OF ext [OF fake_machines_Update_def [of cl, unfolded seg_nonempty [OF assms(1)] if_False]]]) simp
  ultimately show ?thesis using fake_putterD(2) [of _ _ _ _ _ "with_new (fake_machines_Update cl)"] entered_keeps [OF assms(2,3)] assms(3) by metis
qed

end
