(* ===== verification/Store_Providers.thy ===== *)
theory Store_Providers
  imports Store_Fake_Correct Store_Vfs_Props "HOL-Library.Multiset"
begin

text \<open>
  Which store a configuration selects (\<^verbatim>\<open>store/plugins.go\<close>), and that it makes no difference to the
  callers whether clusters are kept in files or in memory.
\<close>

section \<open>The registry of stores (plugins.go, config.go of the API)\<close>

record PostgresSpec =
  pg_DbName :: string
  pg_Host :: string
  pg_Port :: int
  pg_User :: string
  pg_Password :: string
  pg_MasterKeyURL :: string

record BucketSpec =
  bk_Endpoint :: string
  bk_Container :: string
  bk_Prefix :: string

record StorageBackend =
  sb_CredentialName :: string
  sb_Local :: "string option"
  sb_S3 :: "BucketSpec option"
  sb_GCS :: "BucketSpec option"
  sb_Azure :: "BucketSpec option"
  sb_Swift :: "BucketSpec option"
  sb_Postgres :: "PostgresSpec option"

text \<open>\<^verbatim>\<open>Local\<close> is its path, and the four specs of object storage share a record.\<close>

record PharmerConfig =
  pc_Context :: string
  pc_Credentials :: "Credential list"
  pc_Store :: StorageBackend

definition GetStoreType :: "PharmerConfig \<Rightarrow> string" where
  "GetStoreType pc =
     (if sb_Local (pc_Store pc) \<noteq> None then ''Local''
      else if sb_S3 (pc_Store pc) \<noteq> None then ''S3''
      else if sb_GCS (pc_Store pc) \<noteq> None then ''GCS''
      else if sb_Azure (pc_Store pc) \<noteq> None then ''Azure''
      else if sb_Swift (pc_Store pc) \<noteq> None then ''OpenStack Swift''
      else if sb_Postgres (pc_Store pc) \<noteq> None then ''Postgres''
      else ''<Unknown>'')"

type_synonym 'i factory = "PharmerConfig option \<Rightarrow> 'i res"

definition RegisterProvider :: "string \<Rightarrow> 'i factory \<Rightarrow> (string \<rightharpoonup> 'i factory) \<Rightarrow> (string \<rightharpoonup> 'i factory) res" where
  "RegisterProvider name f providers =
     (if providers name \<noteq> None then Inl (Panic (''Cloud provider \"'' @ name @ ''\" was registered twice''))
      else Inr (providers(name \<mapsto> f)))"

definition getProvider :: "(string \<rightharpoonup> 'i factory) \<Rightarrow> string \<Rightarrow> 'i factory" where
  "getProvider providers name cfg = (case providers name of
     None \<Rightarrow> Inl (Err (''provider '' @ name @ '' not registered''))
   | Some f \<Rightarrow> f cfg)"

definition NewStoreInterface :: "(string \<rightharpoonup> 'i factory) \<Rightarrow> 'i factory" where
  "NewStoreInterface providers cfg =
     (let storeType = (case cfg of
          None \<Rightarrow> ''fake''
        | Some c \<Rightarrow> if sb_Postgres (pc_Store c) \<noteq> None then ''xorm'' else ''vfs'')
      in getProvider providers storeType cfg)"

definition NewStoreProvider :: "(string \<rightharpoonup> 'i factory) \<Rightarrow> 'i factory" where
  "NewStoreProvider providers cfg = NewStoreInterface providers cfg"

text \<open>
  The registrations of the three providers at start-up, with what opens a file store and a
  database as parameters: the file store needs a local path, the database a Postgres section, and
  the in-memory store nothing.
\<close>

definition vfs_factory :: "(string \<Rightarrow> 'i res) \<Rightarrow> 'i factory" where
  "vfs_factory open cfg = (case cfg of
     None \<Rightarrow> Inl (Panic ''nil pointer dereference'')
   | Some c \<Rightarrow> (case sb_Local (pc_Store c) of None \<Rightarrow> Inl (Err ''missing store configuration'') | Some path \<Rightarrow> open path))"

definition xorm_factory :: "(PostgresSpec \<Rightarrow> 'i res) \<Rightarrow> 'i factory" where
  "xorm_factory connect cfg = (case cfg of
     None \<Rightarrow> Inl (Panic ''nil pointer dereference'')
   | Some c \<Rightarrow> (case sb_Postgres (pc_Store c) of None \<Rightarrow> Inl (Err ''missing store configuration'') | Some pg \<Rightarrow> connect pg))"

definition fake_factory :: "'i \<Rightarrow> 'i factory" where
  "fake_factory new cfg = Inr new"

fun register_all :: "(string \<times> 'i factory) list \<Rightarrow> (string \<rightharpoonup> 'i factory) \<Rightarrow> (string \<rightharpoonup> 'i factory) res" where
  "register_all [] providers = Inr providers"
| "register_all ((name, f) # rest) providers = rbind (RegisterProvider name f providers) (register_all rest)"

definition store_registrations :: "(string \<Rightarrow> 'i res) \<Rightarrow> (PostgresSpec \<Rightarrow> 'i res) \<Rightarrow> 'i \<Rightarrow> (string \<times> 'i factory) list" where
  "store_registrations open connect new = [(''fake'', fake_factory new), (''vfs'', vfs_factory open), (''xorm'', xorm_factory connect)]"

lemma register_all_ok:
  "distinct (map fst gs) \<Longrightarrow> (\<And>n. n \<in> set (map fst gs) \<Longrightarrow> providers n = None) \<Longrightarrow>
    register_all gs providers = Inr (providers ++ map_of gs)"
proof (induction gs arbitrary: providers)
  case (Cons p gs)
  obtain n f where p: "p = (n, f)" by (cases p)
  have "register_all gs (providers(n \<mapsto> f)) = Inr (providers(n \<mapsto> f) ++ map_of gs)"
    using Cons.prems by (intro Cons.IH) (auto simp: p)
  moreover have "providers(n \<mapsto> f) ++ map_of gs = providers ++ map_of (p # gs)"
  proof -
    have "map_of gs n = None" using Cons.prems(1) by (simp add: p map_of_eq_None_iff)
    then show ?thesis by (auto simp: p fun_eq_iff map_add_def split: option.split)
  qed
  ultimately have "register_all gs (providers(n \<mapsto> f)) = Inr (providers ++ map_of (p # gs))" by (simp only:)
  then show ?case using Cons.prems(2) [of n] by (simp add: p RegisterProvider_def del: map_of.simps)
qed simp

lemma registered: "register_all (store_registrations open connect new) Map.empty =
    Inr (map_of (store_registrations open connect new))"
  by (subst register_all_ok) (auto simp: store_registrations_def)

text \<open>The store of a configuration: none selects the in-memory store; a Postgres section selects the database, even
  beside a local path, which \<^verbatim>\<open>GetStoreType\<close> reports; otherwise the local path is opened, and a configuration with
  none of the two is an error, whatever else it has.  The order of the registrations does not matter.\<close>

lemma store_selected:
  assumes "mset regs = mset (store_registrations open connect new)" "register_all regs Map.empty = Inr providers"
  shows "NewStoreProvider providers None = Inr new \<and>
    (sb_Postgres (pc_Store c) = Some pg \<longrightarrow> NewStoreProvider providers (Some c) = connect pg) \<and>
    (sb_Postgres (pc_Store c) = None \<longrightarrow> sb_Local (pc_Store c) = Some path \<longrightarrow> NewStoreProvider providers (Some c) = open path) \<and>
    (sb_Postgres (pc_Store c) = None \<longrightarrow> sb_Local (pc_Store c) = None \<longrightarrow>
      NewStoreProvider providers (Some c) = Inl (Err ''missing store configuration''))"
proof -
  let ?fs = "store_registrations open connect new"
  have same: "set regs = set ?fs" using assms(1) by (metis set_mset_mset)
  have "mset (map fst regs) = mset (map fst ?fs)" using assms(1) by (metis mset_map)
  moreover have "distinct (map fst ?fs)" by (simp add: store_registrations_def)
  ultimately have d: "distinct (map fst regs)" by (metis mset_eq_imp_distinct_iff)
  then have "providers = map_of regs" using assms(2) register_all_ok [OF d, of Map.empty] by simp
  then have p: "providers n = map_of ?fs n" for n
    using map_of_inject_set [of regs ?fs] d \<open>distinct (map fst ?fs)\<close> same by metis
  show ?thesis
    by (auto simp: NewStoreProvider_def NewStoreInterface_def getProvider_def p store_registrations_def Let_def
        fake_factory_def vfs_factory_def xorm_factory_def)
qed

section \<open>Files and memory\<close>

text \<open>The encoding gives back the objects of a call.\<close>

fun op_faithful :: "('a \<Rightarrow> 'a) \<Rightarrow> ('a \<Rightarrow> 'a option) \<Rightarrow> 'a store_op \<Rightarrow> bool" where
  "op_faithful stamp stored (OpCreate x) = (stored x = Some (stamp x))"
| "op_faithful stamp stored (OpUpdate x) = (stored x = Some (stamp x))"
| "op_faithful stamp stored _ = True"

lemma spec_faithful:
  "op_faithful stamp stored a \<Longrightarrow> spec_op nm stamp (\<lambda>x. the (stored x)) a m = spec_op nm stamp stamp a m"
  by (cases a) (simp_all split: option.split)

lemma spec_seq_faithful:
  "list_all (op_faithful stamp stored) ops \<Longrightarrow>
    run_seq (spec_op nm stamp (\<lambda>x. the (stored x))) ops m = run_seq (spec_op nm stamp stamp) ops m"
  by (induction ops arbitrary: m) (simp_all add: spec_faithful split: prod.split)

lemma op_ok_mono: "op_ok nm legal stored a \<Longrightarrow> op_ok nm legal (\<lambda>x. Some (stamp x)) a"
  by (cases a) simp_all

text \<open>What a caller sees that changes the object after \<^verbatim>\<open>Create\<close>: the file holds what was encoded, the map of the in-memory
  store the caller's own object.\<close>

lemma shared_in_memory:
  assumes "c_Name x \<noteq> ''''"
  shows "fst (bindp (new_object x) (\<lambda>p. bindp (fake_clusters_Create (Some p)) (\<lambda>_. bindp (assign_at p f) (\<lambda>_.
      read_result (fake_clusters_Get (c_Name x))))) (fks_clusters FakeStore_New)) = Inr (f (assign_Cluster x))"
  using assms by (simp add: fake_clusters_Create_def fake_clusters_Get_def read_result_def prog_run FakeStore_New_def empty_container_def
      with_object_def)

lemma copied_to_file:
  assumes "clusters_good J s st" "json_view J (clusters_dir s) st = Map.empty" "legal_name (c_Name x)"
    and "stored_as J assign_Cluster x = Some (assign_Cluster x)"
  shows "fst (bindp (clusterFileStore_Create J s (Some x)) (\<lambda>_. clusterFileStore_Get J s (c_Name x)) st) = Inr (assign_Cluster x)"
proof -
  obtain t where "clusterFileStore_Create J s (Some x) st = (Inr (assign_Cluster x), t)" "clusters_good J s t"
    and "json_view J (clusters_dir s) t = (json_view J (clusters_dir s) st)(c_Name x \<mapsto> assign_Cluster x)"
    using clusters.create_new [OF assms(1,3) _ assms(4)] assms(2) by fastforce
  then show ?thesis using clusters.get_found [of J s t "c_Name x"] assms(3) by (simp add: prog_run)
qed

text \<open>C6. The file store and the in-memory store of clusters answer every sequence of calls alike, if the encoder gives back what
  it is given and each call gets an object of its own, which is not changed afterwards.  A caller that does change an object after
  \<^verbatim>\<open>Create\<close> tells them apart: the in-memory store returns the changed object, the file store the one that was stored.\<close>

theorem stores_agree:
  assumes "clusters_good J s st" "json_view J (clusters_dir s) st = Map.empty"
    and "list_all (op_ok c_Name legal_name (stored_as J assign_Cluster)) ops"
    and "list_all (op_faithful assign_Cluster (stored_as J assign_Cluster)) ops"
  shows "fst (run_seq (run_op (clusterFileStore_Get J s) (\<lambda>x. clusterFileStore_Create J s (Some x))
          (\<lambda>x. clusterFileStore_Update J s (Some x)) (clusterFileStore_Delete s)) ops st) =
    fst (run_seq (run_op (\<lambda>n. read_result (fake_clusters_Get n)) (with_new fake_clusters_Create)
        (with_new fake_clusters_Update) fake_clusters_Delete) ops (fks_clusters FakeStore_New)) \<and>
    (\<forall>x f. legal_name (c_Name x) \<and> stored_as J assign_Cluster x = Some (assign_Cluster x) \<longrightarrow>
      fst (bindp (clusterFileStore_Create J s (Some x)) (\<lambda>_. clusterFileStore_Get J s (c_Name x)) st) = Inr (assign_Cluster x) \<and>
      fst (bindp (new_object x) (\<lambda>p. bindp (fake_clusters_Create (Some p)) (\<lambda>_. bindp (assign_at p f) (\<lambda>_.
        read_result (fake_clusters_Get (c_Name x))))) (fks_clusters FakeStore_New)) = Inr (f (assign_Cluster x)))"
proof -
  let ?spec = "run_seq (spec_op c_Name assign_Cluster assign_Cluster) ops Map.empty"
  have "fk_legal = legal_name" by (simp add: fun_eq_iff fk_legal_def legal_name_def)
  then have ok: "list_all (op_ok c_Name fk_legal (\<lambda>x. Some (assign_Cluster x))) ops"
    using assms(3) by (auto simp: list_all_iff intro: op_ok_mono)
  have "fk_good (fks_clusters FakeStore_New)" by (simp add: FakeStore_New_def good_empty)
  moreover have "fk_view fake_clusters_resourceID (fks_clusters FakeStore_New) = Map.empty"
    by (simp add: fun_eq_iff fk_view_def FakeStore_New_def empty_container_def)
  ultimately have "fst (run_seq (run_op (\<lambda>n. read_result (fake_clusters_Get n)) (with_new fake_clusters_Create)
        (with_new fake_clusters_Update) fake_clusters_Delete) ops (fks_clusters FakeStore_New)) = fst ?spec"
    using fake_clusters.run_seq_refines [OF _ ok] by fastforce
  moreover have "fst (run_seq (run_op (clusterFileStore_Get J s) (\<lambda>x. clusterFileStore_Create J s (Some x))
          (\<lambda>x. clusterFileStore_Update J s (Some x)) (clusterFileStore_Delete s)) ops st) = fst ?spec"
    using clusters.run_seq_refines [OF assms(1,3)] spec_seq_faithful [OF assms(4), of c_Name] assms(2) by fastforce
  moreover have "c_Name x \<noteq> ''''" if "legal_name (c_Name x)" for x using that by (simp add: legal_name_def)
  ultimately show ?thesis using copied_to_file [OF assms(1,2)] shared_in_memory by simp
qed

definition stamped_codec :: "Cluster codec" where
  "stamped_codec = \<lparr>marshal = (\<lambda>c. Inr (c_Name c)), unmarshal = (\<lambda>d. Inr (assign_Cluster (named_cluster d)))\<rparr>"

lemma stamped_reread: "reread stamped_codec (assign_Cluster (named_cluster n)) = Inr (assign_Cluster (named_cluster n))"
  by (simp add: stamped_codec_def reread_def)

theorem stores_agree_witness:
  "fst (run_seq (run_op (clusterFileStore_Get stamped_codec demo_store) (\<lambda>x. clusterFileStore_Create stamped_codec demo_store (Some x))
          (\<lambda>x. clusterFileStore_Update stamped_codec demo_store (Some x)) (clusterFileStore_Delete demo_store))
        [OpCreate (named_cluster ''c''), OpUpdate (named_cluster ''d''), OpGet ''c''] demo_os) =
    fst (run_seq (run_op (\<lambda>n. read_result (fake_clusters_Get n)) (with_new fake_clusters_Create)
        (with_new fake_clusters_Update) fake_clusters_Delete)
        [OpCreate (named_cluster ''c''), OpUpdate (named_cluster ''d''), OpGet ''c''] (fks_clusters FakeStore_New)) \<and>
    fst (bindp (clusterFileStore_Create stamped_codec demo_store (Some (named_cluster ''c''))) (\<lambda>_.
        clusterFileStore_Get stamped_codec demo_store ''c'') demo_os) = Inr (assign_Cluster (named_cluster ''c'')) \<and>
    fst (bindp (new_object (named_cluster ''c'')) (\<lambda>p. bindp (fake_clusters_Create (Some p)) (\<lambda>_. bindp (assign_at p (set_Phase ClusterReady)) (\<lambda>_.
        read_result (fake_clusters_Get ''c'')))) (fks_clusters FakeStore_New)) = Inr (set_Phase ClusterReady (assign_Cluster (named_cluster ''c'')))"
proof -
  have st: "stored_as stamped_codec assign_Cluster (named_cluster n) = Some (assign_Cluster (named_cluster n))" for n
    by (simp add: stored_as_def stamped_reread)
  have ops: "list_all (op_ok c_Name legal_name (stored_as stamped_codec assign_Cluster))
      [OpCreate (named_cluster ''c''), OpUpdate (named_cluster ''d''), OpGet ''c'']"
    "list_all (op_faithful assign_Cluster (stored_as stamped_codec assign_Cluster))
      [OpCreate (named_cluster ''c''), OpUpdate (named_cluster ''d''), OpGet ''c'']"
    by (simp_all add: legal_name_def st)
  have "json_view stamped_codec (clusters_dir demo_store) demo_os = Map.empty" by (simp add: fun_eq_iff demo_view)
  from stores_agree [OF demo_good this ops] show ?thesis
    using st [of "''c''"] by (auto simp: legal_name_def dest!: spec [of _ "named_cluster ''c''"] spec [of _ "set_Phase ClusterReady"])
qed

end
