(* ===== verification/Store_Xorm.thy ===== *)
theory Store_Xorm
  imports Store_Vfs
begin

text \<open>
  The database store, \<^verbatim>\<open>store/providers/xorm\<close>: one row per object, with the owner or the cluster the
  object belongs to as columns.

  The engine \<^verbatim>\<open>github.com/go-xorm/xorm\<close> is a parameter, a record of operations per table on a
  database state.  \<^verbatim>\<open>Get(bean)\<close> looks for a row that has the non-zero fields of the bean and fills
  the bean: the operation returns the row that was found.  \<^verbatim>\<open>Where(cond, args)\<close> conditions are pairs
  of a column and a value.  Time and UUIDs are parameters too.  A \<^verbatim>\<open>SecureString\<close> is its plain text:
  encryption at rest is part of the engine.
\<close>

section \<open>Rows and engine\<close>

record xCluster =
  xc_ID :: int
  xc_UUID :: string
  xc_OwnerID :: int
  xc_Name :: string
  xc_Data :: string
  xc_IsPrivate :: bool
  xc_CreatedUnix :: int
  xc_UpdatedUnix :: int
  xc_DeletedUnix :: "int option"

record xMachine =
  xm_ID :: int
  xm_Name :: string
  xm_Data :: string
  xm_ClusterID :: int
  xm_CreatedUnix :: int
  xm_UpdatedUnix :: int
  xm_DeletedUnix :: "int option"

record xCertificate =
  xt_ID :: int
  xt_Name :: string
  xt_ClusterID :: int
  xt_ClusterName :: string
  xt_UID :: string
  xt_Cert :: string
  xt_Key :: string
  xt_CreatedUnix :: int
  xt_UpdatedUnix :: int
  xt_DeletedUnix :: "int option"

record xCredential =
  xr_ID :: int
  xr_OwnerID :: int
  xr_Name :: string
  xr_UID :: string
  xr_Data :: string
  xr_CreatedUnix :: int
  xr_UpdatedUnix :: int
  xr_DeletedUnix :: "int option"

record xSSHKey =
  xs_ID :: int
  xs_Name :: string
  xs_ClusterID :: int
  xs_ClusterName :: string
  xs_UID :: string
  xs_PublicKey :: string
  xs_PrivateKey :: string
  xs_CreatedUnix :: int
  xs_UpdatedUnix :: int
  xs_DeletedUnix :: "int option"

datatype OperationState = OperationDone | OperationPending | OperationRunning

record Operation =
  op_ID :: int
  op_UserID :: int
  op_ClusterID :: int
  op_Code :: string
  op_State :: OperationState

definition zero_xCluster :: xCluster where
  "zero_xCluster = \<lparr>xc_ID = 0, xc_UUID = '''', xc_OwnerID = 0, xc_Name = '''', xc_Data = '''', xc_IsPrivate = False,
     xc_CreatedUnix = 0, xc_UpdatedUnix = 0, xc_DeletedUnix = None\<rparr>"

definition zero_xMachine :: xMachine where
  "zero_xMachine = \<lparr>xm_ID = 0, xm_Name = '''', xm_Data = '''', xm_ClusterID = 0, xm_CreatedUnix = 0, xm_UpdatedUnix = 0,
     xm_DeletedUnix = None\<rparr>"

definition zero_xCertificate :: xCertificate where
  "zero_xCertificate = \<lparr>xt_ID = 0, xt_Name = '''', xt_ClusterID = 0, xt_ClusterName = '''', xt_UID = '''', xt_Cert = '''',
     xt_Key = '''', xt_CreatedUnix = 0, xt_UpdatedUnix = 0, xt_DeletedUnix = None\<rparr>"

definition zero_xCredential :: xCredential where
  "zero_xCredential = \<lparr>xr_ID = 0, xr_OwnerID = 0, xr_Name = '''', xr_UID = '''', xr_Data = '''', xr_CreatedUnix = 0,
     xr_UpdatedUnix = 0, xr_DeletedUnix = None\<rparr>"

definition zero_xSSHKey :: xSSHKey where
  "zero_xSSHKey = \<lparr>xs_ID = 0, xs_Name = '''', xs_ClusterID = 0, xs_ClusterName = '''', xs_UID = '''', xs_PublicKey = '''',
     xs_PrivateKey = '''', xs_CreatedUnix = 0, xs_UpdatedUnix = 0, xs_DeletedUnix = None\<rparr>"

datatype sql_value = SqlInt int | SqlText string

type_synonym cond = "string \<times> sql_value"

record ('d, 'r) table =
  x_Get :: "'r \<Rightarrow> ('d, 'r option) prog"
  x_Find :: "cond list \<Rightarrow> ('d, 'r list) prog"
  x_Insert :: "'r \<Rightarrow> ('d, unit) prog"
  x_Update :: "cond list \<Rightarrow> 'r \<Rightarrow> ('d, unit) prog"
  x_Delete :: "'r \<Rightarrow> ('d, unit) prog"

record 'd xorm_engine =
  x_clusters :: "('d, xCluster) table"
  x_machines :: "('d, xMachine) table"
  x_certificates :: "('d, xCertificate) table"
  x_credentials :: "('d, xCredential) table"
  x_sshkeys :: "('d, xSSHKey) table"
  x_operations :: "('d, Operation) table"
  x_Delete_bare :: "('d, unit) prog"
  x_Now :: "('d, time) prog"
  x_NewUUID :: "('d, string) prog"

definition unix_seconds :: "time \<Rightarrow> int" where
  "unix_seconds t = t div 1000000000"

text \<open>\<^verbatim>\<open>errors.Errorf("reason: %v", err)\<close>, in \<^verbatim>\<open>operation.go\<close> without the colon.\<close>

fun reason_only :: "gerror \<Rightarrow> gerror" where
  "reason_only (Err e) = Err (''reason: '' @ e)"
| "reason_only (Panic p) = Panic p"

fun reason_bare :: "gerror \<Rightarrow> gerror" where
  "reason_bare (Err e) = Err (''reason '' @ e)"
| "reason_bare (Panic p) = Panic p"

definition map_err :: "(gerror \<Rightarrow> gerror) \<Rightarrow> ('d, 'a) prog \<Rightarrow> ('d, 'a) prog" where
  "map_err f m = (\<lambda>s. case m s of (Inl e, s') \<Rightarrow> (Inl (f e), s') | (Inr x, s') \<Rightarrow> (Inr x, s'))"

definition with_reason :: "('d, 'a) prog \<Rightarrow> ('d, 'a) prog" where
  "with_reason = map_err reason_only"

section \<open>The store (store.go)\<close>

record 'd XormStore =
  xo_engine :: "'d xorm_engine"
  xo_owner :: int

record 'd xorm_scope = "'d XormStore" +
  xo_cluster :: string

definition XormStore_New :: "'d xorm_engine \<Rightarrow> 'd XormStore" where
  "XormStore_New e = \<lparr>xo_engine = e, xo_owner = 0\<rparr>"

definition XormStore_Owner :: "'d XormStore \<Rightarrow> int \<Rightarrow> 'd XormStore" where
  "XormStore_Owner s i = s\<lparr>xo_owner := i\<rparr>"

text \<open>The accessors of the stores of one cluster; the one for machines does not hand on the owner.\<close>

definition XormStore_Machine :: "'d XormStore \<Rightarrow> string \<Rightarrow> 'd xorm_scope" where
  "XormStore_Machine s cl = \<lparr>xo_engine = xo_engine s, xo_owner = 0, xo_cluster = cl\<rparr>"

definition XormStore_Certificates :: "'d XormStore \<Rightarrow> string \<Rightarrow> 'd xorm_scope" where
  "XormStore_Certificates s cl = \<lparr>xo_engine = xo_engine s, xo_owner = xo_owner s, xo_cluster = cl\<rparr>"

definition XormStore_SSHKeys :: "'d XormStore \<Rightarrow> string \<Rightarrow> 'd xorm_scope" where
  "XormStore_SSHKeys s cl = \<lparr>xo_engine = xo_engine s, xo_owner = xo_owner s, xo_cluster = cl\<rparr>"

section \<open>Clusters (cluster.go)\<close>

fun unmarshal_all :: "'a codec \<Rightarrow> string list \<Rightarrow> 'a list res" where
  "unmarshal_all J [] = Inr []"
| "unmarshal_all J (d # ds) = rbind (unmarshal J d) (\<lambda>x. rbind (unmarshal_all J ds) (\<lambda>xs. Inr (x # xs)))"

definition xorm_clusters_List :: "Cluster codec \<Rightarrow> ('d, 'z) XormStore_scheme \<Rightarrow> ('d, Cluster list) prog" where
  "xorm_clusters_List J s =
     bindp (x_Find (x_clusters (xo_engine s)) [(''owner_id'', SqlInt (xo_owner s))]) (\<lambda>rows.
     liftr (unmarshal_all J (map xc_Data rows)))"

text \<open>Owner -1 is the API server, which asks by row number.\<close>

definition xorm_clusters_Get :: "Cluster codec \<Rightarrow> ('d, 'z) XormStore_scheme \<Rightarrow> string \<Rightarrow> ('d, Cluster) prog" where
  "xorm_clusters_Get J s name =
     (if name = '''' then fail (Err ''missing cluster name'')
      else bindp (liftr (if xo_owner s = -1
                         then (case atoi name of
                                 None \<Rightarrow> Inl (Err (''strconv.Atoi: parsing '' @ name @ '': invalid syntax''))
                               | Some i \<Rightarrow> Inr (zero_xCluster\<lparr>xc_ID := i\<rparr>))
                         else Inr (zero_xCluster\<lparr>xc_Name := name, xc_OwnerID := xo_owner s\<rparr>))) (\<lambda>bean.
      bindp (with_reason (x_Get (x_clusters (xo_engine s)) bean)) (\<lambda>found. case found of
        None \<Rightarrow> fail (Err (''cluster `'' @ name @ ''` does not exists''))
      | Some row \<Rightarrow> liftr (unmarshal J (xc_Data row)))))"

definition stamp_created_c :: "time \<Rightarrow> Cluster \<Rightarrow> Cluster" where
  "stamp_created_c t c = c\<lparr>c_ObjectMeta := (c_ObjectMeta c)\<lparr>CreationTimestamp := t\<rparr>\<rparr>"

definition xorm_clusters_Create :: "Cluster codec \<Rightarrow> ('d, 'z) XormStore_scheme \<Rightarrow> Cluster option \<Rightarrow> ('d, Cluster) prog" where
  "xorm_clusters_Create J s oobj = (case oobj of
     None \<Rightarrow> fail (Err ''missing cluster'')
   | Some obj0 \<Rightarrow>
       if c_Name obj0 = '''' then fail (Err ''missing cluster name'')
       else bindp (with_reason (x_Get (x_clusters (xo_engine s)) (zero_xCluster\<lparr>xc_Name := c_Name obj0, xc_OwnerID := xo_owner s\<rparr>))) (\<lambda>found.
         if found \<noteq> None then fail (Err (''cluster `'' @ c_Name obj0 @ ''` already exists''))
         else bindp (x_Now (xo_engine s)) (\<lambda>now.
           let obj = stamp_created_c now (assign_Cluster obj0) in
           bindp (liftr (marshal J obj)) (\<lambda>data.
           bindp (x_Insert (x_clusters (xo_engine s)) (zero_xCluster\<lparr>xc_OwnerID := xo_owner s, xc_Name := c_Name obj, xc_Data := data,
             xc_CreatedUnix := unix_seconds now\<rparr>)) (\<lambda>_. ret obj)))))"

definition xorm_clusters_Update :: "Cluster codec \<Rightarrow> ('d, 'z) XormStore_scheme \<Rightarrow> Cluster option \<Rightarrow> ('d, Cluster) prog" where
  "xorm_clusters_Update J s oobj = (case oobj of
     None \<Rightarrow> fail (Err ''missing cluster'')
   | Some obj0 \<Rightarrow>
       if c_Name obj0 = '''' then fail (Err ''missing cluster name'')
       else let obj = assign_Cluster obj0 in
         bindp (with_reason (x_Get (x_clusters (xo_engine s)) (zero_xCluster\<lparr>xc_Name := c_Name obj, xc_OwnerID := xo_owner s\<rparr>))) (\<lambda>found. case found of
           None \<Rightarrow> fail (Err (''cluster `'' @ c_Name obj @ ''` does not exists''))
         | Some row \<Rightarrow> bindp (liftr (marshal J obj)) (\<lambda>data.
             bindp (x_Update (x_clusters (xo_engine s)) [(''name'', SqlText (c_Name obj))] (row\<lparr>xc_Data := data\<rparr>)) (\<lambda>_. ret obj))))"

definition xorm_clusters_Delete :: "('d, 'z) XormStore_scheme \<Rightarrow> string \<Rightarrow> ('d, unit) prog" where
  "xorm_clusters_Delete s name =
     (if name = '''' then fail (Err ''missing cluster name'')
      else x_Delete (x_clusters (xo_engine s)) (zero_xCluster\<lparr>xc_Name := name, xc_OwnerID := xo_owner s\<rparr>))"

definition xorm_clusters_UpdateStatus :: "Cluster codec \<Rightarrow> ('d, 'z) XormStore_scheme \<Rightarrow> Cluster option \<Rightarrow> ('d, Cluster) prog" where
  "xorm_clusters_UpdateStatus J s oobj = (case oobj of
     None \<Rightarrow> fail (Err ''missing cluster'')
   | Some obj0 \<Rightarrow>
       if c_Name obj0 = '''' then fail (Err ''missing cluster name'')
       else let obj = assign_Cluster obj0 in
         bindp (reason (''cluster `'' @ c_Name obj @ ''` does not exist.'')
           (x_Get (x_clusters (xo_engine s)) (zero_xCluster\<lparr>xc_Name := c_Name obj, xc_OwnerID := xo_owner s\<rparr>))) (\<lambda>found. case found of
           None \<Rightarrow> fail (Err (''cluster `'' @ c_Name obj @ ''` does not exist''))
         | Some row \<Rightarrow> bindp (liftr (unmarshal J (xc_Data row))) (\<lambda>existing0.
             let existing = existing0\<lparr>Status := Status obj\<rparr> in
             bindp (liftr (marshal J existing)) (\<lambda>data.
             bindp (x_Update (x_clusters (xo_engine s)) [(''name'', SqlText (c_Name obj)), (''owner_id'', SqlInt (xo_owner s))]
               (row\<lparr>xc_Data := data\<rparr>)) (\<lambda>_. ret existing)))))"

definition xorm_clusters_UpdateUUID :: "('d, 'z) XormStore_scheme \<Rightarrow> Cluster option \<Rightarrow> string \<Rightarrow> ('d, Cluster) prog" where
  "xorm_clusters_UpdateUUID s oobj uuid = (case oobj of
     None \<Rightarrow> fail (Err ''missing cluster'')
   | Some obj0 \<Rightarrow>
       if c_Name obj0 = '''' then fail (Err ''missing cluster name'')
       else let obj = assign_Cluster obj0 in
         bindp (with_reason (x_Get (x_clusters (xo_engine s)) (zero_xCluster\<lparr>xc_Name := c_Name obj, xc_OwnerID := xo_owner s\<rparr>))) (\<lambda>found. case found of
           None \<Rightarrow> fail (Err (''cluster `'' @ c_Name obj @ ''` does not exists''))
         | Some row \<Rightarrow>
             bindp (x_Update (x_clusters (xo_engine s)) [(''name'', SqlText (c_Name obj))] (row\<lparr>xc_UUID := uuid\<rparr>)) (\<lambda>_. ret obj)))"

section \<open>The cluster of a scope (getCluster)\<close>

text \<open>\<^verbatim>\<open>machine.go\<close>, \<^verbatim>\<open>ssh.go\<close> and \<^verbatim>\<open>certificate.go\<close> have this method in the same words.\<close>

definition xorm_getCluster :: "'d xorm_scope \<Rightarrow> ('d, xCluster) prog" where
  "xorm_getCluster s =
     bindp (x_Get (x_clusters (xo_engine s)) (zero_xCluster\<lparr>xc_Name := xo_cluster s, xc_OwnerID := xo_owner s\<rparr>)) (\<lambda>found. case found of
       None \<Rightarrow> fail (Err ''cluster not exists'') | Some row \<Rightarrow> ret row)"

section \<open>Machines (machine.go)\<close>

definition machine_bean :: "string \<Rightarrow> xCluster \<Rightarrow> xMachine" where
  "machine_bean name c = zero_xMachine\<lparr>xm_Name := name, xm_ClusterID := xc_ID c\<rparr>"

definition machine_where :: "string \<Rightarrow> xCluster \<Rightarrow> cond list" where
  "machine_where name c = [(''name'', SqlText name), (''cluster_id'', SqlInt (xc_ID c))]"

definition xorm_machines_List :: "Machine codec \<Rightarrow> 'd xorm_scope \<Rightarrow> ('d, Machine list) prog" where
  "xorm_machines_List J s =
     bindp (xorm_getCluster s) (\<lambda>c.
     bindp (x_Find (x_machines (xo_engine s)) [(''cluster_id'', SqlInt (xc_ID c))]) (\<lambda>rows.
     liftr (unmarshal_all J (map xm_Data rows))))"

definition xorm_machines_Get :: "Machine codec \<Rightarrow> 'd xorm_scope \<Rightarrow> string \<Rightarrow> ('d, Machine) prog" where
  "xorm_machines_Get J s name =
     (if xo_cluster s = '''' then fail (Err ''missing cluster name'')
      else if name = '''' then fail (Err ''missing machine name'')
      else bindp (xorm_getCluster s) (\<lambda>c.
        bindp (x_Get (x_machines (xo_engine s)) (machine_bean name c)) (\<lambda>found. case found of
          None \<Rightarrow> fail (Err (''credential `'' @ name @ ''` already exists''))
        | Some row \<Rightarrow> liftr (unmarshal J (xm_Data row)))))"

definition stamp_created_m :: "time \<Rightarrow> Machine \<Rightarrow> Machine" where
  "stamp_created_m t m = m\<lparr>m_ObjectMeta := (m_ObjectMeta m)\<lparr>CreationTimestamp := t\<rparr>\<rparr>"

definition xorm_machines_Create :: "Machine codec \<Rightarrow> 'd xorm_scope \<Rightarrow> Machine option \<Rightarrow> ('d, Machine) prog" where
  "xorm_machines_Create J s oobj =
     (if xo_cluster s = '''' then fail (Err ''missing cluster name'')
      else case oobj of
        None \<Rightarrow> fail (Err ''missing machine'')
      | Some obj0 \<Rightarrow>
          if m_Name obj0 = '''' then fail (Err ''missing machine name'')
          else bindp (xorm_getCluster s) (\<lambda>c.
            bindp (with_reason (x_Get (x_machines (xo_engine s)) (machine_bean (m_Name obj0) c))) (\<lambda>found.
            if found \<noteq> None then fail (Err (''machine `'' @ m_Name obj0 @ ''` already exists''))
            else bindp (x_Now (xo_engine s)) (\<lambda>now.
              let obj = stamp_created_m now (assign_Machine obj0) in
              bindp (liftr (marshal J obj)) (\<lambda>data.
              bindp (x_Insert (x_machines (xo_engine s)) (zero_xMachine\<lparr>xm_Name := m_Name obj, xm_Data := data, xm_ClusterID := xc_ID c,
                xm_CreatedUnix := unix_seconds now\<rparr>)) (\<lambda>_. ret obj))))))"

definition xorm_machines_Update :: "Machine codec \<Rightarrow> 'd xorm_scope \<Rightarrow> Machine option \<Rightarrow> ('d, Machine) prog" where
  "xorm_machines_Update J s oobj =
     (if xo_cluster s = '''' then fail (Err ''missing cluster name'')
      else case oobj of
        None \<Rightarrow> fail (Err ''missing machine'')
      | Some obj0 \<Rightarrow>
          if m_Name obj0 = '''' then fail (Err ''missing machine name'')
          else bindp (xorm_getCluster s) (\<lambda>c.
            let obj = assign_Machine obj0 in
            bindp (with_reason (x_Get (x_machines (xo_engine s)) (machine_bean (m_Name obj) c))) (\<lambda>found. case found of
              None \<Rightarrow> fail (Err (''machine `'' @ m_Name obj @ ''` not found''))
            | Some row \<Rightarrow> bindp (liftr (marshal J obj)) (\<lambda>data.
                bindp (x_Update (x_machines (xo_engine s)) (machine_where (m_Name obj) c) (row\<lparr>xm_Data := data\<rparr>)) (\<lambda>_. ret obj)))))"

definition xorm_machines_Delete :: "'d xorm_scope \<Rightarrow> string \<Rightarrow> ('d, unit) prog" where
  "xorm_machines_Delete s name =
     (if xo_cluster s = '''' then fail (Err ''missing cluster name'')
      else if name = '''' then fail (Err ''missing machine name'')
      else bindp (xorm_getCluster s) (\<lambda>c. x_Delete (x_machines (xo_engine s)) (machine_bean name c)))"

definition xorm_machines_UpdateStatus :: "Machine codec \<Rightarrow> 'd xorm_scope \<Rightarrow> Machine option \<Rightarrow> ('d, Machine) prog" where
  "xorm_machines_UpdateStatus J s oobj =
     (if xo_cluster s = '''' then fail (Err ''missing cluster name'')
      else case oobj of
        None \<Rightarrow> fail (Err ''missing machine'')
      | Some obj0 \<Rightarrow>
          if m_Name obj0 = '''' then fail (Err ''missing machine name'')
          else bindp (xorm_getCluster s) (\<lambda>c.
            let obj = assign_Machine obj0 in
            bindp (reason (''Machine `'' @ m_Name obj @ ''` does not exist.'')
              (x_Get (x_machines (xo_engine s)) (machine_bean (m_Name obj) c))) (\<lambda>found. case found of
              None \<Rightarrow> fail (Err (''Machine `'' @ m_Name obj @ ''` does not exist''))
            | Some row \<Rightarrow> bindp (liftr (unmarshal J (xm_Data row))) (\<lambda>existing0.
                let existing = existing0\<lparr>m_Status := m_Status obj\<rparr> in
                bindp (liftr (marshal J existing)) (\<lambda>data.
                bindp (x_Update (x_machines (xo_engine s)) (machine_where (m_Name obj) c) (row\<lparr>xm_Data := data\<rparr>)) (\<lambda>_. ret existing))))))"

section \<open>Machine sets (machineset.go)\<close>

text \<open>A stub: the methods return \<^verbatim>\<open>nil, nil\<close>, except for \<^verbatim>\<open>Delete\<close>, which asks the engine to delete a
  struct that is no table.\<close>

definition xorm_machinesets_List :: "('d, MachineSet list) prog" where
  "xorm_machinesets_List = ret []"

definition xorm_machinesets_Get :: "string \<Rightarrow> ('d, MachineSet option) prog" where
  "xorm_machinesets_Get name = ret None"

definition xorm_machinesets_Create :: "MachineSet option \<Rightarrow> ('d, MachineSet option) prog" where
  "xorm_machinesets_Create obj = ret None"

definition xorm_machinesets_Update :: "MachineSet option \<Rightarrow> ('d, MachineSet option) prog" where
  "xorm_machinesets_Update obj = ret None"

definition xorm_machinesets_Delete :: "'d xorm_engine \<Rightarrow> string \<Rightarrow> string \<Rightarrow> ('d, unit) prog" where
  "xorm_machinesets_Delete e cl name =
     (if cl = '''' then fail (Err ''missing cluster name'')
      else if name = '''' then fail (Err ''missing node group name'')
      else x_Delete_bare e)"

definition xorm_machinesets_UpdateStatus :: "MachineSet option \<Rightarrow> ('d, MachineSet option) prog" where
  "xorm_machinesets_UpdateStatus obj = ret None"

section \<open>Credentials (credential.go)\<close>

definition xorm_credentials_List :: "Credential codec \<Rightarrow> ('d, 'z) XormStore_scheme \<Rightarrow> ('d, Credential list) prog" where
  "xorm_credentials_List J s =
     bindp (x_Find (x_credentials (xo_engine s)) [(''ownerId'', SqlInt (xo_owner s))]) (\<lambda>rows.
     liftr (unmarshal_all J (map xr_Data rows)))"

definition xorm_credentials_Get :: "Credential codec \<Rightarrow> ('d, 'z) XormStore_scheme \<Rightarrow> string \<Rightarrow> ('d, Credential) prog" where
  "xorm_credentials_Get J s name =
     (if name = '''' then fail (Err ''missing credential name'')
      else bindp (liftr (if xo_owner s = -1
                         then (case atoi name of
                                 None \<Rightarrow> Inl (Err (''strconv.Atoi: parsing '' @ name @ '': invalid syntax''))
                               | Some i \<Rightarrow> Inr (zero_xCredential\<lparr>xr_ID := i\<rparr>))
                         else Inr (zero_xCredential\<lparr>xr_Name := name, xr_OwnerID := xo_owner s\<rparr>))) (\<lambda>bean.
      bindp (with_reason (x_Get (x_credentials (xo_engine s)) bean)) (\<lambda>found. case found of
        None \<Rightarrow> fail (Err (''credential '' @ name @ '' does not exists''))
      | Some row \<Rightarrow> liftr (unmarshal J (xr_Data row)))))"

definition stamp_created_r :: "time \<Rightarrow> Credential \<Rightarrow> Credential" where
  "stamp_created_r t r = r\<lparr>cr_ObjectMeta := (cr_ObjectMeta r)\<lparr>CreationTimestamp := t\<rparr>\<rparr>"

definition xorm_credentials_Create :: "Credential codec \<Rightarrow> ('d, 'z) XormStore_scheme \<Rightarrow> Credential option \<Rightarrow> ('d, Credential) prog" where
  "xorm_credentials_Create J s oobj = (case oobj of
     None \<Rightarrow> fail (Err ''missing credential'')
   | Some obj0 \<Rightarrow>
       if cr_Name obj0 = '''' then fail (Err ''missing credential name'')
       else bindp (with_reason (x_Get (x_credentials (xo_engine s)) (zero_xCredential\<lparr>xr_Name := cr_Name obj0, xr_OwnerID := xo_owner s\<rparr>))) (\<lambda>found.
         if found \<noteq> None then fail (Err (''credential `'' @ cr_Name obj0 @ ''` already exists''))
         else bindp (x_Now (xo_engine s)) (\<lambda>now.
           let obj = stamp_created_r now (assign_Credential obj0) in
           bindp (liftr (marshal J obj)) (\<lambda>data.
           bindp (x_NewUUID (xo_engine s)) (\<lambda>uid.
           bindp (x_Insert (x_credentials (xo_engine s)) (zero_xCredential\<lparr>xr_OwnerID := xo_owner s, xr_Name := cr_Name obj, xr_UID := uid,
             xr_Data := data, xr_CreatedUnix := unix_seconds now\<rparr>)) (\<lambda>_. ret obj))))))"

definition xorm_credentials_Update :: "Credential codec \<Rightarrow> ('d, 'z) XormStore_scheme \<Rightarrow> Credential option \<Rightarrow> ('d, Credential) prog" where
  "xorm_credentials_Update J s oobj = (case oobj of
     None \<Rightarrow> fail (Err ''missing credential'')
   | Some obj0 \<Rightarrow>
       if cr_Name obj0 = '''' then fail (Err ''missing credential name'')
       else let obj = assign_Credential obj0 in
         bindp (x_Get (x_credentials (xo_engine s)) (zero_xCredential\<lparr>xr_Name := cr_Name obj, xr_OwnerID := xo_owner s\<rparr>)) (\<lambda>found. case found of
           None \<Rightarrow> fail (Err (''credential `'' @ cr_Name obj @ ''` does not exist. Reason: <nil>''))
         | Some row \<Rightarrow> bindp (liftr (marshal J obj)) (\<lambda>data.
             bindp (x_Update (x_credentials (xo_engine s)) [(''name'', SqlText (xr_Name row)), (''ownerId'', SqlInt (xo_owner s))]
               (row\<lparr>xr_Data := data\<rparr>)) (\<lambda>_. ret obj))))"

definition xorm_credentials_Delete :: "('d, 'z) XormStore_scheme \<Rightarrow> string \<Rightarrow> ('d, unit) prog" where
  "xorm_credentials_Delete s name =
     (if name = '''' then fail (Err ''missing credential name'')
      else x_Delete (x_credentials (xo_engine s)) (zero_xCredential\<lparr>xr_Name := name, xr_OwnerID := xo_owner s\<rparr>))"

section \<open>SSH keys (ssh.go)\<close>

definition ssh_bean :: "string \<Rightarrow> xCluster \<Rightarrow> xSSHKey" where
  "ssh_bean name c = zero_xSSHKey\<lparr>xs_Name := name, xs_ClusterName := xc_Name c, xs_ClusterID := xc_ID c\<rparr>"

text \<open>An error of the engine comes with \<^verbatim>\<open>found = false\<close>, which \<^verbatim>\<open>Get\<close> looks at first.\<close>

definition xorm_ssh_Get :: "'d xorm_scope \<Rightarrow> string \<Rightarrow> ('d, bytes \<times> bytes) prog" where
  "xorm_ssh_Get s name =
     (if xo_cluster s = '''' then fail (Err ''missing cluster name'')
      else if name = '''' then fail (Err ''missing ssh key name'')
      else bindp (xorm_getCluster s) (\<lambda>c.
        bindp (attempt (x_Get (x_sshkeys (xo_engine s)) (ssh_bean name c))) (\<lambda>r. case r of
          Inr (Some row) \<Rightarrow> ret (xs_PublicKey row, xs_PrivateKey row)
        | _ \<Rightarrow> fail (Err (''ssh key `'' @ name @ ''` for cluster `'' @ xo_cluster s @ ''` not found'')))))"

definition xorm_ssh_Create :: "'d xorm_scope \<Rightarrow> string \<Rightarrow> bytes \<Rightarrow> bytes \<Rightarrow> ('d, unit) prog" where
  "xorm_ssh_Create s name pubKey privKey =
     (if xo_cluster s = '''' then fail (Err ''missing cluster name'')
      else if pubKey = [] then fail (Err ''empty ssh public key'')
      else if privKey = [] then fail (Err ''empty ssh private key'')
      else bindp (xorm_getCluster s) (\<lambda>c.
        bindp (x_Get (x_sshkeys (xo_engine s)) (ssh_bean name c)) (\<lambda>found.
        if found \<noteq> None then fail (Err (''ssh key `'' @ name @ ''` for cluster `'' @ xo_cluster s @ ''` already exists''))
        else bindp (x_NewUUID (xo_engine s)) (\<lambda>uid.
          bindp (x_Now (xo_engine s)) (\<lambda>now.
          x_Insert (x_sshkeys (xo_engine s)) ((ssh_bean name c)\<lparr>xs_UID := uid, xs_PublicKey := pubKey, xs_PrivateKey := privKey,
            xs_CreatedUnix := unix_seconds now\<rparr>))))))"

definition xorm_ssh_Delete :: "'d xorm_scope \<Rightarrow> string \<Rightarrow> ('d, unit) prog" where
  "xorm_ssh_Delete s name =
     (if xo_cluster s = '''' then fail (Err ''missing cluster name'')
      else if name = '''' then fail (Err ''missing ssh key name'')
      else bindp (xorm_getCluster s) (\<lambda>c. x_Delete (x_sshkeys (xo_engine s)) (ssh_bean name c)))"

section \<open>Certificates (certificate.go)\<close>

definition certificate_bean :: "string \<Rightarrow> xCluster \<Rightarrow> xCertificate" where
  "certificate_bean name c = zero_xCertificate\<lparr>xt_Name := name, xt_ClusterName := xc_Name c, xt_ClusterID := xc_ID c\<rparr>"

definition xorm_certs_Get :: "('c, 'k) pem \<Rightarrow> 'd xorm_scope \<Rightarrow> string \<Rightarrow> ('d, 'c \<times> 'k) prog" where
  "xorm_certs_Get P s name =
     (if xo_cluster s = '''' then fail (Err ''missing cluster name'')
      else if name = '''' then fail (Err ''missing certificate name'')
      else bindp (xorm_getCluster s) (\<lambda>c.
        bindp (with_reason (x_Get (x_certificates (xo_engine s)) (certificate_bean name c))) (\<lambda>found. case found of
          None \<Rightarrow> fail (Err (''certificate `'' @ name @ ''` does not exist''))
        | Some row \<Rightarrow>
            bindp (liftr (ParseCertsPEM P (xt_Cert row))) (\<lambda>crt.
            bindp (liftr (ParsePrivateKeyPEM P (xt_Key row))) (\<lambda>key.
            bindp (liftr (first_cert crt)) (\<lambda>c0.
            bindp (liftr (as_rsa key)) (\<lambda>k0. ret (c0, k0))))))))"

definition xorm_certs_Create :: "('c, 'k) pem \<Rightarrow> 'd xorm_scope \<Rightarrow> string \<Rightarrow> 'c option \<Rightarrow> 'k option \<Rightarrow> ('d, unit) prog" where
  "xorm_certs_Create P s name ocrt okey =
     (if xo_cluster s = '''' then fail (Err ''missing cluster name'')
      else case ocrt of
        None \<Rightarrow> fail (Err ''missing certificate'')
      | Some crt \<Rightarrow> (case okey of
          None \<Rightarrow> fail (Err ''missing certificate key'')
        | Some key \<Rightarrow>
            bindp (xorm_getCluster s) (\<lambda>c.
            bindp (x_Get (x_certificates (xo_engine s)) (certificate_bean name c)) (\<lambda>found.
            if found \<noteq> None then fail (Err (''certificate `'' @ name @ ''` already exists''))
            else bindp (x_NewUUID (xo_engine s)) (\<lambda>uid.
              bindp (x_Now (xo_engine s)) (\<lambda>now.
              x_Insert (x_certificates (xo_engine s)) ((certificate_bean name c)\<lparr>xt_UID := uid, xt_Cert := EncodeCertPEM P crt,
                xt_Key := EncodePrivateKeyPEM P key, xt_CreatedUnix := unix_seconds now\<rparr>)))))))"

definition xorm_certs_Delete :: "'d xorm_scope \<Rightarrow> string \<Rightarrow> ('d, unit) prog" where
  "xorm_certs_Delete s name =
     (if xo_cluster s = '''' then fail (Err ''missing cluster name'')
      else if name = '''' then fail (Err ''missing certificate name'')
      else bindp (xorm_getCluster s) (\<lambda>c. x_Delete (x_certificates (xo_engine s)) (certificate_bean name c)))"

section \<open>Operations (operation.go)\<close>

definition zero_Operation :: Operation where
  "zero_Operation = \<lparr>op_ID = 0, op_UserID = 0, op_ClusterID = 0, op_Code = '''', op_State = OperationDone\<rparr>"

definition xorm_operations_Get :: "'d xorm_engine \<Rightarrow> string \<Rightarrow> ('d, Operation) prog" where
  "xorm_operations_Get e i =
     bindp (x_Get (x_operations e) (zero_Operation\<lparr>op_Code := i\<rparr>)) (\<lambda>found. case found of
       None \<Rightarrow> fail (Err ''not found'') | Some row \<Rightarrow> ret row)"

definition xorm_operations_Update :: "'d xorm_engine \<Rightarrow> Operation option \<Rightarrow> ('d, Operation) prog" where
  "xorm_operations_Update e oobj = (case oobj of
     None \<Rightarrow> fail (Err ''missing operation'')
   | Some obj \<Rightarrow>
       bindp (map_err reason_bare (x_Get (x_operations e)
         (zero_Operation\<lparr>op_UserID := op_UserID obj, op_ClusterID := op_ClusterID obj, op_Code := op_Code obj\<rparr>))) (\<lambda>found. case found of
         None \<Rightarrow> fail (Err (''operation '' @ op_Code obj @ '' not found''))
       | Some row \<Rightarrow>
           bindp (x_Update (x_operations e) [(''id'', SqlInt (op_ID row))] (row\<lparr>op_State := op_State obj\<rparr>)) (\<lambda>_. ret obj)))"

end
