(* ===== verification/Apiserver.thy ===== *)
theory Apiserver
  imports Cloud_Core Store_Xorm
begin

text \<open>
  The API server, \<^verbatim>\<open>apiserver/\<close>: workers that take messages off a NATS streaming queue.  A message
  names an operation; \<^verbatim>\<open>Init\<close> loads it with its cluster and makes a scope for the owner of the
  operation, and the handler of the queue creates, deletes or applies the cluster.

  The queue is a parameter: its acknowledgement is an operation outside, and a message that was
  not acknowledged is delivered again.  A handler logs its errors and returns; a panic ends the
  worker.
\<close>

section \<open>Interfaces\<close>

record ('s, 'x) server =
  a_OperationId :: "bytes \<Rightarrow> string res"
  a_operation_Get :: "string \<Rightarrow> ('s, Operation) prog"
  a_operation_Update :: "Operation \<Rightarrow> ('s, Operation) prog"
  a_Owner :: "int \<Rightarrow> ('s, 'x) env"
  a_Ack :: "('x, unit) prog"

text \<open>\<^verbatim>\<open>x, err := f(); if err != nil { log; return }\<close>\<close>

definition or_return :: "('w, 'a) prog \<Rightarrow> ('a \<Rightarrow> ('w, unit) prog) \<Rightarrow> ('w, unit) prog" where
  "or_return m f = bindp (attempt m) (\<lambda>r. case r of Inl _ \<Rightarrow> ret () | Inr x \<Rightarrow> f x)"

text \<open>\<^verbatim>\<open>err = f(); if err != nil { log }\<close>\<close>

definition and_go_on :: "('w, 'a) prog \<Rightarrow> ('w, unit) prog \<Rightarrow> ('w, unit) prog" where
  "and_go_on m n = bindp (attempt m) (\<lambda>_. n)"

section \<open>Shared by the handlers (util.go, apply.go)\<close>

definition apiserver_Init :: "('s, 'x) server \<Rightarrow> bytes \<Rightarrow> (('s, 'x) world, Operation) prog" where
  "apiserver_Init A data =
     bindp (liftr (a_OperationId A data)) (\<lambda>i.
     if i = '''' then fail (Err ''operation ID can't be nil'')
     else bindp (on_store (a_operation_Get A i)) (\<lambda>obj.
       bindp (on_store (so_cluster_Get (e_store (a_Owner A (-1))) (show_int (op_ClusterID obj)))) (\<lambda>cluster.
       bindp (NewScope cluster) (\<lambda>_. ret obj))))"

text \<open>With logging to NATS, the subject of the log is made of the operation and the cluster.\<close>

definition newLogger :: "Operation res \<Rightarrow> bool \<Rightarrow> ('w, unit) prog" where
  "newLogger r logToNats =
     (if \<not> logToNats then ret ()
      else case r of Inl _ \<Rightarrow> fail (Panic ''nil pointer dereference'') | Inr _ \<Rightarrow> ret ())"

definition with_operation ::
  "('s, 'x) server \<Rightarrow> bool \<Rightarrow> bytes \<Rightarrow> (Operation \<Rightarrow> (('s, 'x) world, unit) prog) \<Rightarrow> (('s, 'x) world, unit) prog" where
  "with_operation A logToNats data body =
     bindp (attempt (apiserver_Init A data)) (\<lambda>r.
     bindp (newLogger r logToNats) (\<lambda>_.
     case r of Inl _ \<Rightarrow> ret () | Inr operation \<Rightarrow> body operation))"

definition ApplyCluster :: "('s, 'x) server \<Rightarrow> Operation \<Rightarrow> (('s, 'x) world, unit) prog" where
  "ApplyCluster A obj =
     bindp (Apply (a_Owner A (op_UserID obj))) (\<lambda>_.
     bindp (pwrap ''failed to update operations in store'' (on_store (a_operation_Update A (obj\<lparr>op_State := OperationDone\<rparr>))))
       (\<lambda>_. ret ()))"

section \<open>The handlers (create.go, delete.go, retry.go)\<close>

definition create_work :: "('s, 'x) server \<Rightarrow> Operation \<Rightarrow> (('s, 'x) world, unit) prog" where
  "create_work A operation =
     or_return (on_ext (a_Ack A)) (\<lambda>_.
     and_go_on (CreateCluster (a_Owner A (op_UserID operation)))
     (and_go_on (ApplyCluster A operation) (ret ())))"

definition handle_create :: "('s, 'x) server \<Rightarrow> bool \<Rightarrow> bytes \<Rightarrow> (('s, 'x) world, unit) prog" where
  "handle_create A logToNats data = with_operation A logToNats data (\<lambda>operation.
     if op_State operation = OperationPending
     then or_return (on_store (a_operation_Update A (operation\<lparr>op_State := OperationRunning\<rparr>))) (create_work A)
     else ret ())"

definition handle_delete :: "('s, 'x) server \<Rightarrow> bool \<Rightarrow> bytes \<Rightarrow> (('s, 'x) world, unit) prog" where
  "handle_delete A logToNats data = with_operation A logToNats data (\<lambda>operation.
     bindp (gets w_Name) (\<lambda>name.
     or_return (cloud_Delete (a_Owner A (op_UserID operation)) name) (\<lambda>cluster.
     or_return (on_ext (a_Ack A)) (\<lambda>_.
     bindp (upd_cluster (\<lambda>_. cluster)) (\<lambda>_.
     or_return (ApplyCluster A operation) (\<lambda>_. ret ()))))))"

definition handle_retry :: "('s, 'x) server \<Rightarrow> bool \<Rightarrow> bytes \<Rightarrow> (('s, 'x) world, unit) prog" where
  "handle_retry A logToNats data = with_operation A logToNats data (\<lambda>operation.
     or_return (on_ext (a_Ack A)) (\<lambda>_.
     or_return (ApplyCluster A operation) (\<lambda>_. ret ())))"

section \<open>The queue\<close>

datatype queue = CreateQueue | DeleteQueue | RetryQueue

fun handle :: "('s, 'x) server \<Rightarrow> bool \<Rightarrow> queue \<times> bytes \<Rightarrow> (('s, 'x) world, unit) prog" where
  "handle A logToNats (CreateQueue, data) = handle_create A logToNats data"
| "handle A logToNats (DeleteQueue, data) = handle_delete A logToNats data"
| "handle A logToNats (RetryQueue, data) = handle_retry A logToNats data"

text \<open>Deliveries, first ones and repeated ones, one after the other; a worker that panicked is started again.\<close>

definition deliver :: "('s, 'x) server \<Rightarrow> bool \<Rightarrow> queue \<times> bytes \<Rightarrow> ('s, 'x) world \<Rightarrow> ('s, 'x) world" where
  "deliver A logToNats m w = snd (handle A logToNats m w)"

end
