(* ===== verification/Apiserver_Correct.thy ===== *)
theory Apiserver_Correct
  imports Apiserver Cloud_Frame
begin

text \<open>
  The API server does the work of a creation at most once, however often its message is
  delivered.  The contract of the operation store is the locale \<open>operation_store\<close>: a state in
  which an operation is settled, that is, not pending any more, stays one under the updates the
  server makes.  In \<open>api_server\<close> the rest of the stores and the cloud managers keep it too.
\<close>

section \<open>Which deliveries do the work of a creation\<close>

text \<open>The operation whose creation a delivery starts: its message passes the guard of the handler, which marks the
  operation as running.\<close>

definition starts :: "('s, 'x) server \<Rightarrow> queue \<times> bytes \<Rightarrow> ('s, 'x) world \<Rightarrow> string option" where
  "starts A m w = (case m of
     (CreateQueue, data) \<Rightarrow> (case apiserver_Init A data w of
       (Inl _, _) \<Rightarrow> None
     | (Inr obj, w1) \<Rightarrow>
         if op_State obj = OperationPending
         then (case on_store (a_operation_Update A (obj\<lparr>op_State := OperationRunning\<rparr>)) w1 of
                 (Inl _, _) \<Rightarrow> None
               | (Inr _, _) \<Rightarrow> (case a_OperationId A data of Inl _ \<Rightarrow> None | Inr k \<Rightarrow> Some k))
         else None)
   | _ \<Rightarrow> None)"

fun work_log :: "('s, 'x) server \<Rightarrow> bool \<Rightarrow> (queue \<times> bytes) list \<Rightarrow> ('s, 'x) world \<Rightarrow> string list" where
  "work_log A nats [] w = []"
| "work_log A nats (m # ms) w =
     (case starts A m w of None \<Rightarrow> [] | Some k \<Rightarrow> [k]) @ work_log A nats ms (deliver A nats m w)"

lemma inv_snd: "invariant_of I m \<Longrightarrow> I w \<Longrightarrow> I (snd (m w))"
  by (cases "m w") (fastforce simp: valid_def split: sum.splits)

section \<open>The contracts\<close>

locale operation_store =
  fixes get :: "string \<Rightarrow> ('s, Operation) prog" and update :: "Operation \<Rightarrow> ('s, Operation) prog"
    and good :: "'s \<Rightarrow> bool" and settled :: "string \<Rightarrow> 's \<Rightarrow> bool"
  assumes get_reads: "good s \<Longrightarrow> snd (get k s) = s"
    and settled_read: "good s \<Longrightarrow> settled k s \<Longrightarrow> k \<noteq> '''' \<Longrightarrow> get k s = (Inr obj, s') \<Longrightarrow> op_State obj \<noteq> OperationPending"
    and update_good: "good s \<Longrightarrow> op_State obj \<noteq> OperationPending \<Longrightarrow> good (snd (update obj s))"
    and update_settled: "good s \<Longrightarrow> settled k s \<Longrightarrow> op_State obj \<noteq> OperationPending \<Longrightarrow> settled k (snd (update obj s))"
    and update_settles: "good s \<Longrightarrow> k \<noteq> '''' \<Longrightarrow> get k s = (Inr obj, s) \<Longrightarrow>
      update (obj\<lparr>op_State := OperationRunning\<rparr>) s = (Inr obj', s') \<Longrightarrow> settled k s'"

locale api_server = operation_store "a_operation_Get A" "a_operation_Update A" good settled
  for A :: "('s, 'x) server" and good :: "'s \<Rightarrow> bool" and settled :: "string \<Rightarrow> 's \<Rightarrow> bool" +
  assumes good_frame: "world_upd (a_Owner A i) (\<lambda>w. good (w_store w))"
    and settled_frame: "world_upd (a_Owner A i) (\<lambda>w. good (w_store w) \<and> settled k (w_store w))"
    and cluster_reads: "good s \<Longrightarrow> snd (so_cluster_Get (e_store (a_Owner A (-1))) n s) = s"
begin

text \<open>The two invariants in one: with \<open>None\<close> the state is good, with \<open>Some k\<close> operation \<open>k\<close> is settled, too.\<close>

definition kept :: "string option \<Rightarrow> ('s, 'x) world \<Rightarrow> bool" where
  "kept ok w = (good (w_store w) \<and> (case ok of None \<Rightarrow> True | Some k \<Rightarrow> settled k (w_store w)))"

lemma kept_cong: "w_store w' = w_store w \<Longrightarrow> kept ok w' = kept ok w"
  by (cases ok) (simp_all add: kept_def)

lemma kept_frame: "world_upd (a_Owner A i) (kept ok)"
proof -
  have "kept ok = (case ok of None \<Rightarrow> (\<lambda>w. good (w_store w)) | Some k \<Rightarrow> (\<lambda>w. good (w_store w) \<and> settled k (w_store w)))"
    by (auto simp: fun_eq_iff kept_def split: option.split)
  then show ?thesis using good_frame settled_frame by (cases ok) simp_all
qed

lemma kept_update: "op_State obj \<noteq> OperationPending \<Longrightarrow> invariant_of (kept ok) (on_store (a_operation_Update A obj))"
proof -
  assume st: "op_State obj \<noteq> OperationPending"
  have "kept ok w \<Longrightarrow> kept ok (w\<lparr>w_store := snd (a_operation_Update A obj (w_store w))\<rparr>)" for w
    using st update_good update_settled by (auto simp: kept_def split: option.splits)
  then show ?thesis by (force simp: valid_def on_store_def split: prod.splits sum.splits)
qed

lemma kept_Apply: "invariant_of (kept ok) (ApplyCluster A obj)"
  unfolding ApplyCluster_def
  by (intro inv_rules kept_update world_upd.Apply_keeps [OF kept_frame]) simp

lemma inv_or_return: "invariant_of I m \<Longrightarrow> (\<And>x. invariant_of I (f x)) \<Longrightarrow> invariant_of I (or_return m f)"
  unfolding or_return_def by (intro inv_rules)

lemma inv_and_go_on: "invariant_of I m \<Longrightarrow> invariant_of I n \<Longrightarrow> invariant_of I (and_go_on m n)"
  unfolding and_go_on_def by (intro inv_rules)

lemma kept_ext: "invariant_of (kept ok) (on_ext m)" "invariant_of (kept ok) (upd_cluster f)" "invariant_of (kept ok) (NewScope c)"
  by (auto simp: valid_def on_ext_def upd_cluster_def modify_def NewScope_def kept_def
      split: prod.splits sum.splits option.splits)

lemma kept_work: "invariant_of (kept ok) (create_work A obj)"
  unfolding create_work_def
  by (intro inv_or_return inv_and_go_on inv_rules kept_ext kept_Apply world_upd.creation_keeps [OF kept_frame])

text \<open>\<^verbatim>\<open>Init\<close> only reads.\<close>

lemma Init_reads:
  assumes "good (w_store w)"
  shows "w_store (snd (apiserver_Init A data w)) = w_store w" "w_ext (snd (apiserver_Init A data w)) = w_ext w"
  using assms get_reads cluster_reads
  by (auto simp: apiserver_Init_def bindp_def liftr_def fail_def ret_def on_store_def NewScope_def modify_def
      split: prod.splits sum.splits) (metis snd_conv)+

lemma Init_obj:
  assumes "good (w_store w)" "apiserver_Init A data w = (Inr obj, w')"
  shows "\<exists>k. a_OperationId A data = Inr k \<and> k \<noteq> '''' \<and> a_operation_Get A k (w_store w) = (Inr obj, w_store w)"
proof -
  obtain k s where k: "a_OperationId A data = Inr k" "k \<noteq> ''''" "a_operation_Get A k (w_store w) = (Inr obj, s)"
    using assms(2) by (auto simp: apiserver_Init_def bindp_def liftr_def fail_def ret_def on_store_def split: prod.splits sum.splits if_splits)
  then show ?thesis using get_reads [OF assms(1), of k] by simp
qed

lemma attempt_snd: "snd (attempt m w) = snd (m w)"
  by (auto simp: attempt_def split: prod.splits sum.splits gerror.splits)

lemma attempt_Inr: "attempt m w = (Inr (Inr x), w') \<longleftrightarrow> m w = (Inr x, w')"
  by (auto simp: attempt_def split: prod.splits sum.splits gerror.splits)

lemma attempt_Inl: "attempt m w = (Inr (Inl e), w') \<Longrightarrow> \<exists>e'. m w = (Inl e', w')"
  by (auto simp: attempt_def split: prod.splits sum.splits gerror.splits)

text \<open>A message is either one that fails in \<^verbatim>\<open>Init\<close>, or its body runs on a world with the same store.\<close>

lemma with_operation_cases:
  assumes "good (w_store w)"
  shows "(w_store (snd (with_operation A nats data body w)) = w_store w \<and> w_ext (snd (with_operation A nats data body w)) = w_ext w \<and>
      (\<nexists>obj w1. apiserver_Init A data w = (Inr obj, w1))) \<or>
    (\<exists>obj w1. apiserver_Init A data w = (Inr obj, w1) \<and> w_store w1 = w_store w \<and> w_ext w1 = w_ext w \<and>
      with_operation A nats data body w = body obj w1)"
proof (cases "apiserver_Init A data w")
  case (Pair r w1)
  have same: "w_store w1 = w_store w" "w_ext w1 = w_ext w" using Init_reads [OF assms, of data] Pair by simp_all
  show ?thesis
  proof (cases r)
    case (Inl e)
    then show ?thesis using Pair same
      by (cases e) (auto simp: with_operation_def bindp_def attempt_def newLogger_def ret_def fail_def)
  next
    case (Inr obj)
    then have "with_operation A nats data body w = body obj w1"
      using Pair by (simp add: with_operation_def bindp_def attempt_def newLogger_def ret_def)
    then show ?thesis using Pair Inr same by blast
  qed
qed

lemma with_operation_kept:
  assumes "\<And>obj. invariant_of (kept ok) (body obj)" "kept ok w"
  shows "kept ok (snd (with_operation A nats data body w))"
proof -
  have body: "kept ok w1 \<Longrightarrow> kept ok (snd (body obj w1))" for obj w1
    by (rule inv_snd [OF assms(1)])
  have "good (w_store w)" using assms(2) by (simp add: kept_def)
  from with_operation_cases [OF this, of nats data body] show ?thesis
    using assms(2) body kept_cong by metis
qed

lemma deliver_kept: "kept ok w \<Longrightarrow> kept ok (deliver A nats m w)"
  unfolding deliver_def
  by (cases "(A, nats, m)" rule: handle.cases)
    (auto simp: handle_create_def handle_delete_def handle_retry_def
      intro!: with_operation_kept inv_or_return inv_rules kept_update kept_work kept_ext kept_Apply
        world_upd.Delete_keeps [OF kept_frame])

text \<open>A settled operation: the message of its creation has no effect.\<close>

lemma settled_create:
  assumes "good (w_store w)" "settled k (w_store w)" "a_OperationId A data = Inr k"
  shows "w_store (deliver A nats (CreateQueue, data) w) = w_store w \<and> w_ext (deliver A nats (CreateQueue, data) w) = w_ext w"
proof -
  have "op_State obj \<noteq> OperationPending" if "apiserver_Init A data w = (Inr obj, w1)" for obj w1
    using Init_obj [OF assms(1) that] settled_read [OF assms(1,2)] assms(3) by auto
  then show ?thesis unfolding deliver_def handle.simps handle_create_def
    using with_operation_cases [OF assms(1), of nats data] by (fastforce simp: ret_def)
qed

text \<open>A creation message that does not start the work has no effect outside.\<close>

lemma idle_create:
  assumes g: "good (w_store w)" and idle: "starts A (CreateQueue, data) w = None"
  shows "w_ext (deliver A nats (CreateQueue, data) w) = w_ext w"
proof -
  let ?body = "\<lambda>obj. if op_State obj = OperationPending
     then or_return (on_store (a_operation_Update A (obj\<lparr>op_State := OperationRunning\<rparr>))) (create_work A) else ret ()"
  have "w_ext (snd (?body obj w1)) = w_ext w1" if i: "apiserver_Init A data w = (Inr obj, w1)" for obj w1
  proof -
    obtain k where "a_OperationId A data = Inr k" using Init_obj [OF g i] by blast
    then have "op_State obj = OperationPending \<longrightarrow>
        (\<exists>e w2. on_store (a_operation_Update A (obj\<lparr>op_State := OperationRunning\<rparr>)) w1 = (Inl e, w2))"
      using idle i by (auto simp: starts_def split: prod.splits sum.splits if_splits)
    moreover have "w_ext (snd (on_store m w1)) = w_ext w1" for m :: "('s, Operation) prog"
      by (simp add: on_store_def split: prod.split)
    ultimately show ?thesis
      by (auto simp: or_return_def bindp_def attempt_def ret_def split: gerror.split) (metis snd_conv)+
  qed
  then show ?thesis unfolding deliver_def handle.simps handle_create_def
    using with_operation_cases [OF g, of nats data ?body] by (elim disjE exE conjE) (simp_all only:)
qed

lemma starts_unsettled: "good (w_store w) \<Longrightarrow> starts A (q, data) w = Some k \<Longrightarrow> \<not> settled k (w_store w)"
proof
  assume g: "good (w_store w)" and st: "starts A (q, data) w = Some k" and "settled k (w_store w)"
  obtain obj w1 where "apiserver_Init A data w = (Inr obj, w1)" "op_State obj = OperationPending" "a_OperationId A data = Inr k"
    using st by (auto simp: starts_def split: queue.splits prod.splits sum.splits if_splits)
  then show False using Init_obj [OF g] settled_read [OF g \<open>settled k (w_store w)\<close>] by fastforce
qed

lemma starts_settles:
  assumes g: "good (w_store w)" and st: "starts A (q, data) w = Some k"
  shows "settled k (w_store (deliver A nats (q, data) w))"
proof -
  obtain obj w1 obj' w2 where i: "apiserver_Init A data w = (Inr obj, w1)" "op_State obj = OperationPending"
    "a_OperationId A data = Inr k" "q = CreateQueue"
    and u: "on_store (a_operation_Update A (obj\<lparr>op_State := OperationRunning\<rparr>)) w1 = (Inr obj', w2)"
    using st by (auto simp: starts_def split: queue.splits prod.splits sum.splits if_splits)
  have w1: "w_store w1 = w_store w" using Init_reads(1) [OF g, of data] i(1) by simp
  have k: "k \<noteq> ''''" "a_operation_Get A k (w_store w) = (Inr obj, w_store w)" using Init_obj [OF g i(1)] i(3) by auto
  have up: "a_operation_Update A (obj\<lparr>op_State := OperationRunning\<rparr>) (w_store w) = (Inr obj', w_store w2)"
    using u w1 by (auto simp: on_store_def split: prod.splits)
  have "kept (Some k) w2"
    using update_settles [OF g k up] update_good [OF g, of "obj\<lparr>op_State := OperationRunning\<rparr>"] up by (simp add: kept_def)
  then have "kept (Some k) (snd (create_work A obj' w2))" by (rule inv_snd [OF kept_work])
  moreover have "deliver A nats (q, data) w = snd (create_work A obj' w2)"
    using i u by (simp add: deliver_def handle_create_def with_operation_def or_return_def bindp_def attempt_def newLogger_def ret_def)
  ultimately show ?thesis by (simp add: kept_def)
qed

lemma log_skips_settled: "kept (Some k) w \<Longrightarrow> k \<notin> set (work_log A nats ms w)"
proof (induction ms arbitrary: w)
  case (Cons m ms)
  have "starts A m w \<noteq> Some k" using starts_unsettled [of w "fst m" "snd m" k] Cons.prems by (auto simp: kept_def)
  moreover have "k \<notin> set (work_log A nats ms (deliver A nats m w))" by (rule Cons.IH) (rule deliver_kept [OF Cons.prems])
  ultimately show ?case by (auto split: option.split)
qed simp

lemma log_distinct: "good (w_store w) \<Longrightarrow> distinct (work_log A nats ms w)"
proof (induction ms arbitrary: w)
  case (Cons m ms)
  have g: "good (w_store (deliver A nats m w))" using deliver_kept [of None w nats m] Cons.prems by (simp add: kept_def)
  have "k \<notin> set (work_log A nats ms (deliver A nats m w))" if "starts A m w = Some k" for k
    using log_skips_settled [of k "deliver A nats m w"] starts_settles [OF Cons.prems, of "fst m" "snd m" k nats] g that
    by (simp add: kept_def)
  then show ?case using Cons.IH [OF g] by (auto split: option.split)
qed simp

end

end
