(* ===== verification/Store_Xorm_Laws.thy ===== *)
theory Store_Xorm_Laws
  imports Store_Xorm "HOL-Library.Multiset"
begin

text \<open>
  What the database store relies on: the documented behaviour of \<^verbatim>\<open>xorm\<close> on a working database.

  \<^verbatim>\<open>Get\<close>, \<^verbatim>\<open>Delete\<close>: "bean's non-empty fields are conditions".  \<^verbatim>\<open>Update\<close>: "bean's non-empty fields are
  updated contents"; the row number and the columns tagged \<^verbatim>\<open>created\<close> are not written.  A statement
  that names a column the table does not have, or that would break a \<^verbatim>\<open>UNIQUE\<close> tag, is an error and
  changes nothing.  The engine fills the row number and the columns tagged \<^verbatim>\<open>created\<close> and \<^verbatim>\<open>updated\<close>.
  Which of several matching rows \<^verbatim>\<open>Get\<close> returns is left open.

  An in-memory table satisfies the laws (\<open>mem_laws\<close>).
\<close>

section \<open>The laws\<close>

record 'r schema =
  sc_col :: "string \<Rightarrow> ('r \<Rightarrow> sql_value) option"
  sc_match :: "'r \<Rightarrow> 'r \<Rightarrow> bool"
  sc_over :: "'r \<Rightarrow> 'r \<Rightarrow> 'r"
  sc_new :: "'r \<Rightarrow> 'r \<Rightarrow> bool"
  sc_upd :: "'r \<Rightarrow> 'r \<Rightarrow> bool"
  sc_clash :: "'r \<Rightarrow> 'r \<Rightarrow> bool"

definition known_cols :: "'r schema \<Rightarrow> cond list \<Rightarrow> bool" where
  "known_cols sc cs = list_all (\<lambda>(c, v). sc_col sc c \<noteq> None) cs"

definition sat_row :: "'r schema \<Rightarrow> cond list \<Rightarrow> 'r \<Rightarrow> bool" where
  "sat_row sc cs x = list_all (\<lambda>(c, v). case sc_col sc c of None \<Rightarrow> False | Some f \<Rightarrow> f x = v) cs"

fun no_clash :: "('r \<Rightarrow> 'r \<Rightarrow> bool) \<Rightarrow> 'r list \<Rightarrow> bool" where
  "no_clash clash [] = True"
| "no_clash clash (x # xs) = (list_all (\<lambda>y. \<not> clash x y) xs \<and> no_clash clash xs)"

definition over_rows :: "'r schema \<Rightarrow> cond list \<Rightarrow> 'r \<Rightarrow> 'r list \<Rightarrow> 'r list" where
  "over_rows sc cs b xs = map (\<lambda>x. if sat_row sc cs x then sc_over sc b x else x) xs"

definition table_laws :: "'r schema \<Rightarrow> ('d \<Rightarrow> 'r list) \<Rightarrow> ('d, 'r) table \<Rightarrow> bool" where
  "table_laws sc rows T =
    ((\<forall>b d. \<exists>r. x_Get T b d = (Inr r, d) \<and>
        (case r of None \<Rightarrow> \<forall>x. x \<in> set (rows d) \<longrightarrow> \<not> sc_match sc b x | Some x \<Rightarrow> x \<in> set (rows d) \<and> sc_match sc b x)) \<and>
     (\<forall>cs d. if known_cols sc cs then \<exists>xs. x_Find T cs d = (Inr xs, d) \<and> mset xs = mset (filter (sat_row sc cs) (rows d))
        else \<exists>e. x_Find T cs d = (Inl (Err e), d)) \<and>
     (\<forall>b d. if no_clash (sc_clash sc) (rows d @ [b])
        then \<exists>x d'. x_Insert T b d = (Inr (), d') \<and> rows d' = rows d @ [x] \<and> sc_new sc b x
        else \<exists>e. x_Insert T b d = (Inl (Err e), d)) \<and>
     (\<forall>cs b d. if known_cols sc cs \<and> no_clash (sc_clash sc) (over_rows sc cs b (rows d))
        then \<exists>d'. x_Update T cs b d = (Inr (), d') \<and> list_all2 (sc_upd sc) (over_rows sc cs b (rows d)) (rows d')
        else \<exists>e. x_Update T cs b d = (Inl (Err e), d)) \<and>
     (\<forall>b d. \<exists>d'. x_Delete T b d = (Inr (), d') \<and> rows d' = filter (\<lambda>x. \<not> sc_match sc b x) (rows d)))"

lemma table_lawsD:
  assumes "table_laws sc rows T"
  shows law_Get: "\<exists>r. x_Get T b d = (Inr r, d) \<and>
        (case r of None \<Rightarrow> \<forall>x. x \<in> set (rows d) \<longrightarrow> \<not> sc_match sc b x | Some x \<Rightarrow> x \<in> set (rows d) \<and> sc_match sc b x)"
    and law_Find: "known_cols sc cs \<Longrightarrow> \<exists>xs. x_Find T cs d = (Inr xs, d) \<and> mset xs = mset (filter (sat_row sc cs) (rows d))"
    and law_Find_unknown: "\<not> known_cols sc cs \<Longrightarrow> \<exists>e. x_Find T cs d = (Inl (Err e), d)"
    and law_Insert: "no_clash (sc_clash sc) (rows d @ [b]) \<Longrightarrow>
        \<exists>x d'. x_Insert T b d = (Inr (), d') \<and> rows d' = rows d @ [x] \<and> sc_new sc b x"
    and law_Insert_clash: "\<not> no_clash (sc_clash sc) (rows d @ [b]) \<Longrightarrow> \<exists>e. x_Insert T b d = (Inl (Err e), d)"
    and law_Update: "known_cols sc cs \<Longrightarrow> no_clash (sc_clash sc) (over_rows sc cs b (rows d)) \<Longrightarrow>
        \<exists>d'. x_Update T cs b d = (Inr (), d') \<and> list_all2 (sc_upd sc) (over_rows sc cs b (rows d)) (rows d')"
    and law_Update_error: "\<not> (known_cols sc cs \<and> no_clash (sc_clash sc) (over_rows sc cs b (rows d))) \<Longrightarrow>
        \<exists>e. x_Update T cs b d = (Inl (Err e), d)"
    and law_Delete: "\<exists>d'. x_Delete T b d = (Inr (), d') \<and> rows d' = filter (\<lambda>x. \<not> sc_match sc b x) (rows d)"
  using assms unfolding table_laws_def by meson+

lemma law_Get_None: "table_laws sc rows T \<Longrightarrow> (\<And>x. x \<in> set (rows d) \<Longrightarrow> \<not> sc_match sc b x) \<Longrightarrow> x_Get T b d = (Inr None, d)"
  using law_Get [of sc rows T b d] by (auto split: option.splits)

lemma law_Get_Some:
  "table_laws sc rows T \<Longrightarrow> r \<in> set (rows d) \<Longrightarrow> sc_match sc b r \<Longrightarrow>
    \<exists>x. x_Get T b d = (Inr (Some x), d) \<and> x \<in> set (rows d) \<and> sc_match sc b x"
  using law_Get [of sc rows T b d] by (auto split: option.splits)

lemma law_Get_unique:
  assumes "table_laws sc rows T" "r \<in> set (rows d)" "sc_match sc b r"
    and "\<And>x. x \<in> set (rows d) \<Longrightarrow> sc_match sc b x \<Longrightarrow> x = r"
  shows "x_Get T b d = (Inr (Some r), d)"
  using law_Get_Some [OF assms(1-3)] assms(4) by blast

section \<open>The schemas\<close>

text \<open>A non-zero field of a bean, as a condition and as a value to write.\<close>

definition nz :: "'a \<Rightarrow> 'a \<Rightarrow> 'a \<Rightarrow> bool" where
  "nz zero b x = (b = zero \<or> b = x)"

definition ow :: "'a \<Rightarrow> 'a \<Rightarrow> 'a \<Rightarrow> 'a" where
  "ow zero b x = (if b = zero then x else b)"

lemma nz_ow [simp]: "nz z z x" "nz z x x" "ow z z x = x" "ow z b b = b"
  by (simp_all add: nz_def ow_def)

definition cluster_schema :: "xCluster schema" where
  "cluster_schema = \<lparr>
     sc_col = [''id'' \<mapsto> (\<lambda>x. SqlInt (xc_ID x)), ''uuid'' \<mapsto> (\<lambda>x. SqlText (xc_UUID x)), ''owner_id'' \<mapsto> (\<lambda>x. SqlInt (xc_OwnerID x)),
       ''name'' \<mapsto> (\<lambda>x. SqlText (xc_Name x)), ''data'' \<mapsto> (\<lambda>x. SqlText (xc_Data x))],
     sc_match = (\<lambda>b x. nz 0 (xc_ID b) (xc_ID x) \<and> nz '''' (xc_UUID b) (xc_UUID x) \<and> nz 0 (xc_OwnerID b) (xc_OwnerID x) \<and>
       nz '''' (xc_Name b) (xc_Name x) \<and> nz '''' (xc_Data b) (xc_Data x) \<and> nz 0 (xc_CreatedUnix b) (xc_CreatedUnix x) \<and>
       nz 0 (xc_UpdatedUnix b) (xc_UpdatedUnix x) \<and> nz None (xc_DeletedUnix b) (xc_DeletedUnix x)),
     sc_over = (\<lambda>b x. x\<lparr>xc_UUID := ow '''' (xc_UUID b) (xc_UUID x), xc_OwnerID := ow 0 (xc_OwnerID b) (xc_OwnerID x),
       xc_Name := ow '''' (xc_Name b) (xc_Name x), xc_Data := ow '''' (xc_Data b) (xc_Data x),
       xc_DeletedUnix := ow None (xc_DeletedUnix b) (xc_DeletedUnix x)\<rparr>),
     sc_new = (\<lambda>b x. \<exists>i t u. x = b\<lparr>xc_ID := i, xc_CreatedUnix := t, xc_UpdatedUnix := u\<rparr>),
     sc_upd = (\<lambda>b x. \<exists>u. x = b\<lparr>xc_UpdatedUnix := u\<rparr>),
     sc_clash = (\<lambda>x y. xc_UUID x = xc_UUID y \<or> (xc_OwnerID x = xc_OwnerID y \<and> xc_Name x = xc_Name y))\<rparr>"

definition machine_schema :: "xMachine schema" where
  "machine_schema = \<lparr>
     sc_col = [''id'' \<mapsto> (\<lambda>x. SqlInt (xm_ID x)), ''name'' \<mapsto> (\<lambda>x. SqlText (xm_Name x)), ''data'' \<mapsto> (\<lambda>x. SqlText (xm_Data x)),
       ''cluster_id'' \<mapsto> (\<lambda>x. SqlInt (xm_ClusterID x))],
     sc_match = (\<lambda>b x. nz 0 (xm_ID b) (xm_ID x) \<and> nz '''' (xm_Name b) (xm_Name x) \<and> nz '''' (xm_Data b) (xm_Data x) \<and>
       nz 0 (xm_ClusterID b) (xm_ClusterID x) \<and> nz 0 (xm_CreatedUnix b) (xm_CreatedUnix x) \<and>
       nz 0 (xm_UpdatedUnix b) (xm_UpdatedUnix x) \<and> nz None (xm_DeletedUnix b) (xm_DeletedUnix x)),
     sc_over = (\<lambda>b x. x\<lparr>xm_Name := ow '''' (xm_Name b) (xm_Name x), xm_Data := ow '''' (xm_Data b) (xm_Data x),
       xm_ClusterID := ow 0 (xm_ClusterID b) (xm_ClusterID x), xm_DeletedUnix := ow None (xm_DeletedUnix b) (xm_DeletedUnix x)\<rparr>),
     sc_new = (\<lambda>b x. \<exists>i t u. x = b\<lparr>xm_ID := i, xm_CreatedUnix := t, xm_UpdatedUnix := u\<rparr>),
     sc_upd = (\<lambda>b x. \<exists>u. x = b\<lparr>xm_UpdatedUnix := u\<rparr>),
     sc_clash = (\<lambda>x y. False)\<rparr>"

definition credential_schema :: "xCredential schema" where
  "credential_schema = \<lparr>
     sc_col = [''id'' \<mapsto> (\<lambda>x. SqlInt (xr_ID x)), ''owner_id'' \<mapsto> (\<lambda>x. SqlInt (xr_OwnerID x)), ''name'' \<mapsto> (\<lambda>x. SqlText (xr_Name x)),
       ''uid'' \<mapsto> (\<lambda>x. SqlText (xr_UID x)), ''data'' \<mapsto> (\<lambda>x. SqlText (xr_Data x))],
     sc_match = (\<lambda>b x. nz 0 (xr_ID b) (xr_ID x) \<and> nz 0 (xr_OwnerID b) (xr_OwnerID x) \<and> nz '''' (xr_Name b) (xr_Name x) \<and>
       nz '''' (xr_UID b) (xr_UID x) \<and> nz '''' (xr_Data b) (xr_Data x) \<and> nz 0 (xr_CreatedUnix b) (xr_CreatedUnix x) \<and>
       nz 0 (xr_UpdatedUnix b) (xr_UpdatedUnix x) \<and> nz None (xr_DeletedUnix b) (xr_DeletedUnix x)),
     sc_over = (\<lambda>b x. x\<lparr>xr_OwnerID := ow 0 (xr_OwnerID b) (xr_OwnerID x), xr_Name := ow '''' (xr_Name b) (xr_Name x),
       xr_UID := ow '''' (xr_UID b) (xr_UID x), xr_Data := ow '''' (xr_Data b) (xr_Data x),
       xr_DeletedUnix := ow None (xr_DeletedUnix b) (xr_DeletedUnix x)\<rparr>),
     sc_new = (\<lambda>b x. \<exists>i t u. x = b\<lparr>xr_ID := i, xr_CreatedUnix := t, xr_UpdatedUnix := u\<rparr>),
     sc_upd = (\<lambda>b x. \<exists>u. x = b\<lparr>xr_UpdatedUnix := u\<rparr>),
     sc_clash = (\<lambda>x y. xr_UID x = xr_UID y \<or> (xr_OwnerID x = xr_OwnerID y \<and> xr_Name x = xr_Name y))\<rparr>"

definition operation_schema :: "Operation schema" where
  "operation_schema = \<lparr>
     sc_col = [''id'' \<mapsto> (\<lambda>x. SqlInt (op_ID x)), ''user_id'' \<mapsto> (\<lambda>x. SqlInt (op_UserID x)),
       ''cluster_id'' \<mapsto> (\<lambda>x. SqlInt (op_ClusterID x)), ''code'' \<mapsto> (\<lambda>x. SqlText (op_Code x))],
     sc_match = (\<lambda>b x. nz 0 (op_ID b) (op_ID x) \<and> nz 0 (op_UserID b) (op_UserID x) \<and> nz 0 (op_ClusterID b) (op_ClusterID x) \<and>
       nz '''' (op_Code b) (op_Code x) \<and> nz OperationDone (op_State b) (op_State x)),
     sc_over = (\<lambda>b x. x\<lparr>op_UserID := ow 0 (op_UserID b) (op_UserID x), op_ClusterID := ow 0 (op_ClusterID b) (op_ClusterID x),
       op_Code := ow '''' (op_Code b) (op_Code x), op_State := ow OperationDone (op_State b) (op_State x)\<rparr>),
     sc_new = (\<lambda>b x. \<exists>i. x = b\<lparr>op_ID := i\<rparr>),
     sc_upd = (\<lambda>b x. x = b),
     sc_clash = (\<lambda>x y. op_UserID x = op_UserID y \<and> op_ClusterID x = op_ClusterID y \<and> op_Code x = op_Code y)\<rparr>"

lemmas schema_defs = cluster_schema_def machine_schema_def credential_schema_def operation_schema_def

section \<open>An in-memory table\<close>

definition mem_table :: "'r schema \<Rightarrow> (nat \<Rightarrow> 'r \<Rightarrow> 'r) \<Rightarrow> ('d \<Rightarrow> 'r list) \<Rightarrow> ('r list \<Rightarrow> 'd \<Rightarrow> 'd) \<Rightarrow> ('d, 'r) table" where
  "mem_table sc number get put = \<lparr>
     x_Get = (\<lambda>b d. (Inr (List.find (sc_match sc b) (get d)), d)),
     x_Find = (\<lambda>cs d. (if known_cols sc cs then Inr (filter (sat_row sc cs) (get d)) else Inl (Err ''no such column''), d)),
     x_Insert = (\<lambda>b d. if no_clash (sc_clash sc) (get d @ [b]) then (Inr (), put (get d @ [number (Suc (length (get d))) b]) d)
        else (Inl (Err ''duplicate key''), d)),
     x_Update = (\<lambda>cs b d. if \<not> known_cols sc cs then (Inl (Err ''no such column''), d)
        else if no_clash (sc_clash sc) (over_rows sc cs b (get d)) then (Inr (), put (over_rows sc cs b (get d)) d)
        else (Inl (Err ''duplicate key''), d)),
     x_Delete = (\<lambda>b d. (Inr (), put (filter (\<lambda>x. \<not> sc_match sc b x) (get d)) d))\<rparr>"

lemma mem_laws:
  assumes "\<And>xs d. get (put xs d) = xs" "\<And>n b. sc_new sc b (number n b)" "\<And>x. sc_upd sc x x"
  shows "table_laws sc get (mem_table sc number get put)"
  unfolding table_laws_def
proof (intro conjI allI)
  fix b d show "\<exists>r. x_Get (mem_table sc number get put) b d = (Inr r, d) \<and>
        (case r of None \<Rightarrow> \<forall>x. x \<in> set (get d) \<longrightarrow> \<not> sc_match sc b x | Some x \<Rightarrow> x \<in> set (get d) \<and> sc_match sc b x)"
    by (auto simp: mem_table_def find_None_iff find_Some_iff split: option.split)
qed (auto simp: mem_table_def assms intro: list_all2_refl)

end
