(* ===== verification/Store_Xorm_Props.thy ===== *)
theory Store_Xorm_Props
  imports Store_Xorm_Laws
begin

text \<open>
  What the database store does on a working database: a created cluster is read back by its owner
  and by no other; where the conditions of a statement leave the owner out, owners get in each
  other's way; where they name a column that is not there, the operation always fails; and the
  state "done" of an operation, the zero value, is never written.
\<close>

section \<open>Running a query\<close>

lemma run_map_err [prog_run]:
  "map_err f m s = (case m s of (Inl e, s') \<Rightarrow> (Inl (f e), s') | (Inr x, s') \<Rightarrow> (Inr x, s'))"
  by (simp add: map_err_def)

lemma no_clash_append:
  "no_clash c (xs @ [b]) = (no_clash c xs \<and> (\<forall>x\<in>set xs. \<not> c x b))"
  by (induction xs) (auto simp: list_all_iff)

lemma no_clash_pair:
  "no_clash c xs \<Longrightarrow> x \<in> set xs \<Longrightarrow> y \<in> set xs \<Longrightarrow> c x y \<Longrightarrow> c y x \<Longrightarrow> x = y"
  by (induction xs) (auto simp: list_all_iff)

text \<open>Two rows that become a clash are enough for a refusal.\<close>

lemma no_clash_map:
  "no_clash c (map f xs) \<Longrightarrow> x \<in> set xs \<Longrightarrow> y \<in> set xs \<Longrightarrow> x \<noteq> y \<Longrightarrow> c (f x) (f y) \<Longrightarrow> c (f y) (f x) \<Longrightarrow> False"
  by (induction xs) (auto simp: list_all_iff)

text \<open>A call that fails and leaves the state as it was.\<close>

definition stops :: "('d, 'a) prog \<Rightarrow> 'd \<Rightarrow> bool" where
  "stops m d = (\<exists>msg. m d = (Inl msg, d))"

lemma stops_rules:
  shows stops_fail: "stops (fail msg) d"
    and stops_first: "stops m d \<Longrightarrow> stops (bindp m f) d"
    and stops_then: "m d = (Inr x, d) \<Longrightarrow> stops (f x) d \<Longrightarrow> stops (bindp m f) d"
    and stops_liftr: "(\<And>x. r = Inr x \<Longrightarrow> stops (f x) d) \<Longrightarrow> stops (bindp (liftr r) f) d"
  by (auto simp: stops_def prog_run split: sum.split)

lemma with_reason_Inr: "m d = (Inr x, d') \<Longrightarrow> with_reason m d = (Inr x, d')"
  by (simp add: with_reason_def prog_run)

lemma owner_store [simp]:
  "xo_engine (XormStore_Owner (XormStore_New e) i) = e" "xo_owner (XormStore_Owner (XormStore_New e) i) = i"
  by (simp_all add: XormStore_Owner_def XormStore_New_def)

definition owner_bean :: "int \<Rightarrow> string \<Rightarrow> xCluster" where
  "owner_bean own n = zero_xCluster\<lparr>xc_Name := n, xc_OwnerID := own\<rparr>"

lemma match_owner_bean:
  "n \<noteq> '''' \<Longrightarrow> sc_match cluster_schema (owner_bean own n) x \<longleftrightarrow> (own = 0 \<or> xc_OwnerID x = own) \<and> xc_Name x = n"
  by (auto simp: cluster_schema_def owner_bean_def zero_xCluster_def nz_def)

lemma cluster_clash: "sc_clash cluster_schema x y = (xc_UUID x = xc_UUID y \<or> xc_OwnerID x = xc_OwnerID y \<and> xc_Name x = xc_Name y)"
  by (simp add: cluster_schema_def)

lemmas bean_fold = owner_bean_def [symmetric]

text \<open>The row of an owner, where the table keeps its \<^verbatim>\<open>UNIQUE\<close> tags.\<close>

lemma get_own_row:
  assumes "table_laws cluster_schema rows T" "no_clash (sc_clash cluster_schema) (rows d)"
    and "r \<in> set (rows d)" "xc_Name r \<noteq> ''''" "xc_OwnerID r \<noteq> 0"
  shows "x_Get T (owner_bean (xc_OwnerID r) (xc_Name r)) d = (Inr (Some r), d)"
proof (rule law_Get_unique [OF assms(1,3)])
  show "sc_match cluster_schema (owner_bean (xc_OwnerID r) (xc_Name r)) r" using assms(4) by (simp add: match_owner_bean)
  fix x assume x: "x \<in> set (rows d)" "sc_match cluster_schema (owner_bean (xc_OwnerID r) (xc_Name r)) x"
  show "x = r" by (rule no_clash_pair [OF assms(2) x(1) assms(3)]) (use x(2) assms(4,5) in \<open>simp_all add: match_owner_bean cluster_clash\<close>)
qed

section \<open>Clusters\<close>

lemma xorm_get_row:
  assumes "x_Get (x_clusters (xo_engine s)) (owner_bean (xo_owner s) n) d = (Inr (Some r), d)" "n \<noteq> ''''" "xo_owner s \<noteq> -1"
  shows "xorm_clusters_Get J s n d = (unmarshal J (xc_Data r), d)"
  using assms by (simp add: xorm_clusters_Get_def bean_fold with_reason_def prog_run)

lemma xorm_get_none:
  assumes "x_Get (x_clusters (xo_engine s)) (owner_bean (xo_owner s) n) d = (Inr None, d)" "n \<noteq> ''''" "xo_owner s \<noteq> -1"
  shows "xorm_clusters_Get J s n d = (Inl (Err (''cluster `'' @ n @ ''` does not exists'')), d)"
  using assms by (simp add: xorm_clusters_Get_def bean_fold with_reason_def prog_run)

text \<open>C8. In the database store a cluster that is created under a new name is read back by its owner, and stays
  unknown to another owner.\<close>

theorem xorm_cluster_roundtrip:
  assumes db: "table_laws cluster_schema rows (x_clusters e)" and now: "x_Now e d = (Inr now, d)"
    and json: "reread J (stamp_created_c now (assign_Cluster c)) = Inr c'"
    and own: "o1 \<noteq> 0" "o1 \<noteq> -1" "o2 \<noteq> 0" "o2 \<noteq> -1" "o2 \<noteq> o1" and name: "c_Name c \<noteq> ''''"
    and uniq: "no_clash (sc_clash cluster_schema) (rows d)"
    and fresh: "\<And>x. x \<in> set (rows d) \<Longrightarrow> xc_UUID x \<noteq> '''' \<and> xc_Name x \<noteq> c_Name c"
  shows "\<exists>d'. xorm_clusters_Create J (XormStore_Owner (XormStore_New e) o1) (Some c) d =
        (Inr (stamp_created_c now (assign_Cluster c)), d') \<and>
      xorm_clusters_Get J (XormStore_Owner (XormStore_New e) o1) (c_Name c) d' = (Inr c', d') \<and>
      xorm_clusters_Get J (XormStore_Owner (XormStore_New e) o2) (c_Name c) d' =
        (Inl (Err (''cluster `'' @ c_Name c @ ''` does not exists'')), d')"
proof -
  let ?o = "stamp_created_c now (assign_Cluster c)"
  have nm: "c_Name ?o = c_Name c" by (simp add: stamp_created_c_def)
  obtain data where data: "marshal J ?o = Inr data" "unmarshal J data = Inr c'"
    using json by (auto simp: reread_def rbind_Inr_iff)
  let ?b = "zero_xCluster\<lparr>xc_OwnerID := o1, xc_Name := c_Name c, xc_Data := data, xc_CreatedUnix := unix_seconds now\<rparr>"
  have "no_clash (sc_clash cluster_schema) (rows d @ [?b])"
    using uniq fresh by (simp add: no_clash_append cluster_clash zero_xCluster_def)
  then obtain x d' where ins: "x_Insert (x_clusters e) ?b d = (Inr (), d')" "rows d' = rows d @ [x]" "sc_new cluster_schema ?b x"
    using law_Insert [OF db] by blast
  then have x: "xc_OwnerID x = o1" "xc_Name x = c_Name c" "xc_Data x = data" "xc_UUID x = ''''"
    by (auto simp: cluster_schema_def zero_xCluster_def)
  have none: "x_Get (x_clusters e) (owner_bean o1 (c_Name c)) d = (Inr None, d)"
    by (rule law_Get_None [OF db]) (use fresh name in \<open>auto simp: match_owner_bean\<close>)
  have uniq': "no_clash (sc_clash cluster_schema) (rows d')"
    using uniq fresh x by (simp add: ins(2) no_clash_append cluster_clash)
  have found: "x_Get (x_clusters e) (owner_bean o1 (c_Name c)) d' = (Inr (Some x), d')"
    using get_own_row [OF db uniq', of x] ins(2) x own name by simp
  have other: "x_Get (x_clusters e) (owner_bean o2 (c_Name c)) d' = (Inr None, d')"
    by (rule law_Get_None [OF db]) (use fresh name own x ins(2) in \<open>auto simp: match_owner_bean\<close>)
  have create: "xorm_clusters_Create J (XormStore_Owner (XormStore_New e) o1) (Some c) d = (Inr ?o, d')"
    using name none now data(1) ins(1) nm
    by (simp add: xorm_clusters_Create_def bean_fold with_reason_def prog_run Let_def)
  have "xorm_clusters_Get J (XormStore_Owner (XormStore_New e) o1) (c_Name c) d' = (Inr c', d')"
    using xorm_get_row [of "XormStore_Owner (XormStore_New e) o1" "c_Name c" d' x J] found name own x data(2)
    by simp
  moreover have "xorm_clusters_Get J (XormStore_Owner (XormStore_New e) o2) (c_Name c) d' =
        (Inl (Err (''cluster `'' @ c_Name c @ ''` does not exists'')), d')"
    using xorm_get_none [of "XormStore_Owner (XormStore_New e) o2" "c_Name c" d' J] other name own
    by simp
  ultimately show ?thesis using create by blast
qed

text \<open>The column \<^verbatim>\<open>uuid\<close> is unique and \<^verbatim>\<open>Create\<close> leaves it empty: while the database holds a cluster that has not got
  its UUID, which happens at the end of its first \<^verbatim>\<open>Apply\<close>, no owner can create another cluster.\<close>

lemma xorm_create_blocked:
  assumes db: "table_laws cluster_schema rows (x_clusters e)" and now: "x_Now e d = (Inr now, d)"
    and pending: "r \<in> set (rows d)" "xc_UUID r = ''''"
  shows "\<exists>msg. xorm_clusters_Create J (XormStore_Owner (XormStore_New e) i) oc d = (Inl msg, d)"
proof (cases oc)
  case (Some c)
  let ?b = "\<lambda>n t u. zero_xCluster\<lparr>xc_OwnerID := i, xc_Name := n, xc_Data := t, xc_CreatedUnix := u\<rparr>"
  obtain f where "x_Get (x_clusters e) (owner_bean i (c_Name c)) d = (Inr f, d)" using law_Get [OF db] by blast
  then have get: "with_reason (x_Get (x_clusters e) (owner_bean i (c_Name c))) d = (Inr f, d)" by (rule with_reason_Inr)
  have ins: "stops (x_Insert (x_clusters e) (?b n t u)) d" for n t u
  proof -
    have "\<not> no_clash (sc_clash cluster_schema) (rows d @ [?b n t u])"
      using pending by (auto simp: no_clash_append cluster_clash zero_xCluster_def)
    then show ?thesis using law_Insert_clash [OF db] by (auto simp: stops_def)
  qed
  have "stops (xorm_clusters_Create J (XormStore_Owner (XormStore_New e) i) oc) d"
    unfolding xorm_clusters_Create_def Some
    by (auto simp: bean_fold Let_def stops_fail intro!: stops_then [where m = "with_reason _", OF get]
        stops_then [where m = "x_Now _", OF now] stops_liftr stops_first [OF ins])
  then show ?thesis by (simp add: stops_def)
qed (simp add: xorm_clusters_Create_def prog_run)

lemma over_owner:
  "xc_UUID (sc_over cluster_schema b x) = ow '''' (xc_UUID b) (xc_UUID x)"
  "xc_OwnerID (sc_over cluster_schema b x) = ow 0 (xc_OwnerID b) (xc_OwnerID x)"
  "xc_Name (sc_over cluster_schema b x) = ow '''' (xc_Name b) (xc_Name x)"
  "xc_Data (sc_over cluster_schema b x) = ow '''' (xc_Data b) (xc_Data x)"
  by (simp_all add: cluster_schema_def)

lemma sat_cluster:
  "sat_row cluster_schema [(''name'', SqlText n)] x = (xc_Name x = n)"
  "sat_row cluster_schema [(''name'', SqlText n), (''owner_id'', SqlInt i)] x = (xc_Name x = n \<and> xc_OwnerID x = i)"
  "known_cols cluster_schema [(''name'', SqlText n)]"
  "known_cols cluster_schema [(''name'', SqlText n), (''owner_id'', SqlInt i)]"
  by (simp_all add: sat_row_def known_cols_def cluster_schema_def)

text \<open>Writing a row over the rows of its name makes the other owners' rows its own.\<close>

lemma name_update_clashes:
  assumes "r \<in> set xs" "r' \<in> set xs" "xc_Name r' = xc_Name r" "xc_OwnerID r' \<noteq> xc_OwnerID r" "xc_OwnerID r \<noteq> 0"
    and "xc_OwnerID b = xc_OwnerID r" "xc_Name b = xc_Name r"
  shows "\<not> no_clash (sc_clash cluster_schema) (over_rows cluster_schema [(''name'', SqlText (xc_Name r))] b xs)"
proof
  assume "no_clash (sc_clash cluster_schema) (over_rows cluster_schema [(''name'', SqlText (xc_Name r))] b xs)"
  then show False unfolding over_rows_def
    by (rule no_clash_map [OF _ assms(1,2)]) (use assms in \<open>auto simp: sat_cluster cluster_clash over_owner ow_def\<close>)
qed

text \<open>Where two owners have a cluster of the same name, neither can \<^verbatim>\<open>Update\<close> it or set its UUID: the statement
  selects by the name only and would write the owner into both rows.  The database is unchanged.\<close>

lemma xorm_update_same_name:
  assumes db: "table_laws cluster_schema rows (x_clusters e)"
    and uniq: "no_clash (sc_clash cluster_schema) (rows d)"
    and two: "r \<in> set (rows d)" "r' \<in> set (rows d)" "xc_Name r' = xc_Name r" "xc_OwnerID r' \<noteq> xc_OwnerID r"
    and own: "xc_OwnerID r \<noteq> 0" and name: "c_Name c = xc_Name r" "xc_Name r \<noteq> ''''" and json: "is_ok (marshal J (assign_Cluster c))"
  shows "(\<exists>msg. xorm_clusters_Update J (XormStore_Owner (XormStore_New e) (xc_OwnerID r)) (Some c) d = (Inl msg, d)) \<and>
    (\<exists>msg. xorm_clusters_UpdateUUID (XormStore_Owner (XormStore_New e) (xc_OwnerID r)) (Some c) u d = (Inl msg, d))"
proof -
  have get: "x_Get (x_clusters e) (owner_bean (xc_OwnerID r) (c_Name c)) d = (Inr (Some r), d)"
    using get_own_row [OF db uniq two(1)] name own by simp
  obtain data where data: "marshal J (assign_Cluster c) = Inr data" using json by (cases "marshal J (assign_Cluster c)") auto
  have bad: "\<exists>m. x_Update (x_clusters e) [(''name'', SqlText (c_Name c))] b d = (Inl m, d)"
    if "xc_OwnerID b = xc_OwnerID r" "xc_Name b = xc_Name r" for b
    using law_Update_error [OF db] name_update_clashes [OF two own that] name by metis
  have "\<exists>msg. xorm_clusters_Update J (XormStore_Owner (XormStore_New e) (xc_OwnerID r)) (Some c) d = (Inl msg, d)"
    using get data name bad [of "r\<lparr>xc_Data := data\<rparr>"]
    by (auto simp: xorm_clusters_Update_def bean_fold with_reason_def prog_run Let_def)
  moreover have "\<exists>msg. xorm_clusters_UpdateUUID (XormStore_Owner (XormStore_New e) (xc_OwnerID r)) (Some c) u d = (Inl msg, d)"
    using get name bad [of "r\<lparr>xc_UUID := u\<rparr>"]
    by (auto simp: xorm_clusters_UpdateUUID_def bean_fold with_reason_def prog_run Let_def)
  ultimately show ?thesis by blast
qed

section \<open>Machines and credentials\<close>

text \<open>C36. The machine store of the database forgets its owner: an owner that has no cluster of a name lists the machines
  of the one cluster that has it, whose owner is another one; the stores of keys and certificates refuse.\<close>

theorem xorm_machines_cross_owners:
  assumes dbc: "table_laws cluster_schema rows (x_clusters e)" and dbm: "table_laws machine_schema mrows (x_machines e)"
    and one: "r \<in> set (rows d)" "\<And>x. x \<in> set (rows d) \<Longrightarrow> xc_Name x = xc_Name r \<Longrightarrow> x = r" "xc_Name r \<noteq> ''''"
    and own: "i \<noteq> xc_OwnerID r" "i \<noteq> 0"
  shows "\<exists>ms. mset ms = mset (filter (\<lambda>m. xm_ClusterID m = xc_ID r) (mrows d)) \<and>
      xorm_machines_List J (XormStore_Machine (XormStore_Owner (XormStore_New e) i) (xc_Name r)) d =
        (unmarshal_all J (map xm_Data ms), d) \<and>
      xorm_getCluster (XormStore_Certificates (XormStore_Owner (XormStore_New e) i) (xc_Name r)) d =
        (Inl (Err ''cluster not exists''), d) \<and>
      xorm_getCluster (XormStore_SSHKeys (XormStore_Owner (XormStore_New e) i) (xc_Name r)) d =
        (Inl (Err ''cluster not exists''), d)"
proof -
  have any: "x_Get (x_clusters e) (owner_bean 0 (xc_Name r)) d = (Inr (Some r), d)"
    by (rule law_Get_unique [OF dbc one(1)]) (use one in \<open>auto simp: match_owner_bean\<close>)
  have none: "x_Get (x_clusters e) (owner_bean i (xc_Name r)) d = (Inr None, d)"
    by (rule law_Get_None [OF dbc]) (use one own in \<open>auto simp: match_owner_bean\<close>)
  have cols: "known_cols machine_schema [(''cluster_id'', SqlInt (xc_ID r))]"
    "sat_row machine_schema [(''cluster_id'', SqlInt (xc_ID r))] = (\<lambda>m. xm_ClusterID m = xc_ID r)"
    by (rule ext | simp add: known_cols_def sat_row_def machine_schema_def)+
  obtain ms where ms: "x_Find (x_machines e) [(''cluster_id'', SqlInt (xc_ID r))] d = (Inr ms, d)"
    "mset ms = mset (filter (\<lambda>m. xm_ClusterID m = xc_ID r) (mrows d))"
    using law_Find [OF dbm cols(1)] cols(2) by metis
  show ?thesis
    by (rule exI [of _ ms])
      (simp add: ms any none xorm_machines_List_def xorm_getCluster_def bean_fold prog_run XormStore_Machine_def
        XormStore_Certificates_def XormStore_SSHKeys_def)
qed

text \<open>Listing and updating credentials in the database fail on every input, and change nothing: the statements name
  the column \<^verbatim>\<open>ownerId\<close>, which the table calls \<^verbatim>\<open>owner_id\<close>.\<close>

lemma xorm_credentials_always_fail:
  assumes db: "table_laws credential_schema rows (x_credentials e)"
  shows "(\<exists>msg. xorm_credentials_List J (XormStore_Owner (XormStore_New e) i) d = (Inl msg, d)) \<and>
    (\<exists>msg. xorm_credentials_Update J (XormStore_Owner (XormStore_New e) i) oc d = (Inl msg, d))"
proof
  have cols: "\<not> known_cols credential_schema [(''ownerId'', v)]" "\<not> known_cols credential_schema [(''name'', w), (''ownerId'', v)]" for v w
    by (simp_all add: known_cols_def credential_schema_def)
  show "\<exists>msg. xorm_credentials_List J (XormStore_Owner (XormStore_New e) i) d = (Inl msg, d)"
    using law_Find_unknown [OF db cols(1), of "SqlInt i" d]
    by (auto simp: xorm_credentials_List_def prog_run)
  have upd: "stops (x_Update (x_credentials e) [(''name'', w), (''ownerId'', v)] b) d" for v w b
    unfolding stops_def using law_Update_error [OF db] cols(2) by blast
  have "stops (xorm_credentials_Update J (XormStore_Owner (XormStore_New e) i) oc) d"
  proof (cases oc)
    case (Some c)
    obtain f where get: "x_Get (x_credentials e) (zero_xCredential\<lparr>xr_Name := cr_Name c, xr_OwnerID := i\<rparr>) d = (Inr f, d)"
      using law_Get [OF db] by blast
    show ?thesis unfolding xorm_credentials_Update_def Some
      by (cases f) (simp_all add: Let_def stops_fail stops_then [where m = "x_Get _ _", OF get] stops_liftr stops_first [OF upd])
  qed (simp add: xorm_credentials_Update_def stops_fail)
  then show "\<exists>msg. xorm_credentials_Update J (XormStore_Owner (XormStore_New e) i) oc d = (Inl msg, d)"
    by (simp add: stops_def)
qed

section \<open>Operations\<close>

lemma rewrite_same_row:
  assumes "distinct (map op_ID xs)" "r \<in> set xs"
  shows "over_rows operation_schema [(''id'', SqlInt (op_ID r))] (r\<lparr>op_State := OperationDone\<rparr>) xs = xs"
proof -
  have "x = r" if "x \<in> set xs" "op_ID x = op_ID r" for x
    using that assms by (metis inj_onD distinct_map)
  moreover have "sc_over operation_schema (r\<lparr>op_State := OperationDone\<rparr>) r = r" by (simp add: operation_schema_def)
  moreover have "sat_row operation_schema [(''id'', SqlInt (op_ID r))] x = (op_ID x = op_ID r)" for x
    by (simp add: sat_row_def operation_schema_def)
  ultimately show ?thesis unfolding over_rows_def by (intro map_idI) metis
qed

text \<open>C37. Marking an operation as done in the database reports success and leaves every row as it was: the state "done"
  is the zero value, which an \<^verbatim>\<open>Update\<close> skips.\<close>

theorem xorm_operation_done_lost:
  assumes db: "table_laws operation_schema rows (x_operations e)"
    and pk: "distinct (map op_ID (rows d))" and uniq: "no_clash (sc_clash operation_schema) (rows d)"
    and row: "r \<in> set (rows d)" "op_UserID r = op_UserID obj" "op_ClusterID r = op_ClusterID obj" "op_Code r = op_Code obj"
    and fin: "op_State obj = OperationDone"
  shows "\<exists>d'. xorm_operations_Update e (Some obj) d = (Inr obj, d') \<and> rows d' = rows d"
proof -
  let ?b = "zero_Operation\<lparr>op_UserID := op_UserID obj, op_ClusterID := op_ClusterID obj, op_Code := op_Code obj\<rparr>"
  have "sc_match operation_schema ?b r"
    using row by (simp add: operation_schema_def zero_Operation_def nz_def)
  then obtain x where x: "x_Get (x_operations e) ?b d = (Inr (Some x), d)" "x \<in> set (rows d)"
    using law_Get_Some [OF db row(1)] by blast
  note same = rewrite_same_row [OF pk x(2)]
  have "known_cols operation_schema [(''id'', SqlInt (op_ID x))]" by (simp add: known_cols_def operation_schema_def)
  then obtain d' where "x_Update (x_operations e) [(''id'', SqlInt (op_ID x))] (x\<lparr>op_State := OperationDone\<rparr>) d = (Inr (), d')"
    "list_all2 (sc_upd operation_schema) (rows d) (rows d')"
    using law_Update [OF db, of "[(''id'', SqlInt (op_ID x))]" "x\<lparr>op_State := OperationDone\<rparr>" d] uniq same by auto
  moreover from this(2) have "rows d' = rows d"
    by (simp add: operation_schema_def list_all2_eq [symmetric] eq_commute)
  ultimately show ?thesis using x(1) fin by (simp add: xorm_operations_Update_def prog_run)
qed

section \<open>On a concrete database\<close>

record mem_db =
  db_clusters :: "xCluster list"
  db_machines :: "xMachine list"
  db_credentials :: "xCredential list"
  db_operations :: "Operation list"

definition dead_table :: "('d, 'r) table" where
  "dead_table = \<lparr>x_Get = (\<lambda>_. fail (Err '''')), x_Find = (\<lambda>_. fail (Err '''')), x_Insert = (\<lambda>_. fail (Err '''')),
     x_Update = (\<lambda>_ _. fail (Err '''')), x_Delete = (\<lambda>_. fail (Err ''''))\<rparr>"

definition mem_engine :: "mem_db xorm_engine" where
  "mem_engine = \<lparr>
     x_clusters = mem_table cluster_schema (\<lambda>n x. x\<lparr>xc_ID := int n\<rparr>) db_clusters (\<lambda>xs d. d\<lparr>db_clusters := xs\<rparr>),
     x_machines = mem_table machine_schema (\<lambda>n x. x\<lparr>xm_ID := int n\<rparr>) db_machines (\<lambda>xs d. d\<lparr>db_machines := xs\<rparr>),
     x_certificates = dead_table,
     x_credentials = mem_table credential_schema (\<lambda>n x. x\<lparr>xr_ID := int n\<rparr>) db_credentials (\<lambda>xs d. d\<lparr>db_credentials := xs\<rparr>),
     x_sshkeys = dead_table,
     x_operations = mem_table operation_schema (\<lambda>n x. x\<lparr>op_ID := int n\<rparr>) db_operations (\<lambda>xs d. d\<lparr>db_operations := xs\<rparr>),
     x_Delete_bare = fail (Err ''table not found''), x_Now = ret 0, x_NewUUID = ret ''u''\<rparr>"

lemma mem_engine_laws:
  "table_laws cluster_schema db_clusters (x_clusters mem_engine)"
  "table_laws machine_schema db_machines (x_machines mem_engine)"
  "table_laws credential_schema db_credentials (x_credentials mem_engine)"
  "table_laws operation_schema db_operations (x_operations mem_engine)"
proof -
  have new: "\<exists>i t u. x\<lparr>xc_ID := n\<rparr> = x\<lparr>xc_ID := i, xc_CreatedUnix := t, xc_UpdatedUnix := u\<rparr>"
    "\<exists>i t u. y\<lparr>xm_ID := n\<rparr> = y\<lparr>xm_ID := i, xm_CreatedUnix := t, xm_UpdatedUnix := u\<rparr>"
    "\<exists>i t u. z\<lparr>xr_ID := n\<rparr> = z\<lparr>xr_ID := i, xr_CreatedUnix := t, xr_UpdatedUnix := u\<rparr>"
    for x :: xCluster and y :: xMachine and z :: xCredential and n
    by (intro exI [of _ n] exI [of _ "xc_CreatedUnix x"] exI [of _ "xc_UpdatedUnix x"], simp)
      (intro exI [of _ n] exI [of _ "xm_CreatedUnix y"] exI [of _ "xm_UpdatedUnix y"], simp,
       intro exI [of _ n] exI [of _ "xr_CreatedUnix z"] exI [of _ "xr_UpdatedUnix z"], simp)
  have upd: "\<exists>u. x = x\<lparr>xc_UpdatedUnix := u\<rparr>" "\<exists>u. y = y\<lparr>xm_UpdatedUnix := u\<rparr>" "\<exists>u. z = z\<lparr>xr_UpdatedUnix := u\<rparr>"
    for x :: xCluster and y :: xMachine and z :: xCredential
    by (rule exI [of _ "xc_UpdatedUnix x"], simp) (rule exI [of _ "xm_UpdatedUnix y"], simp, rule exI [of _ "xr_UpdatedUnix z"], simp)
  show "table_laws cluster_schema db_clusters (x_clusters mem_engine)"
    using new upd by (auto simp: mem_engine_def schema_defs intro!: mem_laws)
  show "table_laws machine_schema db_machines (x_machines mem_engine)"
    using new upd by (auto simp: mem_engine_def schema_defs intro!: mem_laws)
  show "table_laws credential_schema db_credentials (x_credentials mem_engine)"
    using new upd by (auto simp: mem_engine_def schema_defs intro!: mem_laws)
  show "table_laws operation_schema db_operations (x_operations mem_engine)"
    by (auto simp: mem_engine_def schema_defs intro!: mem_laws)
qed

definition owned_row :: "int \<Rightarrow> int \<Rightarrow> string \<Rightarrow> xCluster" where
  "owned_row i own u = zero_xCluster\<lparr>xc_ID := i, xc_UUID := u, xc_OwnerID := own, xc_Name := ''c'', xc_Data := ''c''\<rparr>"

definition mem_start :: mem_db where
  "mem_start = \<lparr>db_clusters = [owned_row 1 1 ''u1''], db_machines = [zero_xMachine\<lparr>xm_ID := 1, xm_Name := ''m'', xm_ClusterID := 1\<rparr>],
     db_credentials = [], db_operations = [\<lparr>op_ID = 1, op_UserID = 1, op_ClusterID = 1, op_Code = ''k'', op_State = OperationRunning\<rparr>]\<rparr>"

definition cluster_named :: "string \<Rightarrow> Cluster" where
  "cluster_named n = zero_Cluster\<lparr>c_ObjectMeta := zero_ObjectMeta\<lparr>Name := n\<rparr>\<rparr>"

definition row_codec :: "Cluster codec" where
  "row_codec = \<lparr>marshal = (\<lambda>c. Inr (c_Name c)), unmarshal = (\<lambda>d. Inr (cluster_named d))\<rparr>"

definition null_codec :: "'a codec" where
  "null_codec = \<lparr>marshal = (\<lambda>_. Inr ''''), unmarshal = (\<lambda>_. Inl (Err ''''))\<rparr>"

lemma mem_start_rows [simp]:
  "x_Now mem_engine d = (Inr 0, d)" "c_Name (cluster_named n) = n" "db_clusters mem_start = [owned_row 1 1 ''u1'']"
  "db_machines mem_start = [zero_xMachine\<lparr>xm_ID := 1, xm_Name := ''m'', xm_ClusterID := 1\<rparr>]"
  "xc_Name (owned_row i own u) = ''c''" "xc_UUID (owned_row i own u) = u" "xc_OwnerID (owned_row i own u) = own" "xc_ID (owned_row i own u) = i"
  by (simp_all add: mem_engine_def cluster_named_def mem_start_def owned_row_def prog_run)

theorem xorm_cluster_roundtrip_witness:
  "\<exists>x d'. xorm_clusters_Create row_codec (XormStore_Owner (XormStore_New mem_engine) 1) (Some (cluster_named ''n'')) mem_start = (Inr x, d') \<and>
    xorm_clusters_Get row_codec (XormStore_Owner (XormStore_New mem_engine) 1) ''n'' d' = (Inr (cluster_named ''n''), d')"
proof -
  have "reread row_codec (stamp_created_c 0 (assign_Cluster (cluster_named ''n''))) = Inr (cluster_named ''n'')"
    by (simp add: reread_def row_codec_def stamp_created_c_def)
  then show ?thesis
    using xorm_cluster_roundtrip [OF mem_engine_laws(1), of mem_start 0 row_codec "cluster_named ''n''" "cluster_named ''n''" 1 2] by auto
qed

theorem xorm_machines_cross_owners_witness:
  "\<exists>ms. mset ms = {#zero_xMachine\<lparr>xm_ID := 1, xm_Name := ''m'', xm_ClusterID := 1\<rparr>#} \<and>
    xorm_machines_List null_codec (XormStore_Machine (XormStore_Owner (XormStore_New mem_engine) 7) ''c'') mem_start =
      (unmarshal_all null_codec (map xm_Data ms), mem_start)"
  using xorm_machines_cross_owners [OF mem_engine_laws(1,2), of "owned_row 1 1 ''u1''" mem_start 7 null_codec] by auto

theorem xorm_operation_done_lost_witness:
  "\<exists>d'. xorm_operations_Update mem_engine (Some \<lparr>op_ID = 1, op_UserID = 1, op_ClusterID = 1, op_Code = ''k'', op_State = OperationDone\<rparr>) mem_start =
      (Inr \<lparr>op_ID = 1, op_UserID = 1, op_ClusterID = 1, op_Code = ''k'', op_State = OperationDone\<rparr>, d') \<and>
    db_operations d' = [\<lparr>op_ID = 1, op_UserID = 1, op_ClusterID = 1, op_Code = ''k'', op_State = OperationRunning\<rparr>]"
  using xorm_operation_done_lost [OF mem_engine_laws(4), of mem_start
      "\<lparr>op_ID = 1, op_UserID = 1, op_ClusterID = 1, op_Code = ''k'', op_State = OperationRunning\<rparr>"
      "\<lparr>op_ID = 1, op_UserID = 1, op_ClusterID = 1, op_Code = ''k'', op_State = OperationDone\<rparr>"]
  by (simp add: mem_start_def)

end
