(* ===== verification/Apiserver_Xorm.thy ===== *)
theory Apiserver_Xorm
  imports Apiserver_Correct Store_Xorm_Props Digitalocean_Props
begin

text \<open>
  The API server over the database store and the DigitalOcean provider, as it is deployed: the
  operation store and the rest of the database meet the contracts, on an engine that obeys the
  laws of \<open>Store_Xorm_Laws\<close> and whose statements on one table leave the others alone.
\<close>

section \<open>The database behind the store interface\<close>

text \<open>The store of machine sets returns \<^verbatim>\<open>nil\<close> objects, which the callers do not look at.\<close>

definition xorm_ops :: "codecs \<Rightarrow> 'd xorm_engine \<Rightarrow> int \<Rightarrow> 'd store_ops" where
  "xorm_ops K e i = (let s = XormStore_Owner (XormStore_New e) i in \<lparr>
     so_cluster_Get = xorm_clusters_Get (k_Cluster K) s,
     so_cluster_Create = (\<lambda>c. xorm_clusters_Create (k_Cluster K) s (Some c)),
     so_cluster_Update = (\<lambda>c. xorm_clusters_Update (k_Cluster K) s (Some c)),
     so_cluster_UpdateStatus = (\<lambda>c. xorm_clusters_UpdateStatus (k_Cluster K) s (Some c)),
     so_cluster_UpdateUUID = (\<lambda>c. xorm_clusters_UpdateUUID s (Some c)),
     so_machine_List = (\<lambda>cl. xorm_machines_List (k_Machine K) (XormStore_Machine s cl)),
     so_machine_Get = (\<lambda>cl. xorm_machines_Get (k_Machine K) (XormStore_Machine s cl)),
     so_machine_Create = (\<lambda>cl m. xorm_machines_Create (k_Machine K) (XormStore_Machine s cl) (Some m)),
     so_machine_Update = (\<lambda>cl m. xorm_machines_Update (k_Machine K) (XormStore_Machine s cl) (Some m)),
     so_machine_Delete = (\<lambda>cl n. xorm_machines_Delete (XormStore_Machine s cl) n),
     so_machineset_List = (\<lambda>cl. xorm_machinesets_List),
     so_machineset_Create = (\<lambda>cl m. bindp (xorm_machinesets_Create (Some m)) (\<lambda>_. ret m)),
     so_machineset_Update = (\<lambda>cl m. bindp (xorm_machinesets_Update (Some m)) (\<lambda>_. ret m)),
     so_machineset_Delete = xorm_machinesets_Delete e,
     so_machineset_UpdateStatus = (\<lambda>cl m. bindp (xorm_machinesets_UpdateStatus (Some m)) (\<lambda>_. ret m)),
     so_credential_Get = xorm_credentials_Get (k_Credential K) s,
     so_ssh_Get = (\<lambda>cl. xorm_ssh_Get (XormStore_SSHKeys s cl)),
     so_ssh_Create = (\<lambda>cl. xorm_ssh_Create (XormStore_SSHKeys s cl)),
     so_cert_Get = (\<lambda>cl. xorm_certs_Get (k_pem K) (XormStore_Certificates s cl)),
     so_cert_Create = (\<lambda>cl. xorm_certs_Create (k_pem K) (XormStore_Certificates s cl)),
     so_cert_Delete = (\<lambda>cl. xorm_certs_Delete (XormStore_Certificates s cl))\<rparr>)"

section \<open>What the statements on one table leave alone\<close>

definition table_frame :: "('d \<Rightarrow> 'b) \<Rightarrow> ('d, 'r) table \<Rightarrow> bool" where
  "table_frame f T = ((\<forall>b d. f (snd (x_Get T b d)) = f d) \<and> (\<forall>cs d. f (snd (x_Find T cs d)) = f d) \<and>
     (\<forall>b d. f (snd (x_Insert T b d)) = f d) \<and> (\<forall>cs b d. f (snd (x_Update T cs b d)) = f d) \<and>
     (\<forall>b d. f (snd (x_Delete T b d)) = f d))"

definition engine_frame :: "('d \<Rightarrow> 'b) \<Rightarrow> 'd xorm_engine \<Rightarrow> bool" where
  "engine_frame f e = (table_frame f (x_clusters e) \<and> table_frame f (x_machines e) \<and> table_frame f (x_certificates e) \<and>
     table_frame f (x_credentials e) \<and> table_frame f (x_sshkeys e) \<and> (\<forall>d. f (snd (x_Delete_bare e d)) = f d) \<and>
     (\<forall>d. f (snd (x_Now e d)) = f d) \<and> (\<forall>d. f (snd (x_NewUUID e d)) = f d))"

lemma table_frameD:
  assumes "table_frame f T"
  shows "invariant_of (\<lambda>d. R (f d)) (x_Get T b)" "invariant_of (\<lambda>d. R (f d)) (x_Find T cs)" "invariant_of (\<lambda>d. R (f d)) (x_Insert T b)"
    "invariant_of (\<lambda>d. R (f d)) (x_Update T cs b)" "invariant_of (\<lambda>d. R (f d)) (x_Delete T b)"
  using assms by (simp_all add: inv_iff table_frame_def)

lemma engine_frameD:
  assumes "engine_frame f e"
  shows "table_frame f (x_clusters e)" "table_frame f (x_machines e)" "table_frame f (x_certificates e)"
    "table_frame f (x_credentials e)" "table_frame f (x_sshkeys e)" "invariant_of (\<lambda>d. R (f d)) (x_Delete_bare e)"
    "invariant_of (\<lambda>d. R (f d)) (x_Now e)" "invariant_of (\<lambda>d. R (f d)) (x_NewUUID e)"
  using assms by (simp_all add: inv_iff engine_frame_def)

lemmas engine_inv = engine_frameD(1-5) [THEN table_frameD(1)] engine_frameD(1-5) [THEN table_frameD(2)]
  engine_frameD(1-5) [THEN table_frameD(3)] engine_frameD(1-5) [THEN table_frameD(4)] engine_frameD(1-5) [THEN table_frameD(5)]
  engine_frameD(6-8)

lemma inv_map_err [inv_rules]: "invariant_of I m \<Longrightarrow> invariant_of I (map_err g m)"
  by (auto simp: inv_iff map_err_def split: prod.splits sum.splits)

lemma inv_with_reason [inv_rules]: "invariant_of I m \<Longrightarrow> invariant_of I (with_reason m)"
  unfolding with_reason_def by (rule inv_map_err)

lemma xorm_scope_fields [simp]:
  "xo_engine (XormStore_Machine s cl) = xo_engine s" "xo_engine (XormStore_Certificates s cl) = xo_engine s"
  "xo_engine (XormStore_SSHKeys s cl) = xo_engine s"
  by (simp_all add: XormStore_Machine_def XormStore_Certificates_def XormStore_SSHKeys_def)

lemma xorm_ops_frame:
  fixes R :: "'b \<Rightarrow> bool"
  assumes "engine_frame f e"
  defines "I \<equiv> \<lambda>d. R (f d)"
  shows "invariant_of I (so_cluster_Get (xorm_ops K e i) n)" "invariant_of I (so_cluster_Create (xorm_ops K e i) c)"
    "invariant_of I (so_cluster_Update (xorm_ops K e i) c)" "invariant_of I (so_cluster_UpdateStatus (xorm_ops K e i) c)"
    "invariant_of I (so_cluster_UpdateUUID (xorm_ops K e i) c u)" "invariant_of I (so_machine_List (xorm_ops K e i) cl)"
    "invariant_of I (so_machine_Get (xorm_ops K e i) cl n)" "invariant_of I (so_machine_Create (xorm_ops K e i) cl m)"
    "invariant_of I (so_machine_Update (xorm_ops K e i) cl m)" "invariant_of I (so_machineset_List (xorm_ops K e i) cl)"
    "invariant_of I (so_machineset_Create (xorm_ops K e i) cl ms)" "invariant_of I (so_machineset_Update (xorm_ops K e i) cl ms)"
    "invariant_of I (so_machineset_Delete (xorm_ops K e i) cl n)" "invariant_of I (so_credential_Get (xorm_ops K e i) n)"
    "invariant_of I (so_ssh_Get (xorm_ops K e i) cl n)" "invariant_of I (so_ssh_Create (xorm_ops K e i) cl n d1 d2)"
    "invariant_of I (so_cert_Get (xorm_ops K e i) cl n)" "invariant_of I (so_cert_Create (xorm_ops K e i) cl n od1 od2)"
    "invariant_of I (so_machine_Delete (xorm_ops K e i) cl n)"
    "invariant_of I (so_machineset_UpdateStatus (xorm_ops K e i) cl ms)" "invariant_of I (so_cert_Delete (xorm_ops K e i) cl n)"
  unfolding I_def xorm_ops_def Let_def store_ops.simps xorm_clusters_Get_def xorm_clusters_Create_def xorm_clusters_Update_def
      xorm_clusters_UpdateStatus_def xorm_clusters_UpdateUUID_def xorm_machines_List_def xorm_machines_Get_def xorm_machines_Create_def
      xorm_machines_Update_def xorm_machines_Delete_def xorm_machinesets_List_def xorm_machinesets_Create_def xorm_machinesets_Update_def
      xorm_machinesets_Delete_def xorm_machinesets_UpdateStatus_def xorm_certs_Delete_def xorm_credentials_Get_def xorm_ssh_Get_def xorm_ssh_Create_def xorm_certs_Get_def xorm_certs_Create_def
      xorm_getCluster_def option.case xorm_scope_fields owner_store
  by (intro inv_rules engine_inv [OF assms(1)])+

section \<open>The operation store\<close>

definition op_good :: "('d \<Rightarrow> Operation list) \<Rightarrow> ('d \<Rightarrow> xCluster list) \<Rightarrow> 'd xorm_engine \<Rightarrow> 'd \<Rightarrow> bool" where
  "op_good rows crows e d = (table_laws operation_schema rows (x_operations e) \<and> table_laws cluster_schema crows (x_clusters e) \<and>
     engine_frame rows e \<and> distinct (map op_ID (rows d)) \<and> distinct (map op_Code (rows d)))"

definition op_settled :: "('d \<Rightarrow> Operation list) \<Rightarrow> string \<Rightarrow> 'd \<Rightarrow> bool" where
  "op_settled rows k d = list_all (\<lambda>x. op_Code x = k \<longrightarrow> op_State x \<noteq> OperationPending) (rows d)"

lemma codes_no_clash: "distinct (map op_Code xs) \<Longrightarrow> no_clash (sc_clash operation_schema) xs"
  by (induction xs) (auto simp: list_all_iff operation_schema_def)

text \<open>What an update writes: the state of one row, unless the state is the zero value.\<close>

definition put_state :: "Operation \<Rightarrow> OperationState \<Rightarrow> Operation list \<Rightarrow> Operation list" where
  "put_state x st xs = map (\<lambda>y. if op_ID y = op_ID x then x\<lparr>op_State := ow OperationDone st (op_State x)\<rparr> else y) xs"

lemma put_state_over:
  assumes "distinct (map op_ID xs)" "x \<in> set xs"
  shows "over_rows operation_schema [(''id'', SqlInt (op_ID x))] (x\<lparr>op_State := st\<rparr>) xs = put_state x st xs"
    and "map op_ID (put_state x st xs) = map op_ID xs" and "map op_Code (put_state x st xs) = map op_Code xs"
proof -
  have same: "y = x" if "y \<in> set xs" "op_ID y = op_ID x" for y
    using that assms by (metis inj_onD distinct_map)
  have "sc_over operation_schema (x\<lparr>op_State := st\<rparr>) x = x\<lparr>op_State := ow OperationDone st (op_State x)\<rparr>"
    by (simp add: operation_schema_def)
  moreover have "sat_row operation_schema [(''id'', SqlInt (op_ID x))] y = (op_ID y = op_ID x)" for y
    by (simp add: sat_row_def operation_schema_def)
  ultimately show "over_rows operation_schema [(''id'', SqlInt (op_ID x))] (x\<lparr>op_State := st\<rparr>) xs = put_state x st xs"
    unfolding over_rows_def put_state_def by (intro map_cong [OF refl]) (use same in metis)
  show "map op_ID (put_state x st xs) = map op_ID xs" by (simp add: put_state_def)
  show "map op_Code (put_state x st xs) = map op_Code xs"
    unfolding put_state_def map_map by (intro map_cong [OF refl]) (use same in \<open>auto simp: comp_def\<close>)
qed

lemma operation_update_run:
  assumes "op_good rows crows e d"
  shows "(\<exists>msg. xorm_operations_Update e (Some obj) d = (Inl msg, d)) \<or>
    (\<exists>x d'. x \<in> set (rows d) \<and> sc_match operation_schema
        (zero_Operation\<lparr>op_UserID := op_UserID obj, op_ClusterID := op_ClusterID obj, op_Code := op_Code obj\<rparr>) x \<and>
      xorm_operations_Update e (Some obj) d = (Inr obj, d') \<and> rows d' = put_state x (op_State obj) (rows d))"
proof -
  let ?b = "zero_Operation\<lparr>op_UserID := op_UserID obj, op_ClusterID := op_ClusterID obj, op_Code := op_Code obj\<rparr>"
  have db: "table_laws operation_schema rows (x_operations e)" and d: "distinct (map op_ID (rows d))" "distinct (map op_Code (rows d))"
    using assms by (simp_all add: op_good_def)
  obtain r where r: "x_Get (x_operations e) ?b d = (Inr r, d)"
    "case r of None \<Rightarrow> True | Some x \<Rightarrow> x \<in> set (rows d) \<and> sc_match operation_schema ?b x"
    using law_Get [OF db, of ?b d] by (auto split: option.splits)
  show ?thesis
  proof (cases r)
    case None
    then show ?thesis using r(1) by (simp add: xorm_operations_Update_def prog_run)
  next
    case (Some x)
    then have x: "x \<in> set (rows d)" "sc_match operation_schema ?b x" using r(2) by simp_all
    note put = put_state_over [OF d(1) x(1), of "op_State obj"]
    have "known_cols operation_schema [(''id'', SqlInt (op_ID x))]" by (simp add: known_cols_def operation_schema_def)
    moreover have "no_clash (sc_clash operation_schema) (put_state x (op_State obj) (rows d))"
      by (rule codes_no_clash) (simp add: put(3) d)
    ultimately obtain d' where "x_Update (x_operations e) [(''id'', SqlInt (op_ID x))] (x\<lparr>op_State := op_State obj\<rparr>) d = (Inr (), d')"
      "list_all2 (sc_upd operation_schema) (put_state x (op_State obj) (rows d)) (rows d')"
      using law_Update [OF db, of "[(''id'', SqlInt (op_ID x))]" "x\<lparr>op_State := op_State obj\<rparr>" d] put(1) by auto
    moreover from this(2) have "rows d' = put_state x (op_State obj) (rows d)"
      by (simp add: operation_schema_def list_all2_eq [symmetric] eq_commute)
    ultimately show ?thesis using x r(1) Some by (auto simp: xorm_operations_Update_def prog_run)
  qed
qed

lemma put_state_settled:
  assumes "list_all (\<lambda>y. op_Code y = k \<longrightarrow> op_State y \<noteq> OperationPending) xs" "st \<noteq> OperationPending" "x \<in> set xs"
  shows "list_all (\<lambda>y. op_Code y = k \<longrightarrow> op_State y \<noteq> OperationPending) (put_state x st xs)"
  using assms by (auto simp: list_all_iff put_state_def ow_def)

lemma operation_get_run:
  assumes "op_good rows crows e d"
  shows "xorm_operations_Get e k d = (Inl (Err ''not found''), d) \<or>
    (\<exists>x. x \<in> set (rows d) \<and> (k \<noteq> '''' \<longrightarrow> op_Code x = k) \<and> xorm_operations_Get e k d = (Inr x, d))"
proof -
  have db: "table_laws operation_schema rows (x_operations e)" using assms by (simp add: op_good_def)
  obtain r where r: "x_Get (x_operations e) (zero_Operation\<lparr>op_Code := k\<rparr>) d = (Inr r, d)"
    "case r of None \<Rightarrow> True | Some x \<Rightarrow> x \<in> set (rows d) \<and> sc_match operation_schema (zero_Operation\<lparr>op_Code := k\<rparr>) x"
    using law_Get [OF db, of "zero_Operation\<lparr>op_Code := k\<rparr>" d] by (auto split: option.splits)
  then show ?thesis
    by (cases r) (auto simp: xorm_operations_Get_def prog_run operation_schema_def nz_def)
qed

interpretation xorm_operations: operation_store "xorm_operations_Get e" "\<lambda>obj. xorm_operations_Update e (Some obj)"
  "op_good rows crows e" "op_settled rows" for e rows crows
proof
  fix d k obj d'
  assume g: "op_good rows crows e d"
  show "snd (xorm_operations_Get e k d) = d" using operation_get_run [OF g, of k] by auto
  show "op_State obj \<noteq> OperationPending" if "op_settled rows k d" "k \<noteq> ''''" "xorm_operations_Get e k d = (Inr obj, d')"
    using operation_get_run [OF g, of k] that by (auto simp: op_settled_def list_all_iff)
  show "op_good rows crows e (snd (xorm_operations_Update e (Some obj) d))"
    using operation_update_run [OF g, of obj] g put_state_over(2,3) by (fastforce simp: op_good_def)
  show "op_settled rows k (snd (xorm_operations_Update e (Some obj) d))" if "op_settled rows k d" "op_State obj \<noteq> OperationPending"
    using operation_update_run [OF g, of obj] that put_state_settled by (fastforce simp: op_settled_def)
  show "op_settled rows k d'" if k: "k \<noteq> ''''" and get: "xorm_operations_Get e k d = (Inr obj, d)"
    and upd: "xorm_operations_Update e (Some (obj\<lparr>op_State := OperationRunning\<rparr>)) d = (Inr obj', d')" for obj'
  proof -
    have obj: "obj \<in> set (rows d)" "op_Code obj = k" using operation_get_run [OF g, of k] get k by auto
    obtain x where x: "x \<in> set (rows d)" "op_Code x = k" "rows d' = put_state x OperationRunning (rows d)"
      using operation_update_run [OF g, of "obj\<lparr>op_State := OperationRunning\<rparr>"] upd obj(2) k
      by (auto simp: operation_schema_def nz_def)
    have "op_Code y \<noteq> k \<or> op_ID y = op_ID x" if "y \<in> set (rows d)" for y
      using g that x(1,2) unfolding op_good_def by (metis inj_onD distinct_map)
    then show ?thesis by (auto simp: op_settled_def list_all_iff x(3) put_state_def ow_def)
  qed
qed

section \<open>The API server over the database\<close>

definition xorm_env :: "codecs \<Rightarrow> 'd xorm_engine \<Rightarrow> ('d, 'x) env \<Rightarrow> 'x provider_envs \<Rightarrow> int \<Rightarrow> ('d, 'x) env" where
  "xorm_env K e E Q i = registry (E\<lparr>e_store := xorm_ops K e i\<rparr>) Q"

definition xorm_server ::
  "codecs \<Rightarrow> 'd xorm_engine \<Rightarrow> ('d, 'x) env \<Rightarrow> 'x provider_envs \<Rightarrow> (bytes \<Rightarrow> string res) \<Rightarrow> ('x, unit) prog \<Rightarrow> ('d, 'x) server" where
  "xorm_server K e E Q parse ack = \<lparr>a_OperationId = parse, a_operation_Get = xorm_operations_Get e,
     a_operation_Update = (\<lambda>obj. xorm_operations_Update e (Some obj)), a_Owner = xorm_env K e E Q, a_Ack = ack\<rparr>"

lemma xorm_world_inv:
  assumes "e_store E' = xorm_ops K e i"
  shows "world_cluster E' (\<lambda>w. engine_frame rows e \<and> R (rows (w_store w)))"
proof (cases "engine_frame rows e")
  case True
  note keep = xorm_ops_frame [OF True, of R K i, unfolded inv_iff, rule_format]
  show ?thesis by unfold_locales (simp_all add: assms keep)
qed (unfold_locales, simp_all)

lemma xorm_world_upd: "world_upd (xorm_env K e E Q i) (\<lambda>w. engine_frame rows e \<and> R (rows (w_store w)))"
  unfolding xorm_env_def by (rule world_cluster.registry_world, rule xorm_world_inv [of _ K e i]) simp

interpretation xorm_api: api_server "xorm_server K e E Q parse ack" "op_good rows crows e" "op_settled rows"
  for K e E Q parse ack rows crows
proof (intro api_server.intro api_server_axioms.intro)
  show "operation_store (a_operation_Get (xorm_server K e E Q parse ack)) (a_operation_Update (xorm_server K e E Q parse ack))
      (op_good rows crows e) (op_settled rows)"
    using xorm_operations.operation_store_axioms by (simp add: xorm_server_def)
  fix i k n d
  have good: "op_good rows crows e d = (engine_frame rows e \<and> table_laws operation_schema rows (x_operations e) \<and>
      table_laws cluster_schema crows (x_clusters e) \<and> distinct (map op_ID (rows d)) \<and> distinct (map op_Code (rows d)))" for d
    by (auto simp: op_good_def)
  show "world_upd (a_Owner (xorm_server K e E Q parse ack) i) (\<lambda>w. op_good rows crows e (w_store w))"
    unfolding good using xorm_world_upd [of K e E Q i rows "\<lambda>xs. table_laws operation_schema rows (x_operations e) \<and>
      table_laws cluster_schema crows (x_clusters e) \<and> distinct (map op_ID xs) \<and> distinct (map op_Code xs)"]
    by (simp add: xorm_server_def)
  show "world_upd (a_Owner (xorm_server K e E Q parse ack) i) (\<lambda>w. op_good rows crows e (w_store w) \<and> op_settled rows k (w_store w))"
    unfolding good op_settled_def using xorm_world_upd [of K e E Q i rows "\<lambda>xs. (table_laws operation_schema rows (x_operations e) \<and>
      table_laws cluster_schema crows (x_clusters e) \<and> distinct (map op_ID xs) \<and> distinct (map op_Code xs)) \<and>
      list_all (\<lambda>x. op_Code x = k \<longrightarrow> op_State x \<noteq> OperationPending) xs"]
    by (simp add: xorm_server_def conj_assoc)
  show "snd (so_cluster_Get (e_store (a_Owner (xorm_server K e E Q parse ack) (- 1))) n d) = d" if "op_good rows crows e d"
  proof -
    have "snd (x_Get (x_clusters e) b d) = d" for b
      using law_Get [of cluster_schema crows "x_clusters e" b d] that by (auto simp: op_good_def)
    then have get: "invariant_of (\<lambda>d'. d' = d) (x_Get (x_clusters e) b)" for b by (simp add: inv_iff)
    have "invariant_of (\<lambda>d'. d' = d) (xorm_clusters_Get (k_Cluster K) (XormStore_Owner (XormStore_New e) (-1)) n)"
      unfolding xorm_clusters_Get_def owner_store by (intro inv_rules get)
    then show ?thesis by (simp add: inv_iff xorm_server_def xorm_env_def xorm_ops_def Let_def)
  qed
qed

section \<open>Properties\<close>

text \<open>C3. Over the database store, however the messages of the queues are delivered and repeated and whatever fails, the
  work of creating a cluster is started at most once per operation, and a creation message that does not start it has
  no effect outside the database: no call to the cloud, and no acknowledgement.\<close>

theorem apiserver_creates_once:
  assumes "op_good rows crows e (w_store w)"
  shows "distinct (work_log (xorm_server K e E Q parse ack) nats ms w) \<and>
    (starts (xorm_server K e E Q parse ack) (CreateQueue, data) w = None \<longrightarrow>
      w_ext (deliver (xorm_server K e E Q parse ack) nats (CreateQueue, data) w) = w_ext w)"
  using xorm_api.log_distinct [OF assms] xorm_api.idle_create [OF assms] by blast

text \<open>C39. An operation that was marked as running and whose message was not acknowledged stays so: each further delivery
  of the message does nothing, and does not acknowledge it either.\<close>

theorem apiserver_stuck:
  assumes "op_good rows crows e (w_store w)" "op_settled rows k (w_store w)" "parse data = Inr k"
  shows "w_store ((deliver (xorm_server K e E Q parse ack) nats (CreateQueue, data) ^^ n) w) = w_store w \<and>
    w_ext ((deliver (xorm_server K e E Q parse ack) nats (CreateQueue, data) ^^ n) w) = w_ext w"
proof (induction n)
  case (Suc n)
  let ?A = "xorm_server K e E Q parse ack" and ?w = "(deliver (xorm_server K e E Q parse ack) nats (CreateQueue, data) ^^ n) w"
  have "w_store (deliver ?A nats (CreateQueue, data) ?w) = w_store ?w \<and> w_ext (deliver ?A nats (CreateQueue, data) ?w) = w_ext ?w"
    by (rule xorm_api.settled_create [where rows = rows and crows = crows and k = k]) (use assms Suc in \<open>simp_all add: xorm_server_def\<close>)
  then show ?case using Suc by simp
qed simp

text \<open>A message whose operation or cluster cannot be loaded changes nothing; with logging to NATS it ends the worker
  with a panic, before the error is looked at.\<close>

lemma apiserver_bad_message:
  assumes "op_good rows crows e (w_store w)" "apiserver_Init (xorm_server K e E Q parse ack) data w = (Inl (Err msg), w1)"
  shows "w_store w1 = w_store w \<and> w_ext w1 = w_ext w \<and>
    handle (xorm_server K e E Q parse ack) False (q, data) w = (Inr (), w1) \<and>
    handle (xorm_server K e E Q parse ack) True (q, data) w = (Inl (Panic ''nil pointer dereference''), w1)"
proof -
  let ?A = "xorm_server K e E Q parse ack"
  have "w_store w1 = w_store w" "w_ext w1 = w_ext w"
    using xorm_api.Init_reads [where rows = rows and crows = crows and K = K and E = E and Q = Q and parse = parse and ack = ack
        and data = data, OF assms(1)] assms(2) by simp_all
  moreover have "with_operation ?A nats data body w = (if nats then (Inl (Panic ''nil pointer dereference''), w1) else (Inr (), w1))"
    for nats body using assms(2) by (simp add: with_operation_def newLogger_def bindp_def attempt_def ret_def fail_def)
  ultimately show ?thesis by (cases q) (simp_all add: handle_create_def handle_delete_def handle_retry_def)
qed

section \<open>On a concrete database\<close>

lemma mem_frame: "(\<And>xs d. f (put xs d) = f d) \<Longrightarrow> table_frame f (mem_table sc number get put)"
  by (simp add: table_frame_def mem_table_def)

lemma mem_engine_frame: "engine_frame db_operations mem_engine"
  by (simp add: engine_frame_def mem_engine_def mem_frame) (simp add: table_frame_def dead_table_def prog_run)

definition queue_codecs :: codecs where
  "queue_codecs = demo_codecs\<lparr>k_Cluster := row_codec\<rparr>"

definition queue_env :: "(mem_db, Droplet list) env" where
  "queue_env = \<lparr>e_store = xorm_ops queue_codecs mem_engine 0, e_sys = demo_sys, e_kube = demo_kube, e_capi = demo_capi,
     e_providers = Map.empty, e_image = ''''\<rparr>"

definition queue_clouds :: "Droplet list provider_envs" where
  "queue_clouds = \<lparr>r_do = demo_do, r_li = offline_li, r_pk = offline_pk, r_dk = offline_dk\<rparr>"

definition queue_server :: "(mem_db, Droplet list) server" where
  "queue_server = xorm_server queue_codecs mem_engine queue_env queue_clouds Inr (ret ())"

definition queue_op :: "OperationState \<Rightarrow> Operation" where
  "queue_op st = \<lparr>op_ID = 1, op_UserID = 1, op_ClusterID = 1, op_Code = ''k'', op_State = st\<rparr>"

definition queue_db :: "OperationState \<Rightarrow> mem_db" where
  "queue_db st = mem_start\<lparr>db_operations := [queue_op st]\<rparr>"

definition queue_world :: "OperationState \<Rightarrow> (mem_db, Droplet list) world" where
  "queue_world st = \<lparr>w_Cluster = zero_Cluster, w_Certs = None, w_CloudManager = None, w_AdminClient = False,
     w_store = queue_db st, w_ext = []\<rparr>"

lemma queue_good: "op_good db_operations db_clusters mem_engine (w_store (queue_world st))"
  by (simp add: op_good_def mem_engine_laws mem_engine_frame queue_world_def queue_db_def)

lemma queue_get: "xorm_operations_Get mem_engine ''k'' (queue_db st) = (Inr (queue_op st), queue_db st)"
  by (simp add: xorm_operations_Get_def mem_engine_def mem_table_def prog_run queue_db_def queue_op_def operation_schema_def
      zero_Operation_def nz_def)

lemma queue_update: "\<exists>d'. xorm_operations_Update mem_engine (Some (queue_op OperationRunning)) (queue_db st) = (Inr (queue_op OperationRunning), d')"
proof -
  have "sc_match operation_schema (zero_Operation\<lparr>op_UserID := 1, op_ClusterID := 1, op_Code := ''k''\<rparr>) (queue_op st)"
    by (simp add: queue_op_def operation_schema_def zero_Operation_def nz_def)
  then have "x_Get (x_operations mem_engine) (zero_Operation\<lparr>op_UserID := 1, op_ClusterID := 1, op_Code := ''k''\<rparr>) (queue_db st) =
      (Inr (Some (queue_op st)), queue_db st)"
    by (simp add: mem_engine_def mem_table_def queue_db_def)
  moreover have "\<exists>d'. x_Update (x_operations mem_engine) [(''id'', SqlInt 1)] b (queue_db st) = (Inr (), d')" for b
    by (simp add: mem_engine_def mem_table_def queue_db_def known_cols_def over_rows_def operation_schema_def)
  then obtain d' where "x_Update (x_operations mem_engine) [(''id'', SqlInt 1)] ((queue_op st)\<lparr>op_State := OperationRunning\<rparr>) (queue_db st) = (Inr (), d')"
    by blast
  ultimately show ?thesis by (simp add: xorm_operations_Update_def prog_run queue_op_def)
qed

lemma queue_cluster: "\<exists>c. so_cluster_Get (e_store (a_Owner queue_server (-1))) (show_int 1) (queue_db st) = (Inr c, queue_db st)"
proof -
  have num: "show_int 1 = ''1''" by (simp add: show_int_def digit_char_def show_nat.simps [of "Suc 0"])
  have num2: "atoi ''1'' = Some 1" by (simp add: atoi_def parse_uint_def digit_val_def)
  have "x_Get (x_clusters mem_engine) (zero_xCluster\<lparr>xc_ID := 1\<rparr>) (queue_db st) = (Inr (Some (owned_row 1 1 ''u1'')), queue_db st)"
    by (simp add: mem_engine_def mem_table_def queue_db_def cluster_schema_def zero_xCluster_def)
  then show ?thesis
    by (simp add: num num2 queue_server_def xorm_server_def xorm_env_def xorm_ops_def Let_def xorm_clusters_Get_def
        with_reason_def prog_run queue_codecs_def row_codec_def)
qed

lemma queue_starts: "starts queue_server (CreateQueue, ''k'') (queue_world OperationPending) = Some ''k''"
proof -
  let ?st = OperationPending
  obtain c where "so_cluster_Get (e_store (a_Owner queue_server (-1))) (show_int 1) (queue_db ?st) = (Inr c, queue_db ?st)"
    using queue_cluster by blast
  moreover have "a_OperationId queue_server = Inr" "a_operation_Get queue_server = xorm_operations_Get mem_engine"
    "a_operation_Update queue_server = (\<lambda>obj. xorm_operations_Update mem_engine (Some obj))"
    by (simp_all add: queue_server_def xorm_server_def)
  moreover have "op_ClusterID (queue_op st) = 1" "(queue_op ?st)\<lparr>op_State := OperationRunning\<rparr> = queue_op OperationRunning"
    "op_State (queue_op st) = st" for st by (simp_all add: queue_op_def)
  moreover have "w_store (queue_world ?st) = queue_db ?st" by (simp add: queue_world_def)
  moreover obtain d' where "xorm_operations_Update mem_engine (Some (queue_op OperationRunning)) (queue_db ?st) = (Inr (queue_op OperationRunning), d')"
    using queue_update by blast
  ultimately show ?thesis
    by (simp add: starts_def apiserver_Init_def prog_run NewScope_def queue_get)
qed

theorem apiserver_creates_once_witness:
  "work_log queue_server False [(CreateQueue, ''k'')] (queue_world OperationPending) = [''k''] \<and>
    distinct (work_log queue_server False [(CreateQueue, ''k''), (CreateQueue, ''k'')] (queue_world OperationPending))"
  using queue_starts apiserver_creates_once [OF queue_good, of queue_codecs queue_env queue_clouds Inr "ret ()" False
      "[(CreateQueue, ''k''), (CreateQueue, ''k'')]" OperationPending]
  by (simp add: queue_server_def)

theorem apiserver_stuck_witness:
  "w_store ((deliver queue_server False (CreateQueue, ''k'') ^^ 3) (queue_world OperationRunning)) = w_store (queue_world OperationRunning)"
proof -
  have "op_settled db_operations ''k'' (w_store (queue_world OperationRunning))" by (simp add: op_settled_def queue_world_def queue_db_def queue_op_def)
  then show ?thesis
    using apiserver_stuck [OF queue_good, of "''k''" OperationRunning Inr "''k''" 3 queue_codecs queue_env queue_clouds "ret ()" False]
    by (simp add: queue_server_def)
qed

end
