(* ===== verification/Upgrades.thy ===== *)
theory Upgrades
  imports Kube_Version Api_Cluster "HOL-Library.AList"
begin

text \<open>
  Which versions a cluster can be upgraded to: \<^verbatim>\<open>cloud/version.go\<close> (release labels and the versions that
  are running), \<^verbatim>\<open>apis/v1alpha1/upgrade.go\<close> and \<^verbatim>\<open>GetAvailableUpgrades\<close> of \<^verbatim>\<open>cloud/upm.go\<close>.  The calls on
  the cluster and on the release server are programs over their state.  The regular expressions are
  written out as scanners.  \<^verbatim>\<open>%q\<close> in a message is the string between quotes, without its escapes.
\<close>

section \<open>The cluster and the release server\<close>

record VersionNode =
  vn_Name :: string
  vn_Annotations :: "string \<rightharpoonup> string"
  vn_KubeletVersion :: string

record Deployment =
  dp_Name :: string
  dp_Images :: "string list"

record http_response =
  StatusCode :: int
  http_Status :: string
  http_Body :: "bytes res"

record 'x version_client =
  http_Get :: "string \<Rightarrow> ('x, http_response) prog"
  ServerVersion :: "('x, string) prog"
  Nodes_List :: "string \<Rightarrow> ('x, VersionNode list) prog"
  Deployments_List :: "string \<Rightarrow> ('x, Deployment list) prog"
  show_Deployments :: "Deployment list \<Rightarrow> string"

section \<open>Release labels\<close>

text \<open>\<^verbatim>\<open>\w\<close>, and the class of what follows the third number.\<close>

definition word_char :: "char \<Rightarrow> bool" where
  "word_char c \<longleftrightarrow> is_digit c \<or> is_upper c \<or> is_lower c \<or> c = CHR ''_''"

definition release_char :: "char \<Rightarrow> bool" where
  "release_char c \<longleftrightarrow> word_char c \<or> c = CHR ''-'' \<or> c = CHR ''.'' \<or> c = CHR ''+''"

text \<open>\<^verbatim>\<open>(0|[1-9][0-9]*)\.\<close> at the beginning, and what is left.\<close>

definition number_dot :: "string \<Rightarrow> string option" where
  "number_dot s = (let d = takeWhile is_digit s in
     if d = [] \<or> zero_prefixed d then None
     else (case dropWhile is_digit s of c # r \<Rightarrow> if c = CHR ''.'' then Some r else None | [] \<Rightarrow> None))"

text \<open>\<^verbatim>\<open>kubeReleaseRegex\<close>; a third number with more digits after a 0 is a 0 and a suffix.\<close>

definition release_numbers :: "string \<Rightarrow> bool" where
  "release_numbers s = (case number_dot s of None \<Rightarrow> False | Some r1 \<Rightarrow>
     (case number_dot r1 of None \<Rightarrow> False | Some r2 \<Rightarrow>
        (case r2 of [] \<Rightarrow> False | c # r3 \<Rightarrow> is_digit c \<and> list_all release_char r3)))"

definition kubeReleaseRegex :: "string \<Rightarrow> bool" where
  "kubeReleaseRegex s = (case s of c # t \<Rightarrow> release_numbers (if c = CHR ''v'' then t else s) | [] \<Rightarrow> False)"

text \<open>\<^verbatim>\<open>^[[:lower:]]+(-[-\w_\.]+)?$\<close>\<close>

definition kubeReleaseLabelRegex :: "string \<Rightarrow> bool" where
  "kubeReleaseLabelRegex s \<longleftrightarrow> takeWhile is_lower s \<noteq> [] \<and>
     (case dropWhile is_lower s of [] \<Rightarrow> True
      | c # t \<Rightarrow> c = CHR ''-'' \<and> t \<noteq> [] \<and> list_all (\<lambda>c. word_char c \<or> c = CHR ''-'' \<or> c = CHR ''.'') t)"

text \<open>\<^verbatim>\<open>kubeBucketPrefixes\<close>: the prefix before the slash, empty without one, and the rest.\<close>

definition kubeBucketPrefixes :: "string \<Rightarrow> (string \<times> string) option" where
  "kubeBucketPrefixes s =
     (case split_on (CHR ''/'') s of
        [l] \<Rightarrow> if l \<noteq> [] \<and> list_all release_char l then Some ([], l) else None
      | [p, l] \<Rightarrow> if p \<in> {''release'', ''ci'', ''ci-cross''} \<and> l \<noteq> [] \<and> list_all release_char l then Some (p, l) else None
      | _ \<Rightarrow> None)"

definition kubeReleaseBucketURL :: string where
  "kubeReleaseBucketURL = ''https://dl.k8s.io''"

definition splitVersion :: "string \<Rightarrow> (string \<times> string) res" where
  "splitVersion version = (case kubeBucketPrefixes version of
     None \<Rightarrow> Inl (Err (''invalid version '' @ quoted version))
   | Some (p, l) \<Rightarrow> Inr (kubeReleaseBucketURL @ ''/'' @ (if has_prefix p ''ci'' then ''ci-cross'' else ''release''), l))"

definition FetchFromURL :: "'x version_client \<Rightarrow> string \<Rightarrow> ('x, string) prog" where
  "FetchFromURL C url =
     bindp (pwrap (''unable to get URL '' @ quoted url) (http_Get C url)) (\<lambda>resp.
     if StatusCode resp \<noteq> 200
     then fail (Err (''unable to fetch file. URL: '' @ quoted url @ '' Status: '' @ http_Status resp))
     else bindp (liftr (rwrap (''unable to read content of URL '' @ quoted url) (http_Body resp))) (\<lambda>body.
     ret (trim_space body)))"

text \<open>
  The document behind a label may be a label again, and the code follows it without end.  The first
  argument is how many calls the stack of the goroutine holds; facts hold for all its values.
\<close>

fun KubernetesReleaseVersion :: "nat \<Rightarrow> 'x version_client \<Rightarrow> string \<Rightarrow> ('x, string) prog" where
  "KubernetesReleaseVersion 0 C version = fail (Panic ''stack overflow'')"
| "KubernetesReleaseVersion (Suc n) C version =
     (if kubeReleaseRegex version then ret (if has_prefix version ''v'' then version else CHR ''v'' # version)
      else bindp (liftr (splitVersion version)) (\<lambda>(bucketURL, versionLabel).
        if kubeReleaseLabelRegex versionLabel
        then bindp (FetchFromURL C (bucketURL @ ''/'' @ versionLabel @ ''.txt'')) (\<lambda>body. KubernetesReleaseVersion n C body)
        else fail (Err (''version '' @ quoted version @
          '' doesn't match patterns for neither semantic version nor labels (stable, latest, ...)''))))"

section \<open>The version getter\<close>

definition ClusterVersion :: "'x version_client \<Rightarrow> ('x, string \<times> KubeVersion) prog" where
  "ClusterVersion C =
     bindp (pwrap ''Couldn't fetch Cluster version from the API Server'' (ServerVersion C)) (\<lambda>info.
     bindp (pwrap ''Couldn't parse Cluster version'' (liftr (ParseSemantic info))) (\<lambda>v. ret (info, v)))"

definition IsUpgradeRequested :: "'x version_client \<Rightarrow> Cluster \<Rightarrow> ('x, bool) prog" where
  "IsUpgradeRequested C cluster =
     (if c_Phase cluster = ClusterReady
      then bindp (ClusterVersion C) (\<lambda>(cur, _).
           bindp (liftr (ParseSemantic (KubernetesVersion (c_Config cluster)))) (\<lambda>requested.
           bindp (liftr (version_Compare requested cur)) (\<lambda>check. ret (check > 0))))
      else ret False)"

definition DeployedDNSAddon :: "'x version_client \<Rightarrow> ('x, string \<times> string) prog" where
  "DeployedDNSAddon C =
     bindp (pwrap ''couldn't retrieve DNS addon deployments'' (Deployments_List C ''k8s-app=kube-dns'')) (\<lambda>items.
     case items of
       [] \<Rightarrow> ret ('''', '''')
     | [d] \<Rightarrow> (case dp_Images d of
           [] \<Rightarrow> fail (Panic ''index out of range'')
         | addonImage # _ \<Rightarrow> ret (dp_Name d, last (split_on (CHR '':'') addonImage)))
     | _ \<Rightarrow> fail (Err (''multiple DNS addon deployments found: '' @ show_Deployments C items)))"

definition KubeadmVersion_of :: "'x version_client \<Rightarrow> ('x, string \<times> KubeVersion) prog" where
  "KubeadmVersion_of C =
     bindp (\<lambda>s. case Nodes_List C RoleMasterKey s of
              (Inl (Err e), s') \<Rightarrow> (Inl (Err (''couldn't list master instances in Cluster, Reason: '' @ e)), s')
            | r \<Rightarrow> r) (\<lambda>nodes.
     case nodes of
       [] \<Rightarrow> fail (Err ''couldn't list master instances in Cluster'')
     | node # _ \<Rightarrow> (case vn_Annotations node KubeadmVersionKey of
           None \<Rightarrow> fail (Err (''master instance '' @ vn_Name node @ '' is missing annotation '' @ KubeadmVersionKey))
         | Some verStr \<Rightarrow>
             bindp (pwrap ''couldn't parse kubeadm version'' (liftr (ParseSemantic verStr))) (\<lambda>v. ret (verStr, v))))"

definition VersionFromCILabel :: "nat \<Rightarrow> 'x version_client \<Rightarrow> string \<Rightarrow> string \<Rightarrow> ('x, string \<times> KubeVersion) prog" where
  "VersionFromCILabel n C ciVersionLabel description =
     bindp (pwrap (''Couldn't fetch latest '' @ description @ '' version from the internet'')
              (KubernetesReleaseVersion n C ciVersionLabel)) (\<lambda>versionStr.
     bindp (pwrap (''Couldn't parse latest '' @ description @ '' version'') (liftr (ParseSemantic versionStr))) (\<lambda>ver.
     ret (versionStr, ver)))"

text \<open>A Go map \<^verbatim>\<open>map[string]uint32\<close> whose size the code reads: a list without repeated keys.\<close>

type_synonym version_counts = "(string \<times> 32 word) list"

fun count_kubelets :: "version_counts \<Rightarrow> VersionNode list \<Rightarrow> version_counts" where
  "count_kubelets m [] = m"
| "count_kubelets m (node # nodes) = (let kver = vn_KubeletVersion node in
     case map_of m kver of
       None \<Rightarrow> count_kubelets (AList.update kver 1 m) nodes
     | Some c \<Rightarrow> count_kubelets (AList.update kver (c + 1) m) nodes)"

definition computeKubeletVersions :: "VersionNode list \<Rightarrow> version_counts" where
  "computeKubeletVersions nodes = count_kubelets [] nodes"

definition KubeletVersions_of :: "'x version_client \<Rightarrow> ('x, version_counts) prog" where
  "KubeletVersions_of C =
     bindp (\<lambda>s. case Nodes_List C '''' s of
              (Inl (Err e), s') \<Rightarrow> (Inl (Err ''couldn't list all nodes in Cluster''), s')
            | r \<Rightarrow> r) (\<lambda>nodes. ret (computeKubeletVersions nodes))"

text \<open>\<^verbatim>\<open>Major()\<close> and \<^verbatim>\<open>Minor()\<close> index the components.\<close>

definition getBranchFromVersion :: "string \<Rightarrow> string res" where
  "getBranchFromVersion version = rbind (MustParseGeneric version) (\<lambda>v.
     case v_components v of
       a # b # _ \<Rightarrow> Inr (show_nat a @ ''.'' @ show_nat b)
     | _ \<Rightarrow> Inl (Panic ''index out of range''))"

definition patchVersionBranchExists :: "KubeVersion \<Rightarrow> KubeVersion \<Rightarrow> bool" where
  "patchVersionBranchExists clusterVersion stableVersion = AtLeast stableVersion clusterVersion"

definition patchUpgradePossible :: "KubeVersion \<Rightarrow> KubeVersion \<Rightarrow> bool" where
  "patchUpgradePossible clusterVersion patchVersion = LessThan clusterVersion patchVersion"

definition minorUpgradePossibleWithPatchRelease :: "KubeVersion \<Rightarrow> KubeVersion \<Rightarrow> bool" where
  "minorUpgradePossibleWithPatchRelease stableVersion patchVersion = LessThan patchVersion stableVersion"

section \<open>Upgrades\<close>

record ClusterState =
  KubeVersion :: string
  DNSVersion :: string
  KubeadmVersion :: string
  KubeletVersions :: version_counts

record Upgrade =
  Description :: string
  Before :: ClusterState
  After :: ClusterState

definition CanUpgradeKubelets :: "Upgrade \<Rightarrow> bool" where
  "CanUpgradeKubelets u =
     (if length (KubeletVersions (Before u)) > 1 then True
      else if length (KubeletVersions (Before u)) = 0 then False
      else map_of (KubeletVersions (Before u)) (KubeVersion (After u)) = None)"

definition after_state :: "string \<Rightarrow> string \<Rightarrow> ClusterState" where
  "after_state kube kubeadm = \<lparr>KubeVersion = kube, DNSVersion = '''', KubeadmVersion = kubeadm, KubeletVersions = []\<rparr>"

definition GetAvailableUpgrades :: "nat \<Rightarrow> 'x version_client \<Rightarrow> ('x, Upgrade list) prog" where
  "GetAvailableUpgrades n C =
     bindp (ClusterVersion C) (\<lambda>(clusterVersionStr, clusterVersion).
     bindp (KubeadmVersion_of C) (\<lambda>(kubeadmVersionStr, kubeadmVersion).
     bindp (attempt (VersionFromCILabel n C ''stable'' ''stable version'')) (\<lambda>r.
     case (case r of Inl _ \<Rightarrow> (kubeadmVersionStr, kubeadmVersion) | Inr p \<Rightarrow> p) of (stableVersionStr, stableVersion) \<Rightarrow>
     bindp (KubeletVersions_of C) (\<lambda>kubeletVersions.
     let beforeState = \<lparr>KubeVersion = clusterVersionStr, DNSVersion = '''', KubeadmVersion = kubeadmVersionStr,
                        KubeletVersions = kubeletVersions\<rparr> in
     bindp (if patchVersionBranchExists clusterVersion stableVersion then
          bindp (liftr (getBranchFromVersion clusterVersionStr)) (\<lambda>currentBranch.
          let description = ''version in the v'' @ currentBranch @ '' series'' in
          bindp (VersionFromCILabel n C (''stable-'' @ currentBranch) description) (\<lambda>(patchVersionStr, patchVersion).
          ret (minorUpgradePossibleWithPatchRelease stableVersion patchVersion,
               if patchUpgradePossible clusterVersion patchVersion
               then [\<lparr>Description = description, Before = beforeState,
                      After = after_state patchVersionStr
                        (if AtLeast kubeadmVersion patchVersion then kubeadmVersionStr else patchVersionStr)\<rparr>]
               else [])))
        else ret (LessThan clusterVersion stableVersion, [])) (\<lambda>(canDoMinorUpgrade, upgrades).
     ret (upgrades @
          (if canDoMinorUpgrade
           then [\<lparr>Description = ''stable version'', Before = beforeState,
                  After = after_state stableVersionStr stableVersionStr\<rparr>]
           else [])))))))"

end
