(* ===== verification/Upgrades_Correct.thy ===== *)
theory Upgrades_Correct
  imports Upgrades Kube_Version_Correct
begin

text \<open>
  What the upgrade planning guarantees: release labels resolve to release versions, the kubelet
  counts, no upgrade goes backwards, and nothing panics on a cluster and a release server that behave.
\<close>

section \<open>Release versions\<close>

lemma release_v: "kubeReleaseRegex s \<Longrightarrow> \<not> has_prefix s ''v'' \<Longrightarrow> kubeReleaseRegex (CHR ''v'' # s)"
  by (cases s) (auto simp: kubeReleaseRegex_def has_prefix_def split: if_splits)

lemma release_result:
  "KubernetesReleaseVersion n C version s = (Inr out, s') \<Longrightarrow> kubeReleaseRegex out \<and> has_prefix out ''v''"
proof (induction n C version arbitrary: s rule: KubernetesReleaseVersion.induct)
  case (1 C version)
  then show ?case by (simp add: prog_run)
next
  case (2 n C version)
  show ?case
  proof (cases "kubeReleaseRegex version")
    case True
    then show ?thesis using 2(2) release_v by (auto simp: prog_run has_prefix_def split: if_splits)
  next
    case False
    with 2(2) obtain p l where sp: "splitVersion version = Inr (p, l)" "kubeReleaseLabelRegex l"
      by (auto simp: prog_run split: sum.splits if_splits)
    with False 2(2) obtain body t where "KubernetesReleaseVersion n C body t = (Inr out, s')"
      by (auto simp: prog_run split: prod.splits sum.splits)
    then show ?thesis using 2(1) [OF False sp(2)] by blast
  qed
qed

lemma release_given: "kubeReleaseRegex version \<Longrightarrow> has_prefix version ''v'' \<Longrightarrow>
  KubernetesReleaseVersion (Suc n) C version s = (Inr version, s)"
  by (simp add: prog_run)

section \<open>Counts\<close>

definition count_of :: "version_counts \<Rightarrow> string \<Rightarrow> 32 word" where
  "count_of m k = (case map_of m k of None \<Rightarrow> 0 | Some c \<Rightarrow> c)"

lemma count_of_update: "count_of (AList.update x c m) k = (if k = x then c else count_of m k)"
  by (simp add: count_of_def update_conv')

lemma count_kubelets_distinct: "distinct (map fst m) \<Longrightarrow> distinct (map fst (count_kubelets m nodes))"
  by (induction m nodes rule: count_kubelets.induct) (auto simp: Let_def distinct_update split: option.splits)

lemma count_kubelets_dom: "dom (map_of (count_kubelets m nodes)) = dom (map_of m) \<union> vn_KubeletVersion ` set nodes"
  by (induction m nodes rule: count_kubelets.induct) (auto simp: Let_def update_conv' split: option.splits if_splits)

lemma count_kubelets_total:
  "count_of (count_kubelets m nodes) k = count_of m k + of_nat (count_list (map vn_KubeletVersion nodes) k)"
proof (induction m nodes rule: count_kubelets.induct)
  case (2 m node nodes)
  then show ?case
    by (cases "map_of m (vn_KubeletVersion node)")
      (auto simp: Let_def count_of_update count_of_def [of m "vn_KubeletVersion node"])
qed simp

lemma kubelet_counts:
  "distinct (map fst (computeKubeletVersions nodes)) \<and>
   fst ` set (computeKubeletVersions nodes) = vn_KubeletVersion ` set nodes \<and>
   (\<forall>node \<in> set nodes. map_of (computeKubeletVersions nodes) (vn_KubeletVersion node) =
      Some (of_nat (length (filter (\<lambda>n. vn_KubeletVersion n = vn_KubeletVersion node) nodes))))"
proof -
  have count: "count_list (map vn_KubeletVersion nodes) k = length (filter (\<lambda>n. vn_KubeletVersion n = k) nodes)" for k
    by (induction nodes) auto
  have "dom (map_of (computeKubeletVersions nodes)) = vn_KubeletVersion ` set nodes"
    by (simp add: computeKubeletVersions_def count_kubelets_dom)
  moreover have "count_of (computeKubeletVersions nodes) k = of_nat (length (filter (\<lambda>n. vn_KubeletVersion n = k) nodes))" for k
    by (simp add: computeKubeletVersions_def count_kubelets_total count) (simp add: count_of_def)
  moreover have "distinct (map fst (computeKubeletVersions nodes))"
    by (simp add: computeKubeletVersions_def count_kubelets_distinct)
  moreover have "map_of m k = Some (count_of m k)" if "k \<in> dom (map_of m)" for m k using that by (auto simp: count_of_def)
  ultimately show ?thesis unfolding dom_map_of_conv_image_fst [symmetric] by simp
qed

lemma kubelets_upgradable:
  assumes "KubeletVersions (Before u) = computeKubeletVersions nodes"
  shows "CanUpgradeKubelets u \<longleftrightarrow> (\<exists>node \<in> set nodes. vn_KubeletVersion node \<noteq> KubeVersion (After u))"
proof -
  let ?m = "computeKubeletVersions nodes"
  have m: "distinct (map fst ?m)" "fst ` set ?m = vn_KubeletVersion ` set nodes" using kubelet_counts [of nodes] by auto
  have "(\<exists>node \<in> set nodes. vn_KubeletVersion node \<noteq> x) \<longleftrightarrow> (\<exists>k \<in> fst ` set ?m. k \<noteq> x)" for x unfolding m(2) by auto
  moreover have "CanUpgradeKubelets u \<longleftrightarrow> (\<exists>k \<in> fst ` set ?m. k \<noteq> KubeVersion (After u))"
  proof (cases ?m)
    case Nil
    then show ?thesis by (simp add: CanUpgradeKubelets_def assms)
  next
    case (Cons p ps)
    show ?thesis
    proof (cases ps)
      case Nil
      then show ?thesis using Cons by (cases p) (auto simp: CanUpgradeKubelets_def assms)
    next
      case (Cons q qs)
      then have "fst p \<noteq> fst q" "fst p \<in> fst ` set ?m" "fst q \<in> fst ` set ?m" using m(1) \<open>?m = p # ps\<close> by auto
      moreover have "CanUpgradeKubelets u" using Cons \<open>?m = p # ps\<close> by (simp add: CanUpgradeKubelets_def assms)
      ultimately show ?thesis by metis
    qed
  qed
  ultimately show ?thesis by simp
qed

section \<open>Branches\<close>

lemma parse_comps_generic: "parse_comps True first str cs = Inr ns \<Longrightarrow> parse_comps False first str cs = Inr ns"
  by (induction cs arbitrary: first ns) (auto simp: rbind_Inr_iff split: if_splits option.splits)

lemma ParseSemantic_generic:
  assumes "ParseSemantic str = Inr v"
  obtains a b c where "v_components v = [a, b, c]"
    "ParseGeneric str = Inr \<lparr>v_components = [a, b, c], v_semver = False, v_preRelease = [], v_buildMetadata = []\<rparr>"
proof -
  have "length (v_components v) = 3" using ParseSemantic_ok [OF assms] unfolding version_ok_def by blast
  then obtain a b c where abc: "v_components v = [a, b, c]" by (auto simp: length_Suc_conv numeral_3_eq_3)
  obtain N E where d: "dotted is_digit (version_body str) = (N, E)" by fastforce
  have "N \<noteq> []" "CHR 0x0A \<notin> set E" "length (split_on (CHR ''.'') N) = 3"
    and "\<exists>ns. parse_comps True True str (split_on (CHR ''.'') N) = Inr ns \<and> v_components v = ns"
    using assms unfolding ParseSemantic_def parse_version_def Let_def d
    by (auto simp: rbind_Inr_iff split: if_splits option.splits)
  then have "ParseGeneric str = Inr \<lparr>v_components = [a, b, c], v_semver = False, v_preRelease = [], v_buildMetadata = []\<rparr>"
    unfolding ParseGeneric_def parse_version_def Let_def d using abc parse_comps_generic by auto
  with abc show thesis by (rule that)
qed

lemma branch_of_cluster:
  "ParseSemantic str = Inr v \<Longrightarrow> getBranchFromVersion str = Inr (show_nat (v_components v ! 0) @ ''.'' @ show_nat (v_components v ! 1))"
  by (erule ParseSemantic_generic) (simp add: getBranchFromVersion_def MustParseGeneric_def)

section \<open>Available upgrades\<close>

lemma ClusterVersion_result:
  "ClusterVersion C s = (Inr (cs, cv), s') \<Longrightarrow> ParseSemantic cs = Inr cv \<and> ServerVersion C s = (Inr cs, s')"
  by (auto simp: ClusterVersion_def prog_run pwrap_def rwrap_def split: prod.splits sum.splits)

lemma KubeadmVersion_result: "KubeadmVersion_of C s = (Inr (ks, kv), s') \<Longrightarrow> ParseSemantic ks = Inr kv"
  by (auto simp: KubeadmVersion_of_def prog_run pwrap_def rwrap_def
      split: prod.splits sum.splits list.splits option.splits gerror.splits)

lemma VersionFromCILabel_result: "VersionFromCILabel n C l d s = (Inr (vs, v), s') \<Longrightarrow> ParseSemantic vs = Inr v"
  by (auto simp: VersionFromCILabel_def prog_run pwrap_def rwrap_def split: prod.splits sum.splits)

lemma LessThan_AtLeast': "LessThan v w \<Longrightarrow> AtLeast w v"
  using LessThan_asym LessThan_AtLeast by blast

lemma AtLeast_refl: "AtLeast v v"
  using LessThan_irrefl LessThan_AtLeast by blast

text \<open>An upgrade from version \<open>cv\<close> that the cluster can take.\<close>

definition forward :: "string \<Rightarrow> KubeVersion \<Rightarrow> Upgrade \<Rightarrow> bool" where
  "forward cs cv u \<longleftrightarrow> KubeVersion (Before u) = cs \<and>
     (\<exists>a k. ParseSemantic (KubeVersion (After u)) = Inr a \<and> ParseSemantic (KubeadmVersion (After u)) = Inr k \<and>
        AtLeast a cv \<and> AtLeast k a \<and> (Description u \<noteq> ''stable version'' \<longrightarrow> LessThan cv a))"

definition newer :: "Upgrade \<Rightarrow> Upgrade \<Rightarrow> bool" where
  "newer u w \<longleftrightarrow> (\<exists>a b. ParseSemantic (KubeVersion (After u)) = Inr a \<and> ParseSemantic (KubeVersion (After w)) = Inr b \<and> LessThan a b)"

lemma available_upgrades:
  assumes "GetAvailableUpgrades n C s = (Inr ups, s')"
  obtains cs cv where "fst (ServerVersion C s) = Inr cs" "ParseSemantic cs = Inr cv"
    "list_all (forward cs cv) ups" "sorted_wrt newer ups" "length ups \<le> 2"
proof -
  obtain cs cv s1 where c: "ClusterVersion C s = (Inr (cs, cv), s1)"
    using assms by (auto simp: GetAvailableUpgrades_def prog_run split: prod.splits sum.splits)
  from ClusterVersion_result [OF c] have cv: "ParseSemantic cs = Inr cv" "ServerVersion C s = (Inr cs, s1)" by blast+
  obtain ks kv s2 where k: "KubeadmVersion_of C s1 = (Inr (ks, kv), s2)"
    using assms c by (auto simp: GetAvailableUpgrades_def prog_run split: prod.splits sum.splits)
  have kv: "ParseSemantic ks = Inr kv" using KubeadmVersion_result [OF k] .
  obtain r s3 where r: "attempt (VersionFromCILabel n C ''stable'' ''stable version'') s2 = (Inr r, s3)"
    using assms c k by (auto simp: GetAvailableUpgrades_def prog_run split: prod.splits sum.splits gerror.splits)
  obtain ss sv where st: "(case r of Inl _ \<Rightarrow> (ks, kv) | Inr p \<Rightarrow> p) = (ss, sv)" by fastforce
  have sv: "ParseSemantic ss = Inr sv"
    using r st kv VersionFromCILabel_result [of n C "''stable''" "''stable version''" s2 ss sv s3]
    by (auto simp: run_attempt split: prod.splits sum.splits gerror.splits)
  obtain kub s4 where kub: "KubeletVersions_of C s3 = (Inr kub, s4)"
    using assms c k r st by (auto simp: GetAvailableUpgrades_def prog_run split: prod.splits sum.splits)
  show thesis
  proof (cases "patchVersionBranchExists cv sv")
    case False
    then have "LessThan sv cv" by (simp add: patchVersionBranchExists_def LessThan_AtLeast)
    then have "\<not> LessThan cv sv" using LessThan_asym by blast
    then have "ups = []" using assms c k r st kub False by (auto simp: GetAvailableUpgrades_def prog_run Let_def)
    then show thesis using that [of cs cv] cv by simp
  next
    case True
    then have stable: "AtLeast sv cv" by (simp add: patchVersionBranchExists_def)
    obtain br where br: "getBranchFromVersion cs = Inr br" using branch_of_cluster [OF cv(1)] by blast
    let ?d = "''version in the v'' @ br @ '' series''"
    obtain ps pv s5 where p: "VersionFromCILabel n C (''stable-'' @ br) ?d s4 = (Inr (ps, pv), s5)"
      using assms c k r st kub True br by (auto simp: GetAvailableUpgrades_def prog_run Let_def split: prod.splits sum.splits)
    have pv: "ParseSemantic ps = Inr pv" using VersionFromCILabel_result [OF p] .
    let ?b = "\<lparr>KubeVersion = cs, DNSVersion = '''', KubeadmVersion = ks, KubeletVersions = kub\<rparr>"
    let ?patch = "\<lparr>Description = ?d, Before = ?b, After = after_state ps (if AtLeast kv pv then ks else ps)\<rparr>"
    let ?minor = "\<lparr>Description = ''stable version'', Before = ?b, After = after_state ss ss\<rparr>"
    have ups: "ups = (if LessThan cv pv then [?patch] else []) @ (if LessThan pv sv then [?minor] else [])"
      using assms c k r st kub True br p
      by (auto simp: GetAvailableUpgrades_def prog_run Let_def patchUpgradePossible_def minorUpgradePossibleWithPatchRelease_def split: if_splits)
    have "forward cs cv ?patch" if "LessThan cv pv"
      using that pv kv LessThan_AtLeast' AtLeast_refl by (auto simp: forward_def after_state_def)
    moreover have "forward cs cv ?minor"
      using sv stable AtLeast_refl by (auto simp: forward_def after_state_def)
    moreover have "newer ?patch ?minor" if "LessThan pv sv"
      using that pv sv by (auto simp: newer_def after_state_def)
    ultimately have "list_all (forward cs cv) ups" "sorted_wrt newer ups" "length ups \<le> 2"
      unfolding ups by auto
    with cv show thesis by (intro that [of cs cv]) auto
  qed
qed

section \<open>No panic\<close>

text \<open>What a client and a release server promise.\<close>

definition calm :: "('x, 'a) prog \<Rightarrow> bool" where
  "calm m \<longleftrightarrow> (\<forall>s p s'. m s \<noteq> (Inl (Panic p), s'))"

definition well_behaved :: "'x version_client \<Rightarrow> bool" where
  "well_behaved C \<longleftrightarrow> calm (ServerVersion C) \<and> (\<forall>l. calm (Nodes_List C l)) \<and> (\<forall>u. calm (http_Get C u)) \<and>
     (\<forall>u s resp s' p. http_Get C u s = (Inr resp, s') \<longrightarrow> http_Body resp \<noteq> Inl (Panic p))"

text \<open>The documents of the release server are versions.\<close>

definition serves_versions :: "'x version_client \<Rightarrow> bool" where
  "serves_versions C \<longleftrightarrow> (\<forall>u s resp s' b. http_Get C u s = (Inr resp, s') \<and> StatusCode resp = 200 \<and> http_Body resp = Inr b \<longrightarrow>
     kubeReleaseRegex (trim_space b))"

named_theorems calm_rules \<open>programs that do not panic\<close>

lemma calm_bindp [calm_rules]: "calm m \<Longrightarrow> (\<And>x. calm (f x)) \<Longrightarrow> calm (bindp m f)"
  by (auto simp: calm_def prog_run split: prod.splits sum.splits)

lemma calm_bindp_result:
  "calm m \<Longrightarrow> (\<And>s x s'. m s = (Inr x, s') \<Longrightarrow> calm (f x)) \<Longrightarrow> calm (bindp m f)"
  by (auto simp: calm_def prog_run split: prod.splits sum.splits)

lemma calm_basic [calm_rules]: "calm (ret x)" "calm (fail (Err e))" "calm (liftr (Inr x))"
  by (simp_all add: calm_def prog_run)

lemma calm_pwrap [calm_rules]: "calm m \<Longrightarrow> calm (pwrap msg m)"
proof -
  have wrap: "wrap_err msg e = Panic p \<longleftrightarrow> e = Panic p" for e p by (cases e) auto
  assume "calm m"
  then show ?thesis by (auto simp: calm_def pwrap_def rwrap_def wrap split: prod.splits sum.splits)
qed

lemma calm_attempt [calm_rules]: "calm m \<Longrightarrow> calm (attempt m)"
  by (auto simp: calm_def prog_run split: prod.splits sum.splits gerror.splits)

lemma calm_case: "(\<And>a b. calm (f a b)) \<Longrightarrow> calm (case p of (a, b) \<Rightarrow> f a b)"
  by (cases p) simp

lemma calm_if [calm_rules]: "calm m \<Longrightarrow> calm n \<Longrightarrow> calm (if b then m else n)"
  by simp

lemma parse_comps_calm: "parse_comps semver first str cs \<noteq> Inl (Panic p)"
  by (induction semver first str cs rule: parse_comps.induct) (auto simp: rbind_def zero_error_def split: option.splits sum.splits)

lemma ParseSemantic_calm: "ParseSemantic str \<noteq> Inl (Panic p)"
  using parse_comps_calm
  by (auto simp: ParseSemantic_def parse_version_def Let_def rbind_def zero_error_def split: prod.splits option.splits sum.splits)

lemma calm_liftr: "(\<And>p. r \<noteq> Inl (Panic p)) \<Longrightarrow> calm (liftr r)"
  by (simp add: calm_def prog_run)

lemma FetchFromURL_calm: "well_behaved C \<Longrightarrow> calm (FetchFromURL C u)"
  unfolding FetchFromURL_def
proof (rule calm_bindp_result)
  fix s resp s' assume C: "well_behaved C" and "pwrap (''unable to get URL '' @ quoted u) (http_Get C u) s = (Inr resp, s')"
  then have "http_Get C u s = (Inr resp, s')" by (auto simp: pwrap_def rwrap_def split: prod.splits sum.splits)
  with C have body: "http_Body resp \<noteq> Inl (Panic p)" for p unfolding well_behaved_def by blast
  have "calm (liftr (rwrap msg (http_Body resp)))" for msg
  proof (cases "http_Body resp")
    case (Inl e)
    then show ?thesis using body by (cases e) (auto simp: calm_def prog_run)
  qed (simp add: calm_basic)
  then show "calm (if StatusCode resp \<noteq> 200 then fail (Err (''unable to fetch file. URL: '' @ quoted u @ '' Status: '' @ http_Status resp))
      else bindp (liftr (rwrap (''unable to read content of URL '' @ quoted u) (http_Body resp))) (\<lambda>body. ret (trim_space body)))"
    by (intro calm_rules)
qed (auto simp: well_behaved_def intro: calm_rules)

lemma FetchFromURL_version:
  "serves_versions C \<Longrightarrow> FetchFromURL C u s = (Inr body, s') \<Longrightarrow> kubeReleaseRegex body"
  by (auto simp: FetchFromURL_def serves_versions_def prog_run pwrap_def rwrap_def split: prod.splits sum.splits if_splits)

lemma release_calm:
  assumes "well_behaved C" "serves_versions C"
  shows "calm (KubernetesReleaseVersion (Suc (Suc n)) C version)"
proof -
  have once: "calm (KubernetesReleaseVersion (Suc n) C body)" if "kubeReleaseRegex body" for body
    using that by (auto intro: calm_rules)
  have split: "calm (liftr (splitVersion version))"
    by (rule calm_liftr) (auto simp: splitVersion_def split: option.splits)
  have label: "calm (bindp (FetchFromURL C url) (KubernetesReleaseVersion (Suc n) C))" for url
    using FetchFromURL_calm [OF assms(1)] FetchFromURL_version [OF assms(2)] once by (blast intro: calm_bindp_result)
  show ?thesis
    unfolding KubernetesReleaseVersion.simps(2) [of "Suc n"]
    by (rule calm_if [OF calm_basic(1) calm_bindp [OF split calm_case [OF calm_if [OF label calm_basic(2)]]]])
qed

lemma calm_parse [calm_rules]: "calm (liftr (ParseSemantic str))"
  by (rule calm_liftr) (rule ParseSemantic_calm)

lemma getter_calm:
  assumes "well_behaved C" "serves_versions C"
  shows "calm (ClusterVersion C)" "calm (KubeadmVersion_of C)" "calm (KubeletVersions_of C)"
    "calm (VersionFromCILabel (Suc (Suc n)) C l d)"
proof -
  have ops: "calm (ServerVersion C)" "calm (Nodes_List C l)" for l using assms(1) by (auto simp: well_behaved_def)
  have list: "calm (\<lambda>s. case Nodes_List C l s of (Inl (Err e), s') \<Rightarrow> (Inl (Err (f e)), s') | r \<Rightarrow> r)" for l f
    using ops(2) [of l] by (auto simp: calm_def split: prod.splits sum.splits gerror.splits)
  show "calm (ClusterVersion C)" unfolding ClusterVersion_def using ops by (auto intro!: calm_rules)
  show "calm (KubeadmVersion_of C)" unfolding KubeadmVersion_of_def
    by (rule calm_bindp [OF list]) (auto intro!: calm_rules split: list.splits option.splits)
  show "calm (KubeletVersions_of C)" unfolding KubeletVersions_of_def
    by (rule calm_bindp [OF list]) (auto intro!: calm_rules)
  show "calm (VersionFromCILabel (Suc (Suc n)) C l d)" unfolding VersionFromCILabel_def
    by (intro calm_bindp calm_pwrap calm_parse calm_basic release_calm [OF assms])
qed

lemma upgrades_calm:
  assumes "well_behaved C" "serves_versions C"
  shows "calm (GetAvailableUpgrades (Suc (Suc n)) C)"
  unfolding GetAvailableUpgrades_def
proof (rule calm_bindp_result, goal_cases)
  case 1
  show ?case by (rule getter_calm [OF assms])
next
  case (2 s p s')
  obtain cs cv where p: "p = (cs, cv)" by fastforce
  have "ParseSemantic cs = Inr cv" using conjunct1 [OF ClusterVersion_result [OF 2 [unfolded p]]] .
  then have branch: "calm (liftr (getBranchFromVersion cs))" by (intro calm_liftr) (simp add: branch_of_cluster)
  show ?case unfolding p Let_def prod.case
    by (intro calm_if calm_bindp calm_attempt branch getter_calm [OF assms] calm_basic calm_case)
qed

end
