(* ===== verification/Upgrades_Props.thy ===== *)
theory Upgrades_Props
  imports Upgrades_Correct
begin

text \<open>
  The properties of the upgrade planning, and a cluster with a release server on which they apply: a
  master of version 1.13.5 with a node behind, while 1.13.8 and 1.14.0 are released.
\<close>

definition demo_nodes :: "VersionNode list" where
  "demo_nodes =
     [\<lparr>vn_Name = ''m0'', vn_Annotations = [KubeadmVersionKey \<mapsto> ''v1.13.5''], vn_KubeletVersion = ''v1.13.5''\<rparr>,
      \<lparr>vn_Name = ''n0'', vn_Annotations = Map.empty, vn_KubeletVersion = ''v1.13.4''\<rparr>,
      \<lparr>vn_Name = ''n1'', vn_Annotations = Map.empty, vn_KubeletVersion = ''v1.13.4''\<rparr>]"

definition demo_client :: "unit version_client" where
  "demo_client = \<lparr>
     http_Get = (\<lambda>url. ret \<lparr>StatusCode = 200, http_Status = ''200 OK'',
       http_Body = Inr (if url = ''https://dl.k8s.io/release/stable.txt'' then ''v1.14.0'' @ [CHR 0x0A] else ''v1.13.8'' @ [CHR 0x0A])\<rparr>),
     ServerVersion = ret ''v1.13.5'',
     Nodes_List = (\<lambda>l. ret (if l = '''' then demo_nodes else take 1 demo_nodes)),
     Deployments_List = (\<lambda>_. ret []),
     show_Deployments = (\<lambda>_. [])\<rparr>"

lemmas release_eval = kubeReleaseRegex_def release_numbers_def number_dot_def zero_prefixed_def has_prefix_def
  is_digit_def release_char_def word_char_def is_upper_def is_lower_def trim_space_def is_space_def

lemma demo_client_good: "well_behaved demo_client" "serves_versions demo_client"
  by (auto simp: well_behaved_def calm_def serves_versions_def demo_client_def prog_run release_eval)

lemma demo_stable: "KubernetesReleaseVersion 2 demo_client ''stable'' () = (Inr ''v1.14.0'', ())"
  by (simp add: numeral_2_eq_2 prog_run release_eval splitVersion_def kubeBucketPrefixes_def kubeReleaseLabelRegex_def
      kubeReleaseBucketURL_def FetchFromURL_def demo_client_def pwrap_def)

lemma demo_branch: "KubernetesReleaseVersion 2 demo_client ''stable-1.13'' () = (Inr ''v1.13.8'', ())"
  by (simp add: numeral_2_eq_2 prog_run release_eval splitVersion_def kubeBucketPrefixes_def kubeReleaseLabelRegex_def
      kubeReleaseBucketURL_def FetchFromURL_def demo_client_def pwrap_def)

abbreviation release :: "nat list \<Rightarrow> KubeVersion" where
  "release ns \<equiv> \<lparr>v_components = ns, v_semver = True, v_preRelease = [], v_buildMetadata = []\<rparr>"

lemma demo_parse:
  "ParseSemantic ''v1.13.5'' = Inr (release [1, 13, 5])" "ParseSemantic ''v1.13.8'' = Inr (release [1, 13, 8])"
  "ParseSemantic ''v1.14.0'' = Inr (release [1, 14, 0])"
  by (simp_all add: version_eval)

lemma demo_upgrades:
  "\<exists>u w. GetAvailableUpgrades 2 demo_client () = (Inr [u, w], ()) \<and> KubeVersion (After u) = ''v1.13.8'' \<and>
     KubeVersion (After w) = ''v1.14.0'' \<and> KubeadmVersion (After u) = ''v1.13.8''"
proof -
  have branch: "getBranchFromVersion ''v1.13.5'' = Inr ''1.13''"
    using branch_of_cluster [OF demo_parse(1)] by (simp add: show_nat.simps digit_char_def)
  have cluster: "ClusterVersion demo_client () = (Inr (''v1.13.5'', release [1, 13, 5]), ())"
    by (simp add: ClusterVersion_def demo_client_def prog_run pwrap_def demo_parse)
  have kubeadm: "KubeadmVersion_of demo_client () = (Inr (''v1.13.5'', release [1, 13, 5]), ())"
    by (simp add: KubeadmVersion_of_def demo_client_def demo_nodes_def prog_run pwrap_def demo_parse RoleMasterKey_def)
  have stable: "VersionFromCILabel 2 demo_client ''stable'' d () = (Inr (''v1.14.0'', release [1, 14, 0]), ())" for d
    by (simp add: VersionFromCILabel_def prog_run pwrap_def demo_stable demo_parse)
  have patch: "VersionFromCILabel 2 demo_client ''stable-1.13'' d () = (Inr (''v1.13.8'', release [1, 13, 8]), ())" for d
    by (simp add: VersionFromCILabel_def prog_run pwrap_def demo_branch demo_parse)
  have kubelets: "KubeletVersions_of demo_client () = (Inr (computeKubeletVersions demo_nodes), ())"
    by (simp add: KubeletVersions_of_def demo_client_def prog_run)
  show ?thesis
    by (simp add: GetAvailableUpgrades_def prog_run Let_def cluster kubeadm stable patch kubelets branch
        patchVersionBranchExists_def patchUpgradePossible_def minorUpgradePossibleWithPatchRelease_def
        LessThan_def AtLeast_def compareInternal_def cmp_components_def after_state_def)
qed

text \<open>What \<^verbatim>\<open>KubernetesReleaseVersion\<close> returns, for a version or for a label followed on the release
  server, is a release version that starts with \<^verbatim>\<open>v\<close>, and asking for it again returns it as it is,
  without a request.\<close>

lemma release_version_resolved:
  assumes "KubernetesReleaseVersion n C version s = (Inr out, s')"
  shows "kubeReleaseRegex out \<and> has_prefix out ''v'' \<and>
    (\<forall>m t. KubernetesReleaseVersion (Suc m) C out t = (Inr out, t))"
  using release_result [OF assms] by (auto intro!: release_given simp del: KubernetesReleaseVersion.simps)

lemma demo_release_again:
  "KubernetesReleaseVersion 1 demo_client ''v1.14.0'' () = (Inr ''v1.14.0'', ())"
  using release_version_resolved [OF demo_stable] unfolding One_nat_def by blast

text \<open>C15. The upgrades \<^verbatim>\<open>GetAvailableUpgrades\<close> offers never go backwards: there are at most two, in
  increasing order; each starts from the version the API server reports and leads to a version that parses
  and is at least as new (newer, for the patch release), with a kubeadm at least as new as its target.\<close>

theorem upgrades_go_forward:
  assumes "GetAvailableUpgrades n C s = (Inr ups, s')"
  shows "length ups \<le> 2 \<and> sorted_wrt newer ups \<and>
    (\<exists>cs cv. fst (ServerVersion C s) = Inr cs \<and> ParseSemantic cs = Inr cv \<and>
       list_all (\<lambda>u. KubeVersion (Before u) = cs \<and>
         (\<exists>a k. ParseSemantic (KubeVersion (After u)) = Inr a \<and> ParseSemantic (KubeadmVersion (After u)) = Inr k \<and>
            AtLeast a cv \<and> AtLeast k a \<and> (Description u = ''stable version'' \<or> LessThan cv a))) ups)"
proof -
  obtain cs cv where c: "fst (ServerVersion C s) = Inr cs" "ParseSemantic cs = Inr cv" "list_all (forward cs cv) ups"
    "sorted_wrt newer ups" "length ups \<le> 2" using available_upgrades [OF assms] .
  have "list_all (\<lambda>u. KubeVersion (Before u) = cs \<and>
         (\<exists>a k. ParseSemantic (KubeVersion (After u)) = Inr a \<and> ParseSemantic (KubeadmVersion (After u)) = Inr k \<and>
            AtLeast a cv \<and> AtLeast k a \<and> (Description u = ''stable version'' \<or> LessThan cv a))) ups"
    using c(3) by (rule list.pred_mono_strong) (auto simp: forward_def)
  with c show ?thesis by blast
qed

theorem upgrades_go_forward_witness:
  "\<exists>u w. GetAvailableUpgrades 2 demo_client () = (Inr [u, w], ()) \<and> newer u w \<and> KubeVersion (Before w) = ''v1.13.5''"
proof -
  obtain u w where r: "GetAvailableUpgrades 2 demo_client () = (Inr [u, w], ())" using demo_upgrades by blast
  have "fst (ServerVersion demo_client ()) = Inr ''v1.13.5''" by (simp add: demo_client_def prog_run)
  with upgrades_go_forward [OF r] r show ?thesis by auto
qed

text \<open>C29. Planning never ends the process: if the calls of the client do not panic and the documents of the
  release server are versions, two calls on the stack are enough to follow a label, and
  \<^verbatim>\<open>GetAvailableUpgrades\<close> returns upgrades or an error (\<^verbatim>\<open>MustParseGeneric\<close> cannot fail on the version of
  a cluster that was parsed before).\<close>

theorem upgrades_return:
  assumes "well_behaved C" "serves_versions C"
  shows "case fst (GetAvailableUpgrades (Suc (Suc n)) C s) of Inl e \<Rightarrow> (\<exists>msg. e = Err msg) | Inr ups \<Rightarrow> length ups \<le> 2"
proof (cases "GetAvailableUpgrades (Suc (Suc n)) C s")
  case (Pair r s')
  show ?thesis
  proof (cases r)
    case (Inl e)
    then show ?thesis using upgrades_calm [OF assms, of n] Pair by (cases e) (auto simp: calm_def)
  next
    case (Inr ups)
    then show ?thesis using available_upgrades [of "Suc (Suc n)" C s ups s'] Pair by auto
  qed
qed

theorem upgrades_return_witness:
  "case fst (GetAvailableUpgrades 2 demo_client ()) of Inl e \<Rightarrow> (\<exists>msg. e = Err msg) | Inr ups \<Rightarrow> length ups \<le> 2"
  using upgrades_return [OF demo_client_good, of 0] by (simp add: numeral_2_eq_2)

text \<open>The kubelet versions of a plan are those of the nodes, once each, with the number of nodes that run
  them (modulo \<open>2 ^ 32\<close>, the width of the counter), and \<^verbatim>\<open>CanUpgradeKubelets\<close> says whether some node runs
  another version than the target.\<close>

lemma kubelets_counted:
  "distinct (map fst (computeKubeletVersions nodes)) \<and>
   fst ` set (computeKubeletVersions nodes) = vn_KubeletVersion ` set nodes \<and>
   (\<forall>node. node \<in> set nodes \<longrightarrow> (\<exists>c. map_of (computeKubeletVersions nodes) (vn_KubeletVersion node) = Some c \<and>
      unat c = length (filter (\<lambda>n. vn_KubeletVersion n = vn_KubeletVersion node) nodes) mod 2 ^ 32)) \<and>
   (KubeletVersions (Before u) = computeKubeletVersions nodes \<longrightarrow>
      (CanUpgradeKubelets u \<longleftrightarrow> (\<exists>node \<in> set nodes. vn_KubeletVersion node \<noteq> KubeVersion (After u))))"
  using kubelet_counts [of nodes] kubelets_upgradable [of u nodes] by (auto simp: unat_of_nat)

text \<open>\<^verbatim>\<open>IsUpgradeRequested\<close>: a cluster that is not ready is not asked; otherwise the answer is whether the
  requested version is newer than the running one.  A request for an older version is no upgrade, although
  the versions differ.\<close>

lemma upgrade_requested:
  "(c_Phase cluster \<noteq> ClusterReady \<longrightarrow> IsUpgradeRequested C cluster s = (Inr False, s)) \<and>
   (IsUpgradeRequested C cluster s = (Inr b, s') \<and> c_Phase cluster = ClusterReady \<longrightarrow>
      (\<exists>cur cv rv. fst (ServerVersion C s) = Inr cur \<and> ParseSemantic cur = Inr cv \<and>
         ParseSemantic (KubernetesVersion (c_Config cluster)) = Inr rv \<and>
         (b \<longleftrightarrow> LessThan cv rv) \<and> (LessThan rv cv \<longrightarrow> \<not> b)))"
proof (intro conjI impI)
  assume "c_Phase cluster \<noteq> ClusterReady"
  then show "IsUpgradeRequested C cluster s = (Inr False, s)" by (simp add: IsUpgradeRequested_def prog_run)
next
  assume run: "IsUpgradeRequested C cluster s = (Inr b, s') \<and> c_Phase cluster = ClusterReady"
  then obtain cur cv s1 where c: "ClusterVersion C s = (Inr (cur, cv), s1)"
    by (auto simp: IsUpgradeRequested_def prog_run split: prod.splits sum.splits)
  from ClusterVersion_result [OF c] have cv: "ParseSemantic cur = Inr cv" "ServerVersion C s = (Inr cur, s1)" by blast+
  from run c obtain rv where rv: "ParseSemantic (KubernetesVersion (c_Config cluster)) = Inr rv"
    by (auto simp: IsUpgradeRequested_def prog_run split: sum.splits)
  have "v_semver rv" using ParseSemantic_ok [OF rv] by (simp add: version_ok_def)
  then have "version_Compare rv cur = Inr (compareInternal rv cv)"
    using cv(1) by (simp add: version_Compare_def ParseSemantic_def)
  then have b: "b \<longleftrightarrow> compareInternal rv cv > 0"
    using run c rv by (auto simp: IsUpgradeRequested_def prog_run)
  have range: "compareInternal rv cv \<in> {-1, 0, 1}" by (rule compare_range)
  have "b \<longleftrightarrow> LessThan cv rv" unfolding b LessThan_def compare_anti [of cv rv] using range by auto
  then show "\<exists>cur cv rv. fst (ServerVersion C s) = Inr cur \<and> ParseSemantic cur = Inr cv \<and>
         ParseSemantic (KubernetesVersion (c_Config cluster)) = Inr rv \<and>
         (b \<longleftrightarrow> LessThan cv rv) \<and> (LessThan rv cv \<longrightarrow> \<not> b)"
    using cv rv LessThan_asym [of rv cv] by (intro exI [of _ cur] exI [of _ cv] exI [of _ rv]) auto
qed

definition demo_ready :: "string \<Rightarrow> Cluster" where
  "demo_ready v = set_Phase ClusterReady (upd_Config (\<lambda>g. g\<lparr>KubernetesVersion := v\<rparr>) zero_Cluster)"

lemma demo_upgrade_requested:
  "IsUpgradeRequested demo_client (demo_ready ''v1.14.0'') () = (Inr True, ()) \<and> c_Phase (demo_ready ''v1.14.0'') = ClusterReady"
proof -
  have ready: "c_Phase (demo_ready v) = ClusterReady" "KubernetesVersion (c_Config (demo_ready v)) = v" for v
    by (simp_all add: demo_ready_def set_Phase_def upd_Config_def)
  have cluster: "ClusterVersion demo_client () = (Inr (''v1.13.5'', release [1, 13, 5]), ())"
    by (simp add: ClusterVersion_def demo_client_def prog_run pwrap_def demo_parse)
  have "version_Compare (release [1, 14, 0]) ''v1.13.5'' = Inr 1"
    using demo_parse(1) by (simp add: version_Compare_def ParseSemantic_def compareInternal_def cmp_components_def)
  then obtain b where b: "IsUpgradeRequested demo_client (demo_ready ''v1.14.0'') () = (Inr b, ())"
    by (simp add: IsUpgradeRequested_def ready cluster demo_parse prog_run)
  have "b \<longleftrightarrow> LessThan (release [1, 13, 5]) (release [1, 14, 0])"
    using upgrade_requested [of "demo_ready ''v1.14.0''" demo_client "()" b "()"] b ready demo_parse
    by (auto simp: demo_client_def prog_run)
  then have b_True: "b" by (simp add: release_order)
  show ?thesis using b ready b_True by simp
qed

end
