(* ===== verification/Spec2Isabelle.thy ===== *)
theory Spec2Isabelle
  imports Cloud_Props Packet_Props Managed_Props Aws_Props Core_Props Startup_Props Store_Providers Apiserver_Xorm Upgrades_Props
begin

text \<open>
  A verification of pharmer, a manager of Kubernetes clusters on cloud providers.

  \<^bold>\<open>The program.\<close>  A user describes a cluster; pharmer keeps the description in a \<^emph>\<open>store\<close>
  (\<^verbatim>\<open>store/\<close>), and \<^emph>\<open>applies\<close> it (\<^verbatim>\<open>cloud/\<close>): it makes certificates and keys, prepares the cloud,
  starts the first master, waits for the API server of the new cluster, installs the cluster API
  controllers there and hands the machines over to them; or it deletes everything again.  A
  provider (\<^verbatim>\<open>cloud/providers/...\<close>) does the cloud part behind \<^verbatim>\<open>cloud.Interface\<close>, and as a controller
  inside the cluster it creates and deletes machines.  The same steps can be driven by messages
  (\<^verbatim>\<open>apiserver/\<close>).  The store is one of three: files, memory, or a database.

  \<^bold>\<open>Conventions.\<close>  A Go function is a HOL function with its name.  Code with effects is a program
  \<open>('s, 'a) prog\<close>: a function from a state to a result and a state, where the result is a value or a
  \<open>gerror\<close>, an error with its message or a panic (\<open>Go_Base\<close>).  \<open>attempt\<close> is where Go code looks at \<^verbatim>\<open>err\<close>
  instead of returning it; panics pass through it.  A pointer argument that may be \<^verbatim>\<open>nil\<close> is an option.
  A 32-bit integer whose overflow matters is a word, a 64-bit one that only identifies is an \<open>int\<close>.
  What is not in the repository is a parameter: a record of operations (the Kubernetes and cluster
  API clients, the cloud clients \<^verbatim>\<open>godo\<close>, \<^verbatim>\<open>linodego\<close>, \<^verbatim>\<open>packngo\<close>, \<^verbatim>\<open>aws-sdk-go\<close> and Google's container and compute services, the engine \<^verbatim>\<open>xorm\<close>, time, random numbers,
  cryptography) or an encoder (\<open>codec\<close>, for \<^verbatim>\<open>encoding/json\<close>).  What is relied on is a named
  hypothesis of the theorem, with a witness on a concrete instance.

  \<^bold>\<open>Theories.\<close>
  \<^item> \<open>Go_Base\<close>, \<open>Go_Strings\<close>: programs, Hoare triples (\<open>valid\<close>, \<open>invariant_of\<close>) with their rule collections,
    and what the code uses of \<^verbatim>\<open>strings\<close>, \<^verbatim>\<open>strconv\<close> and \<^verbatim>\<open>path/filepath\<close>.
  \<^item> \<open>Api_Types\<close>, \<open>Api_Cluster\<close>: the objects of \<^verbatim>\<open>apis/v1alpha1\<close> and of the cluster API, and the methods of
    the cluster (\<^verbatim>\<open>cluster.go\<close>, \<^verbatim>\<open>util.go\<close>): endpoints, defaults, names.
  \<^item> \<open>Local_Fs\<close>: a Unix file system (absolute cleaned paths to files and directories), the calls of \<^verbatim>\<open>os\<close>
    on it, and the local container of \<^verbatim>\<open>stow\<close> with its paging.
  \<^item> \<open>Store_Vfs\<close>: \<^verbatim>\<open>store/providers/vfs\<close>.  \<open>Store_Spec\<close> states the contract of an object store
    (\<open>object_base\<close>, \<open>object_rw\<close>, \<open>object_store\<close>: a map from names to objects) and proves inside it that every
    sequence of calls behaves like the same sequence on a map.  \<open>Store_Vfs_Correct\<close>, \<open>Store_Vfs_List\<close>,
    \<open>Store_Vfs_Keys\<close>, \<open>Store_Vfs_Props\<close>: the file store meets it, listing ends and is complete, keys and
    certificates are read back.  \<open>Store_Vfs_Frame\<close>: which files an operation touches.
  \<^item> \<open>Store_Fake\<close>, \<open>Store_Fake_Correct\<close>: \<^verbatim>\<open>store/providers/fake\<close>, a heap of objects that callers and store
    share by address; the same contract.  \<open>Store_Providers\<close>: \<^verbatim>\<open>store/plugins.go\<close>, and that files and memory
    answer alike.
  \<^item> \<open>Store_Xorm\<close>: \<^verbatim>\<open>store/providers/xorm\<close>.  \<open>Store_Xorm_Laws\<close>: the documented behaviour of the engine, as
    laws per table with the \<^verbatim>\<open>UNIQUE\<close> tags, and an in-memory table that obeys them.  \<open>Store_Xorm_Props\<close>:
    what the owners of clusters see of each other.
  \<^item> \<open>Cloud_Env\<close>, \<open>Cloud_Kube\<close>, \<open>Cloud_Core\<close>: the scope with everything behind it (\<open>world\<close>), certificates,
    clients, tokens, and \<^verbatim>\<open>create.go\<close>, \<^verbatim>\<open>apply.go\<close>, \<^verbatim>\<open>clusterapi.go\<close>, \<^verbatim>\<open>delete.go\<close>, \<^verbatim>\<open>scope.go\<close>, \<^verbatim>\<open>plugins.go\<close> of
    \<^verbatim>\<open>cloud/\<close>.
  \<^item> \<open>Cloud_Frame\<close>: what survives the orchestration (\<open>world_inv\<close>, \<open>world_cluster\<close>, \<open>world_upd\<close>).
    \<open>Cloud_Correct\<close>: the contract of a provider (\<open>cloud_provider\<close>) and, over providers that meet it
    (\<open>orchestration\<close>), the phases of a cluster as the relation \<open>phase_step\<close>.  The contract names the phase in which
    deletion ends; \<open>late_orchestration\<close> is for providers that leave the cluster in Deleting.
  \<^item> \<open>Semver\<close>, \<open>Semver_Correct\<close>: the version numbers of \<^verbatim>\<open>gomodules.xyz/version\<close>.  \<open>Startup\<close>,
    \<open>Startup_Correct\<close>, \<open>Startup_Props\<close>: \<^verbatim>\<open>cloud/startupscript.go\<close>, the data of the start-up script of a
    machine and its rendering, with the parts of the providers.
  \<^item> \<open>Digitalocean\<close>, \<open>Digitalocean_Correct\<close>, \<open>Digitalocean_Props\<close>: \<^verbatim>\<open>cloud/providers/digitalocean\<close>, that it
    meets the contract, and what its machine actuator and load balancer code do.
  \<^item> \<open>Linode\<close>, \<open>Linode_Correct\<close>, \<open>Linode_Props\<close>: \<^verbatim>\<open>cloud/providers/linode\<close>, the same, with its stack scripts.
  \<^item> \<open>Packet\<close>, \<open>Packet_Correct\<close>, \<open>Packet_Props\<close>: \<^verbatim>\<open>cloud/providers/packet\<close> and \<^verbatim>\<open>apis/v1alpha1/packet\<close>, the same, with its
    first master and its SSH key.
  \<^item> \<open>Managed\<close>: what the providers of managed clusters share: a machine set is a pool of nodes, and certificates and
    endpoint come from the cloud.  \<open>Dokube\<close>, \<open>Dokube_Correct\<close>: \<^verbatim>\<open>cloud/providers/dokube\<close> and \<^verbatim>\<open>apis/v1alpha1/dokube\<close>,
    and that it meets the contract.  \<open>Gce_Types\<close>: \<^verbatim>\<open>apis/v1alpha1/gce\<close>.  \<open>Gke\<close>, \<open>Gke_Correct\<close>: \<^verbatim>\<open>cloud/providers/gke\<close>,
    which meets the contract with Deleting as the last phase.  The connector of the manager is cached in the scope;
    \<open>dk_connected\<close> and \<open>gk_connected\<close> tell whether it was set.  \<open>Managed_Props\<close>: what scaling does to the node pools of a GKE
    cluster, that a deleted GKE cluster never gets the phase Deleted, and the removal of a machine set on dokube.
  \<^item> \<open>Registry\<close>: the registry (\<open>registry\<close>: DigitalOcean, Linode, Packet and dokube) that holds the providers whose deletion ends in the phase Deleted.
  \<^item> \<open>Aws_Types\<close>, \<open>Aws_Tags_Props\<close>: \<^verbatim>\<open>apis/v1alpha1/aws\<close>, the tags of resources, ingress rules (on a heap, as comparing
    two rules sorts them in place), configurations and their encoding.  \<open>Aws\<close>, \<open>Aws_Network\<close>, \<open>Aws_Compute\<close>:
    \<^verbatim>\<open>cloud/providers/aws/cloud.go\<close>, the connector: sessions and images, then network and IAM, then load balancer,
    security groups and instances.  \<open>Aws_Manager\<close>: the cloud manager (\<^verbatim>\<open>apply.go\<close>, \<^verbatim>\<open>create.go\<close>, \<^verbatim>\<open>context.go\<close>,
    \<^verbatim>\<open>startupscript.go\<close>).  \<open>Aws_Correct\<close>: it meets the contract with Deleting as the last phase (\<open>aws_keeps\<close>, an
    interface for predicates that the connector keeps, does the work), and the registry with AWS.  \<open>Aws_Props\<close>: its
    endpoint, network, VPC, open ports, the wait for an instance, and deletion.
  \<^item> \<open>Cloud_Vfs\<close>, \<open>Cloud_Props\<close>, \<open>Core_Props\<close>: the orchestration with the registered providers over the file store.
  \<^item> \<open>Apiserver\<close>, \<open>Apiserver_Correct\<close>, \<open>Apiserver_Xorm\<close>: \<^verbatim>\<open>apiserver/\<close>, the contract of its operation store
    (\<open>operation_store\<close>, \<open>api_server\<close>), and both over the database store with the registered providers.
  \<^item> \<open>Kube_Version\<close>, \<open>Kube_Version_Correct\<close>: the version numbers of Kubernetes
    (\<^verbatim>\<open>k8s.io/apimachinery/pkg/util/version\<close>): parsing, printing and their order.  \<open>Upgrades\<close>,
    \<open>Upgrades_Correct\<close>, \<open>Upgrades_Props\<close>: release labels, running versions and the planning of upgrades
    (\<^verbatim>\<open>cloud/version.go\<close>, \<^verbatim>\<open>cloud/upm.go\<close>, \<^verbatim>\<open>apis/v1alpha1/upgrade.go\<close>).

  \<^bold>\<open>What is shown.\<close>  The stores refine maps, and agree with each other for callers that do not change an object after they have
  stored it.  An operation of the file store touches the file of its object only.  \<^verbatim>\<open>Apply\<close> moves the phase of
  a cluster along Pending, Ready, Deleting, Deleted only, ends in the phase that the deletion mark
  asks for, and the phase is in the file then.  Before it deletes, it marks every machine set that is stored.
  A machine is created exactly if the cloud shows none of its name, so once where the listings are complete, and twice where one
  fails, for the code drops that error; deletion asks for that machine only.  Preparing the cloud records the address of the
  load balancer that was found or created.  The API server starts
  the work of an operation at most once, however often its message is delivered.  Tokens, provider
  identifiers, version numbers, keys and certificates are read back as they were written.  Planned upgrades
  never lead to an older version.  Start-up scripts exist for three minor releases of Kubernetes, and rendering
  one leaves its traces in the kubelet arguments of the cluster only.  On AWS a cluster gets a VPC exactly if none is described with its tags,
  a record of the network with the identifiers of what was ensured, which deletion can read, and no open ports but those meant to be open.
  On GKE scaling waits for every change that it requests, and leaves every pool with a machine set as the machine set wants it unless
  the service cancelled the change, and the other pools alone.  The properties on errors
  pin down where the code does not do what it means to: they are listed as findings.

  \<^bold>\<open>Hypotheses on the clouds.\<close>  \<open>droplet_api\<close>, \<open>instance_api\<close>, \<open>device_api\<close> and \<open>vpc_api\<close> say that reading changes nothing and, for machines, shows only what
  is there; that a call that succeeds has its effect; and that one that fails has it or not.  Listings may fail and be incomplete.
  \<open>pool_api\<close> is a service with operations that run, complete or are cancelled, by the steps of \<open>op_step\<close>.

  \<^bold>\<open>Bounds.\<close>  Loops over lists are recursion on the list.  Listing the files is a partial function,
  and is proved to end for every number of files and the page size 50 of the code.  \<^verbatim>\<open>wait.Poll\<close> runs
  its condition a number of times that depends on the clock: \<open>poll_ticks\<close> is a parameter, and no
  theorem constrains it.  The token list is read five times, as in the code.
  A release label may lead to another label: the number of calls the stack holds is a parameter, and two
  are shown to be enough for a server that answers with versions.  The loop that waits for an AWS instance and the
  one that reads pages of policies have no bound: they are partial functions (\<open>loop_run\<close>, \<open>list_policies\<close>) whose result is
  \<open>None\<close> if they never end, and a program around them then returns the panic \<open>no result\<close>, which stands for not returning.
  The first is shown to return when the instance reaches the state, and to have no result otherwise.

  \<^bold>\<open>Not modelled.\<close>  Logging and terminal output; mutexes, which serialise the operations modelled as
  single steps; the texts of manifests and of the templates of start-up scripts, with the
  template engine and the YAML encoder, which are parameters; generated deep
  copies; the providers GCE, Azure, EKS and AKS, which have the same interface over other SDKs; the policy texts
  of IAM and the user data of the bastion; the
  command line; opening the database connection.
\<close>

end
